(* ===== verification/Prelude.thy ===== *)
theory Prelude
  imports Main "HOL-Library.Word" "HOL-Library.Char_ord" "HOL-Library.List_Lexorder"
begin

text \<open>
  Shared vocabulary of the development: the machine integers and time stamps of the Rust code,
  \<open>std::io::Error\<close> values, results, the \<open>HashMap\<close> operations the code uses (as maps), ASCII case
  conversion, and the generic list and map lemmas the component theories rely on.
\<close>

named_theorems map_ops \<open>definitions of the HashMap operations\<close>
named_theorems frame \<open>which fields an operation leaves alone\<close>

section \<open>Machine integers, time, strings\<close>

type_synonym u8 = "8 word"
type_synonym u32 = "32 word"
type_synonym i32 = "32 word"
type_synonym u64 = "64 word"
type_synonym i64 = "64 word"

text \<open>\<open>Instant\<close> and \<open>Duration\<close> are counted in nanoseconds from an arbitrary origin.\<close>

type_synonym instant = nat
type_synonym duration = nat

text \<open>Rust's \<open>saturating_sub\<close> on an unsigned word.\<close>

definition saturating_sub :: "'w::len word \<Rightarrow> 'w word \<Rightarrow> 'w word" where
  "saturating_sub a b = (if b \<le> a then a - b else 0)"

lemma unat_saturating_sub: "unat (saturating_sub a b) = unat a - unat b"
  by (auto simp: saturating_sub_def unat_sub word_le_nat_alt)

lemma saturating_sub_0 [simp]: "saturating_sub a 0 = a" "saturating_sub 0 a = 0"
  by (auto simp: saturating_sub_def)

definition to_ascii_lower :: "char \<Rightarrow> char" where
  "to_ascii_lower c =
     (let n = of_char c :: nat in if 65 \<le> n \<and> n \<le> 90 then char_of (n + 32) else c)"

definition to_ascii_upper :: "char \<Rightarrow> char" where
  "to_ascii_upper c =
     (let n = of_char c :: nat in if 97 \<le> n \<and> n \<le> 122 then char_of (n - 32) else c)"

definition to_ascii_lowercase :: "string \<Rightarrow> string" where
  "to_ascii_lowercase s = map to_ascii_lower s"

definition to_ascii_uppercase :: "string \<Rightarrow> string" where
  "to_ascii_uppercase s = map to_ascii_upper s"

definition eq_ignore_ascii_case :: "string \<Rightarrow> string \<Rightarrow> bool" where
  "eq_ignore_ascii_case a b \<longleftrightarrow> to_ascii_lowercase a = to_ascii_lowercase b"

lemma of_char_less_256: "(of_char c :: nat) < 256"
  using nat_of_char_less_256 by simp

lemma to_ascii_upper_idem [simp]: "to_ascii_upper (to_ascii_upper c) = to_ascii_upper c"
proof -
  have "(of_char c :: nat) < 256" by (rule of_char_less_256)
  then show ?thesis
    by (auto simp: to_ascii_upper_def Let_def of_char_of)
qed

lemma to_ascii_uppercase_idem [simp]:
  "to_ascii_uppercase (to_ascii_uppercase s) = to_ascii_uppercase s"
  by (simp add: to_ascii_uppercase_def)

text \<open>\<open>str::split\<close> on one character, and the last piece of it (\<open>rsplit(c).next()\<close>).\<close>

fun split_on :: "char \<Rightarrow> string \<Rightarrow> string list" where
  "split_on c [] = [[]]"
| "split_on c (x # xs) =
     (if x = c then [] # split_on c xs
      else (case split_on c xs of [] \<Rightarrow> [[x]] | p # ps \<Rightarrow> (x # p) # ps))"

definition rsplit_next :: "char \<Rightarrow> string \<Rightarrow> string" where
  "rsplit_next c s = last (split_on c s)"

lemma split_on_nonempty [simp]: "split_on c s \<noteq> []"
  by (induction s) (auto split: list.splits)

lemma split_on_no_sep: "c \<notin> set s \<Longrightarrow> split_on c s = [s]"
  by (induction s) auto

lemma split_on_pieces: "p \<in> set (split_on c s) \<Longrightarrow> c \<notin> set p"
  by (induction s arbitrary: p) (fastforce split: if_splits list.splits)+

lemma rsplit_next_no_sep: "c \<notin> set (rsplit_next c s)"
  unfolding rsplit_next_def by (rule split_on_pieces) (rule last_in_set, simp)

lemma rsplit_next_id [simp]: "c \<notin> set s \<Longrightarrow> rsplit_next c s = s"
  by (simp add: rsplit_next_def split_on_no_sep)

lemma rsplit_next_idem [simp]: "rsplit_next c (rsplit_next c s) = rsplit_next c s"
  by (simp add: rsplit_next_no_sep)

text \<open>
  A string is the list of its UTF-8 bytes. \<open>str::from_utf8\<close> accepts the well-formed sequences:
  shortest encodings only, no surrogates, nothing above U+10FFFF.
\<close>

definition utf8_between :: "nat \<Rightarrow> nat \<Rightarrow> nat \<Rightarrow> bool" where
  "utf8_between lo hi b \<longleftrightarrow> lo \<le> b \<and> b \<le> hi"

fun utf8_valid :: "nat list \<Rightarrow> bool" where
  "utf8_valid [] = True"
| "utf8_valid (a # r) =
     (if a < 0x80 then utf8_valid r
      else
        (case r of
           [] \<Rightarrow> False
         | b # r1 \<Rightarrow>
             if utf8_between 0xC2 0xDF a then utf8_between 0x80 0xBF b \<and> utf8_valid r1
             else
               (case r1 of
                  [] \<Rightarrow> False
                | c # r2 \<Rightarrow>
                    if utf8_between 0xE0 0xEF a then
                      utf8_between (if a = 0xE0 then 0xA0 else 0x80) (if a = 0xED then 0x9F else 0xBF) b \<and>
                      utf8_between 0x80 0xBF c \<and> utf8_valid r2
                    else
                      (case r2 of
                         [] \<Rightarrow> False
                       | d # r3 \<Rightarrow>
                           utf8_between 0xF0 0xF4 a \<and>
                           utf8_between (if a = 0xF0 then 0x90 else 0x80) (if a = 0xF4 then 0x8F else 0xBF) b \<and>
                           utf8_between 0x80 0xBF c \<and> utf8_between 0x80 0xBF d \<and> utf8_valid r3))))"

declare utf8_valid.simps [simp del]

definition from_utf8 :: "u8 list \<Rightarrow> string option" where
  "from_utf8 bytes =
     (if utf8_valid (map unat bytes) then Some (map (\<lambda>b. char_of (unat b)) bytes) else None)"

text \<open>A number in decimal (\<open>format!("{}", n)\<close>).\<close>

fun show_nat :: "nat \<Rightarrow> string" where
  "show_nat n = (if n < 10 then [char_of (48 + n)] else show_nat (n div 10) @ [char_of (48 + n mod 10)])"

declare show_nat.simps [simp del]

section \<open>Errors and results\<close>

text \<open>\<open>std::io::Error\<close>: a kind and a message (\<open>err.to_string()\<close> is the message).\<close>

datatype ErrorKind =
    NotFound | AlreadyExists | ResourceBusy | InvalidInput | InvalidData | PermissionDenied | TimedOut
  | Interrupted | WouldBlock | ConnectionRefused | ConnectionReset | ConnectionAborted
  | NetworkUnreachable | HostUnreachable | BrokenPipe | NotConnected | OtherKind

datatype io_error = IoError (error_kind: ErrorKind) (error_message: string)

type_synonym 'a io_result = "io_error + 'a"

text \<open>A call that can also panic (an \<open>expect\<close> on a missing value): the panic message, or a value.\<close>

datatype 'a outcome = Panicked string | Returned 'a

definition outcome_bind :: "'a outcome \<Rightarrow> ('a \<Rightarrow> 'b outcome) \<Rightarrow> 'b outcome" where
  "outcome_bind r f = (case r of Panicked m \<Rightarrow> Panicked m | Returned x \<Rightarrow> f x)"

lemma outcome_bind_simps [simp]:
  "outcome_bind (Panicked m) f = Panicked m"
  "outcome_bind (Returned x) f = f x"
  by (simp_all add: outcome_bind_def)

text \<open>The operator \<open>?\<close> on a result.\<close>

definition result_bind :: "'a io_result \<Rightarrow> ('a \<Rightarrow> 'b io_result) \<Rightarrow> 'b io_result" where
  "result_bind r f = (case r of Inl e \<Rightarrow> Inl e | Inr x \<Rightarrow> f x)"

lemma result_bind_simps [simp]:
  "result_bind (Inl e) f = Inl e" "result_bind (Inr x) f = f x"
  by (simp_all add: result_bind_def)

section \<open>HashMap operations\<close>

text \<open>
  A \<open>HashMap<String, V>\<close> is a map; \<open>try_insert\<close> fails when the key is occupied, \<open>remove\<close> returns
  the old value. Where the code iterates over a map, the order is an argument of the model.
\<close>

definition try_insert :: "'k \<Rightarrow> 'v \<Rightarrow> ('k \<rightharpoonup> 'v) \<Rightarrow> ('k \<rightharpoonup> 'v) option" where
  "try_insert k v m = (case m k of None \<Rightarrow> Some (m(k \<mapsto> v)) | Some _ \<Rightarrow> None)"

definition map_remove :: "'k \<Rightarrow> ('k \<rightharpoonup> 'v) \<Rightarrow> ('k \<rightharpoonup> 'v) \<times> 'v option" where
  "map_remove k m = (m(k := None), m k)"

declare try_insert_def [map_ops] map_remove_def [map_ops]

lemma try_insert_None [simp]: "m k = None \<Longrightarrow> try_insert k v m = Some (m(k \<mapsto> v))"
  by (simp add: try_insert_def)

lemma try_insert_Some [simp]: "m k = Some w \<Longrightarrow> try_insert k v m = None"
  by (simp add: try_insert_def)

section \<open>Lists searched by position\<close>

text \<open>
  The code finds the first element that satisfies a test with \<open>iter().enumerate()\<close> and removes or
  updates it there.
\<close>

fun remove_first :: "('a \<Rightarrow> bool) \<Rightarrow> 'a list \<Rightarrow> 'a list option" where
  "remove_first P [] = None"
| "remove_first P (x # xs) = (if P x then Some xs else map_option (Cons x) (remove_first P xs))"

fun update_first :: "('a \<Rightarrow> bool) \<Rightarrow> ('a \<Rightarrow> 'a) \<Rightarrow> 'a list \<Rightarrow> 'a list option" where
  "update_first P f [] = None"
| "update_first P f (x # xs) =
     (if P x then Some (f x # xs) else map_option (Cons x) (update_first P f xs))"

lemma remove_first_None: "remove_first P xs = None \<longleftrightarrow> (\<forall>x \<in> set xs. \<not> P x)"
  by (induction xs) auto

lemma update_first_None: "update_first P f xs = None \<longleftrightarrow> (\<forall>x \<in> set xs. \<not> P x)"
  by (induction xs) auto

lemma remove_first_split:
  "\<not> Bex (set as) P \<Longrightarrow> P x \<Longrightarrow> remove_first P (as @ x # bs) = Some (as @ bs)"
  by (induction as) auto

lemma update_first_split:
  "\<not> Bex (set as) P \<Longrightarrow> P x \<Longrightarrow> update_first P f (as @ x # bs) = Some (as @ f x # bs)"
  by (induction as) auto

lemma first_match_split:
  assumes "Bex (set xs) P"
  obtains as x bs where "xs = as @ x # bs" "P x" "\<not> Bex (set as) P"
  using split_list_first_prop [OF assms] by blast

lemma remove_first_SomeE:
  assumes "remove_first P xs = Some ys"
  obtains as x bs where "xs = as @ x # bs" "ys = as @ bs" "P x" "\<not> Bex (set as) P"
proof -
  from assms have "Bex (set xs) P"
    by (metis option.distinct(1) remove_first_None)
  then obtain as x bs where *: "xs = as @ x # bs" "P x" "\<not> Bex (set as) P"
    by (rule first_match_split)
  with assms have "ys = as @ bs" by (simp add: remove_first_split)
  with * show thesis by (intro that)
qed

lemma update_first_SomeE:
  assumes "update_first P f xs = Some ys"
  obtains as x bs where "xs = as @ x # bs" "ys = as @ f x # bs" "P x" "\<not> Bex (set as) P"
proof -
  from assms have "Bex (set xs) P"
    by (metis option.distinct(1) update_first_None)
  then obtain as x bs where *: "xs = as @ x # bs" "P x" "\<not> Bex (set as) P"
    by (rule first_match_split)
  with assms have "ys = as @ f x # bs" by (simp add: update_first_split)
  with * show thesis by (intro that)
qed

lemma remove_first_append:
  "\<not> Bex (set xs) P \<Longrightarrow> remove_first P (xs @ ys) = map_option ((@) xs) (remove_first P ys)"
  by (cases "remove_first P ys"; induction xs) auto

lemma remove_first_subset: "remove_first P xs = Some ys \<Longrightarrow> set ys \<subseteq> set xs"
  by (auto elim: remove_first_SomeE)

lemma remove_first_length: "remove_first P xs = Some ys \<Longrightarrow> length xs = Suc (length ys)"
  by (auto elim: remove_first_SomeE)

lemma update_first_length: "update_first P f xs = Some ys \<Longrightarrow> length ys = length xs"
  by (auto elim: update_first_SomeE)

end
