(* ===== verification/Messages.thy ===== *)
theory Messages
  imports Prelude
begin

text \<open>
  The component API (\<open>component_api/src/lib.rs\<close>): the typed messages of ADR-003, the result and
  budget types of scheduler-based execution, the \<open>NodeContext\<close> handed to \<open>process()\<close>, and the retry
  decision of ADR-017. Shared ownership (\<open>Arc\<close>) is value semantics here: the shared data is never
  mutated. Not modelled: the floating-point back-off delays and \<open>create_io_channels\<close>.
\<close>

section \<open>Structured values\<close>

text \<open>
  An \<open>f64\<close> is its bit pattern; \<open>PartialEq\<close> on it is IEEE 754 equality, so it is written out. The
  entries of a \<open>HashMap\<close> are an association list with distinct keys in some iteration order.
\<close>

datatype FbpValue =
    VNull
  | VBool bool
  | VInt i64
  | VFloat u64
  | VText string
  | VBytes "u8 list"
  | VList "FbpValue list"
  | VMap "(string \<times> FbpValue) list"

definition f64_is_nan :: "u64 \<Rightarrow> bool" where
  "f64_is_nan b \<longleftrightarrow> unat b mod 2 ^ 63 > 0x7FF * 2 ^ 52"

definition f64_is_zero :: "u64 \<Rightarrow> bool" where
  "f64_is_zero b \<longleftrightarrow> unat b mod 2 ^ 63 = 0"

definition f64_eq :: "u64 \<Rightarrow> u64 \<Rightarrow> bool" where
  "f64_eq a b \<longleftrightarrow> \<not> f64_is_nan a \<and> \<not> f64_is_nan b \<and> (a = b \<or> f64_is_zero a \<and> f64_is_zero b)"

lemma zip_left_size [termination_simp]: "(a, b) \<in> set (zip xs ys) \<Longrightarrow> size a < Suc (size_list size xs)"
  by (drule set_zip_leftD) (simp add: size_list_estimation' less_Suc_eq_le)

lemma snd_assoc_size [termination_simp]:
  "(k, v) \<in> set m \<Longrightarrow> size (v :: 'a :: size) < Suc (size_list (size_prod (\<lambda>_. 0) size) m)"
  by (induction m) auto

fun value_eq :: "FbpValue \<Rightarrow> FbpValue \<Rightarrow> bool" where
  "value_eq VNull b = (b = VNull)"
| "value_eq (VBool x) b = (b = VBool x)"
| "value_eq (VInt x) b = (b = VInt x)"
| "value_eq (VFloat x) b = (case b of VFloat y \<Rightarrow> f64_eq x y | _ \<Rightarrow> False)"
| "value_eq (VText x) b = (b = VText x)"
| "value_eq (VBytes x) b = (b = VBytes x)"
| "value_eq (VList xs) b =
     (case b of
        VList ys \<Rightarrow> length xs = length ys \<and> (\<forall>(x, y) \<in> set (zip xs ys). value_eq x y)
      | _ \<Rightarrow> False)"
| "value_eq (VMap m) b =
     (case b of
        VMap n \<Rightarrow> length m = length n \<and>
          (\<forall>(k, v) \<in> set m. case map_of n k of None \<Rightarrow> False | Some w \<Rightarrow> value_eq v w)
      | _ \<Rightarrow> False)"

section \<open>Messages\<close>

datatype ControlEvent =
    BeginGroup string
  | EndGroup string
  | BeginBracket string
  | EndBracket string
  | CtlDisconnect
  | Drain
  | Discontinuity
  | Custom string "FbpValue option"

text \<open>\<open>GraphNodeSpecNetwork\<close>: a node, a port and the connection index of an addressable port.\<close>

datatype GraphNodeSpecNetwork =
  GraphNodeSpecNetwork (spec_node: string) (spec_port: string) (spec_index: "string option")

record TraceDataEventPayload =
  td_id :: string
  td_src :: GraphNodeSpecNetwork
  td_tgt :: GraphNodeSpecNetwork
  td_graph :: string
  td_data :: string

record TraceConnectEventPayload =
  tc_id :: string
  tc_src :: GraphNodeSpecNetwork
  tc_tgt :: GraphNodeSpecNetwork
  tc_graph :: string

record TraceDisconnectEventPayload =
  tx_id :: string
  tx_src :: GraphNodeSpecNetwork
  tx_tgt :: GraphNodeSpecNetwork
  tx_graph :: string

datatype FbpMessage =
    MBytes "u8 list"
  | MText string
  | MValue FbpValue
  | MControl ControlEvent
  | TraceData TraceDataEventPayload
  | TraceConnect TraceConnectEventPayload
  | TraceDisconnect TraceDisconnectEventPayload

type_synonym MessageBuf = FbpMessage

definition from_bytes :: "u8 list \<Rightarrow> FbpMessage" where
  "from_bytes b = MBytes b"

definition from_text :: "string \<Rightarrow> FbpMessage" where
  "from_text t = MText t"

definition from_str :: "string \<Rightarrow> FbpMessage" where
  "from_str t = MText t"

definition as_bytes :: "FbpMessage \<Rightarrow> u8 list option" where
  "as_bytes m = (case m of MBytes d \<Rightarrow> Some d | _ \<Rightarrow> None)"

definition as_text :: "FbpMessage \<Rightarrow> string option" where
  "as_text m = (case m of MText d \<Rightarrow> Some d | _ \<Rightarrow> None)"

definition as_value :: "FbpMessage \<Rightarrow> FbpValue option" where
  "as_value m = (case m of MValue d \<Rightarrow> Some d | _ \<Rightarrow> None)"

definition as_control :: "FbpMessage \<Rightarrow> ControlEvent option" where
  "as_control m = (case m of MControl d \<Rightarrow> Some d | _ \<Rightarrow> None)"

definition is_control :: "FbpMessage \<Rightarrow> bool" where
  "is_control m = (case m of MControl _ \<Rightarrow> True | _ \<Rightarrow> False)"

definition is_data :: "FbpMessage \<Rightarrow> bool" where
  "is_data m = (case m of MBytes _ \<Rightarrow> True | MText _ \<Rightarrow> True | MValue _ \<Rightarrow> True | _ \<Rightarrow> False)"

definition is_trace :: "FbpMessage \<Rightarrow> bool" where
  "is_trace m =
     (case m of TraceData _ \<Rightarrow> True | TraceConnect _ \<Rightarrow> True | TraceDisconnect _ \<Rightarrow> True | _ \<Rightarrow> False)"

lemmas message_defs = from_bytes_def from_text_def from_str_def as_bytes_def as_text_def
  as_value_def as_control_def is_control_def is_data_def is_trace_def

text \<open>
  \<open>PartialEq\<close> of a message. Byte and text messages compare by content, structured values by
  \<open>value_eq\<close>, and so does the value of a custom control event.
\<close>

definition control_eq :: "ControlEvent \<Rightarrow> ControlEvent \<Rightarrow> bool" where
  "control_eq a b =
     (case (a, b) of
        (Custom s v, Custom t w) \<Rightarrow>
          s = t \<and> (case (v, w) of (None, None) \<Rightarrow> True | (Some x, Some y) \<Rightarrow> value_eq x y | _ \<Rightarrow> False)
      | _ \<Rightarrow> a = b)"

definition message_eq :: "FbpMessage \<Rightarrow> FbpMessage \<Rightarrow> bool" where
  "message_eq a b =
     (case (a, b) of
        (MValue v, MValue w) \<Rightarrow> value_eq v w
      | (MControl c, MControl d) \<Rightarrow> control_eq c d
      | _ \<Rightarrow> a = b)"

section \<open>Scheduler-based execution\<close>

datatype ProcessResult = DidWork u32 | NoWork | Finished

datatype BudgetClass = Normal | Heavy | Realtime

definition budget_of :: "BudgetClass \<Rightarrow> u32" where
  "budget_of b = (case b of Normal \<Rightarrow> 32 | Heavy \<Rightarrow> 8 | Realtime \<Rightarrow> 96)"

lemma budget_of_pos: "0 < unat (budget_of b)"
  by (cases b) (simp_all add: budget_of_def)

lemma budget_of_bounds: "8 \<le> unat (budget_of b)" "unat (budget_of b) \<le> 96"
  by (cases b; simp add: budget_of_def)+

text \<open>
  The context of a node. \<open>ready_signal\<close> is an \<open>Arc<AtomicBool>\<close> shared with the scheduler's
  \<open>ready_flags\<close>: it is the address of a cell in a store of atomics, so that both sides see one flag.
\<close>

type_synonym atomics = "nat \<Rightarrow> bool"

record NodeContext =
  node_id :: string
  budget_class :: BudgetClass
  remaining_budget :: u32
  last_execution :: instant
  execution_count :: u64
  work_units_processed :: u64
  ready_signal :: nat
  ctx_wake_at :: "instant option"
  timer_fired_at :: "instant option"

definition new_context :: "string \<Rightarrow> BudgetClass \<Rightarrow> nat \<Rightarrow> instant \<Rightarrow> NodeContext" where
  "new_context n b flag now =
     \<lparr>node_id = n, budget_class = b, remaining_budget = 0, last_execution = now,
      execution_count = 0, work_units_processed = 0, ready_signal = flag,
      ctx_wake_at = None, timer_fired_at = None\<rparr>"

definition ctx_signal_ready :: "NodeContext \<Rightarrow> atomics \<Rightarrow> atomics" where
  "ctx_signal_ready c a = a(ready_signal c := True)"

definition clear_ready :: "NodeContext \<Rightarrow> atomics \<Rightarrow> atomics" where
  "clear_ready c a = a(ready_signal c := False)"

definition is_ready :: "NodeContext \<Rightarrow> atomics \<Rightarrow> bool" where
  "is_ready c a = a (ready_signal c)"

definition set_wake_at :: "instant \<Rightarrow> NodeContext \<Rightarrow> NodeContext" where
  "set_wake_at t c = c\<lparr>ctx_wake_at := Some t\<rparr>"

definition take_wake_at :: "NodeContext \<Rightarrow> NodeContext \<times> instant option" where
  "take_wake_at c = (c\<lparr>ctx_wake_at := None\<rparr>, ctx_wake_at c)"

definition mark_timer_fired :: "instant \<Rightarrow> NodeContext \<Rightarrow> NodeContext" where
  "mark_timer_fired t c = c\<lparr>timer_fired_at := Some t\<rparr>"

definition take_timer_fired :: "NodeContext \<Rightarrow> NodeContext \<times> instant option" where
  "take_timer_fired c = (c\<lparr>timer_fired_at := None\<rparr>, timer_fired_at c)"

lemmas context_defs = new_context_def ctx_signal_ready_def clear_ready_def is_ready_def
  set_wake_at_def take_wake_at_def mark_timer_fired_def take_timer_fired_def

section \<open>Retry decision\<close>

datatype ErrorType = Transient | Permanent

definition should_retry :: "u32 \<Rightarrow> ErrorType \<Rightarrow> u32 \<Rightarrow> bool" where
  "should_retry attempt error_type max_retries =
     (case error_type of Permanent \<Rightarrow> False | Transient \<Rightarrow> attempt < max_retries)"

section \<open>Ports and component metadata\<close>

record ComponentPort =
  port_name :: string
  allowed_type :: string
  schema :: "string option"
  required :: bool
  is_arrayport :: bool
  port_description :: string
  values_allowed :: "string list"
  value_default :: string

record ComponentComponentPayload =
  comp_name :: string
  comp_description :: string
  comp_icon :: string
  subgraph :: bool
  in_ports :: "ComponentPort list"
  out_ports :: "ComponentPort list"
  support_health :: bool
  support_perfdata :: bool
  support_reconnect :: bool

definition default_out :: ComponentPort where
  "default_out =
     \<lparr>port_name = ''out'', allowed_type = ''string'', schema = None, required = True,
      is_arrayport = False, port_description = ''a default output port'',
      values_allowed = [], value_default = ''''\<rparr>"

definition default_in :: ComponentPort where
  "default_in =
     \<lparr>port_name = ''in'', allowed_type = ''string'', schema = None, required = True,
      is_arrayport = False, port_description = ''a default input port'',
      values_allowed = [], value_default = ''''\<rparr>"

section \<open>Lemmas\<close>

lemma message_classes:
  "(is_control m \<noteq> (is_data m \<or> is_trace m)) \<and> \<not> (is_data m \<and> is_trace m)"
  by (cases m) (simp_all add: message_defs)

lemma value_eq_sym_nan: "f64_is_nan x \<Longrightarrow> \<not> value_eq (VFloat x) (VFloat x)"
  by (simp add: f64_eq_def)

lemma message_eq_simple [simp]:
  "message_eq (MText s) (MText t) \<longleftrightarrow> s = t"
  "message_eq (MBytes b) (MBytes c) \<longleftrightarrow> b = c"
  "\<not> message_eq (MText s) (MBytes b)"
  "\<not> message_eq (MBytes b) (MText s)"
  by (simp_all add: message_eq_def)

end
