(* ===== verification/TimerHeap.thy ===== *)
theory TimerHeap
  imports Prelude
begin

text \<open>
  The scheduler's timer queue (\<open>src/scheduler.rs\<close>, \<open>TimerWake\<close>): the reversed order that makes a
  \<open>BinaryHeap\<close>, which pops its maximum, pop the earliest deadline, as an instance of \<open>linorder\<close>; the
  heap itself; and the interface the scheduler relies on, a locale with what \<open>push\<close>, \<open>peek\<close> and
  \<open>pop\<close> promise, interpreted on the heap of timers.
\<close>

section \<open>Timer entries and their order\<close>

datatype TimerWake = TimerWake (wake_when: instant) (wake_node: string)

instantiation TimerWake :: linorder
begin

text \<open>\<open>other.when.cmp(&self.when).then_with(|| self.node_id.cmp(&other.node_id))\<close> is at most \<open>Equal\<close>.\<close>

definition less_eq_TimerWake :: "TimerWake \<Rightarrow> TimerWake \<Rightarrow> bool" where
  "less_eq_TimerWake x y \<longleftrightarrow>
     wake_when y < wake_when x \<or> wake_when x = wake_when y \<and> wake_node x \<le> wake_node y"

definition less_TimerWake :: "TimerWake \<Rightarrow> TimerWake \<Rightarrow> bool" where
  "less_TimerWake x y \<longleftrightarrow> x \<le> y \<and> \<not> y \<le> (x :: TimerWake)"

instance
  by standard (auto simp: less_eq_TimerWake_def less_TimerWake_def intro: TimerWake.expand)

end

lemma timer_le_iff:
  "TimerWake t n \<le> TimerWake u m \<longleftrightarrow> u < t \<or> t = u \<and> n \<le> m"
  by (simp add: less_eq_TimerWake_def)

lemma timer_le_when: "x \<le> y \<Longrightarrow> wake_when y \<le> wake_when (x :: TimerWake)"
  by (auto simp: less_eq_TimerWake_def)

section \<open>The interface of a max-heap\<close>

locale max_heap =
  fixes empty :: "'h" and push :: "'a :: linorder \<Rightarrow> 'h \<Rightarrow> 'h"
    and peek :: "'h \<Rightarrow> 'a option" and pop :: "'h \<Rightarrow> 'h"
    and elems :: "'h \<Rightarrow> 'a list" and ok :: "'h \<Rightarrow> bool"
  assumes empty_ok: "ok empty" and empty_elems: "elems empty = []"
    and push_ok: "ok h \<Longrightarrow> ok (push x h)"
    and push_elems: "set (elems (push x h)) = insert x (set (elems h))"
    and peek_None: "peek h = None \<longleftrightarrow> elems h = []"
    and peek_in: "peek h = Some x \<Longrightarrow> x \<in> set (elems h)"
    and peek_max: "ok h \<Longrightarrow> peek h = Some x \<Longrightarrow> y \<in> set (elems h) \<Longrightarrow> y \<le> x"
    and pop_ok: "ok h \<Longrightarrow> ok (pop h)"
    and pop_elems: "peek h = Some x \<Longrightarrow> set (elems h) = insert x (set (elems (pop h)))"
    and pop_length: "peek h = Some x \<Longrightarrow> length (elems (pop h)) < length (elems h)"
begin

lemma peek_push:
  assumes "ok h"
  shows "peek (push x h) = Some (case peek h of None \<Rightarrow> x | Some y \<Rightarrow> max x y)"
proof -
  have "elems (push x h) \<noteq> []" using push_elems [of x h] by auto
  then obtain z where z: "peek (push x h) = Some z" using peek_None by fastforce
  have zin: "z \<in> insert x (set (elems h))" using peek_in [OF z] push_elems by simp
  have zmax: "\<And>y. y \<in> insert x (set (elems h)) \<Longrightarrow> y \<le> z"
    using peek_max [OF push_ok [OF assms] z] push_elems by simp
  show ?thesis
  proof (cases "peek h")
    case None
    then have "elems h = []" by (simp add: peek_None)
    with z zin None show ?thesis by simp
  next
    case (Some y)
    then have "y \<in> set (elems h)" by (rule peek_in)
    then have "y \<le> z" "x \<le> z" using zmax by auto
    moreover have "z \<le> max x y" using zin peek_max [OF assms Some] by (auto simp: max.coboundedI2)
    ultimately show ?thesis using z Some by (simp add: max_def split: if_splits)
  qed
qed

lemma pop_subset: "peek h = Some x \<Longrightarrow> set (elems (pop h)) \<subseteq> set (elems h)"
  using pop_elems by blast

lemma pop_other: "peek h = Some x \<Longrightarrow> y \<in> set (elems h) \<Longrightarrow> y \<noteq> x \<Longrightarrow> y \<in> set (elems (pop h))"
  using pop_elems by blast

end

section \<open>The timer heap\<close>

text \<open>
  The standard library's heap, up to the (unobservable) layout of its array: the entries in
  descending order.
\<close>

type_synonym timer_heap = "TimerWake list"

fun heap_push :: "TimerWake \<Rightarrow> timer_heap \<Rightarrow> timer_heap" where
  "heap_push x [] = [x]"
| "heap_push x (y # ys) = (if y \<le> x then x # y # ys else y # heap_push x ys)"

fun heap_peek :: "timer_heap \<Rightarrow> TimerWake option" where
  "heap_peek [] = None"
| "heap_peek (x # xs) = Some x"

definition heap_pop :: "timer_heap \<Rightarrow> timer_heap" where
  "heap_pop h = tl h"

definition heap_ok :: "timer_heap \<Rightarrow> bool" where
  "heap_ok h \<longleftrightarrow> sorted_wrt (\<ge>) h"

lemma set_heap_push [simp]: "set (heap_push x h) = insert x (set h)"
  by (induction h) auto

lemma heap_push_ok: "heap_ok h \<Longrightarrow> heap_ok (heap_push x h)"
  unfolding heap_ok_def by (induction h) auto

interpretation timers: max_heap "[]" heap_push heap_peek heap_pop "\<lambda>h. h" heap_ok
proof unfold_locales
  fix h :: timer_heap and x y
  show "heap_peek h = None \<longleftrightarrow> h = []" by (cases h) auto
  show "heap_peek h = Some x \<Longrightarrow> x \<in> set h" by (cases h) auto
  show "heap_ok h \<Longrightarrow> heap_peek h = Some x \<Longrightarrow> y \<in> set h \<Longrightarrow> y \<le> x"
    by (cases h) (auto simp: heap_ok_def)
  show "heap_ok h \<Longrightarrow> heap_ok (heap_pop h)" by (cases h) (auto simp: heap_ok_def heap_pop_def)
  show "heap_peek h = Some x \<Longrightarrow> set h = insert x (set (heap_pop h))"
    by (cases h) (auto simp: heap_pop_def)
  show "heap_peek h = Some x \<Longrightarrow> length (heap_pop h) < length h"
    by (cases h) (auto simp: heap_pop_def)
qed (simp_all add: heap_ok_def heap_push_ok [unfolded heap_ok_def])

lemma heap_peek_earliest:
  "heap_ok h \<Longrightarrow> heap_peek h = Some x \<Longrightarrow> TimerWake t n \<in> set h \<Longrightarrow> wake_when x \<le> t"
  using timers.peek_max [of h x "TimerWake t n"] timer_le_when by fastforce

end
