(* ===== verification/Scheduler.thy ===== *)
theory Scheduler
  imports Messages TimerHeap
begin

text \<open>
  The cooperative scheduler of \<open>src/scheduler.rs\<close>: its locked state, the operations of the public
  interface, the timer queue, the execution of one component within its budget, and the two critical
  sections of \<open>Scheduler::run\<close>. A component is a value of type \<open>'c\<close>; one call of its
  \<open>process()\<close> is described by a \<open>process_call\<close>. The step relation that interleaves these operations
  is in \<open>Scheduler_Steps\<close>.
\<close>

section \<open>State\<close>

record SchedulerMetrics =
  executions_per_node :: "string \<rightharpoonup> u64"
  work_units_per_node :: "string \<rightharpoonup> u64"
  time_since_last_execution :: "string \<rightharpoonup> duration"
  queue_depth :: nat
  loop_iterations :: u64

record 'c SchedulerState =
  nodes :: "string \<rightharpoonup> NodeContext"
  components :: "string \<rightharpoonup> 'c"
  ready_flags :: "string \<rightharpoonup> nat"
  ready_queue :: "string list"
  ready_set :: "string set"
  timers :: timer_heap
  timer_latest_by_node :: "string \<rightharpoonup> instant"
  metrics :: SchedulerMetrics

text \<open>
  The \<open>Scheduler\<close> is the mutex-protected state, the atomic \<open>running\<close>, and the store of the
  \<open>AtomicBool\<close> cells that \<open>ready_flags\<close> and the contexts share by address.
\<close>

record 'c Scheduler = "'c SchedulerState" +
  running :: bool
  flag_store :: atomics
  next_flag :: nat

record ExecutionOutcome =
  did_work :: bool
  finished :: bool
  executions :: u64
  work_units :: u64
  panicked :: bool

definition outcome_default :: ExecutionOutcome where
  "outcome_default =
     \<lparr>did_work = False, finished = False, executions = 0, work_units = 0, panicked = False\<rparr>"

section \<open>Construction and the public operations\<close>

definition scheduler_new :: "'c Scheduler" where
  "scheduler_new =
     \<lparr>nodes = Map.empty, components = Map.empty, ready_flags = Map.empty, ready_queue = [],
      ready_set = {}, timers = [], timer_latest_by_node = Map.empty,
      metrics = \<lparr>executions_per_node = Map.empty, work_units_per_node = Map.empty,
        time_since_last_execution = Map.empty, queue_depth = 0, loop_iterations = 0\<rparr>,
      running = True, flag_store = (\<lambda>_. False), next_flag = 0\<rparr>"

definition sched_add_node :: "string \<Rightarrow> BudgetClass \<Rightarrow> instant \<Rightarrow> 'c Scheduler \<Rightarrow> 'c Scheduler" where
  "sched_add_node n budget now s =
     (let flag = next_flag s; m = metrics s in
      s\<lparr>next_flag := flag + 1,
        flag_store := (flag_store s)(flag := False),
        ready_flags := (ready_flags s)(n \<mapsto> flag),
        nodes := (nodes s)(n \<mapsto> new_context n budget flag now),
        metrics := m\<lparr>executions_per_node := (executions_per_node m)(n \<mapsto> 0),
          work_units_per_node := (work_units_per_node m)(n \<mapsto> 0),
          time_since_last_execution := (time_since_last_execution m)(n \<mapsto> 0)\<rparr>\<rparr>)"

definition add_component :: "'c \<Rightarrow> string \<Rightarrow> 'c Scheduler \<Rightarrow> 'c Scheduler" where
  "add_component c n s = s\<lparr>components := (components s)(n \<mapsto> c)\<rparr>"

definition update_queue_depth :: "'c Scheduler \<Rightarrow> 'c Scheduler" where
  "update_queue_depth s = s\<lparr>metrics := (metrics s)\<lparr>queue_depth := length (ready_queue s)\<rparr>\<rparr>"

text \<open>\<open>if ready_set.insert(n) { ready_queue.push_back(n); \<dots> }\<close>\<close>

definition enqueue :: "string \<Rightarrow> 'c Scheduler \<Rightarrow> 'c Scheduler" where
  "enqueue n s =
     (if n \<in> ready_set s then s
      else s\<lparr>ready_set := insert n (ready_set s), ready_queue := ready_queue s @ [n]\<rparr>)"

definition signal_ready :: "string \<Rightarrow> 'c Scheduler \<Rightarrow> 'c Scheduler \<times> bool" where
  "signal_ready n s =
     (case ready_flags s n of
        None \<Rightarrow> (s, False)
      | Some flag \<Rightarrow>
          let s1 = s\<lparr>flag_store := (flag_store s)(flag := True)\<rparr> in
          (if n \<in> ready_set s then s1 else update_queue_depth (enqueue n s1), True))"

text \<open>\<open>create_waker\<close> returns a closure that calls \<open>signal_ready\<close> on the node, or \<open>None\<close>.\<close>

definition create_waker :: "string \<Rightarrow> 'c Scheduler \<Rightarrow> ('c Scheduler \<Rightarrow> 'c Scheduler) option" where
  "create_waker n s = (case nodes s n of Some _ \<Rightarrow> Some (\<lambda>s'. fst (signal_ready n s')) | None \<Rightarrow> None)"

definition wake_at :: "string \<Rightarrow> instant \<Rightarrow> 'c Scheduler \<Rightarrow> 'c Scheduler \<times> bool" where
  "wake_at n when s =
     (case nodes s n of
        None \<Rightarrow> (s, False)
      | Some _ \<Rightarrow>
          (s\<lparr>timer_latest_by_node := (timer_latest_by_node s)(n \<mapsto> when),
             timers := heap_push (TimerWake when n) (timers s)\<rparr>, True))"

definition node_ids :: "'c Scheduler \<Rightarrow> string set" where
  "node_ids s = dom (nodes s)"

definition metrics_snapshot :: "instant \<Rightarrow> 'c Scheduler \<Rightarrow> 'c Scheduler \<times> SchedulerMetrics" where
  "metrics_snapshot now s =
     (let m = (metrics s)\<lparr>time_since_last_execution :=
                map_option (\<lambda>ctx. now - last_execution ctx) \<circ> nodes s\<rparr>
      in (s\<lparr>metrics := m\<rparr>, m))"

definition sched_stop :: "'c Scheduler \<Rightarrow> 'c Scheduler" where
  "sched_stop s = s\<lparr>running := False\<rparr>"

section \<open>Timers\<close>

text \<open>
  \<open>next_valid_timer_deadline\<close>: superseded entries are popped until the first one that is still the
  latest deadline of its node.
\<close>

function valid_deadline ::
    "(string \<rightharpoonup> instant) \<Rightarrow> timer_heap \<Rightarrow> timer_heap \<times> instant option" where
  "valid_deadline latest h =
     (case heap_peek h of
        None \<Rightarrow> (h, None)
      | Some e \<Rightarrow>
          if latest (wake_node e) = Some (wake_when e) then (h, Some (wake_when e))
          else valid_deadline latest (heap_pop h))"
  by pat_completeness auto
termination
  by (relation "measure (\<lambda>(latest, h). length h)") (auto dest: timers.pop_length)

declare valid_deadline.simps [simp del]

definition next_valid_timer_deadline :: "'c Scheduler \<Rightarrow> 'c Scheduler \<times> instant option" where
  "next_valid_timer_deadline s =
     (let (h, d) = valid_deadline (timer_latest_by_node s) (timers s) in (s\<lparr>timers := h\<rparr>, d))"

text \<open>What \<open>drain_expired_timers\<close> does with a popped entry.\<close>

definition fire_timer :: "TimerWake \<Rightarrow> 'c Scheduler \<Rightarrow> 'c Scheduler" where
  "fire_timer e s =
     (let n = wake_node e in
      if timer_latest_by_node s n = Some (wake_when e) then
        enqueue n
          (s\<lparr>timer_latest_by_node := (timer_latest_by_node s)(n := None),
             nodes := (case nodes s n of None \<Rightarrow> nodes s
                       | Some ctx \<Rightarrow> (nodes s)(n \<mapsto> mark_timer_fired (wake_when e) ctx)),
             flag_store := (case ready_flags s n of None \<Rightarrow> flag_store s
                            | Some flag \<Rightarrow> (flag_store s)(flag := True))\<rparr>)
      else s)"

lemma valid_deadline_length: "length (fst (valid_deadline latest h)) \<le> length h"
proof (induction latest h rule: valid_deadline.induct)
  case (1 latest h)
  then show ?case
    by (subst valid_deadline.simps)
      (fastforce split: option.splits dest: timers.pop_length)
qed

lemma fire_timer_timers [simp]: "timers (fire_timer e s) = timers s"
  by (simp add: fire_timer_def enqueue_def Let_def)

lemma next_deadline_pop_length:
  assumes "(s1, d) = next_valid_timer_deadline s" "heap_peek (timers s1) = Some e"
  shows "length (heap_pop (timers s1)) < length (timers s)"
proof -
  have "timers s1 = fst (valid_deadline (timer_latest_by_node s) (timers s))"
    using assms(1) by (auto simp: next_valid_timer_deadline_def split: prod.splits)
  then have "length (timers s1) \<le> length (timers s)" by (simp add: valid_deadline_length)
  with timers.pop_length [OF assms(2)] show ?thesis by simp
qed

function drain_loop :: "instant \<Rightarrow> 'c Scheduler \<Rightarrow> 'c Scheduler" where
  "drain_loop now s =
     (case next_valid_timer_deadline s of
        (s1, None) \<Rightarrow> s1
      | (s1, Some next_when) \<Rightarrow>
          if now < next_when then s1
          else (case heap_peek (timers s1) of
                  None \<Rightarrow> s1
                | Some entry \<Rightarrow>
                    drain_loop now (fire_timer entry (s1\<lparr>timers := heap_pop (timers s1)\<rparr>))))"
  by pat_completeness auto
termination
  by (relation "measure (\<lambda>(now, s). length (timers s))") (auto intro: next_deadline_pop_length)

declare drain_loop.simps [simp del]

definition drain_expired_timers :: "instant \<Rightarrow> 'c Scheduler \<Rightarrow> 'c Scheduler" where
  "drain_expired_timers now s = update_queue_depth (drain_loop now s)"

section \<open>Executing one component\<close>

text \<open>
  What one call of \<open>process()\<close> did: the component and context it left, the last store it made to its
  own readiness flag through the context, its result (\<open>None\<close> for a panic caught by \<open>catch_unwind\<close>), how
  long it took, and the time afterwards. \<open>ready_signal\<close> is a private field of the context.
\<close>

record 'c process_call =
  pc_component :: 'c
  pc_context :: NodeContext
  pc_flag :: "bool option"
  pc_result :: "ProcessResult option"
  pc_elapsed :: duration
  pc_now :: instant

definition PROCESS_CALL_MAX_BLOCKING :: duration where
  "PROCESS_CALL_MAX_BLOCKING = 10000000"

definition contract_ok :: "duration \<Rightarrow> bool" where
  "contract_ok elapsed \<longleftrightarrow> elapsed \<le> PROCESS_CALL_MAX_BLOCKING"

definition apply_flag :: "nat \<Rightarrow> bool option \<Rightarrow> atomics \<Rightarrow> atomics" where
  "apply_flag addr f a = (case f of None \<Rightarrow> a | Some b \<Rightarrow> a(addr := b))"

text \<open>The accounting of \<open>DidWork(units)\<close>: the remaining budget after the call.\<close>

definition accounted :: "u32 \<Rightarrow> u32" where
  "accounted units = max units 1"

definition budget_after :: "u32 \<Rightarrow> u32 \<Rightarrow> u32 \<Rightarrow> u32" where
  "budget_after before remaining units =
     (let after_component = min remaining before;
          consumed_by_component = saturating_sub before after_component;
          consumed = max consumed_by_component (accounted units)
      in saturating_sub before consumed)"

text \<open>
  One iteration of the loop of \<open>execute_component\<close>. The contract assertion stands outside
  \<open>catch_unwind\<close>, so its failure unwinds the scheduler's own thread: \<open>IterAborted\<close>.
\<close>

datatype 'c iteration =
    IterAborted
  | IterDone 'c NodeContext ExecutionOutcome atomics
  | IterContinue 'c NodeContext ExecutionOutcome atomics

definition exec_iteration ::
    "'c process_call \<Rightarrow> NodeContext \<Rightarrow> ExecutionOutcome \<Rightarrow> atomics \<Rightarrow> 'c iteration" where
  "exec_iteration call ctx out a =
     (let c1 = pc_component call;
          ctx1 = (pc_context call)\<lparr>ready_signal := ready_signal ctx\<rparr>;
          a1 = apply_flag (ready_signal ctx) (pc_flag call) a;
          before = remaining_budget ctx
      in
      if \<not> contract_ok (pc_elapsed call) then IterAborted
      else
        (case pc_result call of
           None \<Rightarrow> IterDone c1 ctx1 (out\<lparr>panicked := True, finished := True\<rparr>) (clear_ready ctx1 a1)
         | Some (DidWork units) \<Rightarrow>
             IterContinue c1
               (ctx1\<lparr>remaining_budget := budget_after before (remaining_budget ctx1) units,
                  work_units_processed := work_units_processed ctx1 + ucast (accounted units),
                  execution_count := execution_count ctx1 + 1,
                  last_execution := pc_now call\<rparr>)
               (out\<lparr>did_work := True, executions := executions out + 1,
                  work_units := work_units out + ucast (accounted units)\<rparr>) a1
         | Some NoWork \<Rightarrow> IterDone c1 ctx1 out a1
         | Some Finished \<Rightarrow> IterDone c1 ctx1 (out\<lparr>finished := True\<rparr>) (clear_ready ctx1 a1)))"

definition exec_begin :: "NodeContext \<Rightarrow> atomics \<Rightarrow> NodeContext \<times> atomics" where
  "exec_begin ctx a =
     (fst (take_wake_at (ctx\<lparr>remaining_budget := budget_of (budget_class ctx)\<rparr>)), clear_ready ctx a)"

lemma unat_accounted: "unat (accounted u) = max (unat u) 1"
  by (auto simp: accounted_def max_def word_le_nat_alt)

lemma unat_max_word: "unat (max a b) = max (unat a) (unat (b :: 'w::len word))"
  by (auto simp: max_def word_le_nat_alt)

lemma unat_min_word: "unat (min a b) = min (unat a) (unat (b :: 'w::len word))"
  by (auto simp: min_def word_le_nat_alt)

lemma unat_budget_after:
  "unat (budget_after before remaining units) =
     min (unat before - max (unat units) 1) (unat remaining)"
  by (simp add: budget_after_def Let_def unat_saturating_sub unat_accounted unat_max_word
      unat_min_word)

lemma exec_iteration_continue:
  assumes "exec_iteration call ctx out a = IterContinue c1 ctx1 out1 a1" "remaining_budget ctx \<noteq> 0"
  shows "unat (remaining_budget ctx1) < unat (remaining_budget ctx)"
proof -
  from assms(2) have "0 < unat (remaining_budget ctx)"
    by (simp add: unat_gt_0)
  with assms(1) show ?thesis
    by (auto simp: exec_iteration_def Let_def unat_budget_after min_less_iff_disj
        split: if_splits option.splits ProcessResult.splits)
qed

function exec_loop ::
    "('c \<Rightarrow> NodeContext \<Rightarrow> 'c process_call) \<Rightarrow> 'c \<Rightarrow> NodeContext \<Rightarrow> ExecutionOutcome \<Rightarrow> atomics \<Rightarrow>
     ('c \<times> NodeContext \<times> ExecutionOutcome \<times> atomics) option" where
  "exec_loop process c ctx out a =
     (if remaining_budget ctx = 0 then Some (c, ctx, out, a)
      else (case exec_iteration (process c ctx) ctx out a of
              IterAborted \<Rightarrow> None
            | IterDone c1 ctx1 out1 a1 \<Rightarrow> Some (c1, ctx1, out1, a1)
            | IterContinue c1 ctx1 out1 a1 \<Rightarrow> exec_loop process c1 ctx1 out1 a1))"
  by pat_completeness auto
termination
  by (relation "measure (\<lambda>(process, c, ctx, out, a). unat (remaining_budget ctx))")
    (auto dest: exec_iteration_continue)

declare exec_loop.simps [simp del]

text \<open>\<open>execute_component\<close>: \<open>None\<close> when the contract assertion aborts the thread.\<close>

definition execute_component ::
    "('c \<Rightarrow> NodeContext \<Rightarrow> 'c process_call) \<Rightarrow> 'c \<Rightarrow> NodeContext \<Rightarrow> atomics \<Rightarrow>
     ('c \<times> NodeContext \<times> ExecutionOutcome \<times> atomics) option" where
  "execute_component process c ctx a =
     (let (ctx1, a1) = exec_begin ctx a in exec_loop process c ctx1 outcome_default a1)"

section \<open>The critical sections of \<open>run\<close>\<close>

text \<open>
  The loop that waits for work. \<open>now\<close> is the clock when expired timers are drained, \<open>now2\<close> when the
  next deadline is compared with it.
\<close>

datatype decision = Proceed | Recheck | Wait "instant option"

definition run_check :: "instant \<Rightarrow> instant \<Rightarrow> 'c Scheduler \<Rightarrow> 'c Scheduler \<times> decision" where
  "run_check now now2 s =
     (let s1 = drain_expired_timers now s in
      if \<not> running s1 \<or> ready_queue s1 \<noteq> [] then (s1, Proceed)
      else
        (case next_valid_timer_deadline s1 of
           (s2, Some next_wake) \<Rightarrow> if next_wake \<le> now2 then (s2, Recheck) else (s2, Wait (Some next_wake))
         | (s2, None) \<Rightarrow> (s2, Wait None)))"

datatype 'c pick = PickExit | PickNone | PickSkip string | PickRun string 'c NodeContext

definition run_pick :: "'c Scheduler \<Rightarrow> 'c Scheduler \<times> 'c pick" where
  "run_pick s =
     (if \<not> running s then (s, PickExit)
      else
        (case ready_queue s of
           [] \<Rightarrow> (s, PickNone)
         | n # rest \<Rightarrow>
             let s1 = s\<lparr>ready_queue := rest, ready_set := ready_set s - {n},
                        metrics := (metrics s)\<lparr>queue_depth := length rest,
                          loop_iterations := loop_iterations (metrics s) + 1\<rparr>\<rparr> in
             (case components s n of
                None \<Rightarrow> (s1, PickSkip n)
              | Some c \<Rightarrow>
                  (case nodes s n of
                     None \<Rightarrow> (s1, PickSkip n)
                   | Some ctx \<Rightarrow>
                       (s1\<lparr>components := (components s)(n := None), nodes := (nodes s)(n := None)\<rparr>,
                        PickRun n c ctx)))))"

definition add_count :: "string \<Rightarrow> u64 \<Rightarrow> (string \<rightharpoonup> u64) \<Rightarrow> (string \<rightharpoonup> u64)" where
  "add_count n k m = (case m n of None \<Rightarrow> m | Some v \<Rightarrow> m(n \<mapsto> v + k))"

definition record_execution :: "string \<Rightarrow> ExecutionOutcome \<Rightarrow> 'c Scheduler \<Rightarrow> 'c Scheduler" where
  "record_execution n out s =
     s\<lparr>metrics := (metrics s)\<lparr>
         executions_per_node := add_count n (executions out) (executions_per_node (metrics s)),
         work_units_per_node := add_count n (work_units out) (work_units_per_node (metrics s))\<rparr>\<rparr>"

definition retire :: "string \<Rightarrow> 'c Scheduler \<Rightarrow> 'c Scheduler" where
  "retire n s =
     (let queue = filter (\<lambda>m. m \<noteq> n) (ready_queue s);
          s1 = s\<lparr>ready_flags := (ready_flags s)(n := None),
                 timer_latest_by_node := (timer_latest_by_node s)(n := None),
                 ready_set := ready_set s - {n},
                 ready_queue := queue,
                 metrics := (metrics s)\<lparr>queue_depth := length queue,
                   time_since_last_execution := (time_since_last_execution (metrics s))(n := None)\<rparr>\<rparr>
      in if nodes s1 = Map.empty \<and> components s1 = Map.empty then s1\<lparr>running := False\<rparr> else s1)"

definition restore :: "string \<Rightarrow> 'c \<Rightarrow> NodeContext \<Rightarrow> ExecutionOutcome \<Rightarrow> 'c Scheduler \<Rightarrow> 'c Scheduler" where
  "restore n c ctx out s =
     (let ready_flag = is_ready ctx (flag_store s);
          (ctx1, wake) = take_wake_at ctx;
          s1 = (case wake of None \<Rightarrow> s
                | Some when \<Rightarrow>
                    s\<lparr>timer_latest_by_node := (timer_latest_by_node s)(n \<mapsto> when),
                      timers := heap_push (TimerWake when n) (timers s)\<rparr>);
          s2 = s1\<lparr>components := (components s1)(n \<mapsto> c), nodes := (nodes s1)(n \<mapsto> ctx1)\<rparr>
      in if (did_work out \<or> ready_flag) \<and> n \<notin> ready_set s2
         then update_queue_depth (enqueue n s2) else s2)"

definition run_finish :: "string \<Rightarrow> 'c \<Rightarrow> NodeContext \<Rightarrow> ExecutionOutcome \<Rightarrow> 'c Scheduler \<Rightarrow> 'c Scheduler" where
  "run_finish n c ctx out s =
     (let s1 = record_execution n out s in
      if finished out then retire n s1 else restore n c ctx out s1)"

end
