(* ===== verification/Scheduler_Inv.thy ===== *)
theory Scheduler_Inv
  imports Scheduler
begin

text \<open>
  The invariant of the scheduler's state and its preservation by every operation; what the timer
  operations compute; and the accounting of one execution.
\<close>

section \<open>The invariant\<close>

text \<open>The ready queue, its membership set and the reported depth agree.\<close>

definition queue_ok :: "'c Scheduler \<Rightarrow> bool" where
  "queue_ok s \<longleftrightarrow>
     distinct (ready_queue s) \<and> ready_set s = set (ready_queue s) \<and>
     queue_depth (metrics s) = length (ready_queue s)"

text \<open>The heap is ordered, and the latest deadline of a node has its entry in it.\<close>

definition timers_ok :: "'c Scheduler \<Rightarrow> bool" where
  "timers_ok s \<longleftrightarrow>
     heap_ok (timers s) \<and>
     (\<forall>n t. timer_latest_by_node s n = Some t \<longrightarrow> TimerWake t n \<in> set (timers s))"

text \<open>
  \<open>busy\<close> is the node that the scheduler thread has taken out of the maps, with its context. Every
  node that is stored or busy, and no other, has a readiness flag, shared with its context and with
  no other node.
\<close>

definition contexts :: "(string \<times> NodeContext) option \<Rightarrow> 'c Scheduler \<Rightarrow> (string \<rightharpoonup> NodeContext)" where
  "contexts busy s = (case busy of None \<Rightarrow> nodes s | Some (n, ctx) \<Rightarrow> (nodes s)(n \<mapsto> ctx))"

definition flags_ok :: "(string \<times> NodeContext) option \<Rightarrow> 'c Scheduler \<Rightarrow> bool" where
  "flags_ok busy s \<longleftrightarrow>
     (\<forall>n. ready_flags s n = map_option ready_signal (contexts busy s n)) \<and>
     (\<forall>n m f. ready_flags s n = Some f \<longrightarrow> ready_flags s m = Some f \<longrightarrow> n = m) \<and>
     (\<forall>n f. ready_flags s n = Some f \<longrightarrow> f < next_flag s)"

text \<open>A stored node has its component and the other way round; a busy node is in neither map.\<close>

definition wired :: "(string \<times> NodeContext) option \<Rightarrow> 'c Scheduler \<Rightarrow> bool" where
  "wired busy s \<longleftrightarrow>
     dom (components s) = dom (nodes s) \<and>
     (\<forall>n ctx. busy = Some (n, ctx) \<longrightarrow> nodes s n = None)"

text \<open>Only registered nodes are queued or have a deadline.\<close>

definition known_ok :: "'c Scheduler \<Rightarrow> bool" where
  "known_ok s \<longleftrightarrow>
     ready_set s \<subseteq> dom (ready_flags s) \<and> dom (timer_latest_by_node s) \<subseteq> dom (ready_flags s)"

text \<open>No lost wakeup: a node whose flag is set is queued, or busy.\<close>

definition wakeups_ok :: "(string \<times> NodeContext) option \<Rightarrow> 'c Scheduler \<Rightarrow> bool" where
  "wakeups_ok busy s \<longleftrightarrow>
     (\<forall>n f. ready_flags s n = Some f \<longrightarrow> flag_store s f \<longrightarrow>
        n \<in> ready_set s \<or> (\<exists>ctx. busy = Some (n, ctx)))"

definition sched_inv :: "(string \<times> NodeContext) option \<Rightarrow> 'c Scheduler \<Rightarrow> bool" where
  "sched_inv busy s \<longleftrightarrow>
     queue_ok s \<and> timers_ok s \<and> flags_ok busy s \<and> wired busy s \<and> known_ok s \<and> wakeups_ok busy s"

lemmas inv_defs = queue_ok_def timers_ok_def flags_ok_def wired_def known_ok_def wakeups_ok_def

lemma sched_invI:
  "queue_ok s \<Longrightarrow> timers_ok s \<Longrightarrow> flags_ok busy s \<Longrightarrow> wired busy s \<Longrightarrow> known_ok s \<Longrightarrow>
   wakeups_ok busy s \<Longrightarrow> sched_inv busy s"
  by (simp add: sched_inv_def)

lemma sched_invD:
  assumes "sched_inv busy s"
  shows "queue_ok s" "timers_ok s" "flags_ok busy s" "wired busy s" "known_ok s" "wakeups_ok busy s"
  using assms by (simp_all add: sched_inv_def)

lemma contexts_simps [simp]:
  "contexts None s = nodes s" "contexts (Some (n, ctx)) s = (nodes s)(n \<mapsto> ctx)"
  by (simp_all add: contexts_def)

text \<open>Each part of the invariant depends on a few fields only.\<close>

lemma contexts_cong: "nodes s' = nodes s \<Longrightarrow> contexts busy s' = contexts busy s"
  by (cases busy) (auto simp: contexts_def)

lemma inv_frame:
  "queue_ok s \<Longrightarrow> ready_queue s' = ready_queue s \<Longrightarrow> ready_set s' = ready_set s \<Longrightarrow>
     queue_depth (metrics s') = queue_depth (metrics s) \<Longrightarrow> queue_ok s'"
  "timers_ok s \<Longrightarrow> timers s' = timers s \<Longrightarrow>
     timer_latest_by_node s' = timer_latest_by_node s \<Longrightarrow> timers_ok s'"
  "flags_ok busy s \<Longrightarrow> nodes s' = nodes s \<Longrightarrow> ready_flags s' = ready_flags s \<Longrightarrow>
     next_flag s' = next_flag s \<Longrightarrow> flags_ok busy s'"
  "wired busy s \<Longrightarrow> nodes s' = nodes s \<Longrightarrow> components s' = components s \<Longrightarrow> wired busy s'"
  "known_ok s \<Longrightarrow> ready_set s' = ready_set s \<Longrightarrow> ready_flags s' = ready_flags s \<Longrightarrow>
     timer_latest_by_node s' = timer_latest_by_node s \<Longrightarrow> known_ok s'"
  "wakeups_ok busy s \<Longrightarrow> ready_set s' = ready_set s \<Longrightarrow> ready_flags s' = ready_flags s \<Longrightarrow>
     flag_store s' = flag_store s \<Longrightarrow> wakeups_ok busy s'"
  by (simp_all add: inv_defs contexts_cong [of s' s])

lemma flags_okD:
  assumes "flags_ok busy s"
  shows "ready_flags s n = map_option ready_signal (contexts busy s n)"
    "ready_flags s n = Some f \<Longrightarrow> ready_flags s m = Some f \<Longrightarrow> n = m"
    "ready_flags s n = Some f \<Longrightarrow> f < next_flag s"
    "ready_flags s n \<noteq> Some (next_flag s)"
  using assms unfolding flags_ok_def by (blast, blast, blast, metis less_irrefl)

lemma flags_ok_same:
  assumes "flags_ok busy s"
    "\<And>m. map_option ready_signal (contexts busy' s' m) = map_option ready_signal (contexts busy s m)"
    "ready_flags s' = ready_flags s" "next_flag s' = next_flag s"
  shows "flags_ok busy' s'"
  using assms unfolding flags_ok_def by metis

lemma stored_registered:
  assumes "flags_ok busy s" "wired busy s" "nodes s n = Some ctx"
  shows "ready_flags s n = Some (ready_signal ctx)"
proof -
  have "contexts busy s n = Some ctx"
    using assms(2,3) by (cases busy) (auto simp: wired_def)
  with flags_okD(1) [OF assms(1), of n] show ?thesis by simp
qed

lemma busy_registered:
  assumes "flags_ok (Some (n, ctx)) s"
  shows "ready_flags s n = Some (ready_signal ctx)"
  using flags_okD(1) [OF assms, of n] by simp

section \<open>Construction\<close>

lemma scheduler_new_inv: "sched_inv None scheduler_new"
  by (simp add: sched_inv_def inv_defs scheduler_new_def heap_ok_def)

text \<open>The network start adds each node with its component.\<close>

definition add_process ::
    "'c \<Rightarrow> string \<Rightarrow> BudgetClass \<Rightarrow> instant \<Rightarrow> 'c Scheduler \<Rightarrow> 'c Scheduler" where
  "add_process c n budget now s = add_component c n (sched_add_node n budget now s)"

lemma add_process_inv:
  assumes inv: "sched_inv None s" and new: "nodes s n = None"
  shows "sched_inv None (add_process c n budget now s)"
proof -
  let ?s = "add_process c n budget now s"
  note i = sched_invD [OF inv]
  have unreg: "ready_flags s n = None" using i(3) new by (simp add: flags_ok_def)
  have fresh: "\<And>m. ready_flags s m \<noteq> Some (next_flag s)" by (rule flags_okD(4) [OF i(3)])
  have notq: "n \<notin> ready_set s" using i(5) unreg by (auto simp: known_ok_def)
  show ?thesis
  proof (rule sched_invI)
    show "queue_ok ?s" using i(1) by (simp add: queue_ok_def add_process_def add_component_def sched_add_node_def Let_def)
    show "timers_ok ?s" using i(2) by (simp add: timers_ok_def add_process_def add_component_def sched_add_node_def Let_def)
    show "flags_ok None ?s" unfolding flags_ok_def
    proof (intro conjI allI impI)
      fix m k f
      show "ready_flags ?s m = map_option ready_signal (contexts None ?s m)"
        using flags_okD(1) [OF i(3), of m]
        by (simp add: add_process_def add_component_def sched_add_node_def Let_def new_context_def)
      have rf: "ready_flags ?s = (ready_flags s)(n \<mapsto> next_flag s)"
        and nf: "next_flag ?s = Suc (next_flag s)"
        by (simp_all add: add_process_def add_component_def sched_add_node_def Let_def)
      show "m = k" if "ready_flags ?s m = Some f" "ready_flags ?s k = Some f"
        using that fresh flags_okD(2) [OF i(3), of m f k] by (auto simp: rf split: if_splits)
      show "f < next_flag ?s" if "ready_flags ?s m = Some f"
        using that flags_okD(3) [OF i(3), of m f] by (auto simp: rf nf split: if_splits)
    qed
    show "wired None ?s" using i(4) by (auto simp: wired_def add_process_def add_component_def sched_add_node_def Let_def)
    show "known_ok ?s" using i(5) by (auto simp: known_ok_def add_process_def add_component_def sched_add_node_def Let_def)
    show "wakeups_ok None ?s" using i(6) fresh
      by (auto simp: wakeups_ok_def add_process_def add_component_def sched_add_node_def Let_def)
  qed
qed

section \<open>Signals, timers and stop\<close>

lemma enqueue_frame [simp]:
  "nodes (enqueue n s) = nodes s" "components (enqueue n s) = components s"
  "ready_flags (enqueue n s) = ready_flags s" "timers (enqueue n s) = timers s"
  "timer_latest_by_node (enqueue n s) = timer_latest_by_node s" "metrics (enqueue n s) = metrics s"
  "running (enqueue n s) = running s" "flag_store (enqueue n s) = flag_store s"
  "next_flag (enqueue n s) = next_flag s" "ready_set (enqueue n s) = insert n (ready_set s)"
  by (auto simp: enqueue_def)

lemma update_queue_depth_frame [simp]:
  "nodes (update_queue_depth s) = nodes s" "components (update_queue_depth s) = components s"
  "ready_flags (update_queue_depth s) = ready_flags s" "timers (update_queue_depth s) = timers s"
  "timer_latest_by_node (update_queue_depth s) = timer_latest_by_node s"
  "running (update_queue_depth s) = running s" "flag_store (update_queue_depth s) = flag_store s"
  "next_flag (update_queue_depth s) = next_flag s" "ready_set (update_queue_depth s) = ready_set s"
  "ready_queue (update_queue_depth s) = ready_queue s"
  "queue_depth (metrics (update_queue_depth s)) = length (ready_queue s)"
  by (simp_all add: update_queue_depth_def)

lemma enqueue_queue:
  "ready_queue (enqueue n s) = (if n \<in> ready_set s then ready_queue s else ready_queue s @ [n])"
  by (simp add: enqueue_def)

lemma signal_ready_frame [simp]:
  "nodes (fst (signal_ready n s)) = nodes s" "components (fst (signal_ready n s)) = components s"
  "ready_flags (fst (signal_ready n s)) = ready_flags s" "timers (fst (signal_ready n s)) = timers s"
  "timer_latest_by_node (fst (signal_ready n s)) = timer_latest_by_node s"
  "running (fst (signal_ready n s)) = running s" "next_flag (fst (signal_ready n s)) = next_flag s"
  by (auto simp: signal_ready_def Let_def split: option.splits)

lemma signal_ready_queue:
  "ready_queue (fst (signal_ready n s)) =
     (if ready_flags s n = None \<or> n \<in> ready_set s then ready_queue s else ready_queue s @ [n])"
  by (auto simp: signal_ready_def Let_def enqueue_queue split: option.splits)

lemma signal_ready_set:
  "ready_set (fst (signal_ready n s)) =
     (if ready_flags s n = None then ready_set s else insert n (ready_set s))"
  by (auto simp: signal_ready_def Let_def split: option.splits)

lemma signal_ready_store:
  "flag_store (fst (signal_ready n s)) =
     (case ready_flags s n of None \<Rightarrow> flag_store s | Some f \<Rightarrow> (flag_store s)(f := True))"
  by (auto simp: signal_ready_def Let_def split: option.splits)

lemma signal_ready_inv:
  assumes "sched_inv busy s"
  shows "sched_inv busy (fst (signal_ready n s))"
proof -
  note i = sched_invD [OF assms]
  let ?s = "fst (signal_ready n s)"
  show ?thesis
  proof (rule sched_invI)
    show "queue_ok ?s" using i(1)
      by (auto simp: queue_ok_def signal_ready_def Let_def enqueue_queue split: option.splits)
    show "timers_ok ?s" by (rule inv_frame(2) [OF i(2)]) simp_all
    show "flags_ok busy ?s" by (rule inv_frame(3) [OF i(3)]) simp_all
    show "wired busy ?s" by (rule inv_frame(4) [OF i(4)]) simp_all
    show "known_ok ?s" using i(5) by (auto simp: known_ok_def signal_ready_set)
    show "wakeups_ok busy ?s" unfolding wakeups_ok_def
    proof (intro allI impI)
      fix m f
      assume m: "ready_flags ?s m = Some f" "flag_store ?s f"
      show "m \<in> ready_set ?s \<or> (\<exists>ctx. busy = Some (m, ctx))"
      proof (cases "m = n")
        case True
        with m show ?thesis by (simp add: signal_ready_set)
      next
        case False
        with m flags_okD(2) [OF i(3), of m f n] have "flag_store s f"
          by (auto simp: signal_ready_store split: option.splits if_splits)
        with i(6) m show ?thesis by (auto simp: wakeups_ok_def signal_ready_set)
      qed
    qed
  qed
qed

lemma wake_at_frame [simp]:
  "nodes (fst (wake_at n w s)) = nodes s" "components (fst (wake_at n w s)) = components s"
  "ready_flags (fst (wake_at n w s)) = ready_flags s" "metrics (fst (wake_at n w s)) = metrics s"
  "ready_queue (fst (wake_at n w s)) = ready_queue s" "ready_set (fst (wake_at n w s)) = ready_set s"
  "running (fst (wake_at n w s)) = running s" "flag_store (fst (wake_at n w s)) = flag_store s"
  "next_flag (fst (wake_at n w s)) = next_flag s"
  by (auto simp: wake_at_def split: option.splits)

lemma wake_at_inv:
  assumes "sched_inv busy s"
  shows "sched_inv busy (fst (wake_at n w s))"
proof -
  note i = sched_invD [OF assms]
  let ?s = "fst (wake_at n w s)"
  show ?thesis
  proof (rule sched_invI)
    show "queue_ok ?s" by (rule inv_frame(1) [OF i(1)]) simp_all
    show "timers_ok ?s" using i(2)
      by (auto simp: timers_ok_def wake_at_def heap_push_ok split: option.splits)
    show "flags_ok busy ?s" by (rule inv_frame(3) [OF i(3)]) simp_all
    show "wired busy ?s" by (rule inv_frame(4) [OF i(4)]) simp_all
    show "known_ok ?s" using i(5) stored_registered [OF i(3,4), of n]
      by (fastforce simp: known_ok_def wake_at_def split: option.splits)
    show "wakeups_ok busy ?s" by (rule inv_frame(6) [OF i(6)]) simp_all
  qed
qed

lemma frame_inv:
  assumes "sched_inv busy s"
    "nodes s' = nodes s" "components s' = components s" "ready_flags s' = ready_flags s"
    "ready_queue s' = ready_queue s" "ready_set s' = ready_set s" "timers s' = timers s"
    "timer_latest_by_node s' = timer_latest_by_node s" "flag_store s' = flag_store s"
    "next_flag s' = next_flag s" "queue_depth (metrics s') = queue_depth (metrics s)"
  shows "sched_inv busy s'"
  using assms by (intro sched_invI; meson inv_frame sched_invD)

lemma stop_inv: "sched_inv busy s \<Longrightarrow> sched_inv busy (sched_stop s)"
  by (erule frame_inv) (simp_all add: sched_stop_def)

lemma metrics_snapshot_inv: "sched_inv busy s \<Longrightarrow> sched_inv busy (fst (metrics_snapshot now s))"
  by (erule frame_inv) (simp_all add: metrics_snapshot_def Let_def)

section \<open>Deadlines\<close>

text \<open>Pruning removes superseded entries only, and stops at the earliest valid one.\<close>

definition prunes :: "(string \<rightharpoonup> instant) \<Rightarrow> timer_heap \<Rightarrow> timer_heap \<Rightarrow> bool" where
  "prunes latest h h' \<longleftrightarrow>
     set h' \<subseteq> set h \<and> (heap_ok h \<longrightarrow> heap_ok h') \<and>
     (\<forall>t n. TimerWake t n \<in> set h \<longrightarrow> latest n = Some t \<longrightarrow> TimerWake t n \<in> set h')"

lemma prunes_pop:
  assumes "heap_peek h = Some e" "latest (wake_node e) \<noteq> Some (wake_when e)"
    "prunes latest (heap_pop h) h'"
  shows "prunes latest h h'"
  using assms timers.pop_subset [OF assms(1)] timers.pop_ok [of h] timers.pop_other [OF assms(1)]
  by (fastforce simp: prunes_def)

lemma valid_deadline_prunes:
  assumes "valid_deadline latest h = (h', d)"
  shows "prunes latest h h'"
  using assms
proof (induction latest h rule: valid_deadline.induct)
  case (1 latest h)
  show ?case
  proof (cases "heap_peek h")
    case None
    with 1 show ?thesis by (simp add: valid_deadline.simps [of latest h] prunes_def)
  next
    case (Some e)
    show ?thesis
    proof (cases "latest (wake_node e) = Some (wake_when e)")
      case True
      with 1 Some show ?thesis by (simp add: valid_deadline.simps [of latest h] prunes_def)
    next
      case False
      with 1 Some show ?thesis
        by (intro prunes_pop [of h e]) (simp_all add: valid_deadline.simps [of latest h])
    qed
  qed
qed

lemma valid_deadline_Some:
  assumes "valid_deadline latest h = (h', Some w)"
  shows "\<exists>n. heap_peek h' = Some (TimerWake w n) \<and> latest n = Some w"
  using assms
proof (induction latest h rule: valid_deadline.induct)
  case (1 latest h)
  then show ?case
    by (subst (asm) (2) valid_deadline.simps)
      (force split: option.splits if_splits intro: TimerWake.expand)
qed

lemma valid_deadline_None: "valid_deadline latest h = (h', None) \<Longrightarrow> h' = []"
proof (induction latest h rule: valid_deadline.induct)
  case (1 latest h)
  then show ?case
    by (subst (asm) (2) valid_deadline.simps)
      (auto simp: timers.peek_None split: option.splits if_splits)
qed

lemma timers_ok_prune:
  assumes "timers_ok s" "prunes (timer_latest_by_node s) (timers s) h"
  shows "timers_ok (s\<lparr>timers := h\<rparr>)"
  using assms by (auto simp: timers_ok_def prunes_def)

lemma next_deadline_cases:
  assumes "next_valid_timer_deadline s = (s1, d)"
  obtains h where "s1 = s\<lparr>timers := h\<rparr>" "valid_deadline (timer_latest_by_node s) (timers s) = (h, d)"
    "prunes (timer_latest_by_node s) (timers s) h"
  using assms that valid_deadline_prunes
  by (auto simp: next_valid_timer_deadline_def split: prod.splits)

lemma next_deadline_least:
  assumes ok: "timers_ok s" and d: "next_valid_timer_deadline s = (s1, d)"
  shows "case d of
           None \<Rightarrow> timer_latest_by_node s = Map.empty
         | Some w \<Rightarrow> (\<exists>n. timer_latest_by_node s n = Some w \<and> heap_peek (timers s1) = Some (TimerWake w n)) \<and>
             (\<forall>n t. timer_latest_by_node s n = Some t \<longrightarrow> w \<le> t)"
proof -
  from d obtain h where h: "s1 = s\<lparr>timers := h\<rparr>"
    "valid_deadline (timer_latest_by_node s) (timers s) = (h, d)"
    "prunes (timer_latest_by_node s) (timers s) h"
    by (rule next_deadline_cases)
  have ok1: "timers_ok s1" using timers_ok_prune [OF ok h(3)] h(1) by simp
  show ?thesis
  proof (cases d)
    case None
    with h ok1 have "timers s1 = []" by (auto dest: valid_deadline_None)
    with ok1 h(1) show ?thesis using None by (auto simp: timers_ok_def)
  next
    case (Some w)
    with h obtain n where n: "heap_peek (timers s1) = Some (TimerWake w n)"
      "timer_latest_by_node s n = Some w"
      by (auto dest: valid_deadline_Some)
    have "w \<le> t" if "timer_latest_by_node s m = Some t" for m t
    proof -
      have "TimerWake t m \<in> set (timers s1)" using ok1 that h(1) by (simp add: timers_ok_def)
      then show ?thesis
        using heap_peek_earliest [OF _ n(1)] ok1 by (force simp: timers_ok_def)
    qed
    with n show ?thesis using Some by auto
  qed
qed

text \<open>The induction principle of the drain loop: pruning, and firing the timer that is on top.\<close>

lemma drain_loop_induct [consumes 1, case_names prune fire]:
  assumes "I s"
    and "\<And>s h. I s \<Longrightarrow> prunes (timer_latest_by_node s) (timers s) h \<Longrightarrow> I (s\<lparr>timers := h\<rparr>)"
    and "\<And>s e. I s \<Longrightarrow> heap_peek (timers s) = Some e \<Longrightarrow> wake_when e \<le> now \<Longrightarrow>
           timer_latest_by_node s (wake_node e) = Some (wake_when e) \<Longrightarrow>
           I (fire_timer e (s\<lparr>timers := heap_pop (timers s)\<rparr>))"
  shows "I (drain_loop now s)"
  using assms
proof (induction now s rule: drain_loop.induct)
  case (1 now s)
  obtain s1 d where d: "next_valid_timer_deadline s = (s1, d)" by fastforce
  then obtain h where h: "s1 = s\<lparr>timers := h\<rparr>"
    "valid_deadline (timer_latest_by_node s) (timers s) = (h, d)"
    "prunes (timer_latest_by_node s) (timers s) h"
    by (rule next_deadline_cases)
  have I1: "I s1" using 1(3) [OF 1(2) h(3)] h(1) by simp
  show ?case
  proof (cases d)
    case None
    with d I1 show ?thesis by (simp add: drain_loop.simps [of now s])
  next
    case (Some w)
    with h obtain n where n: "heap_peek (timers s1) = Some (TimerWake w n)"
      "timer_latest_by_node s1 n = Some w"
      by (auto dest: valid_deadline_Some)
    show ?thesis
    proof (cases "now < w")
      case True
      with d Some I1 show ?thesis by (simp add: drain_loop.simps [of now s])
    next
      case False
      then have "I (fire_timer (TimerWake w n) (s1\<lparr>timers := heap_pop (timers s1)\<rparr>))"
        using n 1(4) [OF I1, of "TimerWake w n"] by simp
      then have "I (drain_loop now (fire_timer (TimerWake w n) (s1\<lparr>timers := heap_pop (timers s1)\<rparr>)))"
        using 1(1) [OF d [symmetric] Some False n(1)] 1(3,4) by blast
      then show ?thesis using d Some False n by (simp add: drain_loop.simps [of now s])
    qed
  qed
qed

lemma fire_timer_on_time:
  assumes "timer_latest_by_node s (wake_node e) = Some (wake_when e)"
  shows
    "timer_latest_by_node (fire_timer e s) = (timer_latest_by_node s)(wake_node e := None)"
    "nodes (fire_timer e s) =
       (\<lambda>m. if m = wake_node e then map_option (mark_timer_fired (wake_when e)) (nodes s m) else nodes s m)"
    "flag_store (fire_timer e s) = (case ready_flags s (wake_node e) of None \<Rightarrow> flag_store s
       | Some flag \<Rightarrow> (flag_store s)(flag := True))"
    "ready_set (fire_timer e s) = insert (wake_node e) (ready_set s)"
    "ready_queue (fire_timer e s) =
       (if wake_node e \<in> ready_set s then ready_queue s else ready_queue s @ [wake_node e])"
  using assms
  by (auto simp: fire_timer_def Let_def enqueue_queue fun_eq_iff split: option.splits)

lemma fire_timer_frame [simp]:
  "components (fire_timer e s) = components s" "ready_flags (fire_timer e s) = ready_flags s"
  "running (fire_timer e s) = running s" "next_flag (fire_timer e s) = next_flag s"
  "metrics (fire_timer e s) = metrics s"
  by (simp_all add: fire_timer_def Let_def)

lemma mark_timer_fired_signal [simp]: "ready_signal (mark_timer_fired t ctx) = ready_signal ctx"
  by (simp add: mark_timer_fired_def)

text \<open>The invariant without the depth, which is updated once the loop is done.\<close>

definition drain_inv :: "'c Scheduler \<Rightarrow> bool" where
  "drain_inv s \<longleftrightarrow> distinct (ready_queue s) \<and> ready_set s = set (ready_queue s) \<and>
     timers_ok s \<and> flags_ok None s \<and> wired None s \<and> known_ok s \<and> wakeups_ok None s"

lemma drain_inv_prune:
  assumes "drain_inv s" "prunes (timer_latest_by_node s) (timers s) h"
  shows "drain_inv (s\<lparr>timers := h\<rparr>)"
  using assms timers_ok_prune [of s h]
  by (auto simp: drain_inv_def elim: inv_frame)

lemma fire_timer_drain_inv:
  assumes inv: "drain_inv s" and e: "heap_peek (timers s) = Some e"
    and now: "timer_latest_by_node s (wake_node e) = Some (wake_when e)"
  shows "drain_inv (fire_timer e (s\<lparr>timers := heap_pop (timers s)\<rparr>))"
proof -
  let ?p = "s\<lparr>timers := heap_pop (timers s)\<rparr>"
  let ?s = "fire_timer e ?p"
  have nowp: "timer_latest_by_node ?p (wake_node e) = Some (wake_when e)" using now by simp
  note f = fire_timer_on_time [OF nowp]
  have i: "timers_ok s" "flags_ok None s" "wired None s" "known_ok s" "wakeups_ok None s"
    using inv by (simp_all add: drain_inv_def)
  have q: "distinct (ready_queue ?s)" "ready_set ?s = set (ready_queue ?s)"
    using inv f by (auto simp: drain_inv_def)
  have t: "timers_ok ?s" unfolding timers_ok_def
  proof (intro conjI allI impI)
    show "heap_ok (timers ?s)" using i(1) timers.pop_ok by (simp add: timers_ok_def)
    fix n t
    assume "timer_latest_by_node ?s n = Some t"
    then have n: "n \<noteq> wake_node e" "timer_latest_by_node s n = Some t"
      by (auto simp: f split: if_splits)
    then have "TimerWake t n \<in> set (timers s)" using i(1) by (simp add: timers_ok_def)
    then show "TimerWake t n \<in> set (timers ?s)" using timers.pop_other [OF e] n by fastforce
  qed
  have fl: "flags_ok None ?s" using i(2) unfolding flags_ok_def
    by (auto simp: f option.map_comp comp_def)
  have w: "wired None ?s" using i(3) by (auto simp: wired_def f dom_def)
  have k: "known_ok ?s" using i(4) now by (auto simp: known_ok_def f split: if_splits)
  have wk: "wakeups_ok None ?s" unfolding wakeups_ok_def
  proof (intro allI impI)
    fix m a
    assume m: "ready_flags ?s m = Some a" "flag_store ?s a"
    show "m \<in> ready_set ?s \<or> (\<exists>ctx. None = Some (m, ctx))"
    proof (cases "m = wake_node e")
      case False
      with m flags_okD(2) [OF i(2), of m a "wake_node e"] have "flag_store s a"
        by (auto simp: f split: option.splits if_splits)
      with i(5) m show ?thesis by (auto simp: wakeups_ok_def f)
    qed (simp add: f)
  qed
  from q t fl w k wk show ?thesis by (simp add: drain_inv_def)
qed

lemma drain_loop_drain_inv: "drain_inv s \<Longrightarrow> drain_inv (drain_loop now s)"
  by (induction rule: drain_loop_induct) (auto intro: drain_inv_prune fire_timer_drain_inv)

lemma sched_inv_drain_inv: "sched_inv None s \<longleftrightarrow> drain_inv s \<and> queue_depth (metrics s) = length (ready_queue s)"
  by (auto simp: sched_inv_def drain_inv_def queue_ok_def)

lemma drain_expired_timers_inv:
  assumes "sched_inv None s"
  shows "sched_inv None (drain_expired_timers now s)"
proof -
  have "drain_inv (drain_loop now s)"
    using assms by (simp add: sched_inv_drain_inv drain_loop_drain_inv)
  then have "drain_inv (drain_expired_timers now s)"
    unfolding drain_expired_timers_def drain_inv_def
    by (auto elim: inv_frame)
  then show ?thesis
    by (simp add: sched_inv_drain_inv drain_expired_timers_def)
qed

text \<open>After the loop no deadline is due.\<close>

lemma drain_loop_exit:
  assumes "drain_inv s" "timer_latest_by_node (drain_loop now s) n = Some t"
  shows "now < t"
  using assms
proof (induction now s rule: drain_loop.induct)
  case (1 now s)
  obtain s1 d where d: "next_valid_timer_deadline s = (s1, d)" by fastforce
  then obtain h where h: "s1 = s\<lparr>timers := h\<rparr>" "prunes (timer_latest_by_node s) (timers s) h"
    by (rule next_deadline_cases)
  have "timers_ok s" using 1(2) by (simp add: drain_inv_def)
  note least = next_deadline_least [OF this d]
  have inv1: "drain_inv s1" using drain_inv_prune [OF 1(2) h(2)] h(1) by simp
  show ?case
  proof (cases d)
    case None
    with least 1(3) d h(1) show ?thesis by (simp add: drain_loop.simps [of now s])
  next
    case (Some w)
    with least h(1) obtain m where m: "heap_peek (timers s1) = Some (TimerWake w m)"
      "timer_latest_by_node s1 m = Some w" "\<forall>n t. timer_latest_by_node s1 n = Some t \<longrightarrow> w \<le> t"
      by auto
    show ?thesis
    proof (cases "now < w")
      case True
      with d Some 1(3) m(3) show ?thesis by (fastforce simp: drain_loop.simps [of now s])
    next
      case False
      have "drain_inv (fire_timer (TimerWake w m) (s1\<lparr>timers := heap_pop (timers s1)\<rparr>))"
        using fire_timer_drain_inv [OF inv1 m(1)] m(2) by simp
      then show ?thesis
        using 1(1) [OF d [symmetric] Some False m(1)] 1(3) d Some False m(1)
        by (simp add: drain_loop.simps [of now s])
    qed
  qed
qed

text \<open>What the loop has done so far, relative to the state it started from.\<close>

definition drained :: "instant \<Rightarrow> 'c Scheduler \<Rightarrow> 'c Scheduler \<Rightarrow> bool" where
  "drained now s0 s \<longleftrightarrow>
     (\<forall>n. timer_latest_by_node s n = timer_latest_by_node s0 n \<or>
          timer_latest_by_node s n = None \<and> (\<exists>t. timer_latest_by_node s0 n = Some t \<and> t \<le> now)) \<and>
     ready_set s = ready_set s0 \<union> {n. timer_latest_by_node s n \<noteq> timer_latest_by_node s0 n} \<and>
     (\<exists>woken. ready_queue s = ready_queue s0 @ woken) \<and>
     (\<forall>n. nodes s n =
        (if timer_latest_by_node s n = timer_latest_by_node s0 n then nodes s0 n
         else map_option (mark_timer_fired (the (timer_latest_by_node s0 n))) (nodes s0 n))) \<and>
     components s = components s0 \<and> ready_flags s = ready_flags s0 \<and> running s = running s0 \<and>
     next_flag s = next_flag s0"

lemma drained_fire:
  assumes d: "drained now s0 s" and due: "wake_when e \<le> now"
    and l: "timer_latest_by_node s (wake_node e) = Some (wake_when e)"
  shows "drained now s0 (fire_timer e (s\<lparr>timers := heap_pop (timers s)\<rparr>))"
proof -
  let ?p = "s\<lparr>timers := heap_pop (timers s)\<rparr>"
  have lp: "timer_latest_by_node ?p (wake_node e) = Some (wake_when e)" using l by simp
  have l0: "timer_latest_by_node s0 (wake_node e) = Some (wake_when e)"
    using d l unfolding drained_def by (metis option.distinct(1))
  note f = fire_timer_on_time [OF lp]
  show ?thesis unfolding drained_def
  proof (intro conjI allI)
    fix n
    show "timer_latest_by_node (fire_timer e ?p) n = timer_latest_by_node s0 n \<or>
        timer_latest_by_node (fire_timer e ?p) n = None \<and>
        (\<exists>t. timer_latest_by_node s0 n = Some t \<and> t \<le> now)"
      using d l0 due unfolding drained_def f by (cases "n = wake_node e") simp_all
    show "nodes (fire_timer e ?p) n =
        (if timer_latest_by_node (fire_timer e ?p) n = timer_latest_by_node s0 n then nodes s0 n
         else map_option (mark_timer_fired (the (timer_latest_by_node s0 n))) (nodes s0 n))"
      using d l0 l unfolding drained_def f by (cases "n = wake_node e") simp_all
    show "ready_set (fire_timer e ?p) =
        ready_set s0 \<union> {n. timer_latest_by_node (fire_timer e ?p) n \<noteq> timer_latest_by_node s0 n}"
      using d l0 l unfolding drained_def f by (auto split: if_splits)
    show "\<exists>woken. ready_queue (fire_timer e ?p) = ready_queue s0 @ woken"
      using d unfolding drained_def f by auto
  qed (use d in \<open>simp_all add: drained_def\<close>)
qed

lemma drain_loop_drained: "drained now s (drain_loop now s)"
proof -
  have "drained now s s" by (auto simp: drained_def)
  then show ?thesis
  proof (induction rule: drain_loop_induct)
    case (prune r h)
    then show ?case by (simp add: drained_def)
  next
    case (fire r e)
    then show ?case by (intro drained_fire)
  qed
qed

text \<open>The nodes whose latest deadline has passed.\<close>

definition due :: "instant \<Rightarrow> 'c Scheduler \<Rightarrow> string set" where
  "due now s = {n. \<exists>t. timer_latest_by_node s n = Some t \<and> t \<le> now}"

lemma drain_latest:
  assumes "sched_inv None s"
  shows "timer_latest_by_node (drain_expired_timers now s) n =
    (if n \<in> due now s then None else timer_latest_by_node s n)"
proof -
  have "drain_inv s" using assms by (simp add: sched_inv_drain_inv)
  then have late: "now < t" if "timer_latest_by_node (drain_loop now s) n = Some t" for t
    using that by (rule drain_loop_exit)
  have "timer_latest_by_node (drain_loop now s) n = timer_latest_by_node s n \<or>
      timer_latest_by_node (drain_loop now s) n = None \<and> n \<in> due now s"
    using drain_loop_drained [of now s] by (auto simp: drained_def due_def)
  then show ?thesis
  proof
    assume same: "timer_latest_by_node (drain_loop now s) n = timer_latest_by_node s n"
    with late have "n \<notin> due now s" by (auto simp: due_def leD)
    with same show ?thesis by (simp add: drain_expired_timers_def)
  qed (simp add: drain_expired_timers_def)
qed

lemma drain_frame [simp]:
  "components (drain_expired_timers now s) = components s"
  "ready_flags (drain_expired_timers now s) = ready_flags s"
  "running (drain_expired_timers now s) = running s"
  "next_flag (drain_expired_timers now s) = next_flag s"
  using drain_loop_drained [of now s] by (simp_all add: drained_def drain_expired_timers_def)

lemma drain_changed:
  assumes "sched_inv None s"
  shows "timer_latest_by_node (drain_loop now s) n = timer_latest_by_node s n \<longleftrightarrow> n \<notin> due now s"
  using drain_latest [OF assms, of now n] by (auto simp: due_def drain_expired_timers_def)

lemma drain_ready_set:
  assumes "sched_inv None s"
  shows "ready_set (drain_expired_timers now s) = ready_set s \<union> due now s"
  using drain_loop_drained [of now s] drain_changed [OF assms, of now]
  by (auto simp: drained_def drain_expired_timers_def)

lemma drain_nodes:
  assumes "sched_inv None s"
  shows "nodes (drain_expired_timers now s) n =
    (if n \<in> due now s
     then map_option (mark_timer_fired (the (timer_latest_by_node s n))) (nodes s n) else nodes s n)"
  using drain_loop_drained [of now s] drain_changed [OF assms, of now n]
  by (auto simp: drained_def drain_expired_timers_def)

lemma drain_queue:
  assumes "sched_inv None s"
  shows "\<exists>woken. ready_queue (drain_expired_timers now s) = ready_queue s @ woken \<and>
           distinct woken \<and> set woken = due now s - ready_set s"
proof -
  obtain woken where w: "ready_queue (drain_expired_timers now s) = ready_queue s @ woken"
    using drain_loop_drained [of now s] by (auto simp: drained_def drain_expired_timers_def)
  have "queue_ok s" "queue_ok (drain_expired_timers now s)"
    using assms drain_expired_timers_inv sched_invD(1) by blast+
  with w drain_ready_set [OF assms, of now] show ?thesis
    by (intro exI [of _ woken]) (auto simp: queue_ok_def)
qed

section \<open>Waiting for work and picking a node\<close>

text \<open>When the thread decides to sleep, nothing is queued and no deadline is before the timeout.\<close>

definition sleep_ok :: "instant option \<Rightarrow> 'c Scheduler \<Rightarrow> bool" where
  "sleep_ok w s \<longleftrightarrow>
     ready_queue s = [] \<and> (\<forall>n t. timer_latest_by_node s n = Some t \<longrightarrow> (\<exists>u. w = Some u \<and> u \<le> t))"

lemma next_deadline_inv:
  assumes "sched_inv None s" "next_valid_timer_deadline s = (s1, d)"
  shows "sched_inv None s1" "timer_latest_by_node s1 = timer_latest_by_node s"
    "ready_queue s1 = ready_queue s" "running s1 = running s" "ready_flags s1 = ready_flags s"
    "nodes s1 = nodes s" "components s1 = components s" "ready_set s1 = ready_set s"
proof -
  obtain h where h: "s1 = s\<lparr>timers := h\<rparr>" "prunes (timer_latest_by_node s) (timers s) h"
    using assms(2) by (rule next_deadline_cases)
  have "drain_inv s1"
    using assms(1) h by (auto simp: sched_inv_drain_inv intro: drain_inv_prune)
  with assms(1) h(1) show "sched_inv None s1" by (simp add: sched_inv_drain_inv)
qed (use assms(2) in \<open>auto simp: next_valid_timer_deadline_def split: prod.splits\<close>)

lemma run_check_cases:
  assumes "sched_inv None s" "run_check now now2 s = (s', d)"
  shows "sched_inv None s' \<and>
    (case d of
       Proceed \<Rightarrow> \<not> running s' \<or> ready_queue s' \<noteq> []
     | Recheck \<Rightarrow> running s'
     | Wait w \<Rightarrow> running s' \<and> sleep_ok w s')"
proof -
  let ?d = "drain_expired_timers now s"
  have inv: "sched_inv None ?d" using assms(1) by (rule drain_expired_timers_inv)
  obtain s2 w where n: "next_valid_timer_deadline ?d = (s2, w)" by fastforce
  note next_deadline = next_deadline_inv [OF inv n]
  have least: "case w of None \<Rightarrow> timer_latest_by_node s2 = Map.empty
    | Some u \<Rightarrow> \<forall>n t. timer_latest_by_node s2 n = Some t \<longrightarrow> u \<le> t"
    using next_deadline_least [OF sched_invD(2) [OF inv] n] next_deadline(2)
    by (auto split: option.splits)
  show ?thesis
    using assms(2) n inv next_deadline least
    by (auto simp: run_check_def Let_def sleep_ok_def split: if_splits option.splits)
qed

lemma run_check_frame:
  assumes "sched_inv None s" "run_check now now2 s = (s', d)"
  shows "ready_flags s' = ready_flags s" "running s' = running s" "components s' = components s"
    "\<exists>woken. ready_queue s' = ready_queue s @ woken" "dom (nodes s') = dom (nodes s)"
proof -
  let ?d = "drain_expired_timers now s"
  have inv: "sched_inv None ?d" using assms(1) by (rule drain_expired_timers_inv)
  obtain s2 w where n: "next_valid_timer_deadline ?d = (s2, w)" by fastforce
  note next_deadline = next_deadline_inv [OF inv n]
  have "s' = ?d \<or> s' = s2"
    using assms(2) n by (auto simp: run_check_def Let_def split: if_splits option.splits)
  then show "ready_flags s' = ready_flags s" "running s' = running s" "components s' = components s"
    "\<exists>woken. ready_queue s' = ready_queue s @ woken" "dom (nodes s') = dom (nodes s)"
    using next_deadline drain_queue [OF assms(1), of now]
    by (auto simp: drain_nodes [OF assms(1)] dom_def split: if_splits)
qed

lemma queued_stored:
  assumes "sched_inv None s" "n \<in> ready_set s"
  obtains c ctx where "components s n = Some c" "nodes s n = Some ctx"
proof -
  note i = sched_invD [OF assms(1)]
  have "n \<in> dom (ready_flags s)" using i(5) assms(2) by (auto simp: known_ok_def)
  then obtain ctx where "nodes s n = Some ctx"
    using flags_okD(1) [OF i(3), of n] by (cases "nodes s n") auto
  moreover have "n \<in> dom (components s)" using i(4) calculation by (auto simp: wired_def)
  ultimately show thesis using that by auto
qed

lemma run_pick_cases:
  assumes inv: "sched_inv None s" and p: "run_pick s = (s', r)"
  shows "case r of
      PickExit \<Rightarrow> s' = s \<and> \<not> running s
    | PickNone \<Rightarrow> s' = s \<and> ready_queue s = []
    | PickSkip n \<Rightarrow> False
    | PickRun n c ctx \<Rightarrow> running s \<and> ready_queue s = n # ready_queue s' \<and>
        components s n = Some c \<and> nodes s n = Some ctx \<and> ready_flags s' = ready_flags s \<and>
        running s' = running s \<and> sched_inv (Some (n, ctx)) s'"
proof (cases "running s \<and> ready_queue s \<noteq> []")
  case False
  with p show ?thesis by (cases "running s") (auto simp: run_pick_def)
next
  case True
  then obtain n rest where q: "ready_queue s = n # rest" "running s" by (cases "ready_queue s") auto
  note i = sched_invD [OF inv]
  have "n \<in> ready_set s" using i(1) q by (auto simp: queue_ok_def)
  then obtain c ctx where n: "components s n = Some c" "nodes s n = Some ctx"
    using queued_stored [OF inv] by blast
  then have s': "r = PickRun n c ctx"
    "s' = s\<lparr>ready_queue := rest, ready_set := ready_set s - {n},
        metrics := (metrics s)\<lparr>queue_depth := length rest,
          loop_iterations := loop_iterations (metrics s) + 1\<rparr>,
        components := (components s)(n := None), nodes := (nodes s)(n := None)\<rparr>"
    using p q by (auto simp: run_pick_def Let_def)
  have upd: "contexts (Some (n, ctx)) s' = contexts None s"
    using n s' by (simp add: fun_upd_idem)
  have "sched_inv (Some (n, ctx)) s'"
  proof (rule sched_invI)
    show "queue_ok s'" using i(1) q by (auto simp: queue_ok_def s')
    show "timers_ok s'" by (rule inv_frame(2) [OF i(2)]) (simp_all add: s')
    show "flags_ok (Some (n, ctx)) s'" using i(3) unfolding flags_ok_def upd by (simp add: s')
    show "wired (Some (n, ctx)) s'" using i(4) by (auto simp: wired_def s')
    show "known_ok s'" using i(5) by (auto simp: known_ok_def s')
    show "wakeups_ok (Some (n, ctx)) s'" using i(6) by (auto simp: wakeups_ok_def s')
  qed
  with n q s' show ?thesis by simp
qed

end
