(* ===== verification/Scheduler_Exec.thy ===== *)
theory Scheduler_Exec
  imports Scheduler_Inv
begin

text \<open>
  One execution of a component: the invariant while a node is busy, the budget bound and the
  accounting of \<open>execute_component\<close>, and what the second critical section does with the outcome.
\<close>

section \<open>A busy node\<close>

text \<open>While a node is busy only its own flag and its own context change.\<close>

lemma busy_update:
  assumes inv: "sched_inv (Some (n, ctx)) s" and same: "ready_signal ctx' = ready_signal ctx"
    and other: "\<And>f. f \<noteq> ready_signal ctx \<Longrightarrow> a f = flag_store s f"
  shows "sched_inv (Some (n, ctx')) (s\<lparr>flag_store := a\<rparr>)"
proof -
  let ?s = "s\<lparr>flag_store := a\<rparr>"
  note i = sched_invD [OF inv]
  show ?thesis
  proof (rule sched_invI)
    show "queue_ok ?s" by (rule inv_frame(1) [OF i(1)]) simp_all
    show "timers_ok ?s" by (rule inv_frame(2) [OF i(2)]) simp_all
    show "flags_ok (Some (n, ctx')) ?s" by (rule flags_ok_same [OF i(3)]) (simp_all add: same)
    show "wired (Some (n, ctx')) ?s" using i(4) by (simp add: wired_def)
    show "known_ok ?s" by (rule inv_frame(5) [OF i(5)]) simp_all
    show "wakeups_ok (Some (n, ctx')) ?s" unfolding wakeups_ok_def
    proof (intro allI impI)
      fix m f
      assume m: "ready_flags ?s m = Some f" "flag_store ?s f"
      show "m \<in> ready_set ?s \<or> (\<exists>c. Some (n, ctx') = Some (m, c))"
      proof (cases "f = ready_signal ctx")
        case True
        with m flags_okD(2) [OF i(3), of m f n] busy_registered [OF i(3)] show ?thesis by simp
      next
        case False
        with m other i(6) show ?thesis by (auto simp: wakeups_ok_def)
      qed
    qed
  qed
qed

lemma exec_begin_inv:
  assumes "sched_inv (Some (n, ctx)) s" "exec_begin ctx (flag_store s) = (ctx1, a)"
  shows "sched_inv (Some (n, ctx1)) (s\<lparr>flag_store := a\<rparr>)"
  using assms(2) by (intro busy_update [OF assms(1)]) (auto simp: exec_begin_def context_defs)

text \<open>The component, context, outcome and atomics that an iteration leaves.\<close>

fun iteration_result ::
    "'c iteration \<Rightarrow> ('c \<times> NodeContext \<times> ExecutionOutcome \<times> atomics) option" where
  "iteration_result IterAborted = None"
| "iteration_result (IterDone c ctx out a) = Some (c, ctx, out, a)"
| "iteration_result (IterContinue c ctx out a) = Some (c, ctx, out, a)"

lemma exec_iteration_store:
  assumes "iteration_result (exec_iteration call ctx out a) = Some (c1, ctx1, out1, a1)"
  shows "ready_signal ctx1 = ready_signal ctx" "f \<noteq> ready_signal ctx \<Longrightarrow> a1 f = a f"
  using assms
  by (auto simp: exec_iteration_def Let_def apply_flag_def context_defs
      split: if_splits option.splits ProcessResult.splits)

lemma exec_iteration_inv:
  assumes "sched_inv (Some (n, ctx)) s"
    "iteration_result (exec_iteration call ctx out (flag_store s)) = Some (c1, ctx1, out1, a1)"
  shows "sched_inv (Some (n, ctx1)) (s\<lparr>flag_store := a1\<rparr>)"
  using exec_iteration_store [OF assms(2)] by (intro busy_update [OF assms(1)]) auto

section \<open>The second critical section\<close>

lemma record_execution_frame [simp]:
  "nodes (record_execution n out s) = nodes s" "components (record_execution n out s) = components s"
  "ready_flags (record_execution n out s) = ready_flags s"
  "ready_queue (record_execution n out s) = ready_queue s"
  "ready_set (record_execution n out s) = ready_set s" "timers (record_execution n out s) = timers s"
  "timer_latest_by_node (record_execution n out s) = timer_latest_by_node s"
  "flag_store (record_execution n out s) = flag_store s" "running (record_execution n out s) = running s"
  "next_flag (record_execution n out s) = next_flag s"
  "queue_depth (metrics (record_execution n out s)) = queue_depth (metrics s)"
  by (simp_all add: record_execution_def)

lemma record_execution_inv: "sched_inv busy s \<Longrightarrow> sched_inv busy (record_execution n out s)"
  by (erule frame_inv) simp_all

lemma retire_frame [simp]:
  "nodes (retire n s) = nodes s" "components (retire n s) = components s"
  "ready_flags (retire n s) = (ready_flags s)(n := None)"
  "ready_queue (retire n s) = filter (\<lambda>m. m \<noteq> n) (ready_queue s)"
  "ready_set (retire n s) = ready_set s - {n}" "timers (retire n s) = timers s"
  "timer_latest_by_node (retire n s) = (timer_latest_by_node s)(n := None)"
  "flag_store (retire n s) = flag_store s" "next_flag (retire n s) = next_flag s"
  "queue_depth (metrics (retire n s)) = length (filter (\<lambda>m. m \<noteq> n) (ready_queue s))"
  "running (retire n s) \<longleftrightarrow> running s \<and> (nodes s \<noteq> Map.empty \<or> components s \<noteq> Map.empty)"
  by (auto simp: retire_def Let_def)

lemma retire_inv:
  assumes inv: "sched_inv (Some (n, ctx)) s"
  shows "sched_inv None (retire n s)"
proof -
  note i = sched_invD [OF inv]
  have out: "nodes s n = None" using i(4) by (simp add: wired_def)
  show ?thesis
  proof (rule sched_invI)
    show "queue_ok (retire n s)" using i(1) by (auto simp: queue_ok_def)
    show "timers_ok (retire n s)" using i(2) by (auto simp: timers_ok_def)
    show "wired None (retire n s)" using i(4) by (simp add: wired_def)
    show "known_ok (retire n s)" using i(5) by (auto simp: known_ok_def)
    show "wakeups_ok None (retire n s)" using i(6) by (auto simp: wakeups_ok_def)
    show "flags_ok None (retire n s)" unfolding flags_ok_def
    proof (intro conjI allI impI)
      fix m k f
      show "ready_flags (retire n s) m = map_option ready_signal (contexts None (retire n s) m)"
        using flags_okD(1) [OF i(3), of m] out by (cases "m = n") simp_all
      show "m = k" if "ready_flags (retire n s) m = Some f" "ready_flags (retire n s) k = Some f"
        using that flags_okD(2) [OF i(3), of m f k] by (auto split: if_splits)
      show "f < next_flag (retire n s)" if "ready_flags (retire n s) m = Some f"
        using that flags_okD(3) [OF i(3), of m f] by (auto split: if_splits)
    qed
  qed
qed

lemma restore_frame [simp]:
  "ready_flags (restore n c ctx out s) = ready_flags s"
  "components (restore n c ctx out s) = (components s)(n \<mapsto> c)"
  "nodes (restore n c ctx out s) = (nodes s)(n \<mapsto> ctx\<lparr>ctx_wake_at := None\<rparr>)"
  "flag_store (restore n c ctx out s) = flag_store s" "running (restore n c ctx out s) = running s"
  "next_flag (restore n c ctx out s) = next_flag s"
  by (auto simp: restore_def Let_def take_wake_at_def split: option.splits)

lemma restore_queue:
  "ready_queue (restore n c ctx out s) =
     (if (did_work out \<or> is_ready ctx (flag_store s)) \<and> n \<notin> ready_set s
      then ready_queue s @ [n] else ready_queue s)"
  "ready_set (restore n c ctx out s) =
     (if did_work out \<or> is_ready ctx (flag_store s) then insert n (ready_set s) else ready_set s)"
  "queue_depth (metrics (restore n c ctx out s)) =
     (if (did_work out \<or> is_ready ctx (flag_store s)) \<and> n \<notin> ready_set s
      then Suc (length (ready_queue s)) else queue_depth (metrics s))"
  by (auto simp: restore_def Let_def take_wake_at_def enqueue_queue split: option.splits)

lemma restore_timers:
  "timers (restore n c ctx out s) =
     (case ctx_wake_at ctx of None \<Rightarrow> timers s | Some w \<Rightarrow> heap_push (TimerWake w n) (timers s))"
  "timer_latest_by_node (restore n c ctx out s) =
     (case ctx_wake_at ctx of None \<Rightarrow> timer_latest_by_node s
      | Some w \<Rightarrow> (timer_latest_by_node s)(n \<mapsto> w))"
  by (auto simp: restore_def Let_def take_wake_at_def split: option.splits)

lemma restore_inv:
  assumes inv: "sched_inv (Some (n, ctx)) s"
  shows "sched_inv None (restore n c ctx out s)"
proof -
  let ?r = "restore n c ctx out s"
  note i = sched_invD [OF inv]
  have reg: "ready_flags s n = Some (ready_signal ctx)" by (rule busy_registered [OF i(3)])
  show ?thesis
  proof (rule sched_invI)
    show "queue_ok ?r" using i(1) by (auto simp: queue_ok_def restore_queue)
    show "timers_ok ?r" using i(2)
      by (auto simp: timers_ok_def restore_timers heap_push_ok split: option.splits)
    show "flags_ok None ?r" by (rule flags_ok_same [OF i(3)]) simp_all
    show "wired None ?r" using i(4) by (auto simp: wired_def)
    show "known_ok ?r" using i(5) reg
      by (auto simp: known_ok_def restore_queue restore_timers split: option.splits if_splits)
    show "wakeups_ok None ?r" unfolding wakeups_ok_def
    proof (intro allI impI)
      fix m f
      assume m: "ready_flags ?r m = Some f" "flag_store ?r f"
      show "m \<in> ready_set ?r \<or> (\<exists>ctx. None = Some (m, ctx))"
      proof (cases "m = n")
        case True
        with m reg show ?thesis by (simp add: restore_queue is_ready_def)
      next
        case False
        with m i(6) show ?thesis by (auto simp: wakeups_ok_def restore_queue)
      qed
    qed
  qed
qed

lemma run_finish_inv:
  "sched_inv (Some (n, ctx)) s \<Longrightarrow> sched_inv None (run_finish n c ctx out s)"
  by (cases "finished out")
    (auto simp: run_finish_def Let_def intro: retire_inv restore_inv record_execution_inv)

section \<open>Budget and accounting\<close>

lemma exec_loop_unfold:
  "remaining_budget ctx = 0 \<Longrightarrow> exec_loop process c ctx out a = Some (c, ctx, out, a)"
  "remaining_budget ctx \<noteq> 0 \<Longrightarrow> exec_loop process c ctx out a =
     (case exec_iteration (process c ctx) ctx out a of
        IterAborted \<Rightarrow> None
      | IterDone c1 ctx1 out1 a1 \<Rightarrow> Some (c1, ctx1, out1, a1)
      | IterContinue c1 ctx1 out1 a1 \<Rightarrow> exec_loop process c1 ctx1 out1 a1)"
  by (simp_all add: exec_loop.simps)

lemma exec_iteration_aborts:
  "exec_iteration call ctx out a = IterAborted \<longleftrightarrow> \<not> contract_ok (pc_elapsed call)"
  by (auto simp: exec_iteration_def Let_def split: option.splits ProcessResult.splits)

lemma exec_loop_total:
  assumes "\<And>c ctx. contract_ok (pc_elapsed (process c ctx))"
  shows "exec_loop process c ctx out a \<noteq> None"
  using assms
proof (induction process c ctx out a rule: exec_loop.induct)
  case (1 process c ctx out a)
  show ?case
  proof (cases "remaining_budget ctx = 0")
    case False
    then show ?thesis
    proof (cases "exec_iteration (process c ctx) ctx out a")
      case IterAborted
      with 1(2) show ?thesis by (simp add: exec_iteration_aborts)
    next
      case (IterContinue c1 ctx1 out1 a1)
      with 1(1) [OF False this 1(2)] False show ?thesis by (simp add: exec_loop_unfold)
    qed (simp add: exec_loop_unfold)
  qed (simp add: exec_loop_unfold)
qed

text \<open>
  An invariant of the loop: preserved by an iteration that continues, it gives the property of the
  result when it gives it at the end of the budget and after an iteration that ends the loop.
\<close>

lemma exec_loop_rule:
  assumes "exec_loop process c ctx out a = Some (c', ctx', out', a')" "I ctx out"
    and "\<And>c ctx out a c1 ctx1 out1 a1. I ctx out \<Longrightarrow> remaining_budget ctx \<noteq> 0 \<Longrightarrow>
      exec_iteration (process c ctx) ctx out a = IterContinue c1 ctx1 out1 a1 \<Longrightarrow> I ctx1 out1"
    and "\<And>ctx out. I ctx out \<Longrightarrow> remaining_budget ctx = 0 \<Longrightarrow> Q ctx out"
    and "\<And>c ctx out a c1 ctx1 out1 a1. I ctx out \<Longrightarrow> remaining_budget ctx \<noteq> 0 \<Longrightarrow>
      exec_iteration (process c ctx) ctx out a = IterDone c1 ctx1 out1 a1 \<Longrightarrow> Q ctx1 out1"
  shows "Q ctx' out'"
  using assms
proof (induction process c ctx out a rule: exec_loop.induct)
  case (1 process c ctx out a)
  show ?case
  proof (cases "remaining_budget ctx = 0")
    case True
    with 1(2,3,5) show ?thesis by (simp add: exec_loop_unfold)
  next
    case False
    then show ?thesis
    proof (cases "exec_iteration (process c ctx) ctx out a")
      case IterAborted
      with 1(2) False show ?thesis by (simp add: exec_loop_unfold)
    next
      case (IterDone c1 ctx1 out1 a1)
      with 1(2) 1(6) [OF 1(3) False this] False show ?thesis by (simp add: exec_loop_unfold)
    next
      case (IterContinue c1 ctx1 out1 a1)
      then have step: "exec_loop process c1 ctx1 out1 a1 = Some (c', ctx', out', a')"
        using 1(2) False by (simp add: exec_loop_unfold)
      have "I ctx1 out1" by (rule 1(4) [OF 1(3) False IterContinue])
      from 1(1) [OF False IterContinue step this 1(4) 1(5) 1(6)] show ?thesis .
    qed
  qed
qed

text \<open>What an iteration adds to the counters.\<close>

lemma exec_iteration_counts:
  assumes "exec_iteration call ctx out a = IterContinue c1 ctx1 out1 a1"
  shows "executions out1 = executions out + 1" "did_work out1" "finished out1 = finished out"
    "\<exists>u. work_units out1 = work_units out + ucast (accounted u)"
  using assms
  by (auto simp: exec_iteration_def Let_def split: if_splits option.splits ProcessResult.splits)

lemma exec_iteration_done_counts:
  assumes "exec_iteration call ctx out a = IterDone c1 ctx1 out1 a1"
  shows "executions out1 = executions out" "did_work out1 = did_work out"
    "work_units out1 = work_units out"
  using assms
  by (auto simp: exec_iteration_def Let_def split: if_splits option.splits ProcessResult.splits)

lemma unat_Suc_64:
  assumes "unat (x :: u64) < 1000"
  shows "unat (x + 1) = Suc (unat x)"
  using assms by (simp add: unat_word_ariths)

definition counts_ok :: "nat \<Rightarrow> NodeContext \<Rightarrow> ExecutionOutcome \<Rightarrow> bool" where
  "counts_ok B ctx out \<longleftrightarrow>
     unat (executions out) + unat (remaining_budget ctx) \<le> B \<and>
     (did_work out \<longleftrightarrow> executions out \<noteq> 0)"

lemma counts_ok_step:
  assumes I: "counts_ok B ctx out" "B \<le> 96" and r: "remaining_budget ctx \<noteq> 0"
    and s: "exec_iteration call ctx out a = IterContinue c1 ctx1 out1 a1"
  shows "counts_ok B ctx1 out1"
proof -
  have "unat (executions out) < 1000" using I by (simp add: counts_ok_def)
  note unat_Suc_64 [OF this]
  moreover have "unat (remaining_budget ctx1) < unat (remaining_budget ctx)"
    by (rule exec_iteration_continue [OF s r])
  moreover have "executions out1 \<noteq> 0"
    using calculation(1) exec_iteration_counts(1) [OF s] by (auto dest: arg_cong [where f = unat])
  ultimately show ?thesis
    using I exec_iteration_counts(1,2) [OF s] by (simp add: counts_ok_def)
qed

lemma execute_component_counts:
  assumes "execute_component process c ctx a = Some (c', ctx', out, a')"
  shows "unat (executions out) \<le> unat (budget_of (budget_class ctx))"
    "did_work out \<longleftrightarrow> executions out \<noteq> 0"
proof -
  obtain ctx1 a1 where b: "exec_begin ctx a = (ctx1, a1)" by fastforce
  then have B: "remaining_budget ctx1 = budget_of (budget_class ctx)"
    by (auto simp: exec_begin_def context_defs)
  let ?B = "unat (budget_of (budget_class ctx))"
  have "exec_loop process c ctx1 outcome_default a1 = Some (c', ctx', out, a')"
    using assms b by (simp add: execute_component_def)
  then have "unat (executions out) \<le> ?B \<and> (did_work out \<longleftrightarrow> executions out \<noteq> 0)"
  proof (rule exec_loop_rule [where I = "counts_ok ?B"])
    show "counts_ok ?B ctx1 outcome_default"
      by (simp add: counts_ok_def B outcome_default_def)
  qed (auto intro: counts_ok_step budget_of_bounds, auto simp: exec_iteration_done_counts counts_ok_def)
  then show "unat (executions out) \<le> ?B" "did_work out \<longleftrightarrow> executions out \<noteq> 0" by auto
qed

end
