(* ===== verification/Scheduler_Steps.thy ===== *)
theory Scheduler_Steps
  imports Scheduler_Exec
begin

text \<open>
  \<open>Scheduler::run\<close> on its own thread, interleaved with the other threads that signal nodes, set
  timers, read metrics and stop the scheduler: a step relation on a clock, the scheduler and the
  position of its thread. The mutex is held in the positions \<open>Deciding\<close> and \<open>Locked\<close>; \<open>stop\<close>
  alone does not take it.
\<close>

section \<open>Positions and steps\<close>

datatype 'c position =
    Inspect
  | Deciding "instant option"
  | Waiting "instant option"
  | Locked
  | Picked string 'c NodeContext
  | Executing string 'c NodeContext ExecutionOutcome
  | Collect string 'c NodeContext ExecutionOutcome
  | Exited
  | Aborted

type_synonym 'c config = "instant \<times> 'c Scheduler \<times> 'c position"

fun lock_free :: "'c position \<Rightarrow> bool" where
  "lock_free (Deciding w) = False"
| "lock_free Locked = False"
| "lock_free _ = True"

text \<open>\<open>notify_one\<close> and \<open>notify_all\<close> wake the thread when it waits, and are lost otherwise;
  a wait may also end spuriously.\<close>

fun notify :: "'c position \<Rightarrow> 'c position" where
  "notify (Waiting w) = Inspect"
| "notify p = p"

fun busy_node :: "'c position \<Rightarrow> (string \<times> NodeContext) option" where
  "busy_node (Picked n c ctx) = Some (n, ctx)"
| "busy_node (Executing n c ctx out) = Some (n, ctx)"
| "busy_node (Collect n c ctx out) = Some (n, ctx)"
| "busy_node _ = None"

text \<open>
  The label of a step is the node it picks, if it picks one. \<open>behaves c ctx call\<close> says that
  \<open>process()\<close> of \<open>c\<close> with \<open>ctx\<close> can behave as \<open>call\<close>.
\<close>

inductive sched_step ::
    "('c \<Rightarrow> NodeContext \<Rightarrow> 'c process_call \<Rightarrow> bool) \<Rightarrow> 'c config \<Rightarrow> string option \<Rightarrow> 'c config \<Rightarrow> bool"
  for behaves where
  tick: "t \<le> t' \<Longrightarrow> sched_step behaves (t, s, p) None (t', s, p)"
| check_proceed: "t \<le> t' \<Longrightarrow> run_check t t' s = (s', Proceed) \<Longrightarrow>
    sched_step behaves (t, s, Inspect) None (t', s', Locked)"
| check_again: "t \<le> t' \<Longrightarrow> run_check t t' s = (s', Recheck) \<Longrightarrow>
    sched_step behaves (t, s, Inspect) None (t', s', Inspect)"
| check_wait: "t \<le> t' \<Longrightarrow> run_check t t' s = (s', Wait w) \<Longrightarrow>
    sched_step behaves (t, s, Inspect) None (t', s', Deciding w)"
| sleep: "sched_step behaves (t, s, Deciding w) None (t, s, Waiting w)"
| timeout: "u \<le> t \<Longrightarrow> sched_step behaves (t, s, Waiting (Some u)) None (t, s, Inspect)"
| spurious: "sched_step behaves (t, s, Waiting w) None (t, s, Inspect)"
| pick_exit: "run_pick s = (s', PickExit) \<Longrightarrow>
    sched_step behaves (t, s, Locked) None (t, s', Exited)"
| pick_none: "run_pick s = (s', PickNone) \<Longrightarrow>
    sched_step behaves (t, s, Locked) None (t, s', Inspect)"
| pick_skip: "run_pick s = (s', PickSkip n) \<Longrightarrow>
    sched_step behaves (t, s, Locked) (Some n) (t, s', Inspect)"
| pick_run: "run_pick s = (s', PickRun n c ctx) \<Longrightarrow>
    sched_step behaves (t, s, Locked) (Some n) (t, s', Picked n c ctx)"
| begin_exec: "exec_begin ctx (flag_store s) = (ctx1, a) \<Longrightarrow>
    sched_step behaves (t, s, Picked n c ctx) None
      (t, s\<lparr>flag_store := a\<rparr>, Executing n c ctx1 outcome_default)"
| exec_more: "remaining_budget ctx \<noteq> 0 \<Longrightarrow> behaves c ctx call \<Longrightarrow>
    exec_iteration call ctx out (flag_store s) = IterContinue c1 ctx1 out1 a \<Longrightarrow>
    sched_step behaves (t, s, Executing n c ctx out) None
      (t, s\<lparr>flag_store := a\<rparr>, Executing n c1 ctx1 out1)"
| exec_done: "remaining_budget ctx \<noteq> 0 \<Longrightarrow> behaves c ctx call \<Longrightarrow>
    exec_iteration call ctx out (flag_store s) = IterDone c1 ctx1 out1 a \<Longrightarrow>
    sched_step behaves (t, s, Executing n c ctx out) None
      (t, s\<lparr>flag_store := a\<rparr>, Collect n c1 ctx1 out1)"
| exec_abort: "remaining_budget ctx \<noteq> 0 \<Longrightarrow> behaves c ctx call \<Longrightarrow>
    exec_iteration call ctx out (flag_store s) = IterAborted \<Longrightarrow>
    sched_step behaves (t, s, Executing n c ctx out) None (t, s, Aborted)"
| exec_budget: "remaining_budget ctx = 0 \<Longrightarrow>
    sched_step behaves (t, s, Executing n c ctx out) None (t, s, Collect n c ctx out)"
| finish: "sched_step behaves (t, s, Collect n c ctx out) None
    (t, run_finish n c ctx out s, Inspect)"
| signal: "lock_free p \<Longrightarrow> signal_ready n s = (s', True) \<Longrightarrow>
    sched_step behaves (t, s, p) None (t, s', notify p)"
| signal_unknown: "lock_free p \<Longrightarrow> signal_ready n s = (s', False) \<Longrightarrow>
    sched_step behaves (t, s, p) None (t, s', p)"
| set_timer: "lock_free p \<Longrightarrow> wake_at n w s = (s', True) \<Longrightarrow>
    sched_step behaves (t, s, p) None (t, s', notify p)"
| set_timer_unknown: "lock_free p \<Longrightarrow> wake_at n w s = (s', False) \<Longrightarrow>
    sched_step behaves (t, s, p) None (t, s', p)"
| snapshot: "lock_free p \<Longrightarrow> metrics_snapshot t s = (s', m) \<Longrightarrow>
    sched_step behaves (t, s, p) None (t, s', p)"
| stop_any: "sched_step behaves (t, s, p) None (t, sched_stop s, notify p)"

text \<open>A run: the picked nodes in order.\<close>

inductive sched_run ::
    "('c \<Rightarrow> NodeContext \<Rightarrow> 'c process_call \<Rightarrow> bool) \<Rightarrow> 'c config \<Rightarrow> string list \<Rightarrow> 'c config \<Rightarrow> bool"
  for behaves where
  run_refl: "sched_run behaves cfg [] cfg"
| run_step: "sched_step behaves cfg l cfg' \<Longrightarrow> sched_run behaves cfg' ns cfg'' \<Longrightarrow>
    sched_run behaves cfg ((case l of None \<Rightarrow> [] | Some n \<Rightarrow> [n]) @ ns) cfg''"

section \<open>The invariant of a configuration\<close>

text \<open>
  When the thread has decided to wait, or waits, there is nothing to wait for. A thread that was
  aborted by the contract assertion has lost its node, so nothing is claimed of it.
\<close>

fun position_ok :: "'c Scheduler \<Rightarrow> 'c position \<Rightarrow> bool" where
  "position_ok s (Deciding w) = sleep_ok w s"
| "position_ok s (Waiting w) = sleep_ok w s"
| "position_ok s p = True"

definition config_inv :: "'c config \<Rightarrow> bool" where
  "config_inv cfg \<longleftrightarrow>
     (case cfg of (t, s, p) \<Rightarrow> p \<noteq> Aborted \<longrightarrow> sched_inv (busy_node p) s \<and> position_ok s p)"

lemma config_inv_simp [simp]:
  "config_inv (t, s, p) \<longleftrightarrow> (p \<noteq> Aborted \<longrightarrow> sched_inv (busy_node p) s \<and> position_ok s p)"
  by (simp add: config_inv_def)

lemma notify_frame [simp]:
  "busy_node (notify p) = busy_node p" "notify p = Aborted \<longleftrightarrow> p = Aborted"
  by (cases p; simp)+

lemma notify_position: "lock_free p \<or> position_ok s p \<Longrightarrow> position_ok s (notify p)"
  by (cases p) simp_all

lemma sched_step_inv:
  assumes "sched_step behaves cfg l cfg'" "config_inv cfg"
  shows "config_inv cfg'"
  using assms
proof (cases rule: sched_step.cases)
  case (check_proceed t t' s s')
  with assms(2) run_check_cases [of s t t' s'] show ?thesis by fastforce
next
  case (check_again t t' s s')
  with assms(2) run_check_cases [of s t t' s'] show ?thesis by fastforce
next
  case (check_wait t t' s s' w)
  with assms(2) run_check_cases [of s t t' s'] show ?thesis by fastforce
next
  case (pick_exit s s' t)
  with assms(2) run_pick_cases [of s s'] show ?thesis by fastforce
next
  case (pick_none s s' t)
  with assms(2) run_pick_cases [of s s'] show ?thesis by fastforce
next
  case (pick_skip s s' n t)
  with assms(2) run_pick_cases [of s s'] show ?thesis by fastforce
next
  case (pick_run s s' n c ctx t)
  with assms(2) run_pick_cases [of s s'] show ?thesis by fastforce
next
  case (begin_exec ctx s ctx1 a t n c)
  with assms(2) exec_begin_inv show ?thesis by fastforce
next
  case (exec_more ctx c call out s c1 ctx1 out1 a t n)
  with assms(2) exec_iteration_inv [of n ctx s call out c1 ctx1 out1 a] show ?thesis by simp
next
  case (exec_done ctx c call out s c1 ctx1 out1 a t n)
  with assms(2) exec_iteration_inv [of n ctx s call out c1 ctx1 out1 a] show ?thesis by simp
next
  case (finish t s n c ctx out)
  with assms(2) run_finish_inv show ?thesis by fastforce
next
  case (signal p n s s' t)
  with assms(2) signal_ready_inv [of _ s n] show ?thesis by (auto simp: notify_position)
next
  case (signal_unknown p n s s' t)
  then have "s' = s" by (auto simp: signal_ready_def Let_def split: option.splits)
  with signal_unknown assms(2) show ?thesis by simp
next
  case (set_timer p n w s s' t)
  with assms(2) wake_at_inv [of _ s n w] show ?thesis by (auto simp: notify_position)
next
  case (set_timer_unknown p n w s s' t)
  then have "s' = s" by (auto simp: wake_at_def split: option.splits)
  with set_timer_unknown assms(2) show ?thesis by simp
next
  case (snapshot p t s s' m)
  then have "position_ok s p \<Longrightarrow> position_ok s' p"
    by (cases p) (auto simp: metrics_snapshot_def Let_def sleep_ok_def)
  with snapshot assms(2) metrics_snapshot_inv [of _ s t] show ?thesis by auto
next
  case (stop_any t s p)
  with assms(2) stop_inv show ?thesis
    by (cases p) (auto simp: sleep_ok_def sched_stop_def)
qed simp_all

lemma sched_run_inv: "sched_run behaves cfg ns cfg' \<Longrightarrow> config_inv cfg \<Longrightarrow> config_inv cfg'"
  by (induction rule: sched_run.induct) (auto dest: sched_step_inv)

lemma sched_step_pick:
  assumes "sched_step behaves (t, s, p) (Some n) (t', s', p')" "config_inv (t, s, p)"
  shows "p = Locked" "ready_queue s = n # ready_queue s'"
proof -
  from assms(1) show p: "p = Locked" by cases simp_all
  from assms(1) obtain r where "run_pick s = (s', r)" "r = PickSkip n \<or> (\<exists>c ctx. r = PickRun n c ctx)"
    by cases simp_all
  then show "ready_queue s = n # ready_queue s'"
    using assms(2) p run_pick_cases [of s s' r] by auto
qed

section \<open>Registration and retirement\<close>

lemma run_finish_flags:
  "ready_flags (run_finish n c ctx out s) =
     (if finished out then (ready_flags s)(n := None) else ready_flags s)"
  by (simp add: run_finish_def Let_def)

lemma sched_step_flags:
  assumes "sched_step behaves (t, s, p) l (t', s', p')" "config_inv (t, s, p)" "ready_flags s n = None"
  shows "ready_flags s' n = None"
  using assms
proof (cases rule: sched_step.cases)
  case check_proceed
  with assms run_check_frame(1) show ?thesis by fastforce
next
  case check_again
  with assms run_check_frame(1) show ?thesis by fastforce
next
  case check_wait
  with assms run_check_frame(1) show ?thesis by fastforce
next
  case pick_exit
  with assms run_pick_cases [of s s'] show ?thesis by fastforce
next
  case pick_none
  with assms run_pick_cases [of s s'] show ?thesis by fastforce
next
  case pick_skip
  with assms run_pick_cases [of s s'] show ?thesis by fastforce
next
  case pick_run
  with assms run_pick_cases [of s s'] show ?thesis by fastforce
next
  case (signal m)
  with assms signal_ready_frame(3) [of m s] show ?thesis by simp
next
  case (signal_unknown m)
  with assms signal_ready_frame(3) [of m s] show ?thesis by simp
next
  case (set_timer m w)
  with assms wake_at_frame(3) [of m w s] show ?thesis by simp
next
  case (set_timer_unknown m w)
  with assms wake_at_frame(3) [of m w s] show ?thesis by simp
qed (auto simp: run_finish_flags metrics_snapshot_def Let_def sched_stop_def)

lemma sched_run_flags:
  assumes "sched_run behaves cfg ns cfg'" "config_inv cfg" "ready_flags (fst (snd cfg)) n = None"
  shows "ready_flags (fst (snd cfg')) n = None"
  using assms
proof (induction rule: sched_run.induct)
  case (run_step cfg l cfg' ns cfg'')
  obtain t s p t' s' p' where c: "cfg = (t, s, p)" "cfg' = (t', s', p')"
    by (metis prod.exhaust)
  with run_step sched_step_flags [of behaves t s p l t' s' p' n] have "ready_flags s' n = None"
    by simp
  with run_step c sched_step_inv [OF run_step(1)] show ?case by simp
qed simp

section \<open>First in, first out\<close>

text \<open>
  A step keeps a queued node that stays registered where it is in the queue or moves it forward, and
  a step that picks takes the head.
\<close>

lemma queue_append_position:
  "q = as @ n # bs \<Longrightarrow> q' = q @ extra \<Longrightarrow> \<exists>as' bs'. q' = as' @ n # bs' \<and> length as' \<le> length as"
  by auto

lemma sched_step_queue:
  assumes step: "sched_step behaves (t, s, p) l (t', s', p')" and inv: "config_inv (t, s, p)"
    and q: "ready_queue s = as @ n # bs" and reg: "ready_flags s' n \<noteq> None"
  shows "case l of
      None \<Rightarrow> \<exists>as' bs'. ready_queue s' = as' @ n # bs' \<and> length as' \<le> length as
    | Some m \<Rightarrow> ready_queue s = m # ready_queue s'"
  using step
proof (cases rule: sched_step.cases)
  case check_proceed
  with inv q run_check_frame(4) show ?thesis by fastforce
next
  case check_again
  with inv q run_check_frame(4) show ?thesis by fastforce
next
  case check_wait
  with inv q run_check_frame(4) show ?thesis by fastforce
next
  case pick_exit
  with inv q run_pick_cases [of s s'] show ?thesis by fastforce
next
  case pick_none
  with inv q run_pick_cases [of s s'] show ?thesis by fastforce
next
  case pick_skip
  with inv q run_pick_cases [of s s'] show ?thesis by fastforce
next
  case pick_run
  with inv q run_pick_cases [of s s'] show ?thesis by fastforce
next
  case (finish m c ctx out)
  show ?thesis
  proof (cases "finished out")
    case True
    with finish reg have "n \<noteq> m" by (auto simp: run_finish_flags)
    with True finish q have
      "ready_queue s' = filter (\<lambda>k. k \<noteq> m) as @ n # filter (\<lambda>k. k \<noteq> m) bs"
      by (simp add: run_finish_def Let_def)
    moreover have "length (filter (\<lambda>k. k \<noteq> m) as) \<le> length as" by (rule length_filter_le)
    ultimately show ?thesis using finish by auto
  next
    case False
    with finish have "\<exists>extra. ready_queue s' = ready_queue s @ extra"
      by (auto simp: run_finish_def Let_def restore_queue)
    with finish q show ?thesis by (auto intro: queue_append_position)
  qed
next
  case (signal m)
  with q signal_ready_queue [of m s] show ?thesis by (auto split: if_splits)
next
  case (signal_unknown m)
  with q signal_ready_queue [of m s] show ?thesis by (auto split: if_splits)
next
  case (set_timer m w)
  with q wake_at_frame(5) [of m w s] show ?thesis by auto
next
  case (set_timer_unknown m w)
  with q wake_at_frame(5) [of m w s] show ?thesis by auto
next
  case (snapshot m)
  then have "ready_queue s' = ready_queue s" by (auto simp: metrics_snapshot_def Let_def)
  with snapshot q show ?thesis by auto
qed (use q in \<open>auto simp: sched_stop_def\<close>)

lemma sched_run_fifo:
  assumes "sched_run behaves cfg ns cfg'" "config_inv cfg"
    "ready_queue (fst (snd cfg)) = as @ n # bs" "ready_flags (fst (snd cfg')) n \<noteq> None"
    "length as < length ns"
  shows "n \<in> set (take (Suc (length as)) ns)"
  using assms
proof (induction arbitrary: as bs rule: sched_run.induct)
  case (run_step cfg l cfg' ns cfg'')
  obtain t s p t' s' p' where c: "cfg = (t, s, p)" "cfg' = (t', s', p')"
    by (metis prod.exhaust)
  have inv': "config_inv cfg'" using run_step sched_step_inv by blast
  have reg: "ready_flags s' n \<noteq> None"
    using sched_run_flags [OF run_step(2) inv', of n] run_step(6) c by auto
  have q: "ready_queue s = as @ n # bs" using run_step(5) c by simp
  note queue = sched_step_queue [OF run_step(1) [unfolded c] run_step(4) [unfolded c] q reg]
  show ?case
  proof (cases l)
    case None
    with queue obtain as' bs' where "ready_queue s' = as' @ n # bs'" "length as' \<le> length as" by auto
    with run_step(3) [OF inv', of as' bs'] run_step(6,7) None c
    have "n \<in> set (take (Suc (length as')) ns)" by simp
    with \<open>length as' \<le> length as\<close> None show ?thesis
      using set_take_subset_set_take [of "Suc (length as')" "Suc (length as)" ns] by auto
  next
    case (Some m)
    show ?thesis
    proof (cases as)
      case Nil
      with queue q Some show ?thesis by simp
    next
      case (Cons k as')
      with queue q Some have "ready_queue s' = as' @ n # bs" by simp
      with run_step(3) [OF inv', of as' bs] run_step(6,7) Some Cons c
      have "n \<in> set (take (Suc (length as')) ns)" by simp
      with Some Cons show ?thesis by simp
    qed
  qed
qed simp

end
