(* ===== verification/Scheduler_Properties.thy ===== *)
theory Scheduler_Properties
  imports Scheduler_Steps
begin

text \<open>
  The properties of the scheduler, over \<open>Scheduler_Steps\<close>: every interleaving of its thread with
  signals, timers, snapshots and stops, started on any set of distinct nodes; and of the timer queue
  and the budget, for every component behaviour.
\<close>

section \<open>Started schedulers\<close>

definition start_scheduler ::
    "(string \<times> BudgetClass \<times> 'c) list \<Rightarrow> instant \<Rightarrow> 'c Scheduler" where
  "start_scheduler ps now =
     fold (\<lambda>(n, budget, c) s. add_process c n budget now s) ps scheduler_new"

lemma add_process_nodes:
  "dom (nodes (add_process c n budget now s)) = insert n (dom (nodes s))"
  by (auto simp: add_process_def add_component_def sched_add_node_def Let_def)

lemma start_scheduler_inv:
  assumes "distinct (map fst ps)"
  shows "sched_inv None (start_scheduler ps now)"
proof -
  have "sched_inv None (fold (\<lambda>(n, budget, c) s. add_process c n budget now s) ps s)"
    if "sched_inv None s" "set (map fst ps) \<inter> dom (nodes s) = {}" "distinct (map fst ps)" for s :: "'a Scheduler"
    using that
  proof (induction ps arbitrary: s)
    case (Cons x ps)
    obtain n b c where x: "x = (n, b, c)" by (cases x)
    have "sched_inv None (add_process c n b now s)"
      using Cons.prems x by (intro add_process_inv) auto
    moreover have "set (map fst ps) \<inter> dom (nodes (add_process c n b now s)) = {}"
      using Cons.prems x by (auto simp: add_process_nodes)
    ultimately show ?case using Cons.IH Cons.prems x by simp
  qed simp
  from this [OF scheduler_new_inv _ assms] show ?thesis
    by (simp add: start_scheduler_def scheduler_new_def)
qed

lemma started_inv:
  assumes "distinct (map fst ps)" "sched_run behaves (t, start_scheduler ps t, Inspect) ns cfg"
  shows "config_inv cfg"
  using sched_run_inv [OF assms(2)] start_scheduler_inv [OF assms(1)] by simp

text \<open>A short run used below: one node is signalled, picked and begins to execute.\<close>

definition quick_call :: "ProcessResult \<Rightarrow> 'c \<Rightarrow> NodeContext \<Rightarrow> 'c process_call" where
  "quick_call r c ctx = \<lparr>pc_component = c, pc_context = ctx, pc_flag = None, pc_result = Some r,
     pc_elapsed = 0, pc_now = 0\<rparr>"

abbreviation returns :: "ProcessResult \<Rightarrow> 'c \<Rightarrow> NodeContext \<Rightarrow> 'c process_call \<Rightarrow> bool" where
  "returns r \<equiv> (\<lambda>c ctx call. call = quick_call r c ctx)"

abbreviation one_node :: "(string \<times> BudgetClass \<times> unit) list" where
  "one_node \<equiv> [(''a'', Normal, ())]"

lemma sched_run_one: "sched_step behaves cfg None cfg' \<Longrightarrow> sched_run behaves cfg [] cfg'"
  using run_step [OF _ run_refl, of behaves cfg None cfg'] by simp

lemma sched_run_trans:
  "sched_run behaves cfg ns cfg' \<Longrightarrow> sched_run behaves cfg' ms cfg'' \<Longrightarrow>
   sched_run behaves cfg (ns @ ms) cfg''"
  by (induction rule: sched_run.induct) (auto intro: run_step)

lemma sched_run_then:
  "sched_step behaves cfg l cfg' \<Longrightarrow> sched_run behaves cfg' ns cfg'' \<Longrightarrow>
   ms = (case l of None \<Rightarrow> [] | Some n \<Rightarrow> [n]) @ ns \<Longrightarrow> sched_run behaves cfg ms cfg''"
  by (auto intro: run_step)

lemma same_timers: "timers s = [] \<Longrightarrow> s\<lparr>timers := []\<rparr> = (s :: 'c Scheduler)"
  by (cases s) simp

lemma check_with_work:
  "timers s = [] \<Longrightarrow> ready_queue s \<noteq> [] \<Longrightarrow>
   run_check t t' s = (update_queue_depth s, Proceed)"
  by (simp add: run_check_def drain_expired_timers_def drain_loop.simps [of t s]
      next_valid_timer_deadline_def valid_deadline.simps Let_def same_timers)

lemma check_without_work:
  "timers s = [] \<Longrightarrow> ready_queue s = [] \<Longrightarrow> running s \<Longrightarrow>
   run_check t t' s = (update_queue_depth s, Wait None)"
  by (simp add: run_check_def drain_expired_timers_def drain_loop.simps [of t s]
      next_valid_timer_deadline_def valid_deadline.simps Let_def same_timers)

lemma pick_runs:
  "running s \<Longrightarrow> ready_queue s = n # rest \<Longrightarrow> components s n = Some c \<Longrightarrow> nodes s n = Some ctx \<Longrightarrow>
   \<exists>s'. run_pick s = (s', PickRun n c ctx) \<and> running s'"
  by (simp add: run_pick_def Let_def)

lemma signal_then_pick:
  "\<exists>s1 s2 c ctx. sched_run behaves (0, start_scheduler one_node 0, Inspect) [] (0, s1, Inspect) \<and>
     ready_queue s1 = [''a''] \<and> sched_run behaves (0, s1, Inspect) [''a''] (0, s2, Picked ''a'' c ctx) \<and>
     running s2"
proof -
  let ?s0 = "start_scheduler one_node 0 :: unit Scheduler"
  let ?s1 = "fst (signal_ready ''a'' ?s0)"
  have sig: "sched_step behaves (0, ?s0, Inspect) None (0, ?s1, Inspect)"
    using signal [of Inspect "''a''" ?s0 ?s1 behaves 0]
    by (simp add: start_scheduler_def add_process_def sched_add_node_def add_component_def Let_def
        scheduler_new_def signal_ready_def)
  have q: "ready_queue ?s1 = [''a'']" "timers ?s1 = []" "running ?s1"
    "components ?s1 ''a'' = Some ()" "nodes ?s1 ''a'' = Some (new_context ''a'' Normal 0 0)"
    by (simp_all add: start_scheduler_def add_process_def sched_add_node_def add_component_def Let_def
        scheduler_new_def signal_ready_def enqueue_def update_queue_depth_def)
  have chk: "sched_step behaves (0, ?s1, Inspect) None (0, update_queue_depth ?s1, Locked)"
    by (rule check_proceed [OF order_refl check_with_work [OF q(2)]]) (simp add: q(1))
  obtain s2 where p: "run_pick (update_queue_depth ?s1) =
      (s2, PickRun ''a'' () (new_context ''a'' Normal 0 0))" "running s2"
    using pick_runs [of "update_queue_depth ?s1" "''a''"] q
    by (auto simp del: signal_ready_frame)
  have "sched_step behaves (0, update_queue_depth ?s1, Locked) (Some ''a'')
      (0, s2, Picked ''a'' () (new_context ''a'' Normal 0 0))"
    by (rule pick_run [OF p(1)])
  then have "sched_run behaves (0, ?s1, Inspect) [''a'']
      (0, s2, Picked ''a'' () (new_context ''a'' Normal 0 0))"
    using run_step [OF chk run_step [OF _ run_refl]] by fastforce
  with sched_run_one [OF sig] q(1) p(2) show ?thesis by blast
qed

lemma pick_run_reached:
  "\<exists>s c ctx. sched_run behaves (0, start_scheduler one_node 0, Inspect) [''a''] (0, s, Picked ''a'' c ctx) \<and>
     running s"
  using signal_then_pick [of behaves] sched_run_trans by fastforce

lemma finished_reached:
  "\<exists>s c ctx out. sched_run (returns Finished) (0, start_scheduler one_node 0, Inspect) [''a'']
     (0, s, Collect ''a'' c ctx out) \<and> finished out \<and> running s"
proof -
  obtain s c ctx where r: "sched_run (returns Finished) (0, start_scheduler one_node 0, Inspect)
      [''a''] (0, s, Picked ''a'' c ctx)" "running s"
    using pick_run_reached by blast
  obtain ctx1 a where b: "exec_begin ctx (flag_store s) = (ctx1, a)" by fastforce
  then have "remaining_budget ctx1 \<noteq> 0"
    using budget_of_pos [of "budget_class ctx"] by (auto simp: exec_begin_def context_defs)
  moreover obtain c2 ctx2 out2 a2 where
    "exec_iteration (quick_call Finished c ctx1) ctx1 outcome_default a = IterDone c2 ctx2 out2 a2"
    "finished out2"
    by (simp add: exec_iteration_def quick_call_def contract_ok_def PROCESS_CALL_MAX_BLOCKING_def Let_def)
  ultimately have "sched_step (returns Finished)
      (0, s\<lparr>flag_store := a\<rparr>, Executing ''a'' c ctx1 outcome_default) None
      (0, s\<lparr>flag_store := a\<rparr>\<lparr>flag_store := a2\<rparr>, Collect ''a'' c2 ctx2 out2)"
    by (intro exec_done) auto
  with r(2) sched_run_trans [OF r(1) run_step [OF begin_exec [OF b] sched_run_one]] \<open>finished out2\<close>
  show ?thesis by fastforce
qed

section \<open>Properties of every run\<close>

text \<open>
  C1. However the scheduler's thread is interleaved with signals, timers, snapshots and stops, its
  state stays consistent: the ready queue has no duplicates and agrees with its set and the reported
  depth, the timer heap holds the latest deadline of every node, flags and contexts are shared
  one-to-one, only registered nodes are queued, and every node whose flag is set is queued or busy.
\<close>

theorem scheduler_invariant:
  assumes "distinct (map fst ps)"
    and "sched_run behaves (t, start_scheduler ps t, Inspect) ns (t', s, p)"
    and "p \<noteq> Aborted"
  shows "queue_ok s \<and> timers_ok s \<and> flags_ok (busy_node p) s \<and> wired (busy_node p) s \<and>
    known_ok s \<and> wakeups_ok (busy_node p) s"
  using started_inv [OF assms(1,2)] assms(3) by (simp add: sched_inv_def)

lemma scheduler_invariant_witness:
  "\<exists>s c ctx. queue_ok s \<and> timers_ok s \<and> flags_ok (Some (''a'', ctx)) s \<and>
     wired (Some (''a'', ctx)) s \<and> known_ok s \<and> wakeups_ok (Some (''a'', ctx)) s \<and>
     sched_run (returns NoWork)
       (0, start_scheduler one_node 0, Inspect) [''a''] (0, s, Picked ''a'' c ctx)"
proof -
  obtain s c ctx where r: "sched_run (returns NoWork)
      (0, start_scheduler one_node 0, Inspect) [''a''] (0, s, Picked ''a'' c ctx)"
    using pick_run_reached by blast
  then have "queue_ok s \<and> timers_ok s \<and> flags_ok (busy_node (Picked ''a'' c ctx)) s \<and>
      wired (busy_node (Picked ''a'' c ctx)) s \<and> known_ok s \<and>
      wakeups_ok (busy_node (Picked ''a'' c ctx)) s"
    by (intro scheduler_invariant [OF _ r]) simp_all
  with r show ?thesis by auto
qed

text \<open>
  C2. No wakeup is missed: whenever the scheduler's thread sleeps, no node is queued, no node's
  readiness flag is set, and the timeout of the wait is not after any node's deadline.
\<close>

theorem no_missed_wakeup:
  assumes "distinct (map fst ps)"
    and "sched_run behaves (t, start_scheduler ps t, Inspect) ns (t', s, Waiting w)"
  shows "ready_queue s = [] \<and>
    (\<forall>n f. ready_flags s n = Some f \<longrightarrow> \<not> flag_store s f) \<and>
    (\<forall>n d. timer_latest_by_node s n = Some d \<longrightarrow> (\<exists>u. w = Some u \<and> u \<le> d))"
proof -
  have i: "sched_inv None s" "sleep_ok w s" using started_inv [OF assms] by simp_all
  then have "ready_set s = {}" by (auto simp: sleep_ok_def sched_inv_def queue_ok_def)
  with i show ?thesis by (auto simp: sleep_ok_def sched_inv_def wakeups_ok_def)
qed

lemma sleep_reached:
  "\<exists>s. sched_run behaves (0, start_scheduler one_node 0, Inspect) [] (0, s, Deciding None) \<and> running s"
proof -
  let ?s = "start_scheduler one_node 0 :: unit Scheduler"
  have "sched_step behaves (0, ?s, Inspect) None (0, update_queue_depth ?s, Deciding None)"
    by (rule check_wait [OF order_refl check_without_work])
      (simp_all add: start_scheduler_def add_process_def sched_add_node_def add_component_def Let_def
        scheduler_new_def)
  moreover have "running ?s"
    by (simp add: start_scheduler_def add_process_def sched_add_node_def add_component_def Let_def
        scheduler_new_def)
  ultimately show ?thesis using sched_run_one by fastforce
qed

lemma no_missed_wakeup_witness:
  "\<exists>s. sched_run (returns NoWork)
      (0, start_scheduler one_node 0, Inspect) [] (0, s, Waiting None) \<and>
    ready_queue s = [] \<and> (\<forall>n f. ready_flags s n = Some f \<longrightarrow> \<not> flag_store s f) \<and>
    (\<forall>n d. timer_latest_by_node s n = Some d \<longrightarrow> (\<exists>u. None = Some u \<and> u \<le> d))"
proof -
  obtain s where r: "sched_run (returns NoWork)
      (0, start_scheduler one_node 0, Inspect) [] (0, s, Deciding None)"
    using sleep_reached by blast
  have "sched_run (returns NoWork)
      (0, start_scheduler one_node 0, Inspect) [] (0, s, Waiting None)"
    using sched_run_trans [OF r sched_run_one [OF sleep]] by simp
  with no_missed_wakeup [OF _ this] show ?thesis by auto
qed

text \<open>
  C3. Scheduling is first in, first out: a queued node that stays registered is picked after at most
  as many other picks as there are nodes before it in the queue.
\<close>

theorem fifo_bounded_waiting:
  assumes "distinct (map fst ps)"
    and "sched_run behaves (t, start_scheduler ps t, Inspect) ns (t1, s1, p1)"
    and "sched_run behaves (t1, s1, p1) ms (t2, s2, p2)"
    and "ready_queue s1 = before @ n # after" and "ready_flags s2 n \<noteq> None"
    and "length before < length ms"
  shows "n \<in> set (take (Suc (length before)) ms)"
  using sched_run_fifo [OF assms(3) started_inv [OF assms(1,2)], of before n after] assms(4-6) by simp

lemma fifo_bounded_waiting_witness:
  "\<exists>s1 s2 c ctx. ready_queue s1 = [''a''] \<and> ''a'' \<in> set (take 1 [''a'']) \<and>
     sched_run (returns NoWork) (0, start_scheduler one_node 0, Inspect) [] (0, s1, Inspect) \<and>
     sched_run (returns NoWork) (0, s1, Inspect) [''a''] (0, s2, Picked ''a'' c ctx)"
proof -
  obtain s1 s2 c ctx where r:
    "sched_run (returns NoWork) (0, start_scheduler one_node 0, Inspect) [] (0, s1, Inspect)"
    "ready_queue s1 = [''a'']" "sched_run (returns NoWork) (0, s1, Inspect) [''a''] (0, s2, Picked ''a'' c ctx)"
    using signal_then_pick by blast
  have "config_inv (0, s2, Picked ''a'' c ctx)"
    by (rule started_inv [OF _ sched_run_trans [OF r(1,3)]]) simp
  then have "ready_flags s2 ''a'' \<noteq> None"
    using busy_registered [OF sched_invD(3)] by fastforce
  with fifo_bounded_waiting [OF _ r(1,3), of "[]" "''a''" "[]"] r(2) have
    "''a'' \<in> set (take 1 [''a''])" by simp
  with r show ?thesis by blast
qed

lemma unregistered_never_picked:
  "sched_run behaves cfg ns cfg' \<Longrightarrow> config_inv cfg \<Longrightarrow> ready_flags (fst (snd cfg)) n = None \<Longrightarrow>
   n \<notin> set ns"
proof (induction rule: sched_run.induct)
  case (run_step cfg l cfg' ns cfg'')
  obtain t s p t' s' p' where c: "cfg = (t, s, p)" "cfg' = (t', s', p')"
    by (metis prod.exhaust)
  have inv': "config_inv cfg'" by (rule sched_step_inv [OF run_step(1,4)])
  have "ready_flags s' n = None"
    using sched_step_flags [OF run_step(1) [unfolded c]] run_step(4,5) c by simp
  then have rest: "n \<notin> set ns" using run_step(3) [OF inv'] c by simp
  have "l \<noteq> Some n"
  proof
    assume l: "l = Some n"
    note p = sched_step_pick [OF run_step(1) [unfolded c l] run_step(4) [unfolded c]]
    have "sched_inv None s" using run_step(4) c p(1) by simp
    then have "n \<in> ready_set s" "known_ok s" using p(2) by (auto simp: sched_inv_def queue_ok_def)
    with run_step(5) c show False by (auto simp: known_ok_def)
  qed
  with rest show ?case by (cases l) auto
qed simp

text \<open>
  A node that finished or panicked is never executed again: once the outcome of its last
  execution is collected, no later step picks it, whatever signals it still receives.
\<close>

theorem retired_never_picked:
  assumes "distinct (map fst ps)"
    and "sched_run behaves (t, start_scheduler ps t, Inspect) ns (t1, s1, Collect n c ctx out)"
    and "finished out"
    and "sched_run behaves (t1, run_finish n c ctx out s1, Inspect) ms cfg"
  shows "n \<notin> set ms"
proof (rule unregistered_never_picked [OF assms(4)])
  have "config_inv (t1, s1, Collect n c ctx out)" by (rule started_inv [OF assms(1,2)])
  then show "config_inv (t1, run_finish n c ctx out s1, Inspect)"
    by (rule sched_step_inv [OF finish [of behaves]])
qed (simp add: run_finish_flags assms(3))

lemma retired_never_picked_witness:
  "\<exists>s c ctx out. sched_run (returns Finished) (0, start_scheduler one_node 0, Inspect) [''a'']
      (0, s, Collect ''a'' c ctx out) \<and> finished out \<and> ''a'' \<notin> set []"
proof -
  obtain s c ctx out where r: "sched_run (returns Finished)
      (0, start_scheduler one_node 0, Inspect) [''a''] (0, s, Collect ''a'' c ctx out)"
    "finished out"
    using finished_reached by blast
  from retired_never_picked [OF _ r run_refl] r show ?thesis by auto
qed

text \<open>
  \<open>stop\<close> stores \<open>running = false\<close> and notifies without taking the mutex, so it can fall between
  the check of \<open>running\<close> and the wait: then the scheduler is stopped, its thread sleeps with no
  timeout, and no notification is pending.
\<close>

theorem stop_can_be_missed:
  "\<exists>s. sched_run (returns NoWork) (0, start_scheduler one_node 0, Inspect) [] (0, s, Deciding None) \<and>
     running s \<and>
     sched_step (returns NoWork) (0, s, Deciding None) None (0, sched_stop s, Deciding None) \<and>
     sched_step (returns NoWork) (0, sched_stop s, Deciding None) None (0, sched_stop s, Waiting None) \<and>
     \<not> running (sched_stop s) \<and> ready_queue (sched_stop s) = [] \<and> timer_latest_by_node (sched_stop s) = Map.empty"
proof -
  obtain s where r: "sched_run (returns NoWork) (0, start_scheduler one_node 0, Inspect) []
      (0, s, Deciding None)" "running s"
    using sleep_reached by blast
  have "sleep_ok None s" using started_inv [OF _ r(1)] by simp
  moreover have "sched_step (returns NoWork) (0, s, Deciding None) None (0, sched_stop s, Deciding None)"
    using stop_any [of "returns NoWork" 0 s "Deciding None"] by simp
  ultimately show ?thesis using r sleep
    by (intro exI [of _ s]) (auto simp: sched_stop_def sleep_ok_def)
qed

text \<open>
  A stop that the thread observes ends it: with \<open>running = false\<close> the next inspection proceeds
  and the thread exits without picking a node, even when nodes are queued.
\<close>

theorem stopped_thread_exits:
  assumes "\<not> running s"
  shows "\<exists>s'. run_check t t' s = (s', Proceed) \<and> run_pick s' = (s', PickExit)"
  using assms by (simp add: run_check_def run_pick_def Let_def)

lemma stopped_thread_exits_witness:
  "\<exists>s'. run_check 0 0 (sched_stop (start_scheduler one_node 0)) = (s', Proceed) \<and>
     run_pick s' = (s', PickExit)"
  by (rule stopped_thread_exits) (simp add: sched_stop_def)

section \<open>Timers and budgets\<close>

text \<open>
  C37. Draining at time \<open>now\<close> wakes exactly the nodes whose latest deadline has passed: their
  deadlines are cleared and recorded in their contexts, they are appended to the ready queue once
  each unless already queued, later deadlines and other contexts are untouched.
\<close>

theorem drain_wakes_exactly_due:
  assumes "sched_inv None s" and "s' = drain_expired_timers now s"
  shows "timer_latest_by_node s' n = (if n \<in> due now s then None else timer_latest_by_node s n) \<and>
    nodes s' n = (if n \<in> due now s
      then map_option (mark_timer_fired (the (timer_latest_by_node s n))) (nodes s n) else nodes s n) \<and>
    (\<exists>woken. ready_queue s' = ready_queue s @ woken \<and> distinct woken \<and>
      set woken = due now s - ready_set s) \<and>
    sched_inv None s'"
  using drain_latest [OF assms(1), of now n] drain_nodes [OF assms(1), of now n]
    drain_queue [OF assms(1), of now] drain_expired_timers_inv [OF assms(1), of now] assms(2)
  by simp

lemma drain_wakes_exactly_due_witness:
  "timer_latest_by_node (drain_expired_timers 7 (fst (wake_at ''a'' 5 (start_scheduler one_node 0)))) ''a''
     = None"
proof -
  let ?s = "fst (wake_at ''a'' 5 (start_scheduler one_node 0))"
  have "sched_inv None ?s" by (intro wake_at_inv start_scheduler_inv) simp
  from drain_wakes_exactly_due [OF this refl, of 7 "''a''"] show ?thesis
    by (simp add: due_def wake_at_def start_scheduler_def add_process_def sched_add_node_def
        add_component_def scheduler_new_def Let_def)
qed

text \<open>
  The deadline the thread waits for is the earliest of all nodes' latest deadlines; there is none
  only when no node has a deadline, so superseded heap entries never wake or delay the thread.
\<close>

theorem next_deadline_is_minimum:
  assumes "sched_inv busy s" and "next_valid_timer_deadline s = (s', d)"
  shows "case d of
      None \<Rightarrow> timer_latest_by_node s = Map.empty
    | Some w \<Rightarrow> (\<exists>n. timer_latest_by_node s n = Some w) \<and>
        (\<forall>n t. timer_latest_by_node s n = Some t \<longrightarrow> w \<le> t)"
  using next_deadline_least [OF sched_invD(2) [OF assms(1)] assms(2)]
  by (auto split: option.splits)

lemma next_deadline_is_minimum_witness:
  "\<exists>s' w. next_valid_timer_deadline (fst (wake_at ''a'' 5 (start_scheduler one_node 0))) = (s', Some w) \<and>
     (\<forall>n t. timer_latest_by_node (fst (wake_at ''a'' 5 (start_scheduler one_node 0))) n = Some t \<longrightarrow> w \<le> t)"
proof -
  let ?s = "fst (wake_at ''a'' 5 (start_scheduler one_node 0))"
  obtain s' d where d: "next_valid_timer_deadline ?s = (s', d)" by fastforce
  have "sched_inv None ?s" by (intro wake_at_inv start_scheduler_inv) simp
  note next_deadline_is_minimum [OF this d]
  moreover have "timer_latest_by_node ?s ''a'' = Some 5"
    by (simp add: wake_at_def start_scheduler_def add_process_def sched_add_node_def add_component_def
        scheduler_new_def Let_def)
  ultimately show ?thesis using d by (cases d) auto
qed

text \<open>
  C13. One turn of a component is bounded: it makes at most as many productive calls as the budget of
  its class (32, 8 or 96), it reports work exactly when it made one, and the turn always ends with an
  outcome when every call respects the non-blocking contract.
\<close>

theorem turn_is_bounded:
  assumes "\<And>c ctx. contract_ok (pc_elapsed (process c ctx))"
  shows "\<exists>c' ctx' out a'. execute_component process c ctx a = Some (c', ctx', out, a') \<and>
    unat (executions out) \<le> unat (budget_of (budget_class ctx)) \<and>
    (did_work out \<longleftrightarrow> executions out \<noteq> 0)"
proof -
  obtain ctx1 a1 where b: "exec_begin ctx a = (ctx1, a1)" by fastforce
  obtain c' ctx' out a' where e: "execute_component process c ctx a = Some (c', ctx', out, a')"
    using exec_loop_total [of process c ctx1 outcome_default a1] assms b
    by (auto simp: execute_component_def)
  with execute_component_counts [OF e] show ?thesis by auto
qed

lemma turn_is_bounded_witness:
  "\<exists>c' ctx' out a'. execute_component (quick_call (DidWork 1)) () (new_context ''a'' Heavy 0 0) (\<lambda>_. True) =
     Some (c', ctx', out, a') \<and> unat (executions out) \<le> 8 \<and> (did_work out \<longleftrightarrow> executions out \<noteq> 0)"
proof -
  have "contract_ok (pc_elapsed (quick_call (DidWork 1) c ctx))" for c :: unit and ctx
    by (simp add: quick_call_def contract_ok_def)
  from turn_is_bounded [of "quick_call (DidWork 1)" "()" "new_context ''a'' Heavy 0 0" "\<lambda>_. True",
      OF this] show ?thesis
    by (simp add: new_context_def budget_of_def)
qed

text \<open>A component that deducts what it reports from its own budget.\<close>

definition deducting :: "'c process_call \<Rightarrow> 'c process_call" where
  "deducting call =
     (case pc_result call of
        Some (DidWork units) \<Rightarrow>
          call\<lparr>pc_context := (pc_context call)\<lparr>remaining_budget :=
            saturating_sub (remaining_budget (pc_context call)) (accounted units)\<rparr>\<rparr>
      | _ \<Rightarrow> call)"

lemma budget_after_deducting:
  "budget_after b (saturating_sub b (accounted u)) u = budget_after b b u"
  by (simp add: word_unat_eq_iff unat_budget_after unat_saturating_sub unat_accounted)

lemma exec_iteration_deducting:
  assumes "remaining_budget (pc_context call) = remaining_budget ctx"
  shows "exec_iteration (deducting call) ctx out a = exec_iteration call ctx out a"
  using assms
  by (auto simp: exec_iteration_def deducting_def Let_def budget_after_deducting
      split: option.splits ProcessResult.splits)

lemma exec_loop_cong:
  assumes "\<And>c ctx out a. exec_iteration (p c ctx) ctx out a = exec_iteration (q c ctx) ctx out a"
  shows "exec_loop p c ctx out a = exec_loop q c ctx out a"
  using assms
proof (induction p c ctx out a rule: exec_loop.induct)
  case (1 p c ctx out a)
  show ?case
  proof (cases "remaining_budget ctx = 0")
    case False
    with 1 show ?thesis
      by (cases "exec_iteration (q c ctx) ctx out a") (simp_all add: exec_loop_unfold)
  qed (simp add: exec_loop_unfold)
qed

text \<open>
  Work is accounted once: a component that already deducts the units it reports from its budget
  gets exactly the turn it would get without deducting them.
\<close>

theorem no_double_accounting:
  assumes "\<And>c ctx. remaining_budget (pc_context (process c ctx)) = remaining_budget ctx"
  shows "execute_component (\<lambda>c ctx. deducting (process c ctx)) c ctx a =
    execute_component process c ctx a"
  using exec_loop_cong [of "\<lambda>c ctx. deducting (process c ctx)" process]
  by (simp add: execute_component_def exec_iteration_deducting assms split: prod.splits)

lemma no_double_accounting_witness:
  "execute_component (\<lambda>c ctx. deducting (quick_call (DidWork 3) c ctx)) () (new_context ''a'' Heavy 0 0)
      (\<lambda>_. False) =
   execute_component (quick_call (DidWork 3)) () (new_context ''a'' Heavy 0 0) (\<lambda>_. False)"
  by (rule no_double_accounting) (simp add: quick_call_def)

text \<open>
  The scheduler stops by itself exactly when its last node has finished: collecting the outcome
  of a busy node clears \<open>running\<close> iff the node is finished and no other node is stored.
\<close>

theorem last_finished_stops:
  assumes "sched_inv (Some (n, ctx)) s" and "running s"
  shows "running (run_finish n c ctx out s) \<longleftrightarrow> \<not> finished out \<or> nodes s \<noteq> Map.empty"
proof -
  have "components s = Map.empty \<longleftrightarrow> nodes s = Map.empty"
    using sched_invD(4) [OF assms(1)] by (metis wired_def dom_eq_empty_conv)
  with assms(2) show ?thesis by (simp add: run_finish_def Let_def)
qed

lemma last_finished_stops_witness:
  "\<exists>s c ctx out. sched_run (returns Finished) (0, start_scheduler one_node 0, Inspect) [''a'']
      (0, s, Collect ''a'' c ctx out) \<and>
     (running (run_finish ''a'' c ctx out s) \<longleftrightarrow> nodes s \<noteq> Map.empty)"
proof -
  obtain s c ctx out where r: "sched_run (returns Finished)
      (0, start_scheduler one_node 0, Inspect) [''a''] (0, s, Collect ''a'' c ctx out)"
    "finished out" "running s"
    using finished_reached by blast
  have "sched_inv (Some (''a'', ctx)) s" using started_inv [OF _ r(1)] by simp
  from last_finished_stops [OF this r(3)] r show ?thesis by blast
qed

end
