(* ===== verification/Json.thy ===== *)
theory Json
  imports Prelude
begin

text \<open>
  JSON values as the graph code uses them: \<open>serde_json::Value\<close> and its \<open>Map\<close> (a map from keys to
  values). The representation of JSON numbers is the library's own, so a number is a value of a type
  parameter \<open>'n\<close> and the accessors the code calls are the argument \<open>number_ops\<close>; what is known of
  them are the laws \<open>number_laws\<close>, which the instance \<open>int_ops\<close> on integers satisfies.
\<close>

datatype 'n JsonValue =
    JNull
  | JBool bool
  | JNumber 'n
  | JString string
  | JArray "'n JsonValue list"
  | JObject "(string \<times> 'n JsonValue) list"

type_synonym 'n JsonMap = "string \<rightharpoonup> 'n JsonValue"

definition is_null :: "'n JsonValue \<Rightarrow> bool" where
  "is_null v = (case v of JNull \<Rightarrow> True | _ \<Rightarrow> False)"

text \<open>\<open>Number::as_i64\<close>, \<open>as_u64\<close> and the conversions from \<open>i32\<close> and \<open>u32\<close>.\<close>

record 'n number_ops =
  as_i64 :: "'n \<Rightarrow> i64 option"
  as_u64 :: "'n \<Rightarrow> u64 option"
  of_i32 :: "i32 \<Rightarrow> 'n"
  of_u32 :: "u32 \<Rightarrow> 'n"

definition number_laws :: "'n number_ops \<Rightarrow> bool" where
  "number_laws N \<longleftrightarrow>
     (\<forall>i. as_i64 N (of_i32 N i) = Some (scast i)) \<and> (\<forall>u. as_u64 N (of_u32 N u) = Some (ucast u))"

text \<open>Integer JSON numbers: an instance of the laws.\<close>

definition int_ops :: "int number_ops" where
  "int_ops =
     \<lparr>as_i64 = (\<lambda>n. if -(2 ^ 63) \<le> n \<and> n < 2 ^ 63 then Some (word_of_int n) else None),
      as_u64 = (\<lambda>n. if 0 \<le> n \<and> n < 2 ^ 64 then Some (word_of_int n) else None),
      of_i32 = sint, of_u32 = uint\<rparr>"

lemma scast_word_of_int: "word_of_int (sint (i :: i32)) = (scast i :: i64)"
  by simp

lemma int_ops_laws: "number_laws int_ops"
proof -
  have "-(2 ^ 63) \<le> sint i" "sint i < 2 ^ 63" for i :: i32
    using sint_range_size [of i] by (simp_all add: word_size)
  moreover have "0 \<le> uint u" "uint u < 2 ^ 64" for u :: u32
    using uint_range_size [of u] by (simp_all add: word_size)
  ultimately show ?thesis by (auto simp: number_laws_def int_ops_def)
qed

lemma i32_roundtrip [simp]: "(scast (scast (i :: i32) :: i64) :: i32) = i"
  by (rule scast_down_scast_id) (simp add: is_down)

lemma u32_roundtrip [simp]: "(ucast (ucast (u :: u32) :: u64) :: u32) = u"
  by (rule ucast_down_ucast_id) (simp add: is_down)

lemma number_laws_i32 [simp]: "number_laws N \<Longrightarrow> as_i64 N (of_i32 N i) = Some (scast i)"
  by (simp add: number_laws_def)

lemma number_laws_u32 [simp]: "number_laws N \<Longrightarrow> as_u64 N (of_u32 N u) = Some (ucast u)"
  by (simp add: number_laws_def)

end
