(* ===== verification/Protocol.thy ===== *)
theory Protocol
  imports Messages Json
begin

text \<open>
  The FBP network protocol messages of \<open>src/protocol.rs\<close>: the request payloads the server receives,
  the response messages it sends and the constructors that build a response from a request or from
  the runtime's state. Request payloads are records (a field has the prefix of its struct);
  a response is its protocol, its command and its payload. The JSON encoding is not modelled.
\<close>

section \<open>Data shared by requests and responses\<close>

datatype Capability =
    ProtocolRuntime | ProtocolNetwork | NetworkPersist | NetworkStatus | NetworkData | NetworkControl
  | ProtocolComponent | ComponentGetsource | ComponentSetsource | ProtocolGraph | GraphReadonly
  | ProtocolTrace

record GraphNodeMetadata =
  md_x :: i32
  md_y :: i32
  md_width :: "u32 option"
  md_height :: "u32 option"
  md_label :: "string option"
  md_icon :: "string option"

definition NODE_WIDTH_DEFAULT :: u32 where "NODE_WIDTH_DEFAULT = 72"

definition NODE_HEIGHT_DEFAULT :: u32 where "NODE_HEIGHT_DEFAULT = 72"

definition GraphNodeMetadata_default :: GraphNodeMetadata where
  "GraphNodeMetadata_default =
     \<lparr>md_x = 0, md_y = 0, md_width = Some NODE_WIDTH_DEFAULT, md_height = Some NODE_HEIGHT_DEFAULT,
      md_label = None, md_icon = None\<rparr>"

record GraphEdgeMetadata =
  em_route :: "i32 option"
  em_schema :: "string option"
  em_secure :: "bool option"

record GraphGroupMetadata =
  gm_description :: string

record GraphIIPSpecNetwork =
  iip_data :: string

record GraphEdgeSpec =
  es_src :: GraphNodeSpecNetwork
  es_tgt :: GraphNodeSpecNetwork

datatype RuntimePacketEvent = PacketConnect | PacketBeginGroup | PacketData | PacketEndGroup | PacketDisconnect

type_synonym utc = int

record SchedulerMetricsSnapshot =
  sm_executions_per_node :: "string \<rightharpoonup> u64"
  sm_work_units_per_node :: "string \<rightharpoonup> u64"
  sm_time_since_last_execution_ms :: "string \<rightharpoonup> u64"
  sm_queue_depth :: nat
  sm_loop_iterations :: u64

record RuntimeStatusSnapshot =
  ss_time_started :: utc
  ss_graph :: string
  ss_started :: bool
  ss_running :: bool
  ss_debug :: "bool option"
  ss_scheduler_metrics :: "string \<rightharpoonup> SchedulerMetricsSnapshot"

section \<open>Request payloads\<close>

record RuntimeGetruntimePayload =
  rg_secret :: "string option"

record RuntimePacketRequestPayload =
  rp_port :: string
  rp_event :: RuntimePacketEvent
  rp_typ :: "string option"
  rp_schema :: "string option"
  rp_graph :: string
  rp_payload :: "string option"
  rp_secret :: "string option"

record NetworkPersistRequestPayload =
  np_secret :: "string option"

record NetworkEdgesRequestPayload =
  ne_graph :: string
  ne_edges :: "GraphEdgeSpec list"
  ne_secret :: "string option"

record NetworkStartRequestPayload =
  ns_graph :: string
  ns_secret :: "string option"

record NetworkStopRequestPayload =
  nx_graph :: string
  nx_secret :: "string option"

record NetworkGetstatusPayload =
  ng_graph :: string
  ng_secret :: "string option"

record NetworkDebugRequestPayload =
  nd_enable :: bool
  nd_graph :: string
  nd_secret :: "string option"

record ComponentListRequestPayload =
  cl_secret :: "string option"

record ComponentGetsourcePayload =
  cg_name :: string
  cg_secret :: "string option"

record GraphClearRequestPayload =
  gc_name :: string
  gc_label :: "string option"
  gc_library :: "string option"
  gc_main :: bool
  gc_icon :: "string option"
  gc_description :: "string option"
  gc_secret :: "string option"

record 'n GraphAddnodeRequestPayload =
  an_name :: string
  an_component :: string
  an_metadata :: "'n JsonMap"
  an_graph :: "string option"
  an_icon :: "string option"
  an_secret :: "string option"

record GraphRemovenodeRequestPayload =
  rn_name :: string
  rn_graph :: string
  rn_secret :: "string option"

record GraphRenamenodeRequestPayload =
  mn_from :: string
  mn_to :: string
  mn_graph :: string
  mn_secret :: "string option"

record 'n GraphChangenodeRequestPayload =
  cn_name :: string
  cn_metadata :: "'n JsonMap"
  cn_graph :: string
  cn_secret :: "string option"

record GraphAddedgeRequestPayload =
  ae_src :: GraphNodeSpecNetwork
  ae_tgt :: GraphNodeSpecNetwork
  ae_metadata :: GraphEdgeMetadata
  ae_graph :: string
  ae_secret :: "string option"

record GraphRemoveedgeRequestPayload =
  re_graph :: string
  re_src :: GraphNodeSpecNetwork
  re_tgt :: GraphNodeSpecNetwork
  re_secret :: "string option"

record GraphChangeedgeRequestPayload =
  ce_graph :: string
  ce_metadata :: GraphEdgeMetadata
  ce_src :: GraphNodeSpecNetwork
  ce_tgt :: GraphNodeSpecNetwork
  ce_secret :: "string option"

record GraphAddinitialRequestPayload =
  ai_graph :: string
  ai_metadata :: GraphEdgeMetadata
  ai_src :: GraphIIPSpecNetwork
  ai_tgt :: GraphNodeSpecNetwork
  ai_secret :: "string option"

record GraphRemoveinitialRequestPayload =
  ri_graph :: string
  ri_src :: "GraphIIPSpecNetwork option"
  ri_tgt :: GraphNodeSpecNetwork
  ri_secret :: "string option"

record GraphAddinportRequestPayload =
  ip_graph :: string
  ip_public :: string
  ip_node :: string
  ip_port :: string
  ip_metadata :: "GraphNodeMetadata option"
  ip_secret :: "string option"

record GraphRemoveinportRequestPayload =
  rip_graph :: string
  rip_public :: string
  rip_secret :: "string option"

record GraphRenameinportRequestPayload =
  mip_graph :: string
  mip_from :: string
  mip_to :: string
  mip_secret :: "string option"

record GraphAddoutportRequestPayload =
  op_graph :: string
  op_public :: string
  op_node :: string
  op_port :: string
  op_metadata :: "GraphNodeMetadata option"
  op_secret :: "string option"

record GraphRemoveoutportRequestPayload =
  rop_graph :: string
  rop_public :: string
  rop_secret :: "string option"

record GraphRenameoutportRequestPayload =
  mop_graph :: string
  mop_from :: string
  mop_to :: string
  mop_secret :: "string option"

record GraphAddgroupRequestPayload =
  ag_name :: string
  ag_graph :: string
  ag_nodes :: "string list"
  ag_metadata :: GraphGroupMetadata
  ag_secret :: "string option"

record GraphRemovegroupRequestPayload =
  rmg_graph :: string
  rmg_name :: string
  rmg_secret :: "string option"

record GraphRenamegroupRequestPayload =
  mg_graph :: string
  mg_from :: string
  mg_to :: string
  mg_secret :: "string option"

record GraphChangegroupRequestPayload =
  chg_graph :: string
  chg_name :: string
  chg_metadata :: GraphGroupMetadata
  chg_secret :: "string option"

record TraceStartRequestPayload =
  ts_graph :: string
  ts_buffer_size :: u32
  ts_secret :: "string option"

record TraceStopRequestPayload =
  tp_graph :: string
  tp_secret :: "string option"

record TraceClearRequestPayload =
  tcl_graph :: string
  tcl_secret :: "string option"

record TraceDumpRequestPayload =
  tdp_graph :: string
  tdp_typ :: string
  tdp_flowtrace :: string
  tdp_secret :: "string option"

record RuntimePacketPayload =
  pk_port :: string
  pk_event :: RuntimePacketEvent
  pk_typ :: "string option"
  pk_schema :: "string option"
  pk_graph :: string
  pk_payload :: "string option"

section \<open>The messages of a client\<close>

datatype RuntimeMessage =
    RtGetruntime RuntimeGetruntimePayload
  | RtRuntime
  | RtPorts
  | RtPacket RuntimePacketRequestPayload
  | RtPacketsent RuntimePacketPayload

datatype NetworkMessage =
    NwPersist NetworkPersistRequestPayload
  | NwGetstatus NetworkGetstatusPayload
  | NwStatus
  | NwEdges NetworkEdgesRequestPayload
  | NwStart NetworkStartRequestPayload
  | NwStop NetworkStopRequestPayload
  | NwDebug NetworkDebugRequestPayload

datatype ComponentMessage =
    CpGetsource ComponentGetsourcePayload
  | CpSource
  | CpList ComponentListRequestPayload
  | CpComponent
  | CpComponentsready

datatype 'n GraphMessage =
    GrClear GraphClearRequestPayload
  | GrAddnode "'n GraphAddnodeRequestPayload"
  | GrChangenode "'n GraphChangenodeRequestPayload"
  | GrRenamenode GraphRenamenodeRequestPayload
  | GrRemovenode GraphRemovenodeRequestPayload
  | GrAddedge GraphAddedgeRequestPayload
  | GrRemoveedge GraphRemoveedgeRequestPayload
  | GrChangeedge GraphChangeedgeRequestPayload
  | GrAddinitial GraphAddinitialRequestPayload
  | GrRemoveinitial GraphRemoveinitialRequestPayload
  | GrAddinport GraphAddinportRequestPayload
  | GrRemoveinport GraphRemoveinportRequestPayload
  | GrRenameinport GraphRenameinportRequestPayload
  | GrAddoutport GraphAddoutportRequestPayload
  | GrRemoveoutport GraphRemoveoutportRequestPayload
  | GrRenameoutport GraphRenameoutportRequestPayload
  | GrAddgroup GraphAddgroupRequestPayload
  | GrRemovegroup GraphRemovegroupRequestPayload
  | GrRenamegroup GraphRenamegroupRequestPayload
  | GrChangegroup GraphChangegroupRequestPayload

datatype TraceMessage =
    TrStart TraceStartRequestPayload
  | TrStop TraceStopRequestPayload
  | TrClear TraceClearRequestPayload
  | TrDump TraceDumpRequestPayload
  | TrData TraceDataEventPayload
  | TrConnect TraceConnectEventPayload
  | TrDisconnect TraceDisconnectEventPayload

datatype 'n FBPMessage =
    FbpRuntime RuntimeMessage
  | FbpNetwork NetworkMessage
  | FbpComponent ComponentMessage
  | FbpGraph "'n GraphMessage"
  | FbpTrace TraceMessage

end
