(* ===== verification/Responses.thy ===== *)
theory Responses
  imports Protocol
begin

text \<open>
  The messages the server sends (\<open>src/protocol.rs\<close>, and \<open>runtime:runtime\<close> of \<open>src/runtime.rs\<close>): a
  response is its protocol, its command and its payload, and each Rust constructor is a definition.
\<close>

section \<open>Payloads\<close>

record NetworkTransmissionPayload =
  nt_id :: string
  nt_src :: "GraphNodeSpecNetwork option"
  nt_tgt :: "GraphNodeSpecNetwork option"
  nt_graph :: string
  nt_subgraph :: "string list option"
  nt_data :: "string option"

record NetworkStartedResponsePayload =
  st_time_started :: utc
  st_graph :: string
  st_started :: bool
  st_running :: bool
  st_debug :: "bool option"
  st_scheduler_metrics :: "(string \<rightharpoonup> SchedulerMetricsSnapshot) option"

record NetworkStoppedResponsePayload =
  sp_time_stopped :: utc
  sp_uptime :: int
  sp_graph :: string
  sp_started :: bool
  sp_running :: bool
  sp_debug :: "bool option"
  sp_scheduler_metrics :: "(string \<rightharpoonup> SchedulerMetricsSnapshot) option"

record NetworkStatusPayload =
  nst_graph :: string
  nst_uptime :: "int option"
  nst_started :: bool
  nst_running :: bool
  nst_debug :: "bool option"
  nst_scheduler_metrics :: "(string \<rightharpoonup> SchedulerMetricsSnapshot) option"

record ComponentSourcePayload =
  cs_name :: string
  cs_language :: string
  cs_library :: string
  cs_code :: string
  cs_tests :: string

record GraphClearResponsePayload =
  gcr_name :: string
  gcr_label :: string
  gcr_library :: "string option"
  gcr_main :: bool
  gcr_icon :: "string option"
  gcr_description :: "string option"

record 'n GraphAddnodeResponsePayload =
  anr_name :: string
  anr_component :: string
  anr_metadata :: "'n JsonMap"
  anr_graph :: string

record GraphRemoveedgeResponsePayload =
  rer_graph :: string
  rer_src :: GraphNodeSpecNetwork
  rer_tgt :: GraphNodeSpecNetwork

record RuntimeRuntimePayload =
  rr_id :: string
  rr_label :: string
  rr_version :: string
  rr_all_capabilities :: "Capability list"
  rr_capabilities :: "Capability list"
  rr_graph :: string
  rr_runtime :: string
  rr_namespace :: string
  rr_repository :: string
  rr_repository_version :: string

datatype 'n response_payload =
    ErrorPayload (error_text: string)
  | NetworkErrorPayload string string string
  | PacketPayload RuntimePacketPayload
  | PortsPayload string "ComponentPort set" "ComponentPort set"
  | EmptyPayload
  | EdgesPayload string "GraphEdgeSpec list"
  | OutputPayload string "string option" "string option"
  | TransmissionPayload NetworkTransmissionPayload
  | StartedPayload NetworkStartedResponsePayload
  | StoppedPayload NetworkStoppedResponsePayload
  | StatusPayload NetworkStatusPayload
  | RuntimeStatusPayload string NetworkStatusPayload
  | DebugPayload string bool
  | ComponentPayload string string string bool "ComponentPort list" "ComponentPort list"
  | ReadyPayload u32
  | SourcePayload ComponentSourcePayload
  | ClearPayload GraphClearResponsePayload
  | AddnodePayload "'n GraphAddnodeResponsePayload"
  | RemovenodePayload string string
  | RenamenodePayload string string string
  | ChangenodePayload string "'n JsonMap" string
  | EdgePayload GraphNodeSpecNetwork GraphNodeSpecNetwork GraphEdgeMetadata string
  | RemoveedgePayload GraphRemoveedgeResponsePayload
  | AddinitialPayload GraphIIPSpecNetwork GraphNodeSpecNetwork GraphEdgeMetadata string
  | RemoveinitialPayload GraphIIPSpecNetwork GraphNodeSpecNetwork string
  | PortPayload string string string string
  | PublicPayload string string
  | TracePayload string
  | TraceDumpPayload string string
  | TraceEventPayload FbpMessage
  | RuntimePayload RuntimeRuntimePayload

record 'n response =
  r_protocol :: string
  r_command :: string
  r_payload :: "'n response_payload"

definition respond :: "string \<Rightarrow> string \<Rightarrow> 'n response_payload \<Rightarrow> 'n response" where
  "respond p c x = \<lparr>r_protocol = p, r_command = c, r_payload = x\<rparr>"

section \<open>Errors\<close>

definition RuntimeErrorResponse_new :: "string \<Rightarrow> 'n response" where
  "RuntimeErrorResponse_new msg = respond ''runtime'' ''error'' (ErrorPayload msg)"

definition GraphErrorResponse_new :: "string \<Rightarrow> 'n response" where
  "GraphErrorResponse_new err = respond ''graph'' ''error'' (ErrorPayload err)"

definition NetworkErrorResponse_new :: "string \<Rightarrow> string \<Rightarrow> string \<Rightarrow> 'n response" where
  "NetworkErrorResponse_new err stacktrace graph =
     respond ''network'' ''error'' (NetworkErrorPayload err stacktrace graph)"

definition ComponentErrorResponse_new :: "string \<Rightarrow> 'n response" where
  "ComponentErrorResponse_new err = respond ''component'' ''error'' (ErrorPayload err)"

definition TraceErrorResponse_new :: "string \<Rightarrow> 'n response" where
  "TraceErrorResponse_new err = respond ''trace'' ''error'' (ErrorPayload err)"

definition is_error :: "'n response \<Rightarrow> bool" where
  "is_error r \<longleftrightarrow> r_command r = ''error''"

section \<open>runtime\<close>

definition RuntimeRuntimeMessage_new :: "RuntimeRuntimePayload \<Rightarrow> 'n response" where
  "RuntimeRuntimeMessage_new p = respond ''runtime'' ''runtime'' (RuntimePayload p)"

definition packet_payload ::
    "RuntimePacketEvent \<Rightarrow> string \<Rightarrow> string \<Rightarrow> string option \<Rightarrow> string option \<Rightarrow> string option \<Rightarrow>
     RuntimePacketPayload" where
  "packet_payload ev graph port typ schem body =
     \<lparr>pk_port = port, pk_event = ev, pk_typ = typ, pk_schema = schem, pk_graph = graph,
      pk_payload = body\<rparr>"

definition RuntimePacketResponse_new :: "RuntimePacketPayload \<Rightarrow> 'n response" where
  "RuntimePacketResponse_new p = respond ''runtime'' ''packet'' (PacketPayload p)"

definition RuntimePacketResponse_new_connect ::
    "string \<Rightarrow> string \<Rightarrow> string option \<Rightarrow> string option \<Rightarrow> 'n response" where
  "RuntimePacketResponse_new_connect graph port typ schem =
     RuntimePacketResponse_new (packet_payload PacketConnect graph port typ schem None)"

definition RuntimePacketResponse_new_begingroup ::
    "string \<Rightarrow> string \<Rightarrow> string option \<Rightarrow> string option \<Rightarrow> string \<Rightarrow> 'n response" where
  "RuntimePacketResponse_new_begingroup graph port typ schem group_name =
     RuntimePacketResponse_new (packet_payload PacketBeginGroup graph port typ schem (Some group_name))"

text \<open>The event of a data packet is \<open>Connect\<close>, as in the code.\<close>

definition RuntimePacketResponse_new_data ::
    "string \<Rightarrow> string \<Rightarrow> string option \<Rightarrow> string option \<Rightarrow> string \<Rightarrow> 'n response" where
  "RuntimePacketResponse_new_data graph port typ schem body =
     RuntimePacketResponse_new (packet_payload PacketConnect graph port typ schem (Some body))"

definition RuntimePacketResponse_new_endgroup ::
    "string \<Rightarrow> string \<Rightarrow> string option \<Rightarrow> string option \<Rightarrow> string \<Rightarrow> 'n response" where
  "RuntimePacketResponse_new_endgroup graph port typ schem group_name =
     RuntimePacketResponse_new (packet_payload PacketEndGroup graph port typ schem (Some group_name))"

definition RuntimePacketResponse_new_disconnect ::
    "string \<Rightarrow> string \<Rightarrow> string option \<Rightarrow> string option \<Rightarrow> 'n response" where
  "RuntimePacketResponse_new_disconnect graph port typ schem =
     RuntimePacketResponse_new (packet_payload PacketDisconnect graph port typ schem None)"

definition RuntimePacketsentPayload_from :: "RuntimePacketRequestPayload \<Rightarrow> RuntimePacketPayload" where
  "RuntimePacketsentPayload_from p =
     \<lparr>pk_port = rp_port p, pk_event = rp_event p, pk_typ = rp_typ p, pk_schema = rp_schema p,
      pk_graph = rp_graph p, pk_payload = rp_payload p\<rparr>"

definition RuntimePacketsentMessage_new :: "RuntimePacketPayload \<Rightarrow> 'n response" where
  "RuntimePacketsentMessage_new p = respond ''runtime'' ''packetsent'' (PacketPayload p)"

section \<open>network\<close>

definition NetworkPersistResponse_default :: "'n response" where
  "NetworkPersistResponse_default = respond ''network'' ''persist'' EmptyPayload"

definition NetworkEdgesResponse_from_request :: "NetworkEdgesRequestPayload \<Rightarrow> 'n response" where
  "NetworkEdgesResponse_from_request p =
     respond ''network'' ''edges'' (EdgesPayload (ne_graph p) (ne_edges p))"

definition NetworkOutputResponse_new :: "string \<Rightarrow> 'n response" where
  "NetworkOutputResponse_new msg =
     respond ''network'' ''output'' (OutputPayload ''message'' (Some msg) None)"

definition NetworkOutputResponse_new_previewurl :: "string \<Rightarrow> 'n response" where
  "NetworkOutputResponse_new_previewurl url =
     respond ''network'' ''output'' (OutputPayload ''previewurl'' None (Some url))"

definition NetworkDataResponse_new :: "NetworkTransmissionPayload \<Rightarrow> 'n response" where
  "NetworkDataResponse_new p = respond ''network'' ''data'' (TransmissionPayload p)"

definition network_scheduler_metrics ::
    "RuntimeStatusSnapshot \<Rightarrow> (string \<rightharpoonup> SchedulerMetricsSnapshot) option" where
  "network_scheduler_metrics s =
     (if ss_scheduler_metrics s = Map.empty then None else Some (ss_scheduler_metrics s))"

definition NetworkStartedResponsePayload_from ::
    "RuntimeStatusSnapshot \<Rightarrow> NetworkStartedResponsePayload" where
  "NetworkStartedResponsePayload_from s =
     \<lparr>st_time_started = ss_time_started s, st_graph = ss_graph s, st_started = ss_started s,
      st_running = ss_running s, st_debug = ss_debug s, st_scheduler_metrics = None\<rparr>"

definition NetworkStartedResponse_new :: "NetworkStartedResponsePayload \<Rightarrow> 'n response" where
  "NetworkStartedResponse_new p = respond ''network'' ''started'' (StartedPayload p)"

text \<open>\<open>chrono\<close>'s \<open>num_seconds\<close>: whole seconds of a difference of nanoseconds, towards zero.\<close>

definition num_seconds :: "int \<Rightarrow> int" where
  "num_seconds d = (if 0 \<le> d then d div 1000000000 else - ((- d) div 1000000000))"

definition NetworkStoppedResponse_new :: "utc \<Rightarrow> RuntimeStatusSnapshot \<Rightarrow> 'n response" where
  "NetworkStoppedResponse_new now s =
     respond ''network'' ''stopped''
       (StoppedPayload
         \<lparr>sp_time_stopped = now, sp_uptime = num_seconds (now - ss_time_started s),
          sp_graph = ss_graph s, sp_started = ss_started s, sp_running = ss_running s,
          sp_debug = ss_debug s, sp_scheduler_metrics = None\<rparr>)"

definition NetworkStatusPayload_new :: "RuntimeStatusSnapshot \<Rightarrow> NetworkStatusPayload" where
  "NetworkStatusPayload_new s =
     \<lparr>nst_graph = ss_graph s, nst_uptime = None, nst_started = ss_started s,
      nst_running = ss_running s, nst_debug = ss_debug s, nst_scheduler_metrics = None\<rparr>"

definition NetworkStatusMessage_new :: "NetworkStatusPayload \<Rightarrow> 'n response" where
  "NetworkStatusMessage_new p = respond ''network'' ''status'' (StatusPayload p)"

definition RuntimeStatusMessage_new :: "string \<Rightarrow> NetworkStatusPayload \<Rightarrow> 'n response" where
  "RuntimeStatusMessage_new runtime_id p =
     respond ''runtime'' ''status'' (RuntimeStatusPayload runtime_id p)"

definition NetworkDebugResponse_new :: "string \<Rightarrow> bool \<Rightarrow> 'n response" where
  "NetworkDebugResponse_new graph enable = respond ''network'' ''debug'' (DebugPayload graph enable)"

section \<open>component\<close>

definition ComponentComponentMessage_new :: "ComponentComponentPayload \<Rightarrow> 'n response" where
  "ComponentComponentMessage_new p =
     respond ''component'' ''component''
       (ComponentPayload
         (if CHR ''/'' \<in> set (comp_name p) then comp_name p else ''core/'' @ comp_name p)
         (comp_description p) (comp_icon p) (subgraph p) (in_ports p) (out_ports p))"

definition ComponentComponentsreadyMessage_new :: "u32 \<Rightarrow> 'n response" where
  "ComponentComponentsreadyMessage_new n = respond ''component'' ''componentsready'' (ReadyPayload n)"

definition ComponentSourceMessage_new :: "ComponentSourcePayload \<Rightarrow> 'n response" where
  "ComponentSourceMessage_new p = respond ''component'' ''source'' (SourcePayload p)"

section \<open>graph\<close>

definition GraphClearResponse_new :: "GraphClearRequestPayload \<Rightarrow> 'n response" where
  "GraphClearResponse_new p =
     respond ''graph'' ''clear''
       (ClearPayload
         \<lparr>gcr_name = gc_name p,
          gcr_label = (case gc_label p of None \<Rightarrow> gc_name p | Some l \<Rightarrow> l),
          gcr_library = gc_library p, gcr_main = gc_main p, gcr_icon = gc_icon p,
          gcr_description = gc_description p\<rparr>)"

definition GraphAddnodeResponse_new :: "'n GraphAddnodeResponsePayload \<Rightarrow> 'n response" where
  "GraphAddnodeResponse_new p = respond ''graph'' ''addnode'' (AddnodePayload p)"

definition GraphRemovenodeResponse_from_request :: "GraphRemovenodeRequestPayload \<Rightarrow> 'n response" where
  "GraphRemovenodeResponse_from_request p =
     respond ''graph'' ''removenode'' (RemovenodePayload (rn_name p) (rn_graph p))"

definition GraphRenamenodeResponse_from_request :: "GraphRenamenodeRequestPayload \<Rightarrow> 'n response" where
  "GraphRenamenodeResponse_from_request p =
     respond ''graph'' ''renamenode'' (RenamenodePayload (mn_from p) (mn_to p) (mn_graph p))"

definition GraphChangenodeResponse :: "string \<Rightarrow> 'n JsonMap \<Rightarrow> string \<Rightarrow> 'n response" where
  "GraphChangenodeResponse name metadata graph =
     respond ''graph'' ''changenode'' (ChangenodePayload name metadata graph)"

definition GraphAddedgeResponse_from_request :: "GraphAddedgeRequestPayload \<Rightarrow> 'n response" where
  "GraphAddedgeResponse_from_request p =
     respond ''graph'' ''addedge'' (EdgePayload (ae_src p) (ae_tgt p) (ae_metadata p) (ae_graph p))"

definition GraphRemoveedgeResponse_from_request :: "GraphRemoveedgeRequestPayload \<Rightarrow> 'n response" where
  "GraphRemoveedgeResponse_from_request p =
     respond ''graph'' ''removeedge''
       (RemoveedgePayload \<lparr>rer_graph = re_graph p, rer_src = re_src p, rer_tgt = re_tgt p\<rparr>)"

definition GraphChangeedgeResponse_from_request :: "GraphChangeedgeRequestPayload \<Rightarrow> 'n response" where
  "GraphChangeedgeResponse_from_request p =
     respond ''graph'' ''changeedge'' (EdgePayload (ce_src p) (ce_tgt p) (ce_metadata p) (ce_graph p))"

definition GraphAddinitialResponse_from_request :: "GraphAddinitialRequestPayload \<Rightarrow> 'n response" where
  "GraphAddinitialResponse_from_request p =
     respond ''graph'' ''addinitial''
       (AddinitialPayload (ai_src p) (ai_tgt p) (ai_metadata p) (ai_graph p))"

definition GraphRemoveinitialResponse_from_removed ::
    "string \<Rightarrow> GraphIIPSpecNetwork \<Rightarrow> GraphNodeSpecNetwork \<Rightarrow> 'n response" where
  "GraphRemoveinitialResponse_from_removed graph src tgt =
     respond ''graph'' ''removeinitial'' (RemoveinitialPayload src tgt graph)"

definition GraphAddinportResponse_from_request :: "GraphAddinportRequestPayload \<Rightarrow> 'n response" where
  "GraphAddinportResponse_from_request p =
     respond ''graph'' ''addinport'' (PortPayload (ip_graph p) (ip_public p) (ip_node p) (ip_port p))"

definition GraphRemoveinportResponse_default :: "'n response" where
  "GraphRemoveinportResponse_default = respond ''graph'' ''removeinport'' EmptyPayload"

definition GraphRenameinportResponse_default :: "'n response" where
  "GraphRenameinportResponse_default = respond ''graph'' ''renameinport'' EmptyPayload"

definition GraphAddoutportResponse_from_request :: "GraphAddoutportRequestPayload \<Rightarrow> 'n response" where
  "GraphAddoutportResponse_from_request p =
     respond ''graph'' ''addoutport'' (PortPayload (op_graph p) (op_public p) (op_node p) (op_port p))"

definition GraphRemoveoutportResponse_from_request :: "GraphRemoveoutportRequestPayload \<Rightarrow> 'n response" where
  "GraphRemoveoutportResponse_from_request p =
     respond ''graph'' ''removeoutport'' (PublicPayload (rop_graph p) (rop_public p))"

definition GraphRenameoutportResponse_default :: "'n response" where
  "GraphRenameoutportResponse_default = respond ''graph'' ''renameoutport'' EmptyPayload"

definition GraphAddgroupResponse_default :: "'n response" where
  "GraphAddgroupResponse_default = respond ''graph'' ''addgroup'' EmptyPayload"

definition GraphRemovegroupResponse_default :: "'n response" where
  "GraphRemovegroupResponse_default = respond ''graph'' ''removegroup'' EmptyPayload"

definition GraphRenamegroupResponse_default :: "'n response" where
  "GraphRenamegroupResponse_default = respond ''graph'' ''renamegroup'' EmptyPayload"

definition GraphChangegroupResponse_default :: "'n response" where
  "GraphChangegroupResponse_default = respond ''graph'' ''changegroup'' EmptyPayload"

section \<open>trace\<close>

definition TraceStartResponse_new :: "string \<Rightarrow> 'n response" where
  "TraceStartResponse_new graph = respond ''trace'' ''start'' (TracePayload graph)"

definition TraceStopResponse_new :: "string \<Rightarrow> 'n response" where
  "TraceStopResponse_new graph = respond ''trace'' ''stop'' (TracePayload graph)"

definition TraceClearResponse_new :: "string \<Rightarrow> 'n response" where
  "TraceClearResponse_new graph = respond ''trace'' ''clear'' (TracePayload graph)"

definition TraceDumpResponse_new :: "string \<Rightarrow> string \<Rightarrow> 'n response" where
  "TraceDumpResponse_new graph dump = respond ''trace'' ''dump'' (TraceDumpPayload graph dump)"

section \<open>Which responses are errors\<close>

lemmas error_response_defs = RuntimeErrorResponse_new_def GraphErrorResponse_new_def
  NetworkErrorResponse_new_def ComponentErrorResponse_new_def TraceErrorResponse_new_def

lemma error_responses [simp]:
  "is_error (RuntimeErrorResponse_new m)" "is_error (GraphErrorResponse_new m)"
  "is_error (NetworkErrorResponse_new m s g)" "is_error (ComponentErrorResponse_new m)"
  "is_error (TraceErrorResponse_new m)"
  by (simp_all add: is_error_def error_response_defs respond_def)

end
