(* ===== verification/Graph.thy ===== *)
theory Graph
  imports Responses
begin

text \<open>
  The graph model of \<open>src/graph.rs\<close>: the data of a graph, and the operations the graph protocol
  calls on it, each with its guards in the order of the code and its errors as values. A \<open>HashMap\<close>
  is a map. An occupied key met after a \<open>contains_key\<close> that excluded it would be a panic
  (\<open>expect\<close>); the branch is written as \<open>Panicked\<close> and proved unreachable in \<open>Graph_Properties\<close>.
\<close>

section \<open>Data\<close>

datatype AccessLevel = ReadOnly | ReadWrite

record GraphPropertiesEnvironment =
  env_typ :: string
  env_content :: string

record GraphProperties =
  prop_name :: string
  prop_environment :: GraphPropertiesEnvironment
  prop_description :: string
  prop_icon :: string

record GraphPort =
  gp_process :: string
  gp_port :: string
  gp_x :: i32
  gp_y :: i32

record GraphGroup =
  grp_name :: string
  grp_nodes :: "string list"
  grp_metadata :: GraphGroupMetadata

record 'n GraphNode =
  gn_component :: string
  gn_metadata :: GraphNodeMetadata
  gn_protocol_metadata :: "'n JsonMap"

record GraphNodeSpec =
  gs_process :: string
  gs_port :: string
  gs_index :: "string option"

record GraphEdge =
  ge_source :: GraphNodeSpec
  ge_data :: "string option"
  ge_target :: GraphNodeSpec
  ge_metadata :: GraphEdgeMetadata

record 'n Graph =
  g_case_sensitive :: bool
  g_properties :: GraphProperties
  g_inports :: "string \<rightharpoonup> GraphPort"
  g_outports :: "string \<rightharpoonup> GraphPort"
  g_groups :: "GraphGroup list"
  g_nodes :: "string \<rightharpoonup> 'n GraphNode"
  g_edges :: "GraphEdge list"

abbreviation graph_name :: "'n Graph \<Rightarrow> string" where
  "graph_name g \<equiv> prop_name (g_properties g)"

section \<open>Conversions\<close>

text \<open>\<open>GraphNodeSpec == GraphNodeSpecNetwork\<close>.\<close>

definition spec_matches :: "GraphNodeSpec \<Rightarrow> GraphNodeSpecNetwork \<Rightarrow> bool" where
  "spec_matches s o' \<longleftrightarrow>
     gs_process s = spec_node o' \<and> gs_port s = spec_port o' \<and> gs_index s = spec_index o'"

definition GraphNodeSpec_from :: "GraphNodeSpecNetwork \<Rightarrow> GraphNodeSpec" where
  "GraphNodeSpec_from s = \<lparr>gs_process = spec_node s, gs_port = spec_port s, gs_index = spec_index s\<rparr>"

definition spec_to_network :: "GraphNodeSpec \<Rightarrow> GraphNodeSpecNetwork" where
  "spec_to_network s = GraphNodeSpecNetwork (gs_process s) (gs_port s) (gs_index s)"

definition json_i32 :: "'n number_ops \<Rightarrow> 'n JsonMap \<Rightarrow> string \<Rightarrow> i32 option" where
  "json_i32 N m k =
     (case m k of Some (JNumber n) \<Rightarrow> map_option scast (as_i64 N n) | _ \<Rightarrow> None)"

text \<open>
  The metadata a node is given. A \<open>width\<close> that is a number but not an unsigned one clears the width.
\<close>

definition graph_node_metadata_from_payload :: "'n number_ops \<Rightarrow> 'n JsonMap \<Rightarrow> GraphNodeMetadata" where
  "graph_node_metadata_from_payload N m =
     \<lparr>md_x = (case json_i32 N m ''x'' of Some x \<Rightarrow> x | None \<Rightarrow> md_x GraphNodeMetadata_default),
      md_y = (case json_i32 N m ''y'' of Some y \<Rightarrow> y | None \<Rightarrow> md_y GraphNodeMetadata_default),
      md_width = (case m ''width'' of Some (JNumber w) \<Rightarrow> map_option ucast (as_u64 N w)
                  | _ \<Rightarrow> md_width GraphNodeMetadata_default),
      md_height = (case m ''height'' of Some (JNumber h) \<Rightarrow> map_option ucast (as_u64 N h)
                   | _ \<Rightarrow> md_height GraphNodeMetadata_default),
      md_label = (case m ''label'' of Some (JString l) \<Rightarrow> Some l
                  | _ \<Rightarrow> md_label GraphNodeMetadata_default),
      md_icon = (case m ''icon'' of Some (JString i) \<Rightarrow> Some i
                 | _ \<Rightarrow> md_icon GraphNodeMetadata_default)\<rparr>"

definition map_put :: "string \<Rightarrow> 'v option \<Rightarrow> (string \<rightharpoonup> 'v) \<Rightarrow> (string \<rightharpoonup> 'v)" where
  "map_put k v m = (case v of None \<Rightarrow> m | Some x \<Rightarrow> m(k \<mapsto> x))"

definition graph_node_metadata_to_payload :: "'n number_ops \<Rightarrow> GraphNodeMetadata \<Rightarrow> 'n JsonMap" where
  "graph_node_metadata_to_payload N md =
     map_put ''icon'' (map_option JString (md_icon md))
       (map_put ''label'' (map_option JString (md_label md))
         (map_put ''height'' (map_option (JNumber \<circ> of_u32 N) (md_height md))
           (map_put ''width'' (map_option (JNumber \<circ> of_u32 N) (md_width md))
             (Map.empty(''x'' \<mapsto> JNumber (of_i32 N (md_x md)),
                        ''y'' \<mapsto> JNumber (of_i32 N (md_y md)))))))"

definition GraphPort_from_parts :: "string \<Rightarrow> string \<Rightarrow> GraphNodeMetadata option \<Rightarrow> GraphPort" where
  "GraphPort_from_parts process port md =
     (let m = (case md of None \<Rightarrow> GraphNodeMetadata_default | Some m \<Rightarrow> m) in
      \<lparr>gp_process = process, gp_port = port, gp_x = md_x m, gp_y = md_y m\<rparr>)"

definition GraphPort_from_addinport :: "GraphAddinportRequestPayload \<Rightarrow> GraphPort" where
  "GraphPort_from_addinport p = GraphPort_from_parts (ip_node p) (ip_port p) (ip_metadata p)"

definition GraphPort_from_addoutport :: "GraphAddoutportRequestPayload \<Rightarrow> GraphPort" where
  "GraphPort_from_addoutport p = GraphPort_from_parts (op_node p) (op_port p) (op_metadata p)"

definition GraphEdge_from_addedge :: "GraphAddedgeRequestPayload \<Rightarrow> GraphEdge" where
  "GraphEdge_from_addedge p =
     \<lparr>ge_source = GraphNodeSpec_from (ae_src p), ge_data = None,
      ge_target = GraphNodeSpec_from (ae_tgt p), ge_metadata = ae_metadata p\<rparr>"

text \<open>An initial information packet (IIP) is an edge with data; empty data gives no data at all.\<close>

definition GraphEdge_from_addinitial :: "GraphAddinitialRequestPayload \<Rightarrow> GraphEdge" where
  "GraphEdge_from_addinitial p =
     \<lparr>ge_source = \<lparr>gs_process = '''', gs_port = '''', gs_index = Some ''''\<rparr>,
      ge_data = (if 0 < length (iip_data (ai_src p)) then Some (iip_data (ai_src p)) else None),
      ge_target = GraphNodeSpec_from (ai_tgt p), ge_metadata = ai_metadata p\<rparr>"

section \<open>Graphs\<close>

definition environment_default :: GraphPropertiesEnvironment where
  "environment_default = \<lparr>env_typ = ''flowd'', env_content = ''''\<rparr>"

definition Graph_new :: "string \<Rightarrow> string \<Rightarrow> string \<Rightarrow> 'n Graph" where
  "Graph_new name description icon =
     \<lparr>g_case_sensitive = True,
      g_properties = \<lparr>prop_name = name, prop_environment = environment_default,
        prop_description = description, prop_icon = icon\<rparr>,
      g_inports = Map.empty, g_outports = Map.empty, g_groups = [], g_nodes = Map.empty, g_edges = []\<rparr>"

definition component_port_of :: "string \<Rightarrow> ComponentPort" where
  "component_port_of name =
     \<lparr>port_name = name, allowed_type = '''', schema = None, required = True, is_arrayport = False,
      port_description = '''', values_allowed = [], value_default = ''''\<rparr>"

text \<open>The ports as a set: the code collects them in the iteration order of the map.\<close>

definition ports_as_componentportsarray :: "(string \<rightharpoonup> GraphPort) \<Rightarrow> ComponentPort set" where
  "ports_as_componentportsarray ports = component_port_of ` dom ports"

definition graph_clear :: "GraphClearRequestPayload \<Rightarrow> bool \<Rightarrow> 'n Graph \<Rightarrow> 'n Graph io_result" where
  "graph_clear p network_running g =
     (if network_running then Inl (IoError ResourceBusy ''network still running'')
      else Inr
        (g\<lparr>g_properties := (g_properties g)
             \<lparr>prop_name := gc_name p,
              prop_description := (case gc_description p of None \<Rightarrow> '''' | Some d \<Rightarrow> d),
              prop_icon := (case gc_icon p of None \<Rightarrow> '''' | Some i \<Rightarrow> i)\<rparr>,
           g_groups := [], g_edges := [], g_inports := Map.empty, g_outports := Map.empty,
           g_nodes := Map.empty\<rparr>))"

section \<open>Exported ports\<close>

definition add_inport :: "string \<Rightarrow> GraphPort \<Rightarrow> 'n Graph \<Rightarrow> 'n Graph io_result" where
  "add_inport name portdef g =
     (case try_insert name portdef (g_inports g) of
        Some m \<Rightarrow> Inr (g\<lparr>g_inports := m\<rparr>)
      | None \<Rightarrow> Inl (IoError AlreadyExists ''inport with that name already exists''))"

definition add_outport :: "string \<Rightarrow> GraphPort \<Rightarrow> 'n Graph \<Rightarrow> 'n Graph io_result" where
  "add_outport name portdef g =
     (case try_insert name portdef (g_outports g) of
        Some m \<Rightarrow> Inr (g\<lparr>g_outports := m\<rparr>)
      | None \<Rightarrow> Inl (IoError AlreadyExists ''outport with that name already exists''))"

definition remove_inport :: "string \<Rightarrow> 'n Graph \<Rightarrow> 'n Graph io_result" where
  "remove_inport name g =
     (case map_remove name (g_inports g) of
        (m, Some _) \<Rightarrow> Inr (g\<lparr>g_inports := m\<rparr>)
      | (_, None) \<Rightarrow> Inl (IoError NotFound ''inport not found''))"

definition remove_outport :: "string \<Rightarrow> 'n Graph \<Rightarrow> 'n Graph io_result" where
  "remove_outport name g =
     (case map_remove name (g_outports g) of
        (m, Some _) \<Rightarrow> Inr (g\<lparr>g_outports := m\<rparr>)
      | (_, None) \<Rightarrow> Inl (IoError NotFound ''outport not found''))"

text \<open>Renaming: the new name is checked first, then the entry is removed and inserted again.\<close>

definition rename_inport :: "string \<Rightarrow> string \<Rightarrow> 'n Graph \<Rightarrow> 'n Graph io_result outcome" where
  "rename_inport old new g =
     (if g_inports g new \<noteq> None then Returned (Inl (IoError AlreadyExists ''inport already exists''))
      else
        (case map_remove old (g_inports g) of
           (m, Some v) \<Rightarrow>
             (case try_insert new v m of
                Some m' \<Rightarrow> Returned (Inr (g\<lparr>g_inports := m'\<rparr>))
              | None \<Rightarrow> Panicked ''wtf key occupied on insertion'')
         | (_, None) \<Rightarrow> Returned (Inl (IoError NotFound ''inport not found''))))"

definition rename_outport :: "string \<Rightarrow> string \<Rightarrow> 'n Graph \<Rightarrow> 'n Graph io_result outcome" where
  "rename_outport old new g =
     (if g_outports g new \<noteq> None then Returned (Inl (IoError AlreadyExists ''outport already exists''))
      else
        (case map_remove old (g_outports g) of
           (m, Some v) \<Rightarrow>
             (case try_insert new v m of
                Some m' \<Rightarrow> Returned (Inr (g\<lparr>g_outports := m'\<rparr>))
              | None \<Rightarrow> Panicked ''wtf key occupied on insertion'')
         | (_, None) \<Rightarrow> Returned (Inl (IoError NotFound ''outport not found''))))"

section \<open>Nodes\<close>

definition wrong_graph :: io_error where
  "wrong_graph = IoError NotFound ''wrong graph addressed''"

definition add_node ::
    "'n number_ops \<Rightarrow> string \<Rightarrow> string \<Rightarrow> string \<Rightarrow> GraphNodeMetadata \<Rightarrow> 'n Graph \<Rightarrow>
     ('n Graph \<times> 'n GraphAddnodeResponsePayload) io_result" where
  "add_node N graph component name metadata g =
     (if graph \<noteq> graph_name g then Inl wrong_graph
      else
        (let pm = graph_node_metadata_to_payload N metadata;
             nodedef = \<lparr>gn_component = component, gn_metadata = metadata, gn_protocol_metadata = pm\<rparr>;
             ret = \<lparr>anr_name = name, anr_component = component, anr_metadata = pm, anr_graph = graph\<rparr>
         in
         (case try_insert name nodedef (g_nodes g) of
            Some m \<Rightarrow> Inr (g\<lparr>g_nodes := m\<rparr>, ret)
          | None \<Rightarrow> Inl (IoError AlreadyExists ''node with that name already exists''))))"

definition add_node_from_payload ::
    "'n number_ops \<Rightarrow> string \<Rightarrow> string \<Rightarrow> string \<Rightarrow> 'n JsonMap \<Rightarrow> 'n Graph \<Rightarrow>
     ('n Graph \<times> 'n GraphAddnodeResponsePayload) io_result" where
  "add_node_from_payload N graph component name metadata g =
     (case add_node N graph (rsplit_next (CHR ''/'') component) name
             (graph_node_metadata_from_payload N metadata) g of
        Inl e \<Rightarrow> Inl e
      | Inr (g1, response) \<Rightarrow>
          Inr (g1\<lparr>g_nodes :=
                 (case g_nodes g1 (anr_name response) of
                    None \<Rightarrow> g_nodes g1
                  | Some nd \<Rightarrow> (g_nodes g1)(anr_name response \<mapsto> nd\<lparr>gn_protocol_metadata := metadata\<rparr>))\<rparr>,
               response\<lparr>anr_component := component, anr_metadata := metadata, anr_graph := graph\<rparr>))"

definition edge_touches :: "string \<Rightarrow> GraphEdge \<Rightarrow> bool" where
  "edge_touches name e \<longleftrightarrow> gs_process (ge_source e) = name \<or> gs_process (ge_target e) = name"

definition removed_edge :: "string \<Rightarrow> GraphEdge \<Rightarrow> GraphRemoveedgeResponsePayload" where
  "removed_edge graph e =
     \<lparr>rer_graph = graph, rer_src = spec_to_network (ge_source e), rer_tgt = spec_to_network (ge_target e)\<rparr>"

definition remove_node ::
    "string \<Rightarrow> string \<Rightarrow> 'n Graph \<Rightarrow> ('n Graph \<times> GraphRemoveedgeResponsePayload list) io_result" where
  "remove_node graph name g =
     (if graph \<noteq> graph_name g then Inl wrong_graph
      else
        (case map_remove name (g_nodes g) of
           (m, Some _) \<Rightarrow>
             Inr (g\<lparr>g_nodes := m, g_edges := filter (\<lambda>e. \<not> edge_touches name e) (g_edges g)\<rparr>,
                  map (removed_edge graph) (filter (edge_touches name) (g_edges g)))
         | (_, None) \<Rightarrow> Inl (IoError NotFound ''node not found'')))"

definition rename_process :: "string \<Rightarrow> string \<Rightarrow> GraphNodeSpec \<Rightarrow> GraphNodeSpec" where
  "rename_process old new s = (if gs_process s = old then s\<lparr>gs_process := new\<rparr> else s)"

definition rename_in_edge :: "string \<Rightarrow> string \<Rightarrow> GraphEdge \<Rightarrow> GraphEdge" where
  "rename_in_edge old new e =
     e\<lparr>ge_source := rename_process old new (ge_source e),
       ge_target := rename_process old new (ge_target e)\<rparr>"

definition rename_node :: "string \<Rightarrow> string \<Rightarrow> string \<Rightarrow> 'n Graph \<Rightarrow> 'n Graph io_result outcome" where
  "rename_node graph old new g =
     (if graph \<noteq> graph_name g then Returned (Inl wrong_graph)
      else if g_nodes g new \<noteq> None then
        Returned (Inl (IoError AlreadyExists ''node with that name already exists''))
      else
        (case map_remove old (g_nodes g) of
           (m, Some v) \<Rightarrow>
             (case try_insert new v m of
                Some m' \<Rightarrow>
                  Returned (Inr (g\<lparr>g_nodes := m', g_edges := map (rename_in_edge old new) (g_edges g)\<rparr>))
              | None \<Rightarrow> Panicked ''wtf key occupied on insertion'')
         | (_, None) \<Rightarrow> Returned (Inl (IoError NotFound ''wtf node not found''))))"

text \<open>A \<open>null\<close> value deletes a metadata entry, any other value replaces it.\<close>

definition merge_metadata :: "'n JsonMap \<Rightarrow> 'n JsonMap \<Rightarrow> 'n JsonMap" where
  "merge_metadata old new =
     (\<lambda>k. case new k of None \<Rightarrow> old k | Some v \<Rightarrow> if is_null v then None else Some v)"

definition set_position :: "'n number_ops \<Rightarrow> 'n JsonMap \<Rightarrow> GraphNodeMetadata \<Rightarrow> GraphNodeMetadata" where
  "set_position N pm md =
     (let md1 = (case json_i32 N pm ''x'' of Some x \<Rightarrow> md\<lparr>md_x := x\<rparr> | None \<Rightarrow> md)
      in (case json_i32 N pm ''y'' of Some y \<Rightarrow> md1\<lparr>md_y := y\<rparr> | None \<Rightarrow> md1))"

definition change_node ::
    "'n number_ops \<Rightarrow> string \<Rightarrow> string \<Rightarrow> 'n JsonMap \<Rightarrow> 'n Graph \<Rightarrow> ('n Graph \<times> 'n JsonMap) io_result" where
  "change_node N graph name metadata g =
     (if graph \<noteq> graph_name g then Inl wrong_graph
      else
        (case g_nodes g name of
           None \<Rightarrow> Inl (IoError NotFound ''node by that name not found'')
         | Some nd \<Rightarrow>
             (let pm = merge_metadata (gn_protocol_metadata nd) metadata in
              Inr (g\<lparr>g_nodes := (g_nodes g)(name \<mapsto>
                     nd\<lparr>gn_metadata := set_position N pm (gn_metadata nd), gn_protocol_metadata := pm\<rparr>)\<rparr>,
                   pm))))"

section \<open>Edges and initial packets\<close>

definition add_edge :: "string \<Rightarrow> GraphEdge \<Rightarrow> 'n Graph \<Rightarrow> 'n Graph io_result" where
  "add_edge graph e g =
     (if graph \<noteq> graph_name g then Inl wrong_graph else Inr (g\<lparr>g_edges := g_edges g @ [e]\<rparr>))"

definition edge_matches :: "GraphNodeSpecNetwork \<Rightarrow> GraphNodeSpecNetwork \<Rightarrow> GraphEdge \<Rightarrow> bool" where
  "edge_matches src tgt e \<longleftrightarrow> spec_matches (ge_source e) src \<and> spec_matches (ge_target e) tgt"

definition edge_not_found :: io_error where
  "edge_not_found = IoError NotFound ''edge with that src+tgt not found''"

definition remove_edge ::
    "string \<Rightarrow> GraphNodeSpecNetwork \<Rightarrow> GraphNodeSpecNetwork \<Rightarrow> 'n Graph \<Rightarrow> 'n Graph io_result" where
  "remove_edge graph src tgt g =
     (if graph \<noteq> graph_name g then Inl wrong_graph
      else
        (case remove_first (edge_matches src tgt) (g_edges g) of
           Some es \<Rightarrow> Inr (g\<lparr>g_edges := es\<rparr>)
         | None \<Rightarrow> Inl edge_not_found))"

definition change_edge ::
    "string \<Rightarrow> GraphNodeSpecNetwork \<Rightarrow> GraphNodeSpecNetwork \<Rightarrow> GraphEdgeMetadata \<Rightarrow> 'n Graph \<Rightarrow>
     'n Graph io_result" where
  "change_edge graph src tgt metadata g =
     (if graph \<noteq> graph_name g then Inl wrong_graph
      else
        (case update_first (edge_matches src tgt) (\<lambda>e. e\<lparr>ge_metadata := metadata\<rparr>) (g_edges g) of
           Some es \<Rightarrow> Inr (g\<lparr>g_edges := es\<rparr>)
         | None \<Rightarrow> Inl edge_not_found))"

definition add_initialip :: "GraphAddinitialRequestPayload \<Rightarrow> 'n Graph \<Rightarrow> 'n Graph io_result" where
  "add_initialip p g = Inr (g\<lparr>g_edges := g_edges g @ [GraphEdge_from_addinitial p]\<rparr>)"

definition iip_matches :: "GraphRemoveinitialRequestPayload \<Rightarrow> GraphEdge \<Rightarrow> bool" where
  "iip_matches p e \<longleftrightarrow>
     (case ge_data e of
        None \<Rightarrow> False
      | Some d \<Rightarrow>
          (case ri_src p of None \<Rightarrow> True | Some src \<Rightarrow> d = iip_data src) \<and>
          spec_matches (ge_target e) (ri_tgt p))"

fun remove_initial_from ::
    "GraphRemoveinitialRequestPayload \<Rightarrow> GraphEdge list \<Rightarrow> (GraphEdge list \<times> string) option" where
  "remove_initial_from p [] = None"
| "remove_initial_from p (e # es) =
     (case ge_data e of
        Some d \<Rightarrow>
          if iip_matches p e then Some (es, d)
          else map_option (\<lambda>(rest, d'). (e # rest, d')) (remove_initial_from p es)
      | None \<Rightarrow> map_option (\<lambda>(rest, d'). (e # rest, d')) (remove_initial_from p es))"

definition remove_initialip ::
    "GraphRemoveinitialRequestPayload \<Rightarrow> 'n Graph \<Rightarrow> ('n Graph \<times> GraphIIPSpecNetwork) io_result" where
  "remove_initialip p g =
     (case remove_initial_from p (g_edges g) of
        Some (es, d) \<Rightarrow> Inr (g\<lparr>g_edges := es\<rparr>, \<lparr>iip_data = d\<rparr>)
      | None \<Rightarrow> Inl (IoError NotFound ''edge with that data+tgt not found''))"

section \<open>Groups and source\<close>

definition group_not_found :: io_error where
  "group_not_found = IoError NotFound ''group with that name not found''"

definition add_group ::
    "string \<Rightarrow> string \<Rightarrow> string list \<Rightarrow> GraphGroupMetadata \<Rightarrow> 'n Graph \<Rightarrow> 'n Graph io_result" where
  "add_group graph name members metadata g =
     (if graph \<noteq> graph_name g then Inl wrong_graph
      else Inr (g\<lparr>g_groups := g_groups g @
                  [\<lparr>grp_name = name, grp_nodes = members, grp_metadata = metadata\<rparr>]\<rparr>))"

definition remove_group :: "string \<Rightarrow> string \<Rightarrow> 'n Graph \<Rightarrow> 'n Graph io_result" where
  "remove_group graph name g =
     (if graph \<noteq> graph_name g then Inl wrong_graph
      else
        (case remove_first (\<lambda>h. grp_name h = name) (g_groups g) of
           Some gs \<Rightarrow> Inr (g\<lparr>g_groups := gs\<rparr>)
         | None \<Rightarrow> Inl group_not_found))"

definition rename_group :: "string \<Rightarrow> string \<Rightarrow> string \<Rightarrow> 'n Graph \<Rightarrow> 'n Graph io_result" where
  "rename_group graph old new g =
     (if graph \<noteq> graph_name g then Inl wrong_graph
      else
        (case update_first (\<lambda>h. grp_name h = old) (\<lambda>h. h\<lparr>grp_name := new\<rparr>) (g_groups g) of
           Some gs \<Rightarrow> Inr (g\<lparr>g_groups := gs\<rparr>)
         | None \<Rightarrow> Inl group_not_found))"

definition change_group :: "string \<Rightarrow> string \<Rightarrow> GraphGroupMetadata \<Rightarrow> 'n Graph \<Rightarrow> 'n Graph io_result" where
  "change_group graph name metadata g =
     (if graph \<noteq> graph_name g then Inl wrong_graph
      else
        (case update_first (\<lambda>h. grp_name h = name) (\<lambda>h. h\<lparr>grp_metadata := metadata\<rparr>) (g_groups g) of
           Some gs \<Rightarrow> Inr (g\<lparr>g_groups := gs\<rparr>)
         | None \<Rightarrow> Inl group_not_found))"

text \<open>\<open>serde_json::to_string\<close> on the graph is an argument.\<close>

definition graph_get_source :: "('n Graph \<Rightarrow> string) \<Rightarrow> string \<Rightarrow> 'n Graph \<Rightarrow> ComponentSourcePayload io_result" where
  "graph_get_source to_json name g =
     (if name = graph_name g then
        Inr \<lparr>cs_name = name, cs_language = ''json'', cs_library = '''', cs_code = to_json g,
             cs_tests = ''// tests for graph here''\<rparr>
      else Inl (IoError NotFound ''graph with that name not found''))"

section \<open>The component library\<close>

fun library_get_source :: "ComponentComponentPayload list \<Rightarrow> string \<Rightarrow> ComponentSourcePayload io_result" where
  "library_get_source [] name = Inl (IoError NotFound ''component not found'')"
| "library_get_source (c # cs) name =
     (if comp_name c = name then
        Inr \<lparr>cs_name = name, cs_language = '''', cs_library = '''',
             cs_code = ''// code for component here'', cs_tests = ''// tests for component here''\<rparr>
      else library_get_source cs name)"

lemmas graph_op_defs = add_inport_def add_outport_def remove_inport_def remove_outport_def
  rename_inport_def rename_outport_def add_node_def add_node_from_payload_def remove_node_def
  rename_node_def change_node_def add_edge_def remove_edge_def change_edge_def add_initialip_def
  remove_initialip_def add_group_def remove_group_def rename_group_def change_group_def

end
