(* ===== verification/Graph_Properties.thy ===== *)
theory Graph_Properties
  imports Graph "HOL-Library.Multiset"
begin

text \<open>
  What the graph operations guarantee: the contract of the two tables of exported ports, stated once
  as a locale and discharged for inports and outports; the topology a graph denotes and the
  refinement of its abstract operations; renaming and removal of nodes; metadata; initial packets.
\<close>

section \<open>The contract of a table of exported ports\<close>

locale port_table =
  fixes ports :: "'g \<Rightarrow> string \<rightharpoonup> 'p" and rest :: "'g \<Rightarrow> 'r"
    and add :: "string \<Rightarrow> 'p \<Rightarrow> 'g \<Rightarrow> 'g io_result"
    and remove :: "string \<Rightarrow> 'g \<Rightarrow> 'g io_result"
    and rename :: "string \<Rightarrow> string \<Rightarrow> 'g \<Rightarrow> 'g io_result outcome"
  assumes ext: "ports g = ports h \<Longrightarrow> rest g = rest h \<Longrightarrow> g = h"
    and add_new: "ports g n = None \<Longrightarrow>
      \<exists>h. add n p g = Inr h \<and> ports h = (ports g)(n \<mapsto> p) \<and> rest h = rest g"
    and add_taken: "ports g n = Some q \<Longrightarrow> \<exists>m. add n p g = Inl (IoError AlreadyExists m)"
    and remove_present: "ports g n = Some q \<Longrightarrow>
      \<exists>h. remove n g = Inr h \<and> ports h = (ports g)(n := None) \<and> rest h = rest g"
    and remove_missing: "ports g n = None \<Longrightarrow> \<exists>m. remove n g = Inl (IoError NotFound m)"
    and rename_taken: "ports g new = Some q \<Longrightarrow>
      \<exists>m. rename old new g = Returned (Inl (IoError AlreadyExists m))"
    and rename_missing: "ports g new = None \<Longrightarrow> ports g old = None \<Longrightarrow>
      \<exists>m. rename old new g = Returned (Inl (IoError NotFound m))"
    and rename_present: "ports g new = None \<Longrightarrow> ports g old = Some p \<Longrightarrow>
      \<exists>h. rename old new g = Returned (Inr h) \<and>
        ports h = (ports g)(old := None, new \<mapsto> p) \<and> rest h = rest g"
begin

lemma add_remove:
  assumes "add n p g = Inr h"
  shows "remove n h = Inr g"
proof -
  have new: "ports g n = None"
  proof (cases "ports g n")
    case (Some q)
    from add_taken [OF this, of p] assms show ?thesis by auto
  qed
  then have h: "ports h = (ports g)(n \<mapsto> p)" "rest h = rest g"
    using add_new [of g n p] assms by auto
  then obtain k where k: "remove n h = Inr k" "ports k = (ports h)(n := None)" "rest k = rest h"
    using remove_present [of h n p] by auto
  have "k = g" using h k new by (intro ext) (auto simp: fun_eq_iff)
  with k show ?thesis by simp
qed

lemma rename_returns: "\<exists>r. rename old new g = Returned r"
  using rename_taken [of g new] rename_missing [of g new old] rename_present [of g new old]
  by (cases "ports g new"; cases "ports g old") blast+

lemma rename_outcome:
  assumes "rename old new g = Returned (Inr h)"
  shows "\<exists>p. ports g old = Some p \<and> ports g new = None \<and>
    ports h = (ports g)(old := None, new \<mapsto> p) \<and> rest h = rest g"
proof (cases "ports g new")
  case (Some q)
  from rename_taken [OF this, of old] assms show ?thesis by auto
next
  case None
  show ?thesis
  proof (cases "ports g old")
    case (Some p)
    from rename_present [OF None this] assms None Some show ?thesis by auto
  next
    case missing: None
    from rename_missing [OF None missing] assms show ?thesis by auto
  qed
qed

lemma rename_back:
  assumes "rename old new g = Returned (Inr h)"
  shows "rename new old h = Returned (Inr g)"
proof -
  obtain p where p: "ports g old = Some p" "ports g new = None"
    "ports h = (ports g)(old := None, new \<mapsto> p)" "rest h = rest g"
    using rename_outcome [OF assms] by blast
  then have "old \<noteq> new" by auto
  with p have "ports h old = None" "ports h new = Some p" by auto
  then obtain k where k: "rename new old h = Returned (Inr k)"
    "ports k = (ports h)(new := None, old \<mapsto> p)" "rest k = rest h"
    using rename_present [of h old new p] by auto
  have "k = g" using p k \<open>old \<noteq> new\<close> by (intro ext) (auto simp: fun_eq_iff)
  with k show ?thesis by simp
qed

lemma rename_is_move:
  assumes "rename old new g = Returned (Inr h)"
  shows "\<exists>k p. remove old g = Inr k \<and> add new p k = Inr h"
proof -
  obtain p where p: "ports g old = Some p" "ports g new = None"
    "ports h = (ports g)(old := None, new \<mapsto> p)" "rest h = rest g"
    using rename_outcome [OF assms] by blast
  obtain k where k: "remove old g = Inr k" "ports k = (ports g)(old := None)" "rest k = rest g"
    using remove_present [OF p(1)] by blast
  have "ports k new = None" using k p(2) by simp
  from add_new [OF this] obtain l where
    l: "add new p k = Inr l" "ports l = (ports k)(new \<mapsto> p)" "rest l = rest k" by blast
  have "l = h" using p k l by (intro ext) auto
  with k l show ?thesis by blast
qed

end

text \<open>The rest of a graph: the graph with the table emptied.\<close>

interpretation inports: port_table g_inports "\<lambda>g. g\<lparr>g_inports := Map.empty\<rparr>"
    add_inport remove_inport rename_inport
proof unfold_locales
  fix g h :: "'n Graph"
  assume "g_inports g = g_inports h" "g\<lparr>g_inports := Map.empty\<rparr> = h\<lparr>g_inports := Map.empty\<rparr>"
  then show "g = h" by (cases g; cases h) simp
qed (auto simp: add_inport_def remove_inport_def rename_inport_def map_ops)

interpretation outports: port_table g_outports "\<lambda>g. g\<lparr>g_outports := Map.empty\<rparr>"
    add_outport remove_outport rename_outport
proof unfold_locales
  fix g h :: "'n Graph"
  assume "g_outports g = g_outports h" "g\<lparr>g_outports := Map.empty\<rparr> = h\<lparr>g_outports := Map.empty\<rparr>"
  then show "g = h" by (cases g; cases h) simp
qed (auto simp: add_outport_def remove_outport_def rename_outport_def map_ops)

section \<open>Topology\<close>

text \<open>
  What a graph denotes: its set of nodes, and its connections as a multiset of source, data and
  target. The edge list's order matters only for which of several equal connections is removed.
\<close>

type_synonym connection = "GraphNodeSpec \<times> string option \<times> GraphNodeSpec"
type_synonym topology = "string set \<times> connection multiset"

definition connection_of :: "GraphEdge \<Rightarrow> connection" where
  "connection_of e = (ge_source e, ge_data e, ge_target e)"

definition topology :: "'n Graph \<Rightarrow> topology" where
  "topology g = (dom (g_nodes g), image_mset connection_of (mset (g_edges g)))"

definition touches :: "string \<Rightarrow> connection \<Rightarrow> bool" where
  "touches n c = (case c of (s, d, t) \<Rightarrow> gs_process s = n \<or> gs_process t = n)"

definition spec_add_node :: "string \<Rightarrow> topology \<Rightarrow> topology" where
  "spec_add_node n T = (case T of (N, E) \<Rightarrow> (insert n N, E))"

definition spec_remove_node :: "string \<Rightarrow> topology \<Rightarrow> topology" where
  "spec_remove_node n T = (case T of (N, E) \<Rightarrow> (N - {n}, filter_mset (\<lambda>c. \<not> touches n c) E))"

definition spec_rename_node :: "string \<Rightarrow> string \<Rightarrow> topology \<Rightarrow> topology" where
  "spec_rename_node old new T = (case T of (N, E) \<Rightarrow>
     (insert new (N - {old}),
      image_mset (\<lambda>(s, d, t). (rename_process old new s, d, rename_process old new t)) E))"

definition spec_connect :: "connection \<Rightarrow> topology \<Rightarrow> topology" where
  "spec_connect c T = (case T of (N, E) \<Rightarrow> (N, add_mset c E))"

lemma touches_connection [simp]: "touches n (connection_of e) = edge_touches n e"
  by (simp add: touches_def connection_of_def edge_touches_def)

lemma connection_of_rename [simp]:
  "connection_of (rename_in_edge old new e) =
     (case connection_of e of (s, d, t) \<Rightarrow> (rename_process old new s, d, rename_process old new t))"
  by (simp add: connection_of_def rename_in_edge_def)

lemma add_node_outcome:
  "add_node N gr c n md g = Inr (h, r) \<Longrightarrow>
     gr = graph_name g \<and> g_nodes g n = None \<and> g_edges h = g_edges g \<and> dom (g_nodes h) = insert n (dom (g_nodes g))"
  by (auto simp: add_node_def Let_def map_ops split: if_splits option.splits)

lemma add_node_from_payload_outcome:
  assumes "add_node_from_payload N gr c n md g = Inr (h, r)"
  shows "gr = graph_name g \<and> g_nodes g n = None \<and> g_edges h = g_edges g \<and>
    g_nodes h = (g_nodes g)(n \<mapsto> \<lparr>gn_component = rsplit_next (CHR ''/'') c,
      gn_metadata = graph_node_metadata_from_payload N md, gn_protocol_metadata = md\<rparr>) \<and>
    r = \<lparr>anr_name = n, anr_component = c, anr_metadata = md, anr_graph = gr\<rparr>"
  using assms
  by (auto simp: add_node_from_payload_def add_node_def Let_def map_ops split: if_splits option.splits)

lemma remove_node_outcome:
  assumes "remove_node gr n g = Inr (h, removed)"
  shows "gr = graph_name g \<and> n \<in> dom (g_nodes g) \<and> g_nodes h = (g_nodes g)(n := None) \<and>
    g_edges h = filter (\<lambda>e. \<not> edge_touches n e) (g_edges g) \<and>
    removed = map (removed_edge gr) (filter (edge_touches n) (g_edges g))"
  using assms by (auto simp: remove_node_def map_ops split: if_splits option.splits)

lemma rename_node_outcome:
  assumes "rename_node gr old new g = Returned (Inr h)"
  shows "\<exists>v. gr = graph_name g \<and> g_nodes g old = Some v \<and> g_nodes g new = None \<and>
    h = g\<lparr>g_nodes := (g_nodes g)(old := None, new \<mapsto> v), g_edges := map (rename_in_edge old new) (g_edges g)\<rparr>"
  using assms by (auto simp: rename_node_def map_ops split: if_splits option.splits)

lemma add_edge_outcome:
  "add_edge gr e g = Inr h \<Longrightarrow> gr = graph_name g \<and> h = g\<lparr>g_edges := g_edges g @ [e]\<rparr>"
  by (auto simp: add_edge_def split: if_splits)

lemma remove_edge_outcome:
  assumes "remove_edge gr s t g = Inr h"
  shows "\<exists>as e bs. g_edges g = as @ e # bs \<and> h = g\<lparr>g_edges := as @ bs\<rparr> \<and> edge_matches s t e \<and>
    \<not> Bex (set as) (edge_matches s t)"
  using assms by (auto simp: remove_edge_def split: if_splits option.splits elim!: remove_first_SomeE)

lemma mset_filter_image:
  "image_mset connection_of (mset (filter (\<lambda>e. \<not> edge_touches n e) es)) =
   filter_mset (\<lambda>c. \<not> touches n c) (image_mset connection_of (mset es))"
  by (induction es) simp_all

lemma mset_map_rename:
  "image_mset connection_of (mset (map (rename_in_edge old new) es)) =
   image_mset (\<lambda>(s, d, t). (rename_process old new s, d, rename_process old new t))
     (image_mset connection_of (mset es))"
  by (induction es) (simp_all split: prod.splits)

text \<open>
  C10. Every successful node and edge operation of the graph refines its abstract counterpart on the
  topology: adding, removing (with all connections of the node) and renaming a node, and adding and
  removing one connection.
\<close>

theorem graph_refines_topology:
  "(add_node_from_payload N gr c n md g = Inr (h, r) \<longrightarrow> topology h = spec_add_node n (topology g)) \<and>
   (remove_node gr n g = Inr (h, removed) \<longrightarrow> topology h = spec_remove_node n (topology g)) \<and>
   (rename_node gr n m g = Returned (Inr h) \<longrightarrow> topology h = spec_rename_node n m (topology g)) \<and>
   (add_edge gr e g = Inr h \<longrightarrow> topology h = spec_connect (connection_of e) (topology g)) \<and>
   (remove_edge gr s t g = Inr h \<longrightarrow>
      (\<exists>d. topology g = spec_connect (GraphNodeSpec_from s, d, GraphNodeSpec_from t) (topology h)))"
proof (intro conjI impI)
  assume "add_node_from_payload N gr c n md g = Inr (h, r)"
  from add_node_from_payload_outcome [OF this] show "topology h = spec_add_node n (topology g)"
    by (simp add: topology_def spec_add_node_def)
next
  assume "remove_node gr n g = Inr (h, removed)"
  from remove_node_outcome [OF this] show "topology h = spec_remove_node n (topology g)"
    by (simp add: topology_def spec_remove_node_def mset_filter_image del: mset_filter)
next
  assume "rename_node gr n m g = Returned (Inr h)"
  from rename_node_outcome [OF this] show "topology h = spec_rename_node n m (topology g)"
    by (auto simp: topology_def spec_rename_node_def mset_map_rename simp del: mset_map split: if_splits)
next
  assume "add_edge gr e g = Inr h"
  from add_edge_outcome [OF this] show "topology h = spec_connect (connection_of e) (topology g)"
    by (simp add: topology_def spec_connect_def)
next
  assume "remove_edge gr s t g = Inr h"
  from remove_edge_outcome [OF this] obtain as e bs where
    r: "g_edges g = as @ e # bs" "h = g\<lparr>g_edges := as @ bs\<rparr>" "edge_matches s t e" by blast
  then have "connection_of e = (GraphNodeSpec_from s, ge_data e, GraphNodeSpec_from t)"
    by (simp add: connection_of_def edge_matches_def spec_matches_def GraphNodeSpec_from_def)
  with r have "topology g =
      spec_connect (GraphNodeSpec_from s, ge_data e, GraphNodeSpec_from t) (topology h)"
    by (simp add: topology_def spec_connect_def)
  then show "\<exists>d. topology g = spec_connect (GraphNodeSpec_from s, d, GraphNodeSpec_from t) (topology h)" ..
qed

definition sample_node :: "string \<Rightarrow> int GraphNode" where
  "sample_node c = \<lparr>gn_component = c, gn_metadata = GraphNodeMetadata_default,
     gn_protocol_metadata = Map.empty\<rparr>"

definition sample_edge :: GraphEdge where
  "sample_edge = \<lparr>ge_source = \<lparr>gs_process = ''a'', gs_port = ''OUT'', gs_index = None\<rparr>, ge_data = None,
     ge_target = \<lparr>gs_process = ''b'', gs_port = ''IN'', gs_index = None\<rparr>,
     ge_metadata = \<lparr>em_route = None, em_schema = None, em_secure = None\<rparr>\<rparr>"

definition sample_graph :: "int Graph" where
  "sample_graph = (Graph_new ''g'' [] [])\<lparr>
     g_nodes := Map.empty(''a'' \<mapsto> sample_node ''Repeat'', ''b'' \<mapsto> sample_node ''Drop''),
     g_edges := [sample_edge]\<rparr>"

lemma graph_refines_topology_witness:
  "\<exists>h removed. remove_node ''g'' ''a'' sample_graph = Inr (h, removed) \<and>
     topology h = spec_remove_node ''a'' (topology sample_graph) \<and>
     topology h = ({''b''}, {#})"
proof -
  obtain h removed where r: "remove_node ''g'' ''a'' sample_graph = Inr (h, removed)"
    by (simp add: remove_node_def sample_graph_def Graph_new_def map_ops)
  have "topology h = spec_remove_node ''a'' (topology sample_graph)"
    using graph_refines_topology [THEN conjunct2, THEN conjunct1] r by blast
  moreover have "spec_remove_node ''a'' (topology sample_graph) = ({''b''}, {#})"
    by (auto simp: spec_remove_node_def topology_def sample_graph_def sample_edge_def Graph_new_def
        touches_def connection_of_def dom_def)
  ultimately show ?thesis using r by simp
qed

section \<open>Referential integrity\<close>

text \<open>
  Every connection ends at nodes of the graph; the source of an initial packet is not a node.
\<close>

definition edge_closed :: "string set \<Rightarrow> GraphEdge \<Rightarrow> bool" where
  "edge_closed N e \<longleftrightarrow>
     (ge_data e = None \<longrightarrow> gs_process (ge_source e) \<in> N) \<and> gs_process (ge_target e) \<in> N"

definition graph_closed :: "'n Graph \<Rightarrow> bool" where
  "graph_closed g \<longleftrightarrow> (\<forall>e \<in> set (g_edges g). edge_closed (dom (g_nodes g)) e)"

lemma edge_closed_rename:
  "edge_closed N e \<Longrightarrow> edge_closed (insert new (N - {old})) (rename_in_edge old new e)"
  by (auto simp: edge_closed_def rename_in_edge_def rename_process_def)

text \<open>
  C12. Removing or renaming a node keeps a graph closed: no connection ever ends at a node that was
  removed or renamed away. Removal reports exactly the connections it dropped, in order.
\<close>

theorem node_removal_leaves_no_dangling_edges:
  assumes "graph_closed g"
  shows "(remove_node gr n g = Inr (h, removed) \<longrightarrow>
      graph_closed h \<and> (\<forall>e \<in> set (g_edges h). \<not> edge_touches n e) \<and>
      removed = map (removed_edge gr) (filter (edge_touches n) (g_edges g)) \<and>
      length (g_edges g) = length (g_edges h) + length removed) \<and>
    (rename_node gr n m g = Returned (Inr h) \<longrightarrow>
      graph_closed h \<and> (\<forall>e \<in> set (g_edges h). \<not> edge_touches n e \<or> ge_data e \<noteq> None))"
proof (intro conjI impI)
  assume "remove_node gr n g = Inr (h, removed)"
  note r = remove_node_outcome [OF this]
  show "graph_closed h"
    using assms r by (auto simp: graph_closed_def edge_closed_def edge_touches_def)
  show "\<forall>e \<in> set (g_edges h). \<not> edge_touches n e" using r by auto
  show "removed = map (removed_edge gr) (filter (edge_touches n) (g_edges g))" using r by simp
  show "length (g_edges g) = length (g_edges h) + length removed"
    using r sum_length_filter_compl [of "edge_touches n" "g_edges g"] by simp
next
  assume "rename_node gr n m g = Returned (Inr h)"
  from rename_node_outcome [OF this] obtain v where r: "g_nodes g n = Some v" "g_nodes g m = None"
    "h = g\<lparr>g_nodes := (g_nodes g)(n := None, m \<mapsto> v), g_edges := map (rename_in_edge n m) (g_edges g)\<rparr>"
    by blast
  then have N: "dom (g_nodes h) = insert m (dom (g_nodes g) - {n})" and nm: "n \<noteq> m" by auto
  show c: "graph_closed h"
    using assms r(3) edge_closed_rename by (auto simp: graph_closed_def N)
  show "\<forall>e \<in> set (g_edges h). \<not> edge_touches n e \<or> ge_data e \<noteq> None"
    using nm r(3) by (auto simp: edge_touches_def rename_in_edge_def rename_process_def)
qed

lemma node_removal_leaves_no_dangling_edges_witness:
  "graph_closed sample_graph \<and>
   (\<exists>h removed. remove_node ''g'' ''a'' sample_graph = Inr (h, removed) \<and>
     graph_closed h \<and> length removed = 1)"
proof -
  have c: "graph_closed sample_graph"
    by (simp add: graph_closed_def edge_closed_def sample_graph_def sample_edge_def)
  obtain h removed where r: "remove_node ''g'' ''a'' sample_graph = Inr (h, removed)"
    by (simp add: remove_node_def sample_graph_def Graph_new_def map_ops)
  from node_removal_leaves_no_dangling_edges [OF c, THEN conjunct1, rule_format, OF r]
  have "graph_closed h" "removed = map (removed_edge ''g'') (filter (edge_touches ''a'') (g_edges sample_graph))"
    by simp_all
  then show ?thesis using c r by (simp add: sample_graph_def sample_edge_def edge_touches_def)
qed

text \<open>
  An initial packet with empty data is stored as a connection without data whose source is the
  empty name: it makes a closed graph refer to a node that does not exist, and the client is still
  told that the packet was added.
\<close>

theorem empty_initial_packet_dangles:
  assumes "'''' \<notin> dom (g_nodes g)"
  shows "\<exists>h. add_initialip p g = Inr h \<and>
    (graph_closed h \<longleftrightarrow>
       graph_closed g \<and> spec_node (ai_tgt p) \<in> dom (g_nodes g) \<and> iip_data (ai_src p) \<noteq> '''')"
  using assms
  by (auto simp: add_initialip_def graph_closed_def edge_closed_def GraphEdge_from_addinitial_def
      GraphNodeSpec_from_def)

definition sample_initial :: "string \<Rightarrow> GraphAddinitialRequestPayload" where
  "sample_initial d = \<lparr>ai_graph = ''g'', ai_metadata = \<lparr>em_route = None, em_schema = None, em_secure = None\<rparr>,
     ai_src = \<lparr>iip_data = d\<rparr>, ai_tgt = GraphNodeSpecNetwork ''a'' ''IN'' None, ai_secret = None\<rparr>"

lemma empty_initial_packet_dangles_witness:
  "\<exists>h. add_initialip (sample_initial '''') sample_graph = Inr h \<and> \<not> graph_closed h"
proof -
  have "'''' \<notin> dom (g_nodes sample_graph)" by (simp add: sample_graph_def)
  from empty_initial_packet_dangles [OF this, of "sample_initial ''''"]
  show ?thesis by (auto simp: sample_initial_def)
qed

section \<open>Renaming\<close>

lemma rename_in_edge_back:
  assumes "\<not> edge_touches new e"
  shows "rename_in_edge new old (rename_in_edge old new e) = e"
  using assms by (cases e) (auto simp: rename_in_edge_def rename_process_def edge_touches_def)

lemma rename_node_returns: "\<exists>r. rename_node gr old new g = Returned r"
  by (auto simp: rename_node_def map_ops split: option.splits)

lemma rename_node_back:
  assumes "rename_node gr old new g = Returned (Inr h)" "\<forall>e \<in> set (g_edges g). \<not> edge_touches new e"
  shows "rename_node gr new old h = Returned (Inr g)"
proof -
  from rename_node_outcome [OF assms(1)] obtain v where r: "gr = graph_name g"
    "g_nodes g old = Some v" "g_nodes g new = None"
    "h = g\<lparr>g_nodes := (g_nodes g)(old := None, new \<mapsto> v), g_edges := map (rename_in_edge old new) (g_edges g)\<rparr>"
    by blast
  then have "old \<noteq> new" by auto
  have "map (rename_in_edge new old \<circ> rename_in_edge old new) (g_edges g) = g_edges g"
    using assms(2) rename_in_edge_back by (intro map_idI) auto
  moreover have "(g_nodes g)(old := None, new := None, old \<mapsto> v) = g_nodes g"
    using r(2,3) by (auto simp: fun_eq_iff)
  ultimately show ?thesis
    using r \<open>old \<noteq> new\<close> by (cases g) (simp add: rename_node_def map_ops)
qed

text \<open>
  Renaming never reaches its \<open>expect\<close>: a node, an inport and an outport rename always return, and
  a successful rename is undone by renaming back (for a node, when no edge mentioned the new name).
\<close>

theorem renames_return_and_invert:
  "(\<exists>r. rename_node gr old new g = Returned r) \<and>
   (\<exists>r. rename_inport old new g = Returned r) \<and> (\<exists>r. rename_outport old new g = Returned r) \<and>
   (rename_node gr old new g = Returned (Inr h) \<longrightarrow> (\<forall>e \<in> set (g_edges g). \<not> edge_touches new e) \<longrightarrow>
      rename_node gr new old h = Returned (Inr g)) \<and>
   (rename_inport old new g = Returned (Inr h) \<longrightarrow> rename_inport new old h = Returned (Inr g)) \<and>
   (rename_outport old new g = Returned (Inr h) \<longrightarrow> rename_outport new old h = Returned (Inr g))"
  using rename_node_returns [of gr old new g] rename_node_back [of gr old new g h]
    inports.rename_returns [of old new g] inports.rename_back [of old new g h]
    outports.rename_returns [of old new g] outports.rename_back [of old new g h]
  by blast

lemma renames_return_and_invert_witness:
  "\<exists>h. rename_node ''g'' ''a'' ''c'' sample_graph = Returned (Inr h) \<and>
     rename_node ''g'' ''c'' ''a'' h = Returned (Inr sample_graph)"
proof -
  obtain h where h: "rename_node ''g'' ''a'' ''c'' sample_graph = Returned (Inr h)"
    by (simp add: rename_node_def sample_graph_def Graph_new_def map_ops)
  have "\<forall>e \<in> set (g_edges sample_graph). \<not> edge_touches ''c'' e"
    by (simp add: sample_graph_def sample_edge_def edge_touches_def)
  with h renames_return_and_invert [of "''g''" "''a''" "''c''" sample_graph h] show ?thesis by blast
qed

section \<open>Metadata\<close>

text \<open>
  Node metadata survives the conversion to a payload and back, except that a missing width or
  height comes back as the default of 72.
\<close>

theorem node_metadata_roundtrip:
  assumes "number_laws N"
  shows "graph_node_metadata_from_payload N (graph_node_metadata_to_payload N md) =
    md\<lparr>md_width := Some (case md_width md of None \<Rightarrow> NODE_WIDTH_DEFAULT | Some w \<Rightarrow> w),
       md_height := Some (case md_height md of None \<Rightarrow> NODE_HEIGHT_DEFAULT | Some h \<Rightarrow> h)\<rparr>"
  using assms
  by (cases md)
    (simp add: graph_node_metadata_from_payload_def graph_node_metadata_to_payload_def map_put_def
      json_i32_def GraphNodeMetadata_default_def split: option.split)

lemma node_metadata_roundtrip_witness:
  "graph_node_metadata_from_payload int_ops
     (graph_node_metadata_to_payload int_ops GraphNodeMetadata_default) = GraphNodeMetadata_default"
  using node_metadata_roundtrip [OF int_ops_laws, of GraphNodeMetadata_default]
  by (simp add: GraphNodeMetadata_default_def)

lemma merge_metadata_idem [simp]: "merge_metadata (merge_metadata old new) new = merge_metadata old new"
  by (auto simp: merge_metadata_def fun_eq_iff split: option.split)

lemma set_position_idem [simp]: "set_position N pm (set_position N pm md) = set_position N pm md"
  by (cases md) (simp add: set_position_def Let_def split: option.split)

text \<open>
  Changing a node's metadata sets the given entries, deletes those given as null, keeps all
  others, touches no other node and no edge, returns what is stored, and repeating it changes nothing.
\<close>

theorem change_node_merges:
  assumes "change_node N gr n md g = Inr (h, pm)"
  shows "map_option gn_protocol_metadata (g_nodes h n) = Some pm \<and>
    (\<forall>nd. g_nodes g n = Some nd \<longrightarrow> (\<forall>k. pm k =
       (case md k of None \<Rightarrow> gn_protocol_metadata nd k | Some v \<Rightarrow> if v = JNull then None else Some v))) \<and>
    (\<forall>m. m \<noteq> n \<longrightarrow> g_nodes h m = g_nodes g m) \<and> g_edges h = g_edges g \<and>
    change_node N gr n md h = Inr (h, pm)"
proof -
  from assms obtain nd where nd: "gr = graph_name g" "g_nodes g n = Some nd"
    "pm = merge_metadata (gn_protocol_metadata nd) md"
    by (auto simp: change_node_def Let_def split: if_splits option.splits)
  have null: "is_null v \<longleftrightarrow> v = JNull" for v :: "'a JsonValue"
    by (cases v) (simp_all add: is_null_def)
  have h: "h = g\<lparr>g_nodes := (g_nodes g)(n \<mapsto>
      nd\<lparr>gn_metadata := set_position N pm (gn_metadata nd), gn_protocol_metadata := pm\<rparr>)\<rparr>"
    using assms nd by (auto simp: change_node_def Let_def)
  have again: "change_node N gr n md h = Inr (h, pm)"
    using nd by (simp add: change_node_def Let_def h)
  have "pm k = (case md k of None \<Rightarrow> gn_protocol_metadata nd k | Some v \<Rightarrow> if v = JNull then None else Some v)" for k
    by (simp add: nd(3) merge_metadata_def null split: option.split)
  with nd(2) h again show ?thesis by simp
qed

lemma change_node_merges_witness:
  "\<exists>h pm. change_node int_ops ''g'' ''a'' (Map.empty(''x'' \<mapsto> JNumber 5, ''y'' \<mapsto> JNull)) sample_graph
     = Inr (h, pm) \<and> map_option gn_protocol_metadata (g_nodes h ''a'') = Some pm \<and>
     g_edges h = g_edges sample_graph"
proof -
  obtain h pm where c: "change_node int_ops ''g'' ''a'' (Map.empty(''x'' \<mapsto> JNumber 5, ''y'' \<mapsto> JNull))
      sample_graph = Inr (h, pm)"
    by (simp add: change_node_def sample_graph_def Graph_new_def Let_def)
  note m = change_node_merges [OF this]
  have "map_option gn_protocol_metadata (g_nodes h ''a'') = Some pm" using m by (elim conjE)
  moreover have "g_edges h = g_edges sample_graph" using m by (elim conjE)
  ultimately show ?thesis using c by (intro exI conjI)
qed

section \<open>Initial packets\<close>

lemma remove_initial_from_None: "\<forall>e \<in> set es. \<not> iip_matches p e \<Longrightarrow> remove_initial_from p es = None"
  by (induction es) (auto split: option.split)

lemma remove_initial_from_append:
  "\<forall>e \<in> set es. \<not> iip_matches p e \<Longrightarrow>
   remove_initial_from p (es @ es') = map_option (\<lambda>(r, d). (es @ r, d)) (remove_initial_from p es')"
  by (cases "remove_initial_from p es'"; induction es) (auto split: option.split)

text \<open>
  Removing an initial packet takes the first one with the requested target, and the requested
  data when data is given: a packet just added with non-empty data, with no older match, is removed
  again, its data is returned and the graph is as before.
\<close>

theorem initial_packet_roundtrip:
  assumes "add_initialip p g = Inr h" and "iip_data (ai_src p) \<noteq> ''''"
    and "ri_tgt q = ai_tgt p" and "ri_src q = None \<or> ri_src q = Some (ai_src p)"
    and "\<forall>e \<in> set (g_edges g). \<not> iip_matches q e"
  shows "remove_initialip q h = Inr (g, ai_src p)"
proof -
  let ?e = "GraphEdge_from_addinitial p"
  have d: "ge_data ?e = Some (iip_data (ai_src p))"
    using assms(2) by (simp add: GraphEdge_from_addinitial_def)
  have "iip_matches q ?e"
    using assms(2-4) d
    by (auto simp: iip_matches_def GraphEdge_from_addinitial_def GraphNodeSpec_from_def spec_matches_def)
  then have "remove_initial_from q (g_edges g @ [?e]) = Some (g_edges g, iip_data (ai_src p))"
    using d by (simp add: remove_initial_from_append [OF assms(5)])
  with assms(1) show ?thesis
    by (cases g; cases "ai_src p") (auto simp: add_initialip_def remove_initialip_def)
qed

lemma initial_packet_roundtrip_witness:
  "\<exists>h. add_initialip (sample_initial ''x'') sample_graph = Inr h \<and>
     remove_initialip \<lparr>ri_graph = ''g'', ri_src = None, ri_tgt = GraphNodeSpecNetwork ''a'' ''IN'' None,
       ri_secret = None\<rparr> h = Inr (sample_graph, \<lparr>iip_data = ''x''\<rparr>)"
proof -
  let ?q = "\<lparr>ri_graph = ''g'', ri_src = None, ri_tgt = GraphNodeSpecNetwork ''a'' ''IN'' None,
       ri_secret = None\<rparr> :: GraphRemoveinitialRequestPayload"
  obtain h where h: "add_initialip (sample_initial ''x'') sample_graph = Inr h"
    by (simp add: add_initialip_def)
  have "remove_initialip ?q h = Inr (sample_graph, ai_src (sample_initial ''x''))"
    by (rule initial_packet_roundtrip [OF h])
      (simp_all add: sample_initial_def sample_graph_def sample_edge_def iip_matches_def)
  with h show ?thesis by (simp add: sample_initial_def)
qed

end
