(* ===== verification/Runtime.thy ===== *)
theory Runtime
  imports Graph Scheduler
begin

text \<open>
  The runtime's own state and operations (\<open>src/runtime.rs\<close>, \<open>src/multi_graph.rs\<close>): the graph
  manager, status and snapshots, secrets, debug selection, tracing, persistence, and the stop of a
  network. A graph behind \<open>Arc<RwLock<Graph>>\<close> is an address (\<open>gid\<close>) in a heap of graphs, so that the
  manager and the server's fallback graph can be one graph. A thread is its name; whether it ends
  within its grace period is an argument of \<open>stop\<close>. Messages to all clients are returned as a list.
\<close>

section \<open>The graph manager\<close>

type_synonym gid = nat

record MultiGraphManager =
  mg_graphs :: "string \<rightharpoonup> gid"
  mg_active_graph :: string

definition manager_new :: MultiGraphManager where
  "manager_new = \<lparr>mg_graphs = Map.empty, mg_active_graph = ''main_graph''\<rparr>"

definition get_graph :: "string \<Rightarrow> MultiGraphManager \<Rightarrow> gid option" where
  "get_graph graph_id m = mg_graphs m graph_id"

definition get_active_graph :: "MultiGraphManager \<Rightarrow> gid option" where
  "get_active_graph m = get_graph (mg_active_graph m) m"

definition graph_not_found :: "string \<Rightarrow> io_error" where
  "graph_not_found graph = IoError NotFound (''Graph '' @ CHR 0x27 # graph @ CHR 0x27 # '' not found'')"

definition set_active_graph :: "string \<Rightarrow> MultiGraphManager \<Rightarrow> MultiGraphManager io_result" where
  "set_active_graph graph_id m =
     (if mg_graphs m graph_id \<noteq> None then Inr (m\<lparr>mg_active_graph := graph_id\<rparr>)
      else Inl (graph_not_found graph_id))"

definition add_graph :: "string \<Rightarrow> gid \<Rightarrow> MultiGraphManager \<Rightarrow> MultiGraphManager" where
  "add_graph graph_id g m = m\<lparr>mg_graphs := (mg_graphs m)(graph_id \<mapsto> g)\<rparr>"

definition remove_graph :: "string \<Rightarrow> MultiGraphManager \<Rightarrow> MultiGraphManager \<times> gid option" where
  "remove_graph graph_id m =
     (let (gs, old) = map_remove graph_id (mg_graphs m) in (m\<lparr>mg_graphs := gs\<rparr>, old))"

definition list_graphs :: "MultiGraphManager \<Rightarrow> string set" where
  "list_graphs m = dom (mg_graphs m)"

section \<open>State\<close>

record RuntimeStatus =
  rs_time_started :: utc
  rs_graph :: string
  rs_started :: bool
  rs_running :: bool
  rs_debug :: "bool option"

record 'c Runtime =
  rt_id :: string
  rt_label :: string
  rt_version :: string
  rt_all_capabilities :: "Capability list"
  rt_capabilities :: "Capability list"
  rt_graph :: string
  rt_runtime :: string
  rt_namespace :: string
  rt_repository :: string
  rt_repository_version :: string
  rt_status :: RuntimeStatus
  rt_tracing :: bool
  rt_trace_sender :: bool
  rt_boundary_threads :: "string list"
  rt_watchdog_thread :: bool
  rt_watchdog_channel :: bool
  rt_scheduler_threads :: "string list"
  rt_schedulers :: "string \<rightharpoonup> 'c Scheduler"
  rt_secrets :: "string \<rightharpoonup> string \<times> AccessLevel"
  rt_graphs :: MultiGraphManager
  rt_debug_edges :: "string \<rightharpoonup> GraphEdgeSpec list"

definition RuntimeRuntimePayload_default :: RuntimeRuntimePayload where
  "RuntimeRuntimePayload_default =
     \<lparr>rr_id = ''f18a4924-9d4f-414d-a37c-deadbeef0000'',
      rr_label = ''human-readable description of the runtime'', rr_version = ''0.7'',
      rr_all_capabilities =
        [ProtocolNetwork, NetworkPersist, NetworkStatus, NetworkData, NetworkControl,
         ProtocolComponent, ComponentGetsource, ComponentSetsource, ProtocolRuntime, ProtocolGraph,
         GraphReadonly, ProtocolTrace],
      rr_capabilities =
        [ProtocolNetwork, NetworkPersist, NetworkStatus, NetworkData, NetworkControl,
         ProtocolComponent, ComponentGetsource, ComponentSetsource, ProtocolRuntime, ProtocolGraph,
         ProtocolTrace],
      rr_graph = ''default_graph'', rr_runtime = ''flowd'', rr_namespace = ''main'',
      rr_repository = ''https://github.com/ERnsTL/flowd.git'',
      rr_repository_version = ''0.0.1-ffffffff''\<rparr>"

definition RuntimeStatus_default :: "utc \<Rightarrow> RuntimeStatus" where
  "RuntimeStatus_default now =
     \<lparr>rs_time_started = now, rs_graph = ''main_graph'', rs_started = False, rs_running = False,
      rs_debug = None\<rparr>"

definition Runtime_default :: "utc \<Rightarrow> 'c Runtime" where
  "Runtime_default now =
     (let p = RuntimeRuntimePayload_default in
      \<lparr>rt_id = rr_id p, rt_label = rr_label p, rt_version = rr_version p,
       rt_all_capabilities = rr_all_capabilities p, rt_capabilities = rr_capabilities p,
       rt_graph = rr_graph p, rt_runtime = rr_runtime p, rt_namespace = rr_namespace p,
       rt_repository = rr_repository p, rt_repository_version = rr_repository_version p,
       rt_status = RuntimeStatus_default now, rt_tracing = False, rt_trace_sender = False,
       rt_boundary_threads = [], rt_watchdog_thread = False, rt_watchdog_channel = False,
       rt_scheduler_threads = [], rt_schedulers = Map.empty, rt_secrets = Map.empty,
       rt_graphs = manager_new, rt_debug_edges = Map.empty\<rparr>)"

text \<open>\<open>Runtime::new\<close> allocates the initial graph; \<open>min_utc\<close> is \<open>DateTime::MIN_UTC\<close>.\<close>

definition Runtime_new ::
    "utc \<Rightarrow> utc \<Rightarrow> string \<Rightarrow> gid \<Rightarrow> 'c Runtime \<times> 'n Graph" where
  "Runtime_new min_utc now active_graph fresh =
     ((Runtime_default now)
        \<lparr>rt_graph := active_graph,
         rt_status := \<lparr>rs_time_started = min_utc, rs_graph = active_graph, rs_started = False,
           rs_running = False, rs_debug = None\<rparr>,
         rt_graphs := add_graph active_graph fresh manager_new\<rparr>,
      Graph_new active_graph ''Initial graph'' ''default'')"

definition runtime_snapshot :: "'c Runtime \<Rightarrow> RuntimeRuntimePayload" where
  "runtime_snapshot r =
     \<lparr>rr_id = rt_id r, rr_label = rt_label r, rr_version = rt_version r,
      rr_all_capabilities = rt_all_capabilities r, rr_capabilities = rt_capabilities r,
      rr_graph = rt_graph r, rr_runtime = rt_runtime r, rr_namespace = rt_namespace r,
      rr_repository = rt_repository r, rr_repository_version = rt_repository_version r\<rparr>"

definition RuntimeStatus_snapshot :: "RuntimeStatus \<Rightarrow> RuntimeStatusSnapshot" where
  "RuntimeStatus_snapshot s =
     \<lparr>ss_time_started = rs_time_started s, ss_graph = rs_graph s, ss_started = rs_started s,
      ss_running = rs_running s, ss_debug = rs_debug s, ss_scheduler_metrics = Map.empty\<rparr>"

text \<open>Milliseconds of a duration in nanoseconds, clamped to \<open>u64::MAX\<close>.\<close>

definition clamp_millis :: "duration \<Rightarrow> u64" where
  "clamp_millis d =
     (let millis = d div 1000000 in if 2 ^ 64 - 1 < millis then - 1 else of_nat millis)"

definition snapshot_metrics :: "SchedulerMetrics \<Rightarrow> SchedulerMetricsSnapshot" where
  "snapshot_metrics m =
     \<lparr>sm_executions_per_node = executions_per_node m,
      sm_work_units_per_node = work_units_per_node m,
      sm_time_since_last_execution_ms = map_option clamp_millis \<circ> time_since_last_execution m,
      sm_queue_depth = queue_depth m, sm_loop_iterations = loop_iterations m\<rparr>"

definition collect_scheduler_metrics ::
    "instant \<Rightarrow> 'c Runtime \<Rightarrow> 'c Runtime \<times> (string \<rightharpoonup> SchedulerMetricsSnapshot)" where
  "collect_scheduler_metrics now r =
     (r\<lparr>rt_schedulers := map_option (fst \<circ> metrics_snapshot now) \<circ> rt_schedulers r\<rparr>,
      map_option (snapshot_metrics \<circ> snd \<circ> metrics_snapshot now) \<circ> rt_schedulers r)"

definition status_snapshot :: "instant \<Rightarrow> 'c Runtime \<Rightarrow> 'c Runtime \<times> RuntimeStatusSnapshot" where
  "status_snapshot now r =
     (let (r1, m) = collect_scheduler_metrics now r
      in (r1, (RuntimeStatus_snapshot (rt_status r))\<lparr>ss_scheduler_metrics := m\<rparr>))"

section \<open>Secrets\<close>

definition permission_denied :: "string \<Rightarrow> io_error" where
  "permission_denied m = IoError PermissionDenied m"

definition validate_secret_with_access ::
    "string option \<Rightarrow> string \<Rightarrow> AccessLevel \<Rightarrow> 'c Runtime \<Rightarrow> unit io_result" where
  "validate_secret_with_access secret graph required_access r =
     (case secret of
        None \<Rightarrow> Inr ()
      | Some token \<Rightarrow>
          if token = [] then Inr ()
          else
            (case rt_secrets r graph of
               None \<Rightarrow> Inl (permission_denied ''no secret configured for graph'')
             | Some (expected_secret, access_level) \<Rightarrow>
                 if token \<noteq> expected_secret then Inl (permission_denied ''invalid secret token'')
                 else if access_level = ReadOnly \<and> required_access = ReadWrite then
                   Inl (permission_denied ''readonly access not sufficient for write operation'')
                 else Inr ()))"

definition validate_secret :: "string option \<Rightarrow> string \<Rightarrow> 'c Runtime \<Rightarrow> unit io_result" where
  "validate_secret secret graph r = validate_secret_with_access secret graph ReadWrite r"

section \<open>Debug selection and tracing\<close>

definition debug_mode :: "string \<Rightarrow> bool \<Rightarrow> 'c Runtime \<Rightarrow> 'c Runtime io_result" where
  "debug_mode graph mode r =
     (if get_graph graph (rt_graphs r) = None then Inl (graph_not_found graph)
      else Inr (r\<lparr>rt_graph := graph,
                  rt_status := (rt_status r)\<lparr>rs_graph := graph, rs_debug := Some mode\<rparr>\<rparr>))"

definition set_debug_edges :: "string \<Rightarrow> GraphEdgeSpec list \<Rightarrow> 'c Runtime \<Rightarrow> 'c Runtime io_result" where
  "set_debug_edges graph edges r =
     (if get_graph graph (rt_graphs r) = None then Inl (graph_not_found graph)
      else Inr (r\<lparr>rt_graph := graph, rt_status := (rt_status r)\<lparr>rs_graph := graph\<rparr>,
                  rt_debug_edges := (rt_debug_edges r)(graph \<mapsto> edges)\<rparr>))"

definition debug_edges_for_graph :: "string \<Rightarrow> 'c Runtime \<Rightarrow> GraphEdgeSpec list" where
  "debug_edges_for_graph graph r = (case rt_debug_edges r graph of None \<Rightarrow> [] | Some es \<Rightarrow> es)"

definition not_current_graph :: "string \<Rightarrow> string \<Rightarrow> io_error" where
  "not_current_graph graph current =
     IoError NotFound
       (''Graph '' @ CHR 0x27 # graph @ CHR 0x27 # '' not found. Current graph is '' @ CHR 0x27 #
        current @ CHR 0x27 # ''. Multi-graph support not yet implemented.'')"

definition start_trace :: "string \<Rightarrow> u32 \<Rightarrow> 'c Runtime \<Rightarrow> 'c Runtime io_result" where
  "start_trace graph buffer_size r =
     (if graph \<noteq> rt_graph r then Inl (not_current_graph graph (rt_graph r))
      else if rt_tracing r then Inl (IoError AlreadyExists ''tracing already started'')
      else Inr (r\<lparr>rt_tracing := True\<rparr>))"

definition stop_trace :: "string \<Rightarrow> 'c Runtime \<Rightarrow> 'c Runtime io_result" where
  "stop_trace graph r =
     (if graph \<noteq> rt_graph r then Inl (not_current_graph graph (rt_graph r))
      else if \<not> rt_tracing r then Inl (IoError NotFound ''tracing not started'')
      else Inr (r\<lparr>rt_tracing := False\<rparr>))"

definition clear_trace :: "string \<Rightarrow> 'c Runtime \<Rightarrow> 'c Runtime io_result" where
  "clear_trace graph r =
     (if graph \<noteq> rt_graph r then Inl (not_current_graph graph (rt_graph r)) else Inr r)"

definition dump_trace :: "string \<Rightarrow> 'c Runtime \<Rightarrow> string io_result" where
  "dump_trace graph r =
     (if graph \<noteq> rt_graph r then Inl (not_current_graph graph (rt_graph r)) else Inr [])"

section \<open>What the trace relay sends\<close>

text \<open>
  The dispatch thread of \<open>start\<close>: a data event becomes \<open>network:data\<close> when debugging is on for its
  graph and the edge was selected, and \<open>trace:data\<close> when tracing is on.
\<close>

definition edge_selected :: "TraceDataEventPayload \<Rightarrow> GraphEdgeSpec \<Rightarrow> bool" where
  "edge_selected p sel \<longleftrightarrow>
     spec_node (es_src sel) = spec_node (td_src p) \<and> spec_node (es_tgt sel) = spec_node (td_tgt p) \<and>
     eq_ignore_ascii_case (spec_port (es_src sel)) (spec_port (td_src p)) \<and>
     eq_ignore_ascii_case (spec_port (es_tgt sel)) (spec_port (td_tgt p))"

definition should_emit_network_data :: "TraceDataEventPayload \<Rightarrow> 'c Runtime \<Rightarrow> bool" where
  "should_emit_network_data p r \<longleftrightarrow>
     rs_debug (rt_status r) = Some True \<and> rs_graph (rt_status r) = td_graph p \<and>
     list_ex (edge_selected p) (debug_edges_for_graph (td_graph p) r)"

definition trace_event :: "string \<Rightarrow> FbpMessage \<Rightarrow> 'n response" where
  "trace_event command m = respond ''trace'' command (TraceEventPayload m)"

definition dispatch_trace :: "FbpMessage \<Rightarrow> 'c Runtime \<Rightarrow> 'n response list" where
  "dispatch_trace m r =
     (case m of
        TraceData p \<Rightarrow>
          (if should_emit_network_data p r then
             [NetworkDataResponse_new
               \<lparr>nt_id = td_id p, nt_src = Some (td_src p), nt_tgt = Some (td_tgt p),
                nt_graph = td_graph p, nt_subgraph = None, nt_data = Some (td_data p)\<rparr>]
           else []) @
          (if rt_tracing r then [trace_event ''data'' m] else [])
      | TraceConnect p \<Rightarrow> if rt_tracing r then [trace_event ''connect'' m] else []
      | TraceDisconnect p \<Rightarrow> if rt_tracing r then [trace_event ''disconnect'' m] else []
      | _ \<Rightarrow> [])"

section \<open>Stopping a network\<close>

definition edge_label :: "GraphEdge \<Rightarrow> string" where
  "edge_label e =
     gs_process (ge_source e) @ ''.'' @ gs_port (ge_source e) @ ''-'' @
     gs_process (ge_target e) @ ''.'' @ gs_port (ge_target e)"

definition disconnect_event :: "string \<Rightarrow> GraphEdge \<Rightarrow> 'n response" where
  "disconnect_event graph e =
     trace_event ''disconnect''
       (TraceDisconnect \<lparr>tx_id = edge_label e, tx_src = spec_to_network (ge_source e),
          tx_tgt = spec_to_network (ge_target e), tx_graph = graph\<rparr>)"

definition disconnect_events :: "(gid \<Rightarrow> 'n Graph) \<Rightarrow> 'c Runtime \<Rightarrow> 'n response list" where
  "disconnect_events heap r =
     (if \<not> rt_tracing r then []
      else
        (case get_graph (rt_graph r) (rt_graphs r) of
           None \<Rightarrow> []
         | Some g \<Rightarrow>
             map (disconnect_event (graph_name (heap g)))
               (filter (\<lambda>e. \<not> (ge_data e \<noteq> None \<and> gs_process (ge_source e) = [])) (g_edges (heap g)))))"

text \<open>
  \<open>stop(watchdog_all_exited)\<close>. \<open>inports\<close> are the graph inports of the running network in some order;
  \<open>ended\<close> tells of a boundary thread, a scheduler thread or the watchdog whether it ends in time.
\<close>

definition join_names :: "string list \<Rightarrow> string" where
  "join_names ns = (case ns of [] \<Rightarrow> [] | n # rest \<Rightarrow> n @ concat (map (\<lambda>m. '', '' @ m) rest))"

definition runtime_stop ::
    "(gid \<Rightarrow> 'n Graph) \<Rightarrow> string list \<Rightarrow> (string \<Rightarrow> bool) \<Rightarrow> (string \<Rightarrow> bool) \<Rightarrow> bool \<Rightarrow> bool \<Rightarrow> 'c Runtime \<Rightarrow>
     'c Runtime \<times> unit io_result \<times> 'n response list" where
  "runtime_stop heap inports boundary_ended scheduler_ended watchdog_ended watchdog_all_exited r =
     (let goodbyes = (if watchdog_all_exited then []
            else map (\<lambda>p. RuntimePacketResponse_new_disconnect (rt_graph r) p None None) inports);
          r1 = r\<lparr>rt_watchdog_channel := False,
                 rt_schedulers := map_option sched_stop \<circ> rt_schedulers r,
                 rt_scheduler_threads := filter (\<lambda>n. \<not> scheduler_ended n) (rt_scheduler_threads r),
                 rt_boundary_threads := filter (\<lambda>n. \<not> boundary_ended n) (rt_boundary_threads r)\<rparr>;
          watchdog_hangs = rt_watchdog_thread r \<and> \<not> watchdog_all_exited \<and> \<not> watchdog_ended;
          r2 = r1\<lparr>rt_watchdog_thread := watchdog_hangs\<rparr>;
          timed_out = rt_boundary_threads r2 @ (if watchdog_hangs then [''watchdog''] else [])
      in
      if timed_out \<noteq> [] then
        (r2\<lparr>rt_status := (rt_status r2)\<lparr>rs_graph := rt_graph r2, rs_started := True, rs_running := True\<rparr>\<rparr>,
         Inl (IoError TimedOut
           (''network stop incomplete, timed-out threads still running: '' @ join_names timed_out)),
         goodbyes)
      else
        (let r3 = r2\<lparr>rt_trace_sender := False,
                rt_status := (rt_status r2)\<lparr>rs_graph := rt_graph r2, rs_started := watchdog_all_exited,
                  rs_running := False\<rparr>\<rparr>
         in (r3, Inr (),
             goodbyes @ disconnect_events heap r2 @
             [NetworkStatusMessage_new (NetworkStatusPayload_new (RuntimeStatus_snapshot (rt_status r3)))])))"

end
