(* ===== verification/Persistence.thy ===== *)
theory Persistence
  imports Runtime Graph_Properties
begin

text \<open>
  Saving and loading graphs (\<open>src/runtime.rs\<close>): the default graph, the graph set that is written, and
  what a start reads back. The JSON text and its parser are arguments. Deriving \<open>Serialize\<close> with
  \<open>skip_serializing\<close> and \<open>default\<close> on \<open>protocol_metadata\<close> makes a stored node lose that field:
  \<open>persisted_clone\<close>. File access is assumed to succeed.
\<close>

section \<open>The default graph\<close>

definition default_node :: "'n number_ops \<Rightarrow> string \<Rightarrow> string \<Rightarrow> i32 \<Rightarrow> i32 \<Rightarrow> 'n Graph \<Rightarrow> 'n Graph io_result" where
  "default_node N component name x y g =
     map_sum id fst
       (add_node N ''main_graph'' component name
         \<lparr>md_x = x, md_y = y, md_width = Some NODE_WIDTH_DEFAULT, md_height = Some NODE_HEIGHT_DEFAULT,
          md_label = Some component, md_icon = None\<rparr> g)"

definition default_edge ::
    "string \<Rightarrow> string \<Rightarrow> string option \<Rightarrow> string \<Rightarrow> string \<Rightarrow> 'n Graph \<Rightarrow> 'n Graph io_result" where
  "default_edge src srcport data tgt tgtport g =
     add_edge ''main_graph''
       \<lparr>ge_source = \<lparr>gs_process = src, gs_port = srcport, gs_index = None\<rparr>, ge_data = data,
        ge_target = \<lparr>gs_process = tgt, gs_port = tgtport, gs_index = None\<rparr>,
        ge_metadata = \<lparr>em_route = None, em_schema = None, em_secure = None\<rparr>\<rparr> g"

definition create_default_graph :: "'n number_ops \<Rightarrow> 'n Graph io_result" where
  "create_default_graph N =
     (let g = (Graph_new ''main_graph'' ''basic description'' ''usd'')
            \<lparr>g_inports := [''GRAPHIN'' \<mapsto> \<lparr>gp_process = ''Repeat_31337'', gp_port = ''IN'', gp_x = 36, gp_y = 72\<rparr>],
             g_outports := [''GRAPHOUT'' \<mapsto> \<lparr>gp_process = ''Repeat_31338'', gp_port = ''OUT'', gp_x = 468, gp_y = 72\<rparr>]\<rparr>
      in
      foldl result_bind (Inr g)
        [default_node N ''Repeat'' ''Repeat_31337'' 180 72,
         default_edge ''Repeat_31337'' ''OUT'' None ''Repeat_31338'' ''IN'',
         default_node N ''Repeat'' ''Repeat_31338'' 324 72,
         default_node N ''Repeat'' ''Repeat_2ufmu'' 36 216,
         default_node N ''Drop'' ''Drop_raux7'' 324 216,
         default_node N ''Output'' ''Output_mwr5y'' 180 216,
         default_edge [] [] (Some ''test IIP data'') ''Repeat_2ufmu'' ''IN'',
         default_edge ''Repeat_2ufmu'' ''OUT'' None ''Output_mwr5y'' ''IN'',
         default_edge ''Output_mwr5y'' ''OUT'' None ''Drop_raux7'' ''IN''])"

section \<open>The persisted graph set\<close>

record 'n PersistedGraphSet =
  ps_active_graph :: string
  ps_graphs :: "string \<rightharpoonup> 'n Graph"

definition persisted_node :: "'n GraphNode \<Rightarrow> 'n GraphNode" where
  "persisted_node nd = nd\<lparr>gn_protocol_metadata := Map.empty\<rparr>"

definition persisted_clone :: "'n Graph \<Rightarrow> 'n Graph" where
  "persisted_clone g = g\<lparr>g_nodes := map_option persisted_node \<circ> g_nodes g\<rparr>"

text \<open>\<open>first_key\<close> is \<open>keys().next()\<close> of a map that is not empty.\<close>

definition persist_set ::
    "(string set \<Rightarrow> string) \<Rightarrow> (gid \<Rightarrow> 'n Graph) \<Rightarrow> 'n Graph \<Rightarrow> 'c Runtime \<Rightarrow> 'n PersistedGraphSet" where
  "persist_set first_key heap fallback r =
     (let stored = map_option (persisted_clone \<circ> heap) \<circ> mg_graphs (rt_graphs r);
          graphs = (if stored = Map.empty then [rt_graph r \<mapsto> persisted_clone fallback] else stored);
          active = (if graphs (rt_graph r) \<noteq> None then rt_graph r else first_key (dom graphs))
      in \<lparr>ps_active_graph = active, ps_graphs = graphs\<rparr>)"

definition persist ::
    "('n PersistedGraphSet \<Rightarrow> string) \<Rightarrow> (string set \<Rightarrow> string) \<Rightarrow> (gid \<Rightarrow> 'n Graph) \<Rightarrow> 'n Graph \<Rightarrow> 'c Runtime \<Rightarrow>
     string" where
  "persist to_json first_key heap fallback r = to_json (persist_set first_key heap fallback r)"

definition invalid_data :: "string \<Rightarrow> io_error" where
  "invalid_data m = IoError InvalidData m"

definition load_or_create_graph_set ::
    "'n number_ops \<Rightarrow> (string \<Rightarrow> 'n PersistedGraphSet option) \<Rightarrow> (string \<Rightarrow> 'n Graph io_result) \<Rightarrow>
     (string set \<Rightarrow> string) \<Rightarrow> string option \<Rightarrow> ((string \<rightharpoonup> 'n Graph) \<times> string) io_result" where
  "load_or_create_graph_set N from_json_set from_json_graph first_key file =
     (case file of
        Some json \<Rightarrow>
          (case from_json_set json of
             Some gs \<Rightarrow>
               (let m = ps_graphs gs in
                if m = Map.empty then Inl (invalid_data ''persisted graph set is empty'')
                else Inr (m, if m (ps_active_graph gs) \<noteq> None then ps_active_graph gs else first_key (dom m)))
           | None \<Rightarrow> result_bind (from_json_graph json) (\<lambda>g. Inr ([graph_name g \<mapsto> g], graph_name g)))
      | None \<Rightarrow> result_bind (create_default_graph N) (\<lambda>g. Inr ([graph_name g \<mapsto> g], graph_name g)))"

definition load_or_create_graph ::
    "'n number_ops \<Rightarrow> (string \<Rightarrow> 'n PersistedGraphSet option) \<Rightarrow> (string \<Rightarrow> 'n Graph io_result) \<Rightarrow>
     (string set \<Rightarrow> string) \<Rightarrow> string option \<Rightarrow> 'n Graph io_result" where
  "load_or_create_graph N from_json_set from_json_graph first_key file =
     result_bind (load_or_create_graph_set N from_json_set from_json_graph first_key file)
       (\<lambda>(m, active). case m active of
          Some g \<Rightarrow> Inr g
        | None \<Rightarrow> Inl (IoError NotFound ''active graph not found after load''))"

section \<open>Properties\<close>

lemma persisted_clone_idem [simp]: "persisted_clone (persisted_clone g) = persisted_clone g"
  by (simp add: persisted_clone_def persisted_node_def [abs_def] comp_def option.map_comp)

lemma persisted_clone_topology [simp]:
  "dom (g_nodes (persisted_clone g)) = dom (g_nodes g)" "g_edges (persisted_clone g) = g_edges g"
  "graph_name (persisted_clone g) = graph_name g"
  by (auto simp: persisted_clone_def)

lemma persist_set_nonempty: "ps_graphs (persist_set first_key heap fallback r) \<noteq> Map.empty"
  by (simp add: persist_set_def Let_def)

lemma persist_set_active:
  assumes "first_key (dom (ps_graphs (persist_set first_key heap fallback r)))
    \<in> dom (ps_graphs (persist_set first_key heap fallback r))"
  shows "ps_active_graph (persist_set first_key heap fallback r) \<in> dom (ps_graphs (persist_set first_key heap fallback r))"
  using assms by (auto simp: persist_set_def Let_def)

text \<open>
  C40. What is persisted is what is loaded: when the parser reads back the set that was written, the
  loaded graphs are exactly the saved ones, the active graph is kept when it still exists, and
  the topology of every managed graph is unchanged; only the client's own node metadata is lost.
\<close>

theorem persist_then_load:
  assumes "first_key (dom (ps_graphs (persist_set first_key heap fallback r)))
      \<in> dom (ps_graphs (persist_set first_key heap fallback r))"
    and "from_json_set (persist to_json first_key heap fallback r)
      = Some (persist_set first_key heap fallback r)"
    and "mg_graphs (rt_graphs r) name = Some g"
  shows "\<exists>m active. load_or_create_graph_set N from_json_set from_json_graph first_key
       (Some (persist to_json first_key heap fallback r)) = Inr (m, active) \<and>
     active \<in> dom m \<and> (mg_graphs (rt_graphs r) (rt_graph r) \<noteq> None \<longrightarrow> active = rt_graph r) \<and>
     m name = Some (persisted_clone (heap g)) \<and>
     topology (persisted_clone (heap g)) = topology (heap g)"
proof -
  let ?s = "persist_set first_key heap fallback r"
  have ne: "map_option (persisted_clone \<circ> heap) \<circ> mg_graphs (rt_graphs r) \<noteq> Map.empty"
    using assms(3) by (metis comp_apply option.map_disc_iff option.distinct(1))
  then have g: "ps_graphs ?s = map_option (persisted_clone \<circ> heap) \<circ> mg_graphs (rt_graphs r)"
    by (simp add: persist_set_def Let_def)
  have active: "ps_active_graph ?s \<in> dom (ps_graphs ?s)"
    by (rule persist_set_active) (rule assms(1))
  have kept: "ps_active_graph ?s = rt_graph r" if "mg_graphs (rt_graphs r) (rt_graph r) \<noteq> None"
    using that ne by (auto simp: persist_set_def Let_def)
  have "load_or_create_graph_set N from_json_set from_json_graph first_key
      (Some (persist to_json first_key heap fallback r)) = Inr (ps_graphs ?s, ps_active_graph ?s)"
    using assms(2) active persist_set_nonempty by (auto simp: load_or_create_graph_set_def Let_def)
  with active kept g assms(3) show ?thesis by (simp add: topology_def)
qed

lemma persist_then_load_witness:
  "let r = fst (Runtime_new 0 0 ''g'' 7 :: unit Runtime \<times> int Graph);
       s = persist_set (\<lambda>_. ''g'') (\<lambda>_. sample_graph) sample_graph r
   in \<exists>m active. load_or_create_graph_set int_ops (\<lambda>_. Some s) (\<lambda>_. Inl (invalid_data ''json''))
        (\<lambda>_. ''g'') (Some ''{}'') = Inr (m, active) \<and> active = ''g'' \<and>
        m ''g'' = Some (persisted_clone sample_graph)"
proof -
  let ?r = "fst (Runtime_new 0 0 ''g'' 7 :: unit Runtime \<times> int Graph)"
  let ?s = "persist_set (\<lambda>_. ''g'') (\<lambda>_. sample_graph) sample_graph ?r"
  have m: "mg_graphs (rt_graphs ?r) ''g'' = Some 7" "rt_graph ?r = ''g''"
    by (simp_all add: Runtime_new_def add_graph_def manager_new_def)
  then have "map_option (persisted_clone \<circ> (\<lambda>_. sample_graph)) \<circ> mg_graphs (rt_graphs ?r) \<noteq> Map.empty"
    by (metis comp_apply option.map_disc_iff option.distinct(1))
  with m have "''g'' \<in> dom (ps_graphs ?s)" by (simp add: persist_set_def Let_def domIff)
  from persist_then_load [of "\<lambda>_. ''g''" "\<lambda>_. sample_graph" sample_graph ?r "\<lambda>_. Some ?s"
      "\<lambda>_. ''{}''", OF this _ m(1)] m
  show ?thesis by (simp add: persist_def) blast
qed

end
