(* ===== verification/Edges.thy ===== *)
theory Edges
  imports Messages
begin

text \<open>
  The connections of a running network (\<open>component_api/src/lib.rs\<close>): the single-producer,
  single-consumer ring buffer of the \<open>rtrb\<close> package behind an edge, and \<open>ProcessEdgeSink\<close>, its
  sending end, which traces a message and signals the receiving node. The ring buffer is an argument:
  \<open>ring_ops\<close> are the calls the code makes, the locale \<open>ring\<close> is what its documentation promises of a
  bounded first-in-first-out queue, and \<open>list_ring\<close> satisfies it. Channels live in a store by address.
\<close>

section \<open>Ring buffers\<close>

record 'q ring_ops =
  ring_new :: "nat \<Rightarrow> 'q"
  ring_push :: "MessageBuf \<Rightarrow> 'q \<Rightarrow> 'q option"
  ring_pop :: "'q \<Rightarrow> ('q \<times> MessageBuf) option"
  ring_slots :: "'q \<Rightarrow> nat"

text \<open>A push fails (\<open>PushError::Full\<close>) exactly when the buffer holds as many messages as fit.\<close>

fun push_all :: "'q ring_ops \<Rightarrow> MessageBuf list \<Rightarrow> 'q \<Rightarrow> 'q option" where
  "push_all R [] q = Some q"
| "push_all R (m # ms) q = (case ring_push R m q of None \<Rightarrow> None | Some q' \<Rightarrow> push_all R ms q')"

locale ring =
  fixes R :: "'q ring_ops"
    and cap :: "'q \<Rightarrow> nat"
    and held :: "'q \<Rightarrow> MessageBuf list"
  assumes new_ring: "cap (ring_new R n) = n" "held (ring_new R n) = []"
    and push_full: "ring_push R m q = None \<longleftrightarrow> cap q \<le> length (held q)"
    and push_ok: "ring_push R m q = Some q' \<Longrightarrow> cap q' = cap q \<and> held q' = held q @ [m]"
    and pop_empty: "ring_pop R q = None \<longleftrightarrow> held q = []"
    and pop_ok: "ring_pop R q = Some (q', m) \<Longrightarrow> cap q' = cap q \<and> held q = m # held q'"
    and slots_held: "ring_slots R q = length (held q)"
begin

lemma push_fits:
  assumes "length (held q) < cap q"
  obtains q' where "ring_push R m q = Some q'" "cap q' = cap q" "held q' = held q @ [m]"
proof -
  from assms push_full [of m q] obtain q' where "ring_push R m q = Some q'" by fastforce
  with push_ok [OF this] that show thesis by blast
qed

lemma push_all_held:
  "push_all R ms q = Some q' \<Longrightarrow> cap q' = cap q \<and> held q' = held q @ ms"
proof (induction ms arbitrary: q)
  case (Cons m ms)
  then obtain q1 where q1: "ring_push R m q = Some q1" "push_all R ms q1 = Some q'"
    by (auto split: option.splits)
  with Cons.IH [OF q1(2)] push_ok [OF q1(1)] show ?case by simp
qed simp

lemma push_all_fits: "length (held q) + length ms \<le> cap q \<Longrightarrow> push_all R ms q \<noteq> None"
proof (induction ms arbitrary: q)
  case (Cons m ms)
  then have "length (held q) < cap q" by simp
  then obtain q' where "ring_push R m q = Some q'" "cap q' = cap q" "held q' = held q @ [m]"
    by (rule push_fits)
  with Cons show ?case by simp
qed simp

lemma push_all_overflow: "cap q < length (held q) + length ms \<Longrightarrow> ms \<noteq> [] \<Longrightarrow> push_all R ms q = None"
proof (induction ms arbitrary: q)
  case (Cons m ms)
  show ?case
  proof (cases "ring_push R m q")
    case (Some q')
    with push_ok [of m q q'] have "cap q' < length (held q') + length ms \<and> cap q' = cap q" using Cons.prems by simp
    moreover have "length (held q) < cap q" using push_full [of m q] Some by simp
    ultimately show ?thesis using Cons Some push_ok [OF Some] by (cases ms) auto
  qed simp
qed simp

end

record list_queue =
  lq_capacity :: nat
  lq_messages :: "MessageBuf list"

definition list_ring :: "list_queue ring_ops" where
  "list_ring =
     \<lparr>ring_new = (\<lambda>n. \<lparr>lq_capacity = n, lq_messages = []\<rparr>),
      ring_push = (\<lambda>m q. if length (lq_messages q) < lq_capacity q
         then Some (q\<lparr>lq_messages := lq_messages q @ [m]\<rparr>) else None),
      ring_pop = (\<lambda>q. case lq_messages q of [] \<Rightarrow> None | m # ms \<Rightarrow> Some (q\<lparr>lq_messages := ms\<rparr>, m)),
      ring_slots = (\<lambda>q. length (lq_messages q))\<rparr>"

interpretation list_ring: ring list_ring lq_capacity lq_messages
  by unfold_locales (auto simp: list_ring_def split: if_splits list.splits)

section \<open>Buffer sizes\<close>

definition PROCESSEDGE_BUFSIZE :: nat where "PROCESSEDGE_BUFSIZE = 7 * 7 * 7 * 7"

definition PROCESSEDGE_SIGNAL_BUFSIZE :: nat where "PROCESSEDGE_SIGNAL_BUFSIZE = 2"

definition PROCESSEDGE_IIP_BUFSIZE :: nat where "PROCESSEDGE_IIP_BUFSIZE = 1"

section \<open>The sending end of an edge\<close>

text \<open>
  \<open>sk_sink\<close> is the address of the ring buffer, \<open>sk_wakeup\<close> the thread to unpark, \<open>sk_signal_ready\<close> the
  node whose scheduler waker it holds, \<open>sk_trace_sender\<close> whether it holds the trace channel.
\<close>

record ProcessEdgeSink =
  sk_sink :: nat
  sk_wakeup :: "string option"
  sk_proc_name :: "string option"
  sk_signal_ready :: "string option"
  sk_tracing_enabled :: bool
  sk_edge_id :: "string option"
  sk_src_node :: "string option"
  sk_src_port :: "string option"
  sk_tgt_node :: "string option"
  sk_tgt_port :: "string option"
  sk_graph_name :: "string option"
  sk_trace_sender :: bool

definition ProcessEdgeSink_new ::
    "nat \<Rightarrow> string option \<Rightarrow> string option \<Rightarrow> string option \<Rightarrow> ProcessEdgeSink" where
  "ProcessEdgeSink_new sink wakeup proc_name signal =
     \<lparr>sk_sink = sink, sk_wakeup = wakeup, sk_proc_name = proc_name, sk_signal_ready = signal,
      sk_tracing_enabled = False, sk_edge_id = None, sk_src_node = None, sk_src_port = None,
      sk_tgt_node = None, sk_tgt_port = None, sk_graph_name = None, sk_trace_sender = False\<rparr>"

definition enable_tracing ::
    "string \<Rightarrow> string \<Rightarrow> string \<Rightarrow> string \<Rightarrow> string \<Rightarrow> string \<Rightarrow> ProcessEdgeSink \<Rightarrow> ProcessEdgeSink" where
  "enable_tracing edge_id src_node src_port tgt_node tgt_port graph k =
     k\<lparr>sk_tracing_enabled := True, sk_edge_id := Some edge_id, sk_src_node := Some src_node,
       sk_src_port := Some src_port, sk_tgt_node := Some tgt_node, sk_tgt_port := Some tgt_port,
       sk_graph_name := Some graph, sk_trace_sender := True\<rparr>"

definition proc_name :: "ProcessEdgeSink \<Rightarrow> string option" where
  "proc_name k = sk_proc_name k"

definition trace_text :: "MessageBuf \<Rightarrow> string" where
  "trace_text m =
     (case m of
        MBytes bytes \<Rightarrow> show_nat (length bytes) @ '' bytes''
      | MText text \<Rightarrow> text
      | MValue _ \<Rightarrow> ''structured data''
      | MControl _ \<Rightarrow> ''control message''
      | TraceData _ \<Rightarrow> ''trace data''
      | TraceConnect _ \<Rightarrow> ''trace connect''
      | TraceDisconnect _ \<Rightarrow> ''trace disconnect'')"

definition trace_of :: "ProcessEdgeSink \<Rightarrow> MessageBuf \<Rightarrow> FbpMessage option" where
  "trace_of k m =
     (if \<not> sk_tracing_enabled k then None
      else
        (case (sk_edge_id k, sk_src_node k, sk_src_port k, sk_tgt_node k, sk_tgt_port k,
               sk_graph_name k, sk_trace_sender k) of
           (Some edge_id, Some src_node, Some src_port, Some tgt_node, Some tgt_port, Some graph, True) \<Rightarrow>
             Some (TraceData
               \<lparr>td_id = edge_id, td_src = GraphNodeSpecNetwork src_node src_port None,
                td_tgt = GraphNodeSpecNetwork tgt_node tgt_port None, td_graph = graph,
                td_data = trace_text m\<rparr>)
         | _ \<Rightarrow> None))"

text \<open>
  \<open>push\<close>: the new channels, the trace event sent, the node signalled and the thread woken; \<open>None\<close> when
  the buffer is full, and then the caller has its message back and nothing else happens.
\<close>

record 'q push_effects =
  pu_channels :: "nat \<Rightarrow> 'q"
  pu_trace :: "FbpMessage option"
  pu_signal :: "string option"
  pu_wakeup :: "string option"

definition sink_push ::
    "'q ring_ops \<Rightarrow> MessageBuf \<Rightarrow> ProcessEdgeSink \<Rightarrow> (nat \<Rightarrow> 'q) \<Rightarrow> 'q push_effects option" where
  "sink_push R m k chans =
     (case ring_push R m (chans (sk_sink k)) of
        None \<Rightarrow> None
      | Some q \<Rightarrow>
          Some \<lparr>pu_channels = chans(sk_sink k := q), pu_trace = trace_of k m,
                pu_signal = sk_signal_ready k, pu_wakeup = sk_wakeup k\<rparr>)"

definition source_pop ::
    "'q ring_ops \<Rightarrow> nat \<Rightarrow> (nat \<Rightarrow> 'q) \<Rightarrow> ((nat \<Rightarrow> 'q) \<times> MessageBuf) option" where
  "source_pop R c chans =
     (case ring_pop R (chans c) of None \<Rightarrow> None | Some (q, m) \<Rightarrow> Some (chans(c := q), m))"

section \<open>Lemmas\<close>

lemma sink_new_simps [simp]:
  "sk_sink (ProcessEdgeSink_new c w p s) = c"
  "sk_signal_ready (ProcessEdgeSink_new c w p s) = s"
  "sk_wakeup (ProcessEdgeSink_new c w p s) = w"
  "sk_proc_name (ProcessEdgeSink_new c w p s) = p"
  "\<not> sk_tracing_enabled (ProcessEdgeSink_new c w p s)"
  "sk_sink (enable_tracing i a b x y g k) = sk_sink k"
  "sk_signal_ready (enable_tracing i a b x y g k) = sk_signal_ready k"
  "sk_wakeup (enable_tracing i a b x y g k) = sk_wakeup k"
  "sk_proc_name (enable_tracing i a b x y g k) = sk_proc_name k"
  by (simp_all add: ProcessEdgeSink_new_def enable_tracing_def)

lemma new_sink_untraced [simp]: "trace_of (ProcessEdgeSink_new c w p s) m = None"
  by (simp add: trace_of_def)

lemma traced_push:
  "trace_of (enable_tracing i a b x y g k) m =
     Some (TraceData \<lparr>td_id = i, td_src = GraphNodeSpecNetwork a b None,
       td_tgt = GraphNodeSpecNetwork x y None, td_graph = g, td_data = trace_text m\<rparr>)"
  by (simp add: trace_of_def enable_tracing_def)

end
