(* ===== verification/Network.thy ===== *)
theory Network
  imports Runtime Edges
begin

text \<open>
  The start of a network (\<open>Runtime::start\<close> of \<open>src/runtime.rs\<close>): the checks of the graph, the channels
  it makes for every edge, initial packet and exported port, the nodes it registers with the
  scheduler, and the state it leaves; the thread of the graph's outports; the packets a client sends
  to a graph inport; and the rounds of the watchdog. The component factory and the budget classes
  are generated at build time and are arguments, as are the iteration orders of the maps.
\<close>

section \<open>How a start ends\<close>

text \<open>
  \<open>start\<close> runs under the runtime's write lock and holds the lock of \<open>graph_inout\<close>: a failed
  \<open>expect\<close> unwinds through both, and a call that locks \<open>graph_inout\<close> again never returns.
\<close>

datatype 'a startup = Aborts string | Hangs | Yields 'a

definition startup_bind :: "'a startup \<Rightarrow> ('a \<Rightarrow> 'b startup) \<Rightarrow> 'b startup" where
  "startup_bind r f = (case r of Aborts m \<Rightarrow> Aborts m | Hangs \<Rightarrow> Hangs | Yields x \<Rightarrow> f x)"

lemma startup_bind_simps [simp]:
  "startup_bind (Aborts m) f = Aborts m" "startup_bind Hangs f = Hangs" "startup_bind (Yields x) f = f x"
  by (simp_all add: startup_bind_def)

lemma startup_bind_Yields: "startup_bind r f = Yields y \<longleftrightarrow> (\<exists>x. r = Yields x \<and> f x = Yields y)"
  by (cases r) simp_all

fun startup_fold :: "('x \<Rightarrow> 'a \<Rightarrow> 'a startup) \<Rightarrow> 'x list \<Rightarrow> 'a \<Rightarrow> 'a startup" where
  "startup_fold f [] a = Yields a"
| "startup_fold f (x # xs) a = startup_bind (f x a) (startup_fold f xs)"

section \<open>Ports of a process\<close>

text \<open>A \<open>MultiMap\<close>: every key has the list of its values, in insertion order.\<close>

type_synonym 'a multimap = "string \<rightharpoonup> 'a list"

definition multi_insert :: "string \<Rightarrow> 'a \<Rightarrow> 'a multimap \<Rightarrow> 'a multimap" where
  "multi_insert k v m = m(k \<mapsto> (case m k of None \<Rightarrow> [v] | Some vs \<Rightarrow> vs @ [v]))"

text \<open>A receiving end is the address of its channel.\<close>

record ProcPorts =
  pp_inports :: "nat multimap"
  pp_outports :: "ProcessEdgeSink multimap"

definition ProcPorts_default :: ProcPorts where
  "ProcPorts_default = \<lparr>pp_inports = Map.empty, pp_outports = Map.empty\<rparr>"

definition add_source :: "string \<Rightarrow> nat \<Rightarrow> ProcPorts \<Rightarrow> ProcPorts" where
  "add_source port c p = p\<lparr>pp_inports := multi_insert port c (pp_inports p)\<rparr>"

definition add_sink :: "string \<Rightarrow> ProcessEdgeSink \<Rightarrow> ProcPorts \<Rightarrow> ProcPorts" where
  "add_sink port k p = p\<lparr>pp_outports := multi_insert port k (pp_outports p)\<rparr>"

section \<open>Array port checks\<close>

definition invalid_input :: "string \<Rightarrow> io_error" where
  "invalid_input m = IoError InvalidInput m"

definition declared_single ::
    "(ComponentComponentPayload \<Rightarrow> ComponentPort list) \<Rightarrow> ComponentComponentPayload list \<Rightarrow> string \<Rightarrow>
     string \<Rightarrow> bool" where
  "declared_single ports lib component port \<longleftrightarrow>
     list_ex (\<lambda>c. comp_name c = component \<and>
       list_ex (\<lambda>p. port_name p = port \<and> \<not> is_arrayport p) (ports c)) lib"

fun check_array_outports ::
    "ComponentComponentPayload list \<Rightarrow> 'n Graph \<Rightarrow> GraphEdge list \<Rightarrow> string multimap \<Rightarrow>
     unit io_result startup" where
  "check_array_outports lib g [] known = Yields (Inr ())"
| "check_array_outports lib g (e # es) known =
     (let n = gs_process (ge_source e); p = gs_port (ge_source e) in
      if ge_data e \<noteq> None \<and> n = [] then check_array_outports lib g es known
      else
        (case known n of
           None \<Rightarrow> check_array_outports lib g es (known(n \<mapsto> [p]))
         | Some ports \<Rightarrow>
             if p \<notin> set ports then check_array_outports lib g es (known(n \<mapsto> ports @ [p]))
             else
               (case g_nodes g n of
                  None \<Rightarrow> Aborts ''source process not found''
                | Some nd \<Rightarrow>
                    if declared_single out_ports lib (gn_component nd) p then
                      Yields (Inl (invalid_input
                        ''multiple edges from source process port which is not an array port''))
                    else check_array_outports lib g es known)))"

fun check_array_inports ::
    "ComponentComponentPayload list \<Rightarrow> 'n Graph \<Rightarrow> GraphEdge list \<Rightarrow> string multimap \<Rightarrow>
     unit io_result startup" where
  "check_array_inports lib g [] known = Yields (Inr ())"
| "check_array_inports lib g (e # es) known =
     (let n = gs_process (ge_target e); p = gs_port (ge_target e) in
      if ge_data e \<noteq> None then check_array_inports lib g es known
      else
        (case known n of
           None \<Rightarrow> check_array_inports lib g es (known(n \<mapsto> [p]))
         | Some ports \<Rightarrow>
             if p \<notin> set ports then check_array_inports lib g es (known(n \<mapsto> ports @ [p]))
             else
               (case g_nodes g n of
                  None \<Rightarrow> Aborts ''target process not found''
                | Some nd \<Rightarrow>
                    if declared_single in_ports lib (gn_component nd) p then
                      Yields (Inl (invalid_input
                        ''multiple edges to target process port which is not an array port''))
                    else check_array_inports lib g es known)))"

section \<open>Wiring\<close>

type_synonym iip_table = "string \<times> string \<rightharpoonup> string list"

definition edge_target :: "GraphEdge \<Rightarrow> string \<times> string" where
  "edge_target e = (gs_process (ge_target e), gs_port (ge_target e))"

fun iips_per_target :: "GraphEdge list \<Rightarrow> iip_table \<Rightarrow> iip_table" where
  "iips_per_target [] t = t"
| "iips_per_target (e # es) t =
     iips_per_target es
       (case ge_data e of
          None \<Rightarrow> t
        | Some iip \<Rightarrow>
            t(edge_target e \<mapsto> (case t (edge_target e) of None \<Rightarrow> [iip] | Some is \<Rightarrow> is @ [iip])))"

record 'q wiring =
  w_channels :: "nat \<Rightarrow> 'q"
  w_next :: nat
  w_ports :: "string \<rightharpoonup> ProcPorts"
  w_iips :: iip_table

definition graph_in :: "'n Graph \<Rightarrow> string" where
  "graph_in g = graph_name g @ ''-IN''"

definition graph_out :: "'n Graph \<Rightarrow> string" where
  "graph_out g = graph_name g @ ''-OUT''"

definition prepare_special :: "bool \<Rightarrow> string \<Rightarrow> string \<Rightarrow> (string \<rightharpoonup> ProcPorts) \<Rightarrow> (string \<rightharpoonup> ProcPorts) startup" where
  "prepare_special needed name msg ports =
     (if \<not> needed then Yields ports
      else case try_insert name ProcPorts_default ports of None \<Rightarrow> Aborts msg | Some p \<Rightarrow> Yields p)"

definition prepare_ports :: "'n Graph \<Rightarrow> (string \<rightharpoonup> ProcPorts) startup" where
  "prepare_ports g =
     startup_bind
       (prepare_special (g_inports g \<noteq> Map.empty) (graph_in g)
         ''preparing inport edges for graph failed: process name already exists''
         (map_option (\<lambda>_. ProcPorts_default) \<circ> g_nodes g))
       (prepare_special (g_outports g \<noteq> Map.empty) (graph_out g)
         ''preparing outport edges for graph failed: process name already exists'')"

text \<open>\<open>get_mut(name).expect(msg)\<close> followed by an update.\<close>

definition with_process ::
    "string \<Rightarrow> string \<Rightarrow> (ProcPorts \<Rightarrow> ProcPorts) \<Rightarrow> (string \<rightharpoonup> ProcPorts) \<Rightarrow> (string \<rightharpoonup> ProcPorts) startup" where
  "with_process name msg f ports =
     (case ports name of None \<Rightarrow> Aborts msg | Some p \<Rightarrow> Yields (ports(name \<mapsto> f p)))"

fun push_iips :: "'q ring_ops \<Rightarrow> ProcessEdgeSink \<Rightarrow> string list \<Rightarrow> (nat \<Rightarrow> 'q) \<Rightarrow> (nat \<Rightarrow> 'q) option" where
  "push_iips R k [] chans = Some chans"
| "push_iips R k (iip # iips) chans =
     (case sink_push R (from_text iip) k chans of
        None \<Rightarrow> None
      | Some eff \<Rightarrow> push_iips R k iips (pu_channels eff))"

definition traced_edge_sink :: "'n Graph \<Rightarrow> GraphEdge \<Rightarrow> ProcessEdgeSink \<Rightarrow> ProcessEdgeSink" where
  "traced_edge_sink g e k =
     enable_tracing (edge_label e) (gs_process (ge_source e)) (gs_port (ge_source e))
       (gs_process (ge_target e)) (gs_port (ge_target e)) (graph_name g) k"

text \<open>
  One edge that carries no data. The receiving end goes to the target, initial packets for the same
  target port are pushed first, and the sending end goes to the source. With tracing on,
  \<open>send_trace_connect\<close> locks \<open>graph_inout\<close>, which \<open>start\<close> holds.
\<close>

definition wire_edge ::
    "'q ring_ops \<Rightarrow> 'n Graph \<Rightarrow> bool \<Rightarrow> GraphEdge \<Rightarrow> 'q wiring \<Rightarrow> 'q wiring startup" where
  "wire_edge R g tracing e w =
     (if ge_data e \<noteq> None then Yields w
      else
        (let c = w_next w;
             chans = (w_channels w)(c := ring_new R PROCESSEDGE_BUFSIZE);
             src = gs_process (ge_source e);
             tgt = gs_process (ge_target e);
             k = ProcessEdgeSink_new c None (Some tgt) (Some tgt);
             iips = (case w_iips w (edge_target e) of None \<Rightarrow> [] | Some is \<Rightarrow> is)
         in
         startup_bind
           (with_process tgt ''process IIP target assignment process not found''
             (add_source (to_ascii_uppercase (gs_port (ge_target e))) c) (w_ports w))
           (\<lambda>ports1.
              if ports1 src = None then Aborts ''process source assignment process not found''
              else
                (case push_iips R k iips chans of
                   None \<Rightarrow> Aborts ''failed to inject IIP into process edge channel''
                 | Some chans1 \<Rightarrow>
                     startup_bind
                       (with_process src ''process source assignment process not found''
                         (add_sink (to_ascii_uppercase (gs_port (ge_source e))) (traced_edge_sink g e k))
                         ports1)
                       (\<lambda>ports2.
                          if tracing then Hangs
                          else Yields (w\<lparr>w_channels := chans1, w_next := c + 1, w_ports := ports2,
                                         w_iips := (w_iips w)(edge_target e := None)\<rparr>))))))"

text \<open>An initial packet without an edge on its port gets a channel of its own.\<close>

definition wire_iip :: "'q ring_ops \<Rightarrow> string \<times> string \<Rightarrow> string \<Rightarrow> 'q wiring \<Rightarrow> 'q wiring startup" where
  "wire_iip R target iip w =
     (let c = w_next w in
      case ring_push R (from_text iip) (ring_new R PROCESSEDGE_IIP_BUFSIZE) of
        None \<Rightarrow> Aborts ''failed to send IIP into process channel''
      | Some q \<Rightarrow>
          startup_bind
            (with_process (fst target) ''process IIP target assignment process not found''
              (add_source (to_ascii_uppercase (snd target)) c) (w_ports w))
            (\<lambda>ports. Yields (w\<lparr>w_channels := (w_channels w)(c := q), w_next := c + 1, w_ports := ports\<rparr>)))"

definition wire_iips :: "'q ring_ops \<Rightarrow> string \<times> string \<Rightarrow> 'q wiring \<Rightarrow> 'q wiring startup" where
  "wire_iips R target w =
     startup_fold (wire_iip R target) (case w_iips w target of None \<Rightarrow> [] | Some is \<Rightarrow> is) w"

definition wire_inport :: "'q ring_ops \<Rightarrow> 'n Graph \<Rightarrow> string \<Rightarrow> 'q wiring \<Rightarrow> 'q wiring startup" where
  "wire_inport R g public w =
     (case g_inports g public of
        None \<Rightarrow> Yields w
      | Some port \<Rightarrow>
          (let c = w_next w; tgt = gp_process port in
           startup_bind
             (startup_bind
               (with_process tgt ''graph target assignment process not found''
                 (add_source (to_ascii_uppercase (gp_port port)) c) (w_ports w))
               (with_process (graph_in g) ''graph source assignment process not found''
                 (add_sink public (ProcessEdgeSink_new c None (Some tgt) (Some tgt)))))
             (\<lambda>ports. Yields (w\<lparr>w_channels := (w_channels w)(c := ring_new R PROCESSEDGE_BUFSIZE),
                                w_next := c + 1, w_ports := ports\<rparr>))))"

definition wire_outport :: "'q ring_ops \<Rightarrow> 'n Graph \<Rightarrow> string \<Rightarrow> 'q wiring \<Rightarrow> 'q wiring startup" where
  "wire_outport R g public w =
     (case g_outports g public of
        None \<Rightarrow> Yields w
      | Some port \<Rightarrow>
          (let c = w_next w in
           startup_bind
             (startup_bind
               (with_process (graph_out g) ''graph target assignment process not found''
                 (add_source public c) (w_ports w))
               (with_process (gp_process port) ''graph source assignment process not found''
                 (add_sink (to_ascii_uppercase (gp_port port))
                   (ProcessEdgeSink_new c None (Some (graph_out g)) None))))
             (\<lambda>ports. Yields (w\<lparr>w_channels := (w_channels w)(c := ring_new R PROCESSEDGE_BUFSIZE),
                                w_next := c + 1, w_ports := ports\<rparr>))))"

text \<open>
  The generated code, the clocks and the iteration orders: of the graph's nodes, of the initial
  packets left over, of the exported ports, and of \<open>node_ids()\<close>.
\<close>

record ('q, 'c) start_env =
  se_ring :: "'q ring_ops"
  se_instantiate :: "string \<Rightarrow> string \<Rightarrow> nat multimap \<Rightarrow> ProcessEdgeSink multimap \<Rightarrow> 'c option"
  se_budget_class :: "string \<Rightarrow> BudgetClass"
  se_nodes :: "string list"
  se_iips :: "(string \<times> string) list"
  se_inports :: "string list"
  se_outports :: "string list"
  se_node_ids :: "string list"
  se_instant :: instant
  se_utc :: utc

definition wire_network ::
    "('q, 'c) start_env \<Rightarrow> 'n Graph \<Rightarrow> bool \<Rightarrow> (nat \<Rightarrow> 'q) \<Rightarrow> nat \<Rightarrow> (string \<rightharpoonup> ProcPorts) \<Rightarrow> 'q wiring startup" where
  "wire_network E g tracing chans fresh ports =
     (let R = se_ring E;
          w = \<lparr>w_channels = chans, w_next = fresh, w_ports = ports,
               w_iips = iips_per_target (g_edges g) Map.empty\<rparr>
      in
      startup_bind (startup_fold (wire_edge R g tracing) (g_edges g) w)
        (\<lambda>w1. startup_bind (startup_fold (wire_iips R) (se_iips E) w1)
        (\<lambda>w2. startup_bind (startup_fold (wire_inport R g) (se_inports E) w2)
        (\<lambda>w3. startup_fold (wire_outport R g) (se_outports E) w3))))"

section \<open>Registering the nodes\<close>

definition has_port :: "string \<Rightarrow> 'a multimap \<Rightarrow> bool" where
  "has_port name ports \<longleftrightarrow> ports name \<noteq> None \<or> ports (to_ascii_lowercase name) \<noteq> None"

text \<open>\<open>exports\<close> lists the graph's exported ports in iteration order.\<close>

definition exported :: "string \<Rightarrow> string \<Rightarrow> string list \<Rightarrow> (string \<rightharpoonup> GraphPort) \<Rightarrow> bool" where
  "exported proc port exports table \<longleftrightarrow>
     list_ex (\<lambda>x. case table x of None \<Rightarrow> False
       | Some gp \<Rightarrow> gp_process gp = proc \<and> eq_ignore_ascii_case (gp_port gp) port) exports"

definition missing_port :: "string \<Rightarrow> string \<Rightarrow> string \<Rightarrow> string \<Rightarrow> string \<Rightarrow> io_error" where
  "missing_port proc what port link component =
     IoError NotFound (''unconnected port checking: process '' @ proc @ '' is missing required '' @ what @
       '' '' @ port @ '' '' @ link @ '' component '' @ component)"

definition check_ports ::
    "('q, 'c) start_env \<Rightarrow> 'n Graph \<Rightarrow> string \<Rightarrow> ProcPorts \<Rightarrow> ComponentComponentPayload \<Rightarrow> unit io_result" where
  "check_ports E g proc pp c =
     (case find (\<lambda>p. \<not> has_port (port_name p) (pp_inports pp) \<and>
             \<not> exported proc (port_name p) (se_inports E) (g_inports g)) (in_ports c) of
        Some p \<Rightarrow> Inl (missing_port proc ''port'' (port_name p) ''for'' (comp_name c))
      | None \<Rightarrow>
          (case find (\<lambda>p. \<not> has_port (port_name p) (pp_outports pp) \<and>
                 \<not> exported proc (port_name p) (se_outports E) (g_outports g)) (out_ports c) of
             Some p \<Rightarrow> Inl (missing_port proc ''outport'' (port_name p) ''on'' (comp_name c))
           | None \<Rightarrow> Inr ()))"

definition find_component :: "ComponentComponentPayload list \<Rightarrow> string \<Rightarrow> ComponentComponentPayload io_result" where
  "find_component lib name =
     (case find (\<lambda>c. comp_name c = name) lib of
        Some c \<Rightarrow> Inr c
      | None \<Rightarrow> Inl (IoError NotFound
          ''unconnected port checking could not find component in component library''))"

definition not_instantiated :: "string \<Rightarrow> io_error" where
  "not_instantiated component =
     IoError NotFound (''component '' @ CHR 0x27 # component @ CHR 0x27 # '' not found'')"

text \<open>One node: its ports are taken, checked, and the component is built after the node is registered.\<close>

definition setup_node ::
    "('q, 'c) start_env \<Rightarrow> ComponentComponentPayload list \<Rightarrow> 'n Graph \<Rightarrow> string \<Rightarrow> 'n GraphNode \<Rightarrow>
     ProcPorts \<Rightarrow> 'c Scheduler \<Rightarrow> 'c Scheduler \<times> unit io_result" where
  "setup_node E lib g proc nd pp s =
     (let component = gn_component nd in
      case result_bind (find_component lib component) (check_ports E g proc pp) of
        Inl err \<Rightarrow> (s, Inl err)
      | Inr _ \<Rightarrow>
          (let s1 = sched_add_node proc (se_budget_class E component) (se_instant E) s in
           case se_instantiate E component proc (pp_inports pp) (pp_outports pp) of
             None \<Rightarrow> (s1, Inl (not_instantiated component))
           | Some c \<Rightarrow> (add_component c proc s1, Inr ())))"

fun setup_nodes ::
    "('q, 'c) start_env \<Rightarrow> ComponentComponentPayload list \<Rightarrow> 'n Graph \<Rightarrow> string list \<Rightarrow>
     (string \<rightharpoonup> ProcPorts) \<Rightarrow> 'c Scheduler \<Rightarrow> ((string \<rightharpoonup> ProcPorts) \<times> 'c Scheduler \<times> unit io_result) startup" where
  "setup_nodes E lib g [] ports s = Yields (ports, s, Inr ())"
| "setup_nodes E lib g (proc # procs) ports s =
     (case g_nodes g proc of
        None \<Rightarrow> setup_nodes E lib g procs ports s
      | Some nd \<Rightarrow>
          (case map_remove proc ports of
             (_, None) \<Rightarrow> Aborts
               ''prepared connections for a node not found, source+target nodes in edges != nodes''
           | (ports1, Some pp) \<Rightarrow>
               (case setup_node E lib g proc nd pp s of
                  (s1, Inl err) \<Rightarrow> Yields (ports1, s1, Inl err)
                | (s1, Inr _) \<Rightarrow> setup_nodes E lib g procs ports1 s1)))"

definition signal_all :: "string list \<Rightarrow> 'c Scheduler \<Rightarrow> 'c Scheduler" where
  "signal_all ids s = fold (\<lambda>n s'. fst (signal_ready n s')) ids s"

section \<open>Starting\<close>

text \<open>
  What clients reach: the sinks of the graph inports. \<open>fst\<close> of the sinks of one port is taken after
  the check that there is one.
\<close>

type_synonym inport_sinks = "(string \<rightharpoonup> ProcessEdgeSink) option"

definition inport_handles :: "ProcessEdgeSink multimap \<Rightarrow> (string \<rightharpoonup> ProcessEdgeSink) io_result" where
  "inport_handles m =
     (if \<exists>ks \<in> ran m. length ks \<noteq> 1 then Inl (invalid_input ''multiple edges from graph inport'')
      else Inr (map_option last \<circ> m))"

record ('q, 'c, 'n) network =
  nw_runtime :: "'c Runtime"
  nw_channels :: "nat \<Rightarrow> 'q"
  nw_next :: nat
  nw_inports :: inport_sinks
  nw_graph_out :: "nat multimap"
  nw_sent :: "'n response list"

definition already_running :: io_error where
  "already_running = IoError AlreadyExists ''network already running or previous shutdown incomplete''"

definition leftover_ports :: io_error where
  "leftover_ports = IoError InvalidData
     ''there are ports for processes left over, source+target nodes in edges != nodes''"

text \<open>The last part: handlers of the graph's own ports, watchdog, scheduler thread, status.\<close>

definition open_doors ::
    "('q, 'c) start_env \<Rightarrow> 'n Graph \<Rightarrow> (string \<rightharpoonup> ProcPorts) \<Rightarrow> ('q, 'c, 'n) network \<Rightarrow>
     ('q, 'c, 'n) network \<times> unit io_result" where
  "open_doors E g left net =
     (case (case left (graph_in g) of
              None \<Rightarrow> Inr None
            | Some pp \<Rightarrow> result_bind (inport_handles (pp_outports pp)) (\<lambda>hs. Inr (Some hs))) of
        Inl err \<Rightarrow> (net\<lparr>nw_inports := None\<rparr>, Inl err)
      | Inr handles \<Rightarrow>
          (let left1 = left(graph_in g := None);
               r = nw_runtime net;
               r1 = (if left1 (graph_out g) = None then r
                     else r\<lparr>rt_boundary_threads := rt_boundary_threads r @ [graph_out g]\<rparr>);
               outs = (case left1 (graph_out g) of None \<Rightarrow> Map.empty | Some pp \<Rightarrow> pp_inports pp);
               left2 = left1(graph_out g := None);
               net1 = net\<lparr>nw_inports := handles, nw_graph_out := outs, nw_runtime := r1\<rparr>
           in
           if left2 \<noteq> Map.empty then
             (net1\<lparr>nw_runtime := r1\<lparr>rt_boundary_threads := []\<rparr>\<rparr>, Inl leftover_ports)
           else
             (net1\<lparr>
                nw_sent := nw_sent net1 @
                  (case handles of
                     None \<Rightarrow> []
                   | Some hs \<Rightarrow> map (\<lambda>p. RuntimePacketResponse_new_connect (graph_name g) p None None)
                       (filter (\<lambda>p. hs p \<noteq> None) (se_inports E))),
                nw_runtime := r1\<lparr>
                  rt_scheduler_threads := List.insert (graph_name g) (rt_scheduler_threads r1),
                  rt_watchdog_thread := True, rt_watchdog_channel := True,
                  rt_status := (rt_status r1)\<lparr>rs_time_started := se_utc E, rs_graph := rt_graph r1,
                    rs_started := True, rs_running := True\<rparr>\<rparr>\<rparr>, Inr ())))"

definition set_scheduler :: "string \<Rightarrow> 'c Scheduler \<Rightarrow> 'c Runtime \<Rightarrow> 'c Runtime" where
  "set_scheduler name s r = r\<lparr>rt_schedulers := (rt_schedulers r)(name \<mapsto> s)\<rparr>"

definition start ::
    "('q, 'c) start_env \<Rightarrow> ComponentComponentPayload list \<Rightarrow> 'n Graph \<Rightarrow> ('q, 'c, 'n) network \<Rightarrow>
     (('q, 'c, 'n) network \<times> unit io_result) startup" where
  "start E lib g net =
     (let r = nw_runtime net in
      if rs_running (rt_status r) \<or> rt_boundary_threads r \<noteq> [] \<or> rt_watchdog_thread r then
        Yields (net, Inl already_running)
      else
        (let name = graph_name g;
             r1 = (set_scheduler name scheduler_new r)\<lparr>rt_trace_sender := True\<rparr>;
             net1 = net\<lparr>nw_runtime := r1\<rparr>
         in
         startup_bind (check_array_outports lib g (g_edges g) Map.empty) (\<lambda>c1.
         case c1 of Inl err \<Rightarrow> Yields (net1, Inl err) | Inr _ \<Rightarrow>
         startup_bind (check_array_inports lib g (g_edges g) Map.empty) (\<lambda>c2.
         case c2 of Inl err \<Rightarrow> Yields (net1, Inl err) | Inr _ \<Rightarrow>
         startup_bind (prepare_ports g) (\<lambda>ports.
         startup_bind (wire_network E g (rt_tracing r) (nw_channels net) (nw_next net) ports) (\<lambda>w.
         startup_bind (setup_nodes E lib g (se_nodes E) (w_ports w) scheduler_new) (\<lambda>(left, s, res).
           let net2 = net1\<lparr>nw_channels := w_channels w, nw_next := w_next w\<rparr> in
           case res of
             Inl err \<Rightarrow> Yields (net2\<lparr>nw_runtime := set_scheduler name s r1\<rparr>, Inl err)
           | Inr _ \<Rightarrow>
               Yields (open_doors E g left
                 (net2\<lparr>nw_runtime := set_scheduler name (signal_all (se_node_ids E) s) r1\<rparr>)))))))))"

section \<open>Graph outports and inports at run time\<close>

text \<open>
  The thread of the graph's outports. \<open>ports\<close> are the public names in iteration order; a message that
  is not text fails its \<open>expect\<close>.
\<close>

definition message_as_utf8 :: "MessageBuf \<Rightarrow> string option" where
  "message_as_utf8 m =
     (case as_text m of Some t \<Rightarrow> Some t | None \<Rightarrow> (case as_bytes m of None \<Rightarrow> None | Some b \<Rightarrow> from_utf8 b))"

definition graph_out_packet :: "string \<Rightarrow> string \<Rightarrow> string \<Rightarrow> 'n response" where
  "graph_out_packet graph port text =
     RuntimePacketResponse_new
       \<lparr>pk_port = port, pk_event = PacketData, pk_typ = None, pk_schema = None, pk_graph = graph,
        pk_payload = Some text\<rparr>"

fun graph_out_send ::
    "string \<Rightarrow> string \<Rightarrow> MessageBuf list \<Rightarrow> 'n response list \<times> bool" where
  "graph_out_send graph port [] = ([], True)"
| "graph_out_send graph port (m # ms) =
     (case message_as_utf8 m of
        None \<Rightarrow> ([], False)
      | Some text \<Rightarrow>
          (let (sent, alive) = graph_out_send graph port ms
           in (graph_out_packet graph port text # sent, alive)))"

text \<open>A packet from a client: one try, and whether the two seconds of grace are over after it.\<close>

definition INPORT_PUSH_GRACE_DUR :: duration where "INPORT_PUSH_GRACE_DUR = 2000000000"

record 'q packet_try =
  pt_inports :: inport_sinks
  pt_channels :: "nat \<Rightarrow> 'q"
  pt_elapsed :: duration

fun packet_loop ::
    "'q ring_ops \<Rightarrow> string \<Rightarrow> MessageBuf \<Rightarrow> 'q packet_try list \<Rightarrow> 'q push_effects io_result option" where
  "packet_loop R port m [] = None"
| "packet_loop R port m (t # ts) =
     (case pt_inports t of
        None \<Rightarrow> Some (Inl (IoError NotFound ''no graph inports exist''))
      | Some ports \<Rightarrow>
          (case ports port of
             None \<Rightarrow> Some (Inl (IoError NotFound ''graph inport with that name not found''))
           | Some k \<Rightarrow>
               (case sink_push R m k (pt_channels t) of
                  Some eff \<Rightarrow> Some (Inr eff)
                | None \<Rightarrow>
                    if INPORT_PUSH_GRACE_DUR \<le> pt_elapsed t then
                      Some (Inl (IoError TimedOut (''graph inport '' @ port @ '' backpressured for 2s'')))
                    else packet_loop R port m ts)))"

text \<open>\<open>packet\<close>: \<open>None\<close> while it is still waiting, \<open>Panicked\<close> when the packet has no payload.\<close>

definition runtime_packet ::
    "'q ring_ops \<Rightarrow> RuntimePacketRequestPayload \<Rightarrow> 'q packet_try list \<Rightarrow> 'c Runtime \<Rightarrow>
     'q push_effects io_result outcome option" where
  "runtime_packet R p tries r =
     (case validate_secret (rp_secret p) (rp_graph p) r of
        Inl err \<Rightarrow> Some (Returned (Inl err))
      | Inr _ \<Rightarrow>
          (case rp_payload p of
             None \<Rightarrow> Some (Panicked ''graph inport runtime:packet is missing payload'')
           | Some text \<Rightarrow> map_option Returned (packet_loop R (rp_port p) (from_str text) tries)))"

section \<open>The watchdog\<close>

text \<open>What the watchdog finds of one boundary thread in a round.\<close>

datatype probe =
    ProbeStop | ProbeExited | ProbeUnsupported | ProbeFull | ProbeGone
  | ProbeAnswer string | ProbeSilent | ProbeHungUp

definition WATCHDOG_MAX_MISSED_PONGS :: u8 where "WATCHDOG_MAX_MISSED_PONGS = 2"

definition u8_saturating_inc :: "u8 \<Rightarrow> u8" where
  "u8_saturating_inc n = (if n = - 1 then n else n + 1)"

fun health_check ::
    "(string \<times> probe) list \<Rightarrow> (string \<rightharpoonup> u8) \<Rightarrow> bool \<Rightarrow> string list \<Rightarrow>
     ((string \<rightharpoonup> u8) \<times> bool \<times> string list) option" where
  "health_check [] missed ok gone = Some (missed, ok, gone)"
| "health_check ((n, p) # rest) missed ok gone =
     (case p of
        ProbeStop \<Rightarrow> None
      | ProbeExited \<Rightarrow> health_check rest (missed(n := None)) False (gone @ [n])
      | ProbeUnsupported \<Rightarrow> health_check rest missed ok gone
      | ProbeFull \<Rightarrow> health_check rest missed False gone
      | ProbeGone \<Rightarrow> health_check rest (missed(n := None)) False (gone @ [n])
      | ProbeAnswer a \<Rightarrow>
          health_check rest (if a = ''pong'' then missed(n := None) else missed) ok gone
      | ProbeHungUp \<Rightarrow> health_check rest (missed(n := None)) False gone
      | ProbeSilent \<Rightarrow>
          (let misses = u8_saturating_inc (case missed n of None \<Rightarrow> 0 | Some k \<Rightarrow> k) in
           health_check rest (missed(n \<mapsto> misses)) (ok \<and> misses < WATCHDOG_MAX_MISSED_PONGS) gone))"

datatype watchdog_action = WatchStopped | WatchShutdown | WatchContinue "string list" "string \<rightharpoonup> u8"

text \<open>
  One round. \<open>threads\<close> tells of each scheduler thread whether it is finished, and is \<open>None\<close> when the
  runtime's lock is busy or poisoned.
\<close>

definition watchdog_round ::
    "(string \<times> probe) list \<Rightarrow> (string \<rightharpoonup> u8) \<Rightarrow> bool list option \<Rightarrow> watchdog_action" where
  "watchdog_round procs missed threads =
     (case health_check procs missed True [] of
        None \<Rightarrow> WatchStopped
      | Some (missed1, ok, gone) \<Rightarrow>
          (let rest = filter (\<lambda>n. n \<notin> set gone) (map fst procs);
               missed2 = (\<lambda>n. if n \<in> set gone then None else missed1 n);
               all_schedulers_exited = (rest = [] \<and>
                 (case threads of None \<Rightarrow> False | Some fs \<Rightarrow> fs \<noteq> [] \<and> list_all id fs))
           in
           if all_schedulers_exited then WatchShutdown
           else if ok then WatchContinue rest missed2
           else if rest = [] then WatchShutdown
           else WatchContinue rest missed2))"

text \<open>The shutdown the watchdog performs, when it gets the runtime's lock.\<close>

definition watchdog_shutdown ::
    "(gid \<Rightarrow> 'n Graph) \<Rightarrow> string list \<Rightarrow> (string \<Rightarrow> bool) \<Rightarrow> (string \<Rightarrow> bool) \<Rightarrow> bool \<Rightarrow> utc \<Rightarrow> instant \<Rightarrow>
     'c Runtime \<Rightarrow> 'c Runtime \<times> 'n response list" where
  "watchdog_shutdown heap inports boundary_ended scheduler_ended lock_free now t r =
     (if \<not> lock_free then (r, [])
      else
        (let (r1, _, sent) = runtime_stop heap inports boundary_ended scheduler_ended True True r;
             (r2, snapshot) = status_snapshot t r1
         in (r2, sent @ [NetworkStoppedResponse_new now snapshot])))"

end
