(* ===== verification/Network_Wiring.thy ===== *)
theory Network_Wiring
  imports Network "HOL-Library.Multiset"
begin

text \<open>
  What the wiring of \<open>Network\<close> builds: which channels an inport receives from and an outport sends to
  (\<open>in_at\<close>, \<open>out_at\<close>), the invariant that every channel has one receiver and at most one sender, the
  connections it makes, and where initial packets end up.
\<close>

section \<open>Ports\<close>

definition listed :: "'a multimap \<Rightarrow> string \<Rightarrow> 'a list" where
  "listed m q = (case m q of None \<Rightarrow> [] | Some vs \<Rightarrow> vs)"

definition in_at :: "(string \<rightharpoonup> ProcPorts) \<Rightarrow> string \<Rightarrow> string \<Rightarrow> nat list" where
  "in_at ports p q = (case ports p of None \<Rightarrow> [] | Some pp \<Rightarrow> listed (pp_inports pp) q)"

definition out_at :: "(string \<rightharpoonup> ProcPorts) \<Rightarrow> string \<Rightarrow> string \<Rightarrow> ProcessEdgeSink list" where
  "out_at ports p q = (case ports p of None \<Rightarrow> [] | Some pp \<Rightarrow> listed (pp_outports pp) q)"

lemma listed_insert: "listed (multi_insert k v m) q = listed m q @ (if q = k then [v] else [])"
  by (simp add: listed_def multi_insert_def split: option.split)

lemma with_process_Yields:
  "with_process n msg f ports = Yields ports' \<longleftrightarrow> (\<exists>pp. ports n = Some pp \<and> ports' = ports(n \<mapsto> f pp))"
  by (auto simp: with_process_def split: option.splits)

lemma with_process_dom:
  "with_process n msg f ports = Yields ports' \<Longrightarrow> dom ports' = dom ports \<and> n \<in> dom ports"
  unfolding with_process_Yields by (metis dom_fun_upd domI insert_absorb option.distinct(1))

lemma with_process_total: "n \<in> dom ports \<Longrightarrow> \<exists>ports'. with_process n msg f ports = Yields ports'"
  by (auto simp: with_process_Yields)

lemma add_source_at:
  assumes "with_process n msg (add_source port c) ports = Yields ports'"
  shows "in_at ports' p q = in_at ports p q @ (if (p, q) = (n, port) then [c] else [])"
    "out_at ports' p q = out_at ports p q"
proof -
  obtain pp where "ports n = Some pp" "ports' = ports(n \<mapsto> add_source port c pp)"
    using assms by (auto simp: with_process_Yields)
  then show "in_at ports' p q = in_at ports p q @ (if (p, q) = (n, port) then [c] else [])"
    "out_at ports' p q = out_at ports p q"
    by (simp_all add: in_at_def out_at_def add_source_def listed_insert)
qed

lemma add_sink_at:
  assumes "with_process n msg (add_sink port k) ports = Yields ports'"
  shows "out_at ports' p q = out_at ports p q @ (if (p, q) = (n, port) then [k] else [])"
    "in_at ports' p q = in_at ports p q"
proof -
  obtain pp where "ports n = Some pp" "ports' = ports(n \<mapsto> add_sink port k pp)"
    using assms by (auto simp: with_process_Yields)
  then show "out_at ports' p q = out_at ports p q @ (if (p, q) = (n, port) then [k] else [])"
    "in_at ports' p q = in_at ports p q"
    by (simp_all add: in_at_def out_at_def add_sink_def listed_insert)
qed

section \<open>One receiver, at most one sender\<close>

definition spsc :: "nat \<Rightarrow> nat \<Rightarrow> (string \<rightharpoonup> ProcPorts) \<Rightarrow> bool" where
  "spsc lo hi ports \<longleftrightarrow>
     (\<forall>p q. distinct (in_at ports p q) \<and> set (in_at ports p q) \<subseteq> {lo..<hi} \<and>
       distinct (map sk_sink (out_at ports p q)) \<and> sk_sink ` set (out_at ports p q) \<subseteq> {lo..<hi}) \<and>
     (\<forall>c p q p' q'. c \<in> set (in_at ports p q) \<longrightarrow> c \<in> set (in_at ports p' q') \<longrightarrow> p = p' \<and> q = q') \<and>
     (\<forall>c p q p' q'. c \<in> sk_sink ` set (out_at ports p q) \<longrightarrow> c \<in> sk_sink ` set (out_at ports p' q') \<longrightarrow>
        p = p' \<and> q = q')"

text \<open>An outport is connected to an inport when it holds the sending end of a channel of it.\<close>

definition connections :: "(string \<rightharpoonup> ProcPorts) \<Rightarrow> ((string \<times> string) \<times> (string \<times> string)) set" where
  "connections ports =
     {((p, q), (p', q')) |p q p' q'. \<exists>k \<in> set (out_at ports p q). sk_sink k \<in> set (in_at ports p' q')}"

text \<open>One wiring step: a new channel \<open>n\<close> with its receiver, and its sender if it has one.\<close>

definition grows ::
    "nat \<Rightarrow> (string \<times> string) \<Rightarrow> (string \<times> string) option \<Rightarrow> (string \<rightharpoonup> ProcPorts) \<Rightarrow> (string \<rightharpoonup> ProcPorts) \<Rightarrow> bool" where
  "grows n t s ports ports' \<longleftrightarrow>
     dom ports' = dom ports \<and>
     (\<forall>p q. in_at ports' p q = in_at ports p q @ (if (p, q) = t then [n] else [])) \<and>
     (\<exists>k. sk_sink k = n \<and>
       (\<forall>p q. out_at ports' p q = out_at ports p q @ (if Some (p, q) = s then [k] else [])))"

lemma growsD:
  assumes "grows n t s ports ports'"
  shows "dom ports' = dom ports"
    "in_at ports' p q = in_at ports p q @ (if (p, q) = t then [n] else [])"
    "\<exists>k. sk_sink k = n \<and> (\<forall>p q. out_at ports' p q = out_at ports p q @ (if Some (p, q) = s then [k] else []))"
  using assms unfolding grows_def by blast+

lemma spscD:
  assumes "spsc lo hi ports"
  shows "distinct (in_at ports p q)" "c \<in> set (in_at ports p q) \<Longrightarrow> lo \<le> c \<and> c < hi"
    "distinct (map sk_sink (out_at ports p q))"
    "k \<in> set (out_at ports p q) \<Longrightarrow> lo \<le> sk_sink k \<and> sk_sink k < hi"
    "c \<in> set (in_at ports p q) \<Longrightarrow> c \<in> set (in_at ports p' q') \<Longrightarrow> p = p' \<and> q = q'"
    "k \<in> set (out_at ports p q) \<Longrightarrow> k' \<in> set (out_at ports p' q') \<Longrightarrow> sk_sink k = sk_sink k' \<Longrightarrow>
      p = p' \<and> q = q'"
proof -
  note bounds = conjunct1 [OF assms [unfolded spsc_def], rule_format, of p q]
  note once = conjunct1 [OF conjunct2 [OF assms [unfolded spsc_def]], rule_format]
  note once' = conjunct2 [OF conjunct2 [OF assms [unfolded spsc_def]], rule_format]
  show "distinct (in_at ports p q)" "distinct (map sk_sink (out_at ports p q))"
    using bounds by blast+
  show "c \<in> set (in_at ports p q) \<Longrightarrow> lo \<le> c \<and> c < hi" using bounds by fastforce
  show "k \<in> set (out_at ports p q) \<Longrightarrow> lo \<le> sk_sink k \<and> sk_sink k < hi" using bounds by fastforce
  show "c \<in> set (in_at ports p q) \<Longrightarrow> c \<in> set (in_at ports p' q') \<Longrightarrow> p = p' \<and> q = q'" by (rule once)
  show "k \<in> set (out_at ports p q) \<Longrightarrow> k' \<in> set (out_at ports p' q') \<Longrightarrow> sk_sink k = sk_sink k' \<Longrightarrow>
      p = p' \<and> q = q'" by (rule once' [of "sk_sink k"]) (metis image_eqI)+
qed

lemma grows_spsc:
  assumes g: "grows n t s ports ports'" and i: "spsc lo n ports" and lo: "lo \<le> n"
  shows "spsc lo (Suc n) ports'"
proof -
  obtain k where k: "sk_sink k = n"
    "\<And>p q. out_at ports' p q = out_at ports p q @ (if Some (p, q) = s then [k] else [])"
    using growsD(3) [OF g] by blast
  note gi = growsD(2) [OF g]
  have nin: "n \<notin> set (in_at ports p q)" for p q using spscD(2) [OF i, of n p q] by blast
  have nout: "n \<notin> sk_sink ` set (out_at ports p q)" for p q using spscD(4) [OF i, of _ p q] by fastforce
  have a1: "distinct (in_at ports' p q)" for p q
    using spscD(1) [OF i, of p q] nin [of p q] by (simp add: gi)
  have a2: "set (in_at ports' p q) \<subseteq> {lo..<Suc n}" for p q
    using spscD(2) [OF i, of _ p q] lo by (fastforce simp: gi split: if_splits)
  have a3: "distinct (map sk_sink (out_at ports' p q))" for p q
    using spscD(3) [OF i, of p q] nout [of p q] by (simp add: k)
  have a4: "sk_sink ` set (out_at ports' p q) \<subseteq> {lo..<Suc n}" for p q
    using spscD(4) [OF i, of _ p q] lo by (fastforce simp: k split: if_splits)
  have a5: "p = p' \<and> q = q'" if "c \<in> set (in_at ports' p q)" "c \<in> set (in_at ports' p' q')" for c p q p' q'
    using that spscD(5) [OF i, of c p q p' q'] nin [of p q] nin [of p' q'] by (auto simp: gi split: if_splits)
  have a6: "p = p' \<and> q = q'"
    if "c \<in> sk_sink ` set (out_at ports' p q)" "c \<in> sk_sink ` set (out_at ports' p' q')" for c p q p' q'
  proof (cases "c = n")
    case True
    with that nout [of p q] nout [of p' q'] show ?thesis by (auto simp: k split: if_splits)
  next
    case False
    have old: "\<exists>k' \<in> set (out_at ports a b). sk_sink k' = c" if "c \<in> sk_sink ` set (out_at ports' a b)" for a b
      using that False k(1) by (auto simp: k(2) split: if_splits)
    from old [OF that(1)] old [OF that(2)] obtain k1 k2
      where "k1 \<in> set (out_at ports p q)" "k2 \<in> set (out_at ports p' q')" "sk_sink k1 = sk_sink k2"
      by auto
    then show ?thesis by (rule spscD(6) [OF i])
  qed
  show ?thesis unfolding spsc_def
  proof (intro conjI [of "\<forall>p q. _ p q"] conjI [of "\<forall>c p q p' q'. _ c p q p' q'"])
    show "\<forall>p q. distinct (in_at ports' p q) \<and> set (in_at ports' p q) \<subseteq> {lo..<Suc n} \<and>
       distinct (map sk_sink (out_at ports' p q)) \<and> sk_sink ` set (out_at ports' p q) \<subseteq> {lo..<Suc n}"
      using a1 a2 a3 a4 by simp
  qed (intro allI impI, (rule a5 a6; assumption))+
qed

lemma connectionsI:
  "k \<in> set (out_at ports p q) \<Longrightarrow> sk_sink k \<in> set (in_at ports p' q') \<Longrightarrow> ((p, q), (p', q')) \<in> connections ports"
  by (auto simp: connections_def)

lemma grows_connections:
  assumes g: "grows n t s ports ports'" and i: "spsc lo n ports"
  shows "connections ports' = connections ports \<union> (case s of None \<Rightarrow> {} | Some x \<Rightarrow> {(x, t)})" (is "?l = ?r")
proof -
  obtain k where k: "sk_sink k = n"
    "\<And>p q. out_at ports' p q = out_at ports p q @ (if Some (p, q) = s then [k] else [])"
    using growsD(3) [OF g] by blast
  note gi = growsD(2) [OF g]
  have nin: "n \<notin> set (in_at ports p q)" for p q using spscD(2) [OF i, of n p q] by blast
  have nout: "sk_sink k' \<noteq> n" if "k' \<in> set (out_at ports p q)" for k' p q
    using spscD(4) [OF i that] by simp
  have "x \<in> ?r" if "x \<in> ?l" for x
  proof -
    from that obtain p q p' q' k' where x: "x = ((p, q), (p', q'))"
      and k': "k' \<in> set (out_at ports' p q)" "sk_sink k' \<in> set (in_at ports' p' q')"
      by (auto simp: connections_def)
    show ?thesis
    proof (cases "k' \<in> set (out_at ports p q)")
      case True
      with nout [OF True] k'(2) have "sk_sink k' \<in> set (in_at ports p' q')" by (simp add: gi split: if_splits)
      with True x show ?thesis by (auto intro: connectionsI)
    next
      case False
      with k'(1) have *: "k' = k" "s = Some (p, q)" by (auto simp: k split: if_splits)
      with k'(2) nin [of p' q'] k(1) have "(p', q') = t" by (simp add: gi split: if_splits)
      with * x show ?thesis by simp
    qed
  qed
  moreover have "x \<in> ?l" if "x \<in> ?r" for x
  proof (cases "x \<in> connections ports")
    case True
    then show ?thesis by (fastforce simp: connections_def gi k(2))
  next
    case False
    with that obtain p q where s: "s = Some (p, q)" "x = ((p, q), t)" by (auto split: option.splits)
    then have "k \<in> set (out_at ports' p q)" "sk_sink k \<in> set (in_at ports' (fst t) (snd t))"
      by (simp_all add: k gi)
    with s(2) show ?thesis by (metis connectionsI prod.collapse)
  qed
  ultimately show ?thesis by blast
qed

section \<open>Folds\<close>

lemma startup_fold_total:
  assumes "\<And>x a. x \<in> set xs \<Longrightarrow> I a \<Longrightarrow> \<exists>b. f x a = Yields b \<and> I b" and "I a"
  shows "\<exists>b. startup_fold f xs a = Yields b \<and> I b"
  using assms
proof (induction xs arbitrary: a)
  case (Cons x xs)
  from Cons.prems obtain b where b: "f x a = Yields b" "I b" by fastforce
  with Cons.IH [of b] Cons.prems(1) show ?case by simp
qed simp

lemma startup_fold_Cons:
  "startup_fold f (x # xs) a = Yields b \<longleftrightarrow> (\<exists>c. f x a = Yields c \<and> startup_fold f xs c = Yields b)"
  by (simp add: startup_bind_Yields)

section \<open>What a step adds\<close>

text \<open>The messages an inport finds, over all the channels it receives from.\<close>

definition delivered :: "('q \<Rightarrow> MessageBuf list) \<Rightarrow> 'q wiring \<Rightarrow> string \<Rightarrow> string \<Rightarrow> MessageBuf list" where
  "delivered held w p q = concat (map (\<lambda>c. held (w_channels w c)) (in_at (w_ports w) p q))"

text \<open>\<open>C\<close> are the connections and \<open>D\<close> the messages that \<open>w'\<close> has more than \<open>w\<close>.\<close>

definition extends ::
    "('q \<Rightarrow> MessageBuf list) \<Rightarrow> nat \<Rightarrow> 'q wiring \<Rightarrow> 'q wiring \<Rightarrow> ((string \<times> string) \<times> (string \<times> string)) set \<Rightarrow>
     (string \<Rightarrow> string \<Rightarrow> MessageBuf multiset) \<Rightarrow> bool" where
  "extends held lo w w' C D \<longleftrightarrow>
     (lo \<le> w_next w \<and> spsc lo (w_next w) (w_ports w) \<longrightarrow>
        lo \<le> w_next w' \<and> spsc lo (w_next w') (w_ports w') \<and>
        dom (w_ports w') = dom (w_ports w) \<and>
        connections (w_ports w') = connections (w_ports w) \<union> C \<and>
        (\<forall>p q. mset (delivered held w' p q) = mset (delivered held w p q) + D p q))"

lemma extends_refl: "extends held lo w w {} (\<lambda>p q. {#})"
  by (simp add: extends_def)

lemma extends_trans:
  "extends held lo w w1 C D \<Longrightarrow> extends held lo w1 w2 C' D' \<Longrightarrow>
   extends held lo w w2 (C \<union> C') (\<lambda>p q. D p q + D' p q)"
  by (simp add: extends_def Un_assoc)

lemma extends_step:
  assumes g: "grows (w_next w) t s (w_ports w) (w_ports w')" and n: "w_next w' = Suc (w_next w)"
    and old: "\<And>c. c \<noteq> w_next w \<Longrightarrow> w_channels w' c = w_channels w c"
    and new: "held (w_channels w' (w_next w)) = ms"
  shows "extends held lo w w' (case s of None \<Rightarrow> {} | Some x \<Rightarrow> {(x, t)})
    (\<lambda>p q. if (p, q) = t then mset ms else {#})"
proof -
  have "mset (delivered held w' p q) = mset (delivered held w p q) + (if (p, q) = t then mset ms else {#})"
    if i: "spsc lo (w_next w) (w_ports w)" for p q
  proof -
    have "map (\<lambda>c. held (w_channels w' c)) (in_at (w_ports w) p q) =
        map (\<lambda>c. held (w_channels w c)) (in_at (w_ports w) p q)"
      using old spscD(2) [OF i, of _ p q] by (intro map_cong) (auto, metis less_irrefl)
    from arg_cong [OF this, of concat] show ?thesis by (simp add: delivered_def growsD(2) [OF g] new)
  qed
  then show ?thesis
    using growsD(1) [OF g] grows_spsc [OF g, of lo] grows_connections [OF g, of lo] n
    unfolding extends_def by force
qed

lemma extends_spsc:
  assumes "extends held lo w w' C D" "lo \<le> w_next w" "spsc lo (w_next w) (w_ports w)"
  shows "spsc lo (w_next w') (w_ports w')" "dom (w_ports w') = dom (w_ports w)"
    "connections (w_ports w') = connections (w_ports w) \<union> C"
    "mset (delivered held w' p q) = mset (delivered held w p q) + D p q"
  using assms by (simp_all add: extends_def)

section \<open>The steps\<close>

definition edge_source_port :: "GraphEdge \<Rightarrow> string \<times> string" where
  "edge_source_port e = (gs_process (ge_source e), to_ascii_uppercase (gs_port (ge_source e)))"

definition edge_target_port :: "GraphEdge \<Rightarrow> string \<times> string" where
  "edge_target_port e = (gs_process (ge_target e), to_ascii_uppercase (gs_port (ge_target e)))"

lemma push_iips_all:
  "push_iips R k iips chans =
     map_option (\<lambda>q. chans(sk_sink k := q)) (push_all R (map from_text iips) (chans (sk_sink k)))"
proof (induction iips arbitrary: chans)
  case Nil
  show ?case by auto
next
  case (Cons iip iips)
  show ?case
  proof (cases "ring_push R (from_text iip) (chans (sk_sink k))")
    case (Some q')
    have "fun_upd (chans(sk_sink k := q')) (sk_sink k) = fun_upd chans (sk_sink k)" by (rule ext) simp
    with Some show ?thesis by (simp only: push_iips.simps sink_push_def option.case push_effects.simps
          Cons push_all.simps list.map fun_upd_same)
  qed (simp add: sink_push_def)
qed

lemma two_steps_grow:
  assumes "with_process n msg (add_source q c) ports = Yields ports1"
    and "with_process m msg' (add_sink p k) ports1 = Yields ports2" and "sk_sink k = c"
  shows "grows c (n, q) (Some (m, p)) ports ports2"
  unfolding grows_def
  using with_process_dom [OF assms(1)] with_process_dom [OF assms(2)] assms(3)
  by (auto simp: add_source_at [OF assms(1)] add_sink_at [OF assms(2)] intro: exI [of _ k])

lemma one_step_grows:
  assumes "with_process n msg (add_source q c) ports = Yields ports1"
  shows "grows c (n, q) None ports ports1"
  unfolding grows_def
  using with_process_dom [OF assms(1)]
  by (auto simp: add_source_at [OF assms(1)] intro: exI [of _ "ProcessEdgeSink_new c None None None"])

definition iip_messages :: "iip_table \<Rightarrow> string \<times> string \<Rightarrow> MessageBuf list" where
  "iip_messages t key = map from_text (case t key of None \<Rightarrow> [] | Some is \<Rightarrow> is)"

context ring
begin

lemma push_iips_held:
  assumes "push_iips R k iips (chans(sk_sink k := ring_new R n)) = Some chans'"
  shows "held (chans' (sk_sink k)) = map from_text iips" "c \<noteq> sk_sink k \<Longrightarrow> chans' c = chans c"
proof -
  obtain q where q: "push_all R (map from_text iips) (ring_new R n) = Some q"
    "chans' = (chans(sk_sink k := ring_new R n))(sk_sink k := q)"
    using assms by (auto simp: push_iips_all)
  show "held (chans' (sk_sink k)) = map from_text iips" using push_all_held [OF q(1)] by (simp add: q new_ring)
  show "c \<noteq> sk_sink k \<Longrightarrow> chans' c = chans c" by (simp add: q)
qed

lemma wire_edge_extends:
  assumes "wire_edge R g tracing e w = Yields w'" "ge_data e = None"
  shows "extends held lo w w' {(edge_source_port e, edge_target_port e)}
      (\<lambda>p q. if (p, q) = edge_target_port e then mset (iip_messages (w_iips w) (edge_target e)) else {#})"
    "w_iips w' = (w_iips w)(edge_target e := None)" "\<not> tracing"
    "fst (edge_source_port e) \<in> dom (w_ports w)" "fst (edge_target_port e) \<in> dom (w_ports w)"
proof -
  let ?c = "w_next w" and ?src = "gs_process (ge_source e)" and ?tgt = "gs_process (ge_target e)"
  let ?k = "ProcessEdgeSink_new ?c None (Some ?tgt) (Some ?tgt)"
  obtain ports1 ports2 chans1 where
    p1: "with_process ?tgt ''process IIP target assignment process not found''
       (add_source (to_ascii_uppercase (gs_port (ge_target e))) ?c) (w_ports w) = Yields ports1" and
    p2: "with_process ?src ''process source assignment process not found''
       (add_sink (to_ascii_uppercase (gs_port (ge_source e))) (traced_edge_sink g e ?k)) ports1 = Yields ports2" and
    c1: "push_iips R ?k (case w_iips w (edge_target e) of None \<Rightarrow> [] | Some is \<Rightarrow> is)
       ((w_channels w)(?c := ring_new R PROCESSEDGE_BUFSIZE)) = Some chans1" and
    w': "w' = w\<lparr>w_channels := chans1, w_next := ?c + 1, w_ports := ports2,
       w_iips := (w_iips w)(edge_target e := None)\<rparr>" and nt: "\<not> tracing"
    using assms by (auto simp: wire_edge_def Let_def startup_bind_Yields split: if_splits option.splits)
  have g: "grows ?c (edge_target_port e) (Some (edge_source_port e)) (w_ports w) (w_ports w')"
    using two_steps_grow [OF p1 p2]
    by (simp add: w' traced_edge_sink_def edge_source_port_def edge_target_port_def)
  have held: "held (w_channels w' ?c) = iip_messages (w_iips w) (edge_target e)"
    "\<And>c. c \<noteq> ?c \<Longrightarrow> w_channels w' c = w_channels w c"
    using push_iips_held [of ?k, simplified sink_new_simps, OF c1] by (simp_all add: w' iip_messages_def)
  show "extends held lo w w' {(edge_source_port e, edge_target_port e)}
      (\<lambda>p q. if (p, q) = edge_target_port e then mset (iip_messages (w_iips w) (edge_target e)) else {#})"
    using extends_step [where held = held and lo = lo, OF g _ held(2) held(1)] by (simp add: w')
  show "w_iips w' = (w_iips w)(edge_target e := None)" "\<not> tracing" using nt by (simp_all add: w')
  show "fst (edge_source_port e) \<in> dom (w_ports w)" "fst (edge_target_port e) \<in> dom (w_ports w)"
    using with_process_dom [OF p1] with_process_dom [OF p2]
    by (auto simp: edge_source_port_def edge_target_port_def)
qed

lemma wire_edge_skip: "ge_data e \<noteq> None \<Longrightarrow> wire_edge R g tracing e w = Yields w"
  by (simp add: wire_edge_def)

lemma wire_iip_extends:
  assumes "wire_iip R t iip w = Yields w'"
  shows "extends held lo w w' {}
      (\<lambda>p q. if (p, q) = (fst t, to_ascii_uppercase (snd t)) then {#from_text iip#} else {#})"
    "w_iips w' = w_iips w" "fst t \<in> dom (w_ports w)"
proof -
  obtain q ports where q: "ring_push R (from_text iip) (ring_new R PROCESSEDGE_IIP_BUFSIZE) = Some q"
    and p: "with_process (fst t) ''process IIP target assignment process not found''
        (add_source (to_ascii_uppercase (snd t)) (w_next w)) (w_ports w) = Yields ports"
    and w': "w' = w\<lparr>w_channels := (w_channels w)(w_next w := q), w_next := w_next w + 1, w_ports := ports\<rparr>"
    using assms by (auto simp: wire_iip_def Let_def startup_bind_Yields split: option.splits)
  have g: "grows (w_next w) (fst t, to_ascii_uppercase (snd t)) None (w_ports w) (w_ports w')"
    using one_step_grows [OF p] by (simp add: w')
  have h: "held (w_channels w' (w_next w)) = [from_text iip]"
    using push_ok [OF q] by (simp add: w' new_ring)
  show "extends held lo w w' {}
      (\<lambda>p q. if (p, q) = (fst t, to_ascii_uppercase (snd t)) then {#from_text iip#} else {#})"
    using extends_step [where held = held and lo = lo, OF g _ _ h] by (simp add: w' cong: if_cong)
  show "w_iips w' = w_iips w" "fst t \<in> dom (w_ports w)" using with_process_dom [OF p] by (simp_all add: w')
qed

lemma wire_inport_extends:
  assumes "wire_inport R g x w = Yields w'" "g_inports g x = Some gp"
  shows "extends held lo w w' {((graph_in g, x), (gp_process gp, to_ascii_uppercase (gp_port gp)))} (\<lambda>p q. {#})"
    "gp_process gp \<in> dom (w_ports w)"
proof -
  obtain ports1 ports where
    p1: "with_process (gp_process gp) ''graph target assignment process not found''
       (add_source (to_ascii_uppercase (gp_port gp)) (w_next w)) (w_ports w) = Yields ports1" and
    p2: "with_process (graph_in g) ''graph source assignment process not found''
       (add_sink x (ProcessEdgeSink_new (w_next w) None (Some (gp_process gp)) (Some (gp_process gp)))) ports1
       = Yields ports" and
    w': "w' = w\<lparr>w_channels := (w_channels w)(w_next w := ring_new R PROCESSEDGE_BUFSIZE),
       w_next := w_next w + 1, w_ports := ports\<rparr>"
    using assms by (auto simp: wire_inport_def Let_def startup_bind_Yields)
  have g: "grows (w_next w) (gp_process gp, to_ascii_uppercase (gp_port gp)) (Some (graph_in g, x)) (w_ports w) (w_ports w')"
    using two_steps_grow [OF p1 p2] by (simp add: w')
  show "extends held lo w w' {((graph_in g, x), (gp_process gp, to_ascii_uppercase (gp_port gp)))} (\<lambda>p q. {#})"
    using extends_step [where held = held and lo = lo and ms = "[]", OF g] by (simp add: w' new_ring cong: if_cong)
  show "gp_process gp \<in> dom (w_ports w)" using with_process_dom [OF p1] by simp
qed

lemma wire_outport_extends:
  assumes "wire_outport R g x w = Yields w'" "g_outports g x = Some gp"
  shows "extends held lo w w' {((gp_process gp, to_ascii_uppercase (gp_port gp)), (graph_out g, x))} (\<lambda>p q. {#})"
    "gp_process gp \<in> dom (w_ports w)"
proof -
  obtain ports1 ports where
    p1: "with_process (graph_out g) ''graph target assignment process not found''
       (add_source x (w_next w)) (w_ports w) = Yields ports1" and
    p2: "with_process (gp_process gp) ''graph source assignment process not found''
       (add_sink (to_ascii_uppercase (gp_port gp))
         (ProcessEdgeSink_new (w_next w) None (Some (graph_out g)) None)) ports1 = Yields ports" and
    w': "w' = w\<lparr>w_channels := (w_channels w)(w_next w := ring_new R PROCESSEDGE_BUFSIZE),
       w_next := w_next w + 1, w_ports := ports\<rparr>"
    using assms by (auto simp: wire_outport_def Let_def startup_bind_Yields)
  have g: "grows (w_next w) (graph_out g, x) (Some (gp_process gp, to_ascii_uppercase (gp_port gp))) (w_ports w) (w_ports w')"
    using two_steps_grow [OF p1 p2] by (simp add: w')
  show "extends held lo w w' {((gp_process gp, to_ascii_uppercase (gp_port gp)), (graph_out g, x))} (\<lambda>p q. {#})"
    using extends_step [where held = held and lo = lo and ms = "[]", OF g] by (simp add: w' new_ring cong: if_cong)
  show "gp_process gp \<in> dom (w_ports w)"
    using with_process_dom [OF p1] with_process_dom [OF p2] by simp
qed

end

section \<open>Initial packets by target\<close>

text \<open>The initial packets of a list of edges for one inport, and those of a table for it.\<close>

definition initial_packets :: "GraphEdge list \<Rightarrow> string \<Rightarrow> string \<Rightarrow> MessageBuf list" where
  "initial_packets es p q =
     concat (map (\<lambda>e. case ge_data e of None \<Rightarrow> []
       | Some d \<Rightarrow> if edge_target_port e = (p, q) then [from_text d] else []) es)"

definition contrib :: "iip_table \<Rightarrow> string \<times> string \<Rightarrow> string \<Rightarrow> string \<Rightarrow> MessageBuf multiset" where
  "contrib t k p q =
     (if (p, q) = (fst k, to_ascii_uppercase (snd k)) then mset (iip_messages t k) else {#})"

definition pending :: "iip_table \<Rightarrow> string \<Rightarrow> string \<Rightarrow> MessageBuf multiset" where
  "pending t p q = (\<Sum>k \<in> dom t. contrib t k p q)"

lemma edge_target_port_key:
  "edge_target_port e = (fst (edge_target e), to_ascii_uppercase (snd (edge_target e)))"
  by (simp add: edge_target_port_def edge_target_def)

lemma contrib_other: "k \<noteq> k' \<Longrightarrow> contrib (t(k' := v)) k p q = contrib t k p q"
  by (simp add: contrib_def iip_messages_def)

lemma contrib_None: "t k = None \<Longrightarrow> contrib t k p q = {#}"
  by (simp add: contrib_def iip_messages_def)

lemma pending_remove:
  assumes "finite (dom t)"
  shows "pending t p q = contrib t k p q + pending (t(k := None)) p q"
proof (cases "k \<in> dom t")
  case True
  have "(\<Sum>k' \<in> dom t - {k}. contrib t k' p q) = (\<Sum>k' \<in> dom t - {k}. contrib (t(k := None)) k' p q)"
    by (rule sum.cong) (simp_all add: contrib_other)
  then show ?thesis unfolding pending_def using sum.remove [OF assms True, of "\<lambda>k. contrib t k p q"] by simp
next
  case False
  then have "t(k := None) = t" by (auto simp: fun_eq_iff dom_def)
  with False show ?thesis by (simp add: contrib_None domIff)
qed

lemma iips_per_target_finite: "finite (dom t) \<Longrightarrow> finite (dom (iips_per_target es t))"
  by (induction es arbitrary: t) (auto split: option.split)

lemma iips_per_target_pending:
  "finite (dom t) \<Longrightarrow> pending (iips_per_target es t) p q = mset (initial_packets es p q) + pending t p q"
proof (induction es arbitrary: t)
  case (Cons e es)
  show ?case
  proof (cases "ge_data e")
    case None
    with Cons show ?thesis by (simp add: initial_packets_def)
  next
    case (Some d)
    let ?k = "edge_target e"
    define t' where "t' = t(?k \<mapsto> (case t ?k of None \<Rightarrow> [d] | Some is \<Rightarrow> is @ [d]))"
    have fin: "finite (dom t')" and rem: "t'(?k := None) = t(?k := None)"
      using Cons.prems by (simp_all add: t'_def)
    have c: "contrib t' ?k p q = contrib t ?k p q + (if (p, q) = edge_target_port e then {#from_text d#} else {#})"
      by (simp add: contrib_def iip_messages_def edge_target_port_key t'_def split: option.split)
    have "pending t' p q = pending t p q + (if (p, q) = edge_target_port e then {#from_text d#} else {#})"
      unfolding pending_remove [OF fin, of p q ?k] pending_remove [OF Cons.prems, of p q ?k] rem c
      by (simp only: ac_simps)
    moreover have "iips_per_target (e # es) t = iips_per_target es t'" by (simp add: Some t'_def)
    moreover have "initial_packets (e # es) p q =
        (if (p, q) = edge_target_port e then [from_text d] else []) @ initial_packets es p q"
      by (auto simp: Some initial_packets_def)
    ultimately show ?thesis using Cons.IH [OF fin] by simp
  qed
qed (simp add: initial_packets_def)

section \<open>The whole wiring\<close>

definition edge_links :: "GraphEdge list \<Rightarrow> ((string \<times> string) \<times> (string \<times> string)) set" where
  "edge_links es = (\<lambda>e. (edge_source_port e, edge_target_port e)) ` {e \<in> set es. ge_data e = None}"

definition in_links :: "'n Graph \<Rightarrow> string set \<Rightarrow> ((string \<times> string) \<times> (string \<times> string)) set" where
  "in_links g X = {((graph_in g, x), (gp_process gp, to_ascii_uppercase (gp_port gp))) |x gp.
     x \<in> X \<and> g_inports g x = Some gp}"

definition out_links :: "'n Graph \<Rightarrow> string set \<Rightarrow> ((string \<times> string) \<times> (string \<times> string)) set" where
  "out_links g X = {((gp_process gp, to_ascii_uppercase (gp_port gp)), (graph_out g, x)) |x gp.
     x \<in> X \<and> g_outports g x = Some gp}"

lemma edge_links_Cons:
  "edge_links (e # es) =
     (if ge_data e = None then {(edge_source_port e, edge_target_port e)} else {}) \<union> edge_links es"
  by (auto simp: edge_links_def)

lemma in_links_insert:
  "in_links g (insert x X) = (case g_inports g x of None \<Rightarrow> {}
     | Some gp \<Rightarrow> {((graph_in g, x), (gp_process gp, to_ascii_uppercase (gp_port gp)))}) \<union> in_links g X"
  by (auto simp: in_links_def split: option.splits)

lemma out_links_insert:
  "out_links g (insert x X) = (case g_outports g x of None \<Rightarrow> {}
     | Some gp \<Rightarrow> {((gp_process gp, to_ascii_uppercase (gp_port gp)), (graph_out g, x))}) \<union> out_links g X"
  by (auto simp: out_links_def split: option.splits)

definition edge_targets :: "GraphEdge list \<Rightarrow> (string \<times> string) set" where
  "edge_targets es = edge_target ` {e \<in> set es. ge_data e = None}"

context ring
begin

lemma wire_edges_extends:
  "startup_fold (wire_edge R g tracing) es w = Yields w' \<Longrightarrow> finite (dom (w_iips w)) \<Longrightarrow>
   \<exists>D. extends held lo w w' (edge_links es) D \<and>
     (\<forall>p q. pending (w_iips w) p q = D p q + pending (w_iips w') p q) \<and>
     w_iips w' = (\<lambda>k. if k \<in> edge_targets es then None else w_iips w k)"
proof (induction es arbitrary: w)
  case Nil
  then show ?case
    by (intro exI [of _ "\<lambda>p q. {#}"]) (auto simp: edge_links_def edge_targets_def intro: extends_refl)
next
  case (Cons e es)
  then obtain w1 where w1: "wire_edge R g tracing e w = Yields w1"
    "startup_fold (wire_edge R g tracing) es w1 = Yields w'"
    by (auto simp: startup_bind_Yields)
  show ?case
  proof (cases "ge_data e")
    case None
    note step = wire_edge_extends [OF w1(1) None]
    have "finite (dom (w_iips w1))" using Cons.prems(2) by (simp add: step(2))
    from Cons.IH [OF w1(2) this] obtain D where D: "extends held lo w1 w' (edge_links es) D"
      "\<And>p q. pending (w_iips w1) p q = D p q + pending (w_iips w') p q"
      "w_iips w' = (\<lambda>k. if k \<in> edge_targets es then None else w_iips w1 k)"
      by blast
    have c: "contrib (w_iips w) (edge_target e) p q =
        (if (p, q) = edge_target_port e then mset (iip_messages (w_iips w) (edge_target e)) else {#})" for p q
      by (simp add: contrib_def edge_target_port_key)
    have "pending (w_iips w) p q = contrib (w_iips w) (edge_target e) p q + D p q + pending (w_iips w') p q" for p q
      using pending_remove [OF Cons.prems(2), of p q "edge_target e"] D(2) [of p q] by (simp add: step(2))
    moreover have "w_iips w' = (\<lambda>k. if k \<in> edge_targets (e # es) then None else w_iips w k)"
      using None by (auto simp: D(3) step(2) edge_targets_def fun_eq_iff)
    moreover have "extends held lo w w' (edge_links (e # es)) (\<lambda>p q. contrib (w_iips w) (edge_target e) p q + D p q)"
      using extends_trans [OF step(1) D(1)] None by (simp add: edge_links_Cons c)
    ultimately show ?thesis by blast
  next
    case (Some d)
    with w1 have "w1 = w" by (simp add: wire_edge_skip)
    moreover from Some have "edge_links (e # es) = edge_links es" "edge_targets (e # es) = edge_targets es"
      by (auto simp: edge_links_Cons edge_targets_def)
    ultimately show ?thesis using Cons.IH [of w] w1(2) Cons.prems(2) by simp
  qed
qed

lemma wire_one_iip_list:
  "startup_fold (wire_iip R t) iips w = Yields w' \<Longrightarrow>
   extends held lo w w' {}
     (\<lambda>p q. if (p, q) = (fst t, to_ascii_uppercase (snd t)) then mset (map from_text iips) else {#}) \<and>
   w_iips w' = w_iips w"
proof (induction iips arbitrary: w)
  case Nil
  then show ?case using extends_refl [of held lo w] by (simp cong: if_cong)
next
  case (Cons iip iips)
  then obtain w1 where w1: "wire_iip R t iip w = Yields w1" "startup_fold (wire_iip R t) iips w1 = Yields w'"
    by (auto simp: startup_bind_Yields)
  note step = wire_iip_extends [OF w1(1)] and rest = Cons.IH [OF w1(2)]
  have "(\<lambda>p q. (if (p, q) = (fst t, to_ascii_uppercase (snd t)) then {#from_text iip#} else {#}) +
      (if (p, q) = (fst t, to_ascii_uppercase (snd t)) then mset (map from_text iips) else {#})) =
      (\<lambda>p q. if (p, q) = (fst t, to_ascii_uppercase (snd t)) then mset (map from_text (iip # iips)) else {#})"
    by (auto simp: fun_eq_iff)
  with extends_trans [OF step(1) conjunct1 [OF rest]] conjunct2 [OF rest] step(2) show ?case by simp
qed

lemma wire_iips_extends:
  "startup_fold (wire_iips R) ks w = Yields w' \<Longrightarrow> distinct ks \<Longrightarrow>
   extends held lo w w' {} (\<lambda>p q. \<Sum>k \<in> set ks. contrib (w_iips w) k p q) \<and> w_iips w' = w_iips w"
proof (induction ks arbitrary: w)
  case Nil
  then show ?case using extends_refl [of held lo w] by simp
next
  case (Cons k ks)
  then obtain w1 where w1: "wire_iips R k w = Yields w1" "startup_fold (wire_iips R) ks w1 = Yields w'"
    by (auto simp: startup_bind_Yields)
  note step = wire_one_iip_list [OF w1(1) [unfolded wire_iips_def], of lo]
  have i: "w_iips w1 = w_iips w" using step by simp
  have rest: "extends held lo w1 w' {} (\<lambda>p q. \<Sum>k \<in> set ks. contrib (w_iips w) k p q) \<and> w_iips w' = w_iips w"
    using Cons.IH [OF w1(2)] Cons.prems(2) by (simp add: i)
  have "extends held lo w w1 {} (contrib (w_iips w) k)"
    using step by (simp add: contrib_def [abs_def] iip_messages_def cong: if_cong)
  from extends_trans [OF this conjunct1 [OF rest]] rest Cons.prems(2) show ?case by simp
qed

lemma wire_inports_extends:
  "startup_fold (wire_inport R g) xs w = Yields w' \<Longrightarrow> extends held lo w w' (in_links g (set xs)) (\<lambda>p q. {#})"
proof (induction xs arbitrary: w)
  case Nil
  then show ?case using extends_refl [of held lo w] by (simp add: in_links_def)
next
  case (Cons x xs)
  then obtain w1 where w1: "wire_inport R g x w = Yields w1" "startup_fold (wire_inport R g) xs w1 = Yields w'"
    by (auto simp: startup_bind_Yields)
  have "extends held lo w w1 (case g_inports g x of None \<Rightarrow> {}
      | Some gp \<Rightarrow> {((graph_in g, x), (gp_process gp, to_ascii_uppercase (gp_port gp)))}) (\<lambda>p q. {#})"
    using w1(1) wire_inport_extends(1) [OF w1(1)] extends_refl [of held lo w]
    by (auto simp: wire_inport_def split: option.splits)
  from extends_trans [OF this Cons.IH [OF w1(2)]] show ?case by (simp add: in_links_insert)
qed

lemma wire_outports_extends:
  "startup_fold (wire_outport R g) xs w = Yields w' \<Longrightarrow> extends held lo w w' (out_links g (set xs)) (\<lambda>p q. {#})"
proof (induction xs arbitrary: w)
  case Nil
  then show ?case using extends_refl [of held lo w] by (simp add: out_links_def)
next
  case (Cons x xs)
  then obtain w1 where w1: "wire_outport R g x w = Yields w1" "startup_fold (wire_outport R g) xs w1 = Yields w'"
    by (auto simp: startup_bind_Yields)
  have "extends held lo w w1 (case g_outports g x of None \<Rightarrow> {}
      | Some gp \<Rightarrow> {((gp_process gp, to_ascii_uppercase (gp_port gp)), (graph_out g, x))}) (\<lambda>p q. {#})"
    using w1(1) wire_outport_extends(1) [OF w1(1)] extends_refl [of held lo w]
    by (auto simp: wire_outport_def split: option.splits)
  from extends_trans [OF this Cons.IH [OF w1(2)]] show ?case by (simp add: out_links_insert)
qed

lemma wire_network_extends:
  assumes w: "wire_network E g tracing chans fresh ports = Yields w" and R: "se_ring E = R"
    and ks: "distinct (se_iips E)"
      "dom (iips_per_target (g_edges g) Map.empty) - edge_targets (g_edges g) \<subseteq> set (se_iips E)"
    and start: "spsc fresh fresh ports" "delivered held \<lparr>w_channels = chans, w_next = fresh, w_ports = ports,
        w_iips = iips_per_target (g_edges g) Map.empty\<rparr> p q = []"
  shows "spsc fresh (w_next w) (w_ports w)" "dom (w_ports w) = dom ports"
    "connections (w_ports w) = connections ports \<union> edge_links (g_edges g) \<union>
       in_links g (set (se_inports E)) \<union> out_links g (set (se_outports E))"
    "mset (delivered held w p q) = mset (initial_packets (g_edges g) p q)"
proof -
  let ?t = "iips_per_target (g_edges g) Map.empty"
  let ?w = "\<lparr>w_channels = chans, w_next = fresh, w_ports = ports, w_iips = ?t\<rparr>"
  obtain w1 w2 w3 where f: "startup_fold (wire_edge R g tracing) (g_edges g) ?w = Yields w1"
    "startup_fold (wire_iips R) (se_iips E) w1 = Yields w2"
    "startup_fold (wire_inport R g) (se_inports E) w2 = Yields w3"
    "startup_fold (wire_outport R g) (se_outports E) w3 = Yields w"
    using w by (auto simp: wire_network_def R Let_def startup_bind_Yields)
  have fin: "finite (dom ?t)" by (simp add: iips_per_target_finite)
  obtain D where D0: "extends held fresh ?w w1 (edge_links (g_edges g)) D \<and>
      (\<forall>p q. pending (w_iips ?w) p q = D p q + pending (w_iips w1) p q) \<and>
      w_iips w1 = (\<lambda>k. if k \<in> edge_targets (g_edges g) then None else w_iips ?w k)"
    using wire_edges_extends [OF f(1), of fresh] fin by fastforce
  then have D: "extends held fresh ?w w1 (edge_links (g_edges g)) D"
    "\<And>p q. pending ?t p q = D p q + pending (w_iips w1) p q"
    "w_iips w1 = (\<lambda>k. if k \<in> edge_targets (g_edges g) then None else ?t k)"
    by (simp_all cong: if_cong)
  have fin1: "finite (dom (w_iips w1))"
    by (rule finite_subset [OF _ fin]) (auto simp: D(3) split: if_splits)
  have "dom (w_iips w1) \<subseteq> set (se_iips E)" using ks(2) by (auto simp: D(3) split: if_splits)
  then have rest: "(\<Sum>k \<in> set (se_iips E). contrib (w_iips w1) k p q) = pending (w_iips w1) p q" for p q
    unfolding pending_def by (intro sum.mono_neutral_right) (auto simp: contrib_None domIff)
  note x = extends_trans [OF extends_trans [OF extends_trans [OF D(1)
      conjunct1 [OF wire_iips_extends [OF f(2) ks(1), of fresh]]]
      wire_inports_extends [OF f(3)]] wire_outports_extends [OF f(4)]]
  have all: "D p q + pending (w_iips w1) p q = mset (initial_packets (g_edges g) p q)" for p q
    using D(2) [of p q] iips_per_target_pending [of Map.empty "g_edges g" p q] by (simp add: pending_def)
  show "spsc fresh (w_next w) (w_ports w)" "dom (w_ports w) = dom ports"
    "connections (w_ports w) = connections ports \<union> edge_links (g_edges g) \<union>
       in_links g (set (se_inports E)) \<union> out_links g (set (se_outports E))"
    "mset (delivered held w p q) = mset (initial_packets (g_edges g) p q)"
    using extends_spsc(1-3) [OF x] extends_spsc(4) [OF x, where p = p and q = q] start all [of p q]
    by (simp_all add: rest Un_assoc)
qed

end

end
