(* ===== verification/Network_Properties.thy ===== *)
theory Network_Properties
  imports Network_Wiring Scheduler_Properties
begin

text \<open>
  The properties of a network start: when it returns at all, what a started network is made of, what
  a failed start leaves, and when it never returns; then the packets of clients and the watchdog.
\<close>

section \<open>Prepared ports\<close>

definition process_names :: "'n Graph \<Rightarrow> string set" where
  "process_names g = dom (g_nodes g) \<union> (if g_inports g = Map.empty then {} else {graph_in g}) \<union>
     (if g_outports g = Map.empty then {} else {graph_out g})"

lemma graph_in_not_out [simp]: "graph_in g \<noteq> graph_out g" "graph_out g \<noteq> graph_in g"
  by (simp_all add: graph_in_def graph_out_def)

lemma prepare_special_Yields:
  "prepare_special needed name msg ports = Yields ports' \<longleftrightarrow>
     ports' = (if needed then ports(name \<mapsto> ProcPorts_default) else ports) \<and> (needed \<longrightarrow> ports name = None)"
  by (auto simp: prepare_special_def try_insert_def split: option.splits)

lemma empty_process [simp]:
  "listed (pp_inports ProcPorts_default) q = []" "listed (pp_outports ProcPorts_default) q = []"
  by (simp_all add: ProcPorts_default_def listed_def)

definition blank :: "(string \<rightharpoonup> ProcPorts) \<Rightarrow> bool" where
  "blank ports \<longleftrightarrow> (\<forall>p pp. ports p = Some pp \<longrightarrow> pp = ProcPorts_default)"

lemma blank_at: "blank ports \<Longrightarrow> in_at ports p q = []" "blank ports \<Longrightarrow> out_at ports p q = []"
  by (cases "ports p"; simp add: in_at_def out_at_def; metis blank_def empty_process)+

lemma blank_wiring: "blank ports \<Longrightarrow> spsc lo lo ports \<and> connections ports = {}"
  by (simp add: spsc_def connections_def blank_at)

lemma prepare_ports_blank:
  assumes "prepare_ports g = Yields ports"
  shows "blank ports" "dom ports = process_names g"
proof -
  obtain ports1 where p: "prepare_special (g_inports g \<noteq> Map.empty) (graph_in g)
      ''preparing inport edges for graph failed: process name already exists''
      (map_option (\<lambda>_. ProcPorts_default) \<circ> g_nodes g) = Yields ports1"
    "prepare_special (g_outports g \<noteq> Map.empty) (graph_out g)
      ''preparing outport edges for graph failed: process name already exists'' ports1 = Yields ports"
    using assms by (auto simp: prepare_ports_def startup_bind_Yields)
  then have *: "ports1 = (if g_inports g \<noteq> Map.empty then (map_option (\<lambda>_. ProcPorts_default) \<circ> g_nodes g)(graph_in g \<mapsto> ProcPorts_default)
      else map_option (\<lambda>_. ProcPorts_default) \<circ> g_nodes g)"
    "ports = (if g_outports g \<noteq> Map.empty then ports1(graph_out g \<mapsto> ProcPorts_default) else ports1)"
    by (simp_all only: prepare_special_Yields)
  show "blank ports" unfolding blank_def by (auto simp: * split: if_splits)
  show "dom ports = process_names g" unfolding process_names_def by (auto simp: * dom_def split: if_splits)
qed

section \<open>A start that returns\<close>

text \<open>
  A graph that can be started: its edges, initial packets and exported ports lead to nodes that
  exist, no node has the name of the graph's own port processes, and the initial packets for a
  connected port fit into its buffer.
\<close>

definition startable :: "'n Graph \<Rightarrow> bool" where
  "startable g \<longleftrightarrow>
     (\<forall>e \<in> set (g_edges g). gs_process (ge_target e) \<in> dom (g_nodes g) \<and>
        (ge_data e = None \<or> gs_process (ge_source e) \<noteq> [] \<longrightarrow> gs_process (ge_source e) \<in> dom (g_nodes g))) \<and>
     (\<forall>gp \<in> ran (g_inports g) \<union> ran (g_outports g). gp_process gp \<in> dom (g_nodes g)) \<and>
     graph_in g \<notin> dom (g_nodes g) \<and> graph_out g \<notin> dom (g_nodes g) \<and>
     (\<forall>k is. iips_per_target (g_edges g) Map.empty k = Some is \<longrightarrow> length is \<le> PROCESSEDGE_BUFSIZE)"

text \<open>The iteration orders run through the keys of the maps.\<close>

definition orders_ok :: "('q, 'c) start_env \<Rightarrow> 'n Graph \<Rightarrow> bool" where
  "orders_ok E g \<longleftrightarrow>
     distinct (se_nodes E) \<and> set (se_nodes E) = dom (g_nodes g) \<and>
     distinct (se_node_ids E) \<and> set (se_node_ids E) = dom (g_nodes g) \<and>
     set (se_inports E) = dom (g_inports g) \<and> set (se_outports E) = dom (g_outports g) \<and>
     distinct (se_iips E) \<and>
     set (se_iips E) = dom (iips_per_target (g_edges g) Map.empty) - edge_targets (g_edges g)"

lemma check_array_outports_total:
  "\<forall>e \<in> set es. ge_data e = None \<or> gs_process (ge_source e) \<noteq> [] \<longrightarrow> gs_process (ge_source e) \<in> dom (g_nodes g) \<Longrightarrow>
   \<exists>r. check_array_outports lib g es known = Yields r"
  by (induction lib g es known rule: check_array_outports.induct)
    (auto simp: Let_def split: option.split)

lemma check_array_inports_total:
  "\<forall>e \<in> set es. gs_process (ge_target e) \<in> dom (g_nodes g) \<Longrightarrow>
   \<exists>r. check_array_inports lib g es known = Yields r"
  by (induction lib g es known rule: check_array_inports.induct)
    (auto simp: Let_def split: option.split)

lemma prepare_ports_total:
  assumes "graph_in g \<notin> dom (g_nodes g)" "graph_out g \<notin> dom (g_nodes g)"
  shows "\<exists>ports. prepare_ports g = Yields ports"
  using assms
  by (auto simp: prepare_ports_def startup_bind_Yields prepare_special_Yields domIff)

lemma iips_table_keys_aux:
  "k \<in> dom (iips_per_target es t) \<Longrightarrow> k \<in> dom t \<or> k \<in> edge_target ` set es"
proof (induction es arbitrary: t)
  case (Cons e es)
  then show ?case by (cases "ge_data e") (fastforce split: if_splits)+
qed simp

lemma iips_table_keys: "dom (iips_per_target es Map.empty) \<subseteq> edge_target ` set es"
  using iips_table_keys_aux by fastforce

definition wiring_ready :: "string set \<Rightarrow> 'q wiring \<Rightarrow> bool" where
  "wiring_ready names w \<longleftrightarrow> dom (w_ports w) = names \<and>
     (\<forall>k is. w_iips w k = Some is \<longrightarrow> length is \<le> PROCESSEDGE_BUFSIZE)"

lemma two_steps_total:
  assumes "n \<in> dom ports" "m \<in> dom ports"
  shows "\<exists>ports1 ports2. with_process n msg f ports = Yields ports1 \<and> with_process m msg' f' ports1 = Yields ports2 \<and>
    dom ports2 = dom ports"
proof -
  obtain ports1 where 1: "with_process n msg f ports = Yields ports1" using with_process_total [OF assms(1)] by blast
  then have "m \<in> dom ports1" using with_process_dom [OF 1] assms(2) by simp
  then obtain ports2 where "with_process m msg' f' ports1 = Yields ports2" using with_process_total by blast
  with 1 with_process_dom [OF 1] with_process_dom [OF this] show ?thesis by simp
qed

context ring
begin

lemma wire_edge_total:
  assumes w: "wiring_ready names w"
    and e: "ge_data e = None \<Longrightarrow> gs_process (ge_source e) \<in> names \<and> gs_process (ge_target e) \<in> names"
  shows "\<exists>w'. wire_edge R g False e w = Yields w' \<and> wiring_ready names w'"
proof (cases "ge_data e")
  case None
  let ?c = "w_next w" and ?tgt = "gs_process (ge_target e)"
  let ?k = "ProcessEdgeSink_new ?c None (Some ?tgt) (Some ?tgt)"
  let ?iips = "case w_iips w (edge_target e) of None \<Rightarrow> [] | Some is \<Rightarrow> is"
  have d: "gs_process (ge_source e) \<in> dom (w_ports w)" "?tgt \<in> dom (w_ports w)"
    using e [OF None] w by (simp_all add: wiring_ready_def)
  obtain ports1 ports2 where p:
    "with_process ?tgt ''process IIP target assignment process not found''
      (add_source (to_ascii_uppercase (gs_port (ge_target e))) ?c) (w_ports w) = Yields ports1"
    "with_process (gs_process (ge_source e)) ''process source assignment process not found''
      (add_sink (to_ascii_uppercase (gs_port (ge_source e))) (traced_edge_sink g e ?k)) ports1 = Yields ports2"
    "dom ports2 = dom (w_ports w)"
    using two_steps_total [OF d(2) d(1)] by blast
  have "ports1 (gs_process (ge_source e)) \<noteq> None"
    using with_process_dom [OF p(1)] d(1) by (metis domIff)
  moreover have "length ?iips \<le> PROCESSEDGE_BUFSIZE"
    using w by (cases "w_iips w (edge_target e)") (simp_all add: wiring_ready_def del: split_paired_All)
  then have "push_all R (map from_text ?iips) (ring_new R PROCESSEDGE_BUFSIZE) \<noteq> None"
    by (intro push_all_fits) (simp add: new_ring)
  then obtain chans1 where "push_iips R ?k ?iips ((w_channels w)(?c := ring_new R PROCESSEDGE_BUFSIZE)) = Some chans1"
    by (auto simp: push_iips_all)
  ultimately show ?thesis
    using None p w by (auto simp: wire_edge_def Let_def wiring_ready_def)
qed (simp add: wire_edge_def w)

lemma wire_iips_total:
  assumes "wiring_ready names w" "fst k \<in> names"
  shows "\<exists>w'. wire_iips R k w = Yields w' \<and> wiring_ready names w'"
  unfolding wire_iips_def
proof (rule startup_fold_total [where I = "wiring_ready names", OF _ assms(1)])
  fix iip and w :: "'q wiring"
  assume w: "wiring_ready names w"
  have "length (held (ring_new R PROCESSEDGE_IIP_BUFSIZE)) < cap (ring_new R PROCESSEDGE_IIP_BUFSIZE)"
    by (simp add: new_ring PROCESSEDGE_IIP_BUFSIZE_def)
  then obtain q where "ring_push R (from_text iip) (ring_new R PROCESSEDGE_IIP_BUFSIZE) = Some q"
    using push_fits by blast
  moreover obtain ports where p: "with_process (fst k) ''process IIP target assignment process not found''
      (add_source (to_ascii_uppercase (snd k)) (w_next w)) (w_ports w) = Yields ports"
    using with_process_total [of "fst k" "w_ports w"] w assms(2) unfolding wiring_ready_def by blast
  ultimately show "\<exists>w'. wire_iip R k iip w = Yields w' \<and> wiring_ready names w'"
    using w with_process_dom [OF p] by (simp add: wire_iip_def wiring_ready_def Let_def)
qed

lemma wire_inport_total:
  assumes w: "wiring_ready names w" and "graph_in g \<in> names"
    and "\<And>gp. g_inports g x = Some gp \<Longrightarrow> gp_process gp \<in> names"
  shows "\<exists>w'. wire_inport R g x w = Yields w' \<and> wiring_ready names w'"
proof (cases "g_inports g x")
  case (Some gp)
  with two_steps_total [of "gp_process gp" "w_ports w" "graph_in g"
      "''graph target assignment process not found''" "add_source (to_ascii_uppercase (gp_port gp)) (w_next w)"
      "''graph source assignment process not found''"
      "add_sink x (ProcessEdgeSink_new (w_next w) None (Some (gp_process gp)) (Some (gp_process gp)))"]
    assms show ?thesis
    by (auto simp: wire_inport_def wiring_ready_def Let_def)
qed (simp add: wire_inport_def w)

lemma wire_outport_total:
  assumes w: "wiring_ready names w" and "graph_out g \<in> names"
    and "\<And>gp. g_outports g x = Some gp \<Longrightarrow> gp_process gp \<in> names"
  shows "\<exists>w'. wire_outport R g x w = Yields w' \<and> wiring_ready names w'"
proof (cases "g_outports g x")
  case (Some gp)
  with two_steps_total [of "graph_out g" "w_ports w" "gp_process gp"
      "''graph target assignment process not found''" "add_source x (w_next w)"
      "''graph source assignment process not found''"
      "add_sink (to_ascii_uppercase (gp_port gp)) (ProcessEdgeSink_new (w_next w) None (Some (graph_out g)) None)"]
    assms show ?thesis
    by (auto simp: wire_outport_def wiring_ready_def Let_def)
qed (simp add: wire_outport_def w)

lemma wire_network_total:
  assumes g: "startable g" and o': "orders_ok E g" and R: "se_ring E = R" and names: "dom ports = process_names g"
  shows "\<exists>w. wire_network E g False chans fresh ports = Yields w \<and> dom (w_ports w) = process_names g"
proof -
  let ?names = "process_names g"
  let ?w = "\<lparr>w_channels = chans, w_next = fresh, w_ports = ports,
    w_iips = iips_per_target (g_edges g) Map.empty\<rparr>"
  have nodes: "dom (g_nodes g) \<subseteq> ?names" by (auto simp: process_names_def)
  have w0: "wiring_ready ?names ?w" using names g by (simp add: wiring_ready_def startable_def)
  have 1: "\<exists>w'. wire_edge R g False e w = Yields w' \<and> wiring_ready ?names w'"
    if "e \<in> set (g_edges g)" "wiring_ready ?names w" for e w
    using that(1) g nodes by (intro wire_edge_total [OF that(2)]) (auto simp: startable_def)
  have "fst k \<in> ?names" if "k \<in> set (se_iips E)" for k
  proof -
    have "k \<in> edge_target ` set (g_edges g)"
      using that o' iips_table_keys [of "g_edges g"] by (auto simp: orders_ok_def)
    then obtain e where "e \<in> set (g_edges g)" "fst k = gs_process (ge_target e)" by (auto simp: edge_target_def)
    then show ?thesis using g nodes unfolding startable_def by (metis subsetD)
  qed
  then have 2: "\<exists>w'. wire_iips R k w = Yields w' \<and> wiring_ready ?names w'"
    if "k \<in> set (se_iips E)" "wiring_ready ?names w" for k w
    using that wire_iips_total by blast
  have 3: "\<exists>w'. wire_inport R g x w = Yields w' \<and> wiring_ready ?names w'"
    if "x \<in> set (se_inports E)" "wiring_ready ?names w" for x w
    using that(1) o' g nodes
    by (intro wire_inport_total [OF that(2)]) (auto simp: orders_ok_def startable_def process_names_def ran_def)
  have 4: "\<exists>w'. wire_outport R g x w = Yields w' \<and> wiring_ready ?names w'"
    if "x \<in> set (se_outports E)" "wiring_ready ?names w" for x w
    using that(1) o' g nodes
    by (intro wire_outport_total [OF that(2)]) (auto simp: orders_ok_def startable_def process_names_def ran_def)
  note total = startup_fold_total [where I = "wiring_ready ?names"]
  obtain w1 where w1: "startup_fold (wire_edge R g False) (g_edges g) ?w = Yields w1" "wiring_ready ?names w1"
    using total [where f = "wire_edge R g False" and xs = "g_edges g", OF 1 w0] by blast
  obtain w2 where w2: "startup_fold (wire_iips R) (se_iips E) w1 = Yields w2" "wiring_ready ?names w2"
    using total [where f = "wire_iips R" and xs = "se_iips E", OF 2 w1(2)] by blast
  obtain w3 where w3: "startup_fold (wire_inport R g) (se_inports E) w2 = Yields w3" "wiring_ready ?names w3"
    using total [where f = "wire_inport R g" and xs = "se_inports E", OF 3 w2(2)] by blast
  obtain w4 where w4: "startup_fold (wire_outport R g) (se_outports E) w3 = Yields w4" "wiring_ready ?names w4"
    using total [where f = "wire_outport R g" and xs = "se_outports E", OF 4 w3(2)] by blast
  show ?thesis using w1 w2 w3 w4 by (simp add: wire_network_def R wiring_ready_def)
qed

end

section \<open>Registered nodes\<close>

text \<open>The component a node gets: what the factory builds from its ports.\<close>

definition component_of ::
    "('q, 'c) start_env \<Rightarrow> 'n Graph \<Rightarrow> (string \<rightharpoonup> ProcPorts) \<Rightarrow> string \<Rightarrow> 'c option" where
  "component_of E g ports n =
     (case (g_nodes g n, ports n) of
        (Some nd, Some pp) \<Rightarrow> se_instantiate E (gn_component nd) n (pp_inports pp) (pp_outports pp)
      | _ \<Rightarrow> None)"

definition built ::
    "('q, 'c) start_env \<Rightarrow> 'n Graph \<Rightarrow> (string \<rightharpoonup> ProcPorts) \<Rightarrow> string \<times> BudgetClass \<times> 'c \<Rightarrow> bool" where
  "built E g ports x \<longleftrightarrow>
     (case x of (n, b, c) \<Rightarrow>
        component_of E g ports n = Some c \<and> (\<exists>nd. g_nodes g n = Some nd \<and> b = se_budget_class E (gn_component nd)))"

abbreviation register :: "instant \<Rightarrow> string \<times> BudgetClass \<times> 'c \<Rightarrow> 'c Scheduler \<Rightarrow> 'c Scheduler" where
  "register t \<equiv> (\<lambda>(n, b, c) s. add_process c n b t s)"

lemma setup_nodes_ok:
  "setup_nodes E lib g procs ports s = Yields (left, s', Inr ()) \<Longrightarrow> distinct procs \<Longrightarrow>
   set procs \<subseteq> dom (g_nodes g) \<Longrightarrow>
   \<exists>ps. map fst ps = procs \<and> list_all (built E g ports) ps \<and> s' = fold (register (se_instant E)) ps s \<and>
     left = ports |` (- set procs)"
proof (induction procs arbitrary: ports s)
  case Nil
  then show ?case by (intro exI [of _ "[]"]) simp
next
  case (Cons n procs)
  obtain nd where nd: "g_nodes g n = Some nd" using Cons.prems(3) by auto
  obtain pp where pp: "ports n = Some pp"
    using Cons.prems(1) nd by (auto simp: map_remove_def split: option.splits)
  define ports' where "ports' = ports(n := None)"
  obtain s1 where s1: "setup_node E lib g n nd pp s = (s1, Inr ())"
    "setup_nodes E lib g procs ports' s1 = Yields (left, s', Inr ())"
    using Cons.prems(1) nd pp by (auto simp: map_remove_def ports'_def split: prod.splits sum.splits)
  then obtain c where c: "se_instantiate E (gn_component nd) n (pp_inports pp) (pp_outports pp) = Some c"
    "s1 = add_process c n (se_budget_class E (gn_component nd)) (se_instant E) s"
    by (auto simp: setup_node_def add_process_def Let_def split: sum.splits option.splits)
  from Cons.IH [OF s1(2)] Cons.prems(2,3) obtain ps where ps: "map fst ps = procs"
    "list_all (built E g ports') ps" "s' = fold (register (se_instant E)) ps s1"
    "left = ports' |` (- set procs)" by auto
  let ?ps = "(n, se_budget_class E (gn_component nd), c) # ps"
  have "built E g ports x" if "x \<in> set ps" for x
  proof -
    have "fst x \<noteq> n" using that ps(1) Cons.prems(2) by (auto simp: image_iff)
    then have "component_of E g ports' (fst x) = component_of E g ports (fst x)"
      by (simp add: component_of_def ports'_def)
    moreover have "built E g ports' x" using that ps(2) by (simp add: list_all_iff)
    ultimately show ?thesis by (cases x) (simp add: built_def)
  qed
  moreover have "built E g ports (n, se_budget_class E (gn_component nd), c)"
    using nd pp c(1) by (simp add: built_def component_of_def)
  moreover have "left = ports |` (- set (n # procs))" using ps(4) by (auto simp: restrict_map_def fun_eq_iff ports'_def)
  ultimately show ?case using ps(1,3) c(2) by (intro exI [of _ ?ps]) (simp add: list_all_iff)
qed

lemma setup_nodes_total:
  "distinct procs \<Longrightarrow> set procs \<subseteq> dom ports \<Longrightarrow> \<exists>r. setup_nodes E lib g procs ports s = Yields r"
proof (induction procs arbitrary: ports s)
  case (Cons n procs)
  show ?case
  proof (cases "g_nodes g n")
    case None
    with Cons show ?thesis by simp
  next
    case (Some nd)
    obtain pp where "ports n = Some pp" using Cons.prems(2) by auto
    moreover obtain s1 res where "setup_node E lib g n nd pp s = (s1, res)" by fastforce
    moreover define ports' where "ports' = ports(n := None)"
    moreover have "set procs \<subseteq> dom ports'" using Cons.prems by (auto simp: ports'_def)
    then obtain r where "setup_nodes E lib g procs ports' s1 = Yields r" using Cons.IH Cons.prems(1) by fastforce
    ultimately show ?thesis using Some by (cases res; cases r) (simp_all add: map_remove_def)
  qed
qed simp

text \<open>Signals from the wiring reach a scheduler without nodes and are dropped.\<close>

lemma signal_before_registration [simp]: "signal_ready n scheduler_new = (scheduler_new, False)"
  by (simp add: signal_ready_def scheduler_new_def)

section \<open>A successful start\<close>

lemma passed:
  "(case x of Inl err \<Rightarrow> Yields (n, Inl err) | Inr (u :: unit) \<Rightarrow> f) = Yields (n', Inr ()) \<longleftrightarrow>
     x = Inr () \<and> f = Yields (n', Inr ())"
  by (cases x) simp_all

lemma failed:
  "(case x of Inl err \<Rightarrow> Yields (n, Inl err) | Inr (u :: unit) \<Rightarrow> f) = Yields (n', Inl err) \<longleftrightarrow>
     x = Inl err \<and> n' = n \<or> x = Inr () \<and> f = Yields (n', Inl err)"
  by (cases x) auto

lemma start_cases:
  assumes "start E lib g net = Yields (net', Inr ())"
  obtains ports w left s where
    "\<not> rs_running (rt_status (nw_runtime net))" "rt_boundary_threads (nw_runtime net) = []"
    "\<not> rt_watchdog_thread (nw_runtime net)"
    "check_array_outports lib g (g_edges g) Map.empty = Yields (Inr ())"
    "check_array_inports lib g (g_edges g) Map.empty = Yields (Inr ())"
    "prepare_ports g = Yields ports"
    "wire_network E g (rt_tracing (nw_runtime net)) (nw_channels net) (nw_next net) ports = Yields w"
    "setup_nodes E lib g (se_nodes E) (w_ports w) scheduler_new = Yields (left, s, Inr ())"
    "open_doors E g left
       (net\<lparr>nw_channels := w_channels w, nw_next := w_next w,
            nw_runtime := set_scheduler (graph_name g) (signal_all (se_node_ids E) s)
               ((set_scheduler (graph_name g) scheduler_new (nw_runtime net))\<lparr>rt_trace_sender := True\<rparr>)\<rparr>)
     = (net', Inr ())"
  using assms that
  by (auto simp: start_def Let_def startup_bind_Yields passed already_running_def split: if_splits)

text \<open>The scheduler before and after its nodes are signalled.\<close>

lemma add_process_frame [simp]:
  "ready_queue (add_process c n b t s) = ready_queue s" "ready_set (add_process c n b t s) = ready_set s"
  "running (add_process c n b t s) = running s"
  "components (add_process c n b t s) = (components s)(n \<mapsto> c)"
  "dom (ready_flags (add_process c n b t s)) = insert n (dom (ready_flags s))"
  by (simp_all add: add_process_def add_component_def sched_add_node_def Let_def)

lemma register_all:
  "ready_queue (fold (register t) ps s) = ready_queue s" "ready_set (fold (register t) ps s) = ready_set s"
  "running (fold (register t) ps s) = running s"
  "dom (ready_flags (fold (register t) ps s)) = fst ` set ps \<union> dom (ready_flags s)"
  by (induction ps arbitrary: s) (auto split: prod.splits)

lemma register_component:
  "distinct (map fst ps) \<Longrightarrow>
   components (fold (register t) ps s) n = (case map_of ps n of None \<Rightarrow> components s n | Some (b, c) \<Rightarrow> Some c)"
proof (induction ps arbitrary: s)
  case (Cons x ps)
  obtain m b c where x: "x = (m, b, c)" by (cases x)
  have "map_of ps m = None" using Cons.prems by (simp add: x map_of_eq_None_iff)
  with Cons show ?case by (simp add: x split: option.split)
qed simp

lemma signal_all_run:
  "set ids \<subseteq> dom (ready_flags s) \<Longrightarrow> sched_run behaves (t, s, Inspect) [] (t, signal_all ids s, Inspect)"
proof (induction ids arbitrary: s)
  case Nil
  then show ?case by (simp add: signal_all_def run_refl)
next
  case (Cons n ids)
  let ?s = "fst (signal_ready n s)"
  have "signal_ready n s = (?s, True)" using Cons.prems by (auto simp: signal_ready_def Let_def)
  from signal [OF _ this, of Inspect behaves t]
  have "sched_step behaves (t, s, Inspect) None (t, ?s, Inspect)" by simp
  moreover have "sched_run behaves (t, ?s, Inspect) [] (t, signal_all ids ?s, Inspect)"
    using Cons by simp
  ultimately show ?case using run_step [of behaves _ None] by (fastforce simp: signal_all_def)
qed

lemma signal_all_queue:
  "set ids \<subseteq> dom (ready_flags s) \<Longrightarrow> distinct ids \<Longrightarrow> set ids \<inter> ready_set s = {} \<Longrightarrow>
   ready_queue (signal_all ids s) = ready_queue s @ ids \<and> running (signal_all ids s) = running s \<and>
   components (signal_all ids s) = components s"
proof (induction ids arbitrary: s)
  case (Cons n ids)
  then have n: "ready_flags s n \<noteq> None" "n \<notin> ready_set s" by auto
  have "set ids \<inter> ready_set (fst (signal_ready n s)) = {}"
    using Cons.prems n(1) by (auto simp: signal_ready_set)
  with Cons n show ?case by (simp add: signal_all_def signal_ready_queue)
qed (simp add: signal_all_def)

lemma started_scheduler:
  assumes s: "setup_nodes E lib g (se_nodes E) ports scheduler_new = Yields (left, s, Inr ())"
    and o': "orders_ok E g"
  shows "\<exists>ps. distinct (map fst ps) \<and> set (map fst ps) = dom (g_nodes g) \<and> list_all (built E g ports) ps \<and>
      s = start_scheduler ps (se_instant E)"
    "ready_queue (signal_all (se_node_ids E) s) = se_node_ids E" "running (signal_all (se_node_ids E) s)"
    "n \<in> dom (g_nodes g) \<Longrightarrow> components (signal_all (se_node_ids E) s) n = component_of E g ports n \<and>
      component_of E g ports n \<noteq> None"
    "sched_run behaves (t, s, Inspect) [] (t, signal_all (se_node_ids E) s, Inspect)"
    "left = ports |` (- dom (g_nodes g))"
proof -
  obtain ps where ps: "map fst ps = se_nodes E" "list_all (built E g ports) ps"
    "s = fold (register (se_instant E)) ps scheduler_new" "left = ports |` (- set (se_nodes E))"
    using setup_nodes_ok [OF s] o' by (auto simp: orders_ok_def)
  have d: "distinct (map fst ps)" "set (map fst ps) = dom (g_nodes g)"
    using ps(1) o' by (simp_all add: orders_ok_def)
  with ps show "\<exists>ps. distinct (map fst ps) \<and> set (map fst ps) = dom (g_nodes g) \<and>
      list_all (built E g ports) ps \<and> s = start_scheduler ps (se_instant E)"
    by (intro exI [of _ ps]) (simp add: start_scheduler_def)
  have flags: "set (se_node_ids E) \<subseteq> dom (ready_flags s)"
    using d(2) o' by (auto simp: ps(3) register_all orders_ok_def)
  then show "sched_run behaves (t, s, Inspect) [] (t, signal_all (se_node_ids E) s, Inspect)"
    by (rule signal_all_run)
  have q: "ready_queue (signal_all (se_node_ids E) s) = ready_queue s @ se_node_ids E \<and>
      running (signal_all (se_node_ids E) s) = running s \<and> components (signal_all (se_node_ids E) s) = components s"
    using o' by (intro signal_all_queue [OF flags]) (simp_all add: ps(3) register_all orders_ok_def scheduler_new_def)
  then show "ready_queue (signal_all (se_node_ids E) s) = se_node_ids E" "running (signal_all (se_node_ids E) s)"
    by (simp_all add: ps(3) register_all scheduler_new_def)
  show "left = ports |` (- dom (g_nodes g))" using ps(4) o' by (simp add: orders_ok_def)
  show "components (signal_all (se_node_ids E) s) n = component_of E g ports n \<and> component_of E g ports n \<noteq> None"
    if "n \<in> dom (g_nodes g)"
  proof -
    from that d(2) obtain b c where "(n, b, c) \<in> set ps" by fastforce
    with d(1) ps(2) have "map_of ps n = Some (b, c)" "component_of E g ports n = Some c"
      by (auto simp: list_all_iff built_def)
    then show ?thesis using q register_component [OF d(1), of "se_instant E" scheduler_new n] by (simp add: ps(3))
  qed
qed

text \<open>Registering takes the ports of the nodes; what is left are the graph's own.\<close>

lemma leftover_special:
  assumes "dom ports = process_names g" "left = ports |` (- dom (g_nodes g))"
  shows "left(graph_in g := None, graph_out g := None) = Map.empty"
  using assms by (auto simp: fun_eq_iff restrict_map_def process_names_def domIff split: if_splits)

lemma open_doors_ok:
  assumes "open_doors E g left net = (net', Inr ())"
  shows "nw_channels net' = nw_channels net" "nw_next net' = nw_next net"
    "rt_schedulers (nw_runtime net') = rt_schedulers (nw_runtime net)"
    "rs_running (rt_status (nw_runtime net'))" "rs_started (rt_status (nw_runtime net'))"
    "rs_graph (rt_status (nw_runtime net')) = rt_graph (nw_runtime net)"
    "rt_watchdog_thread (nw_runtime net')"
    "graph_name g \<in> set (rt_scheduler_threads (nw_runtime net'))"
    "rt_boundary_threads (nw_runtime net') = rt_boundary_threads (nw_runtime net) @
       (if left (graph_out g) = None then [] else [graph_out g])"
    "left (graph_in g) = Some pp \<Longrightarrow>
       nw_inports net' = Some (map_option last \<circ> pp_outports pp) \<and> (\<forall>ks \<in> ran (pp_outports pp). length ks = 1)"
  using assms
  by (auto simp: open_doors_def inport_handles_def Let_def split: option.splits sum.splits if_splits)

lemma open_doors_err:
  "open_doors E g left net = (net', Inl err) \<Longrightarrow>
   rt_status (nw_runtime net') = rt_status (nw_runtime net) \<and>
   rt_watchdog_thread (nw_runtime net') = rt_watchdog_thread (nw_runtime net) \<and>
   rt_scheduler_threads (nw_runtime net') = rt_scheduler_threads (nw_runtime net) \<and>
   (rt_boundary_threads (nw_runtime net) = [] \<longrightarrow> rt_boundary_threads (nw_runtime net') = [])"
  by (auto simp: open_doors_def Let_def split: sum.splits if_splits)

section \<open>Returning\<close>

lemma start_total:
  assumes "ring (se_ring E) cap held" and "startable g" and "orders_ok E g"
    and "\<not> rt_tracing (nw_runtime net)"
  shows "\<exists>net' result. start E lib g net = Yields (net', result)"
proof -
  have e: "\<forall>e \<in> set (g_edges g). gs_process (ge_target e) \<in> dom (g_nodes g)"
    "\<forall>e \<in> set (g_edges g). ge_data e = None \<or> gs_process (ge_source e) \<noteq> [] \<longrightarrow> gs_process (ge_source e) \<in> dom (g_nodes g)"
    using assms(2) by (simp_all add: startable_def)
  obtain c1 c2 where c: "check_array_outports lib g (g_edges g) Map.empty = Yields c1"
    "check_array_inports lib g (g_edges g) Map.empty = Yields c2"
    using check_array_outports_total [OF e(2)] check_array_inports_total [OF e(1)] by metis
  have "\<exists>ports. prepare_ports g = Yields ports"
    using assms(2) by (intro prepare_ports_total) (simp_all add: startable_def)
  then obtain ports where p: "prepare_ports g = Yields ports" by blast
  obtain w where w: "wire_network E g False (nw_channels net) (nw_next net) ports = Yields w"
    "dom (w_ports w) = process_names g"
    using ring.wire_network_total [OF assms(1,2,3) refl prepare_ports_blank(2) [OF p]] by blast
  have "\<exists>r. setup_nodes E lib g (se_nodes E) (w_ports w) scheduler_new = Yields r"
    using assms(3) w(2) by (intro setup_nodes_total) (auto simp: orders_ok_def process_names_def)
  then obtain left s res where n: "setup_nodes E lib g (se_nodes E) (w_ports w) scheduler_new = Yields (left, s, res)"
    by (metis prod_cases3)
  show ?thesis
    using c p w(1) n assms(4)
    by (cases c1; cases c2; cases res) (simp_all add: start_def Let_def split: prod.split)
qed

section \<open>Samples\<close>

text \<open>Two nodes of one component, an edge between them and an initial packet for the first.\<close>

definition demo_node :: "int GraphNode" where
  "demo_node = \<lparr>gn_component = ''C'', gn_metadata = GraphNodeMetadata_default, gn_protocol_metadata = Map.empty\<rparr>"

definition demo_spec :: "string \<Rightarrow> string \<Rightarrow> GraphNodeSpec" where
  "demo_spec n p = \<lparr>gs_process = n, gs_port = p, gs_index = None\<rparr>"

definition demo_edge :: "string \<Rightarrow> string option \<Rightarrow> string \<Rightarrow> GraphEdge" where
  "demo_edge src d tgt = \<lparr>ge_source = demo_spec src ''OUT'', ge_data = d, ge_target = demo_spec tgt ''IN'',
     ge_metadata = \<lparr>em_route = None, em_schema = None, em_secure = None\<rparr>\<rparr>"

definition demo_graph :: "int Graph" where
  "demo_graph = (Graph_new ''g'' [] [])
     \<lparr>g_nodes := [''a'' \<mapsto> demo_node, ''b'' \<mapsto> demo_node],
      g_edges := [demo_edge ''a'' None ''b'', demo_edge [] (Some ''x'') ''a'']\<rparr>"

definition demo_library :: "ComponentComponentPayload list" where
  "demo_library = [\<lparr>comp_name = ''C'', comp_description = [], comp_icon = [], subgraph = False,
     in_ports = [], out_ports = [], support_health = False, support_perfdata = False, support_reconnect = False\<rparr>]"

definition demo_env :: "(list_queue, unit) start_env" where
  "demo_env = \<lparr>se_ring = list_ring, se_instantiate = (\<lambda>_ _ _ _. Some ()), se_budget_class = (\<lambda>_. Normal),
     se_nodes = [''a'', ''b''], se_iips = [(''a'', ''IN'')], se_inports = [], se_outports = [],
     se_node_ids = [''b'', ''a''], se_instant = 0, se_utc = 0\<rparr>"

definition demo_net :: "(list_queue, unit, int) network" where
  "demo_net = \<lparr>nw_runtime = fst (Runtime_new 0 0 ''g'' 0 :: unit Runtime \<times> int Graph),
     nw_channels = (\<lambda>_. ring_new list_ring 0), nw_next = 0, nw_inports = None, nw_graph_out = Map.empty,
     nw_sent = []\<rparr>"

lemmas demo_defs = demo_graph_def demo_library_def demo_env_def demo_net_def demo_edge_def demo_spec_def
  demo_node_def Graph_new_def

lemma demo_startable: "startable demo_graph"
  by (auto simp: startable_def demo_defs graph_in_def graph_out_def edge_target_def PROCESSEDGE_BUFSIZE_def
      split: if_splits)

lemma demo_orders: "orders_ok demo_env demo_graph"
  by (auto simp: orders_ok_def demo_defs edge_targets_def edge_target_def split: if_splits)

lemma demo_net_idle [simp]:
  "\<not> rt_tracing (nw_runtime demo_net)" "\<not> rs_running (rt_status (nw_runtime demo_net))"
  "rt_boundary_threads (nw_runtime demo_net) = []" "\<not> rt_watchdog_thread (nw_runtime demo_net)"
  by (simp_all add: demo_net_def Runtime_new_def Runtime_default_def RuntimeStatus_default_def Let_def)

lemma demo_ring: "ring (se_ring demo_env) lq_capacity lq_messages"
  using list_ring.ring_axioms by (simp add: demo_env_def)

lemma demo_names: "process_names demo_graph = {''a'', ''b''}"
  by (auto simp: process_names_def demo_defs)

lemma demo_nodes [simp]:
  "g_nodes demo_graph ''a'' = Some demo_node" "g_nodes demo_graph ''b'' = Some demo_node"
  "g_inports demo_graph = Map.empty" "g_outports demo_graph = Map.empty" "g_properties demo_graph =
    \<lparr>prop_name = ''g'', prop_environment = environment_default, prop_description = [], prop_icon = []\<rparr>"
  "se_nodes demo_env = [''a'', ''b'']"
  by (simp_all add: demo_graph_def demo_env_def Graph_new_def)

lemma demo_setup: "\<exists>s'. setup_node demo_env demo_library demo_graph n demo_node pp s = (s', Inr ())"
  by (simp add: setup_node_def find_component_def check_ports_def demo_library_def demo_env_def demo_node_def)

lemma demo_starts: "\<exists>net'. start demo_env demo_library demo_graph demo_net = Yields (net', Inr ())"
proof -
  have "\<exists>ports. prepare_ports demo_graph = Yields ports"
    using demo_startable by (intro prepare_ports_total) (simp_all add: startable_def)
  then obtain ports where p: "prepare_ports demo_graph = Yields ports" by blast
  obtain w where w: "wire_network demo_env demo_graph False (nw_channels demo_net) (nw_next demo_net) ports = Yields w"
    "dom (w_ports w) = process_names demo_graph"
    using ring.wire_network_total [OF demo_ring demo_startable demo_orders refl prepare_ports_blank(2) [OF p]] by blast
  then have "''a'' \<in> dom (w_ports w)" "''b'' \<in> dom (w_ports w)" by (simp_all add: demo_names)
  then obtain pa pb where ab: "w_ports w ''a'' = Some pa" "w_ports w ''b'' = Some pb"
    unfolding domIff by blast
  obtain s1 s2 where s: "setup_node demo_env demo_library demo_graph ''a'' demo_node pa scheduler_new = (s1, Inr ())"
    "setup_node demo_env demo_library demo_graph ''b'' demo_node pb s1 = (s2, Inr ())"
    using demo_setup [of "''a''" pa scheduler_new] demo_setup [of "''b''" pb] by blast
  have "w_ports w n = None" if "n \<noteq> ''a''" "n \<noteq> ''b''" for n
  proof -
    have "n \<notin> dom (w_ports w)" using that by (simp add: w(2) demo_names)
    then show ?thesis by (simp add: domIff)
  qed
  then have left: "(w_ports w)(''a'' := None, ''b'' := None) = Map.empty" by (simp add: fun_eq_iff)
  have "setup_nodes demo_env demo_library demo_graph (se_nodes demo_env) (w_ports w) scheduler_new =
      Yields (Map.empty, s2, Inr ())"
    using ab s left by (simp add: map_remove_def)
  moreover have "check_array_outports demo_library demo_graph (g_edges demo_graph) Map.empty = Yields (Inr ())"
    "check_array_inports demo_library demo_graph (g_edges demo_graph) Map.empty = Yields (Inr ())"
    by (simp_all add: demo_defs)
  ultimately show ?thesis using p w(1)
    by (simp add: start_def Let_def open_doors_def)
qed

section \<open>Properties of a start\<close>



lemma started_wiring:
  assumes r: "ring (se_ring E) cap held" and o': "orders_ok E g"
    and st: "start E lib g net = Yields (net', Inr ())"
  shows "\<exists>w left s.
     setup_nodes E lib g (se_nodes E) (w_ports w) scheduler_new = Yields (left, s, Inr ()) \<and>
     rt_schedulers (nw_runtime net') (graph_name g) = Some (signal_all (se_node_ids E) s) \<and>
     nw_channels net' = w_channels w \<and> dom (w_ports w) = process_names g \<and>
     spsc (nw_next net) (nw_next net') (w_ports w) \<and>
     connections (w_ports w) = edge_links (g_edges g) \<union> in_links g UNIV \<union> out_links g UNIV \<and>
     (\<forall>p q. mset (delivered held w p q) = mset (initial_packets (g_edges g) p q)) \<and>
     (\<forall>x gp. g_inports g x = Some gp \<longrightarrow> (\<exists>hs k. nw_inports net' = Some hs \<and> hs x = Some k \<and>
        sk_sink k \<in> set (in_at (w_ports w) (gp_process gp) (to_ascii_uppercase (gp_port gp)))))"
proof -
  from st obtain ports w left s where x:
    "prepare_ports g = Yields ports"
    "wire_network E g (rt_tracing (nw_runtime net)) (nw_channels net) (nw_next net) ports = Yields w"
    "setup_nodes E lib g (se_nodes E) (w_ports w) scheduler_new = Yields (left, s, Inr ())"
    "open_doors E g left
       (net\<lparr>nw_channels := w_channels w, nw_next := w_next w,
            nw_runtime := set_scheduler (graph_name g) (signal_all (se_node_ids E) s)
               ((set_scheduler (graph_name g) scheduler_new (nw_runtime net))\<lparr>rt_trace_sender := True\<rparr>)\<rparr>)
     = (net', Inr ())"
    by (rule start_cases)
  note b = prepare_ports_blank [OF x(1)]
  have del: "delivered held \<lparr>w_channels = nw_channels net, w_next = nw_next net, w_ports = ports,
      w_iips = iips_per_target (g_edges g) Map.empty\<rparr> p q = []" for p q
    by (simp add: delivered_def blank_at [OF b(1)])
  have ks: "distinct (se_iips E)"
    "dom (iips_per_target (g_edges g) Map.empty) - edge_targets (g_edges g) \<subseteq> set (se_iips E)"
    using o' by (simp_all add: orders_ok_def)
  note wired = ring.wire_network_extends [OF r x(2) refl ks _ del] and blank = blank_wiring [OF b(1)]
  have links: "in_links g (set (se_inports E)) = in_links g UNIV" "out_links g (set (se_outports E)) = out_links g UNIV"
    using o' by (auto simp: in_links_def out_links_def orders_ok_def)
  have conn: "connections (w_ports w) = edge_links (g_edges g) \<union> in_links g UNIV \<union> out_links g UNIV"
    using wired(3) blank by (simp add: links)
  have d: "dom (w_ports w) = process_names g" using wired(2) blank b(2) by simp
  have inp: "\<exists>hs k. nw_inports net' = Some hs \<and> hs x = Some k \<and>
       sk_sink k \<in> set (in_at (w_ports w) (gp_process gp) (to_ascii_uppercase (gp_port gp)))"
    if "g_inports g x = Some gp" for x gp
  proof -
    have "((graph_in g, x), (gp_process gp, to_ascii_uppercase (gp_port gp))) \<in> connections (w_ports w)"
      using that by (auto simp: conn in_links_def)
    then obtain k where k: "k \<in> set (out_at (w_ports w) (graph_in g) x)"
      "sk_sink k \<in> set (in_at (w_ports w) (gp_process gp) (to_ascii_uppercase (gp_port gp)))"
      by (auto simp: connections_def)
    then obtain pp where pp1: "w_ports w (graph_in g) = Some pp" "k \<in> set (listed (pp_outports pp) x)"
      by (cases "w_ports w (graph_in g)") (auto simp: out_at_def)
    then obtain ks where pp: "w_ports w (graph_in g) = Some pp" "pp_outports pp x = Some ks" "k \<in> set ks"
      by (cases "pp_outports pp x") (auto simp: listed_def)
    show ?thesis
    proof (cases "g_nodes g (graph_in g)")
      case None
      then have "left (graph_in g) = Some pp"
        using started_scheduler(6) [OF x(3) o'] pp(1) by (simp add: restrict_map_def domIff)
      note h = open_doors_ok(10) [OF x(4) this]
      then have "length ks = 1" using pp(2) by (auto simp: ran_def)
      then have "ks = [k]" using pp(3) by (cases ks) auto
      with h pp(2) k(2) show ?thesis by simp
    next
      case (Some nd)
      have "g_inports g \<noteq> Map.empty" using that by auto
      with x(1) Some show ?thesis by (auto simp: prepare_ports_def startup_bind_Yields prepare_special_Yields)
    qed
  qed
  show ?thesis
    using x(3) d conn inp wired(1,4) blank open_doors_ok(1-3) [OF x(4)]
    by (intro exI [of _ w] exI [of _ left] exI [of _ s]) (simp add: set_scheduler_def)
qed

text \<open>
  C6. A started network is exactly its graph. Every node has the component the factory built from
  its ports; every channel has one receiver and at most one sender; an outport is connected to an
  inport if and only if the graph has such an edge or exported port (port names in upper case); and
  every inport finds exactly the initial packets of the graph for it, each of them once.
\<close>

theorem started_network_is_its_graph:
  assumes "ring (se_ring E) cap held" and "orders_ok E g"
    and "start E lib g net = Yields (net', Inr ())"
  shows "\<exists>ports s. rt_schedulers (nw_runtime net') (graph_name g) = Some s \<and>
     (\<forall>n \<in> dom (g_nodes g). components s n = component_of E g ports n \<and> component_of E g ports n \<noteq> None) \<and>
     spsc (nw_next net) (nw_next net') ports \<and>
     connections ports = edge_links (g_edges g) \<union> in_links g UNIV \<union> out_links g UNIV \<and>
     (\<forall>p q. mset (concat (map (\<lambda>c. held (nw_channels net' c)) (in_at ports p q))) =
        mset (initial_packets (g_edges g) p q))"
proof -
  obtain w left s where w:
    "setup_nodes E lib g (se_nodes E) (w_ports w) scheduler_new = Yields (left, s, Inr ())"
    "rt_schedulers (nw_runtime net') (graph_name g) = Some (signal_all (se_node_ids E) s)"
    "nw_channels net' = w_channels w"
    "spsc (nw_next net) (nw_next net') (w_ports w)"
    "connections (w_ports w) = edge_links (g_edges g) \<union> in_links g UNIV \<union> out_links g UNIV"
    "\<And>p q. mset (delivered held w p q) = mset (initial_packets (g_edges g) p q)"
    using started_wiring [OF assms] by blast
  show ?thesis
    using w(2-6) started_scheduler(4) [OF w(1) assms(2)]
    by (intro exI [of _ "w_ports w"] exI [of _ "signal_all (se_node_ids E) s"]) (simp add: delivered_def)
qed

lemma upper_OUT_IN [simp]: "to_ascii_uppercase ''OUT'' = ''OUT''" "to_ascii_uppercase ''IN'' = ''IN''"
  by code_simp+

lemma demo_links:
  "edge_links (g_edges demo_graph) \<union> in_links demo_graph UNIV \<union> out_links demo_graph UNIV =
     {((''a'', ''OUT''), (''b'', ''IN''))}"
  by (simp add: edge_links_Cons in_links_def out_links_def)
    (simp add: edge_links_Cons demo_graph_def demo_edge_def demo_spec_def edge_source_port_def edge_target_port_def,
     simp add: edge_links_def)

lemma started_network_is_its_graph_witness:
  "\<exists>net' ports s. start demo_env demo_library demo_graph demo_net = Yields (net', Inr ()) \<and>
     rt_schedulers (nw_runtime net') ''g'' = Some s \<and> components s ''a'' = Some () \<and> spsc 0 (nw_next net') ports \<and>
     connections ports = {((''a'', ''OUT''), (''b'', ''IN''))} \<and>
     mset (concat (map (\<lambda>c. lq_messages (nw_channels net' c)) (in_at ports ''a'' ''IN''))) = {#MText ''x''#}"
proof -
  obtain net' where n: "start demo_env demo_library demo_graph demo_net = Yields (net', Inr ())"
    using demo_starts by blast
  have d: "''a'' \<in> dom (g_nodes demo_graph)" "nw_next demo_net = 0" by (auto simp: demo_net_def)
  have "initial_packets (g_edges demo_graph) ''a'' ''IN'' = [MText ''x'']"
    by (simp add: initial_packets_def demo_defs edge_target_port_def from_text_def)
  moreover obtain ports s where "rt_schedulers (nw_runtime net') (graph_name demo_graph) = Some s"
    and p: "\<forall>m \<in> dom (g_nodes demo_graph). components s m = component_of demo_env demo_graph ports m \<and>
      component_of demo_env demo_graph ports m \<noteq> None" "spsc (nw_next demo_net) (nw_next net') ports"
    "connections ports = {((''a'', ''OUT''), (''b'', ''IN''))}"
    "\<forall>p q. mset (concat (map (\<lambda>c. lq_messages (nw_channels net' c)) (in_at ports p q))) =
        mset (initial_packets (g_edges demo_graph) p q)"
    using started_network_is_its_graph [OF demo_ring demo_orders n] unfolding demo_links
    by (elim exE conjE) (rule that)
  moreover have "components s ''a'' = Some ()"
  proof -
    have "components s ''a'' \<noteq> None" using bspec [OF p(1) d(1)] by (elim conjE) (simp only: not_False_eq_True)
    then show ?thesis unfolding not_None_eq by (elim exE) simp
  qed
  ultimately show ?thesis using n d(2) by (intro exI [of _ net'] exI [of _ ports] exI [of _ s]) simp
qed



text \<open>
  After a successful start the network is running for the runtime's graph, its watchdog and its
  scheduler thread are recorded, there is a boundary thread exactly when the graph has outports, and
  a client's packet for a graph inport has a channel that the exported inport receives from.
\<close>

theorem started_network_is_open:
  assumes "ring (se_ring E) cap held" and "orders_ok E g" and "startable g"
    and "start E lib g net = Yields (net', Inr ())"
  shows "rs_running (rt_status (nw_runtime net')) \<and> rs_started (rt_status (nw_runtime net')) \<and>
    rs_graph (rt_status (nw_runtime net')) = rt_graph (nw_runtime net) \<and>
    rt_watchdog_thread (nw_runtime net') \<and> graph_name g \<in> set (rt_scheduler_threads (nw_runtime net')) \<and>
    rt_boundary_threads (nw_runtime net') = (if g_outports g = Map.empty then [] else [graph_out g]) \<and>
    (\<exists>ports. connections ports = edge_links (g_edges g) \<union> in_links g UNIV \<union> out_links g UNIV \<and>
       (\<forall>x gp. g_inports g x = Some gp \<longrightarrow> (\<exists>hs k. nw_inports net' = Some hs \<and> hs x = Some k \<and>
          sk_sink k \<in> set (in_at ports (gp_process gp) (to_ascii_uppercase (gp_port gp))))))"
proof -
  from assms(4) obtain ports w left s where x: "rt_boundary_threads (nw_runtime net) = []"
    "setup_nodes E lib g (se_nodes E) (w_ports w) scheduler_new = Yields (left, s, Inr ())"
    "open_doors E g left
       (net\<lparr>nw_channels := w_channels w, nw_next := w_next w,
            nw_runtime := set_scheduler (graph_name g) (signal_all (se_node_ids E) s)
               ((set_scheduler (graph_name g) scheduler_new (nw_runtime net))\<lparr>rt_trace_sender := True\<rparr>)\<rparr>)
     = (net', Inr ())"
    "prepare_ports g = Yields ports"
    "wire_network E g (rt_tracing (nw_runtime net)) (nw_channels net) (nw_next net) ports = Yields w"
    by (rule start_cases)
  note b = prepare_ports_blank [OF x(4)]
  have "dom (w_ports w) = process_names g"
    using ring.wire_network_extends(2) [OF assms(1) x(5) refl] assms(2) blank_wiring [OF b(1)] b
    by (simp add: orders_ok_def delivered_def blank_at)
  moreover have "graph_out g \<in> process_names g \<longleftrightarrow> g_outports g \<noteq> Map.empty"
    using assms(3) by (auto simp: process_names_def startable_def)
  moreover have "left (graph_out g) = w_ports w (graph_out g)"
    using started_scheduler(6) [OF x(2) assms(2)] assms(3) by (simp add: restrict_map_def startable_def domIff)
  ultimately have "left (graph_out g) = None \<longleftrightarrow> g_outports g = Map.empty" by (metis domIff)
  moreover obtain ports2 where "connections ports2 = edge_links (g_edges g) \<union> in_links g UNIV \<union> out_links g UNIV"
    "\<And>x gp. g_inports g x = Some gp \<Longrightarrow> \<exists>hs k. nw_inports net' = Some hs \<and> hs x = Some k \<and>
       sk_sink k \<in> set (in_at ports2 (gp_process gp) (to_ascii_uppercase (gp_port gp)))"
    using started_wiring [OF assms(1,2,4)] by blast
  ultimately show ?thesis
    using open_doors_ok(4-9) [OF x(3)] x(1) by (simp add: set_scheduler_def) blast
qed

lemma started_network_is_open_witness:
  "\<exists>net'. start demo_env demo_library demo_graph demo_net = Yields (net', Inr ()) \<and>
     rs_running (rt_status (nw_runtime net')) \<and> rs_graph (rt_status (nw_runtime net')) = ''g'' \<and>
     rt_boundary_threads (nw_runtime net') = []"
proof -
  obtain net' where n: "start demo_env demo_library demo_graph demo_net = Yields (net', Inr ())"
    using demo_starts by blast
  have "rt_graph (nw_runtime demo_net) = ''g''"
    by (simp add: demo_net_def Runtime_new_def Runtime_default_def Let_def)
  with n started_network_is_open [OF demo_ring demo_orders demo_startable n] show ?thesis
    by (intro exI [of _ net']) simp
qed

text \<open>
  A start that fails with an error leaves nothing running: status, boundary threads, watchdog
  and scheduler threads are as before, and unless a network was running another start is accepted.
\<close>

theorem failed_start_leaves_idle:
  assumes "start E lib g net = Yields (net', Inl err)"
  shows "rt_status (nw_runtime net') = rt_status (nw_runtime net) \<and>
    rt_watchdog_thread (nw_runtime net') = rt_watchdog_thread (nw_runtime net) \<and>
    rt_scheduler_threads (nw_runtime net') = rt_scheduler_threads (nw_runtime net) \<and>
    rt_boundary_threads (nw_runtime net') = rt_boundary_threads (nw_runtime net) \<and>
    (err = already_running \<longrightarrow> net' = net \<or> \<not> rs_running (rt_status (nw_runtime net')))"
proof (cases "rs_running (rt_status (nw_runtime net)) \<or> rt_boundary_threads (nw_runtime net) \<noteq> [] \<or>
    rt_watchdog_thread (nw_runtime net)")
  case True
  with assms show ?thesis by (auto simp: start_def Let_def)
next
  case False
  let ?same = "\<lambda>n. rt_status (nw_runtime n) = rt_status (nw_runtime net) \<and>
    rt_watchdog_thread (nw_runtime n) = rt_watchdog_thread (nw_runtime net) \<and>
    rt_scheduler_threads (nw_runtime n) = rt_scheduler_threads (nw_runtime net) \<and>
    rt_boundary_threads (nw_runtime n) = rt_boundary_threads (nw_runtime net)"
  have "?same net'"
    using assms False
    by (auto simp: start_def Let_def startup_bind_Yields set_scheduler_def failed dest!: open_doors_err)
  with False show ?thesis by simp
qed

lemma demo_fails: "\<exists>net' err. start demo_env [] demo_graph demo_net = Yields (net', Inl err)"
proof -
  obtain net' res where n: "start demo_env [] demo_graph demo_net = Yields (net', res)"
    using start_total [OF demo_ring demo_startable demo_orders demo_net_idle(1)] by blast
  have "res \<noteq> Inr ()"
  proof
    assume "res = Inr ()"
    with n show False
      by (auto elim!: start_cases simp: setup_node_def find_component_def map_remove_def split: option.splits)
  qed
  with n show ?thesis by (cases res) auto
qed

lemma failed_start_leaves_idle_witness:
  "\<exists>net' err. start demo_env [] demo_graph demo_net = Yields (net', Inl err) \<and>
     \<not> rs_running (rt_status (nw_runtime net')) \<and> rt_boundary_threads (nw_runtime net') = []"
proof -
  obtain net' err where n: "start demo_env [] demo_graph demo_net = Yields (net', Inl err)"
    using demo_fails by blast
  with failed_start_leaves_idle [OF n] show ?thesis by (intro exI [of _ net'] exI [of _ err]) simp
qed

section \<open>A start that never returns\<close>

lemma wire_edge_traced:
  "ge_data e = None \<Longrightarrow> wire_edge R g False e w = Yields w' \<Longrightarrow> wire_edge R g True e w = Hangs"
  by (auto simp: wire_edge_def Let_def startup_bind_Yields split: if_splits option.splits)

context ring
begin

lemma wire_edges_hang:
  "list_ex (\<lambda>e. ge_data e = None) es \<Longrightarrow> wiring_ready names w \<Longrightarrow>
   \<forall>e \<in> set es. ge_data e = None \<longrightarrow> gs_process (ge_source e) \<in> names \<and> gs_process (ge_target e) \<in> names \<Longrightarrow>
   startup_fold (wire_edge R g True) es w = Hangs"
proof (induction es)
  case (Cons e es)
  show ?case
  proof (cases "ge_data e")
    case None
    with Cons.prems(3) obtain w' where "wire_edge R g False e w = Yields w'"
      using wire_edge_total [OF Cons.prems(2), of e g] by auto
    with None show ?thesis by (simp add: wire_edge_traced)
  next
    case (Some d)
    with Cons show ?thesis by (simp add: wire_edge_skip)
  qed
qed simp

end

text \<open>
  With tracing switched on, starting a network that has an edge never returns: the announcement
  of the first edge locks the clients' state, which the start itself holds.
\<close>

theorem traced_start_hangs:
  assumes "ring (se_ring E) cap held" and "startable g"
    and "rt_tracing (nw_runtime net)" and "list_ex (\<lambda>e. ge_data e = None) (g_edges g)"
    and "\<not> rs_running (rt_status (nw_runtime net))" and "rt_boundary_threads (nw_runtime net) = []"
    and "\<not> rt_watchdog_thread (nw_runtime net)"
    and "check_array_outports lib g (g_edges g) Map.empty = Yields (Inr ())"
    and "check_array_inports lib g (g_edges g) Map.empty = Yields (Inr ())"
  shows "start E lib g net = Hangs"
proof -
  have "\<exists>ports. prepare_ports g = Yields ports"
    using assms(2) by (intro prepare_ports_total) (simp_all add: startable_def)
  then obtain ports where p: "prepare_ports g = Yields ports" by blast
  let ?w = "\<lparr>w_channels = nw_channels net, w_next = nw_next net, w_ports = ports,
    w_iips = iips_per_target (g_edges g) Map.empty\<rparr>"
  have "wiring_ready (process_names g) ?w"
    using prepare_ports_blank(2) [OF p] assms(2) by (simp add: wiring_ready_def startable_def)
  then have "startup_fold (wire_edge (se_ring E) g True) (g_edges g) ?w = Hangs"
    using assms(2) by (intro ring.wire_edges_hang [OF assms(1,4)]) (auto simp: startable_def process_names_def)
  with p assms(3,5-9) show ?thesis by (simp add: start_def wire_network_def Let_def)
qed

lemma traced_start_hangs_witness:
  "start demo_env demo_library demo_graph
     (demo_net\<lparr>nw_runtime := (nw_runtime demo_net)\<lparr>rt_tracing := True\<rparr>\<rparr>) = Hangs"
proof (rule traced_start_hangs [OF demo_ring demo_startable])
  show "list_ex (\<lambda>e. ge_data e = None) (g_edges demo_graph)" by (simp add: demo_defs)
  show "check_array_outports demo_library demo_graph (g_edges demo_graph) Map.empty = Yields (Inr ())"
    "check_array_inports demo_library demo_graph (g_edges demo_graph) Map.empty = Yields (Inr ())"
    by (simp_all add: demo_defs)
qed simp_all

section \<open>A start that panics\<close>

lemma startup_fold_hangs: "startup_fold f xs a = Hangs \<Longrightarrow> \<exists>x b. f x b = Hangs"
proof (induction xs arbitrary: a)
  case (Cons x xs)
  then show ?case by (cases "f x a") auto
qed simp

lemma startup_bind_Hangs: "startup_bind r f = Hangs \<longleftrightarrow> r = Hangs \<or> (\<exists>x. r = Yields x \<and> f x = Hangs)"
  by (cases r) simp_all

lemma with_process_hangs [simp]: "with_process n m f ports \<noteq> Hangs"
  by (simp add: with_process_def split: option.split)

lemma wiring_never_hangs: "wire_network E g False chans fresh ports \<noteq> Hangs"
proof
  assume "wire_network E g False chans fresh ports = Hangs"
  then have "(\<exists>e w. wire_edge (se_ring E) g False e w = Hangs) \<or> (\<exists>k w. wire_iips (se_ring E) k w = Hangs) \<or>
      (\<exists>x w. wire_inport (se_ring E) g x w = Hangs) \<or> (\<exists>x w. wire_outport (se_ring E) g x w = Hangs)"
    by (auto simp: wire_network_def Let_def startup_bind_Hangs dest: startup_fold_hangs)
  then show False
    by (auto simp: wire_edge_def wire_iips_def wire_iip_def wire_inport_def wire_outport_def Let_def
        startup_bind_Hangs split: if_splits option.splits dest!: startup_fold_hangs)
qed

lemma wire_edge_ports:
  assumes "wire_edge R g tracing e w = Yields w'" "ge_data e = None"
  shows "\<exists>ports1 m1 m2 f1 f2. with_process (gs_process (ge_target e)) m1 f1 (w_ports w) = Yields ports1 \<and>
    with_process (gs_process (ge_source e)) m2 f2 ports1 = Yields (w_ports w')"
  using assms by (fastforce simp: wire_edge_def Let_def startup_bind_Yields split: if_splits option.splits)

lemma wired_edges_lead_to_processes:
  "startup_fold (wire_edge R g tracing) es w = Yields w' \<Longrightarrow> e \<in> set es \<Longrightarrow> ge_data e = None \<Longrightarrow>
   gs_process (ge_target e) \<in> dom (w_ports w) \<and> gs_process (ge_source e) \<in> dom (w_ports w)"
proof (induction es arbitrary: w)
  case (Cons e' es)
  then obtain w1 where w1: "wire_edge R g tracing e' w = Yields w1" "startup_fold (wire_edge R g tracing) es w1 = Yields w'"
    by (auto simp: startup_bind_Yields)
  have *: "dom (w_ports w1) = dom (w_ports w) \<and> (ge_data e' = None \<longrightarrow>
      gs_process (ge_target e') \<in> dom (w_ports w) \<and> gs_process (ge_source e') \<in> dom (w_ports w))"
  proof (cases "ge_data e'")
    case None
    from wire_edge_ports [OF w1(1) this] show ?thesis using with_process_dom by metis
  next
    case (Some d)
    with w1(1) show ?thesis by (simp add: wire_edge_def)
  qed
  with Cons.IH [OF w1(2)] Cons.prems show ?case by auto
qed simp

text \<open>
  Starting a graph with an edge from or to a process that does not exist panics, while the
  runtime is locked for writing; adding such an edge is accepted by the graph.
\<close>

theorem dangling_edge_panics:
  assumes "add_edge (graph_name g0) e g0 = Inr g" and "ge_data e = None"
    and "{gs_process (ge_source e), gs_process (ge_target e)} - process_names g \<noteq> {}"
    and "\<not> rt_tracing (nw_runtime net)"
    and "\<not> rs_running (rt_status (nw_runtime net))" and "rt_boundary_threads (nw_runtime net) = []"
    and "\<not> rt_watchdog_thread (nw_runtime net)"
    and "check_array_outports lib g (g_edges g) Map.empty = Yields (Inr ())"
    and "check_array_inports lib g (g_edges g) Map.empty = Yields (Inr ())"
    and "prepare_ports g = Yields ports"
  shows "\<exists>message. start E lib g net = Aborts message"
proof -
  have e: "e \<in> set (g_edges g)" using assms(1) by (auto simp: add_edge_def split: if_splits)
  obtain m where "wire_network E g False (nw_channels net) (nw_next net) ports = Aborts m"
  proof (cases "wire_network E g False (nw_channels net) (nw_next net) ports")
    case (Yields w)
    then obtain w1 where "startup_fold (wire_edge (se_ring E) g False) (g_edges g)
        \<lparr>w_channels = nw_channels net, w_next = nw_next net, w_ports = ports,
          w_iips = iips_per_target (g_edges g) Map.empty\<rparr> = Yields w1"
      by (auto simp: wire_network_def Let_def startup_bind_Yields)
    from wired_edges_lead_to_processes [OF this e assms(2)] prepare_ports_blank(2) [OF assms(10)] assms(3)
    show ?thesis by auto
  qed (auto simp: wiring_never_hangs)
  with assms(4-10) show ?thesis by (simp add: start_def Let_def)
qed

lemma dangling_edge_panics_witness:
  "\<exists>message g. add_edge ''g'' (demo_edge ''a'' None ''nowhere'') demo_graph = Inr g \<and>
     start demo_env demo_library g demo_net = Aborts message"
proof -
  let ?e = "demo_edge ''a'' None ''nowhere''"
  let ?g = "demo_graph\<lparr>g_edges := g_edges demo_graph @ [?e]\<rparr>"
  have n: "process_names ?g = {''a'', ''b''}"
    using demo_names by (simp add: process_names_def)
  have "\<exists>ports. prepare_ports ?g = Yields ports"
    by (rule prepare_ports_total) (simp_all add: graph_in_def graph_out_def demo_defs)
  then obtain ports where p: "prepare_ports ?g = Yields ports" by blast
  have a: "add_edge (graph_name demo_graph) ?e demo_graph = Inr ?g" by (simp add: add_edge_def)
  have "\<exists>m. start demo_env demo_library ?g demo_net = Aborts m"
  proof (rule dangling_edge_panics [OF a _ _ _ _ _ _ _ _ p])
    show "{gs_process (ge_source ?e), gs_process (ge_target ?e)} - process_names ?g \<noteq> {}"
      unfolding n by (simp add: demo_edge_def demo_spec_def)
    show "check_array_outports demo_library ?g (g_edges ?g) Map.empty = Yields (Inr ())"
      "check_array_inports demo_library ?g (g_edges ?g) Map.empty = Yields (Inr ())"
      by (simp_all add: demo_defs declared_single_def)
  qed (simp_all add: demo_edge_def)
  with a show ?thesis by auto
qed

section \<open>Running networks\<close>




text \<open>
  A client's packet is answered within the grace period: as soon as a try is made after it, the
  loop has ended, with an error of kind \<open>NotFound\<close> or \<open>TimedOut\<close> and no packet delivered, or with the
  packet at the end of the channel of the inport it names and the receiving node signalled.
\<close>

theorem packet_is_answered:
  assumes "\<exists>t \<in> set tries. INPORT_PUSH_GRACE_DUR \<le> pt_elapsed t"
  shows "case packet_loop R port m tries of
      None \<Rightarrow> False
    | Some (Inl err) \<Rightarrow> error_kind err = NotFound \<or> error_kind err = TimedOut
    | Some (Inr eff) \<Rightarrow> \<exists>t \<in> set tries. \<exists>ports k q. pt_inports t = Some ports \<and> ports port = Some k \<and>
        ring_push R m (pt_channels t (sk_sink k)) = Some q \<and>
        pu_channels eff = (pt_channels t)(sk_sink k := q) \<and> pu_signal eff = sk_signal_ready k"
  using assms
proof (induction tries)
  case (Cons t tries)
  show ?case
  proof (cases "pt_inports t")
    case (Some ports)
    show ?thesis
    proof (cases "ports port")
      case k: (Some k)
      show ?thesis
      proof (cases "ring_push R m (pt_channels t (sk_sink k))")
        case None
        then have step: "packet_loop R port m (t # tries) =
            (if INPORT_PUSH_GRACE_DUR \<le> pt_elapsed t
             then Some (Inl (IoError TimedOut (''graph inport '' @ port @ '' backpressured for 2s'')))
             else packet_loop R port m tries)"
          using Some k by (simp add: sink_push_def)
        show ?thesis
        proof (cases "INPORT_PUSH_GRACE_DUR \<le> pt_elapsed t")
          case True
          with step show ?thesis by simp
        next
          case False
          with Cons.prems have "\<exists>t \<in> set tries. INPORT_PUSH_GRACE_DUR \<le> pt_elapsed t" by simp
          note IH = Cons.IH [OF this]
          from False step have eq: "packet_loop R port m (t # tries) = packet_loop R port m tries" by simp
          show ?thesis
          proof (cases "packet_loop R port m tries")
            case (Some answer)
            then show ?thesis using IH unfolding eq Some option.case by (cases answer) auto
          qed (use IH in simp)
        qed
      next
        case q: (Some q)
        then show ?thesis using Some k by (auto simp: sink_push_def)
      qed
    qed (simp add: Some)
  qed simp
qed simp

lemma packet_is_answered_witness:
  "\<exists>eff q. packet_loop list_ring ''IN'' (MText ''x'')
      [\<lparr>pt_inports = Some [''IN'' \<mapsto> ProcessEdgeSink_new 0 None (Some ''a'') (Some ''a'')],
        pt_channels = (\<lambda>_. ring_new list_ring 1), pt_elapsed = INPORT_PUSH_GRACE_DUR\<rparr>] = Some (Inr eff) \<and>
     pu_channels eff 0 = q \<and> pu_signal eff = Some ''a''"
  using packet_is_answered [where R = list_ring and port = "''IN''" and m = "MText ''x''" and tries = "[\<lparr>pt_inports = Some [''IN'' \<mapsto> ProcessEdgeSink_new 0 None (Some ''a'') (Some ''a'')],
        pt_channels = (\<lambda>_. ring_new list_ring 1), pt_elapsed = INPORT_PUSH_GRACE_DUR\<rparr>]"]
  by (simp add: sink_push_def list_ring_def)

text \<open>
  The thread of the graph's outports sends the messages of a port to the clients, in order and
  with their text, up to the first one that is neither text nor UTF-8 bytes; that one ends the thread,
  and what is behind it is not sent.
\<close>

lemma graph_out_sends_text_prefix:
  "graph_out_send graph port ms =
     (map (\<lambda>m. graph_out_packet graph port (the (message_as_utf8 m)))
        (takeWhile (\<lambda>m. message_as_utf8 m \<noteq> None) ms),
      list_all (\<lambda>m. message_as_utf8 m \<noteq> None) ms)"
  by (induction ms) (auto split: option.splits)

end
