(* ===== verification/Server.thy ===== *)
theory Server
  imports Network Persistence
begin

text \<open>
  The protocol server (\<open>src/server.rs\<close>): what the thread of one client does with a message, one
  definition for each arm of \<open>handle_client\<close>, and the start and the shutdown of the server. A handler
  takes the state all clients share and returns it with its effects in order; it aborts where the
  code panics and hangs where a call does not return. Sockets are assumed to accept what is sent.
\<close>

section \<open>State\<close>

record ClientCapabilityHolder =
  ch_graph :: "string option"
  ch_capabilities :: "Capability list"

definition ClientCapabilityHolder_default :: ClientCapabilityHolder where
  "ClientCapabilityHolder_default = \<lparr>ch_graph = None, ch_capabilities = []\<rparr>"

definition update_from_runtime_payload ::
    "RuntimeRuntimePayload \<Rightarrow> ClientCapabilityHolder \<Rightarrow> ClientCapabilityHolder" where
  "update_from_runtime_payload p c = c\<lparr>ch_graph := Some (rr_graph p), ch_capabilities := rr_capabilities p\<rparr>"

definition can_receive_network_debug_for_graph :: "string \<Rightarrow> ClientCapabilityHolder \<Rightarrow> bool" where
  "can_receive_network_debug_for_graph graph c \<longleftrightarrow>
     ch_graph c = Some graph \<and>
     (NetworkControl \<in> set (ch_capabilities c) \<or> NetworkStatus \<in> set (ch_capabilities c))"

text \<open>
  The shared state: the network with its runtime, the graphs by address, the graph the server was
  created with (\<open>graph\<close>), the component library; and what this client has been told it can do.
\<close>

record ('q, 'c, 'n) world =
  wd_net :: "('q, 'c, 'n) network"
  wd_heap :: "gid \<Rightarrow> 'n Graph"
  wd_graph :: gid
  wd_library :: "ComponentComponentPayload list"
  wd_client :: ClientCapabilityHolder

abbreviation wd_runtime :: "('q, 'c, 'n) world \<Rightarrow> 'c Runtime" where
  "wd_runtime w \<equiv> nw_runtime (wd_net w)"

definition set_runtime :: "'c Runtime \<Rightarrow> ('q, 'c, 'n) world \<Rightarrow> ('q, 'c, 'n) world" where
  "set_runtime r w = w\<lparr>wd_net := (wd_net w)\<lparr>nw_runtime := r\<rparr>\<rparr>"

definition set_graph :: "gid \<Rightarrow> 'n Graph \<Rightarrow> ('q, 'c, 'n) world \<Rightarrow> ('q, 'c, 'n) world" where
  "set_graph a g w = w\<lparr>wd_heap := (wd_heap w)(a := g)\<rparr>"

text \<open>
  What a handler needs from outside: the arguments of \<open>start\<close>, JSON numbers and texts, the file that
  is written, what the tries of \<open>packet\<close> and the polls of \<open>getstatus\<close> find, and the clocks.
\<close>

record ('q, 'c, 'n) service_env =
  sv_start :: "('q, 'c) start_env"
  sv_numbers :: "'n number_ops"
  sv_graph_json :: "'n Graph \<Rightarrow> string"
  sv_set_json :: "'n PersistedGraphSet \<Rightarrow> string"
  sv_first_key :: "string set \<Rightarrow> string"
  sv_write_file :: "string \<Rightarrow> unit io_result"
  sv_tries :: "'q packet_try list"
  sv_polls :: "RuntimeStatusSnapshot list"
  sv_now :: instant
  sv_utc :: utc

datatype 'n effect =
    Send "'n response" | Broadcast "'n response" | SignalNode string | StopInBackground
  | CloseSocket | SendPong "u8 list"

type_synonym ('q, 'c, 'n) reply = "(('q, 'c, 'n) world \<times> 'n effect list) startup"

section \<open>Access\<close>

definition secret_valid :: "string option \<Rightarrow> string \<Rightarrow> 'c Runtime \<Rightarrow> bool" where
  "secret_valid secret graph r \<longleftrightarrow> validate_secret_with_access secret graph ReadWrite r = Inr ()"

definition secret_valid_readonly :: "string option \<Rightarrow> string \<Rightarrow> 'c Runtime \<Rightarrow> bool" where
  "secret_valid_readonly secret graph r \<longleftrightarrow> validate_secret_with_access secret graph ReadOnly r = Inr ()"

definition has_readonly_secret_for_graph :: "string option \<Rightarrow> string \<Rightarrow> 'c Runtime \<Rightarrow> bool" where
  "has_readonly_secret_for_graph secret graph r =
     (case secret of
        None \<Rightarrow> False
      | Some token \<Rightarrow>
          token \<noteq> [] \<and>
          (case rt_secrets r graph of
             None \<Rightarrow> False
           | Some (expected_secret, access_level) \<Rightarrow> token = expected_secret \<and> access_level = ReadOnly))"

definition get_graph_by_name :: "string \<Rightarrow> ('q, 'c, 'n) world \<Rightarrow> gid io_result" where
  "get_graph_by_name name w =
     (case get_graph name (rt_graphs (wd_runtime w)) of
        Some a \<Rightarrow> Inr a
      | None \<Rightarrow>
          if graph_name (wd_heap w (wd_graph w)) = name then Inr (wd_graph w)
          else Inl (graph_not_found name))"

definition invalid_token :: string where "invalid_token = ''invalid secret token''"

definition requested_graph_not_found :: string where
  "requested_graph_not_found = ''Requested graph not found''"

section \<open>protocol:graph\<close>

text \<open>
  The shape all graph handlers but \<open>clear\<close> and \<open>addnode\<close> have: secret, graph, operation under the
  graph's write lock, and the response or \<open>graph:error\<close> with the text of the error.
\<close>

definition graph_request ::
    "string option \<Rightarrow> string \<Rightarrow> ('n Graph \<Rightarrow> ('n Graph \<times> 'n response list) io_result outcome) \<Rightarrow>
     ('q, 'c, 'n) world \<Rightarrow> ('q, 'c, 'n) reply" where
  "graph_request secret graph op w =
     (if \<not> secret_valid secret graph (wd_runtime w) then
        Yields (w, [Send (GraphErrorResponse_new invalid_token)])
      else
        (case get_graph_by_name graph w of
           Inl err \<Rightarrow> Yields (w, [Send (GraphErrorResponse_new (error_message err))])
         | Inr a \<Rightarrow>
             (case op (wd_heap w a) of
                Panicked m \<Rightarrow> Aborts m
              | Returned (Inl err) \<Rightarrow> Yields (w, [Send (GraphErrorResponse_new (error_message err))])
              | Returned (Inr (g, rs)) \<Rightarrow> Yields (set_graph a g w, map Send rs))))"

text \<open>An operation with a result: the response that is sent for it.\<close>

definition answer_with ::
    "('x \<Rightarrow> 'n response list) \<Rightarrow> ('n Graph \<times> 'x) io_result \<Rightarrow> ('n Graph \<times> 'n response list) io_result outcome" where
  "answer_with f r = Returned (case r of Inl e \<Rightarrow> Inl e | Inr (g, x) \<Rightarrow> Inr (g, f x))"

definition answer :: "'n response \<Rightarrow> 'n Graph io_result \<Rightarrow> ('n Graph \<times> 'n response list) io_result outcome" where
  "answer resp r = Returned (case r of Inl e \<Rightarrow> Inl e | Inr g \<Rightarrow> Inr (g, [resp]))"

definition answer_outcome ::
    "'n response \<Rightarrow> 'n Graph io_result outcome \<Rightarrow> ('n Graph \<times> 'n response list) io_result outcome" where
  "answer_outcome resp r = outcome_bind r (answer resp)"

definition handle_clear :: "GraphClearRequestPayload \<Rightarrow> ('q, 'c, 'n) world \<Rightarrow> ('q, 'c, 'n) reply" where
  "handle_clear p w =
     (let r = wd_runtime w in
      if \<not> secret_valid (gc_secret p) (gc_name p) r then
        Yields (w, [Send (GraphErrorResponse_new invalid_token)])
      else
        (let previous_active_graph = rt_graph r in
         case graph_clear p (rs_running (rt_status r)) (wd_heap w (wd_graph w)) of
           Inl err \<Rightarrow> Yields (w, [Send (GraphErrorResponse_new (error_message err))])
         | Inr g \<Rightarrow>
             (let m = add_graph (gc_name p) (wd_graph w) (rt_graphs r);
                  m1 = (if previous_active_graph \<noteq> gc_name p
                        then fst (remove_graph previous_active_graph m) else m);
                  m2 = (case set_active_graph (gc_name p) m1 of Inl _ \<Rightarrow> m1 | Inr m' \<Rightarrow> m')
              in Yields (set_runtime (r\<lparr>rt_graph := gc_name p, rt_graphs := m2\<rparr>) (set_graph (wd_graph w) g w),
                   [Send (GraphClearResponse_new p)]))))"

definition node_metadata_with_icon :: "'n GraphAddnodeRequestPayload \<Rightarrow> 'n JsonMap" where
  "node_metadata_with_icon p =
     (case an_icon p of None \<Rightarrow> an_metadata p | Some icon \<Rightarrow> (an_metadata p)(''icon'' \<mapsto> JString icon))"

definition handle_addnode ::
    "'n number_ops \<Rightarrow> 'n GraphAddnodeRequestPayload \<Rightarrow> ('q, 'c, 'n) world \<Rightarrow> ('q, 'c, 'n) reply" where
  "handle_addnode N p w =
     (case an_graph p of
        None \<Rightarrow> Yields (w, [Send (GraphErrorResponse_new ''No graph specified'')])
      | Some graph \<Rightarrow>
          if \<not> secret_valid (an_secret p) graph (wd_runtime w) then
            Yields (w, [Send (GraphErrorResponse_new invalid_token)])
          else
            (case get_graph_by_name graph w of
               Inl _ \<Rightarrow> Yields (w, [Send (GraphErrorResponse_new requested_graph_not_found)])
             | Inr a \<Rightarrow>
                 (case add_node_from_payload N graph (an_component p) (an_name p)
                        (node_metadata_with_icon p) (wd_heap w a) of
                    Inl err \<Rightarrow>
                      Yields (w, [Send (GraphErrorResponse_new
                        (if error_kind err = NotFound then requested_graph_not_found
                         else error_message err))])
                  | Inr (g, response) \<Rightarrow>
                      Yields (set_graph a g w, [Send (GraphAddnodeResponse_new response)]))))"

definition handle_removenode :: "GraphRemovenodeRequestPayload \<Rightarrow> ('q, 'c, 'n) world \<Rightarrow> ('q, 'c, 'n) reply" where
  "handle_removenode p =
     graph_request (rn_secret p) (rn_graph p)
       (\<lambda>g. answer_with
              (\<lambda>edges. map (\<lambda>e. respond ''graph'' ''removeedge'' (RemoveedgePayload e)) edges @
                 [GraphRemovenodeResponse_from_request p])
              (remove_node (rn_graph p) (rn_name p) g))"

definition handle_renamenode :: "GraphRenamenodeRequestPayload \<Rightarrow> ('q, 'c, 'n) world \<Rightarrow> ('q, 'c, 'n) reply" where
  "handle_renamenode p =
     graph_request (mn_secret p) (mn_graph p)
       (\<lambda>g. answer_outcome (GraphRenamenodeResponse_from_request p)
              (rename_node (mn_graph p) (mn_from p) (mn_to p) g))"

definition handle_changenode ::
    "'n number_ops \<Rightarrow> 'n GraphChangenodeRequestPayload \<Rightarrow> ('q, 'c, 'n) world \<Rightarrow> ('q, 'c, 'n) reply" where
  "handle_changenode N p =
     graph_request (cn_secret p) (cn_graph p)
       (\<lambda>g. answer_with (\<lambda>updated. [GraphChangenodeResponse (cn_name p) updated (cn_graph p)])
              (change_node N (cn_graph p) (cn_name p) (cn_metadata p) g))"

definition handle_addedge :: "GraphAddedgeRequestPayload \<Rightarrow> ('q, 'c, 'n) world \<Rightarrow> ('q, 'c, 'n) reply" where
  "handle_addedge p =
     graph_request (ae_secret p) (ae_graph p)
       (\<lambda>g. answer (GraphAddedgeResponse_from_request p)
              (add_edge (ae_graph p) (GraphEdge_from_addedge p) g))"

definition handle_removeedge :: "GraphRemoveedgeRequestPayload \<Rightarrow> ('q, 'c, 'n) world \<Rightarrow> ('q, 'c, 'n) reply" where
  "handle_removeedge p =
     graph_request (re_secret p) (re_graph p)
       (\<lambda>g. answer (GraphRemoveedgeResponse_from_request p)
              (remove_edge (re_graph p) (re_src p) (re_tgt p) g))"

definition handle_changeedge :: "GraphChangeedgeRequestPayload \<Rightarrow> ('q, 'c, 'n) world \<Rightarrow> ('q, 'c, 'n) reply" where
  "handle_changeedge p =
     graph_request (ce_secret p) (ce_graph p)
       (\<lambda>g. answer (GraphChangeedgeResponse_from_request p)
              (change_edge (ce_graph p) (ce_src p) (ce_tgt p) (ce_metadata p) g))"

definition handle_addinitial :: "GraphAddinitialRequestPayload \<Rightarrow> ('q, 'c, 'n) world \<Rightarrow> ('q, 'c, 'n) reply" where
  "handle_addinitial p =
     graph_request (ai_secret p) (ai_graph p)
       (\<lambda>g. answer (GraphAddinitialResponse_from_request p) (add_initialip p g))"

definition handle_removeinitial :: "GraphRemoveinitialRequestPayload \<Rightarrow> ('q, 'c, 'n) world \<Rightarrow> ('q, 'c, 'n) reply" where
  "handle_removeinitial p =
     graph_request (ri_secret p) (ri_graph p)
       (\<lambda>g. answer_with (\<lambda>src. [GraphRemoveinitialResponse_from_removed (ri_graph p) src (ri_tgt p)])
              (remove_initialip p g))"

definition handle_addinport :: "GraphAddinportRequestPayload \<Rightarrow> ('q, 'c, 'n) world \<Rightarrow> ('q, 'c, 'n) reply" where
  "handle_addinport p =
     graph_request (ip_secret p) (ip_graph p)
       (\<lambda>g. answer (GraphAddinportResponse_from_request p)
              (add_inport (ip_public p) (GraphPort_from_addinport p) g))"

definition handle_removeinport :: "GraphRemoveinportRequestPayload \<Rightarrow> ('q, 'c, 'n) world \<Rightarrow> ('q, 'c, 'n) reply" where
  "handle_removeinport p =
     graph_request (rip_secret p) (rip_graph p)
       (\<lambda>g. answer GraphRemoveinportResponse_default (remove_inport (rip_public p) g))"

definition handle_renameinport :: "GraphRenameinportRequestPayload \<Rightarrow> ('q, 'c, 'n) world \<Rightarrow> ('q, 'c, 'n) reply" where
  "handle_renameinport p =
     graph_request (mip_secret p) (mip_graph p)
       (\<lambda>g. answer_outcome GraphRenameinportResponse_default (rename_inport (mip_from p) (mip_to p) g))"

definition handle_addoutport :: "GraphAddoutportRequestPayload \<Rightarrow> ('q, 'c, 'n) world \<Rightarrow> ('q, 'c, 'n) reply" where
  "handle_addoutport p =
     graph_request (op_secret p) (op_graph p)
       (\<lambda>g. answer (GraphAddoutportResponse_from_request p)
              (add_outport (op_public p) (GraphPort_from_addoutport p) g))"

definition handle_removeoutport :: "GraphRemoveoutportRequestPayload \<Rightarrow> ('q, 'c, 'n) world \<Rightarrow> ('q, 'c, 'n) reply" where
  "handle_removeoutport p =
     graph_request (rop_secret p) (rop_graph p)
       (\<lambda>g. answer (GraphRemoveoutportResponse_from_request p) (remove_outport (rop_public p) g))"

definition handle_renameoutport :: "GraphRenameoutportRequestPayload \<Rightarrow> ('q, 'c, 'n) world \<Rightarrow> ('q, 'c, 'n) reply" where
  "handle_renameoutport p =
     graph_request (mop_secret p) (mop_graph p)
       (\<lambda>g. answer_outcome GraphRenameoutportResponse_default (rename_outport (mop_from p) (mop_to p) g))"

definition handle_addgroup :: "GraphAddgroupRequestPayload \<Rightarrow> ('q, 'c, 'n) world \<Rightarrow> ('q, 'c, 'n) reply" where
  "handle_addgroup p =
     graph_request (ag_secret p) (ag_graph p)
       (\<lambda>g. answer GraphAddgroupResponse_default
              (add_group (ag_graph p) (ag_name p) (ag_nodes p) (ag_metadata p) g))"

definition handle_removegroup :: "GraphRemovegroupRequestPayload \<Rightarrow> ('q, 'c, 'n) world \<Rightarrow> ('q, 'c, 'n) reply" where
  "handle_removegroup p =
     graph_request (rmg_secret p) (rmg_graph p)
       (\<lambda>g. answer GraphRemovegroupResponse_default (remove_group (rmg_graph p) (rmg_name p) g))"

definition handle_renamegroup :: "GraphRenamegroupRequestPayload \<Rightarrow> ('q, 'c, 'n) world \<Rightarrow> ('q, 'c, 'n) reply" where
  "handle_renamegroup p =
     graph_request (mg_secret p) (mg_graph p)
       (\<lambda>g. answer GraphRenamegroupResponse_default (rename_group (mg_graph p) (mg_from p) (mg_to p) g))"

definition handle_changegroup :: "GraphChangegroupRequestPayload \<Rightarrow> ('q, 'c, 'n) world \<Rightarrow> ('q, 'c, 'n) reply" where
  "handle_changegroup p =
     graph_request (chg_secret p) (chg_graph p)
       (\<lambda>g. answer GraphChangegroupResponse_default
              (change_group (chg_graph p) (chg_name p) (chg_metadata p) g))"

section \<open>protocol:runtime\<close>

definition RuntimePortsMessage_new :: "'c Runtime \<Rightarrow> 'n Graph \<Rightarrow> 'n response" where
  "RuntimePortsMessage_new r g =
     respond ''runtime'' ''ports''
       (PortsPayload (rt_graph r) (ports_as_componentportsarray (g_inports g))
         (ports_as_componentportsarray (g_outports g)))"

text \<open>The status a client is sent when it connects, and again with \<open>runtime:runtime\<close>.\<close>

definition initial_status :: "'c Runtime \<Rightarrow> 'n response" where
  "initial_status r =
     NetworkStatusMessage_new
       \<lparr>nst_graph = rt_graph r, nst_uptime = None, nst_started = rs_started (rt_status r),
        nst_running = rs_running (rt_status r), nst_debug = rs_debug (rt_status r),
        nst_scheduler_metrics = None\<rparr>"

definition handle_getruntime :: "RuntimeGetruntimePayload \<Rightarrow> ('q, 'c, 'n) world \<Rightarrow> ('q, 'c, 'n) reply" where
  "handle_getruntime p w =
     (let r = wd_runtime w in
      if \<not> secret_valid_readonly (rg_secret p) (rt_graph r) r then
        Yields (w, [Send (RuntimeErrorResponse_new invalid_token)])
      else
        (let snapshot = runtime_snapshot r;
             readonly = has_readonly_secret_for_graph (rg_secret p) (rr_graph snapshot) r \<and>
               GraphReadonly \<notin> set (rr_capabilities snapshot);
             payload = (if readonly
               then snapshot\<lparr>rr_capabilities := rr_capabilities snapshot @ [GraphReadonly]\<rparr> else snapshot)
         in
         Yields (w\<lparr>wd_client := update_from_runtime_payload payload (wd_client w)\<rparr>,
           [Send (RuntimeRuntimeMessage_new payload), Send (initial_status r),
            Send (RuntimePortsMessage_new r (wd_heap w (wd_graph w)))])))"

text \<open>
  \<open>packet\<close> checks the secret again, for the graph the packet names. With tries that are all refused
  before the grace period is over the call is still waiting.
\<close>

definition handle_packet ::
    "('q, 'c, 'n) service_env \<Rightarrow> RuntimePacketRequestPayload \<Rightarrow> ('q, 'c, 'n) world \<Rightarrow> ('q, 'c, 'n) reply" where
  "handle_packet E p w =
     (if \<not> secret_valid (rp_secret p) (rt_graph (wd_runtime w)) (wd_runtime w) then
        Yields (w, [Send (RuntimeErrorResponse_new invalid_token)])
      else
        (case runtime_packet (se_ring (sv_start E)) p (sv_tries E) (wd_runtime w) of
           None \<Rightarrow> Hangs
         | Some (Panicked m) \<Rightarrow> Aborts m
         | Some (Returned (Inl err)) \<Rightarrow> Yields (w, [Send (RuntimeErrorResponse_new (error_message err))])
         | Some (Returned (Inr eff)) \<Rightarrow>
             Yields (w\<lparr>wd_net := (wd_net w)\<lparr>nw_channels := pu_channels eff\<rparr>\<rparr>,
               (case pu_signal eff of None \<Rightarrow> [] | Some proc \<Rightarrow> [SignalNode proc]) @
               [Send (RuntimePacketsentMessage_new (RuntimePacketsentPayload_from p))])))"

definition handle_packetsent :: "RuntimePacketPayload \<Rightarrow> ('q, 'c, 'n) world \<Rightarrow> ('q, 'c, 'n) reply" where
  "handle_packetsent p w =
     Yields (w, [Send (RuntimeErrorResponse_new ''runtime:packetsent from client is an error'')])"

section \<open>protocol:component\<close>

definition debug_status_for_client :: "('q, 'c, 'n) world \<Rightarrow> 'n effect list" where
  "debug_status_for_client w =
     (let r = wd_runtime w in
      if can_receive_network_debug_for_graph (rt_graph r) (wd_client w) then
        [Send (NetworkDebugResponse_new (rt_graph r) (rs_debug (rt_status r) = Some True))]
      else [])"

definition handle_component_list :: "ComponentListRequestPayload \<Rightarrow> ('q, 'c, 'n) world \<Rightarrow> ('q, 'c, 'n) reply" where
  "handle_component_list p w =
     (if \<not> secret_valid_readonly (cl_secret p) (rt_graph (wd_runtime w)) (wd_runtime w) then
        Yields (w, [Send (GraphErrorResponse_new invalid_token)])
      else
        Yields (w, map (Send \<circ> ComponentComponentMessage_new) (wd_library w) @
          [Send (ComponentComponentsreadyMessage_new (of_nat (length (wd_library w))))] @
          debug_status_for_client w))"

definition answer_source :: "ComponentSourcePayload io_result \<Rightarrow> 'n effect list" where
  "answer_source r =
     (case r of
        Inl err \<Rightarrow> [Send (GraphErrorResponse_new (error_message err))]
      | Inr source \<Rightarrow> [Send (ComponentSourceMessage_new source)])"

definition handle_getsource ::
    "('n Graph \<Rightarrow> string) \<Rightarrow> ComponentGetsourcePayload \<Rightarrow> ('q, 'c, 'n) world \<Rightarrow> ('q, 'c, 'n) reply" where
  "handle_getsource to_json p w =
     (if \<not> secret_valid_readonly (cg_secret p) (rt_graph (wd_runtime w)) (wd_runtime w) then
        Yields (w, [Send (GraphErrorResponse_new invalid_token)])
      else
        (let g = wd_heap w (wd_graph w) in
         Yields (w, answer_source
           (if graph_name g = cg_name p then graph_get_source to_json (cg_name p) g
            else library_get_source (wd_library w) (cg_name p)))))"

section \<open>protocol:trace\<close>

definition trace_request ::
    "string option \<Rightarrow> string \<Rightarrow> ('c Runtime \<Rightarrow> 'c Runtime io_result) \<Rightarrow> 'n response \<Rightarrow>
     ('q, 'c, 'n) world \<Rightarrow> ('q, 'c, 'n) reply" where
  "trace_request secret graph op resp w =
     (if \<not> secret_valid secret graph (wd_runtime w) then
        Yields (w, [Send (TraceErrorResponse_new invalid_token)])
      else
        (case op (wd_runtime w) of
           Inl err \<Rightarrow> Yields (w, [Send (TraceErrorResponse_new (error_message err))])
         | Inr r \<Rightarrow> Yields (set_runtime r w, [Send resp])))"

definition handle_trace_start :: "TraceStartRequestPayload \<Rightarrow> ('q, 'c, 'n) world \<Rightarrow> ('q, 'c, 'n) reply" where
  "handle_trace_start p =
     trace_request (ts_secret p) (ts_graph p) (start_trace (ts_graph p) (ts_buffer_size p))
       (TraceStartResponse_new (ts_graph p))"

definition handle_trace_stop :: "TraceStopRequestPayload \<Rightarrow> ('q, 'c, 'n) world \<Rightarrow> ('q, 'c, 'n) reply" where
  "handle_trace_stop p =
     trace_request (tp_secret p) (tp_graph p) (stop_trace (tp_graph p)) (TraceStopResponse_new (tp_graph p))"

definition handle_trace_clear :: "TraceClearRequestPayload \<Rightarrow> ('q, 'c, 'n) world \<Rightarrow> ('q, 'c, 'n) reply" where
  "handle_trace_clear p =
     trace_request (tcl_secret p) (tcl_graph p) (clear_trace (tcl_graph p)) (TraceClearResponse_new (tcl_graph p))"

definition handle_trace_dump :: "TraceDumpRequestPayload \<Rightarrow> ('q, 'c, 'n) world \<Rightarrow> ('q, 'c, 'n) reply" where
  "handle_trace_dump p w =
     (if \<not> secret_valid_readonly (tdp_secret p) (tdp_graph p) (wd_runtime w) then
        Yields (w, [Send (TraceErrorResponse_new invalid_token)])
      else
        (case dump_trace (tdp_graph p) (wd_runtime w) of
           Inl err \<Rightarrow> Yields (w, [Send (TraceErrorResponse_new (error_message err))])
         | Inr dump \<Rightarrow> Yields (w, [Send (TraceDumpResponse_new (tdp_graph p) dump)])))"

section \<open>protocol:network\<close>

definition network_error :: "string \<Rightarrow> string \<Rightarrow> 'n response" where
  "network_error err graph = NetworkErrorResponse_new err [] graph"

text \<open>
  What the network handlers share: the secret and the existence of the graph; \<open>cont\<close> gets its address.
\<close>

definition network_request ::
    "bool \<Rightarrow> string \<Rightarrow> (gid \<Rightarrow> ('q, 'c, 'n) world \<Rightarrow> ('q, 'c, 'n) reply) \<Rightarrow> ('q, 'c, 'n) world \<Rightarrow>
     ('q, 'c, 'n) reply" where
  "network_request allowed graph cont w =
     (if \<not> allowed then Yields (w, [Send (network_error invalid_token graph)])
      else
        (case get_graph_by_name graph w of
           Inl _ \<Rightarrow> Yields (w, [Send (network_error requested_graph_not_found graph)])
         | Inr a \<Rightarrow> cont a w))"

text \<open>The status is read once more after each of up to ten waits while the network runs.\<close>

fun settle :: "nat \<Rightarrow> RuntimeStatusSnapshot list \<Rightarrow> RuntimeStatusSnapshot \<Rightarrow> RuntimeStatusSnapshot" where
  "settle (Suc n) (s' # polls) s = (if ss_running s' then settle n polls s' else s')"
| "settle _ _ s = s"

definition requested_status :: "string \<Rightarrow> RuntimeStatusSnapshot \<Rightarrow> NetworkStatusPayload" where
  "requested_status graph s =
     (if ss_graph s = graph then
        (let payload = NetworkStatusPayload_new s in
         if nst_started payload \<and> nst_running payload then payload\<lparr>nst_running := False\<rparr> else payload)
      else
        \<lparr>nst_graph = graph, nst_uptime = None, nst_started = False, nst_running = False,
         nst_debug = ss_debug s, nst_scheduler_metrics = None\<rparr>)"

definition handle_getstatus ::
    "('q, 'c, 'n) service_env \<Rightarrow> NetworkGetstatusPayload \<Rightarrow> ('q, 'c, 'n) world \<Rightarrow> ('q, 'c, 'n) reply" where
  "handle_getstatus E p w =
     network_request (secret_valid_readonly (ng_secret p) (ng_graph p) (wd_runtime w)) (ng_graph p)
       (\<lambda>_ w.
          let (r, s) = status_snapshot (sv_now E) (wd_runtime w);
              s' = (if ss_graph s = ng_graph p \<and> ss_started s \<and> ss_running s
                    then settle 10 (sv_polls E) s else s)
          in Yields (set_runtime r w, [Send (NetworkStatusMessage_new (requested_status (ng_graph p) s'))])) w"

definition handle_persist ::
    "('q, 'c, 'n) service_env \<Rightarrow> NetworkPersistRequestPayload \<Rightarrow> ('q, 'c, 'n) world \<Rightarrow> ('q, 'c, 'n) reply" where
  "handle_persist E p w =
     (let r = wd_runtime w in
      if \<not> secret_valid (np_secret p) (rt_graph r) r then
        Yields (w, [Send (network_error invalid_token (rt_graph r))])
      else
        (case sv_write_file E (persist (sv_set_json E) (sv_first_key E) (wd_heap w) (wd_heap w (wd_graph w)) r) of
           Inr _ \<Rightarrow> Yields (w, [Send NetworkPersistResponse_default])
         | Inl err \<Rightarrow> Yields (w, [Send (network_error (error_message err) (rt_graph r))])))"

definition handle_edges :: "NetworkEdgesRequestPayload \<Rightarrow> ('q, 'c, 'n) world \<Rightarrow> ('q, 'c, 'n) reply" where
  "handle_edges p w =
     network_request (secret_valid (ne_secret p) (ne_graph p) (wd_runtime w)) (ne_graph p)
       (\<lambda>_ w.
          case set_debug_edges (ne_graph p) (ne_edges p) (wd_runtime w) of
            Inl err \<Rightarrow> Yields (w, [Send (network_error (error_message err) (ne_graph p))])
          | Inr r \<Rightarrow> Yields (set_runtime r w, [Send (NetworkEdgesResponse_from_request p)])) w"

definition handle_debug :: "NetworkDebugRequestPayload \<Rightarrow> ('q, 'c, 'n) world \<Rightarrow> ('q, 'c, 'n) reply" where
  "handle_debug p w =
     network_request (secret_valid (nd_secret p) (nd_graph p) (wd_runtime w)) (nd_graph p)
       (\<lambda>_ w.
          case debug_mode (nd_graph p) (nd_enable p) (wd_runtime w) of
            Inl err \<Rightarrow> Yields (w, [Send (network_error (error_message err) (nd_graph p))])
          | Inr r \<Rightarrow> Yields (set_runtime r w, [Send (NetworkDebugResponse_new (nd_graph p) (nd_enable p))])) w"

text \<open>What is sent for the result of \<open>start\<close>; the runtime's graph is set before it is tried.\<close>

definition report_start ::
    "('q, 'c, 'n) service_env \<Rightarrow> string \<Rightarrow> ('q, 'c, 'n) world \<Rightarrow> unit io_result \<Rightarrow> ('q, 'c, 'n) reply" where
  "report_start E graph w res =
     (case res of
        Inl err \<Rightarrow> Yields (w, [Send (network_error (error_message err) graph)])
      | Inr _ \<Rightarrow>
          (let (r1, s1) = status_snapshot (sv_now E) (wd_runtime w);
               (r2, s2) = status_snapshot (sv_now E) r1
           in Yields (set_runtime r2 w,
                [Send (NetworkStartedResponse_new (NetworkStartedResponsePayload_from s1)),
                 Broadcast (NetworkStatusMessage_new (NetworkStatusPayload_new s2))])))"

definition handle_network_start ::
    "('q, 'c, 'n) service_env \<Rightarrow> NetworkStartRequestPayload \<Rightarrow> ('q, 'c, 'n) world \<Rightarrow> ('q, 'c, 'n) reply" where
  "handle_network_start E p w =
     network_request (secret_valid (ns_secret p) (ns_graph p) (wd_runtime w)) (ns_graph p)
       (\<lambda>a w.
          startup_bind
            (start (sv_start E) (wd_library w) (wd_heap w a)
              ((wd_net w)\<lparr>nw_runtime := (wd_runtime w)\<lparr>rt_graph := ns_graph p\<rparr>\<rparr>))
            (\<lambda>(net, res). report_start E (ns_graph p) (w\<lparr>wd_net := net\<rparr>) res)) w"

definition mark_stopped :: "string \<Rightarrow> 'c Runtime \<Rightarrow> 'c Runtime" where
  "mark_stopped graph r =
     r\<lparr>rt_status := (rt_status r)\<lparr>rs_graph := graph, rs_started := False, rs_running := False\<rparr>\<rparr>"

text \<open>
  The network is marked stopped and the client is answered; when it was running the real stop is
  left to another thread.
\<close>

definition handle_network_stop ::
    "('q, 'c, 'n) service_env \<Rightarrow> NetworkStopRequestPayload \<Rightarrow> ('q, 'c, 'n) world \<Rightarrow> ('q, 'c, 'n) reply" where
  "handle_network_stop E p w =
     network_request (secret_valid (nx_secret p) (nx_graph p) (wd_runtime w)) (nx_graph p)
       (\<lambda>_ w.
          if rs_graph (rt_status (wd_runtime w)) \<noteq> nx_graph p then
            Yields (w, [Send (network_error ''requested graph is not the running network'' (nx_graph p))])
          else
            (let was_running = rs_running (rt_status (wd_runtime w));
                 (r, s) = status_snapshot (sv_now E) (mark_stopped (nx_graph p) (wd_runtime w))
             in Yields (set_runtime r w,
                  [Send (NetworkStoppedResponse_new (sv_utc E) s),
                   Broadcast (NetworkStatusMessage_new (NetworkStatusPayload_new s))] @
                  (if was_running then [StopInBackground] else [])))) w"

text \<open>The thread that stops the network later. \<open>inports\<close> and the \<open>ended\<close> flags are those of \<open>stop\<close>.\<close>

definition stop_in_background ::
    "string list \<Rightarrow> (string \<Rightarrow> bool) \<Rightarrow> (string \<Rightarrow> bool) \<Rightarrow> bool \<Rightarrow> ('q, 'c, 'n) world \<Rightarrow> ('q, 'c, 'n) world" where
  "stop_in_background inports boundary_ended scheduler_ended watchdog_ended w =
     (let (r, res, sent) = runtime_stop (wd_heap w) inports boundary_ended scheduler_ended watchdog_ended
            False (wd_runtime w)
      in w\<lparr>wd_net := (wd_net w)\<lparr>nw_runtime := r, nw_sent := nw_sent (wd_net w) @ sent\<rparr>\<rparr>)"

section \<open>The messages of a client\<close>

definition handle_message ::
    "('q, 'c, 'n) service_env \<Rightarrow> 'n FBPMessage \<Rightarrow> ('q, 'c, 'n) world \<Rightarrow> ('q, 'c, 'n) reply" where
  "handle_message E m w =
     (case m of
        FbpRuntime (RtGetruntime p) \<Rightarrow> handle_getruntime p w
      | FbpRuntime (RtPacket p) \<Rightarrow> handle_packet E p w
      | FbpRuntime (RtPacketsent p) \<Rightarrow> handle_packetsent p w
      | FbpComponent (CpList p) \<Rightarrow> handle_component_list p w
      | FbpComponent (CpGetsource p) \<Rightarrow> handle_getsource (sv_graph_json E) p w
      | FbpNetwork (NwGetstatus p) \<Rightarrow> handle_getstatus E p w
      | FbpNetwork (NwPersist p) \<Rightarrow> handle_persist E p w
      | FbpNetwork (NwEdges p) \<Rightarrow> handle_edges p w
      | FbpNetwork (NwStart p) \<Rightarrow> handle_network_start E p w
      | FbpNetwork (NwStop p) \<Rightarrow> handle_network_stop E p w
      | FbpNetwork (NwDebug p) \<Rightarrow> handle_debug p w
      | FbpTrace (TrStart p) \<Rightarrow> handle_trace_start p w
      | FbpTrace (TrStop p) \<Rightarrow> handle_trace_stop p w
      | FbpTrace (TrClear p) \<Rightarrow> handle_trace_clear p w
      | FbpTrace (TrDump p) \<Rightarrow> handle_trace_dump p w
      | FbpGraph gm \<Rightarrow>
          (case gm of
             GrClear p \<Rightarrow> handle_clear p w
           | GrAddnode p \<Rightarrow> handle_addnode (sv_numbers E) p w
           | GrChangenode p \<Rightarrow> handle_changenode (sv_numbers E) p w
           | GrRenamenode p \<Rightarrow> handle_renamenode p w
           | GrRemovenode p \<Rightarrow> handle_removenode p w
           | GrAddedge p \<Rightarrow> handle_addedge p w
           | GrRemoveedge p \<Rightarrow> handle_removeedge p w
           | GrChangeedge p \<Rightarrow> handle_changeedge p w
           | GrAddinitial p \<Rightarrow> handle_addinitial p w
           | GrRemoveinitial p \<Rightarrow> handle_removeinitial p w
           | GrAddinport p \<Rightarrow> handle_addinport p w
           | GrRemoveinport p \<Rightarrow> handle_removeinport p w
           | GrRenameinport p \<Rightarrow> handle_renameinport p w
           | GrAddoutport p \<Rightarrow> handle_addoutport p w
           | GrRemoveoutport p \<Rightarrow> handle_removeoutport p w
           | GrRenameoutport p \<Rightarrow> handle_renameoutport p w
           | GrAddgroup p \<Rightarrow> handle_addgroup p w
           | GrRemovegroup p \<Rightarrow> handle_removegroup p w
           | GrRenamegroup p \<Rightarrow> handle_renamegroup p w
           | GrChangegroup p \<Rightarrow> handle_changegroup p w)
      | _ \<Rightarrow> Yields (w, [CloseSocket]))"

section \<open>A connection\<close>

text \<open>
  Optional envelope keys are dropped and a missing payload is an empty object. Keys of an object are
  distinct.
\<close>

definition normalize_envelope :: "'n JsonValue \<Rightarrow> 'n JsonValue" where
  "normalize_envelope v =
     (case v of
        JObject kvs \<Rightarrow>
          (let kept = filter (\<lambda>(k, _). k \<noteq> ''id'' \<and> k \<noteq> ''secret'') kvs in
           JObject (if ''payload'' \<in> fst ` set kept then kept else kept @ [(''payload'', JObject [])]))
      | _ \<Rightarrow> v)"

text \<open>What reading the websocket gives; the JSON parser and the decoder of messages are arguments.\<close>

datatype ws_message = WsData "u8 list" | WsClose | WsPing "u8 list" | WsPong | WsFrame

definition handle_data ::
    "(u8 list \<Rightarrow> 'n JsonValue option) \<Rightarrow> ('n JsonValue \<Rightarrow> 'n FBPMessage option) \<Rightarrow>
     ('q, 'c, 'n) service_env \<Rightarrow> u8 list \<Rightarrow> ('q, 'c, 'n) world \<Rightarrow> ('q, 'c, 'n) reply" where
  "handle_data parse decode E data w =
     (case parse data of
        None \<Rightarrow> Yields (w, [])
      | Some v \<Rightarrow>
          (case decode (normalize_envelope v) of
             None \<Rightarrow> Yields (w, [])
           | Some m \<Rightarrow> handle_message E m w))"

text \<open>The receive loop, over what is read with the environment each message is handled in.\<close>

fun receive_loop ::
    "(u8 list \<Rightarrow> 'n JsonValue option) \<Rightarrow> ('n JsonValue \<Rightarrow> 'n FBPMessage option) \<Rightarrow>
     (('q, 'c, 'n) service_env \<times> ws_message) list \<Rightarrow> ('q, 'c, 'n) world \<Rightarrow> ('q, 'c, 'n) reply" where
  "receive_loop parse decode [] w = Yields (w, [])"
| "receive_loop parse decode ((E, m) # rest) w =
     (case m of
        WsClose \<Rightarrow> Yields (w, [])
      | WsData data \<Rightarrow>
          startup_bind (handle_data parse decode E data w)
            (\<lambda>(w1, effects). startup_bind (receive_loop parse decode rest w1)
               (\<lambda>(w2, more). Yields (w2, effects @ more)))
      | WsPing data \<Rightarrow>
          startup_bind (receive_loop parse decode rest w)
            (\<lambda>(w1, more). Yields (w1, SendPong data # more))
      | WsPong \<Rightarrow> receive_loop parse decode rest w
      | WsFrame \<Rightarrow> receive_loop parse decode rest w)"

definition handle_client ::
    "(u8 list \<Rightarrow> 'n JsonValue option) \<Rightarrow> ('n JsonValue \<Rightarrow> 'n FBPMessage option) \<Rightarrow>
     (('q, 'c, 'n) service_env \<times> ws_message) list \<Rightarrow> ('q, 'c, 'n) world \<Rightarrow> ('q, 'c, 'n) reply" where
  "handle_client parse decode ms w =
     startup_bind (receive_loop parse decode ms (w\<lparr>wd_client := ClientCapabilityHolder_default\<rparr>))
       (\<lambda>(w1, effects). Yields (w1, Send (initial_status (wd_runtime w)) # effects))"

text \<open>
  \<open>broadcast_to_clients\<close>: \<open>clients\<close> are the registered clients in iteration order, \<open>healthy\<close> tells whose
  lock is not poisoned and \<open>send_ok\<close> whose socket takes the message. The result is what was
  delivered, and the clients that are left.
\<close>

definition broadcast_to_clients ::
    "('a \<Rightarrow> bool) \<Rightarrow> ('a \<Rightarrow> bool) \<Rightarrow> 'a list \<Rightarrow> 'n response \<Rightarrow> ('a \<times> 'n response) list \<times> 'a list" where
  "broadcast_to_clients healthy send_ok clients msg =
     (let failed = filter (\<lambda>c. \<not> healthy c \<or> \<not> send_ok c) clients in
      (map (\<lambda>c. (c, msg)) (filter (\<lambda>c. healthy c \<and> send_ok c) clients),
       filter (\<lambda>c. c \<notin> set failed) clients))"

section \<open>The server\<close>

text \<open>
  What \<open>run\<close> makes of the loaded graphs: the runtime is created with a graph of its own, and the
  loaded graphs, taken in the order \<open>names\<close>, are added to it at fresh addresses. The server's graph is
  the active one; the failed \<open>expect\<close> on it aborts.
\<close>

fun register_graphs ::
    "(string \<rightharpoonup> 'n Graph) \<Rightarrow> string list \<Rightarrow> gid \<Rightarrow> MultiGraphManager \<Rightarrow> (gid \<Rightarrow> 'n Graph) \<Rightarrow>
     MultiGraphManager \<times> (gid \<Rightarrow> 'n Graph)" where
  "register_graphs loaded [] next m heap = (m, heap)"
| "register_graphs loaded (name # names) next m heap =
     (case loaded name of
        None \<Rightarrow> register_graphs loaded names next m heap
      | Some g \<Rightarrow> register_graphs loaded names (Suc next) (add_graph name next m) (heap(next := g)))"

definition boot ::
    "utc \<Rightarrow> utc \<Rightarrow> string list \<Rightarrow> (string \<rightharpoonup> 'n Graph) \<Rightarrow> string \<Rightarrow> (gid \<Rightarrow> 'n Graph) \<Rightarrow>
     ComponentComponentPayload list \<Rightarrow> (nat \<Rightarrow> 'q) \<Rightarrow> ('q, 'c, 'n) world startup" where
  "boot min_utc now names loaded active heap library chans =
     (case loaded active of
        None \<Rightarrow> Aborts ''active graph missing from loaded graph set''
      | Some _ \<Rightarrow>
          (let (r, initial) = Runtime_new min_utc now ''main_graph'' 0;
               (m, heap1) = register_graphs loaded names 1 (rt_graphs r) (heap(0 := initial))
           in
           case set_active_graph active m of
             Inl _ \<Rightarrow> Aborts ''failed to set active graph in multi-graph manager''
           | Inr m1 \<Rightarrow>
               Yields \<lparr>wd_net = \<lparr>nw_runtime = r\<lparr>rt_graphs := m1, rt_graph := active\<rparr>, nw_channels = chans,
                   nw_next = 0, nw_inports = None, nw_graph_out = Map.empty, nw_sent = []\<rparr>,
                 wd_heap = heap1,
                 wd_graph = (case get_graph active m1 of None \<Rightarrow> 0 | Some a \<Rightarrow> a),
                 wd_library = library, wd_client = ClientCapabilityHolder_default\<rparr>))"

text \<open>The end of \<open>start\<close>: what is written on SIGTERM, and the stop of a running network.\<close>

definition shutdown ::
    "('q, 'c, 'n) service_env \<Rightarrow> bool \<Rightarrow> string list \<Rightarrow> (string \<Rightarrow> bool) \<Rightarrow> (string \<Rightarrow> bool) \<Rightarrow> bool \<Rightarrow>
     ('q, 'c, 'n) world \<Rightarrow> ('q, 'c, 'n) world \<times> string option" where
  "shutdown E sigterm inports boundary_ended scheduler_ended watchdog_ended w =
     (if rs_running (rt_status (wd_runtime w))
      then stop_in_background inports boundary_ended scheduler_ended watchdog_ended w else w,
      if sigterm
      then Some (persist (sv_set_json E) (sv_first_key E) (wd_heap w) (wd_heap w (wd_graph w)) (wd_runtime w))
      else None)"

end
