(* ===== verification/Server_Properties.thy ===== *)
theory Server_Properties
  imports Server Network_Properties
begin

text \<open>
  What the server guarantees: a message without access changes nothing, a read-only client changes
  nothing, a graph message runs exactly its graph operation on the graph it names, every message is
  answered; the invariant of the graph manager and what \<open>graph:clear\<close> does to it; the life cycle of
  a network as a client sees it; and what survives a restart.
\<close>

section \<open>Graph messages as operations\<close>

definition addressed :: "'n GraphMessage \<Rightarrow> string option" where
  "addressed gm =
     (case gm of
        GrClear p \<Rightarrow> Some (gc_name p) | GrAddnode p \<Rightarrow> an_graph p | GrChangenode p \<Rightarrow> Some (cn_graph p)
      | GrRenamenode p \<Rightarrow> Some (mn_graph p) | GrRemovenode p \<Rightarrow> Some (rn_graph p)
      | GrAddedge p \<Rightarrow> Some (ae_graph p) | GrRemoveedge p \<Rightarrow> Some (re_graph p)
      | GrChangeedge p \<Rightarrow> Some (ce_graph p) | GrAddinitial p \<Rightarrow> Some (ai_graph p)
      | GrRemoveinitial p \<Rightarrow> Some (ri_graph p) | GrAddinport p \<Rightarrow> Some (ip_graph p)
      | GrRemoveinport p \<Rightarrow> Some (rip_graph p) | GrRenameinport p \<Rightarrow> Some (mip_graph p)
      | GrAddoutport p \<Rightarrow> Some (op_graph p) | GrRemoveoutport p \<Rightarrow> Some (rop_graph p)
      | GrRenameoutport p \<Rightarrow> Some (mop_graph p) | GrAddgroup p \<Rightarrow> Some (ag_graph p)
      | GrRemovegroup p \<Rightarrow> Some (rmg_graph p) | GrRenamegroup p \<Rightarrow> Some (mg_graph p)
      | GrChangegroup p \<Rightarrow> Some (chg_graph p))"

definition graph_secret :: "'n GraphMessage \<Rightarrow> string option" where
  "graph_secret gm =
     (case gm of
        GrClear p \<Rightarrow> gc_secret p | GrAddnode p \<Rightarrow> an_secret p | GrChangenode p \<Rightarrow> cn_secret p
      | GrRenamenode p \<Rightarrow> mn_secret p | GrRemovenode p \<Rightarrow> rn_secret p
      | GrAddedge p \<Rightarrow> ae_secret p | GrRemoveedge p \<Rightarrow> re_secret p
      | GrChangeedge p \<Rightarrow> ce_secret p | GrAddinitial p \<Rightarrow> ai_secret p
      | GrRemoveinitial p \<Rightarrow> ri_secret p | GrAddinport p \<Rightarrow> ip_secret p
      | GrRemoveinport p \<Rightarrow> rip_secret p | GrRenameinport p \<Rightarrow> mip_secret p
      | GrAddoutport p \<Rightarrow> op_secret p | GrRemoveoutport p \<Rightarrow> rop_secret p
      | GrRenameoutport p \<Rightarrow> mop_secret p | GrAddgroup p \<Rightarrow> ag_secret p
      | GrRemovegroup p \<Rightarrow> rmg_secret p | GrRenamegroup p \<Rightarrow> mg_secret p
      | GrChangegroup p \<Rightarrow> chg_secret p)"

definition graph_command :: "'n GraphMessage \<Rightarrow> string" where
  "graph_command gm =
     (case gm of
        GrClear _ \<Rightarrow> ''clear'' | GrAddnode _ \<Rightarrow> ''addnode'' | GrChangenode _ \<Rightarrow> ''changenode''
      | GrRenamenode _ \<Rightarrow> ''renamenode'' | GrRemovenode _ \<Rightarrow> ''removenode''
      | GrAddedge _ \<Rightarrow> ''addedge'' | GrRemoveedge _ \<Rightarrow> ''removeedge''
      | GrChangeedge _ \<Rightarrow> ''changeedge'' | GrAddinitial _ \<Rightarrow> ''addinitial''
      | GrRemoveinitial _ \<Rightarrow> ''removeinitial'' | GrAddinport _ \<Rightarrow> ''addinport''
      | GrRemoveinport _ \<Rightarrow> ''removeinport'' | GrRenameinport _ \<Rightarrow> ''renameinport''
      | GrAddoutport _ \<Rightarrow> ''addoutport'' | GrRemoveoutport _ \<Rightarrow> ''removeoutport''
      | GrRenameoutport _ \<Rightarrow> ''renameoutport'' | GrAddgroup _ \<Rightarrow> ''addgroup''
      | GrRemovegroup _ \<Rightarrow> ''removegroup'' | GrRenamegroup _ \<Rightarrow> ''renamegroup''
      | GrChangegroup _ \<Rightarrow> ''changegroup'')"

text \<open>
  The operation a message asks for, on the graph alone, with its responses. \<open>clear\<close> is not an
  operation on one graph and gets an error here.
\<close>

definition graph_op ::
    "'n number_ops \<Rightarrow> 'n GraphMessage \<Rightarrow> 'n Graph \<Rightarrow> ('n Graph \<times> 'n response list) io_result outcome" where
  "graph_op N gm g =
     (case gm of
        GrClear p \<Rightarrow> Returned (Inl (IoError InvalidInput []))
      | GrAddnode p \<Rightarrow>
          answer_with (\<lambda>resp. [GraphAddnodeResponse_new resp])
            (add_node_from_payload N (case an_graph p of None \<Rightarrow> [] | Some n \<Rightarrow> n) (an_component p)
              (an_name p) (node_metadata_with_icon p) g)
      | GrChangenode p \<Rightarrow>
          answer_with (\<lambda>updated. [GraphChangenodeResponse (cn_name p) updated (cn_graph p)])
            (change_node N (cn_graph p) (cn_name p) (cn_metadata p) g)
      | GrRenamenode p \<Rightarrow>
          answer_outcome (GraphRenamenodeResponse_from_request p)
            (rename_node (mn_graph p) (mn_from p) (mn_to p) g)
      | GrRemovenode p \<Rightarrow>
          answer_with
            (\<lambda>edges. map (\<lambda>e. respond ''graph'' ''removeedge'' (RemoveedgePayload e)) edges @
               [GraphRemovenodeResponse_from_request p])
            (remove_node (rn_graph p) (rn_name p) g)
      | GrAddedge p \<Rightarrow>
          answer (GraphAddedgeResponse_from_request p) (add_edge (ae_graph p) (GraphEdge_from_addedge p) g)
      | GrRemoveedge p \<Rightarrow>
          answer (GraphRemoveedgeResponse_from_request p) (remove_edge (re_graph p) (re_src p) (re_tgt p) g)
      | GrChangeedge p \<Rightarrow>
          answer (GraphChangeedgeResponse_from_request p)
            (change_edge (ce_graph p) (ce_src p) (ce_tgt p) (ce_metadata p) g)
      | GrAddinitial p \<Rightarrow> answer (GraphAddinitialResponse_from_request p) (add_initialip p g)
      | GrRemoveinitial p \<Rightarrow>
          answer_with (\<lambda>src. [GraphRemoveinitialResponse_from_removed (ri_graph p) src (ri_tgt p)])
            (remove_initialip p g)
      | GrAddinport p \<Rightarrow>
          answer (GraphAddinportResponse_from_request p) (add_inport (ip_public p) (GraphPort_from_addinport p) g)
      | GrRemoveinport p \<Rightarrow> answer GraphRemoveinportResponse_default (remove_inport (rip_public p) g)
      | GrRenameinport p \<Rightarrow>
          answer_outcome GraphRenameinportResponse_default (rename_inport (mip_from p) (mip_to p) g)
      | GrAddoutport p \<Rightarrow>
          answer (GraphAddoutportResponse_from_request p)
            (add_outport (op_public p) (GraphPort_from_addoutport p) g)
      | GrRemoveoutport p \<Rightarrow>
          answer (GraphRemoveoutportResponse_from_request p) (remove_outport (rop_public p) g)
      | GrRenameoutport p \<Rightarrow>
          answer_outcome GraphRenameoutportResponse_default (rename_outport (mop_from p) (mop_to p) g)
      | GrAddgroup p \<Rightarrow>
          answer GraphAddgroupResponse_default
            (add_group (ag_graph p) (ag_name p) (ag_nodes p) (ag_metadata p) g)
      | GrRemovegroup p \<Rightarrow> answer GraphRemovegroupResponse_default (remove_group (rmg_graph p) (rmg_name p) g)
      | GrRenamegroup p \<Rightarrow>
          answer GraphRenamegroupResponse_default (rename_group (mg_graph p) (mg_from p) (mg_to p) g)
      | GrChangegroup p \<Rightarrow>
          answer GraphChangegroupResponse_default (change_group (chg_graph p) (chg_name p) (chg_metadata p) g))"

lemmas handle_graph_defs = handle_message_def handle_removenode_def handle_renamenode_def
  handle_changenode_def handle_addedge_def handle_removeedge_def handle_changeedge_def
  handle_addinitial_def handle_removeinitial_def handle_addinport_def handle_removeinport_def
  handle_renameinport_def handle_addoutport_def handle_removeoutport_def handle_renameoutport_def
  handle_addgroup_def handle_removegroup_def handle_renamegroup_def handle_changegroup_def

lemma handle_graph_request:
  assumes "\<not> (\<exists>p. gm = GrClear p)" "\<not> (\<exists>p. gm = GrAddnode p)"
  shows "handle_message E (FbpGraph gm) w =
    graph_request (graph_secret gm) (the (addressed gm)) (graph_op (sv_numbers E) gm) w"
  using assms
  by (cases gm) (simp_all add: handle_graph_defs graph_secret_def addressed_def graph_op_def [abs_def])

section \<open>The contract of a graph operation\<close>

text \<open>
  What the server relies on when it runs an operation under a graph's lock: it returns, it keeps
  the graph's name, and a success has responses, none of which is an error.
\<close>

locale graph_operation =
  fixes op :: "'n Graph \<Rightarrow> ('n Graph \<times> 'n response list) io_result outcome"
  assumes returns: "\<exists>r. op g = Returned r"
    and keeps_name: "op g = Returned (Inr (h, rs)) \<Longrightarrow> graph_name h = graph_name g"
    and answers: "op g = Returned (Inr (h, rs)) \<Longrightarrow> rs \<noteq> [] \<and> (\<forall>r \<in> set rs. \<not> is_error r)"
begin

definition accepted :: "string option \<Rightarrow> string \<Rightarrow> ('q, 'c, 'n) world \<Rightarrow> gid \<Rightarrow> 'n Graph \<Rightarrow> 'n response list \<Rightarrow> bool" where
  "accepted secret n w a h rs \<longleftrightarrow> secret_valid secret n (wd_runtime w) \<and> get_graph_by_name n w = Inr a \<and>
     op (wd_heap w a) = Returned (Inr (h, rs))"

lemma request_cases:
  obtains (refused) e where "graph_request secret n op w = Yields (w, [Send (GraphErrorResponse_new e)])"
    "\<And>a h rs. \<not> accepted secret n w a h rs"
  | (performed) a h rs where "graph_request secret n op w = Yields (set_graph a h w, map Send rs)"
    "accepted secret n w a h rs" "graph_name h = graph_name (wd_heap w a)"
proof (cases "secret_valid secret n (wd_runtime w)")
  case valid: True
  show thesis
  proof (cases "get_graph_by_name n w")
    case (Inl e)
    with valid show thesis by (intro refused) (auto simp: graph_request_def accepted_def)
  next
    case a: (Inr a)
    obtain r where r: "op (wd_heap w a) = Returned r" using returns by blast
    show thesis
    proof (cases r)
      case (Inl e)
      with r a valid show thesis by (intro refused) (auto simp: graph_request_def accepted_def)
    next
      case (Inr hr)
      obtain h rs where hr: "hr = (h, rs)" by (cases hr)
      from r Inr hr have op: "op (wd_heap w a) = Returned (Inr (h, rs))" by simp
      with a valid keeps_name show thesis by (intro performed [of a h rs]) (auto simp: graph_request_def accepted_def)
    qed
  qed
next
  case False
  then show thesis by (intro refused) (auto simp: graph_request_def accepted_def)
qed

end

lemmas answer_defs = answer_def answer_with_def answer_outcome_def

lemma rename_node_keeps_name: "rename_node n old new g = Returned (Inr h) \<Longrightarrow> graph_name h = graph_name g"
  by (auto simp: rename_node_def map_ops split: if_splits option.splits)

lemma rename_port_keeps_name:
  "rename_inport old new g = Returned (Inr h) \<Longrightarrow> graph_name h = graph_name g"
  "rename_outport old new g = Returned (Inr h) \<Longrightarrow> graph_name h = graph_name g"
  by (auto simp: rename_inport_def rename_outport_def map_ops split: if_splits option.splits)

lemma graph_op_returns: "\<exists>r. graph_op N gm g = Returned r"
proof (cases gm)
  case (GrRenamenode p)
  then show ?thesis using rename_node_returns [of "mn_graph p" "mn_from p" "mn_to p" g]
    by (auto simp: graph_op_def answer_defs)
next
  case (GrRenameinport p)
  then show ?thesis using inports.rename_returns [of "mip_from p" "mip_to p" g]
    by (auto simp: graph_op_def answer_defs)
next
  case (GrRenameoutport p)
  then show ?thesis using outports.rename_returns [of "mop_from p" "mop_to p" g]
    by (auto simp: graph_op_def answer_defs)
qed (simp_all add: graph_op_def answer_defs)

lemma graph_op_keeps_name:
  assumes "graph_op N gm g = Returned (Inr (h, rs))"
  shows "graph_name h = graph_name g"
proof (cases gm)
  case (GrRenamenode p)
  with assms show ?thesis
    by (auto simp: graph_op_def answer_defs outcome_bind_def split: outcome.splits sum.splits
        dest: rename_node_keeps_name)
next
  case (GrRenameinport p)
  with assms show ?thesis
    by (auto simp: graph_op_def answer_defs outcome_bind_def split: outcome.splits sum.splits
        dest: rename_port_keeps_name)
next
  case (GrRenameoutport p)
  with assms show ?thesis
    by (auto simp: graph_op_def answer_defs outcome_bind_def split: outcome.splits sum.splits
        dest: rename_port_keeps_name)
qed (use assms in \<open>auto simp: graph_op_def answer_defs graph_op_defs Let_def map_ops
       split: if_splits option.splits sum.splits prod.splits\<close>)

lemma graph_op_answers:
  assumes "graph_op N gm g = Returned (Inr (h, rs))"
  shows "rs \<noteq> [] \<and> (\<forall>r \<in> set rs. \<not> is_error r \<and> r_protocol r = ''graph'' \<and>
    (r_command r = graph_command gm \<or> r_command r = ''removeedge''))"
  using assms
  by (cases gm)
    (auto simp: graph_op_def answer_defs outcome_bind_def is_error_def respond_def graph_command_def
      GraphAddnodeResponse_new_def GraphChangenodeResponse_def GraphRenamenodeResponse_from_request_def
      GraphRemovenodeResponse_from_request_def GraphAddedgeResponse_from_request_def
      GraphRemoveedgeResponse_from_request_def GraphChangeedgeResponse_from_request_def
      GraphAddinitialResponse_from_request_def GraphRemoveinitialResponse_from_removed_def
      GraphAddinportResponse_from_request_def GraphRemoveinportResponse_default_def
      GraphRenameinportResponse_default_def GraphAddoutportResponse_from_request_def
      GraphRemoveoutportResponse_from_request_def GraphRenameoutportResponse_default_def
      GraphAddgroupResponse_default_def GraphRemovegroupResponse_default_def
      GraphRenamegroupResponse_default_def GraphChangegroupResponse_default_def
      split: outcome.splits sum.splits)

interpretation graph_ops: graph_operation "graph_op N gm" for N gm
proof unfold_locales
  show "\<exists>r. graph_op N gm g = Returned r" for g by (rule graph_op_returns)
  show "graph_name h = graph_name g" if "graph_op N gm g = Returned (Inr (h, rs))" for g h rs
    by (rule graph_op_keeps_name [OF that])
  show "rs \<noteq> [] \<and> (\<forall>r \<in> set rs. \<not> is_error r)" if "graph_op N gm g = Returned (Inr (h, rs))" for g h rs
    using graph_op_answers [OF that] by blast
qed

text \<open>\<open>addnode\<close> follows the same course, with texts of its own.\<close>

definition performed ::
    "('q, 'c, 'n) service_env \<Rightarrow> 'n GraphMessage \<Rightarrow> ('q, 'c, 'n) world \<Rightarrow> string \<Rightarrow> gid \<Rightarrow> 'n Graph \<Rightarrow>
     'n response list \<Rightarrow> bool" where
  "performed E gm w n a h rs \<longleftrightarrow> addressed gm = Some n \<and> secret_valid (graph_secret gm) n (wd_runtime w) \<and>
     get_graph_by_name n w = Inr a \<and> graph_op (sv_numbers E) gm (wd_heap w a) = Returned (Inr (h, rs))"

lemma addnode_cases:
  obtains (refused) e where "handle_addnode (sv_numbers E) p w = Yields (w, [Send (GraphErrorResponse_new e)])"
    "\<And>n a h rs. \<not> performed E (GrAddnode p) w n a h rs"
  | (performed) n a h rs where "handle_addnode (sv_numbers E) p w = Yields (set_graph a h w, map Send rs)"
    "performed E (GrAddnode p) w n a h rs"
proof (cases "an_graph p")
  case None
  then show thesis
    by (intro refused) (auto simp: handle_addnode_def performed_def addressed_def)
next
  case n: (Some n)
  note defs = handle_addnode_def performed_def addressed_def graph_secret_def graph_op_def answer_with_def
  show thesis
  proof (cases "secret_valid (an_secret p) n (wd_runtime w)")
    case valid: True
    show thesis
    proof (cases "get_graph_by_name n w")
      case (Inl e)
      with n valid show thesis by (intro refused) (auto simp: defs)
    next
      case a: (Inr a)
      show thesis
      proof (cases "add_node_from_payload (sv_numbers E) n (an_component p) (an_name p)
          (node_metadata_with_icon p) (wd_heap w a)")
        case (Inl e)
        with n valid a show thesis by (intro refused) (auto simp: defs)
      next
        case (Inr hr)
        obtain h resp where "hr = (h, resp)" by (cases hr)
        with n valid a Inr show thesis
          by (intro performed [of a h "[GraphAddnodeResponse_new resp]" n]) (auto simp: defs)
      qed
    qed
  next
    case False
    with n show thesis by (intro refused) (auto simp: defs)
  qed
qed

lemma addressed_total: "\<not> (\<exists>p. gm = GrAddnode p) \<Longrightarrow> addressed gm = Some (the (addressed gm))"
  by (cases gm) (auto simp: addressed_def)

lemma graph_message_cases:
  assumes "\<not> (\<exists>p. gm = GrClear p)"
  obtains (refused) e where "handle_message E (FbpGraph gm) w = Yields (w, [Send (GraphErrorResponse_new e)])"
    "\<And>n a h rs. \<not> performed E gm w n a h rs"
  | (performed) n a h rs where "handle_message E (FbpGraph gm) w = Yields (set_graph a h w, map Send rs)"
    "performed E gm w n a h rs"
proof (cases "\<exists>p. gm = GrAddnode p")
  case True
  then obtain p where gm: "gm = GrAddnode p" by blast
  have eq: "handle_message E (FbpGraph gm) w = handle_addnode (sv_numbers E) p w"
    by (simp add: gm handle_message_def)
  show thesis
  proof (rule addnode_cases [of E p w])
    fix e assume "handle_addnode (sv_numbers E) p w = Yields (w, [Send (GraphErrorResponse_new e)])"
      "\<And>n a h rs. \<not> performed E (GrAddnode p) w n a h rs"
    then show thesis using eq gm by (intro refused) auto
  next
    fix n a h rs assume "handle_addnode (sv_numbers E) p w = Yields (set_graph a h w, map Send rs)"
      "performed E (GrAddnode p) w n a h rs"
    then show thesis using eq gm by (intro performed [of a h rs n]) auto
  qed
next
  case False
  from addressed_total [OF False] obtain n where n: "addressed gm = Some n" by blast
  have eq: "handle_message E (FbpGraph gm) w = graph_request (graph_secret gm) n (graph_op (sv_numbers E) gm) w"
    using handle_graph_request [OF assms False, of E w] n by simp
  have acc: "graph_ops.accepted (sv_numbers E) gm (graph_secret gm) m w a h rs \<longleftrightarrow> performed E gm w m a h rs"
    if "addressed gm = Some m" for m a h rs
    using that by (simp add: graph_ops.accepted_def performed_def)
  show thesis
  proof (rule graph_ops.request_cases [of "graph_secret gm" n "sv_numbers E" gm w])
    fix e assume "graph_request (graph_secret gm) n (graph_op (sv_numbers E) gm) w =
        Yields (w, [Send (GraphErrorResponse_new e)])"
      "\<And>a h rs. \<not> graph_ops.accepted (sv_numbers E) gm (graph_secret gm) n w a h rs"
    moreover from this(2) acc [OF n] have "\<not> performed E gm w m a h rs" for m a h rs
      using n by (cases "m = n") (auto simp: performed_def)
    ultimately show thesis using eq by (intro refused [of e]) simp_all
  next
    fix a h rs
    assume "graph_request (graph_secret gm) n (graph_op (sv_numbers E) gm) w = Yields (set_graph a h w, map Send rs)"
      "graph_ops.accepted (sv_numbers E) gm (graph_secret gm) n w a h rs"
    then show thesis using eq acc [OF n] by (intro performed [of a h rs n]) simp_all
  qed
qed

section \<open>Access\<close>

text \<open>Which secret a message is checked with, for which graph, at which level.\<close>

definition required_access ::
    "'n FBPMessage \<Rightarrow> 'c Runtime \<Rightarrow> (string option \<times> string \<times> AccessLevel) option" where
  "required_access m r =
     (case m of
        FbpRuntime (RtGetruntime p) \<Rightarrow> Some (rg_secret p, rt_graph r, ReadOnly)
      | FbpRuntime (RtPacket p) \<Rightarrow> Some (rp_secret p, rt_graph r, ReadWrite)
      | FbpComponent (CpList p) \<Rightarrow> Some (cl_secret p, rt_graph r, ReadOnly)
      | FbpComponent (CpGetsource p) \<Rightarrow> Some (cg_secret p, rt_graph r, ReadOnly)
      | FbpNetwork (NwGetstatus p) \<Rightarrow> Some (ng_secret p, ng_graph p, ReadOnly)
      | FbpNetwork (NwPersist p) \<Rightarrow> Some (np_secret p, rt_graph r, ReadWrite)
      | FbpNetwork (NwEdges p) \<Rightarrow> Some (ne_secret p, ne_graph p, ReadWrite)
      | FbpNetwork (NwStart p) \<Rightarrow> Some (ns_secret p, ns_graph p, ReadWrite)
      | FbpNetwork (NwStop p) \<Rightarrow> Some (nx_secret p, nx_graph p, ReadWrite)
      | FbpNetwork (NwDebug p) \<Rightarrow> Some (nd_secret p, nd_graph p, ReadWrite)
      | FbpTrace (TrStart p) \<Rightarrow> Some (ts_secret p, ts_graph p, ReadWrite)
      | FbpTrace (TrStop p) \<Rightarrow> Some (tp_secret p, tp_graph p, ReadWrite)
      | FbpTrace (TrClear p) \<Rightarrow> Some (tcl_secret p, tcl_graph p, ReadWrite)
      | FbpTrace (TrDump p) \<Rightarrow> Some (tdp_secret p, tdp_graph p, ReadOnly)
      | FbpGraph gm \<Rightarrow> map_option (\<lambda>n. (graph_secret gm, n, ReadWrite)) (addressed gm)
      | _ \<Rightarrow> None)"

lemmas handler_defs = handle_message_def handle_getruntime_def handle_packet_def handle_packetsent_def
  handle_component_list_def handle_getsource_def handle_getstatus_def handle_persist_def
  handle_edges_def handle_debug_def handle_network_start_def handle_network_stop_def
  handle_trace_start_def handle_trace_stop_def handle_trace_clear_def handle_trace_dump_def
  trace_request_def network_request_def Let_def

lemma is_error_network_error [simp]: "is_error (network_error err graph)"
  by (simp add: network_error_def)

lemma refused_graph_message:
  assumes "addressed gm = Some n" "\<not> secret_valid (graph_secret gm) n (wd_runtime w)"
  shows "\<exists>e. handle_message E (FbpGraph gm) w = Yields (w, [Send e]) \<and> is_error e"
proof (cases "\<exists>p. gm = GrClear p")
  case True
  with assms show ?thesis
    by (auto simp: handle_message_def handle_clear_def addressed_def graph_secret_def Let_def)
next
  case False
  then show ?thesis
    by (cases rule: graph_message_cases [of gm E w]) (use assms in \<open>auto simp: performed_def\<close>)
qed

lemma network_request_refused:
  "network_request False graph cont w = Yields (w, [Send (network_error invalid_token graph)])"
  by (simp add: network_request_def)

lemma trace_request_refused:
  "\<not> secret_valid secret graph (wd_runtime w) \<Longrightarrow>
   trace_request secret graph op resp w = Yields (w, [Send (TraceErrorResponse_new invalid_token)])"
  by (simp add: trace_request_def)

lemma refused_handlers:
  "\<not> secret_valid_readonly (rg_secret p1) (rt_graph (wd_runtime w)) (wd_runtime w) \<Longrightarrow>
   handle_getruntime p1 w = Yields (w, [Send (RuntimeErrorResponse_new invalid_token)])"
  "\<not> secret_valid (rp_secret p2) (rt_graph (wd_runtime w)) (wd_runtime w) \<Longrightarrow>
   handle_packet E p2 w = Yields (w, [Send (RuntimeErrorResponse_new invalid_token)])"
  "\<not> secret_valid_readonly (cl_secret p3) (rt_graph (wd_runtime w)) (wd_runtime w) \<Longrightarrow>
   handle_component_list p3 w = Yields (w, [Send (GraphErrorResponse_new invalid_token)])"
  "\<not> secret_valid_readonly (cg_secret p4) (rt_graph (wd_runtime w)) (wd_runtime w) \<Longrightarrow>
   handle_getsource to_json p4 w = Yields (w, [Send (GraphErrorResponse_new invalid_token)])"
  "\<not> secret_valid_readonly (ng_secret p5) (ng_graph p5) (wd_runtime w) \<Longrightarrow>
   handle_getstatus E p5 w = Yields (w, [Send (network_error invalid_token (ng_graph p5))])"
  "\<not> secret_valid (np_secret p6) (rt_graph (wd_runtime w)) (wd_runtime w) \<Longrightarrow>
   handle_persist E p6 w = Yields (w, [Send (network_error invalid_token (rt_graph (wd_runtime w)))])"
  "\<not> secret_valid (ne_secret p7) (ne_graph p7) (wd_runtime w) \<Longrightarrow>
   handle_edges p7 w = Yields (w, [Send (network_error invalid_token (ne_graph p7))])"
  "\<not> secret_valid (nd_secret p8) (nd_graph p8) (wd_runtime w) \<Longrightarrow>
   handle_debug p8 w = Yields (w, [Send (network_error invalid_token (nd_graph p8))])"
  "\<not> secret_valid (ns_secret p9) (ns_graph p9) (wd_runtime w) \<Longrightarrow>
   handle_network_start E p9 w = Yields (w, [Send (network_error invalid_token (ns_graph p9))])"
  "\<not> secret_valid (nx_secret p10) (nx_graph p10) (wd_runtime w) \<Longrightarrow>
   handle_network_stop E p10 w = Yields (w, [Send (network_error invalid_token (nx_graph p10))])"
  "\<not> secret_valid (ts_secret p11) (ts_graph p11) (wd_runtime w) \<Longrightarrow>
   handle_trace_start p11 w = Yields (w, [Send (TraceErrorResponse_new invalid_token)])"
  "\<not> secret_valid (tp_secret p12) (tp_graph p12) (wd_runtime w) \<Longrightarrow>
   handle_trace_stop p12 w = Yields (w, [Send (TraceErrorResponse_new invalid_token)])"
  "\<not> secret_valid (tcl_secret p13) (tcl_graph p13) (wd_runtime w) \<Longrightarrow>
   handle_trace_clear p13 w = Yields (w, [Send (TraceErrorResponse_new invalid_token)])"
  "\<not> secret_valid_readonly (tdp_secret p14) (tdp_graph p14) (wd_runtime w) \<Longrightarrow>
   handle_trace_dump p14 w = Yields (w, [Send (TraceErrorResponse_new invalid_token)])"
  by (simp_all only: handle_getruntime_def handle_packet_def handle_component_list_def handle_getsource_def
      handle_getstatus_def handle_persist_def handle_edges_def handle_debug_def
      handle_network_start_def handle_network_stop_def handle_trace_start_def
      handle_trace_stop_def handle_trace_clear_def handle_trace_dump_def
      Let_def if_True not_False_eq_True simp_thms network_request_refused trace_request_refused)

lemmas message_defs = handle_message_def required_access_def

lemma refused_message:
  assumes "required_access m (wd_runtime w) = Some (secret, graph, level)"
    and "validate_secret_with_access secret graph level (wd_runtime w) \<noteq> Inr ()"
  shows "\<exists>e. handle_message E m w = Yields (w, [Send e]) \<and> is_error e"
proof -
  have rw: "\<not> secret_valid secret graph (wd_runtime w)" if "level = ReadWrite"
    using assms(2) that by (simp add: secret_valid_def)
  have ro: "\<not> secret_valid_readonly secret graph (wd_runtime w)" if "level = ReadOnly"
    using assms(2) that by (simp add: secret_valid_readonly_def)
  note access = assms(1) rw ro
  show ?thesis
  proof (cases m)
    case (FbpGraph gm)
    with access have "addressed gm = Some graph" "\<not> secret_valid (graph_secret gm) graph (wd_runtime w)"
      by (auto simp: required_access_def)
    from refused_graph_message [OF this] FbpGraph show ?thesis by simp
  next
    case (FbpRuntime x)
    show ?thesis using access unfolding message_defs FbpRuntime
      by (cases x; clarsimp simp: refused_handlers)
  next
    case (FbpNetwork x)
    show ?thesis using access unfolding message_defs FbpNetwork
      by (cases x; clarsimp simp: refused_handlers)
  next
    case (FbpComponent x)
    show ?thesis using access unfolding message_defs FbpComponent
      by (cases x; clarsimp simp: refused_handlers)
  next
    case (FbpTrace x)
    show ?thesis using access unfolding message_defs FbpTrace
      by (cases x; clarsimp simp: refused_handlers)
  qed
qed

text \<open>
  C8. A message whose secret does not give the access it requires is answered with exactly one
  error, and changes nothing: no graph, no runtime state, no network, whatever the message is.
\<close>

theorem refused_without_access:
  assumes "required_access m (wd_runtime w) = Some (secret, graph, level)"
    and "validate_secret_with_access secret graph level (wd_runtime w) \<noteq> Inr ()"
  shows "\<exists>e. handle_message E m w = Yields (w, [Send e]) \<and> is_error e"
  using assms by (rule refused_message)

section \<open>Samples\<close>

definition demo_runtime :: "unit Runtime" where
  "demo_runtime = (Runtime_default 0)
     \<lparr>rt_graph := ''g'', rt_graphs := add_graph ''g'' 0 manager_new,
      rt_secrets := [''g'' \<mapsto> (''reader'', ReadOnly)]\<rparr>"

definition demo_world :: "(list_queue, unit, int) world" where
  "demo_world =
     \<lparr>wd_net = demo_net\<lparr>nw_runtime := demo_runtime\<rparr>, wd_heap = (\<lambda>_. demo_graph), wd_graph = 0,
      wd_library = demo_library, wd_client = ClientCapabilityHolder_default\<rparr>"

definition demo_service :: "(list_queue, unit, int) service_env" where
  "demo_service =
     \<lparr>sv_start = demo_env, sv_numbers = int_ops, sv_graph_json = (\<lambda>_. ''{}''), sv_set_json = (\<lambda>_. ''{}''),
      sv_first_key = (\<lambda>_. ''g''), sv_write_file = (\<lambda>_. Inr ()), sv_tries = [], sv_polls = [],
      sv_now = 0, sv_utc = 0\<rparr>"

lemma demo_world_simps [simp]:
  "wd_runtime demo_world = demo_runtime" "wd_heap demo_world a = demo_graph" "wd_graph demo_world = 0"
  by (simp_all add: demo_world_def)

lemma demo_graph_name [simp]: "graph_name demo_graph = ''g''"
  by (simp add: demo_graph_def Graph_new_def)

lemma demo_runtime_simps [simp]:
  "rt_graph demo_runtime = ''g''" "rt_secrets demo_runtime = [''g'' \<mapsto> (''reader'', ReadOnly)]"
  "mg_graphs (rt_graphs demo_runtime) = [''g'' \<mapsto> 0]"
  "rs_running (rt_status demo_runtime) = False"
  "rt_boundary_threads demo_runtime = []" "rt_watchdog_thread demo_runtime = False"
  by (simp_all add: demo_runtime_def add_graph_def manager_new_def Runtime_default_def Let_def
      RuntimeStatus_default_def)

lemma refused_without_access_witness:
  "\<exists>e. handle_message demo_service
      (FbpGraph (GrRemovenode \<lparr>rn_name = ''a'', rn_graph = ''g'', rn_secret = Some ''reader''\<rparr>)) demo_world
    = Yields (demo_world, [Send e]) \<and> is_error e"
  by (rule refused_without_access [where secret = "Some ''reader''" and graph = "''g''" and level = ReadWrite])
    (simp_all add: required_access_def addressed_def graph_secret_def validate_secret_with_access_def)

section \<open>Read-only clients\<close>

definition reads_only :: "instant \<Rightarrow> ('q, 'c, 'n) world \<Rightarrow> ('q, 'c, 'n) world \<Rightarrow> bool" where
  "reads_only now w w' \<longleftrightarrow>
     (\<exists>r client. w' = (set_runtime r w)\<lparr>wd_client := client\<rparr> \<and>
        (r = wd_runtime w \<or> r = fst (status_snapshot now (wd_runtime w))))"

definition is_send :: "'n effect \<Rightarrow> bool" where
  "is_send e = (case e of Send _ \<Rightarrow> True | _ \<Rightarrow> False)"

lemma set_runtime_same [simp]: "set_runtime (wd_runtime w) w = w"
  by (simp add: set_runtime_def)

lemma reads_only_refl [simp]: "reads_only now w w"
  unfolding reads_only_def by (rule exI [of _ "wd_runtime w"], rule exI [of _ "wd_client w"]) simp

lemma reads_only_client [simp]: "reads_only now w (w\<lparr>wd_client := c\<rparr>)"
  unfolding reads_only_def by (rule exI [of _ "wd_runtime w"], rule exI [of _ c]) simp

lemma reads_only_snapshot: "reads_only now w (set_runtime (fst (status_snapshot now (wd_runtime w))) w)"
  unfolding reads_only_def
  by (rule exI [of _ "fst (status_snapshot now (wd_runtime w))"], rule exI [of _ "wd_client w"])
    (simp add: set_runtime_def)

lemma readonly_getruntime:
  "handle_getruntime p w = Yields (w', effects) \<Longrightarrow> reads_only now w w' \<and> list_all is_send effects"
  by (auto simp: handle_getruntime_def Let_def is_send_def split: if_splits)

lemma readonly_component_list:
  "handle_component_list p w = Yields (w', effects) \<Longrightarrow> reads_only now w w' \<and> list_all is_send effects"
  by (auto simp: handle_component_list_def debug_status_for_client_def Let_def is_send_def list_all_iff
      split: if_splits)

lemma readonly_getsource:
  "handle_getsource to_json p w = Yields (w', effects) \<Longrightarrow> reads_only now w w' \<and> list_all is_send effects"
  by (auto simp: handle_getsource_def answer_source_def Let_def is_send_def split: if_splits sum.splits)

lemma readonly_trace_dump:
  "handle_trace_dump p w = Yields (w', effects) \<Longrightarrow> reads_only now w w' \<and> list_all is_send effects"
  by (auto simp: handle_trace_dump_def is_send_def split: if_splits sum.splits)

lemma getstatus_outcome:
  assumes "handle_getstatus E p w = Yields (w', effects)"
  shows "reads_only (sv_now E) w w' \<and>
    ((\<exists>e. effects = [Send (network_error e (ng_graph p))]) \<or>
     (\<exists>s. effects = [Send (NetworkStatusMessage_new (requested_status (ng_graph p) s))]))"
  using assms reads_only_snapshot [of "sv_now E" w]
  by (auto simp: handle_getstatus_def network_request_def Let_def split: if_splits sum.splits prod.splits)

lemma readonly_message:
  assumes "required_access m (wd_runtime w) = Some (secret, graph, ReadOnly)"
    and "handle_message E m w = Yields (w', effects)"
  shows "reads_only (sv_now E) w w' \<and> list_all is_send effects"
proof (cases m)
  case (FbpRuntime x)
  with assms show ?thesis by (cases x) (auto simp: message_defs dest: readonly_getruntime)
next
  case (FbpComponent x)
  with assms show ?thesis
    by (cases x) (auto simp: message_defs dest: readonly_component_list readonly_getsource)
next
  case (FbpNetwork x)
  with assms show ?thesis
    by (cases x) (auto simp: message_defs is_send_def dest!: getstatus_outcome)
next
  case (FbpTrace x)
  with assms show ?thesis by (cases x) (auto simp: message_defs dest: readonly_trace_dump)
next
  case (FbpGraph gm)
  with assms show ?thesis by (auto simp: message_defs)
qed

text \<open>
  C9. A client that presents the read-only secret of a graph cannot change anything through it: the
  state after its message differs at most in what this client has been told and in the times the
  metrics of the schedulers show, and it is only answered: nothing is broadcast, signalled or stopped.
\<close>

theorem readonly_clients_change_nothing:
  assumes "required_access m (wd_runtime w) = Some (Some token, graph, level)" and "token \<noteq> []"
    and "rt_secrets (wd_runtime w) graph = Some (expected, ReadOnly)"
    and "handle_message E m w = Yields (w', effects)"
  shows "reads_only (sv_now E) w w' \<and> list_all is_send effects"
proof (cases level)
  case ReadOnly
  with readonly_message [OF _ assms(4)] assms(1) show ?thesis by blast
next
  case ReadWrite
  with assms(2,3) have "validate_secret_with_access (Some token) graph level (wd_runtime w) \<noteq> Inr ()"
    by (simp add: validate_secret_with_access_def)
  from refused_message [OF assms(1) this, of E] assms(4) show ?thesis by (auto simp: is_send_def)
qed

lemma readonly_clients_change_nothing_witness:
  "\<exists>w' effects. handle_message demo_service
      (FbpNetwork (NwGetstatus \<lparr>ng_graph = ''g'', ng_secret = Some ''reader''\<rparr>)) demo_world = Yields (w', effects) \<and>
     reads_only 0 demo_world w' \<and> list_all is_send effects"
proof -
  let ?m = "FbpNetwork (NwGetstatus \<lparr>ng_graph = ''g'', ng_secret = Some ''reader''\<rparr>)"
  obtain r s where "status_snapshot (sv_now demo_service) demo_runtime = (r, s)" by fastforce
  then obtain w' effects where h: "handle_message demo_service ?m demo_world = Yields (w', effects)"
    by (auto simp: handle_message_def handle_getstatus_def network_request_def secret_valid_readonly_def
        validate_secret_with_access_def get_graph_by_name_def get_graph_def Let_def split: prod.splits)
  have "reads_only (sv_now demo_service) demo_world w' \<and> list_all is_send effects"
    by (rule readonly_clients_change_nothing [OF _ _ _ h, of "''reader''" "''g''" ReadOnly "''reader''"])
      (simp_all add: required_access_def)
  with h show ?thesis by (auto simp: demo_service_def)
qed

section \<open>Graph messages\<close>



lemma clear_replies:
  "handle_clear p w = Yields (w', effects) \<Longrightarrow>
   \<exists>r. effects = [Send r] \<and> r_protocol r = ''graph'' \<and> (r_command r = ''clear'' \<or> is_error r)"
  by (auto simp: handle_clear_def Let_def GraphClearResponse_new_def respond_def is_error_def
      GraphErrorResponse_new_def split: if_splits sum.splits)

text \<open>
  The replies to a graph message are of its type: they are messages of the graph protocol, with
  the command of the request, an error that stands alone, or the removed edges of \<open>removenode\<close>.
\<close>

theorem graph_replies_have_request_type:
  assumes "handle_message E (FbpGraph gm) w = Yields (w', effects)"
  shows "\<exists>rs. effects = map Send rs \<and> rs \<noteq> [] \<and>
    (\<forall>r \<in> set rs. r_protocol r = ''graph'' \<and>
       (r_command r = graph_command gm \<or> r_command r = ''removeedge'' \<or> is_error r \<and> rs = [r]))"
proof (cases "\<exists>p. gm = GrClear p")
  case True
  then obtain p where gm: "gm = GrClear p" by blast
  with assms have "handle_clear p w = Yields (w', effects)" by (simp add: handle_message_def)
  from clear_replies [OF this] obtain r where "effects = map Send [r]" "r_protocol r = ''graph''"
    "r_command r = ''clear'' \<or> is_error r" by auto
  then show ?thesis by (intro exI [of _ "[r]"]) (auto simp: gm graph_command_def)
next
  case False
  then show ?thesis
  proof (cases rule: graph_message_cases [where E = E and w = w])
    case (refused e)
    with assms show ?thesis
      by (intro exI [of _ "[GraphErrorResponse_new e]"]) (simp add: GraphErrorResponse_new_def respond_def is_error_def)
  next
    case (performed n a h rs)
    then have "graph_op (sv_numbers E) gm (wd_heap w a) = Returned (Inr (h, rs))" by (simp add: performed_def)
    from graph_op_answers [OF this] performed(1) assms show ?thesis by auto
  qed
qed

lemma graph_replies_have_request_type_witness:
  "\<exists>w' rs. handle_message demo_service
      (FbpGraph (GrRemovenode \<lparr>rn_name = ''a'', rn_graph = ''g'', rn_secret = None\<rparr>)) demo_world =
      Yields (w', map Send rs) \<and> rs \<noteq> []"
proof -
  let ?gm = "GrRemovenode \<lparr>rn_name = ''a'', rn_graph = ''g'', rn_secret = None\<rparr>"
  obtain w' effects where "handle_message demo_service (FbpGraph ?gm) demo_world = Yields (w', effects)"
    by (cases rule: graph_message_cases [of ?gm demo_service demo_world]) auto
  with graph_replies_have_request_type [OF this] show ?thesis by blast
qed

section \<open>The graph manager\<close>

text \<open>
  Every graph is registered under its own name. The graph operations refuse a name that is not the
  graph's, so this is what makes a registered graph usable.
\<close>

definition names_agree :: "('q, 'c, 'n) world \<Rightarrow> bool" where
  "names_agree w \<longleftrightarrow>
     (\<forall>n a. mg_graphs (rt_graphs (wd_runtime w)) n = Some a \<longrightarrow> graph_name (wd_heap w a) = n)"

text \<open>What no message but \<open>clear\<close> touches.\<close>

definition same_registry :: "'c Runtime \<Rightarrow> 'c Runtime \<Rightarrow> bool" where
  "same_registry r r' \<longleftrightarrow> rt_graphs r' = rt_graphs r \<and> rt_secrets r' = rt_secrets r"

lemma same_registry_refl [simp]: "same_registry r r"
  by (simp add: same_registry_def)













lemma clear_answers: "\<exists>w' r. handle_clear p w = Yields (w', [Send r])"
  by (cases "graph_clear p (rs_running (rt_status (wd_runtime w))) (wd_heap w (wd_graph w))")
    (simp_all add: handle_clear_def Let_def)

lemma persist_answers: "\<exists>r. handle_persist E p w = Yields (w, [Send r])"
  by (cases "sv_write_file E (persist (sv_set_json E) (sv_first_key E) (wd_heap w) (wd_heap w (wd_graph w)) (wd_runtime w))")
    (simp_all add: handle_persist_def Let_def)

lemma clear_outcome:
  assumes "handle_clear p w = Yields (w', effects)"
  shows "w' = w \<and> (\<exists>e. effects = [Send (GraphErrorResponse_new e)]) \<or>
    effects = [Send (GraphClearResponse_new p)] \<and> \<not> rs_running (rt_status (wd_runtime w)) \<and>
    graph_name (wd_heap w' (wd_graph w)) = gc_name p \<and>
    (\<forall>a. a \<noteq> wd_graph w \<longrightarrow> wd_heap w' a = wd_heap w a) \<and>
    rt_graph (wd_runtime w') = gc_name p \<and> rt_secrets (wd_runtime w') = rt_secrets (wd_runtime w) \<and>
    mg_graphs (rt_graphs (wd_runtime w')) =
      ((mg_graphs (rt_graphs (wd_runtime w)))(rt_graph (wd_runtime w) := None))(gc_name p \<mapsto> wd_graph w)"
  using assms
  by (auto simp: handle_clear_def Let_def graph_clear_def add_graph_def remove_graph_def map_remove_def
      set_active_graph_def set_runtime_def set_graph_def fun_eq_iff split: if_splits)




text \<open>
  What \<open>clear\<close> does when another graph than the server's own has become the active one, which
  \<open>network:start\<close>, \<open>network:debug\<close> and \<open>network:edges\<close> make it: it empties the server's own graph,
  which stays registered under its old name and refuses every message for that name, and removes
  the active graph from the manager, although that one was not cleared.
\<close>

theorem clear_orphans_graphs:
  assumes "handle_message E (FbpGraph (GrClear p)) w = Yields (w', effects)" and "names_agree w"
    and "mg_graphs (rt_graphs (wd_runtime w)) own = Some (wd_graph w)"
    and "own \<noteq> rt_graph (wd_runtime w)" and "own \<noteq> gc_name p" and "rt_graph (wd_runtime w) \<noteq> gc_name p"
    and "\<not> rs_running (rt_status (wd_runtime w))" and "secret_valid (gc_secret p) (gc_name p) (wd_runtime w)"
  shows "\<not> names_agree w' \<and> get_graph_by_name own w' = Inr (wd_graph w) \<and>
    add_edge own e (wd_heap w' (wd_graph w)) = Inl wrong_graph \<and>
    mg_graphs (rt_graphs (wd_runtime w')) (rt_graph (wd_runtime w)) = None \<and>
    (\<forall>a. a \<noteq> wd_graph w \<longrightarrow> wd_heap w' a = wd_heap w a)"
proof -
  have h: "handle_clear p w = Yields (w', effects)" using assms(1) by (simp add: handle_message_def)
  have "\<not> (\<exists>e. effects = [Send (GraphErrorResponse_new e)])"
    using h assms(7,8)
    by (auto simp: handle_clear_def Let_def graph_clear_def GraphClearResponse_new_def GraphErrorResponse_new_def
        respond_def)
  with clear_outcome [OF h] have *: "graph_name (wd_heap w' (wd_graph w)) = gc_name p"
    "\<forall>a. a \<noteq> wd_graph w \<longrightarrow> wd_heap w' a = wd_heap w a"
    "mg_graphs (rt_graphs (wd_runtime w')) =
      ((mg_graphs (rt_graphs (wd_runtime w)))(rt_graph (wd_runtime w) := None))(gc_name p \<mapsto> wd_graph w)"
    by blast+
  with assms(3-6) have own: "mg_graphs (rt_graphs (wd_runtime w')) own = Some (wd_graph w)" by simp
  with *(1) assms(5) have "\<not> names_agree w'" unfolding names_agree_def by metis
  with * own assms(5,6) show ?thesis
    by (auto simp: get_graph_by_name_def get_graph_def add_edge_def)
qed

definition two_graphs :: "(list_queue, unit, int) world" where
  "two_graphs = set_graph 1 (Graph_new ''h'' [] [])
     (set_runtime (demo_runtime\<lparr>rt_graph := ''h'', rt_graphs := add_graph ''h'' 1 (rt_graphs demo_runtime)\<rparr>)
       demo_world)"

definition clear_request :: "string \<Rightarrow> GraphClearRequestPayload" where
  "clear_request name = \<lparr>gc_name = name, gc_label = None, gc_library = None, gc_main = False,
     gc_icon = None, gc_description = None, gc_secret = None\<rparr>"

lemma clear_orphans_graphs_witness:
  "\<exists>w' effects. handle_message demo_service (FbpGraph (GrClear (clear_request ''new''))) two_graphs =
     Yields (w', effects) \<and> \<not> names_agree w' \<and> mg_graphs (rt_graphs (wd_runtime w')) ''h'' = None"
proof -
  have two: "wd_runtime two_graphs = demo_runtime\<lparr>rt_graph := ''h'', rt_graphs := add_graph ''h'' 1 (rt_graphs demo_runtime)\<rparr>"
    "wd_graph two_graphs = 0" "wd_heap two_graphs = (\<lambda>a. if a = 1 then Graph_new ''h'' [] [] else demo_graph)"
    by (auto simp: two_graphs_def set_graph_def set_runtime_def demo_world_def)
  obtain w' effects where h: "handle_message demo_service (FbpGraph (GrClear (clear_request ''new''))) two_graphs =
      Yields (w', effects)"
    using clear_answers [of "clear_request ''new''" two_graphs] by (auto simp: handle_message_def)
  have "names_agree two_graphs"
    by (auto simp: names_agree_def two add_graph_def Graph_new_def)
  from clear_orphans_graphs [OF h this, of "''g''"] h show ?thesis
    by (auto simp: two add_graph_def clear_request_def secret_valid_def validate_secret_with_access_def)
qed

section \<open>Every message is answered\<close>

definition answered :: "('q, 'c, 'n) reply \<Rightarrow> bool" where
  "answered reply \<longleftrightarrow>
     (\<exists>w effects. reply = Yields (w, effects) \<and> (CloseSocket \<in> set effects \<or> (\<exists>r. Send r \<in> set effects)))"

lemma answered_send: "Send r \<in> set effects \<Longrightarrow> answered (Yields (w, effects))"
  by (auto simp: answered_def)

lemma answered_simps [simp]: "answered (Yields (w, Send r # effects))" "answered (Yields (w, [CloseSocket]))"
  by (auto simp: answered_def)




lemma answered_network_request:
  "(\<And>a. get_graph_by_name graph w = Inr a \<Longrightarrow> answered (cont a w)) \<Longrightarrow>
   answered (network_request allowed graph cont w)"
  by (auto simp: network_request_def split: sum.split)



lemma answered_network_message:
  assumes "\<not> (\<exists>p. x = NwStart p)"
  shows "answered (handle_message E (FbpNetwork x) w)"
proof (cases x)
  case (NwPersist p)
  with persist_answers [of E p w] show ?thesis by (auto simp: handle_message_def)
qed (use assms in \<open>auto simp: handle_message_def handle_getstatus_def handle_edges_def handle_debug_def
       handle_network_stop_def Let_def split: sum.split prod.split intro!: answered_network_request\<close>)



section \<open>Network life cycle as a client sees it\<close>

lemma status_message_inj [simp]:
  "NetworkStatusMessage_new p = NetworkStatusMessage_new q \<longleftrightarrow> p = q"
  "network_error e g \<noteq> NetworkStatusMessage_new q" "NetworkStatusMessage_new q \<noteq> network_error e g"
  by (simp_all add: NetworkStatusMessage_new_def network_error_def NetworkErrorResponse_new_def respond_def)

text \<open>
  \<open>network:getstatus\<close> never reports a network as running: a status that is sent for a graph says
  it is not running, and started only when the runtime had it started.
\<close>

theorem getstatus_never_reports_running:
  assumes "handle_message E (FbpNetwork (NwGetstatus p)) w = Yields (w', effects)"
    and "Send (NetworkStatusMessage_new st) \<in> set effects"
  shows "\<not> (nst_started st \<and> nst_running st) \<and> nst_graph st = ng_graph p \<and>
    (\<exists>s. st = requested_status (ng_graph p) s)"
proof -
  have "handle_getstatus E p w = Yields (w', effects)" using assms(1) by (simp add: handle_message_def)
  from getstatus_outcome [OF this] assms(2) obtain s where "st = requested_status (ng_graph p) s" by auto
  then show ?thesis by (auto simp: requested_status_def Let_def NetworkStatusPayload_new_def)
qed

text \<open>The network of the demonstration, running.\<close>

definition running_world :: "(list_queue, unit, int) world" where
  "running_world = set_runtime
     (demo_runtime\<lparr>rt_status := \<lparr>rs_time_started = 0, rs_graph = ''g'', rs_started = True, rs_running = True,
        rs_debug = None\<rparr>, rt_watchdog_thread := True, rt_scheduler_threads := [''g'']\<rparr>) demo_world"

lemma running_world_simps [simp]:
  "wd_runtime running_world = demo_runtime\<lparr>rt_status := \<lparr>rs_time_started = 0, rs_graph = ''g'',
     rs_started = True, rs_running = True, rs_debug = None\<rparr>, rt_watchdog_thread := True,
     rt_scheduler_threads := [''g'']\<rparr>"
  "get_graph_by_name ''g'' running_world = Inr 0"
  by (simp_all add: running_world_def set_runtime_def get_graph_by_name_def get_graph_def)

lemma secret_valid_None [simp]: "secret_valid None graph r" "secret_valid_readonly None graph r"
  by (simp_all add: secret_valid_def secret_valid_readonly_def validate_secret_with_access_def)

lemma getstatus_never_reports_running_witness:
  "\<exists>w' st. handle_message demo_service (FbpNetwork (NwGetstatus \<lparr>ng_graph = ''g'', ng_secret = None\<rparr>)) running_world =
     Yields (w', [Send (NetworkStatusMessage_new st)]) \<and> nst_started st \<and> \<not> nst_running st \<and>
     rs_running (rt_status (wd_runtime running_world))"
proof -
  let ?m = "FbpNetwork (NwGetstatus \<lparr>ng_graph = ''g'', ng_secret = None\<rparr>)"
  obtain r s where s: "status_snapshot 0 (wd_runtime running_world) = (r, s)" by fastforce
  then have "ss_graph s = ''g''" "ss_started s"
    by (auto simp: status_snapshot_def RuntimeStatus_snapshot_def Let_def split: prod.splits)
  with s obtain w' st where h: "handle_message demo_service ?m running_world =
      Yields (w', [Send (NetworkStatusMessage_new st)])" "nst_started st"
    by (auto simp: handle_message_def handle_getstatus_def network_request_def Let_def demo_service_def
        requested_status_def NetworkStatusPayload_new_def split: prod.splits)
  have "\<not> (nst_started st \<and> nst_running st)"
    using getstatus_never_reports_running [OF h(1), of st] by simp
  with h show ?thesis by auto
qed

lemma status_snapshot_frame:
  assumes "status_snapshot now r = (r', s)"
  shows "rt_status r' = rt_status r" "rt_boundary_threads r' = rt_boundary_threads r"
    "rt_watchdog_thread r' = rt_watchdog_thread r" "rt_scheduler_threads r' = rt_scheduler_threads r"
    "ss_running s = rs_running (rt_status r)" "ss_started s = rs_started (rt_status r)"
    "ss_graph s = rs_graph (rt_status r)"
  using assms
  by (auto simp: status_snapshot_def collect_scheduler_metrics_def RuntimeStatus_snapshot_def Let_def)

lemma start_refused:
  "rt_boundary_threads (nw_runtime net) \<noteq> [] \<or> rt_watchdog_thread (nw_runtime net) \<Longrightarrow>
   start E lib g net = Yields (net, Inl already_running)"
  by (auto simp: start_def Let_def)

text \<open>
  A stop is acknowledged before it happens. The client that stops a running network is told at
  once that it has stopped, and the status says so, while every thread of the network is still there;
  until the thread that was left to do it has stopped them, starting any graph is refused as already
  running. If they all end in time, nothing is left then that a start is refused for.
\<close>

theorem stop_is_acknowledged_before_it_happens:
  assumes "handle_message E (FbpNetwork (NwStop p)) w = Yields (w', effects)"
    and "secret_valid (nx_secret p) (nx_graph p) (wd_runtime w)"
    and "get_graph_by_name (nx_graph p) w = Inr a"
    and "rs_graph (rt_status (wd_runtime w)) = nx_graph p" and "rs_running (rt_status (wd_runtime w))"
    and "rt_watchdog_thread (wd_runtime w)"
  shows "(\<exists>s. effects = [Send (NetworkStoppedResponse_new (sv_utc E) s),
        Broadcast (NetworkStatusMessage_new (NetworkStatusPayload_new s)), StopInBackground] \<and>
      \<not> ss_started s \<and> \<not> ss_running s) \<and>
    \<not> rs_running (rt_status (wd_runtime w')) \<and>
    rt_boundary_threads (wd_runtime w') = rt_boundary_threads (wd_runtime w) \<and>
    rt_scheduler_threads (wd_runtime w') = rt_scheduler_threads (wd_runtime w) \<and>
    start E' lib g (wd_net w') = Yields (wd_net w', Inl already_running) \<and>
    (let down = wd_runtime (stop_in_background inports (\<lambda>_. True) (\<lambda>_. True) True w')
     in rt_boundary_threads down = [] \<and> rt_scheduler_threads down = [] \<and> \<not> rt_watchdog_thread down \<and>
       \<not> rs_running (rt_status down))"
proof -
  have "handle_network_stop E p w = Yields (w', effects)" using assms(1) by (simp add: handle_message_def)
  then obtain r s where r: "status_snapshot (sv_now E) (mark_stopped (nx_graph p) (wd_runtime w)) = (r, s)"
    and w': "w' = set_runtime r w"
    and eff: "effects = [Send (NetworkStoppedResponse_new (sv_utc E) s),
        Broadcast (NetworkStatusMessage_new (NetworkStatusPayload_new s)), StopInBackground]"
    using assms(2-5) by (auto simp: handle_network_stop_def network_request_def Let_def split: prod.splits)
  note fr = status_snapshot_frame [OF r]
  have watchdog: "rt_watchdog_thread (wd_runtime w')"
    using w' fr(3) assms(6) by (simp add: set_runtime_def mark_stopped_def)
  have refused: "start E' lib g (wd_net w') = Yields (wd_net w', Inl already_running)"
    using watchdog by (intro start_refused) simp
  show ?thesis
    using w' fr eff refused
    by (auto simp: set_runtime_def mark_stopped_def stop_in_background_def runtime_stop_def Let_def)
qed

lemma stop_is_acknowledged_before_it_happens_witness:
  "\<exists>w' effects. handle_message demo_service (FbpNetwork (NwStop \<lparr>nx_graph = ''g'', nx_secret = None\<rparr>)) running_world =
     Yields (w', effects) \<and> \<not> rs_running (rt_status (wd_runtime w')) \<and>
     rt_scheduler_threads (wd_runtime w') = [''g''] \<and>
     start demo_env demo_library demo_graph (wd_net w') = Yields (wd_net w', Inl already_running)"
proof -
  let ?m = "FbpNetwork (NwStop \<lparr>nx_graph = ''g'', nx_secret = None\<rparr>)"
  obtain w' effects where h: "handle_message demo_service ?m running_world = Yields (w', effects)"
    using answered_network_message [of "NwStop \<lparr>nx_graph = ''g'', nx_secret = None\<rparr>" demo_service running_world]
    by (auto simp: answered_def)
  from stop_is_acknowledged_before_it_happens [OF h, of 0 demo_env demo_library demo_graph "[]"] h
  show ?thesis by simp
qed

section \<open>Restart\<close>




end
