(* ===== verification/Strings.thy ===== *)
theory Strings
  imports Prelude
begin

text \<open>
  The operations of the standard library on strings and byte slices that the components use:
  \<open>starts_with\<close>, \<open>ends_with\<close>, \<open>contains\<close>, \<open>trim\<close>, \<open>replace\<close>, \<open>parse::<u64>\<close>, and \<open>split\<close> of bytes. A
  string is the list of its UTF-8 bytes.
\<close>

section \<open>Searching\<close>

fun starts_with :: "'a list \<Rightarrow> 'a list \<Rightarrow> bool" where
  "starts_with s [] = True"
| "starts_with [] (p # ps) = False"
| "starts_with (c # s) (p # ps) = (c = p \<and> starts_with s ps)"

definition ends_with :: "'a list \<Rightarrow> 'a list \<Rightarrow> bool" where
  "ends_with s p = starts_with (rev s) (rev p)"

fun contains_str :: "'a list \<Rightarrow> 'a list \<Rightarrow> bool" where
  "contains_str [] p = starts_with [] p"
| "contains_str (c # s) p = (starts_with (c # s) p \<or> contains_str s p)"

lemma starts_with_iff: "starts_with s p \<longleftrightarrow> (\<exists>t. s = p @ t)"
  by (induction s p rule: starts_with.induct) auto

lemma ends_with_iff: "ends_with s p \<longleftrightarrow> (\<exists>t. s = t @ p)"
  by (metis ends_with_def rev_append rev_rev_ident starts_with_iff)

lemma contains_str_iff: "contains_str s p \<longleftrightarrow> (\<exists>a b. s = a @ p @ b)"
proof (induction s)
  case (Cons c s)
  show ?case
  proof
    assume "contains_str (c # s) p"
    then show "\<exists>a b. c # s = a @ p @ b"
      using Cons by (auto simp: starts_with_iff) (metis append_Cons append_Nil)+
  next
    assume "\<exists>a b. c # s = a @ p @ b"
    then obtain a b where "c # s = a @ p @ b" by blast
    then have "starts_with (c # s) p \<or> contains_str s p"
      using Cons by (cases a) (auto simp: starts_with_iff)
    then show "contains_str (c # s) p" by simp
  qed
qed (auto simp: starts_with_iff)

lemma starts_with_length: "starts_with s p \<Longrightarrow> length p \<le> length s"
  by (auto simp: starts_with_iff)

lemma find_SomeD: "List.find P xs = Some x \<Longrightarrow> P x \<and> x \<in> set xs"
  by (induction xs) (auto split: if_splits)

section \<open>Trimming\<close>

text \<open>The characters of Unicode's \<open>White_Space\<close>.\<close>

definition bytes_str :: "nat list \<Rightarrow> string" where
  "bytes_str = map char_of"

definition white_space :: "string list" where
  "white_space =
     map (\<lambda>b. bytes_str [b]) [9, 10, 11, 12, 13, 32] @ map bytes_str [[0xC2, 0x85], [0xC2, 0xA0], [0xE1, 0x9A, 0x80]] @
     map (\<lambda>b. bytes_str [0xE2, 0x80, b])
       [0x80, 0x81, 0x82, 0x83, 0x84, 0x85, 0x86, 0x87, 0x88, 0x89, 0x8A, 0xA8, 0xA9, 0xAF] @
     map bytes_str [[0xE2, 0x81, 0x9F], [0xE3, 0x80, 0x80]]"

function trim_with :: "'a list list \<Rightarrow> 'a list \<Rightarrow> 'a list" where
  "trim_with ws s =
     (case List.find (\<lambda>w. w \<noteq> [] \<and> starts_with s w) ws of
        None \<Rightarrow> s
      | Some w \<Rightarrow> trim_with ws (drop (length w) s))"
  by pat_completeness auto
termination
  by (relation "measure (\<lambda>(ws, s). length s)") (auto dest!: find_SomeD simp: starts_with_iff)

declare trim_with.simps [simp del]

definition str_trim :: "string \<Rightarrow> string" where
  "str_trim s = rev (trim_with (map rev white_space) (rev (trim_with white_space s)))"

section \<open>Replacing\<close>

text \<open>An empty pattern matches before every character and at the end.\<close>

definition continuation :: "char \<Rightarrow> bool" where
  "continuation c \<longleftrightarrow> utf8_between 0x80 0xBF (of_char c)"

fun replace_between :: "string \<Rightarrow> string \<Rightarrow> string" where
  "replace_between to [] = to"
| "replace_between to (c # s) = (if continuation c then c # replace_between to s else to @ c # replace_between to s)"

function replace_all :: "string \<Rightarrow> string \<Rightarrow> string \<Rightarrow> string" where
  "replace_all pat to [] = []"
| "replace_all pat to (c # s) =
     (if pat \<noteq> [] \<and> starts_with (c # s) pat then to @ replace_all pat to (drop (length pat) (c # s))
      else c # replace_all pat to s)"
  by pat_completeness auto
termination
  by (relation "measure (\<lambda>(pat, to, s). length s)") (auto simp: less_Suc_eq_le Suc_diff_le neq_Nil_conv)

declare replace_all.simps(2) [simp del]

definition str_replace :: "string \<Rightarrow> string \<Rightarrow> string \<Rightarrow> string" where
  "str_replace text pat to = (if pat = [] then replace_between to text else replace_all pat to text)"

section \<open>Bytes and numbers\<close>

fun split_bytes :: "u8 \<Rightarrow> u8 list \<Rightarrow> u8 list list" where
  "split_bytes c [] = [[]]"
| "split_bytes c (x # xs) =
     (if x = c then [] # split_bytes c xs
      else (case split_bytes c xs of [] \<Rightarrow> [[x]] | p # ps \<Rightarrow> (x # p) # ps))"

definition is_digit :: "char \<Rightarrow> bool" where
  "is_digit c \<longleftrightarrow> utf8_between 48 57 (of_char c)"

definition digits_value :: "string \<Rightarrow> nat" where
  "digits_value ds = foldl (\<lambda>n c. 10 * n + (of_char c - 48)) 0 ds"

text \<open>\<open>parse::<u64>\<close>: an optional plus, digits, no overflow.\<close>

definition parse_u64 :: "string \<Rightarrow> u64 option" where
  "parse_u64 s =
     (let ds = (case s of c # r \<Rightarrow> if c = CHR ''+'' then r else s | [] \<Rightarrow> [])
      in if ds \<noteq> [] \<and> list_all is_digit ds \<and> digits_value ds < 2 ^ 64
         then Some (of_nat (digits_value ds)) else None)"

section \<open>Bytes and hexadecimal numbers\<close>

text \<open>\<open>into_bytes\<close>, and \<open>{:016x}\<close>: sixteen lower-case digits.\<close>

definition into_bytes :: "string \<Rightarrow> u8 list" where
  "into_bytes s = map of_char s"

fun hex_digits :: "nat \<Rightarrow> nat \<Rightarrow> string" where
  "hex_digits 0 n = []"
| "hex_digits (Suc k) n = hex_digits k (n div 16) @ [''0123456789abcdef'' ! (n mod 16)]"

definition show_hex16 :: "u64 \<Rightarrow> string" where
  "show_hex16 n = hex_digits 16 (unat n)"

lemma hex_digits_length [simp]: "length (hex_digits k n) = k"
  by (induction k arbitrary: n) simp_all

end
