(* ===== verification/Node_IO.thy ===== *)
theory Node_IO
  imports Network Strings
begin

text \<open>
  What a component sees of the network while it runs (\<open>component_api/src/lib.rs\<close>): the ends of its
  channels, its signal channel, and the clock. Nodes share the scheduler's thread, but graph inports,
  graph outports, signals and the watchdog live on other threads, so what those do between two calls
  of the component is part of the state: \<open>io_external\<close> lists, call by call, the events that precede
  it. The messages the component itself took and sent are logged in order, with their channels.
\<close>

section \<open>The environment of a node\<close>

datatype external =
    Arrives nat MessageBuf
  | Taken nat
  | Abandoned nat
  | Signalled MessageBuf
  | Collected
  | Elapsed duration

record 'q node_io =
  io_channels :: "nat \<Rightarrow> 'q"
  io_abandoned :: "nat \<Rightarrow> bool"
  io_signals :: "MessageBuf list"
  io_answers :: "MessageBuf list"
  io_clock :: instant
  io_external :: "external list list"
  io_read :: "(nat \<times> MessageBuf) list"
  io_sent :: "(nat \<times> MessageBuf) list"
  io_woken :: "string list"
  io_traced :: "FbpMessage list"
  io_printed :: "string list"
  io_network_output :: "string list"
  io_previews :: "string list"

definition node_io_new :: "(nat \<Rightarrow> 'q) \<Rightarrow> external list list \<Rightarrow> 'q node_io" where
  "node_io_new chans ext =
     \<lparr>io_channels = chans, io_abandoned = (\<lambda>_. False), io_signals = [], io_answers = [], io_clock = 0,
      io_external = ext, io_read = [], io_sent = [], io_woken = [], io_traced = [],
      io_printed = [], io_network_output = [], io_previews = []\<rparr>"

text \<open>
  The signal channels are bounded; a signal that does not fit waits or is dropped at its sender, a
  message that does not fit in an edge stays with its producer.
\<close>

fun happens :: "'q ring_ops \<Rightarrow> external \<Rightarrow> 'q node_io \<Rightarrow> 'q node_io" where
  "happens R (Arrives c m) io =
     (case ring_push R m (io_channels io c) of
        None \<Rightarrow> io | Some q \<Rightarrow> io\<lparr>io_channels := (io_channels io)(c := q)\<rparr>)"
| "happens R (Taken c) io =
     (case ring_pop R (io_channels io c) of
        None \<Rightarrow> io | Some (q, m) \<Rightarrow> io\<lparr>io_channels := (io_channels io)(c := q)\<rparr>)"
| "happens R (Abandoned c) io = io\<lparr>io_abandoned := (io_abandoned io)(c := True)\<rparr>"
| "happens R (Signalled m) io =
     (if length (io_signals io) < PROCESSEDGE_SIGNAL_BUFSIZE
      then io\<lparr>io_signals := io_signals io @ [m]\<rparr> else io)"
| "happens R Collected io = io\<lparr>io_answers := tl (io_answers io)\<rparr>"
| "happens R (Elapsed d) io = io\<lparr>io_clock := io_clock io + d\<rparr>"

definition meanwhile :: "'q ring_ops \<Rightarrow> 'q node_io \<Rightarrow> 'q node_io" where
  "meanwhile R io =
     (case io_external io of
        [] \<Rightarrow> io
      | es # rest \<Rightarrow> fold (happens R) es (io\<lparr>io_external := rest\<rparr>))"

section \<open>The calls of a component\<close>

text \<open>\<open>ProcessEdgeSource\<close> is the consumer of a ring buffer.\<close>

definition pop :: "'q ring_ops \<Rightarrow> nat \<Rightarrow> 'q node_io \<Rightarrow> 'q node_io \<times> MessageBuf option" where
  "pop R c io0 =
     (let io = meanwhile R io0 in
      case source_pop R c (io_channels io) of
        None \<Rightarrow> (io, None)
      | Some (chans, m) \<Rightarrow>
          (io\<lparr>io_channels := chans, io_read := io_read io @ [(c, m)]\<rparr>, Some m))"

definition slots :: "'q ring_ops \<Rightarrow> nat \<Rightarrow> 'q node_io \<Rightarrow> 'q node_io \<times> nat" where
  "slots R c io0 = (let io = meanwhile R io0 in (io, ring_slots R (io_channels io c)))"

definition is_empty :: "'q ring_ops \<Rightarrow> nat \<Rightarrow> 'q node_io \<Rightarrow> 'q node_io \<times> bool" where
  "is_empty R c io0 = (let (io, n) = slots R c io0 in (io, n = 0))"

definition is_abandoned :: "'q ring_ops \<Rightarrow> nat \<Rightarrow> 'q node_io \<Rightarrow> 'q node_io \<times> bool" where
  "is_abandoned R c io0 = (let io = meanwhile R io0 in (io, io_abandoned io c))"

text \<open>
  \<open>ProcessEdgeSink::push\<close>: true when the message was accepted, and then the consumer's node is
  signalled and a traced edge reports the message; otherwise the caller has it back.
\<close>

definition push :: "'q ring_ops \<Rightarrow> MessageBuf \<Rightarrow> ProcessEdgeSink \<Rightarrow> 'q node_io \<Rightarrow> 'q node_io \<times> bool" where
  "push R m k io0 =
     (let io = meanwhile R io0 in
      case sink_push R m k (io_channels io) of
        None \<Rightarrow> (io, False)
      | Some eff \<Rightarrow>
          (io\<lparr>io_channels := pu_channels eff,
              io_sent := io_sent io @ [(sk_sink k, m)],
              io_woken := io_woken io @ (case pu_signal eff of None \<Rightarrow> [] | Some n \<Rightarrow> [n]),
              io_traced := io_traced io @ (case pu_trace eff of None \<Rightarrow> [] | Some t \<Rightarrow> [t])\<rparr>, True))"

definition time_now :: "'q ring_ops \<Rightarrow> 'q node_io \<Rightarrow> 'q node_io \<times> instant" where
  "time_now R io0 = (let io = meanwhile R io0 in (io, io_clock io))"

definition try_recv :: "'q ring_ops \<Rightarrow> 'q node_io \<Rightarrow> 'q node_io \<times> MessageBuf option" where
  "try_recv R io0 =
     (let io = meanwhile R io0 in
      case io_signals io of [] \<Rightarrow> (io, None) | m # ms \<Rightarrow> (io\<lparr>io_signals := ms\<rparr>, Some m))"

definition try_send :: "'q ring_ops \<Rightarrow> MessageBuf \<Rightarrow> 'q node_io \<Rightarrow> 'q node_io" where
  "try_send R m io0 =
     (let io = meanwhile R io0 in
      if length (io_answers io) < PROCESSEDGE_SIGNAL_BUFSIZE
      then io\<lparr>io_answers := io_answers io @ [m]\<rparr> else io)"

text \<open>
  Every component begins with, and most repeat in their loops, the same passage: it takes one signal,
  finishes on \<open>stop\<close> and answers \<open>ping\<close>. Components differ in whether they read a signal of bytes.
\<close>

definition text_or_utf8 :: "MessageBuf \<Rightarrow> string" where
  "text_or_utf8 m = (case message_as_utf8 m of None \<Rightarrow> [] | Some t \<Rightarrow> t)"

definition text_only :: "MessageBuf \<Rightarrow> string" where
  "text_only m = (case as_text m of None \<Rightarrow> [] | Some t \<Rightarrow> t)"

definition check_signals ::
    "'q ring_ops \<Rightarrow> (MessageBuf \<Rightarrow> string) \<Rightarrow> 'q node_io \<Rightarrow> 'q node_io \<times> bool" where
  "check_signals R read io0 =
     (case try_recv R io0 of
        (io, None) \<Rightarrow> (io, False)
      | (io, Some m) \<Rightarrow>
          if read m = ''stop'' then (io, True)
          else if read m = ''ping'' then (try_send R (from_str ''pong'') io, False)
          else (io, False))"

text \<open>\<open>println!\<close>, and \<open>send_network_output_comfortable\<close> on the handle of the graph.\<close>

definition println :: "string \<Rightarrow> 'q node_io \<Rightarrow> 'q node_io" where
  "println s io = io\<lparr>io_printed := io_printed io @ [s]\<rparr>"

definition network_output :: "string \<Rightarrow> 'q node_io \<Rightarrow> 'q node_io" where
  "network_output s io = io\<lparr>io_network_output := io_network_output io @ [s]\<rparr>"

text \<open>\<open>send_network_previewurl_comfortable\<close>.\<close>

definition network_previewurl :: "string \<Rightarrow> 'q node_io \<Rightarrow> 'q node_io" where
  "network_previewurl url io = io\<lparr>io_previews := io_previews io @ [url]\<rparr>"

section \<open>Taking the ports\<close>

text \<open>\<open>remove(port).expect(msg).pop().unwrap()\<close>: the last end of the port is kept.\<close>

definition take_last :: "string \<Rightarrow> string \<Rightarrow> 'a multimap \<Rightarrow> ('a multimap \<times> 'a) outcome" where
  "take_last port msg ports =
     (case ports port of
        None \<Rightarrow> Panicked msg
      | Some [] \<Rightarrow> Panicked ''called `Option::unwrap()` on a `None` value''
      | Some (e # es) \<Rightarrow> Returned (ports(port := None), last (e # es)))"

definition take_array :: "string \<Rightarrow> string \<Rightarrow> 'a multimap \<Rightarrow> ('a multimap \<times> 'a list) outcome" where
  "take_array port msg ports =
     (case ports port of None \<Rightarrow> Panicked msg | Some es \<Rightarrow> Returned (ports(port := None), es))"

section \<open>Budget and result\<close>

text \<open>
  Arithmetic on \<open>u64\<close> and \<open>u32\<close> panics on overflow in a debug build (\<open>chk\<close>) and wraps in a release
  build.
\<close>

definition checked_add :: "bool \<Rightarrow> u64 \<Rightarrow> u64 \<Rightarrow> u64 outcome" where
  "checked_add chk a b =
     (if chk \<and> 2 ^ 64 \<le> unat a + unat b then Panicked ''attempt to add with overflow'' else Returned (a + b))"

definition checked_dec :: "bool \<Rightarrow> u32 \<Rightarrow> u32 outcome" where
  "checked_dec chk a = (if chk \<and> a = 0 then Panicked ''attempt to subtract with overflow'' else Returned (a - 1))"

text \<open>The end of \<open>process\<close>: the loops count budget and work below 2 ^ 32.\<close>

definition with_budget :: "nat \<Rightarrow> NodeContext \<Rightarrow> NodeContext" where
  "with_budget b ctx = ctx\<lparr>remaining_budget := of_nat b\<rparr>"

definition budget_left :: "NodeContext \<Rightarrow> nat" where
  "budget_left ctx = unat (remaining_budget ctx)"

definition work_result :: "nat \<Rightarrow> ProcessResult" where
  "work_result n = (if 0 < n then DidWork (of_nat n) else NoWork)"

section \<open>Lemmas\<close>

text \<open>What the component itself did to the channels: nothing (\<open>quiet\<close>), or one entry of the log.\<close>

definition quiet :: "'q node_io \<Rightarrow> 'q node_io \<Rightarrow> bool" where
  "quiet io io' \<longleftrightarrow> io_read io' = io_read io \<and> io_sent io' = io_sent io"

lemma quiet_refl [simp]: "quiet io io" by (simp add: quiet_def)

lemma quiet_trans: "quiet io io1 \<Longrightarrow> quiet io1 io2 \<Longrightarrow> quiet io io2"
  by (simp add: quiet_def)

lemma quietD: "quiet io io' \<Longrightarrow> io_read io' = io_read io" "quiet io io' \<Longrightarrow> io_sent io' = io_sent io"
  by (simp_all add: quiet_def)

lemma happens_quiet: "quiet io (happens R e io)"
  by (cases e) (auto simp: quiet_def split: option.splits)

lemma fold_happens_quiet: "quiet io (fold (happens R) es io)"
  by (induction es arbitrary: io) (auto intro: quiet_trans happens_quiet)

lemma meanwhile_quiet: "quiet io (meanwhile R io)"
  using fold_happens_quiet [of "io\<lparr>io_external := _\<rparr>"]
  by (auto simp: meanwhile_def quiet_def split: list.split)

lemmas meanwhile_logs [simp] = quietD [OF meanwhile_quiet]

lemma pop_logs:
  "pop R c io = (io', r) \<Longrightarrow>
     io_sent io' = io_sent io \<and> io_read io' = io_read io @ (case r of None \<Rightarrow> [] | Some m \<Rightarrow> [(c, m)])"
  by (auto simp: pop_def Let_def split: option.splits prod.splits)

lemma push_logs:
  "push R m k io = (io', ok) \<Longrightarrow>
     io_read io' = io_read io \<and> io_sent io' = io_sent io @ (if ok then [(sk_sink k, m)] else [])"
  by (auto simp: push_def Let_def split: option.splits)

lemma slots_quiet: "slots R c io = (io', n) \<Longrightarrow> quiet io io'"
  by (auto simp: slots_def Let_def quiet_def)

lemma is_empty_quiet: "is_empty R c io = (io', b) \<Longrightarrow> quiet io io'"
  by (auto simp: is_empty_def split: prod.splits dest: slots_quiet)

lemma is_abandoned_quiet: "is_abandoned R c io = (io', b) \<Longrightarrow> quiet io io'"
  by (auto simp: is_abandoned_def Let_def quiet_def)

lemma time_now_quiet: "time_now R io = (io', t) \<Longrightarrow> quiet io io'"
  by (auto simp: time_now_def Let_def quiet_def)

lemma try_recv_quiet: "try_recv R io = (io', s) \<Longrightarrow> quiet io io'"
  by (auto simp: try_recv_def Let_def quiet_def split: list.splits)

lemma try_send_quiet: "quiet io (try_send R m io)"
  by (auto simp: try_send_def Let_def quiet_def)

lemma check_signals_quiet: "check_signals R f io = (io', b) \<Longrightarrow> quiet io io'"
  by (auto simp: check_signals_def split: prod.splits option.splits if_splits
      intro: quiet_trans [OF _ try_send_quiet] dest!: try_recv_quiet)

lemma output_quiet [simp]:
  "quiet io (println s io)" "quiet io (network_output s io)" "quiet io (network_previewurl s io)"
  by (simp_all add: quiet_def println_def network_output_def network_previewurl_def)

lemmas quiet_calls = slots_quiet is_empty_quiet is_abandoned_quiet time_now_quiet check_signals_quiet

lemma with_budget_simps [simp]:
  "node_id (with_budget b ctx) = node_id ctx" "budget_class (with_budget b ctx) = budget_class ctx"
  "ctx_wake_at (with_budget b ctx) = ctx_wake_at ctx" "ready_signal (with_budget b ctx) = ready_signal ctx"
  "timer_fired_at (with_budget b ctx) = timer_fired_at ctx"
  by (simp_all add: with_budget_def)

lemma budget_left_bound: "budget_left ctx < 2 ^ 32"
  unfolding budget_left_def by (rule order_less_le_trans [OF unsigned_less]) simp

lemma budget_left_with [simp]: "b \<le> budget_left ctx \<Longrightarrow> budget_left (with_budget b ctx') = b"
  using budget_left_bound [of ctx]
  by (simp add: budget_left_def with_budget_def unat_of_nat)

end
