(* ===== verification/Relays.thy ===== *)
theory Relays
  imports Node_IO
begin

text \<open>
  The components that pass packets on unchanged: \<open>Repeat\<close>, \<open>Drop\<close>, \<open>Muxer\<close> and \<open>Demux3\<close>
  (\<open>components/repeat\<close>, \<open>drop\<close>, \<open>muxer\<close>). Each has its state, its construction from the ports the
  network hands it, its metadata, and its \<open>process()\<close> with the loops as functions of the budget left and
  the work done.
\<close>

section \<open>Metadata\<close>

definition metadata_default :: ComponentComponentPayload where
  "metadata_default =
     \<lparr>comp_name = ''main/Repeat'', comp_description = ''description of the Repeat component'',
      comp_icon = ''fa-usd'', subgraph = False, in_ports = [], out_ports = [], support_health = False,
      support_perfdata = False, support_reconnect = False\<rparr>"

definition any_port :: "string \<Rightarrow> bool \<Rightarrow> string \<Rightarrow> string \<Rightarrow> ComponentPort" where
  "any_port name array description dflt =
     \<lparr>port_name = name, allowed_type = ''any'', schema = None, required = True, is_arrayport = array,
      port_description = description, values_allowed = [], value_default = dflt\<rparr>"

section \<open>Repeat\<close>

record RepeatComponent =
  rp_inn :: nat
  rp_out :: ProcessEdgeSink
  rp_pending_out :: "MessageBuf list"

definition Repeat_new :: "nat multimap \<Rightarrow> ProcessEdgeSink multimap \<Rightarrow> RepeatComponent outcome" where
  "Repeat_new inports outports =
     outcome_bind (take_last ''IN'' ''found no IN inport'' inports) (\<lambda>(_, inn).
     outcome_bind (take_last ''OUT'' ''found no OUT outport'' outports) (\<lambda>(_, out).
       Returned \<lparr>rp_inn = inn, rp_out = out, rp_pending_out = []\<rparr>))"

text \<open>The pending packets: budget left, work done, what is still pending.\<close>

fun repeat_flush ::
    "'q ring_ops \<Rightarrow> ProcessEdgeSink \<Rightarrow> nat \<Rightarrow> nat \<Rightarrow> MessageBuf list \<Rightarrow> 'q node_io \<Rightarrow>
     nat \<times> nat \<times> MessageBuf list \<times> 'q node_io" where
  "repeat_flush R out 0 w pending io = (0, w, pending, io)"
| "repeat_flush R out (Suc b) w [] io = (Suc b, w, [], io)"
| "repeat_flush R out (Suc b) w (ip # rest) io =
     (case push R ip out io of
        (io1, True) \<Rightarrow> repeat_flush R out b (w + 1) rest io1
      | (io1, False) \<Rightarrow> (Suc b, w, ip # rest, io1))"

text \<open>The loop over the inport, with whether it was left by a stop signal.\<close>

fun repeat_relay ::
    "'q ring_ops \<Rightarrow> nat \<Rightarrow> ProcessEdgeSink \<Rightarrow> nat \<Rightarrow> nat \<Rightarrow> MessageBuf list \<Rightarrow> 'q node_io \<Rightarrow>
     bool \<times> nat \<times> nat \<times> MessageBuf list \<times> 'q node_io" where
  "repeat_relay R inn out 0 w pending io = (False, 0, w, pending, io)"
| "repeat_relay R inn out (Suc b) w pending io =
     (case check_signals R text_only io of
        (io1, True) \<Rightarrow> (True, Suc b, w, pending, io1)
      | (io1, False) \<Rightarrow>
          (case pop R inn io1 of
             (io2, None) \<Rightarrow> (False, Suc b, w, pending, io2)
           | (io2, Some ip) \<Rightarrow>
               (case push R ip out io2 of
                  (io3, True) \<Rightarrow> repeat_relay R inn out b (w + 1) pending io3
                | (io3, False) \<Rightarrow> (False, Suc b, w, pending @ [ip], io3))))"

definition repeat_process ::
    "'q ring_ops \<Rightarrow> RepeatComponent \<times> 'q node_io \<Rightarrow> NodeContext \<Rightarrow>
     (RepeatComponent \<times> 'q node_io) \<times> NodeContext \<times> ProcessResult" where
  "repeat_process R s ctx =
     (case s of (c, io) \<Rightarrow>
        (case repeat_flush R (rp_out c) (budget_left ctx) 0 (rp_pending_out c) io of
           (b1, w1, p1, io1) \<Rightarrow>
             (case check_signals R text_only io1 of
                (io2, True) \<Rightarrow> ((c\<lparr>rp_pending_out := p1\<rparr>, io2), with_budget b1 ctx, Finished)
              | (io2, False) \<Rightarrow>
                  (case repeat_relay R (rp_inn c) (rp_out c) b1 w1 p1 io2 of
                     (stopped, b2, w2, p2, io3) \<Rightarrow>
                       let c2 = c\<lparr>rp_pending_out := p2\<rparr>; ctx2 = with_budget b2 ctx in
                       if stopped then ((c2, io3), ctx2, Finished)
                       else
                         (let (io4, abandoned) = is_abandoned R (rp_inn c) io3 in
                          if abandoned \<and> p2 = [] then ((c2, io4), ctx2, Finished)
                          else ((c2, io4), ctx2, work_result w2))))))"

definition Repeat_metadata :: ComponentComponentPayload where
  "Repeat_metadata = metadata_default\<lparr>
     comp_name := ''Repeat'', comp_description := ''Copies data as-is from IN port to OUT port.'',
     comp_icon := ''arrow-right'', subgraph := False,
     in_ports := [any_port ''IN'' False ''data to be repeated on outport'' ''''],
     out_ports := [any_port ''OUT'' False ''repeated data from IN port'' '''']\<rparr>"

section \<open>Drop\<close>

record DropComponent =
  dp_inn :: nat

definition Drop_new :: "nat multimap \<Rightarrow> ProcessEdgeSink multimap \<Rightarrow> DropComponent outcome" where
  "Drop_new inports outports =
     outcome_bind (take_last ''IN'' ''found no IN inport'' inports) (\<lambda>(_, inn). Returned \<lparr>dp_inn = inn\<rparr>)"

text \<open>
  \<open>read_chunk(n)\<close> takes \<open>n\<close> messages when that many are there, else none; only the consumer removes
  messages, so it is one call.
\<close>

fun pop_many :: "'q ring_ops \<Rightarrow> nat \<Rightarrow> 'q \<Rightarrow> ('q \<times> MessageBuf list) option" where
  "pop_many R 0 q = Some (q, [])"
| "pop_many R (Suc n) q =
     (case ring_pop R q of
        None \<Rightarrow> None
      | Some (q1, m) \<Rightarrow> (case pop_many R n q1 of None \<Rightarrow> None | Some (q2, ms) \<Rightarrow> Some (q2, m # ms)))"

definition read_chunk ::
    "'q ring_ops \<Rightarrow> nat \<Rightarrow> nat \<Rightarrow> 'q node_io \<Rightarrow> 'q node_io \<times> MessageBuf list option" where
  "read_chunk R c n io0 =
     (let io = meanwhile R io0 in
      case pop_many R n (io_channels io c) of
        None \<Rightarrow> (io, None)
      | Some (q, ms) \<Rightarrow>
          (io\<lparr>io_channels := (io_channels io)(c := q), io_read := io_read io @ map (Pair c) ms\<rparr>, Some ms))"

function drop_loop ::
    "'q ring_ops \<Rightarrow> nat \<Rightarrow> nat \<Rightarrow> nat \<Rightarrow> 'q node_io \<Rightarrow> bool \<times> nat \<times> nat \<times> 'q node_io" where
  "drop_loop R inn b w io =
     (if b = 0 then (False, b, w, io)
      else
        (case is_empty R inn io of
           (io1, True) \<Rightarrow> (False, b, w, io1)
         | (io1, False) \<Rightarrow>
             (case check_signals R text_only io1 of
                (io2, True) \<Rightarrow> (True, b, w, io2)
              | (io2, False) \<Rightarrow>
                  (case slots R inn io2 of
                     (io3, available) \<Rightarrow>
                       let to_process = min available b in
                       if to_process = 0 then (False, b, w, io3)
                       else
                         (case read_chunk R inn to_process io3 of
                            (io4, None) \<Rightarrow> (False, b, w, io4)
                          | (io4, Some chunk) \<Rightarrow>
                              drop_loop R inn (b - to_process) (w + to_process) io4)))))"
  by pat_completeness auto
termination by (relation "measure (\<lambda>(R, inn, b, w, io). b)") auto

declare drop_loop.simps [simp del]

definition drop_process ::
    "'q ring_ops \<Rightarrow> DropComponent \<times> 'q node_io \<Rightarrow> NodeContext \<Rightarrow>
     (DropComponent \<times> 'q node_io) \<times> NodeContext \<times> ProcessResult" where
  "drop_process R s ctx =
     (case s of (c, io) \<Rightarrow>
        (case check_signals R text_only io of
           (io1, True) \<Rightarrow> ((c, io1), ctx, Finished)
         | (io1, False) \<Rightarrow>
             (case drop_loop R (dp_inn c) (budget_left ctx) 0 io1 of
                (stopped, b, w, io2) \<Rightarrow>
                  if stopped then ((c, io2), with_budget b ctx, Finished)
                  else if 0 < w then ((c, io2), with_budget b ctx, work_result w)
                  else
                    (let (io3, abandoned) = is_abandoned R (dp_inn c) io2 in
                     ((c, io3), with_budget b ctx, if abandoned then Finished else NoWork)))))"

definition Drop_metadata :: ComponentComponentPayload where
  "Drop_metadata = metadata_default\<lparr>
     comp_name := ''Drop'', comp_description := ''Drops all packets received on IN port.'',
     comp_icon := ''trash-o'', subgraph := False,
     in_ports := [any_port ''IN'' False ''data to be dropped'' ''''], out_ports := []\<rparr>"

section \<open>Muxer\<close>

record MuxerComponent =
  mx_inn :: "nat list"
  mx_out :: ProcessEdgeSink

definition Muxer_new :: "nat multimap \<Rightarrow> ProcessEdgeSink multimap \<Rightarrow> MuxerComponent outcome" where
  "Muxer_new inports outports =
     outcome_bind (take_array ''IN'' ''found no IN inport'' inports) (\<lambda>(_, inn).
     outcome_bind (take_last ''OUT'' ''found no OUT outport'' outports) (\<lambda>(_, out).
       Returned \<lparr>mx_inn = inn, mx_out = out\<rparr>))"

text \<open>The loop over one inport: a packet that OUT does not take is dropped and the loop is left.\<close>

fun muxer_port ::
    "'q ring_ops \<Rightarrow> nat \<Rightarrow> ProcessEdgeSink \<Rightarrow> nat \<Rightarrow> nat \<Rightarrow> 'q node_io \<Rightarrow> nat \<times> nat \<times> 'q node_io" where
  "muxer_port R inn out 0 w io = (0, w, io)"
| "muxer_port R inn out (Suc b) w io =
     (case is_empty R inn io of
        (io1, True) \<Rightarrow> (Suc b, w, io1)
      | (io1, False) \<Rightarrow>
          (case pop R inn io1 of
             (io2, None) \<Rightarrow> (Suc b, w, io2)
           | (io2, Some ip) \<Rightarrow>
               (case push R ip out io2 of
                  (io3, True) \<Rightarrow> muxer_port R inn out b (w + 1) io3
                | (io3, False) \<Rightarrow> (Suc b, w, io3))))"

fun muxer_ports ::
    "'q ring_ops \<Rightarrow> nat list \<Rightarrow> ProcessEdgeSink \<Rightarrow> nat \<Rightarrow> nat \<Rightarrow> 'q node_io \<Rightarrow> nat \<times> nat \<times> 'q node_io" where
  "muxer_ports R [] out b w io = (b, w, io)"
| "muxer_ports R (inn # inns) out b w io =
     (case muxer_port R inn out b w io of
        (b1, w1, io1) \<Rightarrow> if b1 = 0 then (b1, w1, io1) else muxer_ports R inns out b1 w1 io1)"

fun all_abandoned :: "'q ring_ops \<Rightarrow> nat list \<Rightarrow> 'q node_io \<Rightarrow> 'q node_io \<times> bool" where
  "all_abandoned R [] io = (io, True)"
| "all_abandoned R (inn # inns) io =
     (case is_abandoned R inn io of
        (io1, True) \<Rightarrow> all_abandoned R inns io1
      | (io1, False) \<Rightarrow> (io1, False))"

definition muxer_process ::
    "'q ring_ops \<Rightarrow> MuxerComponent \<times> 'q node_io \<Rightarrow> NodeContext \<Rightarrow>
     (MuxerComponent \<times> 'q node_io) \<times> NodeContext \<times> ProcessResult" where
  "muxer_process R s ctx =
     (case s of (c, io) \<Rightarrow>
        (case check_signals R text_or_utf8 io of
           (io1, True) \<Rightarrow> ((c, io1), ctx, Finished)
         | (io1, False) \<Rightarrow>
             (case muxer_ports R (mx_inn c) (mx_out c) (budget_left ctx) 0 io1 of
                (b, w, io2) \<Rightarrow>
                  (let (io3, abandoned) = all_abandoned R (mx_inn c) io2 in
                   ((c, io3), with_budget b ctx, if abandoned then Finished else work_result w)))))"

definition Muxer_metadata :: ComponentComponentPayload where
  "Muxer_metadata = metadata_default\<lparr>
     comp_name := ''Muxer'', comp_description := ''Copies data as-is from IN port(s) to single OUT port.'',
     comp_icon := ''dedent'', subgraph := False,
     in_ports := [any_port ''IN'' True ''IPs to be multiplexed into outport'' ''''],
     out_ports := [any_port ''OUT'' False ''multiplexed IPs from IN port'' '''']\<rparr>"

section \<open>Demux3\<close>

record Demux3Component =
  dx_inn :: nat
  dx_out_a :: ProcessEdgeSink
  dx_out_b :: ProcessEdgeSink
  dx_out_c :: ProcessEdgeSink
  dx_branch :: u64

definition Demux3_new :: "nat multimap \<Rightarrow> ProcessEdgeSink multimap \<Rightarrow> Demux3Component outcome" where
  "Demux3_new inports outports =
     outcome_bind (take_last ''IN'' ''demux missing IN'' inports) (\<lambda>(_, inn).
     outcome_bind (take_last ''A'' ''demux missing A'' outports) (\<lambda>(outports1, a).
     outcome_bind (take_last ''B'' ''demux missing B'' outports1) (\<lambda>(outports2, b).
     outcome_bind (take_last ''C'' ''demux missing C'' outports2) (\<lambda>(_, c).
       Returned \<lparr>dx_inn = inn, dx_out_a = a, dx_out_b = b, dx_out_c = c, dx_branch = 0\<rparr>))))"

definition demux_out :: "Demux3Component \<Rightarrow> u64 \<Rightarrow> ProcessEdgeSink" where
  "demux_out c branch =
     (if branch mod 3 = 0 then dx_out_a c else if branch mod 3 = 1 then dx_out_b c else dx_out_c c)"

text \<open>\<open>branch\<close> is a \<open>usize\<close>; it wraps as in a release build.\<close>

fun demux_loop ::
    "'q ring_ops \<Rightarrow> Demux3Component \<Rightarrow> nat \<Rightarrow> nat \<Rightarrow> u64 \<Rightarrow> 'q node_io \<Rightarrow> nat \<times> nat \<times> u64 \<times> 'q node_io" where
  "demux_loop R c 0 w branch io = (0, w, branch, io)"
| "demux_loop R c (Suc b) w branch io =
     (case is_empty R (dx_inn c) io of
        (io1, True) \<Rightarrow> (Suc b, w, branch, io1)
      | (io1, False) \<Rightarrow>
          (case pop R (dx_inn c) io1 of
             (io2, None) \<Rightarrow> (Suc b, w, branch, io2)
           | (io2, Some ip) \<Rightarrow>
               (case push R ip (demux_out c branch) io2 of
                  (io3, True) \<Rightarrow> demux_loop R c b (w + 1) (branch + 1) io3
                | (io3, False) \<Rightarrow> (Suc b, w, branch, io3))))"

definition demux_process ::
    "'q ring_ops \<Rightarrow> Demux3Component \<times> 'q node_io \<Rightarrow> NodeContext \<Rightarrow>
     (Demux3Component \<times> 'q node_io) \<times> NodeContext \<times> ProcessResult" where
  "demux_process R s ctx =
     (case s of (c, io) \<Rightarrow>
        (case check_signals R text_or_utf8 io of
           (io1, True) \<Rightarrow> ((c, io1), ctx, Finished)
         | (io1, False) \<Rightarrow>
             (case demux_loop R c (budget_left ctx) 0 (dx_branch c) io1 of
                (b, w, branch, io2) \<Rightarrow>
                  (let (io3, abandoned) = is_abandoned R (dx_inn c) io2 in
                   ((c\<lparr>dx_branch := branch\<rparr>, io3), with_budget b ctx,
                    if abandoned then Finished else work_result w)))))"

definition Demux3_metadata :: ComponentComponentPayload where
  "Demux3_metadata = metadata_default\<lparr>
     comp_name := ''Demux3'', comp_description := ''Demux router (IN -> A|B|C round-robin)'',
     comp_icon := ''random'', subgraph := False,
     in_ports := [default_in\<lparr>port_name := ''IN'', allowed_type := ''any''\<rparr>],
     out_ports := [default_out\<lparr>port_name := ''A'', allowed_type := ''any''\<rparr>,
       default_out\<lparr>port_name := ''B'', allowed_type := ''any''\<rparr>,
       default_out\<lparr>port_name := ''C'', allowed_type := ''any''\<rparr>]\<rparr>"

end
