(* ===== verification/Routing.thy ===== *)
theory Routing
  imports Relays
begin

text \<open>
  The components that decide where a packet goes: \<open>Equals\<close> (\<open>components/equals\<close>), which compares
  with the latest packet of CMP, and \<open>GenericRouter\<close> (\<open>components/router\<close>), whose rules come from a
  JSON configuration. The packages \<open>serde_json\<close> and \<open>regex\<close> are arguments (\<open>router_libs\<close>).
\<close>

section \<open>Equals\<close>

record EqualsComponent =
  eq_cmp :: nat
  eq_inn :: nat
  eq_out_true :: ProcessEdgeSink
  eq_out_false :: ProcessEdgeSink
  eq_cmp_value :: "MessageBuf option"
  eq_pending_packets :: "(MessageBuf \<times> bool) list"

definition Equals_new :: "nat multimap \<Rightarrow> ProcessEdgeSink multimap \<Rightarrow> EqualsComponent outcome" where
  "Equals_new inports outports =
     outcome_bind (take_last ''CMP'' ''found no CMP inport'' inports) (\<lambda>(inports1, cmp).
     outcome_bind (take_last ''IN'' ''found no IN inport'' inports1) (\<lambda>(_, inn).
     outcome_bind (take_last ''TRUE'' ''found no TRUE outport'' outports) (\<lambda>(outports1, t).
     outcome_bind (take_last ''FALSE'' ''found no FALSE outport'' outports1) (\<lambda>(_, f).
       Returned \<lparr>eq_cmp = cmp, eq_inn = inn, eq_out_true = t, eq_out_false = f,
         eq_cmp_value = None, eq_pending_packets = []\<rparr>))))"

definition equals_out :: "EqualsComponent \<Rightarrow> bool \<Rightarrow> ProcessEdgeSink" where
  "equals_out c route_to_true = (if route_to_true then eq_out_true c else eq_out_false c)"

fun equals_flush ::
    "'q ring_ops \<Rightarrow> EqualsComponent \<Rightarrow> nat \<Rightarrow> nat \<Rightarrow> (MessageBuf \<times> bool) list \<Rightarrow> 'q node_io \<Rightarrow>
     nat \<times> nat \<times> (MessageBuf \<times> bool) list \<times> 'q node_io" where
  "equals_flush R c 0 w pending io = (0, w, pending, io)"
| "equals_flush R c (Suc b) w [] io = (Suc b, w, [], io)"
| "equals_flush R c (Suc b) w ((ip, route_to_true) # rest) io =
     (case push R ip (equals_out c route_to_true) io of
        (io1, True) \<Rightarrow> equals_flush R c b (w + 1) rest io1
      | (io1, False) \<Rightarrow> (Suc b, w, (ip, route_to_true) # rest, io1))"

text \<open>A packet that its port does not take is kept for later, and the loop goes on.\<close>

fun equals_loop ::
    "'q ring_ops \<Rightarrow> EqualsComponent \<Rightarrow> MessageBuf \<Rightarrow> nat \<Rightarrow> nat \<Rightarrow> (MessageBuf \<times> bool) list \<Rightarrow> 'q node_io \<Rightarrow>
     bool \<times> nat \<times> nat \<times> (MessageBuf \<times> bool) list \<times> 'q node_io" where
  "equals_loop R c v 0 w pending io = (False, 0, w, pending, io)"
| "equals_loop R c v (Suc b) w pending io =
     (case check_signals R text_or_utf8 io of
        (io1, True) \<Rightarrow> (True, Suc b, w, pending, io1)
      | (io1, False) \<Rightarrow>
          (case pop R (eq_inn c) io1 of
             (io2, None) \<Rightarrow> (False, Suc b, w, pending, io2)
           | (io2, Some ip) \<Rightarrow>
               let route_to_true = message_eq ip v in
               (case push R ip (equals_out c route_to_true) io2 of
                  (io3, True) \<Rightarrow> equals_loop R c v b (w + 1) pending io3
                | (io3, False) \<Rightarrow> equals_loop R c v b (w + 1) (pending @ [(ip, route_to_true)]) io3)))"

text \<open>The comparison value, read once from CMP before anything else, and updated after the loops.\<close>

definition equals_configure ::
    "'q ring_ops \<Rightarrow> EqualsComponent \<Rightarrow> 'q node_io \<Rightarrow> 'q node_io \<times> MessageBuf option" where
  "equals_configure R c io =
     (case eq_cmp_value c of Some v \<Rightarrow> (io, Some v) | None \<Rightarrow> pop R (eq_cmp c) io)"

definition equals_process ::
    "'q ring_ops \<Rightarrow> EqualsComponent \<times> 'q node_io \<Rightarrow> NodeContext \<Rightarrow>
     (EqualsComponent \<times> 'q node_io) \<times> NodeContext \<times> ProcessResult" where
  "equals_process R s ctx =
     (case s of (c0, io0) \<Rightarrow>
        (case equals_configure R c0 io0 of
           (io, None) \<Rightarrow> ((c0, io), ctx, NoWork)
         | (io, Some v) \<Rightarrow>
             let c = c0\<lparr>eq_cmp_value := Some v\<rparr> in
             (case check_signals R text_or_utf8 io of
                (io1, True) \<Rightarrow> ((c, io1), ctx, Finished)
              | (io1, False) \<Rightarrow>
                  (case equals_flush R c (budget_left ctx) 0 (eq_pending_packets c) io1 of
                     (b2, w2, p2, io2) \<Rightarrow>
                       (case equals_loop R c v b2 w2 p2 io2 of
                          (stopped, b3, w3, p3, io3) \<Rightarrow>
                            let c3 = c\<lparr>eq_pending_packets := p3\<rparr>; ctx3 = with_budget b3 ctx in
                            if stopped then ((c3, io3), ctx3, Finished)
                            else
                              (case pop R (eq_cmp c) io3 of
                                 (io4, new_cmp) \<Rightarrow>
                                   let c4 = (case new_cmp of None \<Rightarrow> c3 | Some u \<Rightarrow> c3\<lparr>eq_cmp_value := Some u\<rparr>);
                                       (io5, abandoned) = is_abandoned R (eq_inn c) io4
                                   in ((c4, io5), ctx3, if abandoned then Finished else work_result w3)))))))"

definition Equals_metadata :: ComponentComponentPayload where
  "Equals_metadata = metadata_default\<lparr>
     comp_name := ''Equals'',
     comp_description := ''Sends each IP from IN port to TRUE or FALSE port, depending on whether it is equal to the latest IP from CMP port'',
     comp_icon := '''', subgraph := False,
     in_ports := [any_port ''CMP'' False ''data to compare against - can be updated at runtime'' '''',
       any_port ''IN'' False ''data to be routed to TRUE or FALSE outport'' ''''],
     out_ports := [
       any_port ''TRUE'' False ''repeated data from IN port if it is equal to the latest IP from CMP port'' '''',
       any_port ''FALSE'' False ''repeated data from IN port if it is not equal to the latest IP from CMP port'' '''']\<rparr>"

section \<open>Rules of the router\<close>

record Condition =
  co_field :: string
  co_operator :: string
  co_value :: string

record RoutingRule =
  rr_condition :: Condition
  rr_output_port :: string

record RouterConfig =
  rc_rules :: "RoutingRule list"
  rc_default_output :: "string option"

datatype 'r RuleOperator = OpEquals | OpContains | OpRegex 'r | OpStartsWith | OpEndsWith

record 'r CompiledRule =
  cr_field :: string
  cr_operator :: "'r RuleOperator"
  cr_value :: string
  cr_output_port :: string

text \<open>
  What the router calls of its packages: parsing a configuration or a JSON value, an object's entries
  and the text of a value (\<open>Value::Object\<close>, \<open>as_str\<close>, \<open>Value::Null\<close>), and regular expressions, whose
  error is displayed.
\<close>

record ('j, 'r) router_libs =
  parse_config :: "string \<Rightarrow> RouterConfig option"
  parse_value :: "string \<Rightarrow> 'j option"
  as_object :: "'j \<Rightarrow> (string \<rightharpoonup> 'j) option"
  as_str :: "'j \<Rightarrow> string option"
  null_value :: 'j
  regex_new :: "string \<Rightarrow> string + 'r"
  regex_is_match :: "'r \<Rightarrow> string \<Rightarrow> bool"

definition compile_operator :: "('j, 'r) router_libs \<Rightarrow> Condition \<Rightarrow> string + 'r RuleOperator" where
  "compile_operator L co =
     (if co_operator co = ''equals'' then Inr OpEquals
      else if co_operator co = ''contains'' then Inr OpContains
      else if co_operator co = ''regex'' then
        (case regex_new L (co_value co) of
           Inr r \<Rightarrow> Inr (OpRegex r)
         | Inl err \<Rightarrow> Inl (''invalid regex '' @ [CHR 0x27] @ co_value co @ [CHR 0x27] @ '': '' @ err))
      else if co_operator co = ''starts_with'' then Inr OpStartsWith
      else if co_operator co = ''ends_with'' then Inr OpEndsWith
      else Inl (''unknown operator: '' @ co_operator co))"

fun compile_rules :: "('j, 'r) router_libs \<Rightarrow> RoutingRule list \<Rightarrow> string + 'r CompiledRule list" where
  "compile_rules L [] = Inr []"
| "compile_rules L (rule # rules) =
     (case compile_operator L (rr_condition rule) of
        Inl err \<Rightarrow> Inl err
      | Inr operator \<Rightarrow>
          (case compile_rules L rules of
             Inl err \<Rightarrow> Inl err
           | Inr compiled \<Rightarrow>
               Inr (\<lparr>cr_field = co_field (rr_condition rule), cr_operator = operator,
                     cr_value = co_value (rr_condition rule), cr_output_port = rr_output_port rule\<rparr>
                    # compiled)))"

fun nested_field :: "('j, 'r) router_libs \<Rightarrow> 'j \<Rightarrow> string list \<Rightarrow> 'j" where
  "nested_field L current [] = current"
| "nested_field L current (part # parts) =
     (case as_object L current of
        None \<Rightarrow> null_value L
      | Some m \<Rightarrow> (case m part of None \<Rightarrow> null_value L | Some v \<Rightarrow> nested_field L v parts))"

definition get_nested_field :: "('j, 'r) router_libs \<Rightarrow> 'j \<Rightarrow> string \<Rightarrow> 'j" where
  "get_nested_field L value field_path = nested_field L value (split_on CHR ''.'' field_path)"

definition evaluate_text_condition :: "('j, 'r) router_libs \<Rightarrow> string \<Rightarrow> 'r CompiledRule \<Rightarrow> bool" where
  "evaluate_text_condition L text rule =
     (case cr_operator rule of
        OpEquals \<Rightarrow> text = cr_value rule
      | OpContains \<Rightarrow> contains_str text (cr_value rule)
      | OpRegex r \<Rightarrow> regex_is_match L r text
      | OpStartsWith \<Rightarrow> starts_with text (cr_value rule)
      | OpEndsWith \<Rightarrow> ends_with text (cr_value rule))"

definition evaluate_condition :: "('j, 'r) router_libs \<Rightarrow> 'j \<Rightarrow> 'r CompiledRule \<Rightarrow> bool" where
  "evaluate_condition L value rule =
     evaluate_text_condition L
       (case as_str L (get_nested_field L value (cr_field rule)) of None \<Rightarrow> [] | Some t \<Rightarrow> t) rule"

record 'r GenericRouterComponent =
  gr_conf :: nat
  gr_inn :: nat
  gr_out_ports :: "string \<rightharpoonup> ProcessEdgeSink"
  gr_config :: "RouterConfig option"
  gr_compiled_rules :: "'r CompiledRule list"

text \<open>The test a rule makes of a message, as JSON or as plain text.\<close>

definition rule_matches :: "('j, 'r) router_libs \<Rightarrow> string \<Rightarrow> 'r CompiledRule \<Rightarrow> bool" where
  "rule_matches L input rule =
     (case parse_value L input of
        Some value \<Rightarrow> evaluate_condition L value rule
      | None \<Rightarrow> cr_field rule = ''content'' \<and> evaluate_text_condition L input rule)"

definition route_message :: "('j, 'r) router_libs \<Rightarrow> 'r GenericRouterComponent \<Rightarrow> string \<Rightarrow> string" where
  "route_message L c input =
     (case List.find (rule_matches L input) (gr_compiled_rules c) of
        Some rule \<Rightarrow> cr_output_port rule
      | None \<Rightarrow>
          (case gr_config c of
             None \<Rightarrow> ''default''
           | Some config \<Rightarrow> (case rc_default_output config of None \<Rightarrow> ''default'' | Some p \<Rightarrow> p)))"

section \<open>GenericRouter\<close>

definition GenericRouter_new ::
    "nat multimap \<Rightarrow> ProcessEdgeSink multimap \<Rightarrow> 'r GenericRouterComponent outcome" where
  "GenericRouter_new inports outports =
     outcome_bind (take_last ''CONF'' ''found no CONF inport'' inports) (\<lambda>(inports1, conf).
     outcome_bind (take_last ''IN'' ''found no IN inport'' inports1) (\<lambda>(_, inn).
       Returned \<lparr>gr_conf = conf, gr_inn = inn,
         gr_out_ports = (\<lambda>p. case outports p of None \<Rightarrow> None | Some [] \<Rightarrow> None | Some (k # ks) \<Rightarrow> Some (last (k # ks))),
         gr_config = None, gr_compiled_rules = []\<rparr>))"

text \<open>
  A packet for a port that is not connected is dropped without using budget, so the loop is not
  bounded by the budget: it takes fuel, one unit for every packet that may still be taken.
\<close>

fun router_loop ::
    "'q ring_ops \<Rightarrow> ('j, 'r) router_libs \<Rightarrow> 'r GenericRouterComponent \<Rightarrow> nat \<Rightarrow> nat \<Rightarrow> nat \<Rightarrow> 'q node_io \<Rightarrow>
     (nat \<times> nat \<times> 'q node_io) option" where
  "router_loop R L c 0 b w io = None"
| "router_loop R L c (Suc fuel) b w io =
     (if b = 0 then Some (b, w, io)
      else
        (case is_empty R (gr_inn c) io of
           (io1, True) \<Rightarrow> Some (b, w, io1)
         | (io1, False) \<Rightarrow>
             (case pop R (gr_inn c) io1 of
                (io2, None) \<Rightarrow> Some (b, w, io2)
              | (io2, Some input) \<Rightarrow>
                  let input_text = text_only input in
                  (case gr_out_ports c (route_message L c input_text) of
                     None \<Rightarrow> router_loop R L c fuel b w io2
                   | Some out_sink \<Rightarrow>
                       (case push R (from_str input_text) out_sink io2 of
                          (io3, True) \<Rightarrow> router_loop R L c fuel (b - 1) (w + 1) io3
                        | (io3, False) \<Rightarrow> Some (b, w, io3))))))"

text \<open>
  The configuration: whether it was read by this call, or how the call ends without one. A packet that
  is not text fails its \<open>expect\<close>.
\<close>

datatype 'a configured = Ready 'a | Ends ProcessResult | ConfPanics string

definition router_configure ::
    "'q ring_ops \<Rightarrow> ('j, 'r) router_libs \<Rightarrow> 'r GenericRouterComponent \<Rightarrow> 'q node_io \<Rightarrow>
     'q node_io \<times> ('r GenericRouterComponent \<times> nat) configured" where
  "router_configure R L c io =
     (case gr_config c of
        Some _ \<Rightarrow> (io, Ready (c, 0))
      | None \<Rightarrow>
          (case pop R (gr_conf c) io of
             (io1, None) \<Rightarrow> (io1, Ends NoWork)
           | (io1, Some m) \<Rightarrow>
               (case as_text m of
                  None \<Rightarrow> (io1, ConfPanics ''config must be text'')
                | Some text \<Rightarrow>
                    (case parse_config L text of
                       None \<Rightarrow> (io1, Ends Finished)
                     | Some config \<Rightarrow>
                         (case compile_rules L (rc_rules config) of
                            Inl err \<Rightarrow> (io1, Ends Finished)
                          | Inr compiled \<Rightarrow>
                              (io1, Ready (c\<lparr>gr_config := Some config, gr_compiled_rules := compiled\<rparr>, 1)))))))"

definition router_process ::
    "'q ring_ops \<Rightarrow> ('j, 'r) router_libs \<Rightarrow> nat \<Rightarrow> 'r GenericRouterComponent \<times> 'q node_io \<Rightarrow> NodeContext \<Rightarrow>
     (('r GenericRouterComponent \<times> 'q node_io) \<times> NodeContext \<times> ProcessResult) outcome option" where
  "router_process R L fuel s ctx =
     (case s of (c0, io) \<Rightarrow>
        (case check_signals R text_or_utf8 io of
           (io1, True) \<Rightarrow> Some (Returned ((c0, io1), ctx, Finished))
         | (io1, False) \<Rightarrow>
             (case router_configure R L c0 io1 of
                (io2, ConfPanics msg) \<Rightarrow> Some (Panicked msg)
              | (io2, Ends r) \<Rightarrow> Some (Returned ((c0, io2), ctx, r))
              | (io2, Ready (c, w0)) \<Rightarrow>
                  (case router_loop R L c fuel (budget_left ctx) w0 io2 of
                     None \<Rightarrow> None
                   | Some (b, w, io3) \<Rightarrow>
                       (let (io4, abandoned) = is_abandoned R (gr_inn c) io3 in
                        Some (Returned ((c, io4), with_budget b ctx,
                          if abandoned then Finished else work_result w)))))))"

definition GenericRouter_metadata :: ComponentComponentPayload where
  "GenericRouter_metadata = metadata_default\<lparr>
     comp_name := ''GenericRouter'',
     comp_description := ''Routes messages to different output ports based on configurable rules and conditions.'',
     comp_icon := ''random'', subgraph := False,
     in_ports := [any_port ''CONF'' False ''JSON configuration with routing rules''
         (''{'' @ [CHR 0x22] @ ''rules'' @ [CHR 0x22] @ '':[],'' @ [CHR 0x22] @ ''default_output'' @ [CHR 0x22] @
          '':'' @ [CHR 0x22] @ ''default'' @ [CHR 0x22] @ ''}''),
       any_port ''IN'' False ''input data to route'' ''''],
     out_ports := []\<rparr>"

end
