(* ===== verification/Node_Turn.thy ===== *)
theory Node_Turn
  imports Node_IO Scheduler_Properties
begin

text \<open>
  A component under the scheduler: its \<open>process()\<close> as the call that \<open>execute_component\<close> makes, the
  contract \<open>budgeted\<close> of a component that sends no more than the budget it uses up, and the calls of a
  component on a ring buffer that no other thread touches.
\<close>

section \<open>A turn of a component\<close>

type_synonym ('s, 'q) node_process =
  "'s \<times> 'q node_io \<Rightarrow> NodeContext \<Rightarrow> ('s \<times> 'q node_io) \<times> NodeContext \<times> ProcessResult"

definition node_call :: "('s, 'q) node_process \<Rightarrow> 's \<times> 'q node_io \<Rightarrow> NodeContext \<Rightarrow> ('s \<times> 'q node_io) process_call" where
  "node_call process s ctx =
     (case process s ctx of (s', ctx', r) \<Rightarrow>
        \<lparr>pc_component = s', pc_context = ctx', pc_flag = None, pc_result = Some r,
         pc_elapsed = io_clock (snd s') - io_clock (snd s), pc_now = io_clock (snd s')\<rparr>)"

definition sent_count :: "'s \<times> 'q node_io \<Rightarrow> nat" where
  "sent_count s = length (io_sent (snd s))"

locale budgeted =
  fixes process :: "('s, 'q) node_process"
  assumes within: "process s ctx = (s', ctx', r) \<Longrightarrow>
      sent_count s' + budget_left ctx' \<le> sent_count s + budget_left ctx"
begin

lemma iteration:
  assumes "exec_iteration (node_call process s ctx) ctx out a = i"
  shows "case i of
      IterAborted \<Rightarrow> True
    | IterDone s1 ctx1 out1 a1 \<Rightarrow> sent_count s1 \<le> sent_count s + budget_left ctx
    | IterContinue s1 ctx1 out1 a1 \<Rightarrow>
        sent_count s1 + budget_left ctx1 \<le> sent_count s + budget_left ctx"
proof -
  obtain s' ctx' r where p: "process s ctx = (s', ctx', r)" by (metis prod.exhaust)
  have w: "sent_count s' + unat (remaining_budget ctx') \<le> sent_count s + unat (remaining_budget ctx)"
    using within [OF p] by (simp add: budget_left_def)
  show ?thesis
    using w assms
    by (cases r) (auto simp: exec_iteration_def node_call_def p Let_def budget_left_def unat_budget_after
        split: if_splits)
qed

lemma loop:
  "exec_loop (node_call process) s ctx out a = Some (s', ctx', out', a') \<Longrightarrow>
   sent_count s' \<le> sent_count s + budget_left ctx"
proof (induction "node_call process" s ctx out a rule: exec_loop.induct)
  case (1 s ctx out a)
  show ?case
  proof (cases "remaining_budget ctx = 0")
    case True
    with 1(2) show ?thesis by (simp add: exec_loop.simps)
  next
    case False
    note it = iteration [of s ctx out a, OF refl]
    from False 1 it show ?thesis
      by (cases "exec_iteration (node_call process s ctx) ctx out a")
        (auto simp: exec_loop.simps [of _ s ctx out a])
  qed
qed

lemma turn:
  assumes "execute_component (node_call process) s ctx a = Some (s', ctx', out, a')"
  shows "sent_count s' \<le> sent_count s + unat (budget_of (budget_class ctx))"
  using assms
  by (auto simp: execute_component_def exec_begin_def take_wake_at_def budget_left_def dest!: loop)

end

section \<open>Ring buffers nobody else touches\<close>

lemma list_ring_simps:
  "ring_push list_ring m q =
     (if length (lq_messages q) < lq_capacity q then Some (q\<lparr>lq_messages := lq_messages q @ [m]\<rparr>) else None)"
  "ring_pop list_ring q =
     (case lq_messages q of [] \<Rightarrow> None | m # ms \<Rightarrow> Some (q\<lparr>lq_messages := ms\<rparr>, m))"
  "ring_slots list_ring q = length (lq_messages q)"
  by (simp_all add: list_ring_def)

text \<open>To run a component on a concrete network.\<close>

lemmas run_defs = list_ring_simps push_def pop_def sink_push_def source_pop_def check_signals_def
  try_recv_def try_send_def meanwhile_def is_abandoned_def is_empty_def slots_def time_now_def Let_def

lemma meanwhile_alone [simp]: "io_external io = [] \<Longrightarrow> meanwhile R io = io"
  by (simp add: meanwhile_def)

lemma check_signals_alone [simp]:
  "io_external io = [] \<Longrightarrow> io_signals io = [] \<Longrightarrow> check_signals R f io = (io, False)"
  by (simp add: check_signals_def try_recv_def Let_def)

lemma is_abandoned_alone [simp]:
  "io_external io = [] \<Longrightarrow> is_abandoned R c io = (io, io_abandoned io c)"
  by (simp add: is_abandoned_def Let_def)

context ring begin

lemma pop_alone:
  assumes "io_external io = []" "held (io_channels io c) = m # ms"
  obtains q where "pop R c io =
      (io\<lparr>io_channels := (io_channels io)(c := q), io_read := io_read io @ [(c, m)]\<rparr>, Some m)"
    "held q = ms" "cap q = cap (io_channels io c)"
proof -
  obtain q m' where q: "ring_pop R (io_channels io c) = Some (q, m')"
    using pop_empty [of "io_channels io c"] assms(2) by fastforce
  with pop_ok [OF q] assms show thesis
    by (intro that [of q]) (auto simp: pop_def source_pop_def)
qed

lemma pop_alone_empty:
  "io_external io = [] \<Longrightarrow> held (io_channels io c) = [] \<Longrightarrow> pop R c io = (io, None)"
  using pop_empty [of "io_channels io c"] by (simp add: pop_def source_pop_def)

lemma push_alone:
  assumes "io_external io = []" "length (held (io_channels io (sk_sink k))) < cap (io_channels io (sk_sink k))"
  obtains io' where "push R m k io = (io', True)"
    "held (io_channels io' (sk_sink k)) = held (io_channels io (sk_sink k)) @ [m]"
    "cap (io_channels io' (sk_sink k)) = cap (io_channels io (sk_sink k))"
    "\<forall>c. c \<noteq> sk_sink k \<longrightarrow> io_channels io' c = io_channels io c"
    "io_external io' = []" "io_signals io' = io_signals io" "io_abandoned io' = io_abandoned io"
    "io_read io' = io_read io" "io_sent io' = io_sent io @ [(sk_sink k, m)]" "io_clock io' = io_clock io"
proof -
  from assms(2) obtain q where "ring_push R m (io_channels io (sk_sink k)) = Some q"
    "cap q = cap (io_channels io (sk_sink k))" "held q = held (io_channels io (sk_sink k)) @ [m]"
    by (rule push_fits)
  with assms(1) that show thesis by (auto simp: push_def sink_push_def)
qed

lemma push_alone_full:
  "io_external io = [] \<Longrightarrow> cap (io_channels io (sk_sink k)) \<le> length (held (io_channels io (sk_sink k))) \<Longrightarrow>
   push R m k io = (io, False)"
  using push_full [of m "io_channels io (sk_sink k)"] by (simp add: push_def sink_push_def)

end

section \<open>A full channel whose consumer is not running\<close>

definition stuck :: "('q \<Rightarrow> nat) \<Rightarrow> ('q \<Rightarrow> MessageBuf list) \<Rightarrow> nat \<Rightarrow> 'q node_io \<Rightarrow> bool" where
  "stuck cap held c io \<longleftrightarrow>
     cap (io_channels io c) \<le> length (held (io_channels io c)) \<and> Taken c \<notin> \<Union> (set ` set (io_external io))"

context ring begin

lemma happens_stays_full:
  assumes "e \<noteq> Taken c" "cap (io_channels io c) \<le> length (held (io_channels io c))"
  shows "cap (io_channels (happens R e io) c) \<le> length (held (io_channels (happens R e io) c))"
proof (cases e)
  case (Arrives d m)
  then show ?thesis
    using assms push_full [of m "io_channels io c"] by (cases "d = c") (auto split: option.splits)
next
  case (Taken d)
  then show ?thesis using assms by (auto split: option.splits)
qed (use assms in simp_all)

lemma happens_external [simp]: "io_external (happens R e io) = io_external io"
  by (cases e) (auto split: option.splits)

lemma fold_happens_external [simp]: "io_external (fold (happens R) es io) = io_external io"
  by (induction es arbitrary: io) auto

lemma fold_happens_full:
  "Taken c \<notin> set es \<Longrightarrow> cap (io_channels io c) \<le> length (held (io_channels io c)) \<Longrightarrow>
   cap (io_channels (fold (happens R) es io) c) \<le> length (held (io_channels (fold (happens R) es io) c))"
proof (induction es arbitrary: io)
  case (Cons e es)
  then have "e \<noteq> Taken c" "Taken c \<notin> set es" by auto
  with Cons show ?case using happens_stays_full [of e c io] by simp
qed simp

lemma stuck_meanwhile: "stuck cap held c io \<Longrightarrow> stuck cap held c (meanwhile R io)"
  using fold_happens_full [of c] by (auto simp: stuck_def meanwhile_def split: list.splits)

lemma stuck_push: "stuck cap held (sk_sink k) io \<Longrightarrow> \<exists>io'. push R m k io = (io', False) \<and> stuck cap held (sk_sink k) io'"
  using stuck_meanwhile [of "sk_sink k" io] push_full [of m "io_channels (meanwhile R io) (sk_sink k)"]
  by (auto simp: push_def sink_push_def Let_def stuck_def)

lemma stuck_pop:
  assumes "stuck cap held c io" "pop R d io = (io', r)" "d \<noteq> c"
  shows "stuck cap held c io'"
  using assms stuck_meanwhile [OF assms(1)]
  by (auto simp: pop_def source_pop_def Let_def stuck_def split: option.splits)

lemma stuck_signals:
  assumes "stuck cap held c io" "check_signals R f io = (io', b)"
  shows "stuck cap held c io'"
proof -
  have recv: "stuck cap held c io1" if "try_recv R io = (io1, s)" for io1 s
    using that stuck_meanwhile [OF assms(1)]
    by (auto simp: try_recv_def Let_def stuck_def split: list.splits)
  have send: "stuck cap held c (try_send R m io1)" if "stuck cap held c io1" for io1 m
    using stuck_meanwhile [OF that] by (auto simp: try_send_def Let_def stuck_def)
  from assms(2) show ?thesis
    by (auto simp: check_signals_def split: prod.splits option.splits if_splits dest!: recv intro: send)
qed

text \<open>A push that fails leaves the channel stuck when nobody takes from it.\<close>

lemma push_gets_stuck:
  assumes "push R m k io = (io', False)" "Taken (sk_sink k) \<notin> \<Union> (set ` set (io_external io))"
  shows "stuck cap held (sk_sink k) io'"
proof -
  have "Taken (sk_sink k) \<notin> \<Union> (set ` set (io_external (meanwhile R io)))"
    using assms(2) by (auto simp: meanwhile_def split: list.splits)
  with assms(1) push_full [of m "io_channels (meanwhile R io) (sk_sink k)"] show ?thesis
    by (auto simp: push_def sink_push_def Let_def stuck_def split: option.splits)
qed

lemma push_external: "push R m k io = (io', b) \<Longrightarrow> set (io_external io') \<subseteq> set (io_external io)"
  by (auto simp: push_def meanwhile_def Let_def split: option.splits list.splits)

end

section \<open>A channel with room whose producer is the component\<close>

definition roomy :: "('q \<Rightarrow> nat) \<Rightarrow> ('q \<Rightarrow> MessageBuf list) \<Rightarrow> nat \<Rightarrow> nat \<Rightarrow> 'q node_io \<Rightarrow> bool" where
  "roomy cap held n c io \<longleftrightarrow>
     length (held (io_channels io c)) + n \<le> cap (io_channels io c) \<and>
     (\<forall>m. Arrives c m \<notin> \<Union> (set ` set (io_external io)))"

context ring begin

lemma happens_room:
  assumes "\<forall>m. e \<noteq> Arrives c m" "length (held (io_channels io c)) + n \<le> cap (io_channels io c)"
  shows "length (held (io_channels (happens R e io) c)) + n \<le> cap (io_channels (happens R e io) c)"
proof (cases e)
  case (Arrives d m)
  then show ?thesis using assms by (auto split: option.splits)
next
  case (Taken d)
  then show ?thesis using assms pop_ok [of "io_channels io c"] by (auto split: option.splits)
qed (use assms in simp_all)

lemma fold_happens_room:
  "\<forall>m. Arrives c m \<notin> set es \<Longrightarrow> length (held (io_channels io c)) + n \<le> cap (io_channels io c) \<Longrightarrow>
   length (held (io_channels (fold (happens R) es io) c)) + n \<le> cap (io_channels (fold (happens R) es io) c)"
proof (induction es arbitrary: io)
  case (Cons e es)
  then have "\<forall>m. e \<noteq> Arrives c m" "\<forall>m. Arrives c m \<notin> set es" by auto
  with Cons show ?case using happens_room [of e c io n] by simp
qed simp

lemma roomy_meanwhile: "roomy cap held n c io \<Longrightarrow> roomy cap held n c (meanwhile R io)"
  using fold_happens_room [of c] by (auto simp: roomy_def meanwhile_def split: list.splits)

lemma roomy_pop:
  assumes "roomy cap held n c io" "pop R d io = (io', r)" "d \<noteq> c"
  shows "roomy cap held n c io'"
  using assms roomy_meanwhile [OF assms(1)]
  by (auto simp: pop_def source_pop_def Let_def roomy_def split: option.splits)

lemma roomy_slots: "roomy cap held n c io \<Longrightarrow> slots R d io = (io', k) \<Longrightarrow> roomy cap held n c io'"
  using roomy_meanwhile [of n c io] by (auto simp: slots_def Let_def)

lemma roomy_is_empty: "roomy cap held n c io \<Longrightarrow> is_empty R d io = (io', b) \<Longrightarrow> roomy cap held n c io'"
  by (auto simp: is_empty_def split: prod.splits intro: roomy_slots)

lemma roomy_signals:
  assumes "roomy cap held n c io" "check_signals R f io = (io', b)"
  shows "roomy cap held n c io'"
proof -
  have recv: "roomy cap held n c io1" if "try_recv R io = (io1, s)" for io1 s
    using that roomy_meanwhile [OF assms(1)]
    by (auto simp: try_recv_def Let_def roomy_def split: list.splits)
  have send: "roomy cap held n c (try_send R m io1)" if "roomy cap held n c io1" for io1 m
    using roomy_meanwhile [OF that] by (auto simp: try_send_def Let_def roomy_def)
  from assms(2) show ?thesis
    by (auto simp: check_signals_def split: prod.splits option.splits if_splits dest!: recv intro: send)
qed

lemma roomy_push:
  assumes "roomy cap held (Suc n) (sk_sink k) io"
  shows "\<exists>io'. push R m k io = (io', True) \<and> roomy cap held n (sk_sink k) io'"
proof -
  have r: "roomy cap held (Suc n) (sk_sink k) (meanwhile R io)" by (rule roomy_meanwhile [OF assms])
  then have "length (held (io_channels (meanwhile R io) (sk_sink k))) < cap (io_channels (meanwhile R io) (sk_sink k))"
    by (simp add: roomy_def)
  then obtain q where "ring_push R m (io_channels (meanwhile R io) (sk_sink k)) = Some q"
    "cap q = cap (io_channels (meanwhile R io) (sk_sink k))"
    "held q = held (io_channels (meanwhile R io) (sk_sink k)) @ [m]"
    by (rule push_fits)
  with r show ?thesis by (auto simp: push_def sink_push_def Let_def roomy_def)
qed

lemma roomy_push_other:
  assumes "roomy cap held n c io" "push R m k io = (io', ok)" "sk_sink k \<noteq> c"
  shows "roomy cap held n c io'"
  using assms roomy_meanwhile [OF assms(1)]
  by (auto simp: push_def sink_push_def Let_def roomy_def split: option.splits)

lemma roomy_less: "roomy cap held n c io \<Longrightarrow> k \<le> n \<Longrightarrow> roomy cap held k c io"
  by (auto simp: roomy_def)

end

section \<open>What may still be taken from a channel\<close>

definition waiting :: "('q \<Rightarrow> MessageBuf list) \<Rightarrow> nat \<Rightarrow> 'q node_io \<Rightarrow> nat" where
  "waiting held c io = length (held (io_channels io c)) + length (concat (io_external io))"

context ring begin

lemma happens_held: "length (held (io_channels (happens R e io) c)) \<le> Suc (length (held (io_channels io c)))"
  using push_ok pop_ok by (cases e) (fastforce split: option.splits)+

lemma fold_happens_held:
  "length (held (io_channels (fold (happens R) es io) c)) \<le> length (held (io_channels io c)) + length es"
proof (induction es arbitrary: io)
  case (Cons e es)
  from Cons.IH [of "happens R e io"] happens_held [of e io c] show ?case by simp
qed simp

lemma waiting_meanwhile: "waiting held c (meanwhile R io) \<le> waiting held c io"
proof (cases "io_external io")
  case (Cons es rest)
  from fold_happens_held [of es "io\<lparr>io_external := rest\<rparr>" c] show ?thesis
    by (simp add: waiting_def meanwhile_def Cons)
qed (simp add: waiting_def meanwhile_def)

lemma waiting_pop:
  assumes "pop R c io = (io', r)"
  shows "case r of None \<Rightarrow> waiting held c io' \<le> waiting held c io
    | Some _ \<Rightarrow> waiting held c io' < waiting held c io"
  using assms waiting_meanwhile [of c io] pop_ok [of "io_channels (meanwhile R io) c"]
  by (auto simp: pop_def source_pop_def Let_def waiting_def split: option.splits)

lemma waiting_pop_other: "pop R d io = (io', r) \<Longrightarrow> d \<noteq> c \<Longrightarrow> waiting held c io' \<le> waiting held c io"
  using waiting_meanwhile [of c io]
  by (auto simp: pop_def source_pop_def Let_def waiting_def split: option.splits)

lemma waiting_slots: "slots R d io = (io', n) \<Longrightarrow> waiting held c io' \<le> waiting held c io"
  using waiting_meanwhile [of c io] by (auto simp: slots_def Let_def)

lemma waiting_is_empty: "is_empty R d io = (io', b) \<Longrightarrow> waiting held c io' \<le> waiting held c io"
  by (auto simp: is_empty_def split: prod.splits dest: waiting_slots)

lemma waiting_push: "push R m k io = (io', ok) \<Longrightarrow> sk_sink k \<noteq> c \<Longrightarrow> waiting held c io' \<le> waiting held c io"
  using waiting_meanwhile [of c io]
  by (auto simp: push_def sink_push_def Let_def waiting_def split: option.splits)

lemma waiting_signals:
  assumes "check_signals R f io = (io', b)"
  shows "waiting held c io' \<le> waiting held c io"
proof -
  have recv: "waiting held c io1 \<le> waiting held c io" if "try_recv R io = (io1, s)" for io1 s
    using that waiting_meanwhile [of c io]
    by (auto simp: try_recv_def Let_def waiting_def split: list.splits)
  have send: "waiting held c (try_send R m io1) \<le> waiting held c io1" for io1 m
    using waiting_meanwhile [of c io1] by (auto simp: try_send_def Let_def waiting_def)
  from assms send show ?thesis
    by (auto simp: check_signals_def split: prod.splits option.splits if_splits dest!: recv
        intro: order_trans)
qed

end

end
