(* ===== verification/Relay_Properties.thy ===== *)
theory Relay_Properties
  imports Relays Node_Turn "HOL-Library.Multiset" "HOL-Library.Sublist"
begin

text \<open>
  What the relays guarantee: \<open>Repeat\<close> keeps every packet, and their order unless OUT is drained
  concurrently; what \<open>Muxer\<close> and \<open>Demux3\<close> do with a packet that does not fit; and where a relay
  finishes or rests although packets are left.
\<close>

section \<open>Repeat, loop by loop\<close>

lemma repeat_flush_logs:
  "repeat_flush R out b w p io = (b', w', p', io') \<Longrightarrow>
   \<exists>ss. p = ss @ p' \<and> io_read io' = io_read io \<and> io_sent io' = io_sent io @ map (Pair (sk_sink out)) ss \<and>
     b = b' + length ss \<and> w' = w + length ss"
proof (induction R out b w p io rule: repeat_flush.induct)
  case (3 R out b w ip rest io)
  obtain io1 ok where ps: "push R ip out io = (io1, ok)" by fastforce
  show ?case
  proof (cases ok)
    case True
    with 3 ps obtain ss where "rest = ss @ p'" "io_read io' = io_read io1"
      "io_sent io' = io_sent io1 @ map (Pair (sk_sink out)) ss" "b = b' + length ss" "w' = w + 1 + length ss"
      by fastforce
    with push_logs [OF ps] True show ?thesis by (intro exI [of _ "ip # ss"]) simp
  next
    case False
    with 3(2) ps push_logs [OF ps] show ?thesis by (intro exI [of _ "[]"]) auto
  qed
qed (auto)

lemma repeat_relay_logs:
  "repeat_relay R inn out b w p io = (st, b', w', p', io') \<Longrightarrow>
   \<exists>ss rest. p' = p @ rest \<and> length rest \<le> 1 \<and>
     io_read io' = io_read io @ map (Pair inn) (ss @ rest) \<and>
     io_sent io' = io_sent io @ map (Pair (sk_sink out)) ss \<and> b = b' + length ss \<and> w' = w + length ss"
proof (induction b arbitrary: w p io)
  case (Suc b)
  obtain io1 stop where s: "check_signals R text_only io = (io1, stop)" by fastforce
  obtain io2 got where p: "pop R inn io1 = (io2, got)" by fastforce
  note q = check_signals_quiet [OF s] pop_logs [OF p]
  show ?case
  proof (cases "stop \<or> got = None")
    case True
    with Suc.prems s p q show ?thesis
      by (intro exI [of _ "[]"]) (auto simp: quiet_def split: bool.splits)
  next
    case False
    then obtain ip where ip: "\<not> stop" "got = Some ip" by auto
    obtain io3 ok where ps: "push R ip out io2 = (io3, ok)" by fastforce
    show ?thesis
    proof (cases ok)
      case True
      with Suc.prems s p ps ip have "repeat_relay R inn out b (w + 1) p io3 = (st, b', w', p', io')" by simp
      from Suc.IH [OF this] obtain ss rest where "p' = p @ rest" "length rest \<le> 1"
        "io_read io' = io_read io3 @ map (Pair inn) (ss @ rest)"
        "io_sent io' = io_sent io3 @ map (Pair (sk_sink out)) ss" "b = b' + length ss" "w' = w + 1 + length ss"
        by blast
      with q ip push_logs [OF ps] True show ?thesis
        by (intro exI [of _ "ip # ss"] exI [of _ rest]) (simp add: quiet_def)
    next
      case False
      with Suc.prems s p ps ip q push_logs [OF ps] show ?thesis
        by (intro exI [of _ "[]"] exI [of _ "[ip]"]) (auto simp: quiet_def)
    qed
  qed
qed auto

section \<open>Repeat keeps its packets\<close>

definition others_take :: "nat \<Rightarrow> 'q node_io \<Rightarrow> bool" where
  "others_take c io \<longleftrightarrow> Taken c \<in> \<Union> (set ` set (io_external io))"

context ring begin

lemma flush_gets_stuck:
  "repeat_flush R out b w p io = (b', w', p', io') \<Longrightarrow> \<not> others_take (sk_sink out) io \<Longrightarrow> b' \<noteq> 0 \<Longrightarrow> p' \<noteq> [] \<Longrightarrow>
   stuck cap held (sk_sink out) io'"
proof (induction b arbitrary: w p io)
  case (Suc b)
  then obtain ip rest where p: "p = ip # rest" by (cases p) auto
  obtain io1 ok where ps: "push R ip out io = (io1, ok)" by fastforce
  have "\<not> others_take (sk_sink out) io1"
    using push_external [OF ps] Suc.prems(2) by (auto simp: others_take_def)
  with Suc p ps push_gets_stuck [of ip out io io1] show ?case
    by (cases ok) (auto simp: others_take_def)
qed simp

lemma relay_when_stuck:
  assumes "repeat_relay R inn out b w p io = (st, b', w', p', io')"
    and "stuck cap held (sk_sink out) io" and "inn \<noteq> sk_sink out"
  shows "io_sent io' = io_sent io"
proof (cases b)
  case (Suc b1)
  obtain io1 stop where s: "check_signals R text_only io = (io1, stop)" by fastforce
  obtain io2 got where g: "pop R inn io1 = (io2, got)" by fastforce
  have "stuck cap held (sk_sink out) io2"
    by (rule stuck_pop [OF stuck_signals [OF assms(2) s] g assms(3)])
  from stuck_push [OF this] obtain io3 where "push R (the got) out io2 = (io3, False)" by blast
  with assms(1) Suc s g check_signals_quiet [OF s] pop_logs [OF g] push_logs [OF this] show ?thesis
    by (auto simp: quiet_def split: bool.splits option.splits)
qed (use assms(1) in simp)

end

lemma repeat_process_logs:
  assumes "repeat_process R (c, io) ctx = ((c', io'), ctx', r)"
  obtains b1 w1 p1 io1 io2 ss1 ss2 rest stop b2 w2 io3 where
    "repeat_flush R (rp_out c) (budget_left ctx) 0 (rp_pending_out c) io = (b1, w1, p1, io1)"
    "check_signals R text_only io1 = (io2, stop)"
    "rp_pending_out c = ss1 @ p1" "length rest \<le> 1" "w2 = length (ss1 @ ss2)"
    "stop \<longrightarrow> ss2 = [] \<and> rest = []"
    "\<not> stop \<longrightarrow> (\<exists>st. repeat_relay R (rp_inn c) (rp_out c) b1 w1 p1 io2 = (st, b2, w2, p1 @ rest, io3) \<and>
       io_sent io3 = io_sent io2 @ map (Pair (sk_sink (rp_out c))) ss2)"
    "b1 = b2 + length ss2" "budget_left ctx = b2 + length (ss1 @ ss2)"
    "c' = c\<lparr>rp_pending_out := p1 @ rest\<rparr>" "ctx' = with_budget b2 ctx"
    "io_read io' = io_read io @ map (Pair (rp_inn c)) (ss2 @ rest)"
    "io_sent io' = io_sent io @ map (Pair (sk_sink (rp_out c))) (ss1 @ ss2)"
    "r = Finished \<or> r = work_result w2"
proof -
  obtain b1 w1 p1 io1 where f:
    "repeat_flush R (rp_out c) (budget_left ctx) 0 (rp_pending_out c) io = (b1, w1, p1, io1)"
    by (metis prod.exhaust)
  obtain io2 stop where s: "check_signals R text_only io1 = (io2, stop)" by fastforce
  from repeat_flush_logs [OF f] obtain ss1 where ss1: "rp_pending_out c = ss1 @ p1"
    "io_read io1 = io_read io" "io_sent io1 = io_sent io @ map (Pair (sk_sink (rp_out c))) ss1"
    "budget_left ctx = b1 + length ss1" "w1 = length ss1" by auto
  note q = check_signals_quiet [OF s]
  show thesis
  proof (cases stop)
    case True
    with assms f s have "c' = c\<lparr>rp_pending_out := p1\<rparr>" "io' = io2" "ctx' = with_budget b1 ctx" "r = Finished"
      by (auto simp: repeat_process_def)
    with True f s ss1 q show thesis
      by (intro that [of b1 w1 p1 io1 io2 stop ss1 "[]" w1 "[]" b1]) (simp_all add: quiet_def)
  next
    case False
    obtain st b2 w2 p2 io3 where rl: "repeat_relay R (rp_inn c) (rp_out c) b1 w1 p1 io2 = (st, b2, w2, p2, io3)"
      by (metis prod.exhaust)
    obtain io4 ab where ab: "is_abandoned R (rp_inn c) io3 = (io4, ab)" by fastforce
    from repeat_relay_logs [OF rl] obtain ss2 rest where r2: "p2 = p1 @ rest" "length rest \<le> 1"
      "io_read io3 = io_read io2 @ map (Pair (rp_inn c)) (ss2 @ rest)"
      "io_sent io3 = io_sent io2 @ map (Pair (sk_sink (rp_out c))) ss2" "b1 = b2 + length ss2" "w2 = w1 + length ss2"
      by blast
    have "c' = c\<lparr>rp_pending_out := p2\<rparr>" "ctx' = with_budget b2 ctx" "r = Finished \<or> r = work_result w2"
      "quiet io3 io'"
      using assms f s rl False ab is_abandoned_quiet [OF ab]
      by (auto simp: repeat_process_def Let_def split: if_splits)
    with False f s ss1 q rl r2 show thesis
      by (intro that [of b1 w1 p1 io1 io2 stop ss1 "rest" w2 ss2 b2 io3]) (simp_all add: quiet_def)
  qed
qed

context ring begin

lemma repeat_process_keeps:
  assumes "rp_inn c \<noteq> sk_sink (rp_out c)"
    and "repeat_process R (c, io) ctx = ((c', io'), ctx', r)"
  shows "\<exists>taken sent.
    io_read io' = io_read io @ map (Pair (rp_inn c)) taken \<and>
    io_sent io' = io_sent io @ map (Pair (sk_sink (rp_out c))) sent \<and>
    mset sent + mset (rp_pending_out c') = mset (rp_pending_out c) + mset taken \<and>
    (rp_pending_out c = [] \<or> \<not> others_take (sk_sink (rp_out c)) io \<longrightarrow>
       sent @ rp_pending_out c' = rp_pending_out c @ taken) \<and>
    length (rp_pending_out c') \<le> Suc (length (rp_pending_out c)) \<and>
    length sent + budget_left ctx' = budget_left ctx \<and>
    r \<in> {Finished, work_result (length sent)}"
proof -
  note ring = flush_gets_stuck relay_when_stuck stuck_signals
  from assms(2) obtain b1 w1 p1 io1 io2 ss1 ss2 rest stop b2 w2 io3 where f:
    "repeat_flush R (rp_out c) (budget_left ctx) 0 (rp_pending_out c) io = (b1, w1, p1, io1)"
    "check_signals R text_only io1 = (io2, stop)"
    "rp_pending_out c = ss1 @ p1" "length rest \<le> 1" "w2 = length (ss1 @ ss2)"
    and st: "stop \<longrightarrow> ss2 = [] \<and> rest = []"
    and rl: "\<not> stop \<longrightarrow> (\<exists>st. repeat_relay R (rp_inn c) (rp_out c) b1 w1 p1 io2 = (st, b2, w2, p1 @ rest, io3) \<and>
       io_sent io3 = io_sent io2 @ map (Pair (sk_sink (rp_out c))) ss2)"
    and e: "b1 = b2 + length ss2" "budget_left ctx = b2 + length (ss1 @ ss2)"
    "c' = c\<lparr>rp_pending_out := p1 @ rest\<rparr>" "ctx' = with_budget b2 ctx"
    "io_read io' = io_read io @ map (Pair (rp_inn c)) (ss2 @ rest)"
    "io_sent io' = io_sent io @ map (Pair (sk_sink (rp_out c))) (ss1 @ ss2)"
    "r = Finished \<or> r = work_result w2"
    by (rule repeat_process_logs)
  have "p1 = [] \<or> ss2 = []" if "\<not> others_take (sk_sink (rp_out c)) io"
  proof (cases "stop \<or> b1 = 0 \<or> p1 = []")
    case True
    with st e(1) show ?thesis by auto
  next
    case False
    then have "stuck cap held (sk_sink (rp_out c)) io1" using ring(1) [OF f(1) that] by simp
    from ring(2) [OF _ ring(3) [OF this f(2)] assms(1)] rl False show ?thesis by fastforce
  qed
  then show ?thesis
    using f e budget_left_with [of b2 ctx ctx]
    by - (rule exI [of _ "ss2 @ rest"], rule exI [of _ "ss1 @ ss2"], auto)
qed

end

text \<open>
  C11. \<open>Repeat\<close> loses and invents nothing: in every call, whatever other threads do meanwhile, the
  packets sent on OUT and those still pending are the packets that were pending and those taken from
  IN; in that order when nothing was pending or no other thread takes from OUT. At most one packet
  more is held back, and the work reported is the number of packets sent, within the budget.
\<close>

theorem repeat_keeps_every_packet:
  assumes "ring R cap held" and "rp_inn c \<noteq> sk_sink (rp_out c)"
    and "repeat_process R (c, io) ctx = ((c', io'), ctx', r)"
  shows "\<exists>taken sent.
    io_read io' = io_read io @ map (Pair (rp_inn c)) taken \<and>
    io_sent io' = io_sent io @ map (Pair (sk_sink (rp_out c))) sent \<and>
    mset sent + mset (rp_pending_out c') = mset (rp_pending_out c) + mset taken \<and>
    (rp_pending_out c = [] \<or> \<not> others_take (sk_sink (rp_out c)) io \<longrightarrow>
       sent @ rp_pending_out c' = rp_pending_out c @ taken) \<and>
    length (rp_pending_out c') \<le> Suc (length (rp_pending_out c)) \<and>
    length sent + budget_left ctx' = budget_left ctx \<and>
    r \<in> {Finished, work_result (length sent)}"
  using ring.repeat_process_keeps [OF assms] .

text \<open>A network for the examples: IN is channel 0, OUT channel 1.\<close>

definition demo_channels :: "MessageBuf list \<Rightarrow> nat \<Rightarrow> MessageBuf list \<Rightarrow> nat \<Rightarrow> list_queue" where
  "demo_channels inn room out = (\<lambda>c. if c = 0 then \<lparr>lq_capacity = 2401, lq_messages = inn\<rparr>
     else \<lparr>lq_capacity = room, lq_messages = out\<rparr>)"

definition demo_sink :: ProcessEdgeSink where
  "demo_sink = ProcessEdgeSink_new 1 None (Some ''Next'') (Some ''Next'')"

definition demo_repeat :: "MessageBuf list \<Rightarrow> RepeatComponent" where
  "demo_repeat pending = \<lparr>rp_inn = 0, rp_out = demo_sink, rp_pending_out = pending\<rparr>"

definition demo_context :: "nat \<Rightarrow> NodeContext" where
  "demo_context b = with_budget b (new_context ''Node'' Normal 0 0)"

lemma demo_simps [simp]:
  "sk_sink demo_sink = 1" "rp_inn (demo_repeat p) = 0" "rp_out (demo_repeat p) = demo_sink"
  "rp_pending_out (demo_repeat p) = p"
  by (simp_all add: demo_sink_def demo_repeat_def)

lemma demo_budget [simp]:
  "budget_left (demo_context (Suc 0)) = Suc 0" "budget_left (demo_context 2) = Suc (Suc 0)"
  by (simp_all add: demo_context_def budget_left_def with_budget_def unat_of_nat)

lemma repeat_keeps_every_packet_witness:
  "\<exists>c' io' ctx' r taken sent.
     repeat_process list_ring (demo_repeat [MText ''a''],
       node_io_new (demo_channels [MText ''b''] 1 []) []) (demo_context 2) = ((c', io'), ctx', r) \<and>
     io_sent io' = map (Pair 1) sent \<and> sent @ rp_pending_out c' = MText ''a'' # taken"
proof -
  obtain c' io' ctx' r where p: "repeat_process list_ring (demo_repeat [MText ''a''],
      node_io_new (demo_channels [MText ''b''] 1 []) []) (demo_context 2) = ((c', io'), ctx', r)"
    by (metis prod.exhaust)
  show ?thesis
    using repeat_keeps_every_packet [OF list_ring.ring_axioms _ p] p
    by (auto simp: node_io_new_def others_take_def)
qed

text \<open>
  The order is lost when OUT is drained while \<open>Repeat\<close> runs, as the thread of a graph outport does:
  a pending packet that did not fit is overtaken by the next packet from IN, because the loop over IN
  does not look at the pending packets.
\<close>

theorem repeat_can_reorder:
  "\<exists>c' io' ctx' r.
     repeat_process list_ring (demo_repeat [MText ''a''],
       node_io_new (demo_channels [MText ''b''] 1 [MText ''x'']) [[], [Taken 1]]) (demo_context 2) =
       ((c', io'), ctx', r) \<and>
     io_sent io' = [(1, MText ''b'')] \<and> rp_pending_out c' = [MText ''a'']"
  by (simp add: repeat_process_def node_io_new_def demo_channels_def run_defs)

section \<open>Repeat at the end of its input and in front of a full port\<close>

context ring begin

lemma relay_alone:
  "io_external io = [] \<Longrightarrow> io_signals io = [] \<Longrightarrow> inn \<noteq> sk_sink out \<Longrightarrow>
   b \<le> length (held (io_channels io inn)) \<Longrightarrow>
   length (held (io_channels io (sk_sink out))) + b \<le> cap (io_channels io (sk_sink out)) \<Longrightarrow>
   \<exists>io'. repeat_relay R inn out b w p io = (False, 0, w + b, p, io') \<and>
     held (io_channels io' inn) = drop b (held (io_channels io inn)) \<and>
     io_sent io' = io_sent io @ map (Pair (sk_sink out)) (take b (held (io_channels io inn))) \<and>
     io_external io' = [] \<and> io_abandoned io' = io_abandoned io \<and> io_clock io' = io_clock io"
proof (induction b arbitrary: w io)
  case (Suc b)
  then obtain m ms where ms: "held (io_channels io inn) = m # ms" by (cases "held (io_channels io inn)") auto
  from Suc.prems(1) ms obtain q where q: "pop R inn io =
      (io\<lparr>io_channels := (io_channels io)(inn := q), io_read := io_read io @ [(inn, m)]\<rparr>, Some m)"
    "held q = ms" "cap q = cap (io_channels io inn)"
    by (rule pop_alone)
  let ?io = "io\<lparr>io_channels := (io_channels io)(inn := q), io_read := io_read io @ [(inn, m)]\<rparr>"
  have "io_external ?io = []" "length (held (io_channels ?io (sk_sink out))) < cap (io_channels ?io (sk_sink out))"
    using Suc.prems by simp_all
  then obtain io2 where io2: "push R m out ?io = (io2, True)"
    "held (io_channels io2 (sk_sink out)) = held (io_channels ?io (sk_sink out)) @ [m]"
    "cap (io_channels io2 (sk_sink out)) = cap (io_channels ?io (sk_sink out))"
    "\<forall>c. c \<noteq> sk_sink out \<longrightarrow> io_channels io2 c = io_channels ?io c"
    "io_external io2 = []" "io_signals io2 = io_signals ?io" "io_abandoned io2 = io_abandoned ?io"
    "io_read io2 = io_read ?io" "io_sent io2 = io_sent ?io @ [(sk_sink out, m)]" "io_clock io2 = io_clock ?io"
    by (rule push_alone)
  from Suc.IH [of io2 "w + 1"] Suc.prems ms q io2 show ?case by auto
qed simp

end

text \<open>
  \<open>Repeat\<close> finishes at the end of its input even when packets are left in it: with its producer gone
  and more packets waiting than the budget of a turn, one turn sends as many as the budget allows and
  ends the component; the rest stays in the channel of a node that never runs again.
\<close>

theorem repeat_finishes_before_its_input:
  assumes "ring R cap held" and "rp_inn c \<noteq> sk_sink (rp_out c)"
    and "io_external io = []" and "io_signals io = []" and "rp_pending_out c = []"
    and "io_abandoned io (rp_inn c)"
    and "unat (budget_of (budget_class ctx)) < length (held (io_channels io (rp_inn c)))"
    and "length (held (io_channels io (sk_sink (rp_out c)))) + unat (budget_of (budget_class ctx))
      \<le> cap (io_channels io (sk_sink (rp_out c)))"
  shows "\<exists>c' io' ctx' out a'.
    execute_component (node_call (repeat_process R)) (c, io) ctx a = Some ((c', io'), ctx', out, a') \<and>
    finished out \<and>
    io_sent io' = io_sent io @ map (Pair (sk_sink (rp_out c)))
      (take (unat (budget_of (budget_class ctx))) (held (io_channels io (rp_inn c)))) \<and>
    held (io_channels io' (rp_inn c)) =
      drop (unat (budget_of (budget_class ctx))) (held (io_channels io (rp_inn c))) \<and>
    held (io_channels io' (rp_inn c)) \<noteq> []"
proof -
  let ?b = "unat (budget_of (budget_class ctx))"
  let ?ctx = "fst (exec_begin ctx a)"
  have b: "budget_left ?ctx = ?b" "remaining_budget ?ctx \<noteq> 0"
    using budget_of_pos [of "budget_class ctx"]
    by (auto simp: budget_left_def exec_begin_def take_wake_at_def)
  obtain io' where rl: "repeat_relay R (rp_inn c) (rp_out c) ?b 0 [] io = (False, 0, ?b, [], io')"
    "held (io_channels io' (rp_inn c)) = drop ?b (held (io_channels io (rp_inn c)))"
    "io_sent io' = io_sent io @ map (Pair (sk_sink (rp_out c))) (take ?b (held (io_channels io (rp_inn c))))"
    "io_external io' = []" "io_abandoned io' = io_abandoned io" "io_clock io' = io_clock io"
    using ring.relay_alone [OF assms(1,3,4,2), of ?b 0 "[]"] assms(7,8) by auto
  have fl: "repeat_flush R (rp_out c) ?b 0 [] io = (?b, 0, [], io)"
    using budget_of_pos [of "budget_class ctx"] by (cases ?b) simp_all
  have "repeat_process R (c, io) ?ctx = ((c, io'), with_budget 0 ?ctx, Finished)"
    using assms(3-6) b fl rl by (simp add: repeat_process_def)
  then have "node_call (repeat_process R) (c, io) ?ctx =
      \<lparr>pc_component = (c, io'), pc_context = with_budget 0 ?ctx, pc_flag = None, pc_result = Some Finished,
       pc_elapsed = 0, pc_now = io_clock io\<rparr>"
    using rl by (simp add: node_call_def)
  with b rl assms(7) show ?thesis
    by (simp add: execute_component_def split_def exec_loop.simps exec_iteration_def contract_ok_def Let_def)
qed

lemma repeat_finishes_before_its_input_witness:
  "\<exists>c' io' ctx' out a'.
    execute_component (node_call (repeat_process list_ring))
      (demo_repeat [], (node_io_new (demo_channels (replicate 9 (MText ''a'')) 8 []) [])\<lparr>io_abandoned := (\<lambda>_. True)\<rparr>)
      (new_context ''Node'' Heavy 0 0) (\<lambda>_. False) = Some ((c', io'), ctx', out, a') \<and>
    finished out \<and> length (io_sent io') = 8 \<and> lq_messages (io_channels io' 0) = [MText ''a'']"
proof -
  let ?io = "(node_io_new (demo_channels (replicate 9 (MText ''a'')) 8 []) [])\<lparr>io_abandoned := (\<lambda>_. True)\<rparr>"
  have "\<exists>c' io' ctx' out a'.
    execute_component (node_call (repeat_process list_ring)) (demo_repeat [], ?io)
      (new_context ''Node'' Heavy 0 0) (\<lambda>_. False) = Some ((c', io'), ctx', out, a') \<and> finished out \<and>
    io_sent io' = io_sent ?io @ map (Pair (sk_sink (rp_out (demo_repeat []))))
      (take (unat (budget_of (budget_class (new_context ''Node'' Heavy 0 0))))
        (lq_messages (io_channels ?io (rp_inn (demo_repeat []))))) \<and>
    lq_messages (io_channels io' (rp_inn (demo_repeat []))) =
      drop (unat (budget_of (budget_class (new_context ''Node'' Heavy 0 0))))
        (lq_messages (io_channels ?io (rp_inn (demo_repeat [])))) \<and>
    lq_messages (io_channels io' (rp_inn (demo_repeat []))) \<noteq> []"
    by (rule repeat_finishes_before_its_input [OF list_ring.ring_axioms])
      (simp_all add: node_io_new_def demo_channels_def new_context_def budget_of_def)
  then show ?thesis
    by (force simp: node_io_new_def demo_channels_def new_context_def budget_of_def)
qed

text \<open>
  A full OUT puts \<open>Repeat\<close> to rest for good: with something to send and no room, its turn sends
  nothing, keeps a packet pending, reports no work and asks for no timer, so the scheduler does not
  queue it again. What makes room later, the consumer taking a packet, wakes nobody.
\<close>

theorem full_port_stalls_repeat:
  assumes "ring R cap held" and "rp_inn c \<noteq> sk_sink (rp_out c)"
    and "io_external io = []" and "io_signals io = []"
    and "rp_pending_out c \<noteq> [] \<or> held (io_channels io (rp_inn c)) \<noteq> []"
    and "cap (io_channels io (sk_sink (rp_out c))) \<le> length (held (io_channels io (sk_sink (rp_out c))))"
  shows "\<exists>c' io' ctx' out a'.
    execute_component (node_call (repeat_process R)) (c, io) ctx a = Some ((c', io'), ctx', out, a') \<and>
    rp_pending_out c' \<noteq> [] \<and> io_sent io' = io_sent io \<and> \<not> finished out \<and>
    (\<forall>n s. flag_store s = a' \<longrightarrow>
       ready_queue (run_finish n (c', io') ctx' out s) = ready_queue s \<and>
       timers (run_finish n (c', io') ctx' out s) = timers s) \<and>
    (\<forall>d. io_woken (happens R (Taken d) io') = io_woken io')"
proof -
  let ?ctx = "fst (exec_begin ctx a)"
  have rem: "remaining_budget ?ctx = budget_of (budget_class ctx)"
    by (simp add: exec_begin_def take_wake_at_def)
  obtain b where "unat (budget_of (budget_class ctx)) = Suc b"
    using budget_of_pos [of "budget_class ctx"] gr0_conv_Suc by blast
  with rem have b: "budget_left ?ctx = Suc b" "remaining_budget ?ctx \<noteq> 0"
    by (auto simp: budget_left_def)
  note full = ring.push_alone_full [OF assms(1,3,6)]
  have "\<exists>b' p' io'. repeat_process R (c, io) ?ctx = ((c\<lparr>rp_pending_out := p'\<rparr>, io'), with_budget b' ?ctx, NoWork) \<and>
      p' \<noteq> [] \<and> io_sent io' = io_sent io \<and> io_clock io' = io_clock io"
  proof (cases "held (io_channels io (rp_inn c))")
    case Nil
    with assms(5) obtain p ps where p: "rp_pending_out c = p # ps" by (cases "rp_pending_out c") auto
    with Nil assms(3,4) b full ring.pop_alone_empty [OF assms(1,3) Nil] show ?thesis
      by (auto simp: repeat_process_def work_result_def)
  next
    case (Cons m ms)
    obtain q where q: "pop R (rp_inn c) io =
        (io\<lparr>io_channels := (io_channels io)(rp_inn c := q), io_read := io_read io @ [(rp_inn c, m)]\<rparr>, Some m)"
      by (rule ring.pop_alone [OF assms(1,3) Cons])
    let ?io = "io\<lparr>io_channels := (io_channels io)(rp_inn c := q), io_read := io_read io @ [(rp_inn c, m)]\<rparr>"
    have "push R m (rp_out c) ?io = (?io, False)"
      using assms(2,3,6) by (intro ring.push_alone_full [OF assms(1)]) auto
    with q assms(3,4) b full show ?thesis
      by (cases "rp_pending_out c") (auto simp: repeat_process_def work_result_def)
  qed
  then obtain b' p' io' where p: "repeat_process R (c, io) ?ctx =
      ((c\<lparr>rp_pending_out := p'\<rparr>, io'), with_budget b' ?ctx, NoWork)"
    "p' \<noteq> []" "io_sent io' = io_sent io" "io_clock io' = io_clock io"
    by blast
  then have "execute_component (node_call (repeat_process R)) (c, io) ctx a =
      Some ((c\<lparr>rp_pending_out := p'\<rparr>, io'), with_budget b' ?ctx, outcome_default, clear_ready ctx a)"
    using b by (simp add: execute_component_def split_def exec_loop.simps exec_iteration_def node_call_def
        contract_ok_def apply_flag_def Let_def)
      (simp add: with_budget_def exec_begin_def take_wake_at_def)
  with p show ?thesis
    by (auto simp: outcome_default_def run_finish_def restore_def record_execution_def take_wake_at_def
        is_ready_def clear_ready_def with_budget_def exec_begin_def Let_def split: option.splits)
qed

lemma full_port_stalls_repeat_witness:
  "\<exists>c' io' ctx' out a'.
    execute_component (node_call (repeat_process list_ring))
      (demo_repeat [], node_io_new (demo_channels [MText ''b''] 1 [MText ''x'']) [])
      (new_context ''Node'' Normal 0 0) (\<lambda>_. False) = Some ((c', io'), ctx', out, a') \<and>
    rp_pending_out c' \<noteq> [] \<and> io_sent io' = [] \<and> \<not> finished out"
proof -
  let ?io = "node_io_new (demo_channels [MText ''b''] 1 [MText ''x'']) []"
  have "\<exists>c' io' ctx' out a'.
    execute_component (node_call (repeat_process list_ring)) (demo_repeat [], ?io)
      (new_context ''Node'' Normal 0 0) (\<lambda>_. False) = Some ((c', io'), ctx', out, a') \<and>
    rp_pending_out c' \<noteq> [] \<and> io_sent io' = io_sent ?io \<and> \<not> finished out \<and>
    (\<forall>n s. flag_store s = a' \<longrightarrow>
       ready_queue (run_finish n (c', io') ctx' out s) = ready_queue s \<and>
       timers (run_finish n (c', io') ctx' out s) = timers s) \<and>
    (\<forall>d. io_woken (happens list_ring (Taken d) io') = io_woken io')"
    by (rule full_port_stalls_repeat [OF list_ring.ring_axioms])
      (simp_all add: node_io_new_def demo_channels_def)
  then show ?thesis by (auto simp: node_io_new_def)
qed

section \<open>Muxer\<close>

text \<open>A packet taken by \<open>Muxer\<close>: its channel, and whether OUT took it.\<close>

type_synonym muxed = "(nat \<times> MessageBuf) \<times> bool"

definition muxed_sent :: "nat \<Rightarrow> muxed list \<Rightarrow> (nat \<times> MessageBuf) list" where
  "muxed_sent out log = map (\<lambda>((_, m), _). (out, m)) (filter snd log)"

definition muxed_lost :: "muxed list \<Rightarrow> nat list" where
  "muxed_lost log = map (fst \<circ> fst) (filter (Not \<circ> snd) log)"

lemma muxed_append [simp]:
  "muxed_sent out (xs @ ys) = muxed_sent out xs @ muxed_sent out ys"
  "muxed_lost (xs @ ys) = muxed_lost xs @ muxed_lost ys"
  "muxed_sent out [] = []" "muxed_lost [] = []"
  "muxed_sent out (((c, m), ok) # log) = (if ok then [(out, m)] else []) @ muxed_sent out log"
  "muxed_lost (((c, m), ok) # log) = (if ok then [] else [c]) @ muxed_lost log"
  by (simp_all add: muxed_sent_def muxed_lost_def)

lemma muxer_port_logs:
  "muxer_port R inn out b w io = (b', w', io') \<Longrightarrow>
   \<exists>log. io_read io' = io_read io @ map fst log \<and> io_sent io' = io_sent io @ muxed_sent (sk_sink out) log \<and>
     (muxed_lost log = [] \<or> muxed_lost log = [inn]) \<and>
     b = b' + length (muxed_sent (sk_sink out) log) \<and> w' = w + length (muxed_sent (sk_sink out) log)"
proof (induction b arbitrary: w io)
  case (Suc b)
  obtain io1 e where e: "is_empty R inn io = (io1, e)" by fastforce
  obtain io2 got where g: "pop R inn io1 = (io2, got)" by fastforce
  note q = is_empty_quiet [OF e] pop_logs [OF g]
  show ?case
  proof (cases "e \<or> got = None")
    case True
    with Suc.prems e g q show ?thesis
      by (intro exI [of _ "[]"]) (auto simp: quiet_def split: bool.splits)
  next
    case False
    then obtain m where m: "\<not> e" "got = Some m" by auto
    obtain io3 ok where p: "push R m out io2 = (io3, ok)" by fastforce
    show ?thesis
    proof (cases ok)
      case True
      with Suc.prems e g p m have "muxer_port R inn out b (w + 1) io3 = (b', w', io')" by simp
      from Suc.IH [OF this] obtain log where "io_read io' = io_read io3 @ map fst log"
        "io_sent io' = io_sent io3 @ muxed_sent (sk_sink out) log"
        "muxed_lost log = [] \<or> muxed_lost log = [inn]"
        "b = b' + length (muxed_sent (sk_sink out) log)" "w' = w + 1 + length (muxed_sent (sk_sink out) log)"
        by blast
      with q m push_logs [OF p] True show ?thesis
        by (intro exI [of _ "((inn, m), True) # log"]) (auto simp: quiet_def)
    next
      case False
      with Suc.prems e g p m q push_logs [OF p] show ?thesis
        by (intro exI [of _ "[((inn, m), False)]"]) (auto simp: quiet_def)
    qed
  qed
qed (auto intro: exI [of _ "[]"])

lemma muxer_ports_logs:
  "muxer_ports R inns out b w io = (b', w', io') \<Longrightarrow>
   \<exists>log. io_read io' = io_read io @ map fst log \<and> io_sent io' = io_sent io @ muxed_sent (sk_sink out) log \<and>
     subseq (muxed_lost log) inns \<and>
     b = b' + length (muxed_sent (sk_sink out) log) \<and> w' = w + length (muxed_sent (sk_sink out) log)"
proof (induction inns arbitrary: b w io)
  case (Cons inn inns)
  obtain b1 w1 io1 where p: "muxer_port R inn out b w io = (b1, w1, io1)" by (metis prod.exhaust)
  from muxer_port_logs [OF p] obtain log where log: "io_read io1 = io_read io @ map fst log"
    "io_sent io1 = io_sent io @ muxed_sent (sk_sink out) log" "muxed_lost log = [] \<or> muxed_lost log = [inn]"
    "b = b1 + length (muxed_sent (sk_sink out) log)" "w1 = w + length (muxed_sent (sk_sink out) log)"
    by blast
  show ?case
  proof (cases "b1 = 0")
    case True
    with Cons.prems p log show ?thesis by (intro exI [of _ log]) auto
  next
    case False
    with Cons.prems p have "muxer_ports R inns out b1 w1 io1 = (b', w', io')" by simp
    from Cons.IH [OF this] obtain log' where log': "io_read io' = io_read io1 @ map fst log'"
      "io_sent io' = io_sent io1 @ muxed_sent (sk_sink out) log'" "subseq (muxed_lost log') inns"
      "b1 = b' + length (muxed_sent (sk_sink out) log')" "w' = w1 + length (muxed_sent (sk_sink out) log')"
      by blast
    have "subseq (muxed_lost log @ muxed_lost log') (inn # inns)"
      using log(3) log'(3) by (auto intro: list_emb_append_mono subseq_Cons')
    with log log' show ?thesis by (intro exI [of _ "log @ log'"]) simp
  qed
qed (auto intro: exI [of _ "[]"])

context ring begin

lemma muxer_port_roomy:
  "muxer_port R inn out b w io = (b', w', io') \<Longrightarrow> roomy cap held b (sk_sink out) io \<Longrightarrow> inn \<noteq> sk_sink out \<Longrightarrow>
   length (io_read io') + length (io_sent io) = length (io_read io) + length (io_sent io') \<and>
   roomy cap held b' (sk_sink out) io'"
proof (induction b arbitrary: w io)
  case (Suc b)
  obtain io1 e where e: "is_empty R inn io = (io1, e)" by fastforce
  obtain io2 got where g: "pop R inn io1 = (io2, got)" by fastforce
  note q = is_empty_quiet [OF e] pop_logs [OF g]
  have r1: "roomy cap held (Suc b) (sk_sink out) io1" by (rule roomy_is_empty [OF Suc.prems(2) e])
  have r2: "roomy cap held (Suc b) (sk_sink out) io2" by (rule roomy_pop [OF r1 g Suc.prems(3)])
  from roomy_push [OF r2] obtain io3 where p: "push R (the got) out io2 = (io3, True)"
    "roomy cap held b (sk_sink out) io3" by blast
  show ?case
  proof (cases "e \<or> got = None")
    case True
    with Suc.prems e g q r1 r2 show ?thesis by (auto simp: quiet_def split: bool.splits)
  next
    case False
    with Suc.prems(1) e g p have "muxer_port R inn out b (w + 1) io3 = (b', w', io')" by auto
    from Suc.IH [OF this p(2) Suc.prems(3)] False q push_logs [OF p(1)] show ?thesis
      by (auto simp: quiet_def)
  qed
qed simp

lemma muxer_ports_roomy:
  "muxer_ports R inns out b w io = (b', w', io') \<Longrightarrow> roomy cap held b (sk_sink out) io \<Longrightarrow> sk_sink out \<notin> set inns \<Longrightarrow>
   length (io_read io') + length (io_sent io) = length (io_read io) + length (io_sent io')"
proof (induction inns arbitrary: b w io)
  case (Cons inn inns)
  obtain b1 w1 io1 where p: "muxer_port R inn out b w io = (b1, w1, io1)" by (metis prod.exhaust)
  have "inn \<noteq> sk_sink out" using Cons.prems(3) by auto
  from muxer_port_roomy [OF p Cons.prems(2) this] Cons.IH [of b1 w1 io1] Cons.prems p show ?case
    by (auto split: if_splits)
qed simp

end

lemma all_abandoned_quiet: "all_abandoned R inns io = (io', b) \<Longrightarrow> quiet io io'"
proof (induction inns arbitrary: io)
  case (Cons inn inns)
  obtain io1 ab where a: "is_abandoned R inn io = (io1, ab)" by fastforce
  with Cons.prems Cons.IH [of io1] quiet_trans [OF is_abandoned_quiet [OF a]] is_abandoned_quiet [OF a]
  show ?case by (cases ab) auto
qed simp

text \<open>
  \<open>Muxer\<close> sends the packets it takes in the order it takes them, and loses a packet only when OUT
  does not take it: at most one of each inport in a call, none when OUT has room for the budget and
  the network has no other producer for it. The packet lost has already left its inport.
\<close>

lemma muxer_loses_what_does_not_fit:
  assumes "ring R cap held" and "sk_sink (mx_out c) \<notin> set (mx_inn c)"
    and "muxer_process R (c, io) ctx = ((c', io'), ctx', r)"
  shows "\<exists>log. io_read io' = io_read io @ map fst log \<and>
    io_sent io' = io_sent io @ muxed_sent (sk_sink (mx_out c)) log \<and>
    subseq (muxed_lost log) (mx_inn c) \<and>
    (roomy cap held (budget_left ctx) (sk_sink (mx_out c)) io \<longrightarrow> muxed_lost log = []) \<and>
    length (muxed_sent (sk_sink (mx_out c)) log) + budget_left ctx' = budget_left ctx \<and>
    r \<in> {Finished, work_result (length (muxed_sent (sk_sink (mx_out c)) log))}"
proof -
  let ?out = "sk_sink (mx_out c)"
  obtain io1 stop where s: "check_signals R text_or_utf8 io = (io1, stop)" by fastforce
  show ?thesis
  proof (cases stop)
    case True
    with assms(3) s check_signals_quiet [OF s] show ?thesis
      by (intro exI [of _ "[]"]) (auto simp: muxer_process_def quiet_def)
  next
    case False
    obtain b w io2 where p: "muxer_ports R (mx_inn c) (mx_out c) (budget_left ctx) 0 io1 = (b, w, io2)"
      by (metis prod.exhaust)
    obtain io3 ab where ab: "all_abandoned R (mx_inn c) io2 = (io3, ab)" by fastforce
    note q = check_signals_quiet [OF s] all_abandoned_quiet [OF ab]
    from muxer_ports_logs [OF p] obtain log where log: "io_read io2 = io_read io1 @ map fst log"
      "io_sent io2 = io_sent io1 @ muxed_sent ?out log" "subseq (muxed_lost log) (mx_inn c)"
      "budget_left ctx = b + length (muxed_sent ?out log)" "w = length (muxed_sent ?out log)"
      by auto
    have e: "io' = io3" "ctx' = with_budget b ctx" "r = (if ab then Finished else work_result w)"
      using assms(3) s False p ab by (auto simp: muxer_process_def)
    have "muxed_lost log = []" if "roomy cap held (budget_left ctx) ?out io"
    proof -
      have "roomy cap held (budget_left ctx) ?out io1" by (rule ring.roomy_signals [OF assms(1) that s])
      from ring.muxer_ports_roomy [OF assms(1) p this assms(2)] log(1,2)
      have "length log = length (muxed_sent ?out log)" by simp
      then show ?thesis
        using length_filter_less [of _ log snd] by (fastforce simp: muxed_sent_def muxed_lost_def filter_empty_conv)
    qed
    with log e q budget_left_with [of b ctx ctx] show ?thesis
      by (intro exI [of _ log]) (auto simp: quiet_def)
  qed
qed

definition demo_muxer :: MuxerComponent where
  "demo_muxer = \<lparr>mx_inn = [0, 2], mx_out = demo_sink\<rparr>"

lemma muxer_loses_what_does_not_fit_witness:
  "\<exists>c' io' ctx' r log.
     muxer_process list_ring (demo_muxer, node_io_new (demo_channels [MText ''a'', MText ''b''] 5 []) [])
       (demo_context 2) = ((c', io'), ctx', r) \<and>
     io_read io' = map fst log \<and> muxed_lost log = []"
proof -
  obtain c' io' ctx' r where p: "muxer_process list_ring (demo_muxer,
      node_io_new (demo_channels [MText ''a'', MText ''b''] 5 []) []) (demo_context 2) = ((c', io'), ctx', r)"
    by (metis prod.exhaust)
  show ?thesis
    using muxer_loses_what_does_not_fit [OF list_ring.ring_axioms _ p] p
    by (auto simp: node_io_new_def demo_muxer_def roomy_def demo_channels_def)
qed

lemma muxer_drops_a_packet:
  "\<exists>c' io' ctx' r.
     muxer_process list_ring (demo_muxer, node_io_new (demo_channels [MText ''a''] 1 [MText ''x'']) [])
       (demo_context 2) = ((c', io'), ctx', r) \<and>
     io_read io' = [(0, MText ''a''), (2, MText ''x'')] \<and> io_sent io' = []"
  by (simp add: muxer_process_def demo_muxer_def node_io_new_def demo_channels_def run_defs)

section \<open>Demux3\<close>

definition demuxed :: "Demux3Component \<Rightarrow> u64 \<Rightarrow> MessageBuf list \<Rightarrow> (nat \<times> MessageBuf) list" where
  "demuxed c branch ms = map (\<lambda>(i, m). (sk_sink (demux_out c (branch + of_nat i)), m)) (enumerate 0 ms)"

lemma demuxed_simps [simp]:
  "demuxed c branch [] = []"
  "demuxed c branch (m # ms) = (sk_sink (demux_out c branch), m) # demuxed c (branch + 1) ms"
proof -
  have "enumerate 1 ms = map (apfst Suc) (enumerate 0 ms)"
    by (metis One_nat_def enumerate_Suc_eq)
  then show "demuxed c branch (m # ms) = (sk_sink (demux_out c branch), m) # demuxed c (branch + 1) ms"
    by (simp add: demuxed_def algebra_simps split_def)
qed (simp add: demuxed_def)

lemma demux_loop_logs:
  "demux_loop R c b w branch io = (b', w', branch', io') \<Longrightarrow>
   \<exists>ms lost. io_read io' = io_read io @ map (Pair (dx_inn c)) (ms @ lost) \<and>
     io_sent io' = io_sent io @ demuxed c branch ms \<and> length lost \<le> 1 \<and>
     branch' = branch + of_nat (length ms) \<and> b = b' + length ms \<and> w' = w + length ms"
proof (induction b arbitrary: w branch io)
  case (Suc b)
  obtain io1 e where e: "is_empty R (dx_inn c) io = (io1, e)" by fastforce
  obtain io2 got where g: "pop R (dx_inn c) io1 = (io2, got)" by fastforce
  note q = is_empty_quiet [OF e] pop_logs [OF g]
  show ?case
  proof (cases "e \<or> got = None")
    case True
    with Suc.prems e g q show ?thesis
      by (intro exI [of _ "[]"]) (auto simp: quiet_def split: bool.splits)
  next
    case False
    then obtain m where m: "\<not> e" "got = Some m" by auto
    obtain io3 ok where p: "push R m (demux_out c branch) io2 = (io3, ok)" by fastforce
    show ?thesis
    proof (cases ok)
      case True
      with Suc.prems e g p m have "demux_loop R c b (w + 1) (branch + 1) io3 = (b', w', branch', io')" by simp
      from Suc.IH [OF this] obtain ms lost where "io_read io' = io_read io3 @ map (Pair (dx_inn c)) (ms @ lost)"
        "io_sent io' = io_sent io3 @ demuxed c (branch + 1) ms" "length lost \<le> 1"
        "branch' = branch + 1 + of_nat (length ms)" "b = b' + length ms" "w' = w + 1 + length ms"
        by blast
      with q m push_logs [OF p] True show ?thesis
        by (intro exI [of _ "m # ms"] exI [of _ lost]) (simp add: quiet_def)
    next
      case False
      with Suc.prems e g p m q push_logs [OF p] show ?thesis
        by (intro exI [of _ "[]"] exI [of _ "[m]"]) (auto simp: quiet_def)
    qed
  qed
qed auto

lemma demux_process_logs:
  assumes "demux_process R (c, io) ctx = ((c', io'), ctx', r)"
  shows "\<exists>ms lost. io_read io' = io_read io @ map (Pair (dx_inn c)) (ms @ lost) \<and>
     io_sent io' = io_sent io @ demuxed c (dx_branch c) ms \<and> length lost \<le> 1 \<and>
     c' = c\<lparr>dx_branch := dx_branch c + of_nat (length ms)\<rparr> \<and>
     budget_left ctx = budget_left ctx' + length ms \<and> r \<in> {Finished, work_result (length ms)}"
proof -
  obtain io1 stop where s: "check_signals R text_or_utf8 io = (io1, stop)" by fastforce
  show ?thesis
  proof (cases stop)
    case True
    with assms s check_signals_quiet [OF s] show ?thesis
      by (intro exI [of _ "[]"]) (auto simp: demux_process_def quiet_def)
  next
    case False
    obtain b w branch io2 where l: "demux_loop R c (budget_left ctx) 0 (dx_branch c) io1 = (b, w, branch, io2)"
      by (metis prod.exhaust)
    obtain io3 ab where ab: "is_abandoned R (dx_inn c) io2 = (io3, ab)" by fastforce
    from demux_loop_logs [OF l] obtain ms lost where "io_read io2 = io_read io1 @ map (Pair (dx_inn c)) (ms @ lost)"
      "io_sent io2 = io_sent io1 @ demuxed c (dx_branch c) ms" "length lost \<le> 1"
      "branch = dx_branch c + of_nat (length ms)" "budget_left ctx = b + length ms" "w = length ms"
      by auto
    with assms s False l ab check_signals_quiet [OF s] is_abandoned_quiet [OF ab] budget_left_with [of b ctx ctx]
    show ?thesis
      by (intro exI [of _ ms] exI [of _ lost]) (auto simp: demux_process_def quiet_def)
  qed
qed

definition demux_outs :: "Demux3Component \<Rightarrow> nat \<Rightarrow> ProcessEdgeSink" where
  "demux_outs c n = (if n mod 3 = 0 then dx_out_a c else if n mod 3 = 1 then dx_out_b c else dx_out_c c)"

lemma demux_out_nat: "unat b + i < 2 ^ 64 \<Longrightarrow> demux_out c (b + of_nat i) = demux_outs c (unat b + i)"
proof -
  assume "unat b + i < 2 ^ 64"
  then have "unat (b + of_nat i) = unat b + i" by (simp add: unat_word_ariths unat_of_nat)
  then show ?thesis
    by (simp add: demux_out_def demux_outs_def word_unat_eq_iff unat_mod)
qed

text \<open>
  C21. \<open>Demux3\<close> deals its packets to A, B and C in turn, over all its calls: the packet sent as number
  \<open>i\<close> of a call goes to the port of the count so far plus \<open>i\<close> modulo three, and the count goes on
  from there; at most one packet, the last one taken, is lost to a full port. The count must not reach
  the end of its 64 bits.
\<close>

theorem demux_round_robin:
  assumes "demux_process R (c, io) ctx = ((c', io'), ctx', r)"
    and "unat (dx_branch c) + budget_left ctx < 2 ^ 64"
  shows "\<exists>ms lost. io_read io' = io_read io @ map (Pair (dx_inn c)) (ms @ lost) \<and> length lost \<le> 1 \<and>
    io_sent io' = io_sent io @
      map (\<lambda>(i, m). (sk_sink (demux_outs c (unat (dx_branch c) + i)), m)) (enumerate 0 ms) \<and>
    unat (dx_branch c') = unat (dx_branch c) + length ms \<and>
    (\<forall>n. demux_outs c' n = demux_outs c n) \<and> length ms + budget_left ctx' = budget_left ctx"
proof -
  from demux_process_logs [OF assms(1)] obtain ms lost where
    l: "io_read io' = io_read io @ map (Pair (dx_inn c)) (ms @ lost)" "length lost \<le> 1"
    "io_sent io' = io_sent io @ demuxed c (dx_branch c) ms"
    "c' = c\<lparr>dx_branch := dx_branch c + of_nat (length ms)\<rparr>" "budget_left ctx = budget_left ctx' + length ms"
    by blast
  have "demuxed c (dx_branch c) ms =
      map (\<lambda>(i, m). (sk_sink (demux_outs c (unat (dx_branch c) + i)), m)) (enumerate 0 ms)"
    using assms(2) l(5) by (auto simp: demuxed_def demux_out_nat in_set_enumerate_eq)
  moreover have "unat (dx_branch c + of_nat (length ms)) = unat (dx_branch c) + length ms"
    using assms(2) l(5) by (simp add: unat_word_ariths unat_of_nat)
  ultimately show ?thesis
    using l by (intro exI [of _ ms] exI [of _ lost]) (simp add: demux_outs_def)
qed

definition demo_demux :: Demux3Component where
  "demo_demux = \<lparr>dx_inn = 0, dx_out_a = demo_sink, dx_out_b = demo_sink\<lparr>sk_sink := 2\<rparr>,
     dx_out_c = demo_sink\<lparr>sk_sink := 3\<rparr>, dx_branch = 1\<rparr>"

lemma demux_round_robin_witness:
  "\<exists>c' io' ctx' r ms lost.
     demux_process list_ring (demo_demux, node_io_new (demo_channels [MText ''a'', MText ''b''] 5 []) [])
       (demo_context 2) = ((c', io'), ctx', r) \<and>
     io_read io' = map (Pair 0) (ms @ lost) \<and> unat (dx_branch c') = 1 + length ms"
proof -
  obtain c' io' ctx' r where p: "demux_process list_ring (demo_demux,
      node_io_new (demo_channels [MText ''a'', MText ''b''] 5 []) []) (demo_context 2) = ((c', io'), ctx', r)"
    by (metis prod.exhaust)
  show ?thesis
    using demux_round_robin [OF p] p by (auto simp: node_io_new_def demo_demux_def)
qed

section \<open>Turns of the relays\<close>

lemma pop_many_length: "pop_many R n q = Some (q', ms) \<Longrightarrow> length ms = n"
  by (induction n arbitrary: q ms) (auto split: option.splits prod.splits)

lemma drop_loop_logs:
  "drop_loop R inn b w io = (st, b', w', io') \<Longrightarrow>
   io_sent io' = io_sent io \<and> b' \<le> b \<and> w' + b' = w + b \<and>
   (\<exists>ms. io_read io' = io_read io @ map (Pair inn) ms \<and> length ms = w' - w)"
proof (induction b arbitrary: w io rule: less_induct)
  case (less b)
  obtain io1 e where e: "is_empty R inn io = (io1, e)" by fastforce
  obtain io2 stop where s: "check_signals R text_only io1 = (io2, stop)" by fastforce
  obtain io3 n where n: "slots R inn io2 = (io3, n)" by fastforce
  obtain io4 got where g: "read_chunk R inn (min n b) io3 = (io4, got)" by fastforce
  note q = is_empty_quiet [OF e] check_signals_quiet [OF s] slots_quiet [OF n]
  have rd: "io_sent io4 = io_sent io3 \<and> (case got of None \<Rightarrow> io_read io4 = io_read io3
      | Some ms \<Rightarrow> io_read io4 = io_read io3 @ map (Pair inn) ms \<and> length ms = min n b)"
    using g by (auto simp: read_chunk_def Let_def split: option.splits prod.splits dest: pop_many_length)
  show ?case
  proof (cases "b = 0 \<or> e \<or> stop \<or> min n b = 0 \<or> got = None")
    case True
    with less.prems e s n g q rd show ?thesis
      by (subst (asm) drop_loop.simps) (auto simp: quiet_def Let_def split: if_splits bool.splits)
  next
    case False
    then obtain ms where ms: "got = Some ms" "b \<noteq> 0" "\<not> e" "\<not> stop" "min n b \<noteq> 0" by auto
    with less.prems e s n g have r: "drop_loop R inn (b - min n b) (w + min n b) io4 = (st, b', w', io')"
      by (subst (asm) drop_loop.simps) (auto simp: Let_def)
    have "io_sent io' = io_sent io4 \<and> b' \<le> b - min n b \<and> w' + b' = w + min n b + (b - min n b) \<and>
      (\<exists>ms. io_read io' = io_read io4 @ map (Pair inn) ms \<and> length ms = w' - (w + min n b))"
      using less.IH [OF _ r] ms by simp
    then obtain ms' where "io_sent io' = io_sent io4" "b' \<le> b - min n b" "w' + b' = w + b"
      "io_read io' = io_read io4 @ map (Pair inn) ms'" "length ms' = w' - (w + min n b)"
      by auto
    with q rd ms show ?thesis
      by (auto simp: quiet_def intro: exI [of _ "ms @ ms'"])
  qed
qed

lemma drop_process_logs:
  assumes "drop_process R (c, io) ctx = ((c', io'), ctx', r)"
  shows "c' = c \<and> io_sent io' = io_sent io \<and> budget_left ctx' \<le> budget_left ctx \<and>
    (\<exists>ms. io_read io' = io_read io @ map (Pair (dp_inn c)) ms \<and> length ms + budget_left ctx' = budget_left ctx \<and>
       r \<in> {Finished, work_result (length ms)})"
proof -
  obtain io1 stop where s: "check_signals R text_only io = (io1, stop)" by fastforce
  obtain st b w io2 where l: "drop_loop R (dp_inn c) (budget_left ctx) 0 io1 = (st, b, w, io2)"
    by (metis prod.exhaust)
  obtain io3 ab where ab: "is_abandoned R (dp_inn c) io2 = (io3, ab)" by fastforce
  show ?thesis
  proof (cases stop)
    case True
    with assms s check_signals_quiet [OF s] show ?thesis
      by (auto simp: drop_process_def quiet_def)
  next
    case False
    from drop_loop_logs [OF l] obtain ms where ms: "io_sent io2 = io_sent io1" "b \<le> budget_left ctx"
      "w + b = budget_left ctx" "io_read io2 = io_read io1 @ map (Pair (dp_inn c)) ms" "length ms = w"
      by auto
    have "c' = c \<and> (io' = io2 \<or> io' = io3) \<and> ctx' = with_budget b ctx \<and> r \<in> {Finished, work_result w}"
      using assms s False l ab by (auto simp: drop_process_def work_result_def split: if_splits)
    moreover have "quiet io2 io3" by (rule is_abandoned_quiet [OF ab])
    ultimately show ?thesis
      using ms check_signals_quiet [OF s] budget_left_with [of b ctx ctx] by (auto simp: quiet_def)
  qed
qed

interpretation repeat_turn: budgeted "repeat_process R"
proof (unfold_locales, clarify)
  fix c io ctx c' io' ctx' r
  assume "repeat_process R (c, io) ctx = ((c', io'), ctx', r)"
  then obtain b1 w1 p1 io1 io2 ss1 ss2 rest stop b2 w2 io3 where
    "repeat_flush R (rp_out c) (budget_left ctx) 0 (rp_pending_out c) io = (b1, w1, p1, io1)"
    "check_signals R text_only io1 = (io2, stop)"
    "rp_pending_out c = ss1 @ p1" "length rest \<le> 1" "w2 = length (ss1 @ ss2)"
    "stop \<longrightarrow> ss2 = [] \<and> rest = []"
    "\<not> stop \<longrightarrow> (\<exists>st. repeat_relay R (rp_inn c) (rp_out c) b1 w1 p1 io2 = (st, b2, w2, p1 @ rest, io3) \<and>
       io_sent io3 = io_sent io2 @ map (Pair (sk_sink (rp_out c))) ss2)"
    "b1 = b2 + length ss2" and e: "budget_left ctx = b2 + length (ss1 @ ss2)"
    "c' = c\<lparr>rp_pending_out := p1 @ rest\<rparr>" "ctx' = with_budget b2 ctx"
    "io_read io' = io_read io @ map (Pair (rp_inn c)) (ss2 @ rest)"
    "io_sent io' = io_sent io @ map (Pair (sk_sink (rp_out c))) (ss1 @ ss2)"
    "r = Finished \<or> r = work_result w2"
    by (rule repeat_process_logs)
  then show "sent_count (c', io') + budget_left ctx' \<le> sent_count (c, io) + budget_left ctx"
    using budget_left_with [of b2 ctx ctx] by (simp add: sent_count_def)
qed

interpretation drop_turn: budgeted "drop_process R"
  by unfold_locales (auto simp: sent_count_def dest!: drop_process_logs)

lemma muxer_process_count:
  assumes "muxer_process R (c, io) ctx = ((c', io'), ctx', r)"
  shows "sent_count (c', io') + budget_left ctx' \<le> sent_count (c, io) + budget_left ctx"
proof -
  obtain io1 stop where s: "check_signals R text_or_utf8 io = (io1, stop)" by fastforce
  obtain b w io2 where p: "muxer_ports R (mx_inn c) (mx_out c) (budget_left ctx) 0 io1 = (b, w, io2)"
    by (metis prod.exhaust)
  obtain io3 ab where ab: "all_abandoned R (mx_inn c) io2 = (io3, ab)" by fastforce
  from muxer_ports_logs [OF p] check_signals_quiet [OF s] all_abandoned_quiet [OF ab] assms s p ab
    budget_left_with [of b ctx ctx]
  show ?thesis
    by (cases stop) (auto simp: muxer_process_def quiet_def sent_count_def)
qed

interpretation muxer_turn: budgeted "muxer_process R"
  by unfold_locales (auto dest: muxer_process_count)

interpretation demux_turn: budgeted "demux_process R"
  by unfold_locales (auto simp: sent_count_def demuxed_def dest!: demux_process_logs)

end
