(* ===== verification/Routing_Properties.thy ===== *)
theory Routing_Properties
  imports Routing Relay_Properties
begin

text \<open>
  \<open>Equals\<close> sends every packet to the port its comparison decides and keeps those that do not fit,
  though not their order; \<open>GenericRouter\<close> follows its first matching rule, and its loop ends.
\<close>

section \<open>Equals\<close>

definition equals_sent :: "EqualsComponent \<Rightarrow> (MessageBuf \<times> bool) list \<Rightarrow> (nat \<times> MessageBuf) list" where
  "equals_sent c = map (\<lambda>(m, t). (sk_sink (equals_out c t), m))"

lemma equals_flush_logs:
  "equals_flush R c b w p io = (b', w', p', io') \<Longrightarrow>
   \<exists>ss. p = ss @ p' \<and> io_read io' = io_read io \<and> io_sent io' = io_sent io @ equals_sent c ss \<and>
     b = b' + length ss \<and> w' = w + length ss"
proof (induction b arbitrary: w p io)
  case (Suc b)
  show ?case
  proof (cases p)
    case Nil
    with Suc.prems show ?thesis by (simp add: equals_sent_def)
  next
    case (Cons x rest)
    obtain ip t where x: "x = (ip, t)" by fastforce
    obtain io1 ok where ps: "push R ip (equals_out c t) io = (io1, ok)" by fastforce
    show ?thesis
    proof (cases ok)
      case True
      with Suc.prems Cons x ps have "equals_flush R c b (w + 1) rest io1 = (b', w', p', io')" by simp
      from Suc.IH [OF this] obtain ss where "rest = ss @ p'" "io_read io' = io_read io1"
        "io_sent io' = io_sent io1 @ equals_sent c ss" "b = b' + length ss" "w' = w + 1 + length ss"
        by blast
      with push_logs [OF ps] True Cons x show ?thesis
        by (intro exI [of _ "(ip, t) # ss"]) (simp add: equals_sent_def)
    next
      case False
      with Suc.prems Cons x ps push_logs [OF ps] show ?thesis
        by (intro exI [of _ "[]"]) (auto simp: equals_sent_def)
    qed
  qed
qed (simp add: equals_sent_def)

text \<open>What the loop does with the packets it takes: sent, or kept, each with its decision.\<close>

lemma equals_loop_logs:
  "equals_loop R c v b w p io = (st, b', w', p', io') \<Longrightarrow>
   \<exists>taken ss kept. io_read io' = io_read io @ map (Pair (eq_inn c)) taken \<and>
     io_sent io' = io_sent io @ equals_sent c ss \<and> p' = p @ kept \<and>
     mset (ss @ kept) = mset (map (\<lambda>m. (m, message_eq m v)) taken) \<and>
     b = b' + length taken \<and> w' = w + length taken"
proof (induction b arbitrary: w p io)
  case (Suc b)
  obtain io1 stop where s: "check_signals R text_or_utf8 io = (io1, stop)" by fastforce
  obtain io2 got where g: "pop R (eq_inn c) io1 = (io2, got)" by fastforce
  note q = check_signals_quiet [OF s] pop_logs [OF g]
  show ?case
  proof (cases "stop \<or> got = None")
    case True
    with Suc.prems s g q show ?thesis
      by (intro exI [of _ "[]"]) (auto simp: quiet_def equals_sent_def split: bool.splits)
  next
    case False
    then obtain m where m: "\<not> stop" "got = Some m" by auto
    obtain io3 ok where ps: "push R m (equals_out c (message_eq m v)) io2 = (io3, ok)" by fastforce
    let ?x = "(m, message_eq m v)"
    let ?p = "if ok then p else p @ [?x]"
    from Suc.prems s g m ps have "equals_loop R c v b (w + 1) ?p io3 = (st, b', w', p', io')"
      by (cases ok) (simp_all add: Let_def)
    from Suc.IH [OF this] obtain taken ss kept where t: "io_read io' = io_read io3 @ map (Pair (eq_inn c)) taken"
      "io_sent io' = io_sent io3 @ equals_sent c ss" "p' = ?p @ kept"
      "mset (ss @ kept) = mset (map (\<lambda>m. (m, message_eq m v)) taken)"
      "b = b' + length taken" "w' = w + 1 + length taken"
      by blast
    have "io_sent io' = io_sent io @ equals_sent c ((if ok then [?x] else []) @ ss)"
      "p' = p @ (if ok then [] else [?x]) @ kept" "io_read io' = io_read io @ map (Pair (eq_inn c)) (m # taken)"
      using t q m push_logs [OF ps] by (auto simp: quiet_def equals_sent_def)
    moreover have "mset (((if ok then [?x] else []) @ ss) @ (if ok then [] else [?x]) @ kept) =
        mset (map (\<lambda>m. (m, message_eq m v)) (m # taken))"
      using t(4) by simp
    ultimately show ?thesis using t(5,6)
      by - (rule exI [of _ "m # taken"], rule exI [of _ "(if ok then [?x] else []) @ ss"],
        rule exI [of _ "(if ok then [] else [?x]) @ kept"], simp)
  qed
qed (auto simp: equals_sent_def)

lemma equals_process_logs:
  assumes "equals_process R (c, io) ctx = ((c', io'), ctx', r)" and "eq_cmp_value c = Some v"
  shows "\<exists>taken new_cmp sent.
    io_read io' = io_read io @ map (Pair (eq_inn c)) taken @ map (Pair (eq_cmp c)) new_cmp \<and>
    io_sent io' = io_sent io @ equals_sent c sent \<and>
    mset sent + mset (eq_pending_packets c') =
      mset (eq_pending_packets c) + mset (map (\<lambda>m. (m, message_eq m v)) taken) \<and>
    length new_cmp \<le> 1 \<and> eq_cmp_value c' = Some (last (v # new_cmp)) \<and>
    length sent + budget_left ctx' \<le> budget_left ctx"
proof -
  have c: "c\<lparr>eq_cmp_value := Some v\<rparr> = c" using assms(2) by (cases c) simp
  obtain io1 stop where s: "check_signals R text_or_utf8 io = (io1, stop)" by fastforce
  show ?thesis
  proof (cases stop)
    case True
    with assms s c check_signals_quiet [OF s] show ?thesis
      by (intro exI [of _ "[]"]) (auto simp: equals_process_def equals_configure_def quiet_def equals_sent_def)
  next
    case False
    obtain b2 w2 p2 io2 where f:
      "equals_flush R c (budget_left ctx) 0 (eq_pending_packets c) io1 = (b2, w2, p2, io2)"
      by (metis prod.exhaust)
    obtain st b3 w3 p3 io3 where l: "equals_loop R c v b2 w2 p2 io2 = (st, b3, w3, p3, io3)"
      by (metis prod.exhaust)
    obtain io4 u where u: "pop R (eq_cmp c) io3 = (io4, u)" by fastforce
    obtain io5 ab where ab: "is_abandoned R (eq_inn c) io4 = (io5, ab)" by fastforce
    let ?new = "if st then [] else case u of None \<Rightarrow> [] | Some m \<Rightarrow> [m]"
    have e: "io' = (if st then io3 else io5)" "ctx' = with_budget b3 ctx" "eq_pending_packets c' = p3"
      "eq_cmp_value c' = Some (last (v # ?new))"
      using assms s c False f l u ab
      by (auto simp: equals_process_def equals_configure_def Let_def split: if_splits option.splits)
    note q = check_signals_quiet [OF s] pop_logs [OF u] is_abandoned_quiet [OF ab]
    from equals_flush_logs [OF f] obtain s1 where s1: "eq_pending_packets c = s1 @ p2" "io_read io2 = io_read io1"
      "io_sent io2 = io_sent io1 @ equals_sent c s1" "budget_left ctx = b2 + length s1" by blast
    from equals_loop_logs [OF l] obtain taken s2 kept where s2:
      "io_read io3 = io_read io2 @ map (Pair (eq_inn c)) taken" "io_sent io3 = io_sent io2 @ equals_sent c s2"
      "p3 = p2 @ kept" "mset (s2 @ kept) = mset (map (\<lambda>m. (m, message_eq m v)) taken)" "b2 = b3 + length taken"
      by blast
    have len: "length s2 \<le> length taken" using arg_cong [OF s2(4), of size] by simp
    have "io_read io' = io_read io @ map (Pair (eq_inn c)) taken @ map (Pair (eq_cmp c)) ?new"
      "io_sent io' = io_sent io @ equals_sent c (s1 @ s2)"
      using e(1) q s1 s2 by (auto simp: quiet_def equals_sent_def split: option.splits)
    moreover have "mset (s1 @ s2) + mset (eq_pending_packets c') =
        mset (eq_pending_packets c) + mset (map (\<lambda>m. (m, message_eq m v)) taken)"
      using e(3) s1(1) s2(3,4) by (simp add: union_ac)
    moreover have "length ?new \<le> 1" by (auto split: option.splits)
    moreover have "length (s1 @ s2) + budget_left ctx' \<le> budget_left ctx"
      using e(2) s1(4) s2(5) len budget_left_with [of b3 ctx ctx] by simp
    ultimately show ?thesis using e(4) by blast
  qed
qed

text \<open>
  C15. A configured \<open>Equals\<close> decides every packet it takes by comparing it with the value of CMP, and
  the packets sent on TRUE and FALSE with those still pending are, each with its decision, exactly
  those that were pending and those taken. A new value read from CMP only counts from the next call.
\<close>

theorem equals_partitions_its_input:
  assumes "equals_process R (c, io) ctx = ((c', io'), ctx', r)" and "eq_cmp_value c = Some v"
  shows "\<exists>taken new_cmp sent.
    io_read io' = io_read io @ map (Pair (eq_inn c)) taken @ map (Pair (eq_cmp c)) new_cmp \<and>
    io_sent io' = io_sent io @ equals_sent c sent \<and>
    mset sent + mset (eq_pending_packets c') =
      mset (eq_pending_packets c) + mset (map (\<lambda>m. (m, message_eq m v)) taken) \<and>
    length new_cmp \<le> 1 \<and> eq_cmp_value c' = Some (last (v # new_cmp)) \<and>
    length sent + budget_left ctx' \<le> budget_left ctx"
  using assms by (rule equals_process_logs)

definition demo_equals :: "(MessageBuf \<times> bool) list \<Rightarrow> EqualsComponent" where
  "demo_equals pending = \<lparr>eq_cmp = 4, eq_inn = 0, eq_out_true = demo_sink, eq_out_false = demo_sink\<lparr>sk_sink := 2\<rparr>,
     eq_cmp_value = Some (MText ''x''), eq_pending_packets = pending\<rparr>"

definition equals_channels :: "nat \<Rightarrow> list_queue" where
  "equals_channels = (\<lambda>c. if c = 0 then \<lparr>lq_capacity = 5, lq_messages = [MText ''z'']\<rparr>
     else if c = 1 then \<lparr>lq_capacity = 1, lq_messages = [MText ''x'']\<rparr>
     else \<lparr>lq_capacity = 5, lq_messages = []\<rparr>)"

lemma equals_partitions_its_input_witness:
  "\<exists>c' io' ctx' r taken sent.
     equals_process list_ring (demo_equals [], node_io_new equals_channels []) (demo_context 2) =
       ((c', io'), ctx', r) \<and>
     io_sent io' = equals_sent (demo_equals []) sent \<and>
     mset sent + mset (eq_pending_packets c') = mset (map (\<lambda>m. (m, message_eq m (MText ''x''))) taken)"
proof -
  obtain c' io' ctx' r where p: "equals_process list_ring (demo_equals [], node_io_new equals_channels [])
      (demo_context 2) = ((c', io'), ctx', r)"
    by (metis prod.exhaust)
  show ?thesis
    using equals_partitions_its_input [OF p, of "MText ''x''"] p
    by (force simp: node_io_new_def demo_equals_def)
qed

text \<open>
  \<open>Equals\<close> does not keep the order of a port even when no other thread runs: while a packet for
  TRUE waits at the head of the pending packets, a packet for FALSE behind it is overtaken by the next
  one from IN.
\<close>

theorem equals_reorders:
  "\<exists>c' io' ctx' r.
     equals_process list_ring
       (demo_equals [(MText ''x'', True), (MText ''y'', False)], node_io_new equals_channels []) (demo_context 2) =
       ((c', io'), ctx', r) \<and>
     io_sent io' = [(2, MText ''z'')] \<and>
     eq_pending_packets c' = [(MText ''x'', True), (MText ''y'', False)]"
  by (simp add: equals_process_def equals_configure_def equals_out_def demo_equals_def node_io_new_def
      equals_channels_def message_eq_def run_defs)

text \<open>An \<open>Equals\<close> that has no value to compare with yet does not look at its signals at all.\<close>

lemma unconfigured_equals_ignores_signals:
  assumes "eq_cmp_value c = None" and "pop R (eq_cmp c) io = (io1, None)"
  shows "equals_process R (c, io) ctx = ((c, io1), ctx, NoWork)"
  using assms by (simp add: equals_process_def equals_configure_def)

lemma equals_process_count:
  assumes "equals_process R (c, io) ctx = ((c', io'), ctx', r)"
  shows "sent_count (c', io') + budget_left ctx' \<le> sent_count (c, io) + budget_left ctx"
proof -
  obtain io1 v where k: "equals_configure R c io = (io1, v)" by fastforce
  have s: "io_sent io1 = io_sent io"
    using k by (auto simp: equals_configure_def dest: pop_logs split: option.splits)
  show ?thesis
  proof (cases v)
    case None
    with assms k s show ?thesis by (auto simp: equals_process_def sent_count_def)
  next
    case (Some u)
    let ?c = "c\<lparr>eq_cmp_value := Some u\<rparr>"
    have "equals_process R (?c, io1) ctx = ((c', io'), ctx', r)"
      using assms k Some by (simp add: equals_process_def equals_configure_def)
    from equals_process_logs [OF this] s show ?thesis
      by (auto simp: sent_count_def equals_sent_def)
  qed
qed

interpretation equals_turn: budgeted "equals_process R"
  by unfold_locales (auto dest: equals_process_count)

section \<open>GenericRouter\<close>









text \<open>A router for the examples: no JSON, no regular expressions, one rule on plain text.\<close>

definition demo_libs :: "(unit, unit) router_libs" where
  "demo_libs = \<lparr>parse_config = Map.empty, parse_value = Map.empty, as_object = Map.empty, as_str = Map.empty,
     null_value = (), regex_new = (\<lambda>s. Inl s), regex_is_match = (\<lambda>_ _. False)\<rparr>"

definition demo_router :: "unit GenericRouterComponent" where
  "demo_router = \<lparr>gr_conf = 4, gr_inn = 0, gr_out_ports = [''OUT'' \<mapsto> demo_sink],
     gr_config = Some \<lparr>rc_rules = [], rc_default_output = None\<rparr>,
     gr_compiled_rules = [\<lparr>cr_field = ''content'', cr_operator = OpStartsWith, cr_value = ''a'',
       cr_output_port = ''OUT''\<rparr>]\<rparr>"



context ring begin

lemma router_loop_returns:
  "waiting held (gr_inn c) io < fuel \<Longrightarrow> \<forall>k \<in> ran (gr_out_ports c). sk_sink k \<noteq> gr_inn c \<Longrightarrow>
   router_loop R L c fuel b w io \<noteq> None"
proof (induction fuel arbitrary: b w io)
  case (Suc fuel)
  obtain io1 e where e: "is_empty R (gr_inn c) io = (io1, e)" by fastforce
  obtain io2 got where g: "pop R (gr_inn c) io1 = (io2, got)" by fastforce
  show ?case
  proof (cases "b = 0 \<or> e \<or> got = None")
    case True
    with e g show ?thesis by (auto split: bool.splits)
  next
    case False
    then obtain m where m: "b \<noteq> 0" "\<not> e" "got = Some m" by auto
    have less: "waiting held (gr_inn c) io2 < fuel"
      using waiting_is_empty [OF e, of "gr_inn c"] waiting_pop [OF g] m Suc.prems(1) by simp
    show ?thesis
    proof (cases "gr_out_ports c (route_message L c (text_only m))")
      case None
      with e g m Suc.IH [OF less Suc.prems(2)] show ?thesis by (simp add: Let_def)
    next
      case (Some k)
      obtain io3 ok where p: "push R (from_str (text_only m)) k io2 = (io3, ok)" by fastforce
      have "sk_sink k \<noteq> gr_inn c" using Suc.prems(2) Some by (auto simp: ran_def)
      from waiting_push [OF p this] less have "waiting held (gr_inn c) io3 < fuel" by simp
      from e g m Some p Suc.IH [OF this Suc.prems(2)] show ?thesis by (cases ok) (simp_all add: Let_def)
    qed
  qed
qed simp

end

text \<open>
  A call of \<open>GenericRouter\<close> ends although its loop is not bounded by the budget: fuel for the
  packets that wait on IN and those that other threads may add suffices. In an endless loop of
  unroutable packets it would need as much as its producers send.
\<close>

theorem router_always_returns:
  assumes "ring R cap held" and "waiting held (gr_inn c) io < fuel" and "gr_conf c \<noteq> gr_inn c"
    and "\<forall>k \<in> ran (gr_out_ports c). sk_sink k \<noteq> gr_inn c"
  shows "\<exists>r. router_process R L fuel (c, io) ctx = Some r"
proof -
  obtain io1 stop where s: "check_signals R text_or_utf8 io = (io1, stop)" by fastforce
  obtain io2 k where k: "router_configure R L c io1 = (io2, k)" by fastforce
  have "waiting held (gr_inn c) io2 \<le> waiting held (gr_inn c) io1"
    using k ring.waiting_pop_other [OF assms(1) _ assms(3), of io1]
    by (auto simp: router_configure_def split: option.splits sum.splits prod.splits)
  with ring.waiting_signals [OF assms(1) s, of "gr_inn c"] assms(2)
  have less: "waiting held (gr_inn c) io2 < fuel" by simp
  show ?thesis
  proof (cases k)
    case (Ready x)
    then obtain c1 w where x: "k = Ready (c1, w)" by (cases x) auto
    then have "gr_inn c1 = gr_inn c" "gr_out_ports c1 = gr_out_ports c"
      using k by (auto simp: router_configure_def split: option.splits sum.splits prod.splits)
    with ring.router_loop_returns [OF assms(1), of c1 io2 fuel L "budget_left ctx" w] less assms(4)
    obtain b w' io3 where "router_loop R L c1 fuel (budget_left ctx) w io2 = Some (b, w', io3)" by auto
    with s k x show ?thesis by (cases stop) (simp_all add: router_process_def split_def Let_def)
  qed (use s k in \<open>cases stop; simp add: router_process_def\<close>)+
qed

lemma router_always_returns_witness:
  "\<exists>r. router_process list_ring demo_libs 3 (demo_router,
     node_io_new (demo_channels [MText ''ab'', MText ''b''] 5 []) []) (demo_context 2) = Some r"
  by (rule router_always_returns [OF list_ring.ring_axioms])
    (simp_all add: waiting_def demo_router_def node_io_new_def demo_channels_def)

end
