(* ===== verification/Texts.thy ===== *)
theory Texts
  imports Relays
begin

text \<open>
  The components that work on the text of their packets: \<open>SplitLines\<close>, \<open>Trim\<close>, \<open>TextReplace\<close>
  and \<open>Output\<close> (\<open>components/splitlines\<close>, \<open>trim\<close>, \<open>text\<close>, \<open>output\<close>).
\<close>

section \<open>SplitLines\<close>

record SplitLinesComponent =
  sl_inn :: nat
  sl_out :: ProcessEdgeSink
  sl_line_iter :: "MessageBuf list option"

definition SplitLines_new :: "nat multimap \<Rightarrow> ProcessEdgeSink multimap \<Rightarrow> SplitLinesComponent outcome" where
  "SplitLines_new inports outports =
     outcome_bind (take_last ''IN'' ''found no IN inport'' inports) (\<lambda>(_, inn).
     outcome_bind (take_last ''OUT'' ''found no OUT outport'' outports) (\<lambda>(_, out).
       Returned \<lparr>sl_inn = inn, sl_out = out, sl_line_iter = None\<rparr>))"

definition split_message :: "MessageBuf \<Rightarrow> MessageBuf list" where
  "split_message ip =
     (case as_text ip of
        Some text \<Rightarrow> map from_str (split_on (CHR 0x0A) text)
      | None \<Rightarrow>
          (case as_bytes ip of
             Some bytes \<Rightarrow>
               map (\<lambda>x. case from_utf8 x of Some s \<Rightarrow> from_str s | None \<Rightarrow> from_bytes x) (split_bytes 10 bytes)
           | None \<Rightarrow> []))"

text \<open>Lines sent within the budget: a line that OUT does not take is already out of the iterator.\<close>

fun send_lines ::
    "'q ring_ops \<Rightarrow> ProcessEdgeSink \<Rightarrow> nat \<Rightarrow> nat \<Rightarrow> MessageBuf list \<Rightarrow> 'q node_io \<Rightarrow>
     nat \<times> nat \<times> MessageBuf list option \<times> 'q node_io" where
  "send_lines R out 0 sent ls io = (0, sent, Some ls, io)"
| "send_lines R out (Suc b) sent [] io = (Suc b, sent, None, io)"
| "send_lines R out (Suc b) sent (l # ls) io =
     (case push R l out io of
        (io1, True) \<Rightarrow> send_lines R out b (sent + 1) ls io1
      | (io1, False) \<Rightarrow> (Suc b, sent, Some ls, io1))"

definition splitlines_next ::
    "'q ring_ops \<Rightarrow> SplitLinesComponent \<Rightarrow> 'q node_io \<Rightarrow> 'q node_io \<times> MessageBuf list option" where
  "splitlines_next R c io =
     (case sl_line_iter c of
        Some ls \<Rightarrow> (io, Some ls)
      | None \<Rightarrow> (case pop R (sl_inn c) io of (io1, m) \<Rightarrow> (io1, map_option split_message m)))"

definition splitlines_finish ::
    "'q ring_ops \<Rightarrow> nat \<Rightarrow> SplitLinesComponent \<Rightarrow> 'q node_io \<Rightarrow> NodeContext \<Rightarrow>
     (SplitLinesComponent \<times> 'q node_io) \<times> NodeContext \<times> ProcessResult" where
  "splitlines_finish R w c io ctx =
     (let (io1, abandoned) = is_abandoned R (sl_inn c) io in
      ((c, io1), ctx, if abandoned then Finished else work_result w))"

definition splitlines_process ::
    "'q ring_ops \<Rightarrow> SplitLinesComponent \<times> 'q node_io \<Rightarrow> NodeContext \<Rightarrow>
     (SplitLinesComponent \<times> 'q node_io) \<times> NodeContext \<times> ProcessResult" where
  "splitlines_process R s ctx =
     (case s of (c, io) \<Rightarrow>
        (case check_signals R text_or_utf8 io of
           (io1, True) \<Rightarrow> ((c, io1), ctx, Finished)
         | (io1, False) \<Rightarrow>
             if budget_left ctx = 0 then splitlines_finish R 0 c io1 ctx
             else
               (case check_signals R text_or_utf8 io1 of
                  (io2, True) \<Rightarrow> ((c, io2), ctx, Finished)
                | (io2, False) \<Rightarrow>
                    (case splitlines_next R c io2 of
                       (io3, None) \<Rightarrow> splitlines_finish R 0 c io3 ctx
                     | (io3, Some ls) \<Rightarrow>
                         (case send_lines R (sl_out c) (budget_left ctx) 0 ls io3 of
                            (b, sent, it, io4) \<Rightarrow>
                              splitlines_finish R (if 0 < sent then 1 else 0) (c\<lparr>sl_line_iter := it\<rparr>) io4
                                (with_budget b ctx))))))"

definition SplitLines_metadata :: ComponentComponentPayload where
  "SplitLines_metadata = metadata_default\<lparr>
     comp_name := ''SplitLines'',
     comp_description := ''Splits IP contents by newline ('' @ [CHR 0x5C] @ ''n) and forwards the parts in separate IPs.'',
     comp_icon := ''cut'', subgraph := False,
     in_ports := [any_port ''IN'' False ''IPs with text to split'' ''''],
     out_ports := [any_port ''OUT'' False ''split lines'' '''']\<rparr>"

section \<open>Trim\<close>

record TrimComponent =
  tr_inn :: nat
  tr_out :: ProcessEdgeSink
  tr_pending_out :: "MessageBuf list"

definition Trim_new :: "nat multimap \<Rightarrow> ProcessEdgeSink multimap \<Rightarrow> TrimComponent outcome" where
  "Trim_new inports outports =
     outcome_bind (take_last ''IN'' ''found no IN inport'' inports) (\<lambda>(_, inn).
     outcome_bind (take_last ''OUT'' ''found no OUT outport'' outports) (\<lambda>(_, out).
       Returned \<lparr>tr_inn = inn, tr_out = out, tr_pending_out = []\<rparr>))"

text \<open>
  A packet that is not text panics. The pending packets are sent as in \<open>Repeat\<close> (\<open>repeat_flush\<close>: the
  same loop over the same fields).
\<close>

fun trim_loop ::
    "'q ring_ops \<Rightarrow> nat \<Rightarrow> ProcessEdgeSink \<Rightarrow> nat \<Rightarrow> nat \<Rightarrow> MessageBuf list \<Rightarrow> 'q node_io \<Rightarrow>
     (bool \<times> nat \<times> nat \<times> MessageBuf list \<times> 'q node_io) outcome" where
  "trim_loop R inn out 0 w pending io = Returned (False, 0, w, pending, io)"
| "trim_loop R inn out (Suc b) w pending io =
     (case check_signals R text_only io of
        (io1, True) \<Rightarrow> Returned (True, Suc b, w, pending, io1)
      | (io1, False) \<Rightarrow>
          (case pop R inn io1 of
             (io2, None) \<Rightarrow> Returned (False, Suc b, w, pending, io2)
           | (io2, Some ip) \<Rightarrow>
               (case as_text ip of
                  None \<Rightarrow> Panicked ''non-text data''
                | Some text \<Rightarrow>
                    (case push R (from_str (str_trim text)) out io2 of
                       (io3, True) \<Rightarrow> trim_loop R inn out b (w + 1) pending io3
                     | (io3, False) \<Rightarrow>
                         Returned (False, Suc b, w, pending @ [from_str (str_trim text)], io3)))))"

definition trim_process ::
    "'q ring_ops \<Rightarrow> TrimComponent \<times> 'q node_io \<Rightarrow> NodeContext \<Rightarrow>
     ((TrimComponent \<times> 'q node_io) \<times> NodeContext \<times> ProcessResult) outcome" where
  "trim_process R s ctx =
     (case s of (c, io) \<Rightarrow>
        (case repeat_flush R (tr_out c) (budget_left ctx) 0 (tr_pending_out c) io of
           (b1, w1, p1, io1) \<Rightarrow>
             (case check_signals R text_only io1 of
                (io2, True) \<Rightarrow> Returned ((c\<lparr>tr_pending_out := p1\<rparr>, io2), with_budget b1 ctx, Finished)
              | (io2, False) \<Rightarrow>
                  outcome_bind (trim_loop R (tr_inn c) (tr_out c) b1 w1 p1 io2)
                    (\<lambda>(stopped, b2, w2, p2, io3).
                       let c2 = c\<lparr>tr_pending_out := p2\<rparr>; ctx2 = with_budget b2 ctx in
                       if stopped then Returned ((c2, io3), ctx2, Finished)
                       else
                         (let (io4, abandoned) = is_abandoned R (tr_inn c) io3 in
                          Returned ((c2, io4), ctx2,
                            if abandoned \<and> p2 = [] then Finished else work_result w2))))))"

section \<open>TextReplace\<close>

record TextReplaceComponent =
  tx_conf :: nat
  tx_inn :: nat
  tx_out :: ProcessEdgeSink
  tx_replacements :: "(string \<times> string) list"
  tx_config_complete :: bool
  tx_pending_packets :: "MessageBuf list"

definition TextReplace_new :: "nat multimap \<Rightarrow> ProcessEdgeSink multimap \<Rightarrow> TextReplaceComponent outcome" where
  "TextReplace_new inports outports =
     outcome_bind (take_last ''CONF'' ''found no CONF inport'' inports) (\<lambda>(inports1, conf).
     outcome_bind (take_last ''IN'' ''found no IN inport'' inports1) (\<lambda>(_, inn).
     outcome_bind (take_last ''OUT'' ''found no OUT outport'' outports) (\<lambda>(_, out).
       Returned \<lparr>tx_conf = conf, tx_inn = inn, tx_out = out, tx_replacements = [],
         tx_config_complete = False, tx_pending_packets = []\<rparr>)))"

text \<open>
  The pairs on CONF. The loop ends when fewer than two packets are there; it takes fuel, as the
  producer may go on. A pair that is not text panics; both packets have been taken by then.
\<close>

fun read_replacements ::
    "'q ring_ops \<Rightarrow> nat \<Rightarrow> nat \<Rightarrow> (string \<times> string) list \<Rightarrow> 'q node_io \<Rightarrow>
     ((string \<times> string) list \<times> 'q node_io) outcome option" where
  "read_replacements R conf 0 reps io = None"
| "read_replacements R conf (Suc fuel) reps io =
     (case slots R conf io of
        (io1, n) \<Rightarrow>
          if n < 2 then Some (Returned (reps, io1))
          else
            (case pop R conf io1 of
               (io2, from) \<Rightarrow>
                 (case pop R conf io2 of
                    (io3, to) \<Rightarrow>
                      (case (from, to) of
                         (Some f, Some t) \<Rightarrow>
                           (case as_text f of
                              None \<Rightarrow> Some (Panicked ''invalid text in replacement from'')
                            | Some f' \<Rightarrow>
                                (case as_text t of
                                   None \<Rightarrow> Some (Panicked ''invalid text in replacement to'')
                                 | Some t' \<Rightarrow> read_replacements R conf fuel (reps @ [(f', t')]) io3))
                       | _ \<Rightarrow> Some (Returned (reps, io3))))))"

text \<open>The configuration step, and whether the call goes on after it.\<close>

definition text_configure ::
    "'q ring_ops \<Rightarrow> nat \<Rightarrow> TextReplaceComponent \<times> 'q node_io \<Rightarrow>
     ((TextReplaceComponent \<times> 'q node_io) \<times> bool) outcome option" where
  "text_configure R fuel s =
     (case s of (c, io) \<Rightarrow>
        if tx_config_complete c then Some (Returned ((c, io), True))
        else
          (case read_replacements R (tx_conf c) fuel (tx_replacements c) io of
             None \<Rightarrow> None
           | Some r \<Rightarrow> Some (outcome_bind r (\<lambda>(reps, io1).
               let (io2, abandoned) = is_abandoned R (tx_conf c) io1;
                   c1 = c\<lparr>tx_replacements := reps\<rparr>
               in if abandoned then Returned ((c1\<lparr>tx_config_complete := True\<rparr>, io2), True)
                  else Returned ((c1, io2), reps \<noteq> [])))))"

definition apply_replacements :: "(string \<times> string) list \<Rightarrow> string \<Rightarrow> string" where
  "apply_replacements reps text = fold (\<lambda>(from, to) t. str_replace t from to) reps text"

fun text_loop ::
    "'q ring_ops \<Rightarrow> TextReplaceComponent \<Rightarrow> nat \<Rightarrow> nat \<Rightarrow> MessageBuf list \<Rightarrow> 'q node_io \<Rightarrow>
     (bool \<times> nat \<times> nat \<times> MessageBuf list \<times> 'q node_io) outcome" where
  "text_loop R c 0 w pending io = Returned (False, 0, w, pending, io)"
| "text_loop R c (Suc b) w pending io =
     (case check_signals R text_only io of
        (io1, True) \<Rightarrow> Returned (True, Suc b, w, pending, io1)
      | (io1, False) \<Rightarrow>
          (case pop R (tx_inn c) io1 of
             (io2, None) \<Rightarrow> Returned (False, Suc b, w, pending, io2)
           | (io2, Some ip) \<Rightarrow>
               (case as_text ip of
                  None \<Rightarrow> Panicked ''non-text data''
                | Some text \<Rightarrow>
                    let processed = from_str (apply_replacements (tx_replacements c) text) in
                    (case push R processed (tx_out c) io2 of
                       (io3, True) \<Rightarrow> text_loop R c b (w + 1) pending io3
                     | (io3, False) \<Rightarrow> text_loop R c b (w + 1) (pending @ [processed]) io3))))"

definition text_process ::
    "'q ring_ops \<Rightarrow> nat \<Rightarrow> TextReplaceComponent \<times> 'q node_io \<Rightarrow> NodeContext \<Rightarrow>
     ((TextReplaceComponent \<times> 'q node_io) \<times> NodeContext \<times> ProcessResult) outcome option" where
  "text_process R fuel s ctx =
     (case text_configure R fuel s of
        None \<Rightarrow> None
      | Some r \<Rightarrow> Some (outcome_bind r (\<lambda>((c, io), configured).
          if \<not> configured then Returned ((c, io), ctx, NoWork)
          else
            (case check_signals R text_only io of
               (io1, True) \<Rightarrow> Returned ((c, io1), ctx, Finished)
             | (io1, False) \<Rightarrow>
                 (case repeat_flush R (tx_out c) (budget_left ctx) 0 (tx_pending_packets c) io1 of
                    (b1, w1, p1, io2) \<Rightarrow>
                      outcome_bind (text_loop R c b1 w1 p1 io2)
                        (\<lambda>(stopped, b2, w2, p2, io3).
                           let c2 = c\<lparr>tx_pending_packets := p2\<rparr>; ctx2 = with_budget b2 ctx in
                           if stopped then Returned ((c2, io3), ctx2, Finished)
                           else
                             (let (io4, abandoned) = is_abandoned R (tx_inn c) io3 in
                              Returned ((c2, io4), ctx2, if abandoned then Finished else work_result w2))))))))"

section \<open>Output\<close>

record OutputComponent =
  ou_inn :: nat
  ou_out :: ProcessEdgeSink
  ou_pending_packets :: "MessageBuf list"

definition Output_new :: "nat multimap \<Rightarrow> ProcessEdgeSink multimap \<Rightarrow> OutputComponent outcome" where
  "Output_new inports outports =
     outcome_bind (take_last ''IN'' ''found no IN inport'' inports) (\<lambda>(_, inn).
     outcome_bind (take_last ''OUT'' ''found no OUT outport'' outports) (\<lambda>(_, out).
       Returned \<lparr>ou_inn = inn, ou_out = out, ou_pending_packets = []\<rparr>))"

text \<open>The text of a packet in \<open>Output\<close>: of a structured text or bytes value, too.\<close>

definition output_as_utf8 :: "MessageBuf \<Rightarrow> string option" where
  "output_as_utf8 m =
     (case m of
        MText text \<Rightarrow> Some text
      | MBytes bytes \<Rightarrow> from_utf8 bytes
      | MValue (VText text) \<Rightarrow> Some text
      | MValue (VBytes bytes) \<Rightarrow> from_utf8 bytes
      | _ \<Rightarrow> None)"

definition output_text :: "MessageBuf \<Rightarrow> string" where
  "output_text m = (case output_as_utf8 m of None \<Rightarrow> [] | Some t \<Rightarrow> t)"

definition print_packet :: "MessageBuf \<Rightarrow> 'q node_io \<Rightarrow> 'q node_io" where
  "print_packet ip io = (case output_as_utf8 ip of Some text \<Rightarrow> println text io | None \<Rightarrow> io)"

fun output_loop ::
    "'q ring_ops \<Rightarrow> OutputComponent \<Rightarrow> nat \<Rightarrow> nat \<Rightarrow> MessageBuf list \<Rightarrow> 'q node_io \<Rightarrow>
     bool \<times> nat \<times> nat \<times> MessageBuf list \<times> 'q node_io" where
  "output_loop R c 0 w pending io = (False, 0, w, pending, io)"
| "output_loop R c (Suc b) w pending io =
     (case check_signals R output_text io of
        (io1, True) \<Rightarrow> (True, Suc b, w, pending, io1)
      | (io1, False) \<Rightarrow>
          (case pop R (ou_inn c) io1 of
             (io2, None) \<Rightarrow> (False, Suc b, w, pending, io2)
           | (io2, Some ip) \<Rightarrow>
               (case push R ip (ou_out c) (print_packet ip io2) of
                  (io3, True) \<Rightarrow> output_loop R c b (w + 1) pending io3
                | (io3, False) \<Rightarrow> output_loop R c b (w + 1) (pending @ [ip]) io3)))"

definition output_process ::
    "'q ring_ops \<Rightarrow> OutputComponent \<times> 'q node_io \<Rightarrow> NodeContext \<Rightarrow>
     (OutputComponent \<times> 'q node_io) \<times> NodeContext \<times> ProcessResult" where
  "output_process R s ctx =
     (case s of (c, io) \<Rightarrow>
        (case check_signals R output_text io of
           (io1, True) \<Rightarrow> ((c, io1), ctx, Finished)
         | (io1, False) \<Rightarrow>
             (case repeat_flush R (ou_out c) (budget_left ctx) 0 (ou_pending_packets c) io1 of
                (b1, w1, p1, io2) \<Rightarrow>
                  (case output_loop R c b1 w1 p1 io2 of
                     (stopped, b2, w2, p2, io3) \<Rightarrow>
                       let c2 = c\<lparr>ou_pending_packets := p2\<rparr>; ctx2 = with_budget b2 ctx in
                       if stopped then ((c2, io3), ctx2, Finished)
                       else if 0 < w2 then ((c2, io3), ctx2, work_result w2)
                       else
                         (let (io4, abandoned) = is_abandoned R (ou_inn c) io3 in
                          ((c2, io4), ctx2, if abandoned then Finished else NoWork))))))"

section \<open>Metadata of the text components\<close>

definition Trim_metadata :: ComponentComponentPayload where
  "Trim_metadata = metadata_default\<lparr>
     comp_name := ''Trim'',
     comp_description := ''Reads IPs as UTF-8 strings and trims whitespace at beginning and end, forwarding the trimmed string.'',
     comp_icon := ''cut'', subgraph := False,
     in_ports := [any_port ''IN'' False ''IPs with strings to trim, one string per IP'' ''''],
     out_ports := [any_port ''OUT'' False ''trimmed strings'' '''']\<rparr>"

definition TextReplace_metadata :: ComponentComponentPayload where
  "TextReplace_metadata = metadata_default\<lparr>
     comp_name := ''TextReplace'',
     comp_description := ''Reads IPs as UTF-8 strings, applies text replacements and forwards the processed string IPs.'',
     comp_icon := ''cut'', subgraph := False,
     in_ports := [
       any_port ''CONF'' False ''IPs in a multiple of two with text replacements, first line to search for, second to replace it with'' '''',
       any_port ''IN'' False ''string IPs to process'' ''''],
     out_ports := [any_port ''OUT'' False ''IPs with strings, replacements applied'' '''']\<rparr>"

definition Output_metadata :: ComponentComponentPayload where
  "Output_metadata = metadata_default\<lparr>
     comp_name := ''Output'', comp_description := ''Prints packet data to stdout and repeats packet.'',
     comp_icon := ''eye'', subgraph := False,
     in_ports := [any_port ''IN'' False ''data to be printed and repeated on outport'' ''''],
     out_ports := [any_port ''OUT'' False ''repeated data from IN port'' '''']\<rparr>"

end
