(* ===== verification/Text_Properties.thy ===== *)
theory Text_Properties
  imports Texts Relay_Properties
begin

text \<open>
  What \<open>SplitLines\<close>, \<open>Trim\<close> and \<open>TextReplace\<close> do with their packets: the lines sent are the lines of the
  packet, trimming removes exactly the white space at both ends, and replacements cannot be given as
  initial packets.
\<close>

section \<open>SplitLines\<close>




lemma send_lines_logs:
  "send_lines R out b k ls io = (b', k', it, io') \<Longrightarrow>
   \<exists>ss lost. ls = ss @ lost @ (case it of None \<Rightarrow> [] | Some r \<Rightarrow> r) \<and> length lost \<le> 1 \<and>
     io_read io' = io_read io \<and> io_sent io' = io_sent io @ map (Pair (sk_sink out)) ss \<and>
     b = b' + length ss \<and> k' = k + length ss"
proof (induction b arbitrary: k ls io)
  case (Suc b)
  show ?case
  proof (cases ls)
    case Nil
    with Suc.prems show ?thesis by auto
  next
    case (Cons l rest)
    obtain io1 ok where p: "push R l out io = (io1, ok)" by fastforce
    show ?thesis
    proof (cases ok)
      case True
      with Suc.prems Cons p have "send_lines R out b (k + 1) rest io1 = (b', k', it, io')" by simp
      from Suc.IH [OF this] obtain ss lost where "rest = ss @ lost @ (case it of None \<Rightarrow> [] | Some r \<Rightarrow> r)"
        "length lost \<le> 1" "io_read io' = io_read io1" "io_sent io' = io_sent io1 @ map (Pair (sk_sink out)) ss"
        "b = b' + length ss" "k' = k + 1 + length ss"
        by blast
      with push_logs [OF p] True Cons show ?thesis
        by (intro exI [of _ "l # ss"] exI [of _ lost]) simp
    next
      case False
      with Suc.prems Cons p push_logs [OF p] show ?thesis
        by (intro exI [of _ "[]"] exI [of _ "[l]"]) auto
    qed
  qed
qed auto

lemma splitlines_next_logs:
  "splitlines_next R c io = (io', it) \<Longrightarrow>
   \<exists>taken. io_read io' = io_read io @ map (Pair (sl_inn c)) taken \<and> io_sent io' = io_sent io \<and>
     (case sl_line_iter c of
        Some ls \<Rightarrow> taken = [] \<and> it = Some ls
      | None \<Rightarrow> (case taken of [] \<Rightarrow> it = None | m # ms \<Rightarrow> ms = [] \<and> it = Some (split_message m)))"
proof (cases "sl_line_iter c")
  case None
  assume n: "splitlines_next R c io = (io', it)"
  obtain io1 got where g: "pop R (sl_inn c) io = (io1, got)" by fastforce
  with n None pop_logs [OF g] show ?thesis
    by (cases got) (auto simp: splitlines_next_def intro: exI [of _ "[]"] exI [of _ "[the got]"])
next
  case (Some ls)
  assume "splitlines_next R c io = (io', it)"
  with Some have "io' = io" "it = Some ls" by (simp_all add: splitlines_next_def)
  with Some show ?thesis by (intro exI [of _ "[]"]) simp
qed

definition lines_of :: "MessageBuf list option \<Rightarrow> MessageBuf list" where
  "lines_of it = (case it of None \<Rightarrow> [] | Some ls \<Rightarrow> ls)"

lemma splitlines_process_logs:
  assumes "splitlines_process R (c, io) ctx = ((c', io'), ctx', r)"
  shows "\<exists>taken sent lost.
    io_read io' = io_read io @ map (Pair (sl_inn c)) taken \<and> length taken \<le> 1 \<and>
    io_sent io' = io_sent io @ map (Pair (sk_sink (sl_out c))) sent \<and> length lost \<le> 1 \<and>
    lines_of (sl_line_iter c) @ concat (map split_message taken) = sent @ lost @ lines_of (sl_line_iter c') \<and>
    (sl_line_iter c \<noteq> None \<longrightarrow> taken = []) \<and> length sent + budget_left ctx' = budget_left ctx \<and>
    r \<in> {Finished, work_result (if sent = [] then 0 else 1)}"
proof -
  obtain io1 stop1 where s1: "check_signals R text_or_utf8 io = (io1, stop1)" by fastforce
  obtain io2 stop2 where s2: "check_signals R text_or_utf8 io1 = (io2, stop2)" by fastforce
  obtain io3 it where n: "splitlines_next R c io2 = (io3, it)" by fastforce
  note q = check_signals_quiet [OF s1] check_signals_quiet [OF s2]
  have fin: "quiet i io' \<and> c' = d \<and> ctx' = x \<and> r \<in> {Finished, work_result w}"
    if "splitlines_finish R w d i x = ((c', io'), ctx', r)" for w d i x
    using that by (auto simp: splitlines_finish_def Let_def dest: is_abandoned_quiet split: prod.splits)
  show ?thesis
  proof (cases "stop1 \<or> budget_left ctx = 0 \<or> stop2")
    case True
    have "quiet io io' \<and> c' = c \<and> ctx' = ctx \<and> r \<in> {Finished, work_result 0}"
      using assms s1 s2 True q fin [of 0 c io1 ctx]
      by (auto simp: splitlines_process_def split: if_splits bool.splits intro: quiet_trans)
    then show ?thesis by (intro exI [of _ "[]"]) (auto simp: quiet_def)
  next
    case False
    from splitlines_next_logs [OF n] obtain taken where t: "io_read io3 = io_read io2 @ map (Pair (sl_inn c)) taken"
      "io_sent io3 = io_sent io2"
      "case sl_line_iter c of
        Some ls \<Rightarrow> taken = [] \<and> it = Some ls
      | None \<Rightarrow> (case taken of [] \<Rightarrow> it = None | m # ms \<Rightarrow> ms = [] \<and> it = Some (split_message m))"
      by blast
    have lines: "lines_of (sl_line_iter c) @ concat (map split_message taken) = lines_of it" "length taken \<le> 1"
      "sl_line_iter c \<noteq> None \<longrightarrow> taken = []"
      using t(3) by (auto simp: lines_of_def split: option.splits list.splits)
    show ?thesis
    proof (cases it)
      case None
      then have f: "splitlines_finish R 0 c io3 ctx = ((c', io'), ctx', r)"
        using assms s1 s2 False n by (simp add: splitlines_process_def)
      have "sl_line_iter c = None" using None t(3) by (auto split: option.splits)
      with fin [OF f] q t lines None show ?thesis
        by (intro exI [of _ taken] exI [of _ "[]"]) (auto simp: quiet_def lines_of_def)
    next
      case (Some ls)
      obtain b k it' io4 where l: "send_lines R (sl_out c) (budget_left ctx) 0 ls io3 = (b, k, it', io4)"
        by (metis prod.exhaust)
      then have f: "splitlines_finish R (if 0 < k then 1 else 0) (c\<lparr>sl_line_iter := it'\<rparr>) io4 (with_budget b ctx) =
          ((c', io'), ctx', r)"
        using assms s1 s2 False n Some by (simp add: splitlines_process_def)
      from send_lines_logs [OF l] obtain ss lost where ss: "ls = ss @ lost @ lines_of it'" "length lost \<le> 1"
        "io_read io4 = io_read io3" "io_sent io4 = io_sent io3 @ map (Pair (sk_sink (sl_out c))) ss"
        "budget_left ctx = b + length ss" "k = length ss"
        by (auto simp: lines_of_def)
      from fin [OF f] have e: "quiet io4 io'" "c' = c\<lparr>sl_line_iter := it'\<rparr>" "ctx' = with_budget b ctx"
        "r \<in> {Finished, work_result (if 0 < k then 1 else 0)}" by simp_all
      have "io_read io' = io_read io @ map (Pair (sl_inn c)) taken"
        "io_sent io' = io_sent io @ map (Pair (sk_sink (sl_out c))) ss"
        using e(1) ss t q by (simp_all add: quiet_def)
      moreover have "lines_of it = ss @ lost @ lines_of (sl_line_iter c')" using ss(1) e(2) Some by (simp add: lines_of_def)
      moreover have "length ss + budget_left ctx' = budget_left ctx" using e(3) ss(5) budget_left_with [of b ctx ctx] by simp
      moreover have "r \<in> {Finished, work_result (if ss = [] then 0 else 1)}" using e(4) ss(6) by auto
      ultimately show ?thesis using lines ss(2)
        by - (rule exI [of _ taken], rule exI [of _ ss], rule exI [of _ lost], simp)
    qed
  qed
qed


definition demo_split :: SplitLinesComponent where
  "demo_split = \<lparr>sl_inn = 0, sl_out = demo_sink, sl_line_iter = Some [MText ''a'', MText ''b'']\<rparr>"


text \<open>With its producer gone it finishes with the lines that are beyond the budget unsent.\<close>

lemma splitlines_finishes_with_lines_left:
  "\<exists>c' io' ctx'.
     splitlines_process list_ring (demo_split, (node_io_new (demo_channels [] 5 []) [])\<lparr>io_abandoned := (\<lambda>_. True)\<rparr>)
       (demo_context 1) = ((c', io'), ctx', Finished) \<and>
     io_sent io' = [(1, MText ''a'')] \<and> sl_line_iter c' = Some [MText ''b'']"
  by (simp add: splitlines_process_def splitlines_next_def splitlines_finish_def demo_split_def node_io_new_def
      demo_channels_def run_defs)

interpretation splitlines_turn: budgeted "splitlines_process R"
  by unfold_locales (auto simp: sent_count_def dest!: splitlines_process_logs)

section \<open>Trim\<close>

definition ends_in :: "'a list list \<Rightarrow> 'a list \<Rightarrow> bool" where
  "ends_in ws s \<longleftrightarrow> (\<exists>w \<in> set ws. w \<noteq> [] \<and> ends_with s w)"

definition begins_in :: "'a list list \<Rightarrow> 'a list \<Rightarrow> bool" where
  "begins_in ws s \<longleftrightarrow> (\<exists>w \<in> set ws. w \<noteq> [] \<and> starts_with s w)"

lemma trim_with_spec:
  "\<exists>ts. s = concat ts @ trim_with ws s \<and> set ts \<subseteq> set ws \<and> \<not> begins_in ws (trim_with ws s)"
proof (induction ws s rule: trim_with.induct)
  case (1 ws s)
  show ?case
  proof (cases "List.find (\<lambda>w. w \<noteq> [] \<and> starts_with s w) ws")
    case None
    moreover from None have "\<not> begins_in ws s" by (auto simp: begins_in_def find_None_iff)
    ultimately show ?thesis by (subst (1 2) trim_with.simps) (auto intro: exI [of _ "[]"])
  next
    case (Some w)
    with 1 obtain ts where ts: "drop (length w) s = concat ts @ trim_with ws (drop (length w) s)"
      "set ts \<subseteq> set ws" "\<not> begins_in ws (trim_with ws (drop (length w) s))"
      by blast
    have "s = w @ drop (length w) s" "w \<in> set ws"
      using find_SomeD [OF Some] by (auto simp: starts_with_iff)
    moreover have "trim_with ws s = trim_with ws (drop (length w) s)"
      using Some by (simp add: trim_with.simps [of ws s])
    ultimately have "s = concat (w # ts) @ trim_with ws s" "set (w # ts) \<subseteq> set ws"
      "\<not> begins_in ws (trim_with ws s)"
      using ts by simp_all
    then show ?thesis by blast
  qed
qed

lemma rev_concat_rev: "rev (concat ts) = concat (map rev (rev ts))"
  by (induction ts) simp_all

text \<open>What is left between a run of white space at the front and one at the back.\<close>

lemma str_trim_spec:
  "\<exists>front back. s = concat front @ str_trim s @ concat back \<and>
     set front \<subseteq> set white_space \<and> set back \<subseteq> set white_space \<and>
     \<not> begins_in white_space (str_trim s) \<and> \<not> ends_in white_space (str_trim s)"
proof -
  obtain front where f: "s = concat front @ trim_with white_space s" "set front \<subseteq> set white_space"
    "\<not> begins_in white_space (trim_with white_space s)"
    using trim_with_spec by blast
  let ?t = "trim_with white_space s"
  let ?ws = "map rev white_space"
  obtain ts where t: "rev ?t = concat ts @ trim_with ?ws (rev ?t)" "set ts \<subseteq> set ?ws"
    "\<not> begins_in ?ws (trim_with ?ws (rev ?t))"
    using trim_with_spec by blast
  have "?t = rev (concat ts @ trim_with ?ws (rev ?t))" using t(1) by (metis rev_rev_ident)
  then have "?t = str_trim s @ concat (map rev (rev ts))"
    by (simp add: str_trim_def rev_concat_rev)
  moreover have "set (map rev (rev ts)) \<subseteq> set white_space" using t(2) by auto
  moreover have "\<not> ends_in white_space (str_trim s)"
    using t(3) by (auto simp: ends_in_def begins_in_def str_trim_def ends_with_def)
  moreover have "\<not> begins_in white_space (str_trim s)"
    using f(3) calculation(1) by (force simp: begins_in_def starts_with_iff)
  ultimately show ?thesis using f(1,2)
    by - (rule exI [of _ front], rule exI [of _ "map rev (rev ts)"], metis)
qed

lemma trim_loop_logs:
  "trim_loop R inn out b w p io = Returned (stopped, b', w', p', io') \<Longrightarrow>
   \<exists>texts ss rest. p' = p @ rest \<and> length rest \<le> 1 \<and>
     io_read io' = io_read io @ map (\<lambda>t. (inn, MText t)) texts \<and>
     io_sent io' = io_sent io @ map (Pair (sk_sink out)) ss \<and>
     ss @ rest = map (\<lambda>t. MText (str_trim t)) texts \<and> b = b' + length ss"
proof (induction b arbitrary: w io)
  case (Suc b)
  obtain io1 stop where s: "check_signals R text_only io = (io1, stop)" by fastforce
  obtain io2 got where g: "pop R inn io1 = (io2, got)" by fastforce
  note q = check_signals_quiet [OF s] pop_logs [OF g]
  show ?case
  proof (cases "stop \<or> got = None")
    case True
    with Suc.prems s g q show ?thesis
      by (intro exI [of _ "[]"]) (auto simp: quiet_def split: bool.splits)
  next
    case False
    then obtain t where t: "\<not> stop" "got = Some (MText t)"
      using Suc.prems s g by (auto simp: as_text_def split: option.splits FbpMessage.splits bool.splits)
    obtain io3 ok where ps: "push R (from_str (str_trim t)) out io2 = (io3, ok)" by fastforce
    show ?thesis
    proof (cases ok)
      case True
      with Suc.prems s g t ps
      have "trim_loop R inn out b (w + 1) p io3 = Returned (stopped, b', w', p', io')" by (simp add: as_text_def)
      from Suc.IH [OF this] obtain texts ss rest where "p' = p @ rest" "length rest \<le> 1"
        "io_read io' = io_read io3 @ map (\<lambda>t. (inn, MText t)) texts"
        "io_sent io' = io_sent io3 @ map (Pair (sk_sink out)) ss"
        "ss @ rest = map (\<lambda>t. MText (str_trim t)) texts" "b = b' + length ss"
        by blast
      with q t push_logs [OF ps] True show ?thesis
        by (intro exI [of _ "t # texts"] exI [of _ "MText (str_trim t) # ss"] exI [of _ rest])
          (simp add: quiet_def from_str_def)
    next
      case False
      with Suc.prems s g t ps q push_logs [OF ps] show ?thesis
        by (intro exI [of _ "[t]"] exI [of _ "[]"] exI [of _ "[MText (str_trim t)]"])
          (auto simp: quiet_def from_str_def as_text_def)
    qed
  qed
qed (auto intro: exI [of _ "[]"])

text \<open>
  \<open>Trim\<close> sends the trimmed text of every packet, in order, or keeps it: in every call that returns,
  the packets it takes are texts, and what it sends and what is pending are what was pending and the
  trimmed texts. Trimming removes a run of white-space characters (of Unicode, as UTF-8) at the front
  and one at the back, and what is left neither begins nor ends with one. It sends at most as many packets
  as the budget.
\<close>

theorem trim_sends_trimmed_texts:
  assumes "trim_process R (c, io) ctx = Returned ((c', io'), ctx', r)"
  shows "(\<exists>texts sent. io_read io' = io_read io @ map (\<lambda>t. (tr_inn c, MText t)) texts \<and>
      io_sent io' = io_sent io @ map (Pair (sk_sink (tr_out c))) sent \<and>
      mset sent + mset (tr_pending_out c') = mset (tr_pending_out c) + mset (map (\<lambda>t. MText (str_trim t)) texts) \<and>
      (tr_pending_out c = [] \<longrightarrow> sent @ tr_pending_out c' = map (\<lambda>t. MText (str_trim t)) texts) \<and>
      length sent + budget_left ctx' = budget_left ctx) \<and>
    (\<forall>s. \<exists>front back. s = concat front @ str_trim s @ concat back \<and>
      set front \<subseteq> set white_space \<and> set back \<subseteq> set white_space \<and>
      \<not> begins_in white_space (str_trim s) \<and> \<not> ends_in white_space (str_trim s))"
proof (rule conjI)
  obtain b1 w1 p1 io1 where f:
    "repeat_flush R (tr_out c) (budget_left ctx) 0 (tr_pending_out c) io = (b1, w1, p1, io1)"
    by (metis prod.exhaust)
  obtain io2 stop where s: "check_signals R text_only io1 = (io2, stop)" by fastforce
  from repeat_flush_logs [OF f] obtain ss1 where ss1: "tr_pending_out c = ss1 @ p1"
    "io_read io1 = io_read io" "io_sent io1 = io_sent io @ map (Pair (sk_sink (tr_out c))) ss1"
    "budget_left ctx = b1 + length ss1" by auto
  note q = check_signals_quiet [OF s]
  show "\<exists>texts sent. io_read io' = io_read io @ map (\<lambda>t. (tr_inn c, MText t)) texts \<and>
      io_sent io' = io_sent io @ map (Pair (sk_sink (tr_out c))) sent \<and>
      mset sent + mset (tr_pending_out c') = mset (tr_pending_out c) + mset (map (\<lambda>t. MText (str_trim t)) texts) \<and>
      (tr_pending_out c = [] \<longrightarrow> sent @ tr_pending_out c' = map (\<lambda>t. MText (str_trim t)) texts) \<and>
      length sent + budget_left ctx' = budget_left ctx"
  proof (cases stop)
    case True
    with assms f s have "c' = c\<lparr>tr_pending_out := p1\<rparr>" "io' = io2" "ctx' = with_budget b1 ctx"
      by (auto simp: trim_process_def)
    with ss1 q budget_left_with [of b1 ctx ctx] show ?thesis
      by - (rule exI [of _ "[]"], rule exI [of _ ss1], simp add: quiet_def)
  next
    case False
    with assms f s obtain st b2 w2 p2 io3 where
      rl: "trim_loop R (tr_inn c) (tr_out c) b1 w1 p1 io2 = Returned (st, b2, w2, p2, io3)"
      by (cases "trim_loop R (tr_inn c) (tr_out c) b1 w1 p1 io2") (auto simp: trim_process_def)
    from trim_loop_logs [OF rl] obtain texts ss "rest" where l: "p2 = p1 @ rest"
      "io_read io3 = io_read io2 @ map (\<lambda>t. (tr_inn c, MText t)) texts"
      "io_sent io3 = io_sent io2 @ map (Pair (sk_sink (tr_out c))) ss"
      "ss @ rest = map (\<lambda>t. MText (str_trim t)) texts" "b1 = b2 + length ss"
      by blast
    obtain io4 ab where ab: "is_abandoned R (tr_inn c) io3 = (io4, ab)" by fastforce
    have "c' = c\<lparr>tr_pending_out := p2\<rparr>" "ctx' = with_budget b2 ctx" "quiet io3 io'"
      using assms f s rl False ab is_abandoned_quiet [OF ab]
      by (auto simp: trim_process_def Let_def split: if_splits)
    moreover have "mset ss + mset rest = mset (map (\<lambda>t. MText (str_trim t)) texts)"
      using l(4) by (metis mset_append)
    ultimately show ?thesis using ss1 q l budget_left_with [of b2 ctx ctx]
      by - (rule exI [of _ texts], rule exI [of _ "ss1 @ ss"],
        auto simp: quiet_def ac_simps simp del: mset_map)
  qed
qed (simp add: str_trim_spec)

lemma trim_sends_trimmed_texts_witness:
  "\<exists>c' io' ctx' r. trim_process list_ring (\<lparr>tr_inn = 0, tr_out = demo_sink, tr_pending_out = []\<rparr>,
       node_io_new (demo_channels [MText '' a ''] 5 []) []) (demo_context 2) = Returned ((c', io'), ctx', r) \<and>
     io_sent io' = [(1, MText ''a'')] \<and>
     length (io_sent io') + budget_left ctx' = 2"
proof -
  have t: "str_trim '' a '' = ''a''" by code_simp
  obtain c' io' ctx' r where p: "trim_process list_ring (\<lparr>tr_inn = 0, tr_out = demo_sink, tr_pending_out = []\<rparr>,
       node_io_new (demo_channels [MText '' a ''] 5 []) []) (demo_context 2) = Returned ((c', io'), ctx', r)"
    "io_sent io' = [(1, MText ''a'')]"
    by (simp add: trim_process_def node_io_new_def demo_channels_def run_defs t as_text_def from_str_def)
  with trim_sends_trimmed_texts [OF p(1)] show ?thesis by (auto simp: node_io_new_def)
qed

section \<open>TextReplace and initial packets\<close>

lemma startup_fold_append:
  "startup_fold f (xs @ ys) a = startup_bind (startup_fold f xs a) (startup_fold f ys)"
proof (induction xs arbitrary: a)
  case (Cons x xs)
  then show ?case by (cases "f x a") simp_all
qed simp

context ring begin

text \<open>The channel of an initial packet holds one packet and takes no second one.\<close>

lemma wire_iip_last:
  assumes "wire_iip R (n, port) iip w = Yields w'"
  obtains p cs where "w_ports w' n = Some p" "pp_inports p (to_ascii_uppercase port) = Some (cs @ [w_next w])"
    "length (held (w_channels w' (w_next w))) \<le> 1"
proof -
  obtain q where q: "ring_push R (from_text iip) (ring_new R PROCESSEDGE_IIP_BUFSIZE) = Some q"
    using assms by (auto simp: wire_iip_def Let_def split: option.splits)
  have h: "length (held q) \<le> 1" using push_ok [OF q] new_ring by simp
  show thesis
  proof (cases "w_ports w n")
    case None
    with assms q show thesis by (simp add: wire_iip_def with_process_def)
  next
    case (Some p)
    with assms q h show thesis
      by (intro that [of "add_source (to_ascii_uppercase port) (w_next w) p"
            "case pp_inports p (to_ascii_uppercase port) of None \<Rightarrow> [] | Some cs \<Rightarrow> cs"])
        (auto simp: wire_iip_def with_process_def add_source_def multi_insert_def Let_def split: option.splits)
  qed
qed

lemma happens_held_no_arrival:
  "\<forall>m. e \<noteq> Arrives c m \<Longrightarrow> length (held (io_channels (happens R e io) c)) \<le> length (held (io_channels io c))"
  using pop_ok by (cases e) (fastforce split: option.splits)+

lemma meanwhile_held_no_arrival:
  assumes "\<forall>m. Arrives c m \<notin> \<Union> (set ` set (io_external io))"
  shows "length (held (io_channels (meanwhile R io) c)) \<le> length (held (io_channels io c))"
proof -
  have "\<forall>m. Arrives c m \<notin> set es \<Longrightarrow>
      length (held (io_channels (fold (happens R) es i) c)) \<le> length (held (io_channels i c))" for es i
  proof (induction es arbitrary: i)
    case (Cons e es)
    from Cons.IH [of "happens R e i"] Cons.prems happens_held_no_arrival [of e c i] show ?case
      by (auto intro: order_trans)
  qed simp
  from this [of "hd (io_external io)" "io\<lparr>io_external := tl (io_external io)\<rparr>"] assms show ?thesis
    by (cases "io_external io") (auto simp: meanwhile_def)
qed

end

text \<open>
  Initial packets never give \<open>TextReplace\<close> a replacement: each one gets a channel of its own with room
  for one packet, the component keeps the last of them, and it only reads CONF while two packets are
  there. However many pairs a graph lists, the text passes unchanged.
\<close>

theorem initial_packets_never_configure_replace:
  assumes "ring R cap held"
    and "w_iips w (n, port) = Some (iip # iips)" and "to_ascii_uppercase port = ''CONF''"
    and "wire_iips R (n, port) w = Yields w'" and "w_ports w' n = Some p"
    and "TextReplace_new (pp_inports p) outports = Returned c"
    and "io_channels io = w_channels w'" and "\<forall>m. Arrives (tx_conf c) m \<notin> \<Union> (set ` set (io_external io))"
  shows "\<exists>c' io' go. text_configure R (Suc fuel) (c, io) = Some (Returned ((c', io'), go)) \<and>
    tx_replacements c' = [] \<and> apply_replacements (tx_replacements c') t = t"
proof -
  obtain xs x where xs: "iip # iips = xs @ [x]" by (metis list.distinct(1) rev_exhaust)
  then obtain w1 where "wire_iip R (n, port) x w1 = Yields w'"
    using assms(2,4) by (auto simp: wire_iips_def startup_fold_append startup_bind_Yields)
  from ring.wire_iip_last [OF assms(1) this] obtain p' cs where
    p': "w_ports w' n = Some p'" "pp_inports p' (to_ascii_uppercase port) = Some (cs @ [w_next w1])"
    "length (held (w_channels w' (w_next w1))) \<le> 1" by blast
  then have "take_last ''CONF'' ''found no CONF inport'' (pp_inports p) =
      Returned ((pp_inports p)(''CONF'' := None), w_next w1)"
    using assms(3,5) by (cases cs) (auto simp: take_last_def)
  with assms(6) have c: "tx_conf c = w_next w1" "tx_replacements c = []" "\<not> tx_config_complete c"
    by (auto simp: TextReplace_new_def outcome_bind_def split: outcome.splits)
  have "length (held (io_channels (meanwhile R io) (tx_conf c))) \<le> 1"
    using ring.meanwhile_held_no_arrival [OF assms(1,8)] p'(3) c(1) assms(7) by simp
  then have "read_replacements R (tx_conf c) (Suc fuel) (tx_replacements c) io =
      Some (Returned (tx_replacements c, meanwhile R io))"
    using ring.slots_held [OF assms(1)] by (simp add: slots_def Let_def)
  with c show ?thesis
    by (auto simp: text_configure_def Let_def apply_replacements_def split: prod.splits if_splits)
qed

lemma initial_packets_never_configure_replace_witness:
  "\<exists>c io c' io' go. text_configure list_ring 1 (c, io) =
     Some (Returned ((c', io'), go)) \<and> tx_replacements c' = [] \<and> tx_conf c = 9"
proof -
  let ?p = "\<lparr>pp_inports = [''IN'' \<mapsto> [5]], pp_outports = [''OUT'' \<mapsto> [demo_sink]]\<rparr>"
  let ?w = "\<lparr>w_channels = (\<lambda>_. list_queue.make 0 []), w_next = 8, w_ports = [''Replace'' \<mapsto> ?p],
    w_iips = [(''Replace'', ''conf'') \<mapsto> [''a'', ''b'']]\<rparr>"
  have up: "to_ascii_uppercase ''conf'' = ''CONF''"
    by code_simp
  obtain w' where w': "wire_iips list_ring (''Replace'', ''conf'') ?w = Yields w'"
    "w_ports w' ''Replace'' = Some (?p\<lparr>pp_inports := (pp_inports ?p)(''CONF'' \<mapsto> [8, 9])\<rparr>)"
    by (auto simp: wire_iips_def wire_iip_def list_ring_def PROCESSEDGE_IIP_BUFSIZE_def with_process_def
        add_source_def multi_insert_def up Let_def)
  let ?io = "(node_io_new (demo_channels [MText ''a''] 1 []) [])\<lparr>io_channels := w_channels w'\<rparr>"
  obtain c where c: "TextReplace_new (pp_inports (?p\<lparr>pp_inports := (pp_inports ?p)(''CONF'' \<mapsto> [8, 9])\<rparr>))
      (pp_outports ?p) = Returned c" "tx_conf c = 9"
    by (auto simp: TextReplace_new_def take_last_def)
  have "\<exists>c' io' go. text_configure list_ring (Suc 0) (c, ?io) = Some (Returned ((c', io'), go)) \<and>
      tx_replacements c' = [] \<and> apply_replacements (tx_replacements c') [] = []"
    by (rule initial_packets_never_configure_replace [OF list_ring.ring_axioms _ up w' c(1)])
      (simp_all add: node_io_new_def)
  with c(2) show ?thesis by (metis One_nat_def)
qed

end
