(* ===== verification/Counting.thy ===== *)
theory Counting
  imports Relays
begin

text \<open>
  \<open>Count\<close> (\<open>components/count\<close>), which counts packets, their sizes, or the numbers in them. The packages
  \<open>url\<close> and \<open>atoi\<close> are arguments (\<open>count_libs\<close>); its time stamps, which it only logs, are left out.
\<close>

section \<open>State and configuration\<close>

datatype Mode = Packets | Size | Sum

record CountComponent =
  ct_conf :: nat
  ct_inn :: nat
  ct_out :: ProcessEdgeSink
  ct_mode :: "Mode option"
  ct_packets :: u64
  ct_packetsize :: u64
  ct_sum :: u64
  ct_pending_reports :: "MessageBuf list"

definition Count_new :: "nat multimap \<Rightarrow> ProcessEdgeSink multimap \<Rightarrow> CountComponent outcome" where
  "Count_new inports outports =
     outcome_bind (take_last ''CONF'' ''found no CONF inport'' inports) (\<lambda>(inports1, conf).
     outcome_bind (take_last ''IN'' ''found no IN inport'' inports1) (\<lambda>(_, inn).
     outcome_bind (take_last ''OUT'' ''found no OUT outport'' outports) (\<lambda>(_, out).
       Returned \<lparr>ct_conf = conf, ct_inn = inn, ct_out = out, ct_mode = None, ct_packets = 0,
         ct_packetsize = 0, ct_sum = 0, ct_pending_reports = []\<rparr>)))"

definition final_count :: "Mode \<Rightarrow> CountComponent \<Rightarrow> string" where
  "final_count mode c =
     (case mode of
        Packets \<Rightarrow> show_nat (unat (ct_packets c))
      | Size \<Rightarrow> show_nat (unat (ct_packetsize c))
      | Sum \<Rightarrow> show_nat (unat (ct_sum c)))"

definition emit_final_count ::
    "'q ring_ops \<Rightarrow> Mode \<Rightarrow> CountComponent \<times> 'q node_io \<Rightarrow> CountComponent \<times> 'q node_io" where
  "emit_final_count R mode s =
     (case s of (c, io) \<Rightarrow>
        let message = from_text (final_count mode c);
            (io1, ok) = push R message (ct_out c) io;
            c1 = (if ok then c else c\<lparr>ct_pending_reports := ct_pending_reports c @ [message]\<rparr>)
        in (c1, network_output (final_count mode c) io1))"

text \<open>\<open>Url::parse\<close> and \<open>query_pairs\<close>, and \<open>atoi\<close>.\<close>

record count_libs =
  url_query_pairs :: "string \<Rightarrow> (string \<times> string) list option"
  atoi_u64 :: "string \<Rightarrow> u64 option"

definition count_url :: "MessageBuf \<Rightarrow> string" where
  "count_url m =
     (let raw_conf = text_or_utf8 m;
          query = (case raw_conf of c # r \<Rightarrow> if c = CHR ''?'' then r else raw_conf | [] \<Rightarrow> [])
      in ''https://makeurlhappy/?'' @ query)"

text \<open>The configuration: the mode, or that the component finishes, or that the URL does not parse.\<close>

definition count_mode :: "count_libs \<Rightarrow> MessageBuf \<Rightarrow> Mode option outcome" where
  "count_mode L m =
     (case url_query_pairs L (count_url m) of
        None \<Rightarrow> Panicked ''failed to parse configuration URL''
      | Some pairs \<Rightarrow>
          Returned
            (case List.find (\<lambda>(key, _). key = ''mode'') pairs of
               None \<Rightarrow> None
             | Some (_, value) \<Rightarrow>
                 if value = ''packets'' then Some Packets
                 else if value = ''size'' then Some Size
                 else if value = ''sum'' then Some Sum
                 else None))"

section \<open>Counting\<close>

definition message_size :: "MessageBuf \<Rightarrow> nat" where
  "message_size m = (case m of MBytes d \<Rightarrow> length d | MText t \<Rightarrow> length t | _ \<Rightarrow> 0)"

fun add_sizes :: "bool \<Rightarrow> MessageBuf list \<Rightarrow> u64 \<Rightarrow> u64 outcome" where
  "add_sizes chk [] n = Returned n"
| "add_sizes chk (m # ms) n = outcome_bind (checked_add chk n (of_nat (message_size m))) (add_sizes chk ms)"

fun add_values :: "count_libs \<Rightarrow> bool \<Rightarrow> MessageBuf list \<Rightarrow> u64 \<Rightarrow> u64 outcome" where
  "add_values L chk [] n = Returned n"
| "add_values L chk (m # ms) n =
     (case atoi_u64 L (text_or_utf8 m) of
        None \<Rightarrow> add_values L chk ms n
      | Some v \<Rightarrow> outcome_bind (checked_add chk n v) (add_values L chk ms))"

definition count_chunk ::
    "count_libs \<Rightarrow> bool \<Rightarrow> Mode \<Rightarrow> MessageBuf list \<Rightarrow> CountComponent \<Rightarrow> CountComponent outcome" where
  "count_chunk L chk mode chunk c =
     (case mode of
        Packets \<Rightarrow>
          outcome_bind (checked_add chk (ct_packets c) (of_nat (length chunk)))
            (\<lambda>n. Returned (c\<lparr>ct_packets := n\<rparr>))
      | Size \<Rightarrow> outcome_bind (add_sizes chk chunk (ct_packetsize c)) (\<lambda>n. Returned (c\<lparr>ct_packetsize := n\<rparr>))
      | Sum \<Rightarrow> outcome_bind (add_values L chk chunk (ct_sum c)) (\<lambda>n. Returned (c\<lparr>ct_sum := n\<rparr>)))"

text \<open>The loop over the inport, as in \<open>Drop\<close>, with the packets counted; a stop reports the count.\<close>

function count_loop ::
    "'q ring_ops \<Rightarrow> count_libs \<Rightarrow> bool \<Rightarrow> Mode \<Rightarrow> nat \<Rightarrow> nat \<Rightarrow> CountComponent \<times> 'q node_io \<Rightarrow>
     (bool \<times> nat \<times> nat \<times> CountComponent \<times> 'q node_io) outcome" where
  "count_loop R L chk mode b w s =
     (case s of (c, io) \<Rightarrow>
        if b = 0 then Returned (False, b, w, s)
        else
          (case is_empty R (ct_inn c) io of
             (io1, True) \<Rightarrow> Returned (False, b, w, c, io1)
           | (io1, False) \<Rightarrow>
               (case check_signals R text_or_utf8 io1 of
                  (io2, True) \<Rightarrow> Returned (True, b, w, emit_final_count R mode (c, io2))
                | (io2, False) \<Rightarrow>
                    (case slots R (ct_inn c) io2 of
                       (io3, available) \<Rightarrow>
                         let to_process = min available b in
                         if to_process = 0 then Returned (False, b, w, c, io3)
                         else
                           (case read_chunk R (ct_inn c) to_process io3 of
                              (io4, None) \<Rightarrow> Returned (False, b, w, c, io4)
                            | (io4, Some chunk) \<Rightarrow>
                                (case count_chunk L chk mode chunk c of
                                   Panicked msg \<Rightarrow> Panicked msg
                                 | Returned c1 \<Rightarrow>
                                     count_loop R L chk mode (b - to_process) (w + to_process) (c1, io4)))))))"
  by pat_completeness auto
termination by (relation "measure (\<lambda>(R, L, chk, mode, b, w, s). b)") auto

declare count_loop.simps [simp del]

text \<open>After the loop: the totals when the input is idle, and the end at its end.\<close>

definition count_finish ::
    "'q ring_ops \<Rightarrow> Mode \<Rightarrow> nat \<Rightarrow> CountComponent \<times> 'q node_io \<Rightarrow>
     (CountComponent \<times> 'q node_io) \<times> ProcessResult" where
  "count_finish R mode w s =
     (let (c, io) = s;
          (io1, idle) = (if 0 < w then is_empty R (ct_inn c) io else (io, False));
          (io2, ended) = (if idle then is_abandoned R (ct_inn c) io1 else (io1, True));
          (c3, io3) = (if ended then (c, io2) else emit_final_count R mode (c, io2));
          (io4, abandoned) = is_abandoned R (ct_inn c) io3
      in if abandoned \<and> ct_pending_reports c3 = [] then (emit_final_count R mode (c3, io4), Finished)
         else ((c3, io4), work_result w))"

definition count_process ::
    "'q ring_ops \<Rightarrow> count_libs \<Rightarrow> bool \<Rightarrow> CountComponent \<times> 'q node_io \<Rightarrow> NodeContext \<Rightarrow>
     ((CountComponent \<times> 'q node_io) \<times> NodeContext \<times> ProcessResult) outcome" where
  "count_process R L chk s ctx =
     (case s of (c0, io0) \<Rightarrow>
        (case (case ct_mode c0 of Some mode \<Rightarrow> (io0, None) | None \<Rightarrow> pop R (ct_conf c0) io0) of
           (io, conf) \<Rightarrow>
             outcome_bind (case conf of None \<Rightarrow> Returned (ct_mode c0) | Some m \<Rightarrow> count_mode L m)
               (\<lambda>mode_read.
                  case mode_read of
                    None \<Rightarrow> Returned ((c0, io), ctx, if conf = None then NoWork else Finished)
                  | Some mode \<Rightarrow>
                      let c = c0\<lparr>ct_mode := Some mode\<rparr> in
                      (case repeat_flush R (ct_out c) (budget_left ctx) 0 (ct_pending_reports c) io of
                         (b1, w1, p1, io1) \<Rightarrow>
                           let c1 = c\<lparr>ct_pending_reports := p1\<rparr> in
                           (case check_signals R text_or_utf8 io1 of
                              (io2, True) \<Rightarrow>
                                Returned (emit_final_count R mode (c1, io2), with_budget b1 ctx, Finished)
                            | (io2, False) \<Rightarrow>
                                outcome_bind (count_loop R L chk mode b1 w1 (c1, io2))
                                  (\<lambda>(stopped, b2, w2, s2).
                                     if stopped then Returned (s2, with_budget b2 ctx, Finished)
                                     else
                                       (let (s3, r) = count_finish R mode w2 s2
                                        in Returned (s3, with_budget b2 ctx, r))))))))"

definition Count_metadata :: ComponentComponentPayload where
  "Count_metadata = metadata_default\<lparr>
     comp_name := ''Count'',
     comp_description := ''Counts the number of packets, total size of IPs or sums the amounts contained in IPs, discards them and sends the count every 1M packets.'',
     comp_icon := ''bar-chart'', subgraph := False,
     in_ports := [any_port ''CONF'' False ''IPs to count'' '''', any_port ''IN'' False ''IPs to count'' ''''],
     out_ports := [any_port ''OUT'' False ''reports count on this outport'' '''']\<rparr>"

end
