(* ===== verification/Counting_Properties.thy ===== *)
theory Counting_Properties
  imports Counting Relay_Properties
begin

text \<open>
  The totals of \<open>Count\<close> are exact: what it adds in a call is what the packets it took contribute.
\<close>

section \<open>Contributions\<close>

definition contribution :: "count_libs \<Rightarrow> Mode \<Rightarrow> MessageBuf \<Rightarrow> nat" where
  "contribution L mode m =
     (case mode of
        Packets \<Rightarrow> 1
      | Size \<Rightarrow> message_size m
      | Sum \<Rightarrow> (case atoi_u64 L (text_or_utf8 m) of None \<Rightarrow> 0 | Some v \<Rightarrow> unat v))"

definition total :: "Mode \<Rightarrow> CountComponent \<Rightarrow> u64" where
  "total mode c = (case mode of Packets \<Rightarrow> ct_packets c | Size \<Rightarrow> ct_packetsize c | Sum \<Rightarrow> ct_sum c)"

definition contributions :: "count_libs \<Rightarrow> Mode \<Rightarrow> MessageBuf list \<Rightarrow> nat" where
  "contributions L mode ms = sum_list (map (contribution L mode) ms)"

lemma contributions_simps [simp]:
  "contributions L mode [] = 0"
  "contributions L mode (m # ms) = contribution L mode m + contributions L mode ms"
  "contributions L mode (xs @ ys) = contributions L mode xs + contributions L mode ys"
  by (simp_all add: contributions_def)

lemma contributions_packets [simp]: "contributions L Packets ms = length ms"
  by (induction ms) (simp_all add: contribution_def)

text \<open>An addition that returns is the sum modulo 2 ^ 64.\<close>

lemma checked_add_adds_up: "checked_add chk a b = Returned c \<Longrightarrow> c = a + b"
  by (simp add: checked_add_def split: if_splits)

lemma add_sizes_adds_up: "add_sizes chk ms n = Returned k \<Longrightarrow> k = n + of_nat (contributions L Size ms)"
proof (induction ms arbitrary: n)
  case (Cons m ms)
  then obtain n1 where "checked_add chk n (of_nat (message_size m)) = Returned n1" "add_sizes chk ms n1 = Returned k"
    by (auto simp: outcome_bind_def split: outcome.splits)
  with Cons.IH checked_add_adds_up show ?case by (fastforce simp: contribution_def add.assoc)
qed simp

lemma add_values_adds_up: "add_values L chk ms n = Returned k \<Longrightarrow> k = n + of_nat (contributions L Sum ms)"
proof (induction ms arbitrary: n)
  case (Cons m ms)
  show ?case
  proof (cases "atoi_u64 L (text_or_utf8 m)")
    case None
    with Cons show ?thesis by (simp add: contribution_def)
  next
    case (Some v)
    with Cons.prems obtain n1 where "checked_add chk n v = Returned n1" "add_values L chk ms n1 = Returned k"
      by (auto simp: outcome_bind_def split: outcome.splits)
    with Cons.IH checked_add_adds_up Some show ?thesis by (fastforce simp: contribution_def add.assoc)
  qed
qed simp

lemma count_chunk_adds_up:
  assumes "count_chunk L chk mode ms c = Returned c'"
  shows "total mode c' = total mode c + of_nat (contributions L mode ms) \<and>
    ct_inn c' = ct_inn c \<and> ct_out c' = ct_out c \<and> ct_mode c' = ct_mode c"
  using assms checked_add_adds_up add_sizes_adds_up [where L = L] add_values_adds_up
  by (cases mode) (fastforce simp: count_chunk_def total_def outcome_bind_def split: outcome.splits)+

lemma emit_keeps:
  assumes "emit_final_count R mode (c, io) = (c', io')"
  shows "total m c' = total m c \<and> ct_inn c' = ct_inn c \<and> ct_out c' = ct_out c \<and> ct_mode c' = ct_mode c \<and>
    io_read io' = io_read io"
proof -
  obtain io1 ok where p: "push R (from_text (final_count mode c)) (ct_out c) io = (io1, ok)" by fastforce
  have "c' = c \<or> c' = c\<lparr>ct_pending_reports := ct_pending_reports c @ [from_text (final_count mode c)]\<rparr>"
    "io_read io' = io_read io1"
    using assms p by (auto simp: emit_final_count_def Let_def network_output_def)
  with push_logs [OF p] show ?thesis by (cases m) (auto simp: total_def)
qed

definition counted :: "count_libs \<Rightarrow> Mode \<Rightarrow> CountComponent \<times> 'q node_io \<Rightarrow> CountComponent \<times> 'q node_io \<Rightarrow> bool" where
  "counted L mode s s' \<longleftrightarrow>
     (\<exists>taken. io_read (snd s') = io_read (snd s) @ map (Pair (ct_inn (fst s))) taken \<and>
        total mode (fst s') = total mode (fst s) + of_nat (contributions L mode taken)) \<and>
     ct_inn (fst s') = ct_inn (fst s) \<and> ct_out (fst s') = ct_out (fst s) \<and> ct_mode (fst s') = ct_mode (fst s)"

lemma counted_refl: "io_read io' = io_read io \<Longrightarrow> counted L mode (c, io) (c, io')"
  by (auto simp: counted_def intro!: exI [of _ "[]"])

lemma counted_emit: "emit_final_count R m s = s' \<Longrightarrow> counted L mode s s'"
  using emit_keeps by (cases s; cases s') (fastforce simp: counted_def intro!: exI [of _ "[]"])

lemma counted_trans: "counted L mode s s1 \<Longrightarrow> counted L mode s1 s2 \<Longrightarrow> counted L mode s s2"
  unfolding counted_def
  by (elim conjE exE, rule conjI, rule_tac x = "taken @ takena" in exI) (simp_all add: add.assoc)

lemma count_loop_counted:
  "count_loop R L chk mode b w s = Returned (st, b', w', s') \<Longrightarrow> counted L mode s s'"
proof (induction b arbitrary: w s rule: less_induct)
  case (less b)
  obtain c io where [simp]: "s = (c, io)" by fastforce
  obtain io1 e where e: "is_empty R (ct_inn c) io = (io1, e)" by fastforce
  obtain io2 stop where sg: "check_signals R text_or_utf8 io1 = (io2, stop)" by fastforce
  obtain io3 n where n: "slots R (ct_inn c) io2 = (io3, n)" by fastforce
  obtain io4 got where g: "read_chunk R (ct_inn c) (min n b) io3 = (io4, got)" by fastforce
  have q: "io_read io1 = io_read io" "io_read io2 = io_read io" "io_read io3 = io_read io"
    using is_empty_quiet [OF e] check_signals_quiet [OF sg] slots_quiet [OF n] by (simp_all add: quiet_def)
  have rd: "io_read io4 = io_read io @ (case got of None \<Rightarrow> [] | Some ms \<Rightarrow> map (Pair (ct_inn c)) ms)"
    using g q by (auto simp: read_chunk_def Let_def split: option.splits prod.splits)
  show ?case
  proof (cases "b = 0 \<or> e \<or> stop \<or> min n b = 0 \<or> got = None")
    case True
    show ?thesis
    proof (cases "b \<noteq> 0 \<and> \<not> e \<and> stop")
      case T2: True
      then have "s' = emit_final_count R mode (c, io2)"
        using less.prems e sg by (subst (asm) count_loop.simps) (auto split: if_splits)
      from counted_trans [OF counted_refl [OF q(2)] counted_emit [OF this [symmetric]]] show ?thesis by simp
    next
      case False
      with True less.prems e sg n g have "fst s' = c \<and> io_read (snd s') = io_read io"
        using q rd by (subst (asm) count_loop.simps) (auto simp: Let_def split: if_splits bool.splits)
      then show ?thesis by (cases s') (auto intro: counted_refl)
    qed
  next
    case False
    then obtain ms where ms: "got = Some ms" "b \<noteq> 0" "\<not> e" "\<not> stop" "min n b \<noteq> 0" by auto
    with less.prems e sg n g obtain c1 where c1: "count_chunk L chk mode ms c = Returned c1"
      "count_loop R L chk mode (b - min n b) (w + min n b) (c1, io4) = Returned (st, b', w', s')"
      by (subst (asm) count_loop.simps) (auto simp: Let_def split: outcome.splits)
    from count_chunk_adds_up [OF c1(1)] rd ms have "counted L mode s (c1, io4)"
      by (auto simp: counted_def intro!: exI [of _ ms])
    moreover have "counted L mode (c1, io4) s'" using less.IH [OF _ c1(2)] ms by simp
    ultimately show ?thesis by (rule counted_trans)
  qed
qed

lemma count_finish_counted:
  assumes "count_finish R mode w (c, io) = (s', r)"
  shows "counted L mode (c, io) s'"
proof -
  obtain io1 idle where i: "(if 0 < w then is_empty R (ct_inn c) io else (io, False)) = (io1, idle)" by fastforce
  obtain io2 ended where e: "(if idle then is_abandoned R (ct_inn c) io1 else (io1, True)) = (io2, ended)" by fastforce
  obtain c3 io3 where r: "(if ended then (c, io2) else emit_final_count R mode (c, io2)) = (c3, io3)" by fastforce
  obtain io4 ab where ab: "is_abandoned R (ct_inn c) io3 = (io4, ab)" by fastforce
  have q: "io_read io2 = io_read io" "io_read io4 = io_read io3"
    using i e is_abandoned_quiet [OF ab] is_empty_quiet [of R "ct_inn c" io io1 idle]
      is_abandoned_quiet [of R "ct_inn c" io1 io2 ended]
    by (auto simp: quiet_def split: if_splits)
  have "counted L mode (c, io2) (c3, io3)"
    using r counted_emit [of R mode "(c, io2)"] by (auto intro: counted_refl split: if_splits)
  with q have c: "counted L mode (c, io) (c3, io4)"
    using counted_trans [OF counted_refl [OF q(1)]] counted_trans [OF _ counted_refl [OF q(2)]] by blast
  have "ct_inn c3 = ct_inn c" using c by (simp add: counted_def)
  with assms i e r ab have "s' = (c3, io4) \<or> s' = emit_final_count R mode (c3, io4)"
    by (auto simp: count_finish_def Let_def split: if_splits)
  with c counted_emit [of R mode "(c3, io4)" s'] show ?thesis by (auto intro: counted_trans)
qed

lemma count_process_counted:
  assumes "count_process R L chk (c, io) ctx = Returned ((c', io'), ctx', r)" and "ct_mode c = Some mode"
  shows "counted L mode (c, io) (c', io')"
proof -
  have c: "c\<lparr>ct_mode := Some mode\<rparr> = c" using assms(2) by (cases c) simp
  obtain b1 w1 p1 io1 where f: "repeat_flush R (ct_out c) (budget_left ctx) 0 (ct_pending_reports c) io = (b1, w1, p1, io1)"
    by (metis prod.exhaust)
  obtain io2 stop where s: "check_signals R text_or_utf8 io1 = (io2, stop)" by fastforce
  have q: "io_read io2 = io_read io"
    using repeat_flush_logs [OF f] check_signals_quiet [OF s] by (auto simp: quiet_def)
  let ?c = "c\<lparr>ct_pending_reports := p1\<rparr>"
  have c1: "counted L mode (c, io) (?c, io2)"
    using q by (cases mode) (auto simp: counted_def total_def intro!: exI [of _ "[]"])
  show ?thesis
  proof (cases stop)
    case True
    with assms c f s have "(c', io') = emit_final_count R mode (?c, io2)"
      by (auto simp: count_process_def Let_def)
    with c1 counted_emit [of R mode "(?c, io2)" "(c', io')"] show ?thesis by (auto intro: counted_trans)
  next
    case False
    with assms c f s obtain st b2 w2 s2 where
      l: "count_loop R L chk mode b1 w1 (?c, io2) = Returned (st, b2, w2, s2)" and
      e: "(c', io') = (if st then s2 else fst (count_finish R mode w2 s2))"
      by (auto simp: count_process_def Let_def outcome_bind_def split: outcome.splits if_splits prod.splits)
    have "counted L mode s2 (c', io')"
      using e count_finish_counted [of R mode w2 "fst s2" "snd s2" _ _ L]
      by (cases st; cases "count_finish R mode w2 s2") (auto simp: counted_refl intro: counted_refl)
    with c1 count_loop_counted [OF l] show ?thesis by (blast intro: counted_trans)
  qed
qed

text \<open>
  C35. \<open>Count\<close> counts exactly what it takes: in every call that returns, the total of its mode grows, modulo
  2 ^ 64, by what the packets taken contribute, one each, their sizes, or the numbers in them; in packet
  mode that is their number. Packets are taken from IN only and the mode does not change.
\<close>

theorem count_totals_are_exact:
  assumes "count_process R L chk (c, io) ctx = Returned ((c', io'), ctx', r)" and "ct_mode c = Some mode"
  shows "\<exists>taken. io_read io' = io_read io @ map (Pair (ct_inn c)) taken \<and>
    total mode c' = total mode c + of_nat (sum_list (map (contribution L mode) taken)) \<and>
    (mode = Packets \<longrightarrow> ct_packets c' = ct_packets c + of_nat (length taken)) \<and> ct_mode c' = Some mode"
  using count_process_counted [OF assms] assms(2)
  by (auto simp: counted_def total_def contributions_def [symmetric])

definition demo_count :: CountComponent where
  "demo_count = \<lparr>ct_conf = 4, ct_inn = 0, ct_out = demo_sink, ct_mode = Some Packets, ct_packets = 3,
     ct_packetsize = 0, ct_sum = 0, ct_pending_reports = []\<rparr>"

definition no_count_libs :: count_libs where
  "no_count_libs = \<lparr>url_query_pairs = Map.empty, atoi_u64 = Map.empty\<rparr>"

lemma demo_count_runs:
  "\<exists>c' io' ctx' r. count_process list_ring no_count_libs True
     (demo_count, node_io_new (demo_channels [MText ''a''] 5 []) []) (demo_context 2) =
       Returned ((c', io'), ctx', r) \<and> io_read io' = [(0, MText ''a'')]"
  by (simp add: count_process_def demo_count_def node_io_new_def demo_channels_def run_defs count_loop.simps
      read_chunk_def count_chunk_def checked_add_def count_finish_def emit_final_count_def network_output_def)

lemma count_totals_are_exact_witness:
  "\<exists>c' io' ctx' r. count_process list_ring no_count_libs True
     (demo_count, node_io_new (demo_channels [MText ''a''] 5 []) []) (demo_context 2) =
       Returned ((c', io'), ctx', r) \<and> ct_packets c' = 4"
proof -
  obtain c' io' ctx' r where p: "count_process list_ring no_count_libs True
     (demo_count, node_io_new (demo_channels [MText ''a''] 5 []) []) (demo_context 2) =
       Returned ((c', io'), ctx', r)" "io_read io' = [(0, MText ''a'')]"
    using demo_count_runs by blast
  have "ct_mode demo_count = Some Packets" by (simp add: demo_count_def)
  from count_totals_are_exact [OF p(1) this] p show ?thesis
    by (auto simp: demo_count_def node_io_new_def)
qed

end
