(* ===== verification/Delay.thy ===== *)
theory Delay
  imports Relays
begin

text \<open>
  \<open>Delay\<close> (\<open>components/delay\<close>), which holds every packet back for a configured time and asks the
  scheduler for a timer. Floating-point numbers are an argument: their parser, and their product with
  a multiplier as a \<open>u64\<close>. Arithmetic on \<open>Instant\<close> does not overflow here.
\<close>

section \<open>Configuration\<close>

record 'f float_ops =
  f64_parse :: "string \<Rightarrow> 'f option"
  f64_times :: "'f \<Rightarrow> nat \<Rightarrow> u64"

definition from_micros :: "u64 \<Rightarrow> duration" where
  "from_micros n = 1000 * unat n"

definition unit_multiplier :: "string \<Rightarrow> nat option" where
  "unit_multiplier u =
     (if u = ''us'' then Some 1 else if u = ''ms'' then Some 1000 else if u = ''s'' then Some 1000000 else None)"

definition parse_delay :: "'f float_ops \<Rightarrow> string \<Rightarrow> string + duration" where
  "parse_delay F text =
     (let s = str_trim text;
          is_num = (\<lambda>c. is_digit c \<or> c = CHR ''.'')
      in
      if starts_with s ''?'' \<and> \<not> starts_with s ''?delay='' then
        Inl ''invalid URL format, expected ?delay=<value>''
      else
        (let v = (if starts_with s ''?'' then drop (length ''?delay='') s else s) in
         case parse_u64 v of
           Some num \<Rightarrow> Inr (from_micros num)
         | None \<Rightarrow>
             (case f64_parse F (filter is_num v) of
                None \<Rightarrow> Inl ''invalid number''
              | Some num \<Rightarrow>
                  (case unit_multiplier (filter (\<lambda>c. \<not> is_num c) v) of
                     None \<Rightarrow> Inl ''unknown unit, use us, ms, or s''
                   | Some multiplier \<Rightarrow> Inr (from_micros (f64_times F num multiplier))))))"

section \<open>State\<close>

record DelayedPacket =
  dp_data :: MessageBuf
  dp_ready_time :: instant

record DelayComponent =
  dl_conf :: nat
  dl_inn :: nat
  dl_out :: ProcessEdgeSink
  dl_delay :: "duration option"
  dl_pending_packets :: "DelayedPacket list"

definition Delay_new :: "nat multimap \<Rightarrow> ProcessEdgeSink multimap \<Rightarrow> DelayComponent outcome" where
  "Delay_new inports outports =
     outcome_bind (take_last ''CONF'' ''delay missing CONF'' inports) (\<lambda>(inports1, conf).
     outcome_bind (take_last ''IN'' ''delay missing IN'' inports1) (\<lambda>(_, inn).
     outcome_bind (take_last ''OUT'' ''delay missing OUT'' outports) (\<lambda>(_, out).
       Returned \<lparr>dl_conf = conf, dl_inn = inn, dl_out = out, dl_delay = None, dl_pending_packets = []\<rparr>)))"

definition default_delay :: duration where "default_delay = 50000"

definition DEFAULT_IO_POLL_INTERVAL :: duration where "DEFAULT_IO_POLL_INTERVAL = 25000000"

text \<open>The delay is settled by the first call: from CONF, or the default for good when CONF is empty.\<close>

definition delay_configure ::
    "'q ring_ops \<Rightarrow> 'f float_ops \<Rightarrow> DelayComponent \<Rightarrow> 'q node_io \<Rightarrow> ('q node_io \<times> duration) outcome" where
  "delay_configure R F c io =
     (case dl_delay c of
        Some d \<Rightarrow> Returned (io, d)
      | None \<Rightarrow>
          (case pop R (dl_conf c) io of
             (io1, None) \<Rightarrow> Returned (io1, default_delay)
           | (io1, Some m) \<Rightarrow>
               (case as_text m of
                  None \<Rightarrow> Panicked ''config must be text''
                | Some text \<Rightarrow>
                    Returned (io1, case parse_delay F text of Inr d \<Rightarrow> d | Inl _ \<Rightarrow> default_delay))))"

section \<open>Releasing and accepting packets\<close>

text \<open>
  Packets whose time is up when the timer fired: the budget and the work, what stays pending, and the
  wake-up asked for when OUT is full. The budget is not checked here.
\<close>

fun delay_release ::
    "bool \<Rightarrow> 'q ring_ops \<Rightarrow> ProcessEdgeSink \<Rightarrow> instant \<Rightarrow> u32 \<Rightarrow> u32 \<Rightarrow> DelayedPacket list \<Rightarrow> 'q node_io \<Rightarrow>
     (u32 \<times> u32 \<times> DelayedPacket list \<times> 'q node_io \<times> instant option) outcome" where
  "delay_release chk R out fired_at b w [] io = Returned (b, w, [], io, None)"
| "delay_release chk R out fired_at b w (p # ps) io =
     (if dp_ready_time p \<le> fired_at then
        (case push R (dp_data p) out io of
           (io1, True) \<Rightarrow>
             (case checked_dec chk b of
                Panicked msg \<Rightarrow> Panicked msg
              | Returned b1 \<Rightarrow> delay_release chk R out fired_at b1 (w + 1) ps io1)
         | (io1, False) \<Rightarrow>
             (let (io2, now) = time_now R io1
              in Returned (b, w, p # ps, io2, Some (now + DEFAULT_IO_POLL_INTERVAL))))
      else Returned (b, w, p # ps, io, None))"

definition release_due ::
    "bool \<Rightarrow> 'q ring_ops \<Rightarrow> ProcessEdgeSink \<Rightarrow> instant option \<Rightarrow> u32 \<Rightarrow> u32 \<Rightarrow> DelayedPacket list \<Rightarrow>
     'q node_io \<Rightarrow> (u32 \<times> u32 \<times> DelayedPacket list \<times> 'q node_io \<times> instant option) outcome" where
  "release_due chk R out fired b w pending io =
     (case fired of
        None \<Rightarrow> Returned (b, w, pending, io, None)
      | Some fired_at \<Rightarrow> delay_release chk R out fired_at b w pending io)"

text \<open>
  The loop: \<open>fired\<close> is the context's \<open>timer_fired_at\<close>, which the first round takes, \<open>wake\<close> its
  \<open>wake_at\<close>.
\<close>

record 'q delay_state =
  ds_budget :: u32
  ds_work :: u32
  ds_fired :: "instant option"
  ds_wake :: "instant option"
  ds_pending :: "DelayedPacket list"
  ds_io :: "'q node_io"

definition woken :: "instant option \<Rightarrow> instant option \<Rightarrow> instant option" where
  "woken new old = (case new of None \<Rightarrow> old | Some t \<Rightarrow> Some t)"

function delay_loop ::
    "bool \<Rightarrow> 'q ring_ops \<Rightarrow> DelayComponent \<Rightarrow> duration \<Rightarrow> u32 \<Rightarrow> instant option \<Rightarrow> 'q delay_state \<Rightarrow>
     (bool \<times> 'q delay_state) outcome" where
  "delay_loop chk R c delay b fired st =
     (if b = 0 then Returned (False, st\<lparr>ds_budget := b, ds_fired := fired\<rparr>)
      else
        (case check_signals R text_or_utf8 (ds_io st) of
           (io1, True) \<Rightarrow> Returned (True, st\<lparr>ds_budget := b, ds_fired := fired, ds_io := io1\<rparr>)
         | (io1, False) \<Rightarrow>
             (case release_due chk R (dl_out c) fired b (ds_work st) (ds_pending st) io1 of
                Panicked msg \<Rightarrow> Panicked msg
              | Returned (b1, w1, p1, io2, wk) \<Rightarrow>
                  let st1 = st\<lparr>ds_work := w1, ds_pending := p1, ds_wake := woken wk (ds_wake st)\<rparr> in
                  (case pop R (dl_inn c) io2 of
                     (io3, None) \<Rightarrow>
                       Returned (False, st1\<lparr>ds_budget := b1, ds_fired := None, ds_io := io3\<rparr>)
                   | (io3, Some ip) \<Rightarrow>
                       (case time_now R io3 of
                          (io4, now) \<Rightarrow>
                            (case checked_dec chk b1 of
                               Panicked msg \<Rightarrow> Panicked msg
                             | Returned b2 \<Rightarrow>
                                 delay_loop chk R c delay b2 None
                                   (st1\<lparr>ds_work := w1 + 1,
                                      ds_pending := p1 @ [\<lparr>dp_data = ip, dp_ready_time = now + delay\<rparr>],
                                      ds_io := io4\<rparr>)))))))"
  by pat_completeness auto
termination
  by (relation "measures [\<lambda>(chk, R, c, delay, b, fired, st). if fired = None then 0 else 1 :: nat,
        \<lambda>(chk, R, c, delay, b, fired, st). unat b]")
    (auto simp: release_due_def checked_dec_def unat_minus_one unat_gt_0 split: option.splits if_splits)

declare delay_loop.simps [simp del]

definition delay_process ::
    "bool \<Rightarrow> 'q ring_ops \<Rightarrow> 'f float_ops \<Rightarrow> DelayComponent \<times> 'q node_io \<Rightarrow> NodeContext \<Rightarrow>
     ((DelayComponent \<times> 'q node_io) \<times> NodeContext \<times> ProcessResult) outcome" where
  "delay_process chk R F s ctx =
     (case s of (c0, io0) \<Rightarrow>
        outcome_bind (delay_configure R F c0 io0) (\<lambda>(io, delay).
          let c = c0\<lparr>dl_delay := Some delay\<rparr> in
          (case check_signals R text_or_utf8 io of
             (io1, True) \<Rightarrow> Returned ((c, io1), ctx, Finished)
           | (io1, False) \<Rightarrow>
               outcome_bind
                 (delay_loop chk R c delay (remaining_budget ctx) (timer_fired_at ctx)
                    \<lparr>ds_budget = remaining_budget ctx, ds_work = 0, ds_fired = timer_fired_at ctx,
                     ds_wake = ctx_wake_at ctx, ds_pending = dl_pending_packets c, ds_io = io1\<rparr>)
                 (\<lambda>(stopped, st).
                    let c1 = c\<lparr>dl_pending_packets := ds_pending st\<rparr>;
                        ctx1 = ctx\<lparr>remaining_budget := ds_budget st, timer_fired_at := ds_fired st,
                                   ctx_wake_at := ds_wake st\<rparr>
                    in
                    if stopped then Returned ((c1, ds_io st), ctx1, Finished)
                    else
                      (let (io2, abandoned) = is_abandoned R (dl_inn c) (ds_io st) in
                       case ds_pending st of
                         [] \<Rightarrow>
                           Returned ((c1, io2), ctx1,
                             if abandoned then Finished
                             else if ds_work st = 0 then NoWork else DidWork (ds_work st))
                       | p # ps \<Rightarrow>
                           Returned ((c1, io2), set_wake_at (dp_ready_time p) ctx1,
                             if ds_work st = 0 then NoWork else DidWork (ds_work st)))))))"

definition Delay_metadata :: ComponentComponentPayload where
  "Delay_metadata = metadata_default\<lparr>
     comp_name := ''Delay'', comp_description := ''Introduces a configurable delay to packets'',
     comp_icon := ''clock-o'', subgraph := False,
     in_ports := [any_port ''CONF'' False
         (''Configuration packet with delay, e.g. '' @ [CHR 0x27] @ ''50us'' @ [CHR 0x27] @ '', '' @ [CHR 0x27] @ ''1ms'' @
          [CHR 0x27] @ '', '' @ [CHR 0x27] @ ''2s'' @ [CHR 0x27] @ '' in URL format ?delay=1ms'') ''50us'',
       default_in\<lparr>port_name := ''IN'', allowed_type := ''any''\<rparr>],
     out_ports := [default_out\<lparr>port_name := ''OUT'', allowed_type := ''any''\<rparr>]\<rparr>"

end
