(* ===== verification/Delay_Properties.thy ===== *)
theory Delay_Properties
  imports Delay Relay_Properties
begin

text \<open>
  \<open>Delay\<close> never sends a packet early, keeps the order of its packets, and always asks for the timer of
  the packet at the head; its budget can be overdrawn.
\<close>

section \<open>The clock\<close>

lemma happens_clock: "io_clock io \<le> io_clock (happens R e io)"
  by (cases e) (auto split: option.splits)

lemma fold_happens_clock: "io_clock io \<le> io_clock (fold (happens R) es io)"
proof (induction es arbitrary: io)
  case (Cons e es)
  from Cons.IH [of "happens R e io"] happens_clock [of io R e] show ?case by simp
qed simp

lemma meanwhile_clock: "io_clock io \<le> io_clock (meanwhile R io)"
proof (cases "io_external io")
  case (Cons es rest)
  with fold_happens_clock [of "io\<lparr>io_external := rest\<rparr>" R es] show ?thesis by (simp add: meanwhile_def)
qed (simp add: meanwhile_def)

lemma pop_clock: "pop R c io = (io', r) \<Longrightarrow> io_clock io \<le> io_clock io'"
  using meanwhile_clock [of io R] by (auto simp: pop_def Let_def split: option.splits)

lemma push_clock: "push R m k io = (io', r) \<Longrightarrow> io_clock io \<le> io_clock io'"
  using meanwhile_clock [of io R] by (auto simp: push_def Let_def split: option.splits)

lemma time_now_clock: "time_now R io = (io', t) \<Longrightarrow> io_clock io \<le> t \<and> io_clock io' = t"
  using meanwhile_clock [of io R] by (auto simp: time_now_def Let_def)

lemma check_signals_clock:
  assumes "check_signals R f io = (io', b)"
  shows "io_clock io \<le> io_clock io'"
proof -
  have recv: "io_clock io \<le> io_clock io1" if "try_recv R io = (io1, s)" for io1 s
    using that meanwhile_clock [of io R] by (auto simp: try_recv_def Let_def split: list.splits)
  have send: "io_clock io1 \<le> io_clock (try_send R m io1)" for io1 m
    using meanwhile_clock [of io1 R] by (auto simp: try_send_def Let_def)
  from assms send show ?thesis
    by (auto simp: check_signals_def split: prod.splits option.splits if_splits dest!: recv intro: order_trans)
qed

section \<open>The loops\<close>

definition released_to :: "ProcessEdgeSink \<Rightarrow> DelayedPacket list \<Rightarrow> (nat \<times> MessageBuf) list" where
  "released_to out = map (\<lambda>p. (sk_sink out, dp_data p))"

lemma delay_release_logs:
  "delay_release chk R out f b w ps io = Returned (b', w', ps', io', wk) \<Longrightarrow>
   \<exists>rel. ps = rel @ ps' \<and> (\<forall>p \<in> set rel. dp_ready_time p \<le> f) \<and> io_read io' = io_read io \<and>
     io_sent io' = io_sent io @ released_to out rel \<and> io_clock io \<le> io_clock io'"
proof (induction ps arbitrary: b w io)
  case (Cons p ps)
  obtain io1 ok where p: "push R (dp_data p) out io = (io1, ok)" by fastforce
  show ?case
  proof (cases "dp_ready_time p \<le> f")
    case True
    show ?thesis
    proof (cases ok)
      case T2: True
      from Cons.prems True p T2 obtain b1 where
        "delay_release chk R out f b1 (w + 1) ps io1 = Returned (b', w', ps', io', wk)"
        by (auto split: outcome.splits)
      from Cons.IH [OF this] obtain rel where "ps = rel @ ps'" "\<forall>p \<in> set rel. dp_ready_time p \<le> f"
        "io_read io' = io_read io1" "io_sent io' = io_sent io1 @ released_to out rel" "io_clock io1 \<le> io_clock io'"
        by blast
      with True T2 push_logs [OF p] push_clock [OF p] show ?thesis
        by (intro exI [of _ "p # rel"]) (simp add: released_to_def)
    next
      case False
      obtain io2 t where t: "time_now R io1 = (io2, t)" by fastforce
      with Cons.prems True False p push_logs [OF p] push_clock [OF p] time_now_quiet [OF t] time_now_clock [OF t]
      show ?thesis by (intro exI [of _ "[]"]) (auto simp: released_to_def quiet_def)
    qed
  next
    case False
    with Cons.prems show ?thesis by (intro exI [of _ "[]"]) (auto simp: released_to_def)
  qed
qed (auto simp: released_to_def)

definition accepted :: "nat \<Rightarrow> instant \<Rightarrow> duration \<Rightarrow> DelayedPacket list \<Rightarrow> 'q node_io \<Rightarrow> 'q node_io \<Rightarrow> bool" where
  "accepted inn t delay new io io' \<longleftrightarrow>
     io_read io' = io_read io @ map (\<lambda>p. (inn, dp_data p)) new \<and> io_sent io' = io_sent io \<and>
     io_clock io \<le> io_clock io' \<and> (\<forall>p \<in> set new. t + delay \<le> dp_ready_time p)"

text \<open>One round of the loop after the release.\<close>

definition delay_accept ::
    "bool \<Rightarrow> 'q ring_ops \<Rightarrow> DelayComponent \<Rightarrow> duration \<Rightarrow> u32 \<Rightarrow> 'q delay_state \<Rightarrow> (bool \<times> 'q delay_state) outcome" where
  "delay_accept chk R c delay b st =
     (case pop R (dl_inn c) (ds_io st) of
        (io3, None) \<Rightarrow> Returned (False, st\<lparr>ds_budget := b, ds_fired := None, ds_io := io3\<rparr>)
      | (io3, Some ip) \<Rightarrow>
          (case time_now R io3 of
             (io4, now) \<Rightarrow>
               outcome_bind (checked_dec chk b) (\<lambda>b2.
                 delay_loop chk R c delay b2 None
                   (st\<lparr>ds_work := ds_work st + 1,
                      ds_pending := ds_pending st @ [\<lparr>dp_data = ip, dp_ready_time = now + delay\<rparr>],
                      ds_io := io4\<rparr>))))"

lemma delay_loop_unfold:
  "delay_loop chk R c delay b fired st =
     (if b = 0 then Returned (False, st\<lparr>ds_budget := b, ds_fired := fired\<rparr>)
      else
        (case check_signals R text_or_utf8 (ds_io st) of
           (io1, True) \<Rightarrow> Returned (True, st\<lparr>ds_budget := b, ds_fired := fired, ds_io := io1\<rparr>)
         | (io1, False) \<Rightarrow>
             outcome_bind (release_due chk R (dl_out c) fired b (ds_work st) (ds_pending st) io1)
               (\<lambda>(b1, w1, p1, io2, wk).
                  delay_accept chk R c delay b1
                    (st\<lparr>ds_work := w1, ds_pending := p1, ds_wake := woken wk (ds_wake st), ds_io := io2\<rparr>))))"
  by (subst delay_loop.simps)
    (auto simp: delay_accept_def Let_def split: prod.splits outcome.splits option.splits bool.splits)

lemma delay_loop_round:
  "b \<noteq> 0 \<Longrightarrow> check_signals R text_or_utf8 (ds_io st) = (io1, False) \<Longrightarrow>
   delay_loop chk R c delay b fired st =
     outcome_bind (release_due chk R (dl_out c) fired b (ds_work st) (ds_pending st) io1)
       (\<lambda>(b1, w1, p1, io2, wk).
          delay_accept chk R c delay b1
            (st\<lparr>ds_work := w1, ds_pending := p1, ds_wake := woken wk (ds_wake st), ds_io := io2\<rparr>))"
  by (simp add: delay_loop_unfold)

lemma delay_accepting:
  "delay_loop chk R c delay b None st = Returned (stop, st') \<Longrightarrow>
   \<exists>new. ds_pending st' = ds_pending st @ new \<and> ds_wake st' = ds_wake st \<and> ds_fired st' = None \<and>
     accepted (dl_inn c) (io_clock (ds_io st)) delay new (ds_io st) (ds_io st')"
proof (induction "unat b" arbitrary: b st rule: less_induct)
  case less
  obtain io1 sg where s: "check_signals R text_or_utf8 (ds_io st) = (io1, sg)" by fastforce
  obtain io3 got where g: "pop R (dl_inn c) io1 = (io3, got)" by fastforce
  note q = check_signals_quiet [OF s] check_signals_clock [OF s] pop_logs [OF g] pop_clock [OF g]
  show ?case
  proof (cases "b = 0 \<or> sg \<or> got = None")
    case True
    with less.prems s g q show ?thesis
      by (intro exI [of _ "[]"])
        (auto simp: delay_loop_unfold release_due_def delay_accept_def woken_def accepted_def quiet_def
          split: if_splits bool.splits)
  next
    case False
    then obtain ip where ip: "b \<noteq> 0" "\<not> sg" "got = Some ip" by auto
    obtain io4 now where n: "time_now R io3 = (io4, now)" by fastforce
    let ?p = "\<lparr>dp_data = ip, dp_ready_time = now + delay\<rparr>"
    let ?st = "st\<lparr>ds_work := ds_work st + 1, ds_pending := ds_pending st @ [?p], ds_io := io4\<rparr>"
    have "delay_loop chk R c delay (b - 1) None ?st = Returned (stop, st')"
      using less.prems s g n ip
      by (simp add: delay_loop_unfold [of chk R c delay b] release_due_def delay_accept_def woken_def checked_dec_def)
    moreover have "unat (b - 1) < unat b" using ip(1) by (simp add: unat_minus_one unat_gt_0)
    ultimately obtain new where new: "ds_pending st' = ds_pending st @ ?p # new" "ds_wake st' = ds_wake st"
      "ds_fired st' = None" "accepted (dl_inn c) (io_clock io4) delay new io4 (ds_io st')"
      using less.hyps [of "b - 1" ?st] by auto
    have "accepted (dl_inn c) (io_clock (ds_io st)) delay (?p # new) (ds_io st) (ds_io st')"
      using new(4) q ip time_now_quiet [OF n] time_now_clock [OF n] by (auto simp: accepted_def quiet_def)
    with new show ?thesis by blast
  qed
qed

lemma delay_loop_logs:
  assumes "delay_loop chk R c delay b fired st = Returned (stop, st')"
  shows "\<exists>rel rest new io2. ds_pending st = rel @ rest \<and> ds_pending st' = rest @ new \<and>
     (\<forall>p \<in> set rel. \<exists>f. fired = Some f \<and> dp_ready_time p \<le> f) \<and>
     io_read io2 = io_read (ds_io st) \<and> io_sent io2 = io_sent (ds_io st) @ released_to (dl_out c) rel \<and>
     accepted (dl_inn c) (io_clock (ds_io st)) delay new io2 (ds_io st')"
proof -
  obtain io1 sg where s: "check_signals R text_or_utf8 (ds_io st) = (io1, sg)" by fastforce
  note q = check_signals_quiet [OF s] check_signals_clock [OF s]
  show ?thesis
  proof (cases "b = 0 \<or> sg")
    case True
    with assms s q show ?thesis
      by (intro exI [of _ "[]"] exI [of _ "ds_pending st"] exI [of _ "ds_io st'"])
        (auto simp: delay_loop_unfold released_to_def accepted_def quiet_def split: if_splits)
  next
    case False
    with assms s obtain b1 w1 p1 io2 wk where
      r: "release_due chk R (dl_out c) fired b (ds_work st) (ds_pending st) io1 = Returned (b1, w1, p1, io2, wk)" and
      a: "delay_accept chk R c delay b1
        (st\<lparr>ds_work := w1, ds_pending := p1, ds_wake := woken wk (ds_wake st), ds_io := io2\<rparr>) = Returned (stop, st')"
      by (auto simp: delay_loop_unfold outcome_bind_def split: outcome.splits)
    obtain rel where rel: "ds_pending st = rel @ p1" "\<forall>p \<in> set rel. \<exists>f. fired = Some f \<and> dp_ready_time p \<le> f"
      "io_read io2 = io_read io1" "io_sent io2 = io_sent io1 @ released_to (dl_out c) rel" "io_clock io1 \<le> io_clock io2"
      using r by (cases fired) (auto simp: release_due_def released_to_def dest!: delay_release_logs)
    obtain io3 got where g: "pop R (dl_inn c) io2 = (io3, got)" by fastforce
    have "\<exists>new. ds_pending st' = p1 @ new \<and> accepted (dl_inn c) (io_clock (ds_io st)) delay new io2 (ds_io st')"
    proof (cases got)
      case None
      with a g pop_logs [OF g] pop_clock [OF g] show ?thesis
        by (intro exI [of _ "[]"]) (auto simp: delay_accept_def accepted_def)
    next
      case (Some ip)
      obtain io4 now where n: "time_now R io3 = (io4, now)" by fastforce
      let ?p = "\<lparr>dp_data = ip, dp_ready_time = now + delay\<rparr>"
      from a g Some n obtain b2 where "delay_loop chk R c delay b2 None
          (st\<lparr>ds_wake := woken wk (ds_wake st), ds_work := w1 + 1, ds_pending := p1 @ [?p], ds_io := io4\<rparr>) =
          Returned (stop, st')"
        by (auto simp: delay_accept_def outcome_bind_def split: outcome.splits)
      from delay_accepting [OF this] obtain new where new: "ds_pending st' = p1 @ ?p # new"
        "accepted (dl_inn c) (io_clock io4) delay new io4 (ds_io st')" by auto
      have "accepted (dl_inn c) (io_clock (ds_io st)) delay (?p # new) io2 (ds_io st')"
        using new(2) q(2) rel(5) Some pop_logs [OF g] pop_clock [OF g] time_now_quiet [OF n] time_now_clock [OF n]
        by (auto simp: accepted_def quiet_def)
      with new(1) show ?thesis by blast
    qed
    with rel q(1) show ?thesis by (auto simp: quiet_def)
  qed
qed

section \<open>Delay\<close>

text \<open>
  C16. \<open>Delay\<close> never sends early and never loses or reorders: in a call that returns, it sends a first
  part of its pending packets, all with their time up at the deadline for which the timer fired; the
  rest stays, with the packets it takes behind it, each held back for the configured delay at least.
  While packets are pending it asks for the timer of the first one, and it only finishes at the end of its
  input when none is pending.
\<close>

theorem delay_never_early:
  assumes "delay_process chk R F (c, io) ctx = Returned ((c', io'), ctx', r)" and "dl_delay c = Some d"
  shows "\<exists>released rest new.
    dl_pending_packets c = released @ rest \<and> dl_pending_packets c' = rest @ new \<and>
    io_sent io' = io_sent io @ released_to (dl_out c) released \<and>
    io_read io' = io_read io @ map (\<lambda>p. (dl_inn c, dp_data p)) new \<and>
    (\<forall>p \<in> set released. \<exists>f. timer_fired_at ctx = Some f \<and> dp_ready_time p \<le> f) \<and>
    (\<forall>p \<in> set new. io_clock io + d \<le> dp_ready_time p) \<and>
    (r \<noteq> Finished \<and> dl_pending_packets c' \<noteq> [] \<longrightarrow>
       ctx_wake_at ctx' = Some (dp_ready_time (hd (dl_pending_packets c')))) \<and>
    dl_delay c' = Some d"
proof -
  have c: "c\<lparr>dl_delay := Some d\<rparr> = c" using assms(2) by (cases c) simp
  obtain io1 sg where s: "check_signals R text_or_utf8 io = (io1, sg)" by fastforce
  note q = check_signals_quiet [OF s] check_signals_clock [OF s]
  show ?thesis
  proof (cases sg)
    case True
    with assms s c q show ?thesis
      by (intro exI [of _ "[]"] exI [of _ "dl_pending_packets c"])
        (auto simp: delay_process_def delay_configure_def released_to_def quiet_def)
  next
    case False
    let ?st = "\<lparr>ds_budget = remaining_budget ctx, ds_work = 0, ds_fired = timer_fired_at ctx,
       ds_wake = ctx_wake_at ctx, ds_pending = dl_pending_packets c, ds_io = io1\<rparr>"
    from assms s c False obtain stop st where
      l: "delay_loop chk R c d (remaining_budget ctx) (timer_fired_at ctx) ?st = Returned (stop, st)"
      by (auto simp: delay_process_def delay_configure_def outcome_bind_def split: outcome.splits)
    obtain io2 ab where ab: "is_abandoned R (dl_inn c) (ds_io st) = (io2, ab)" by fastforce
    have e: "c' = c\<lparr>dl_pending_packets := ds_pending st\<rparr>" "io' = ds_io st \<or> io' = io2"
      "r \<noteq> Finished \<and> ds_pending st \<noteq> [] \<longrightarrow> ctx_wake_at ctx' = Some (dp_ready_time (hd (ds_pending st)))"
      using assms s c False l ab
      by (auto simp: delay_process_def delay_configure_def Let_def set_wake_at_def split: if_splits list.splits)
    from delay_loop_logs [OF l] obtain rel rest new i where d: "dl_pending_packets c = rel @ rest"
      "ds_pending st = rest @ new" "\<forall>p \<in> set rel. \<exists>f. timer_fired_at ctx = Some f \<and> dp_ready_time p \<le> f"
      "io_read i = io_read io1" "io_sent i = io_sent io1 @ released_to (dl_out c) rel"
      "accepted (dl_inn c) (io_clock io1) d new i (ds_io st)" by auto
    have "quiet (ds_io st) io'" using e(2) is_abandoned_quiet [OF ab] by auto
    with d q have "io_sent io' = io_sent io @ released_to (dl_out c) rel"
      "io_read io' = io_read io @ map (\<lambda>p. (dl_inn c, dp_data p)) new"
      "\<forall>p \<in> set new. io_clock io + d \<le> dp_ready_time p"
      by (auto simp: accepted_def quiet_def)
    with e(1,3) d(1-3) assms(2) show ?thesis
      by - (rule exI [of _ rel], rule exI [of _ rest], rule exI [of _ new], auto)
  qed
qed

definition demo_delay :: "DelayedPacket list \<Rightarrow> DelayComponent" where
  "demo_delay pending = \<lparr>dl_conf = 4, dl_inn = 0, dl_out = demo_sink, dl_delay = Some 7, dl_pending_packets = pending\<rparr>"

definition no_floats :: "unit float_ops" where
  "no_floats = \<lparr>f64_parse = Map.empty, f64_times = (\<lambda>_ _. 0)\<rparr>"

definition fired_context :: NodeContext where
  "fired_context = (new_context ''Node'' Normal 0 0)\<lparr>remaining_budget := 1, timer_fired_at := Some 5\<rparr>"

lemma demo_delay_runs:
  "\<exists>c' io' ctx' r. delay_process chk list_ring no_floats
     (demo_delay [\<lparr>dp_data = MText ''a'', dp_ready_time = 5\<rparr>], node_io_new (demo_channels [] 5 []) []) fired_context =
       Returned ((c', io'), ctx', r) \<and> io_sent io' = [(1, MText ''a'')]"
  by (simp add: delay_process_def delay_configure_def demo_delay_def fired_context_def new_context_def
      node_io_new_def demo_channels_def delay_loop_unfold release_due_def checked_dec_def delay_accept_def run_defs)

lemma delay_never_early_witness:
  "\<exists>c' io' ctx' r released rest. delay_process True list_ring no_floats
     (demo_delay [\<lparr>dp_data = MText ''a'', dp_ready_time = 5\<rparr>], node_io_new (demo_channels [] 5 []) []) fired_context =
       Returned ((c', io'), ctx', r) \<and> io_sent io' = released_to demo_sink released \<and>
     [\<lparr>dp_data = MText ''a'', dp_ready_time = 5\<rparr>] = released @ rest"
proof -
  obtain c' io' ctx' r where p: "delay_process True list_ring no_floats
     (demo_delay [\<lparr>dp_data = MText ''a'', dp_ready_time = 5\<rparr>], node_io_new (demo_channels [] 5 []) []) fired_context =
       Returned ((c', io'), ctx', r)"
    using demo_delay_runs by blast
  have "dl_delay (demo_delay [\<lparr>dp_data = MText ''a'', dp_ready_time = 5\<rparr>]) = Some 7"
    by (simp add: demo_delay_def)
  from delay_never_early [OF p this] p show ?thesis
    by (force simp: demo_delay_def node_io_new_def)
qed

lemma delay_accept_none: "pop R (dl_inn c) (ds_io st) = (io3, None) \<Longrightarrow>
   delay_accept chk R c delay b st = Returned (False, st\<lparr>ds_budget := b, ds_fired := None, ds_io := io3\<rparr>)"
  by (simp add: delay_accept_def)

lemma delay_accept_release: "pop R (dl_inn c) (ds_io st) = (io3, Some ip) \<Longrightarrow> time_now R io3 = (io4, now) \<Longrightarrow>
   delay_accept False R c delay b st = delay_loop False R c delay (b - 1) None
     (st\<lparr>ds_work := ds_work st + 1,
        ds_pending := ds_pending st @ [\<lparr>dp_data = ip, dp_ready_time = now + delay\<rparr>], ds_io := io4\<rparr>)"
  by (simp add: delay_accept_def checked_dec_def)

lemma delay_accept_panics: "pop R (dl_inn c) (ds_io st) = (io3, Some ip) \<Longrightarrow> b = 0 \<Longrightarrow>
   delay_accept True R c delay b st = Panicked ''attempt to subtract with overflow''"
  by (simp add: delay_accept_def checked_dec_def split: prod.split)

text \<open>
  Releasing does not look at the budget: when as many packets as the budget are due, the next packet
  from IN takes one unit more. A debug build panics, which ends the node with its pending packets; a
  release build leaves a budget of 2^32 - 1.
\<close>

theorem delay_overdraws_its_budget:
  "delay_process True list_ring no_floats
     (demo_delay [\<lparr>dp_data = MText ''a'', dp_ready_time = 5\<rparr>],
      node_io_new (demo_channels [MText ''b''] 5 []) []) fired_context =
       Panicked ''attempt to subtract with overflow'' \<and>
   (\<exists>c' io' ctx' r. delay_process False list_ring no_floats
     (demo_delay [\<lparr>dp_data = MText ''a'', dp_ready_time = 5\<rparr>],
      node_io_new (demo_channels [MText ''b''] 5 []) []) fired_context =
       Returned ((c', io'), ctx', r) \<and> unat (remaining_budget ctx') = 2 ^ 32 - 1)"
proof
  let ?run = "\<lambda>chk. delay_process chk list_ring no_floats
     (demo_delay [\<lparr>dp_data = MText ''a'', dp_ready_time = 5\<rparr>],
      node_io_new (demo_channels [MText ''b''] 5 []) []) fired_context"
  show "?run True = Panicked ''attempt to subtract with overflow''"
    by (simp add: delay_process_def delay_configure_def demo_delay_def fired_context_def new_context_def
        node_io_new_def demo_channels_def delay_loop_round release_due_def checked_dec_def delay_accept_panics run_defs)
  have "\<exists>c' io' ctx' r. ?run False = Returned ((c', io'), ctx', r) \<and> remaining_budget ctx' = - 1"
    by (simp add: delay_process_def delay_configure_def demo_delay_def fired_context_def new_context_def
        node_io_new_def demo_channels_def delay_loop_round release_due_def checked_dec_def delay_accept_none
        delay_accept_release set_wake_at_def run_defs)
  then show "\<exists>c' io' ctx' r. ?run False = Returned ((c', io'), ctx', r) \<and> unat (remaining_budget ctx') = 2 ^ 32 - 1"
    by (force simp: unsigned_minus_1_eq_mask mask_eq_exp_minus_1)
qed

end
