(* ===== verification/Channels.thy ===== *)
theory Channels
  imports Relay_Properties Routing Texts Counting Delay
begin

text \<open>
  What a component's call does to the channels of its network when no other thread touches them: each
  channel stays a queue. \<open>fifo\<close> relates two states by their logs, channel by channel; it holds of every
  call of the interface and is transitive, so it holds of every component.
\<close>

text \<open>A step whose outcome a call goes on with.\<close>

lemma outcome_bind_Returned: "outcome_bind r f = Returned y \<longleftrightarrow> (\<exists>x. r = Returned x \<and> f x = Returned y)"
  by (cases r) auto

section \<open>Queues\<close>

definition of_channel :: "nat \<Rightarrow> (nat \<times> MessageBuf) list \<Rightarrow> MessageBuf list" where
  "of_channel c log = map snd (filter (\<lambda>e. fst e = c) log)"

lemma of_channel_simps [simp]:
  "of_channel c [] = []"
  "of_channel c (e # es) = (if fst e = c then snd e # of_channel c es else of_channel c es)"
  "of_channel c (xs @ ys) = of_channel c xs @ of_channel c ys"
  by (simp_all add: of_channel_def)

lemma of_channel_pairs [simp]: "of_channel c (map (Pair d) ms) = (if c = d then ms else [])"
  by (induction ms) auto

definition fifo :: "('q \<Rightarrow> MessageBuf list) \<Rightarrow> 'q node_io \<Rightarrow> 'q node_io \<Rightarrow> bool" where
  "fifo held io io' \<longleftrightarrow>
     (io_external io = [] \<longrightarrow>
        io_external io' = [] \<and>
        (\<exists>taken sent. io_read io' = io_read io @ taken \<and> io_sent io' = io_sent io @ sent \<and>
          (\<forall>c. of_channel c taken @ held (io_channels io' c) = held (io_channels io c) @ of_channel c sent)))"

lemma fifo_refl [simp]: "fifo held io io"
  by (simp add: fifo_def)

lemma fifo_trans: "fifo held io io1 \<Longrightarrow> fifo held io1 io2 \<Longrightarrow> fifo held io io2"
  unfolding fifo_def
proof (intro impI)
  assume e: "io_external io = []"
    and 1: "io_external io = [] \<longrightarrow> io_external io1 = [] \<and>
      (\<exists>taken sent. io_read io1 = io_read io @ taken \<and> io_sent io1 = io_sent io @ sent \<and>
        (\<forall>c. of_channel c taken @ held (io_channels io1 c) = held (io_channels io c) @ of_channel c sent))"
    and 2: "io_external io1 = [] \<longrightarrow> io_external io2 = [] \<and>
      (\<exists>taken sent. io_read io2 = io_read io1 @ taken \<and> io_sent io2 = io_sent io1 @ sent \<and>
        (\<forall>c. of_channel c taken @ held (io_channels io2 c) = held (io_channels io1 c) @ of_channel c sent))"
  from 1 e obtain t1 s1 where a: "io_external io1 = []" "io_read io1 = io_read io @ t1" "io_sent io1 = io_sent io @ s1"
    "\<And>c. of_channel c t1 @ held (io_channels io1 c) = held (io_channels io c) @ of_channel c s1" by blast
  from 2 a(1) obtain t2 s2 where b: "io_external io2 = []" "io_read io2 = io_read io1 @ t2" "io_sent io2 = io_sent io1 @ s2"
    "\<And>c. of_channel c t2 @ held (io_channels io2 c) = held (io_channels io1 c) @ of_channel c s2" by blast
  have "of_channel c (t1 @ t2) @ held (io_channels io2 c) = held (io_channels io c) @ of_channel c (s1 @ s2)" for c
    using a(4) [of c] b(4) [of c] by (metis append.assoc of_channel_simps(3))
  with a b show "io_external io2 = [] \<and>
      (\<exists>taken sent. io_read io2 = io_read io @ taken \<and> io_sent io2 = io_sent io @ sent \<and>
        (\<forall>c. of_channel c taken @ held (io_channels io2 c) = held (io_channels io c) @ of_channel c sent))"
    by auto
qed

text \<open>A state that differs in neither logs nor channels.\<close>

lemma fifo_same:
  "io_external io' = io_external io \<Longrightarrow> io_read io' = io_read io \<Longrightarrow> io_sent io' = io_sent io \<Longrightarrow>
   io_channels io' = io_channels io \<Longrightarrow> fifo held io io'"
  by (simp add: fifo_def)

section \<open>The calls of the interface\<close>

lemma fifo_alone: "io_external io = [] \<Longrightarrow> fifo held io io' \<Longrightarrow> io_external io' = []"
  by (simp add: fifo_def)

lemma fifo_notI: "(io_external io = [] \<Longrightarrow> fifo held io io') \<Longrightarrow> fifo held io io'"
  by (simp add: fifo_def)

context ring begin

lemma fifo_pop: "pop R c io = (io', r) \<Longrightarrow> fifo held io io'"
  by (rule fifo_notI, insert pop_ok [of "io_channels io c"]) (fastforce simp: pop_def source_pop_def fifo_def Let_def split: option.splits)

lemma fifo_push: "push R m k io = (io', ok) \<Longrightarrow> fifo held io io'"
  by (rule fifo_notI, insert push_ok [of m "io_channels io (sk_sink k)"]) (fastforce simp: push_def sink_push_def fifo_def Let_def split: option.splits)

lemma fifo_slots: "slots R c io = (io', n) \<Longrightarrow> fifo held io io'"
  by (rule fifo_notI) (auto simp: slots_def Let_def)

lemma fifo_is_empty: "is_empty R c io = (io', b) \<Longrightarrow> fifo held io io'"
  by (auto simp: is_empty_def split: prod.splits intro: fifo_slots)

lemma fifo_is_abandoned: "is_abandoned R c io = (io', b) \<Longrightarrow> fifo held io io'"
  by (rule fifo_notI) (auto simp: is_abandoned_def Let_def)

lemma fifo_time_now: "time_now R io = (io', t) \<Longrightarrow> fifo held io io'"
  by (rule fifo_notI) (simp add: time_now_def Let_def)

lemma fifo_check_signals: "check_signals R f io = (io', b) \<Longrightarrow> fifo held io io'"
  by (rule fifo_notI)
    (auto simp: check_signals_def try_recv_def try_send_def Let_def split: list.splits if_splits intro!: fifo_same)

lemma fifo_output: "fifo held io (println s io)" "fifo held io (network_output s io)"
  by (simp_all add: fifo_same println_def network_output_def)

lemma pop_many_held: "pop_many R n q = Some (q', ms) \<Longrightarrow> held q = ms @ held q'"
  by (induction n arbitrary: q q' ms) (auto split: option.splits dest!: pop_ok)

lemma fifo_read_chunk: "read_chunk R c n io = (io', r) \<Longrightarrow> fifo held io io'"
  by (rule fifo_notI)
    (auto simp: read_chunk_def fifo_def Let_def split: option.splits dest!: pop_many_held)

lemmas fifo_calls = fifo_pop fifo_push fifo_slots fifo_is_empty fifo_is_abandoned fifo_time_now
  fifo_check_signals fifo_read_chunk

section \<open>The relays\<close>

lemma fifo_repeat_flush: "repeat_flush R out b w p io = (b', w', p', io') \<Longrightarrow> fifo held io io'"
proof (induction b arbitrary: w p io)
  case (Suc b)
  then show ?case
    by (cases p) (auto split: prod.splits bool.splits dest!: fifo_push dest: Suc.IH intro: fifo_trans)
qed simp

lemma fifo_repeat_relay: "repeat_relay R inn out b w p io = (s, b', w', p', io') \<Longrightarrow> fifo held io io'"
  by (induction b arbitrary: w io)
    (auto split: prod.splits bool.splits option.splits dest!: fifo_calls, (metis fifo_trans)+)

lemma fifo_repeat_process: "repeat_process R (c, io) ctx = ((c', io'), ctx', r) \<Longrightarrow> fifo held io io'"
  by (auto simp: repeat_process_def Let_def split: prod.splits bool.splits if_splits
      dest!: fifo_calls fifo_repeat_flush fifo_repeat_relay, (metis fifo_trans)+)

lemma fifo_drop_loop: "drop_loop R inn b w io = (s, b', w', io') \<Longrightarrow> fifo held io io'"
proof (induction b arbitrary: w io rule: less_induct)
  case (less b)
  from less.prems show ?case
    by (auto simp: drop_loop.simps [of R inn b w io] Let_def
        split: prod.splits bool.splits option.splits if_splits dest!: fifo_calls less.IH [rotated],
      (metis fifo_trans)+)
qed

lemma fifo_drop_process: "drop_process R (c, io) ctx = ((c', io'), ctx', r) \<Longrightarrow> fifo held io io'"
  by (auto simp: drop_process_def Let_def split: prod.splits bool.splits if_splits
      dest!: fifo_calls fifo_drop_loop, (metis fifo_trans)+)

lemma fifo_muxer_port: "muxer_port R inn out b w io = (b', w', io') \<Longrightarrow> fifo held io io'"
  by (induction b arbitrary: w io)
    (auto split: prod.splits bool.splits option.splits dest!: fifo_calls, (metis fifo_trans)+)

lemma fifo_muxer_ports: "muxer_ports R inns out b w io = (b', w', io') \<Longrightarrow> fifo held io io'"
  by (induction inns arbitrary: b w io)
    (auto split: prod.splits if_splits dest!: fifo_muxer_port, (metis fifo_trans)+)

lemma fifo_all_abandoned: "all_abandoned R inns io = (io', b) \<Longrightarrow> fifo held io io'"
  by (induction inns arbitrary: io)
    (auto split: prod.splits bool.splits dest!: fifo_calls, (metis fifo_trans)+)

lemma fifo_muxer_process: "muxer_process R (c, io) ctx = ((c', io'), ctx', r) \<Longrightarrow> fifo held io io'"
  by (auto simp: muxer_process_def Let_def split: prod.splits bool.splits
      dest!: fifo_calls fifo_muxer_ports fifo_all_abandoned, (metis fifo_trans)+)

lemma fifo_demux_loop: "demux_loop R c b w br io = (b', w', br', io') \<Longrightarrow> fifo held io io'"
  by (induction b arbitrary: w br io)
    (auto split: prod.splits bool.splits option.splits dest!: fifo_calls, (metis fifo_trans)+)

lemma fifo_demux_process: "demux_process R (c, io) ctx = ((c', io'), ctx', r) \<Longrightarrow> fifo held io io'"
  by (auto simp: demux_process_def Let_def split: prod.splits bool.splits
      dest!: fifo_calls fifo_demux_loop, (metis fifo_trans)+)

section \<open>The routers\<close>

lemma fifo_equals_flush: "equals_flush R c b w p io = (b', w', p', io') \<Longrightarrow> fifo held io io'"
proof (induction b arbitrary: w p io)
  case (Suc b)
  then show ?case
    by (cases p) (auto split: prod.splits bool.splits dest!: fifo_push, (metis fifo_trans)+)
qed simp

lemma fifo_equals_loop: "equals_loop R c v b w p io = (s, b', w', p', io') \<Longrightarrow> fifo held io io'"
  by (induction b arbitrary: w p io)
    (auto simp: Let_def split: prod.splits bool.splits option.splits dest!: fifo_calls, (metis fifo_trans)+)

lemma fifo_equals_configure: "equals_configure R c io = (io', v) \<Longrightarrow> fifo held io io'"
  by (auto simp: equals_configure_def split: option.splits dest!: fifo_calls)

lemma fifo_equals_process: "equals_process R (c, io) ctx = ((c', io'), ctx', r) \<Longrightarrow> fifo held io io'"
  by (auto simp: equals_process_def Let_def split: prod.splits bool.splits option.splits if_splits
      dest!: fifo_calls fifo_equals_configure fifo_equals_flush fifo_equals_loop, (metis fifo_trans)+)

lemma fifo_router_loop: "router_loop R L c fuel b w io = Some (b', w', io') \<Longrightarrow> fifo held io io'"
  by (induction fuel arbitrary: b w io)
    (auto simp: Let_def split: prod.splits bool.splits option.splits if_splits dest!: fifo_calls,
      (metis fifo_trans)+)

lemma fifo_router_configure: "router_configure R L c io = (io', v) \<Longrightarrow> fifo held io io'"
  by (auto simp: router_configure_def split: option.splits prod.splits sum.splits dest!: fifo_calls)

lemma fifo_router_process:
  "router_process R L fuel (c, io) ctx = Some (Returned ((c', io'), ctx', r)) \<Longrightarrow> fifo held io io'"
  by (auto simp: router_process_def Let_def split: prod.splits bool.splits option.splits configured.splits
      dest!: fifo_calls fifo_router_configure fifo_router_loop, (metis fifo_trans)+)

section \<open>The components of texts, counts and delays\<close>

lemma fifo_send_lines: "send_lines R out b n ls io = (b', n', it, io') \<Longrightarrow> fifo held io io'"
proof (induction b arbitrary: n ls io)
  case (Suc b)
  then show ?case
    by (cases ls) (auto split: prod.splits bool.splits dest!: fifo_push, (metis fifo_trans)+)
qed simp

lemma fifo_splitlines_process: "splitlines_process R (c, io) ctx = ((c', io'), ctx', r) \<Longrightarrow> fifo held io io'"
  by (auto simp: splitlines_process_def splitlines_next_def splitlines_finish_def Let_def
      split: prod.splits bool.splits option.splits if_splits dest!: fifo_calls fifo_send_lines,
    (metis fifo_trans)+)

lemma fifo_trim_loop: "trim_loop R inn out b w p io = Returned (s, b', w', p', io') \<Longrightarrow> fifo held io io'"
  by (induction b arbitrary: w io)
    (auto split: prod.splits bool.splits option.splits dest!: fifo_calls, (metis fifo_trans)+)

lemma fifo_trim_process: "trim_process R (c, io) ctx = Returned ((c', io'), ctx', r) \<Longrightarrow> fifo held io io'"
  by (auto simp: trim_process_def Let_def outcome_bind_Returned split: prod.splits bool.splits if_splits
      dest!: fifo_calls fifo_repeat_flush fifo_trim_loop, (metis fifo_trans)+)

lemma fifo_read_replacements:
  "read_replacements R conf fuel reps io = Some (Returned (reps', io')) \<Longrightarrow> fifo held io io'"
  by (induction fuel arbitrary: reps io)
    (auto split: prod.splits option.splits if_splits dest!: fifo_calls, (metis fifo_trans)+)

lemma fifo_text_configure:
  assumes "text_configure R fuel (c, io) = Some (Returned ((c', io'), go))"
  shows "fifo held io io'"
proof (cases "tx_config_complete c")
  case False
  with assms obtain reps io1 where r: "read_replacements R (tx_conf c) fuel (tx_replacements c) io = Some (Returned (reps, io1))"
    by (auto simp: text_configure_def outcome_bind_Returned split: option.splits)
  obtain io2 ab where ab: "is_abandoned R (tx_conf c) io1 = (io2, ab)" by fastforce
  from assms False r ab have "io' = io2" by (simp add: text_configure_def Let_def split: if_splits)
  with fifo_read_replacements [OF r] fifo_is_abandoned [OF ab] show ?thesis by (metis fifo_trans)
qed (use assms in \<open>simp add: text_configure_def\<close>)

lemma fifo_text_loop: "text_loop R c b w p io = Returned (s, b', w', p', io') \<Longrightarrow> fifo held io io'"
  by (induction b arbitrary: w p io)
    (auto simp: Let_def split: prod.splits bool.splits option.splits dest!: fifo_calls, (metis fifo_trans)+)

lemma fifo_text_process:
  assumes "text_process R fuel (c, io) ctx = Some (Returned ((c', io'), ctx', r))"
  shows "fifo held io io'"
proof -
  from assms obtain c1 io1 go where conf: "text_configure R fuel (c, io) = Some (Returned ((c1, io1), go))"
    by (auto simp: text_process_def outcome_bind_Returned split: option.splits)
  have run: "\<not> go \<longrightarrow> io' = io1" using assms conf by (auto simp: text_process_def)
  show ?thesis
  proof (cases go)
    case True
    obtain io2 stop where sg: "check_signals R text_only io1 = (io2, stop)" by fastforce
    obtain b1 w1 p1 io3 where fl: "repeat_flush R (tx_out c1) (budget_left ctx) 0 (tx_pending_packets c1) io2 = (b1, w1, p1, io3)"
      by (metis prod.exhaust)
    note f = fifo_text_configure [OF conf] fifo_check_signals [OF sg] fifo_repeat_flush [OF fl]
    show ?thesis
    proof (cases stop)
      case True
      with assms conf \<open>go\<close> sg have "io' = io2" by (simp add: text_process_def)
      with f show ?thesis by (metis fifo_trans)
    next
      case False
      with assms conf \<open>go\<close> sg fl obtain st b2 w2 p2 io4 where
        lp: "text_loop R c1 b1 w1 p1 io3 = Returned (st, b2, w2, p2, io4)"
        by (cases "text_loop R c1 b1 w1 p1 io3") (auto simp: text_process_def)
      obtain io5 ab where ab: "is_abandoned R (tx_inn c1) io4 = (io5, ab)" by fastforce
      from False assms conf \<open>go\<close> sg fl lp ab have "io' = (if st then io4 else io5)"
        by (auto simp: text_process_def Let_def)
      with f fifo_text_loop [OF lp] fifo_is_abandoned [OF ab] show ?thesis by (metis fifo_trans)
    qed
  qed (use run fifo_text_configure [OF conf] in simp)
qed

lemma fifo_print_packet: "fifo held io (print_packet ip io)"
  by (simp add: print_packet_def fifo_output split: option.split)

lemma fifo_output_loop: "output_loop R c b w p io = (s, b', w', p', io') \<Longrightarrow> fifo held io io'"
  by (induction b arbitrary: w p io)
    (auto split: prod.splits bool.splits option.splits dest!: fifo_calls, (metis fifo_trans fifo_print_packet)+)

lemma fifo_output_process: "output_process R (c, io) ctx = ((c', io'), ctx', r) \<Longrightarrow> fifo held io io'"
  by (auto simp: output_process_def Let_def split: prod.splits bool.splits if_splits
      dest!: fifo_calls fifo_repeat_flush fifo_output_loop, (metis fifo_trans)+)

lemma fifo_emit: "emit_final_count R mode (c, io) = (c', io') \<Longrightarrow> fifo held io io'"
  by (auto simp: emit_final_count_def Let_def split: prod.splits if_splits dest!: fifo_calls
      intro: fifo_trans fifo_output)

lemma fifo_count_loop: "count_loop R L chk mode b w (c, io) = Returned (s, b', w', c', io') \<Longrightarrow> fifo held io io'"
proof (induction b arbitrary: w c io rule: less_induct)
  case (less b)
  from less.prems show ?case
    by (auto simp: count_loop.simps [of R L chk mode b w] Let_def
        split: prod.splits bool.splits option.splits if_splits outcome.splits
        dest!: fifo_calls fifo_emit less.IH [rotated],
      (metis fifo_trans)+)
qed

lemma fifo_count_finish: "count_finish R mode w (c, io) = ((c', io'), r) \<Longrightarrow> fifo held io io'"
  by (auto simp: count_finish_def Let_def split: prod.splits if_splits dest!: fifo_calls fifo_emit,
    (metis fifo_trans)+)

lemma fifo_count_process:
  assumes "count_process R L chk (c, io) ctx = Returned ((c', io'), ctx', r)"
  shows "fifo held io io'"
proof -
  obtain io1 conf where p: "(case ct_mode c of Some mode \<Rightarrow> (io, None) | None \<Rightarrow> pop R (ct_conf c) io) = (io1, conf)"
    by fastforce
  then have f1: "fifo held io io1" by (auto split: option.splits dest!: fifo_pop)
  obtain mode_read where m: "(case conf of None \<Rightarrow> Returned (ct_mode c) | Some m \<Rightarrow> count_mode L m) = Returned mode_read"
    using assms p by (auto simp: count_process_def outcome_bind_Returned)
  show ?thesis
  proof (cases mode_read)
    case None
    with assms p m have "io' = io1" by (auto simp: count_process_def)
    with f1 show ?thesis by simp
  next
    case (Some mode)
    let ?c = "c\<lparr>ct_mode := Some mode\<rparr>"
    obtain b1 w1 p1 io2 where fl: "repeat_flush R (ct_out c) (budget_left ctx) 0 (ct_pending_reports c) io1 = (b1, w1, p1, io2)"
      by (metis prod.exhaust)
    obtain io3 stop where sg: "check_signals R text_or_utf8 io2 = (io3, stop)" by fastforce
    let ?c1 = "?c\<lparr>ct_pending_reports := p1\<rparr>"
    note f = f1 fifo_repeat_flush [OF fl] fifo_check_signals [OF sg]
    show ?thesis
    proof (cases stop)
      case True
      obtain c4 io4 where e: "emit_final_count R mode (?c1, io3) = (c4, io4)" by fastforce
      with True assms p m Some fl sg have "io' = io4" by (auto simp: count_process_def Let_def)
      with f fifo_emit [OF e] show ?thesis by (metis fifo_trans)
    next
      case False
      with assms p m Some fl sg obtain st b2 w2 c4 io4 where
        lp: "count_loop R L chk mode b1 w1 (?c1, io3) = Returned (st, b2, w2, c4, io4)"
        by (cases "count_loop R L chk mode b1 w1 (?c1, io3)") (auto simp: count_process_def Let_def)
      obtain c5 io5 r5 where e: "count_finish R mode w2 (c4, io4) = ((c5, io5), r5)" by (metis prod.exhaust)
      from False assms p m Some fl sg lp e have "io' = (if st then io4 else io5)"
        by (auto simp: count_process_def Let_def)
      with f fifo_count_loop [OF lp] fifo_count_finish [OF e] show ?thesis by (metis fifo_trans)
    qed
  qed
qed

lemma fifo_delay_release:
  "delay_release chk R out t b w ps io = Returned (b', w', ps', io', wk) \<Longrightarrow> fifo held io io'"
  by (induction ps arbitrary: b w io)
    (auto split: if_splits prod.splits bool.splits outcome.splits dest!: fifo_calls, (metis fifo_trans)+)

lemma fifo_release_due:
  "release_due chk R out fired b w ps io = Returned (b', w', ps', io', wk) \<Longrightarrow> fifo held io io'"
  by (auto simp: release_due_def split: option.splits dest!: fifo_delay_release)

lemma fifo_delay_loop:
  "delay_loop chk R c delay b fired st = Returned (stop, st') \<Longrightarrow> fifo held (ds_io st) (ds_io st')"
proof (induction "(if fired = None then 0 else 2 ^ 32) + unat b" arbitrary: b fired st rule: less_induct)
  case less
  obtain io1 sg where s: "check_signals R text_or_utf8 (ds_io st) = (io1, sg)" by fastforce
  show ?case
  proof (cases "b = 0 \<or> sg")
    case True
    with less.prems s fifo_check_signals [OF s] show ?thesis
      by (auto simp: delay_loop.simps [of chk R c delay b] split: if_splits)
  next
    case False
    with less.prems s obtain b1 w1 p1 io2 wk where
      r: "release_due chk R (dl_out c) fired b (ds_work st) (ds_pending st) io1 = Returned (b1, w1, p1, io2, wk)"
      by (auto simp: delay_loop.simps [of chk R c delay b] split: outcome.splits)
    let ?st = "st\<lparr>ds_work := w1, ds_pending := p1, ds_wake := woken wk (ds_wake st)\<rparr>"
    obtain io3 got where g: "pop R (dl_inn c) io2 = (io3, got)" by fastforce
    note f = fifo_check_signals [OF s] fifo_release_due [OF r] fifo_pop [OF g]
    show ?thesis
    proof (cases got)
      case None
      with less.prems False s r g have "ds_io st' = io3"
        by (auto simp: delay_loop.simps [of chk R c delay b] Let_def)
      with f show ?thesis by (metis fifo_trans)
    next
      case (Some ip)
      obtain io4 now where n: "time_now R io3 = (io4, now)" by fastforce
      from less.prems False s r g Some n obtain b2 where b2: "checked_dec chk b1 = Returned b2"
        and rec: "delay_loop chk R c delay b2 None (?st\<lparr>ds_work := w1 + 1,
          ds_pending := p1 @ [\<lparr>dp_data = ip, dp_ready_time = now + delay\<rparr>], ds_io := io4\<rparr>) = Returned (stop, st')"
        by (auto simp: delay_loop.simps [of chk R c delay b] Let_def split: outcome.splits)
      have "unat b2 < (if fired = None then 0 else 2 ^ 32) + unat b"
      proof (cases fired)
        case None
        with r b2 False show ?thesis
          by (auto simp: release_due_def checked_dec_def unat_minus_one unat_gt_0 split: if_splits)
      next
        case (Some t)
        have "unat b2 < 2 ^ 32" by (rule order_less_le_trans [OF unsigned_less]) simp
        with Some show ?thesis by simp
      qed
      from less.hyps [OF _ rec] this have "fifo held io4 (ds_io st')" by simp
      with f fifo_time_now [OF n] show ?thesis by (metis fifo_trans)
    qed
  qed
qed

lemma fifo_delay_process:
  assumes "delay_process chk R F (c, io) ctx = Returned ((c', io'), ctx', r)"
  shows "fifo held io io'"
proof -
  from assms obtain io1 delay where d: "delay_configure R F c io = Returned (io1, delay)"
    by (auto simp: delay_process_def outcome_bind_Returned)
  then have f1: "fifo held io io1"
    by (auto simp: delay_configure_def split: option.splits prod.splits dest!: fifo_pop)
  obtain io2 stop where s: "check_signals R text_or_utf8 io1 = (io2, stop)" by fastforce
  show ?thesis
  proof (cases stop)
    case True
    with assms d s have "io' = io2" by (simp add: delay_process_def Let_def)
    with f1 fifo_check_signals [OF s] show ?thesis by (metis fifo_trans)
  next
    case False
    let ?st = "\<lparr>ds_budget = remaining_budget ctx, ds_work = 0, ds_fired = timer_fired_at ctx,
      ds_wake = ctx_wake_at ctx, ds_pending = dl_pending_packets c, ds_io = io2\<rparr>"
    let ?c = "c\<lparr>dl_delay := Some delay\<rparr>"
    from assms d s False obtain st st' where
      l: "delay_loop chk R ?c delay (remaining_budget ctx) (timer_fired_at ctx) ?st = Returned (st, st')"
      by (auto simp: delay_process_def Let_def outcome_bind_Returned)
    obtain io3 ab where ab: "is_abandoned R (dl_inn c) (ds_io st') = (io3, ab)" by fastforce
    from assms d s False l ab have "io' = (if st then ds_io st' else io3)"
      by (auto simp: delay_process_def Let_def split: list.splits)
    with f1 fifo_check_signals [OF s] fifo_delay_loop [OF l] fifo_is_abandoned [OF ab] show ?thesis
      by (cases st) (simp_all, (metis fifo_trans)+)
  qed
qed

end

end
