(* ===== verification/Codecs.thy ===== *)
theory Codecs
  imports Relays
begin

text \<open>
  The components that compress and decompress their packets: \<open>XzCompress\<close>, \<open>XzDecompress\<close>,
  \<open>BrotliCompress\<close> and \<open>BrotliDecompress\<close> (\<open>components/xz\<close>, \<open>components/brotli\<close>). The four have one
  shape: they read the bytes of a packet, run them through the stream of a package, and send the result
  or keep it for later. The packages are arguments: a stream takes some of the bytes it is given, and
  has an output at its end.
\<close>

section \<open>Streams\<close>

record codec =
  write_some :: "u8 list \<Rightarrow> nat option"
  end_stream :: "u8 list \<Rightarrow> u8 list option"

record codec_libs =
  xz_encoder :: "nat \<Rightarrow> codec"
  xz_decoder :: codec
  brotli_compressor :: "nat \<Rightarrow> nat \<Rightarrow> nat \<Rightarrow> codec"
  brotli_decompressor :: "nat \<Rightarrow> codec"

definition COMPRESSION_LEVEL :: nat where
  "COMPRESSION_LEVEL = 9"

definition BROTLI_BUFFER_SIZE :: nat where
  "BROTLI_BUFFER_SIZE = 4096"

definition BROTLI_QUALITY :: nat where
  "BROTLI_QUALITY = 9"

definition BROTLI_LG_WINDOW_SIZE :: nat where
  "BROTLI_LG_WINDOW_SIZE = 22"

text \<open>
  One packet: \<open>write\<close> may take fewer bytes than it is given, and the code does not look at how many it
  took. A packet without bytes, such as a text, counts as empty.
\<close>

definition recode :: "codec \<Rightarrow> string \<Rightarrow> string \<Rightarrow> MessageBuf \<Rightarrow> MessageBuf outcome" where
  "recode L write_failed end_failed ip =
     (let input = (case as_bytes ip of Some bytes \<Rightarrow> bytes | None \<Rightarrow> []) in
      case write_some L input of
        None \<Rightarrow> Panicked write_failed
      | Some n \<Rightarrow>
          (case end_stream L (take n input) of
             None \<Rightarrow> Panicked end_failed
           | Some vec_out \<Rightarrow> Returned (from_bytes vec_out)))"

definition xz_compressed :: "codec_libs \<Rightarrow> MessageBuf \<Rightarrow> MessageBuf outcome" where
  "xz_compressed L =
     recode (xz_encoder L COMPRESSION_LEVEL) ''failed to write into encoder'' ''failed to finish encoding''"

definition xz_decompressed :: "codec_libs \<Rightarrow> MessageBuf \<Rightarrow> MessageBuf outcome" where
  "xz_decompressed L = recode (xz_decoder L) ''failed to write into decoder'' ''failed to finish decoding''"

definition brotli_compressed :: "codec_libs \<Rightarrow> MessageBuf \<Rightarrow> MessageBuf outcome" where
  "brotli_compressed L =
     recode (brotli_compressor L BROTLI_BUFFER_SIZE BROTLI_QUALITY BROTLI_LG_WINDOW_SIZE)
       ''failed to write into compressor'' ''failed to flush compressor into output buffer''"

definition brotli_decompressed :: "codec_libs \<Rightarrow> MessageBuf \<Rightarrow> MessageBuf outcome" where
  "brotli_decompressed L =
     recode (brotli_decompressor L BROTLI_BUFFER_SIZE)
       ''failed to write into decompressor'' ''failed to flush decompressor into output buffer''"

section \<open>The component\<close>

record CodecComponent =
  cc_inn :: nat
  cc_out :: ProcessEdgeSink
  cc_pending_packets :: "MessageBuf list"

type_synonym XzCompressComponent = CodecComponent
type_synonym XzDecompressComponent = CodecComponent
type_synonym BrotliCompressComponent = CodecComponent
type_synonym BrotliDecompressComponent = CodecComponent

definition Codec_new :: "nat multimap \<Rightarrow> ProcessEdgeSink multimap \<Rightarrow> CodecComponent outcome" where
  "Codec_new inports outports =
     outcome_bind (take_last ''IN'' ''found no IN inport'' inports) (\<lambda>(_, inn).
     outcome_bind (take_last ''OUT'' ''found no OUT outport'' outports) (\<lambda>(_, out).
       Returned \<lparr>cc_inn = inn, cc_out = out, cc_pending_packets = []\<rparr>))"

definition XzCompress_new :: "nat multimap \<Rightarrow> ProcessEdgeSink multimap \<Rightarrow> XzCompressComponent outcome" where
  "XzCompress_new = Codec_new"

definition XzDecompress_new :: "nat multimap \<Rightarrow> ProcessEdgeSink multimap \<Rightarrow> XzDecompressComponent outcome" where
  "XzDecompress_new = Codec_new"

definition BrotliCompress_new :: "nat multimap \<Rightarrow> ProcessEdgeSink multimap \<Rightarrow> BrotliCompressComponent outcome" where
  "BrotliCompress_new = Codec_new"

definition BrotliDecompress_new :: "nat multimap \<Rightarrow> ProcessEdgeSink multimap \<Rightarrow> BrotliDecompressComponent outcome" where
  "BrotliDecompress_new = Codec_new"

text \<open>The loop over IN, with whether it was left by a stop signal; a result that OUT does not take is kept.\<close>

fun codec_loop ::
    "'q ring_ops \<Rightarrow> (MessageBuf \<Rightarrow> MessageBuf outcome) \<Rightarrow> CodecComponent \<Rightarrow> nat \<Rightarrow> nat \<Rightarrow> MessageBuf list \<Rightarrow>
     'q node_io \<Rightarrow> (bool \<times> nat \<times> nat \<times> MessageBuf list \<times> 'q node_io) outcome" where
  "codec_loop R coded c 0 w pending io = Returned (False, 0, w, pending, io)"
| "codec_loop R coded c (Suc b) w pending io =
     (case check_signals R text_or_utf8 io of
        (io1, True) \<Rightarrow> Returned (True, Suc b, w, pending, io1)
      | (io1, False) \<Rightarrow>
          (case pop R (cc_inn c) io1 of
             (io2, None) \<Rightarrow> Returned (False, Suc b, w, pending, io2)
           | (io2, Some ip) \<Rightarrow>
               (case coded ip of
                  Panicked msg \<Rightarrow> Panicked msg
                | Returned output_msg \<Rightarrow>
                    (case push R output_msg (cc_out c) io2 of
                       (io3, True) \<Rightarrow> codec_loop R coded c b (w + 1) pending io3
                     | (io3, False) \<Rightarrow> codec_loop R coded c b (w + 1) (pending @ [output_msg]) io3))))"

text \<open>
  \<open>process()\<close>. The components of \<open>xz\<close> finish at the end of their input when nothing is pending
  (\<open>drains\<close>), those of \<open>brotli\<close> whatever is pending.
\<close>

definition codec_process ::
    "'q ring_ops \<Rightarrow> (MessageBuf \<Rightarrow> MessageBuf outcome) \<Rightarrow> bool \<Rightarrow> CodecComponent \<times> 'q node_io \<Rightarrow> NodeContext \<Rightarrow>
     ((CodecComponent \<times> 'q node_io) \<times> NodeContext \<times> ProcessResult) outcome" where
  "codec_process R coded drains s ctx =
     (case s of (c, io) \<Rightarrow>
        (case check_signals R text_or_utf8 io of
           (io1, True) \<Rightarrow> Returned ((c, io1), ctx, Finished)
         | (io1, False) \<Rightarrow>
             (case repeat_flush R (cc_out c) (budget_left ctx) 0 (cc_pending_packets c) io1 of
                (b1, w1, p1, io2) \<Rightarrow>
                  outcome_bind (codec_loop R coded c b1 w1 p1 io2)
                    (\<lambda>(stopped, b2, w2, p2, io3).
                       let c2 = c\<lparr>cc_pending_packets := p2\<rparr>; ctx2 = with_budget b2 ctx in
                       if stopped then Returned ((c2, io3), ctx2, Finished)
                       else
                         (let (io4, abandoned) = is_abandoned R (cc_inn c) io3 in
                          Returned ((c2, io4), ctx2,
                            if abandoned \<and> (drains \<longrightarrow> p2 = []) then Finished else work_result w2))))))"

definition XzCompress_process ::
    "'q ring_ops \<Rightarrow> codec_libs \<Rightarrow> XzCompressComponent \<times> 'q node_io \<Rightarrow> NodeContext \<Rightarrow>
     ((XzCompressComponent \<times> 'q node_io) \<times> NodeContext \<times> ProcessResult) outcome" where
  "XzCompress_process R L = codec_process R (xz_compressed L) True"

definition XzDecompress_process ::
    "'q ring_ops \<Rightarrow> codec_libs \<Rightarrow> XzDecompressComponent \<times> 'q node_io \<Rightarrow> NodeContext \<Rightarrow>
     ((XzDecompressComponent \<times> 'q node_io) \<times> NodeContext \<times> ProcessResult) outcome" where
  "XzDecompress_process R L = codec_process R (xz_decompressed L) True"

definition BrotliCompress_process ::
    "'q ring_ops \<Rightarrow> codec_libs \<Rightarrow> BrotliCompressComponent \<times> 'q node_io \<Rightarrow> NodeContext \<Rightarrow>
     ((BrotliCompressComponent \<times> 'q node_io) \<times> NodeContext \<times> ProcessResult) outcome" where
  "BrotliCompress_process R L = codec_process R (brotli_compressed L) False"

definition BrotliDecompress_process ::
    "'q ring_ops \<Rightarrow> codec_libs \<Rightarrow> BrotliDecompressComponent \<times> 'q node_io \<Rightarrow> NodeContext \<Rightarrow>
     ((BrotliDecompressComponent \<times> 'q node_io) \<times> NodeContext \<times> ProcessResult) outcome" where
  "BrotliDecompress_process R L = codec_process R (brotli_decompressed L) False"

section \<open>Metadata\<close>

definition XzCompress_metadata :: ComponentComponentPayload where
  "XzCompress_metadata = metadata_default\<lparr>
     comp_name := ''XzCompress'',
     comp_description := ''Reads data IPs, compresses each using XZ (LZMA2) and sends the compressed data to the OUT port.'',
     comp_icon := ''compress'', subgraph := False,
     in_ports := [any_port ''IN'' False ''IPs to compress'' ''''],
     out_ports := [any_port ''OUT'' False ''compressed IPs'' '''']\<rparr>"

definition XzDecompress_metadata :: ComponentComponentPayload where
  "XzDecompress_metadata = metadata_default\<lparr>
     comp_name := ''XzDecompress'',
     comp_description := ''Reads IPs, applies XZ (LZMA2) decompression and forwards the decompressed data to OUT port.'',
     comp_icon := ''expand'', subgraph := False,
     in_ports := [any_port ''IN'' False ''compressed XZ data'' ''''],
     out_ports := [any_port ''OUT'' False ''decompressed data'' '''']\<rparr>"

definition BrotliCompress_metadata :: ComponentComponentPayload where
  "BrotliCompress_metadata = metadata_default\<lparr>
     comp_name := ''BrotliCompress'',
     comp_description := ''Reads data IPs, compresses each using Brotli and sends the compressed data to the OUT port.'',
     comp_icon := ''compress'', subgraph := False,
     in_ports := [any_port ''IN'' False ''IPs to compress'' ''''],
     out_ports := [any_port ''OUT'' False ''compressed IPs'' '''']\<rparr>"

definition BrotliDecompress_metadata :: ComponentComponentPayload where
  "BrotliDecompress_metadata = metadata_default\<lparr>
     comp_name := ''BrotliDecompress'',
     comp_description := ''Reads IPs, applies Brotli decompression and forwards the decompressed data to OUT port.'',
     comp_icon := ''expand'', subgraph := False,
     in_ports := [any_port ''IN'' False ''compressed Brotli data'' ''''],
     out_ports := [any_port ''OUT'' False ''decompressed data'' '''']\<rparr>"

end
