(* ===== verification/Stages.thy ===== *)
theory Stages
  imports Channels Codecs Text_Properties
begin

text \<open>
  Components that turn each packet into one packet: \<open>Repeat\<close>, \<open>Output\<close>, \<open>Trim\<close> and the four codecs. The
  locale \<open>stage\<close> states what such a component promises when no other thread touches its channels: what it
  sends and keeps are, in order, what it kept and the images of what it takes.
\<close>

section \<open>The contract\<close>

definition in_order ::
    "nat \<Rightarrow> nat \<Rightarrow> (MessageBuf \<Rightarrow> MessageBuf) \<Rightarrow> MessageBuf list \<Rightarrow> 'q node_io \<Rightarrow> MessageBuf list \<Rightarrow> 'q node_io \<Rightarrow> bool" where
  "in_order inn out f pending io pending' io' \<longleftrightarrow>
     (\<exists>taken sent. io_read io' = io_read io @ map (Pair inn) taken \<and>
        io_sent io' = io_sent io @ map (Pair out) sent \<and> sent @ pending' = pending @ map f taken)"

lemma in_order_refl: "quiet io io' \<Longrightarrow> in_order inn out f p io p io'"
  unfolding in_order_def quiet_def by (rule exI [of _ "[]"], rule exI [of _ "[]"]) simp

lemma in_order_trans:
  assumes "in_order inn out f p io p1 io1" "in_order inn out f p1 io1 p2 io2"
  shows "in_order inn out f p io p2 io2"
proof -
  from assms obtain t1 s1 t2 s2 where
    "io_read io1 = io_read io @ map (Pair inn) t1" "io_sent io1 = io_sent io @ map (Pair out) s1"
    "s1 @ p1 = p @ map f t1"
    "io_read io2 = io_read io1 @ map (Pair inn) t2" "io_sent io2 = io_sent io1 @ map (Pair out) s2"
    "s2 @ p2 = p1 @ map f t2"
    unfolding in_order_def by blast
  moreover from this have "(s1 @ s2) @ p2 = p @ map f (t1 @ t2)" by (metis append.assoc map_append)
  ultimately show ?thesis unfolding in_order_def by (intro exI [of _ "t1 @ t2"] exI [of _ "s1 @ s2"]) simp
qed

type_synonym ('s, 'q) stage_call =
  "'s \<times> 'q node_io \<Rightarrow> NodeContext \<Rightarrow> (('s \<times> 'q node_io) \<times> NodeContext \<times> ProcessResult) outcome"

locale stage = ring R cap held for R :: "'q ring_ops" and cap held +
  fixes call :: "('s, 'q) stage_call"
    and inn out :: "'s \<Rightarrow> nat"
    and kept :: "'s \<Rightarrow> MessageBuf list"
    and image :: "'s \<Rightarrow> MessageBuf \<Rightarrow> MessageBuf"
  assumes same_ports: "call (c, io) ctx = Returned ((c', io'), ctx', r) \<Longrightarrow>
      inn c' = inn c \<and> out c' = out c \<and> image c' = image c"
    and ordered: "call (c, io) ctx = Returned ((c', io'), ctx', r) \<Longrightarrow> inn c \<noteq> out c \<Longrightarrow> io_external io = [] \<Longrightarrow>
      in_order (inn c) (out c) (image c) (kept c) io (kept c') io'"
    and queued: "call (c, io) ctx = Returned ((c', io'), ctx', r) \<Longrightarrow> fifo held io io'"
begin

text \<open>A call moves packets from the front of its input to the end of its output, and touches nothing else.\<close>

lemma moves:
  assumes "call (c, io) ctx = Returned ((c', io'), ctx', r)" "inn c \<noteq> out c" "io_external io = []"
  obtains taken sent where
    "held (io_channels io (inn c)) = taken @ held (io_channels io' (inn c))"
    "held (io_channels io' (out c)) = held (io_channels io (out c)) @ sent"
    "\<And>d. d \<noteq> inn c \<Longrightarrow> d \<noteq> out c \<Longrightarrow> held (io_channels io' d) = held (io_channels io d)"
    "sent @ kept c' = kept c @ map (image c) taken" "io_external io' = []"
proof -
  from ordered [OF assms] obtain taken sent where l: "io_read io' = io_read io @ map (Pair (inn c)) taken"
    "io_sent io' = io_sent io @ map (Pair (out c)) sent" "sent @ kept c' = kept c @ map (image c) taken"
    by (auto simp: in_order_def)
  from queued [OF assms(1)] assms(3) l(1,2) have q: "io_external io' = []"
    "\<And>d. of_channel d (map (Pair (inn c)) taken) @ held (io_channels io' d) =
      held (io_channels io d) @ of_channel d (map (Pair (out c)) sent)"
    by (auto simp: fifo_def)
  have "held (io_channels io' d) = held (io_channels io d)" if "d \<noteq> inn c" "d \<noteq> out c" for d
    using q(2) [of d] that by simp
  then show thesis
    using q(2) [of "inn c"] q(2) [of "out c"] q(1) l(3) assms(2)
    by (intro that [of taken sent]) (simp_all split: if_splits)
qed

end

section \<open>Loops that keep what does not fit\<close>

text \<open>The shape of the loops of \<open>Output\<close> and the codecs: a step that sends, or keeps and goes on.\<close>

definition trimmed :: "MessageBuf \<Rightarrow> MessageBuf" where
  "trimmed m = (case as_text m of Some t \<Rightarrow> from_str (str_trim t) | None \<Rightarrow> m)"

context ring begin

lemma alone_not_others [simp]: "io_external io = [] \<Longrightarrow> \<not> others_take c io"
  by (simp add: others_take_def)

text \<open>One round: a signal is looked at, a packet taken, and its image sent, or kept behind what is kept.\<close>

lemma keep_round:
  assumes "check_signals R read io = (io1, stop)" "pop R inn io1 = (io2, Some ip)"
    and "io_external io3 = io_external io2" "io_channels io3 = io_channels io2" "quiet io2 io3"
    and "push R (f ip) out io3 = (io4, ok)"
    and "io_external io = []" "inn \<noteq> sk_sink out" "p = [] \<or> stuck cap held (sk_sink out) io"
  shows "in_order inn (sk_sink out) f p io (if ok then p else p @ [f ip]) io4"
    and "(if ok then p else p @ [f ip]) = [] \<or> stuck cap held (sk_sink out) io4"
    and "io_external io4 = []"
proof -
  note s = assms(1) and g = assms(2) and ps = assms(6)
  have e: "io_external io1 = []" "io_external io2 = []"
    using fifo_alone [OF assms(7) fifo_check_signals [OF s]] fifo_alone [OF _ fifo_pop [OF g]] by auto
  then show "io_external io4 = []" using fifo_alone [OF _ fifo_push [OF ps]] assms(3) by simp
  have full: "stuck cap held (sk_sink out) io3" if "p \<noteq> []"
    using that assms(8,9) stuck_pop [OF stuck_signals [OF _ s] g] assms(3,4) by (auto simp: stuck_def)
  have blocked: "\<not> ok \<and> stuck cap held (sk_sink out) io4" if "p \<noteq> []"
    using stuck_push [OF full [OF that], of "f ip"] ps by auto
  show "in_order inn (sk_sink out) f p io (if ok then p else p @ [f ip]) io4"
    unfolding in_order_def
    using check_signals_quiet [OF s] pop_logs [OF g] assms(5) push_logs [OF ps] blocked
    by (intro exI [of _ "[ip]"] exI [of _ "if ok then [f ip] else []"]) (auto simp: quiet_def)
  show "(if ok then p else p @ [f ip]) = [] \<or> stuck cap held (sk_sink out) io4"
    using blocked push_gets_stuck [of "f ip" out io3 io4] ps e(2) assms(3) by (cases ok) auto
qed

lemma fifo_codec_loop: "codec_loop R coded c b w p io = Returned (s, b', w', p', io') \<Longrightarrow> fifo held io io'"
  by (induction b arbitrary: w p io)
    (auto split: prod.splits bool.splits option.splits outcome.splits dest!: fifo_calls, (metis fifo_trans)+)

lemma codec_loop_order:
  assumes "codec_loop R coded c b w p io = Returned (st, b', w', p', io')"
    and "io_external io = []" "cc_inn c \<noteq> sk_sink (cc_out c)"
    and "p = [] \<or> stuck cap held (sk_sink (cc_out c)) io"
    and f: "\<And>m x. coded m = Returned x \<Longrightarrow> f m = x"
  shows "in_order (cc_inn c) (sk_sink (cc_out c)) f p io p' io'"
  using assms(1-4)
proof (induction b arbitrary: w p io)
  case (Suc b)
  obtain io1 stop where s: "check_signals R text_or_utf8 io = (io1, stop)" by fastforce
  obtain io2 got where g: "pop R (cc_inn c) io1 = (io2, got)" by fastforce
  show ?case
  proof (cases "stop \<or> got = None")
    case True
    with Suc.prems(1) s g check_signals_quiet [OF s] pop_logs [OF g] have "p' = p" "quiet io io'"
      by (auto simp: quiet_def split: bool.splits)
    then show ?thesis by (simp add: in_order_refl)
  next
    case False
    with Suc.prems(1) s g obtain ip m where "\<not> stop" "got = Some ip" "coded ip = Returned m"
      by (auto split: outcome.splits)
    with f [of ip m] have ip: "\<not> stop" "got = Some ip" "coded ip = Returned (f ip)" by simp_all
    obtain io3 ok where ps: "push R (f ip) (cc_out c) io2 = (io3, ok)" by fastforce
    note r = keep_round [where f = f, OF s g [unfolded ip(2)] refl refl quiet_refl ps Suc.prems(2-4)]
    have "codec_loop R coded c b (w + 1) (if ok then p else p @ [f ip]) io3 = Returned (st, b', w', p', io')"
      using Suc.prems(1) s g ip ps by (cases ok) simp_all
    from in_order_trans [OF r(1) Suc.IH [OF this r(3) Suc.prems(3) r(2)]] show ?thesis .
  qed
qed (auto intro: in_order_refl)

lemma output_loop_order:
  assumes "output_loop R c b w p io = (st, b', w', p', io')"
    and "io_external io = []" "ou_inn c \<noteq> sk_sink (ou_out c)"
    and "p = [] \<or> stuck cap held (sk_sink (ou_out c)) io"
  shows "in_order (ou_inn c) (sk_sink (ou_out c)) id p io p' io'"
  using assms
proof (induction b arbitrary: w p io)
  case (Suc b)
  obtain io1 stop where s: "check_signals R output_text io = (io1, stop)" by fastforce
  obtain io2 got where g: "pop R (ou_inn c) io1 = (io2, got)" by fastforce
  show ?case
  proof (cases "stop \<or> got = None")
    case True
    with Suc.prems(1) s g check_signals_quiet [OF s] pop_logs [OF g] have "p' = p" "quiet io io'"
      by (auto simp: quiet_def split: bool.splits)
    then show ?thesis by (simp add: in_order_refl)
  next
    case False
    then obtain ip where ip: "\<not> stop" "got = Some ip" by auto
    obtain io3 ok where ps: "push R (id ip) (ou_out c) (print_packet ip io2) = (io3, ok)" by fastforce
    have pr: "io_external (print_packet ip io2) = io_external io2"
      "io_channels (print_packet ip io2) = io_channels io2" "quiet io2 (print_packet ip io2)"
      by (simp_all add: print_packet_def println_def quiet_def split: option.split)
    note r = keep_round [where f = id, OF s g [unfolded ip(2)] pr ps Suc.prems(2-4)]
    have "output_loop R c b (w + 1) (if ok then p else p @ [id ip]) io3 = (st, b', w', p', io')"
      using Suc.prems(1) s g ip ps by (cases ok) simp_all
    from in_order_trans [OF r(1) Suc.IH [OF this r(3) Suc.prems(3) r(2)]] show ?thesis .
  qed
qed (auto intro: in_order_refl)

lemma flush_order:
  assumes "repeat_flush R out b w p io = (b', w', p', io')" "io_external io = []"
  shows "in_order inn (sk_sink out) f p io p' io'" and "io_external io' = []"
    and "b' \<noteq> 0 \<Longrightarrow> p' = [] \<or> stuck cap held (sk_sink out) io'"
proof -
  from repeat_flush_logs [OF assms(1)] obtain ss where "p = ss @ p'" "io_read io' = io_read io"
    "io_sent io' = io_sent io @ map (Pair (sk_sink out)) ss" by blast
  then show "in_order inn (sk_sink out) f p io p' io'"
    unfolding in_order_def by - (rule exI [of _ "[]"], rule exI [of _ ss], simp)
  show "io_external io' = []" using fifo_alone [OF assms(2) fifo_repeat_flush [OF assms(1)]] .
  show "p' = [] \<or> stuck cap held (sk_sink out) io'" if "b' \<noteq> 0"
    using flush_gets_stuck [OF assms(1)] that assms(2) by auto
qed

lemma in_order_quiet: "quiet io io1 \<Longrightarrow> in_order inn out f p io1 p' io' \<Longrightarrow> in_order inn out f p io p' io'"
  by (simp add: in_order_def quiet_def)

lemma in_order_then_quiet: "in_order inn out f p io p' io1 \<Longrightarrow> quiet io1 io' \<Longrightarrow> in_order inn out f p io p' io'"
  by (simp add: in_order_def quiet_def)

lemma codec_process_ports:
  "codec_process R coded drains (c, io) ctx = Returned ((c', io'), ctx', r) \<Longrightarrow>
   cc_inn c' = cc_inn c \<and> cc_out c' = cc_out c"
  by (auto simp: codec_process_def Let_def outcome_bind_Returned split: prod.splits bool.splits if_splits)

lemma fifo_codec_process:
  "codec_process R coded drains (c, io) ctx = Returned ((c', io'), ctx', r) \<Longrightarrow> fifo held io io'"
  by (auto simp: codec_process_def Let_def outcome_bind_Returned split: prod.splits bool.splits if_splits
      dest!: fifo_calls fifo_repeat_flush fifo_codec_loop, (metis fifo_trans)+)

lemma codec_process_order:
  assumes "codec_process R coded drains (c, io) ctx = Returned ((c', io'), ctx', r)"
    and "io_external io = []" "cc_inn c \<noteq> sk_sink (cc_out c)"
    and f: "\<And>m x. coded m = Returned x \<Longrightarrow> f m = x"
  shows "in_order (cc_inn c) (sk_sink (cc_out c)) f (cc_pending_packets c) io (cc_pending_packets c') io'"
proof -
  obtain io1 stop where s: "check_signals R text_or_utf8 io = (io1, stop)" by fastforce
  note q = check_signals_quiet [OF s]
  show ?thesis
  proof (cases stop)
    case True
    with assms(1) s q show ?thesis by (auto simp: codec_process_def in_order_refl)
  next
    case False
    obtain b1 w1 p1 io2 where fl:
      "repeat_flush R (cc_out c) (budget_left ctx) 0 (cc_pending_packets c) io1 = (b1, w1, p1, io2)"
      by (metis prod.exhaust)
    have e1: "io_external io1 = []" using fifo_alone [OF assms(2) fifo_check_signals [OF s]] .
    note fo = flush_order [OF fl e1]
    from assms(1) s False fl obtain st b2 w2 p2 io3 where
      l: "codec_loop R coded c b1 w1 p1 io2 = Returned (st, b2, w2, p2, io3)"
      by (cases "codec_loop R coded c b1 w1 p1 io2") (auto simp: codec_process_def)
    obtain io4 ab where ab: "is_abandoned R (cc_inn c) io3 = (io4, ab)" by fastforce
    from assms(1) s False fl l ab have c': "c' = c\<lparr>cc_pending_packets := p2\<rparr>" "quiet io3 io'"
      using is_abandoned_quiet [OF ab] by (auto simp: codec_process_def Let_def split: if_splits)
    have "in_order (cc_inn c) (sk_sink (cc_out c)) f p1 io2 p2 io3"
    proof (cases "b1 = 0")
      case True
      with l show ?thesis by (auto intro: in_order_refl)
    next
      case False
      with codec_loop_order [OF l fo(2) assms(3) fo(3) f] show ?thesis by simp
    qed
    from in_order_then_quiet [OF in_order_quiet [OF q in_order_trans [OF fo(1) this]] c'(2)] c'(1)
    show ?thesis by simp
  qed
qed

lemma output_process_order:
  assumes "output_process R (c, io) ctx = ((c', io'), ctx', r)"
    and "io_external io = []" "ou_inn c \<noteq> sk_sink (ou_out c)"
  shows "in_order (ou_inn c) (sk_sink (ou_out c)) id (ou_pending_packets c) io (ou_pending_packets c') io'"
proof -
  obtain io1 stop where s: "check_signals R output_text io = (io1, stop)" by fastforce
  note q = check_signals_quiet [OF s]
  show ?thesis
  proof (cases stop)
    case True
    with assms(1) s q show ?thesis by (auto simp: output_process_def in_order_refl)
  next
    case False
    obtain b1 w1 p1 io2 where fl:
      "repeat_flush R (ou_out c) (budget_left ctx) 0 (ou_pending_packets c) io1 = (b1, w1, p1, io2)"
      by (metis prod.exhaust)
    have e1: "io_external io1 = []" using fifo_alone [OF assms(2) fifo_check_signals [OF s]] .
    note fo = flush_order [OF fl e1]
    obtain st b2 w2 p2 io3 where l: "output_loop R c b1 w1 p1 io2 = (st, b2, w2, p2, io3)" by (metis prod.exhaust)
    obtain io4 ab where ab: "is_abandoned R (ou_inn c) io3 = (io4, ab)" by fastforce
    from assms(1) s False fl l ab have c': "c' = c\<lparr>ou_pending_packets := p2\<rparr>" "quiet io3 io'"
      using is_abandoned_quiet [OF ab] by (auto simp: output_process_def Let_def split: if_splits)
    have "in_order (ou_inn c) (sk_sink (ou_out c)) id p1 io2 p2 io3"
    proof (cases "b1 = 0")
      case True
      with l show ?thesis by (auto intro: in_order_refl)
    next
      case False
      with output_loop_order [OF l fo(2) assms(3) fo(3)] show ?thesis by simp
    qed
    from in_order_then_quiet [OF in_order_quiet [OF q in_order_trans [OF fo(1) this]] c'(2)] c'(1)
    show ?thesis by simp
  qed
qed

lemma trim_when_stuck:
  assumes "trim_loop R inn out b w p io = Returned (st, b', w', p', io')"
    and "stuck cap held (sk_sink out) io" and "inn \<noteq> sk_sink out"
  shows "io_sent io' = io_sent io"
proof (cases b)
  case (Suc b1)
  obtain io1 stop where s: "check_signals R text_only io = (io1, stop)" by fastforce
  obtain io2 got where g: "pop R inn io1 = (io2, got)" by fastforce
  have "stuck cap held (sk_sink out) io2"
    by (rule stuck_pop [OF stuck_signals [OF assms(2) s] g assms(3)])
  then obtain io3 where "push R (from_str (str_trim (the (as_text (the got))))) out io2 = (io3, False)"
    using stuck_push by blast
  with assms(1) Suc s g check_signals_quiet [OF s] pop_logs [OF g] push_logs [OF this] show ?thesis
    by (auto simp: quiet_def split: bool.splits option.splits)
qed (use assms(1) in simp)

lemma trim_process_order:
  assumes "trim_process R (c, io) ctx = Returned ((c', io'), ctx', r)"
    and "io_external io = []" "tr_inn c \<noteq> sk_sink (tr_out c)"
  shows "in_order (tr_inn c) (sk_sink (tr_out c)) trimmed (tr_pending_out c) io (tr_pending_out c') io'"
proof -
  obtain b1 w1 p1 io1 where fl:
    "repeat_flush R (tr_out c) (budget_left ctx) 0 (tr_pending_out c) io = (b1, w1, p1, io1)"
    by (metis prod.exhaust)
  note fo = flush_order [OF fl assms(2)]
  obtain io2 stop where s: "check_signals R text_only io1 = (io2, stop)" by fastforce
  note q = check_signals_quiet [OF s]
  show ?thesis
  proof (cases stop)
    case True
    with assms(1) s fl have "c' = c\<lparr>tr_pending_out := p1\<rparr>" "io' = io2" by (auto simp: trim_process_def)
    with in_order_then_quiet [OF fo(1) q] show ?thesis by simp
  next
    case False
    from assms(1) s False fl obtain st b2 w2 p2 io3 where
      l: "trim_loop R (tr_inn c) (tr_out c) b1 w1 p1 io2 = Returned (st, b2, w2, p2, io3)"
      by (cases "trim_loop R (tr_inn c) (tr_out c) b1 w1 p1 io2") (auto simp: trim_process_def)
    obtain io4 ab where ab: "is_abandoned R (tr_inn c) io3 = (io4, ab)" by fastforce
    from assms(1) s False fl l ab have c': "c' = c\<lparr>tr_pending_out := p2\<rparr>" "quiet io3 io'"
      using is_abandoned_quiet [OF ab] by (auto simp: trim_process_def Let_def split: if_splits)
    from trim_loop_logs [OF l] obtain texts ss "rest" where t: "p2 = p1 @ rest"
      "io_read io3 = io_read io2 @ map (\<lambda>t. (tr_inn c, MText t)) texts"
      "io_sent io3 = io_sent io2 @ map (Pair (sk_sink (tr_out c))) ss"
      "ss @ rest = map (\<lambda>t. MText (str_trim t)) texts" "b1 = b2 + length ss"
      by blast
    have "p1 = [] \<or> ss = []"
    proof (cases "b1 = 0")
      case False
      then have "p1 = [] \<or> stuck cap held (sk_sink (tr_out c)) io2"
        using fo(3) stuck_signals [OF _ s] by blast
      with trim_when_stuck [OF l _ assms(3)] t(3) show ?thesis by auto
    qed (use t(5) in simp)
    moreover obtain ms where ms: "ms = map MText texts" by simp
    moreover have "map trimmed ms = ss @ rest" "io_read io3 = io_read io2 @ map (Pair (tr_inn c)) ms"
      using t(2,4) by (simp_all add: ms trimmed_def as_text_def from_str_def comp_def)
    ultimately have "in_order (tr_inn c) (sk_sink (tr_out c)) trimmed p1 io2 p2 io3"
      unfolding in_order_def using t(1,3) by - (rule exI [of _ ms], rule exI [of _ ss], auto)
    from in_order_then_quiet [OF in_order_trans [OF in_order_then_quiet [OF fo(1) q] this] c'(2)] c'(1)
    show ?thesis by simp
  qed
qed

lemma repeat_process_order:
  assumes "repeat_process R (c, io) ctx = ((c', io'), ctx', r)"
    and "io_external io = []" "rp_inn c \<noteq> sk_sink (rp_out c)"
  shows "in_order (rp_inn c) (sk_sink (rp_out c)) id (rp_pending_out c) io (rp_pending_out c') io'"
  using repeat_process_keeps [OF assms(3,1)] assms(2) unfolding in_order_def by fastforce

end

end
