(* ===== verification/Pipelines.thy ===== *)
theory Pipelines
  imports Stages
begin

text \<open>
  Networks that are chains: components that turn packets into packets, each feeding the next, under any
  schedule. What has come out at the end, and what is still under way, are the images of what went in, in
  order. The chain may mix \<open>Repeat\<close>, \<open>Output\<close>, \<open>Trim\<close> and the codecs.
\<close>

section \<open>The components as stages\<close>







section \<open>Chains\<close>

datatype pipe_node =
    RepeatNode RepeatComponent
  | OutputNode OutputComponent
  | TrimNode TrimComponent
  | XzCompressNode XzCompressComponent
  | XzDecompressNode XzDecompressComponent
  | BrotliCompressNode BrotliCompressComponent
  | BrotliDecompressNode BrotliDecompressComponent


primrec node_out :: "pipe_node \<Rightarrow> nat" where
  "node_out (RepeatNode c) = sk_sink (rp_out c)"
| "node_out (OutputNode c) = sk_sink (ou_out c)"
| "node_out (TrimNode c) = sk_sink (tr_out c)"
| "node_out (XzCompressNode c) = sk_sink (cc_out c)"
| "node_out (XzDecompressNode c) = sk_sink (cc_out c)"
| "node_out (BrotliCompressNode c) = sk_sink (cc_out c)"
| "node_out (BrotliDecompressNode c) = sk_sink (cc_out c)"



definition as_node ::
    "('c \<Rightarrow> pipe_node) \<Rightarrow> (('c \<times> 'q node_io) \<times> NodeContext \<times> ProcessResult) outcome \<Rightarrow>
     ((pipe_node \<times> 'q node_io) \<times> NodeContext \<times> ProcessResult) outcome" where
  "as_node N r = outcome_bind r (\<lambda>((c, io), rest). Returned ((N c, io), rest))"

text \<open>A call of \<open>process()\<close> on the component of a node.\<close>

fun pipe_call :: "'q ring_ops \<Rightarrow> codec_libs \<Rightarrow> (pipe_node, 'q) stage_call" where
  "pipe_call R L (RepeatNode c, io) ctx = as_node RepeatNode (Returned (repeat_process R (c, io) ctx))"
| "pipe_call R L (OutputNode c, io) ctx = as_node OutputNode (Returned (output_process R (c, io) ctx))"
| "pipe_call R L (TrimNode c, io) ctx = as_node TrimNode (trim_process R (c, io) ctx)"
| "pipe_call R L (XzCompressNode c, io) ctx = as_node XzCompressNode (XzCompress_process R L (c, io) ctx)"
| "pipe_call R L (XzDecompressNode c, io) ctx = as_node XzDecompressNode (XzDecompress_process R L (c, io) ctx)"
| "pipe_call R L (BrotliCompressNode c, io) ctx =
     as_node BrotliCompressNode (BrotliCompress_process R L (c, io) ctx)"
| "pipe_call R L (BrotliDecompressNode c, io) ctx =
     as_node BrotliDecompressNode (BrotliDecompress_process R L (c, io) ctx)"




section \<open>Runs of a chain\<close>


definition separate :: "nat \<Rightarrow> pipe_node list \<Rightarrow> bool" where
  "separate c ns \<longleftrightarrow> distinct (c # map node_out ns)"

definition last_channel :: "nat \<Rightarrow> pipe_node list \<Rightarrow> nat" where
  "last_channel c ns = last (c # map node_out ns)"



text \<open>
  The steps of a chain: a call of a node's component with any context, a packet put in at the front or
  taken at the end, and anything that leaves the channels alone, such as a signal, the passing of time,
  or the end of a producer. The last two components record what went in and what came out.
\<close>

type_synonym 'q pipe_state = "pipe_node list \<times> 'q node_io \<times> MessageBuf list \<times> MessageBuf list"

inductive pipe_step :: "'q ring_ops \<Rightarrow> codec_libs \<Rightarrow> nat \<Rightarrow> 'q pipe_state \<Rightarrow> 'q pipe_state \<Rightarrow> bool"
  for R :: "'q ring_ops" and L :: codec_libs and c :: nat where
  pipe_turn: "i < length ns \<Longrightarrow> pipe_call R L (ns ! i, io) ctx = Returned ((n', io'), ctx', r) \<Longrightarrow>
    pipe_step R L c (ns, io, fed, got) (ns[i := n'], io', fed, got)"
| pipe_feed: "ring_push R m (io_channels io c) = Some q \<Longrightarrow>
    pipe_step R L c (ns, io, fed, got) (ns, io\<lparr>io_channels := (io_channels io)(c := q)\<rparr>, fed @ [m], got)"
| pipe_drain: "ring_pop R (io_channels io (last_channel c ns)) = Some (q, m) \<Longrightarrow>
    pipe_step R L c (ns, io, fed, got)
      (ns, io\<lparr>io_channels := (io_channels io)(last_channel c ns := q)\<rparr>, fed, got @ [m])"
| pipe_other: "io_channels io' = io_channels io \<Longrightarrow> io_external io' = [] \<Longrightarrow>
    pipe_step R L c (ns, io, fed, got) (ns, io', fed, got)"


lemma separate_simps [simp]:
  "separate c (n # ns) \<longleftrightarrow> c \<notin> node_out ` set (n # ns) \<and> separate (node_out n) ns"
  "separate c []"
  by (auto simp: separate_def)

lemma last_channel_simps [simp]:
  "last_channel c [] = c" "last_channel c (n # ns) = last_channel (node_out n) ns"
  by (simp_all add: last_channel_def)













section \<open>Compressing and decompressing\<close>








end
