(* ===== verification/Converters.thy ===== *)
theory Converters
  imports Relays Node_Turn
begin

text \<open>
  Small components: \<open>Hasher\<close>, \<open>Sexp\<close>, \<open>Visualization\<close>, \<open>LibComponent\<close> and \<open>Panic\<close> (\<open>components/hasher\<close>,
  \<open>sexp\<close>, \<open>vis\<close>, \<open>libcomponent\<close>, \<open>panic\<close>). The hash package and the function of a shared library are
  arguments. \<open>Sexp\<close>, \<open>Visualization\<close> and \<open>LibComponent\<close> set their own readiness flag when packets are left;
  their \<open>process()\<close> also returns that store.
\<close>

type_synonym ('s, 'q) flagged_process =
  "'s \<times> 'q node_io \<Rightarrow> NodeContext \<Rightarrow> ('s \<times> 'q node_io) \<times> NodeContext \<times> ProcessResult \<times> bool option"

definition flagged_call :: "('s, 'q) flagged_process \<Rightarrow> 's \<times> 'q node_io \<Rightarrow> NodeContext \<Rightarrow> ('s \<times> 'q node_io) process_call" where
  "flagged_call process s ctx =
     (case process s ctx of (s', ctx', r, flag) \<Rightarrow>
        \<lparr>pc_component = s', pc_context = ctx', pc_flag = flag, pc_result = Some r,
         pc_elapsed = io_clock (snd s') - io_clock (snd s), pc_now = io_clock (snd s')\<rparr>)"

text \<open>
  The end of \<open>process()\<close> in these components: finished at the end of the input, ready again when packets
  are left.
\<close>

definition flagged_end ::
    "'q ring_ops \<Rightarrow> nat \<Rightarrow> nat \<Rightarrow> 's \<times> 'q node_io \<Rightarrow> NodeContext \<Rightarrow>
     ('s \<times> 'q node_io) \<times> NodeContext \<times> ProcessResult \<times> bool option" where
  "flagged_end R inn w s ctx =
     (let (c, io) = s; (io1, abandoned) = is_abandoned R inn io in
      if abandoned then ((c, io1), ctx, Finished, None)
      else
        (let (io2, n) = slots R inn io1 in
         ((c, io2), ctx, work_result w, if 0 < n then Some True else None)))"

section \<open>Hasher\<close>

record 'h hash_lib =
  hasher_write :: "'h \<Rightarrow> u8 list \<Rightarrow> 'h"
  hasher_finish :: "'h \<Rightarrow> u64"

record HasherComponent =
  ha_inn :: nat
  ha_out :: ProcessEdgeSink

definition Hasher_new :: "nat multimap \<Rightarrow> ProcessEdgeSink multimap \<Rightarrow> HasherComponent outcome" where
  "Hasher_new inports outports =
     outcome_bind (take_last ''IN'' ''found no IN inport'' inports) (\<lambda>(_, inn).
     outcome_bind (take_last ''OUT'' ''found no OUT outport'' outports) (\<lambda>(_, out).
       Returned \<lparr>ha_inn = inn, ha_out = out\<rparr>))"

text \<open>The loop: one hasher for all packets of the call; a packet without bytes writes nothing.\<close>

definition packet_bytes :: "MessageBuf \<Rightarrow> u8 list" where
  "packet_bytes ip = (case as_bytes ip of Some b \<Rightarrow> b | None \<Rightarrow> [])"

fun hasher_loop ::
    "'q ring_ops \<Rightarrow> 'h hash_lib \<Rightarrow> HasherComponent \<Rightarrow> 'h \<Rightarrow> nat \<Rightarrow> nat \<Rightarrow> 'q node_io \<Rightarrow> nat \<times> nat \<times> 'q node_io" where
  "hasher_loop R H c h 0 w io = (0, w, io)"
| "hasher_loop R H c h (Suc b) w io =
     (case pop R (ha_inn c) io of
        (io1, None) \<Rightarrow> (Suc b, w, io1)
      | (io1, Some ip) \<Rightarrow>
          let h1 = hasher_write H h (packet_bytes ip);
              outip = from_str (show_hex16 (hasher_finish H h1))
          in
          (case push R outip (ha_out c) io1 of
             (io2, True) \<Rightarrow> hasher_loop R H c h1 b (w + 1) io2
           | (io2, False) \<Rightarrow> (Suc b, w, io2)))"

text \<open>\<open>seeded\<close> is the hasher of this call: the package's default takes a random seed each time.\<close>

definition hasher_process ::
    "'q ring_ops \<Rightarrow> 'h hash_lib \<Rightarrow> 'h \<Rightarrow> HasherComponent \<times> 'q node_io \<Rightarrow> NodeContext \<Rightarrow>
     (HasherComponent \<times> 'q node_io) \<times> NodeContext \<times> ProcessResult" where
  "hasher_process R H seeded s ctx =
     (case s of (c, io) \<Rightarrow>
        (case check_signals R text_or_utf8 io of
           (io1, True) \<Rightarrow> ((c, io1), ctx, Finished)
         | (io1, False) \<Rightarrow>
             (case hasher_loop R H c seeded (budget_left ctx) 0 io1 of
                (b, w, io2) \<Rightarrow>
                  (let (io3, abandoned) = is_abandoned R (ha_inn c) io2 in
                   ((c, io3), with_budget b ctx, if abandoned then Finished else work_result w)))))"

definition Hasher_metadata :: ComponentComponentPayload where
  "Hasher_metadata = metadata_default\<lparr>
     comp_name := ''Hasher'',
     comp_description := ''Hashes each IP from IN port, sending the hash value to the OUT port.'',
     comp_icon := ''check'', subgraph := False,
     in_ports := [any_port ''IN'' False ''data to be hashed'' ''''],
     out_ports := [any_port ''OUT'' False ''hash value of the input data'' '''']\<rparr>"

section \<open>Sexp\<close>

record SexpComponent =
  sx_inn :: nat
  sx_out :: ProcessEdgeSink

definition Sexp_new :: "nat multimap \<Rightarrow> ProcessEdgeSink multimap \<Rightarrow> SexpComponent outcome" where
  "Sexp_new inports outports =
     outcome_bind (take_last ''IN'' ''found no IN inport'' inports) (\<lambda>(_, inn).
     outcome_bind (take_last ''OUT'' ''found no OUT outport'' outports) (\<lambda>(_, out).
       Returned \<lparr>sx_inn = inn, sx_out = out\<rparr>))"

text \<open>
  The loop of \<open>Sexp\<close> and \<open>LibComponent\<close>: each packet is converted and sent. A full OUT ends the
  component (the first result).
\<close>

fun convert_loop ::
    "'q ring_ops \<Rightarrow> (MessageBuf \<Rightarrow> MessageBuf) \<Rightarrow> nat \<Rightarrow> ProcessEdgeSink \<Rightarrow> nat \<Rightarrow> nat \<Rightarrow> 'q node_io \<Rightarrow>
     bool \<times> nat \<times> nat \<times> 'q node_io" where
  "convert_loop R conv inn out 0 w io = (False, 0, w, io)"
| "convert_loop R conv inn out (Suc b) w io =
     (case pop R inn io of
        (io1, None) \<Rightarrow> (False, Suc b, w, io1)
      | (io1, Some ip) \<Rightarrow>
          (case push R (conv ip) out io1 of
             (io2, True) \<Rightarrow> convert_loop R conv inn out b (w + 1) io2
           | (io2, False) \<Rightarrow> (True, Suc b, w, io2)))"

definition convert_process ::
    "'q ring_ops \<Rightarrow> (MessageBuf \<Rightarrow> MessageBuf) \<Rightarrow> nat \<Rightarrow> ProcessEdgeSink \<Rightarrow> ('s, 'q) flagged_process" where
  "convert_process R conv inn out s ctx =
     (case s of (c, io) \<Rightarrow>
        (case check_signals R text_or_utf8 io of
           (io1, True) \<Rightarrow> ((c, io1), ctx, Finished, None)
         | (io1, False) \<Rightarrow>
             (case convert_loop R conv inn out (budget_left ctx) 0 io1 of
                (failed, b, w, io2) \<Rightarrow>
                  if failed then ((c, io2), with_budget b ctx, Finished, None)
                  else flagged_end R inn w (c, io2) (with_budget b ctx))))"

definition sexp_conv :: "MessageBuf \<Rightarrow> MessageBuf" where
  "sexp_conv ip = from_str (str_trim (text_or_utf8 ip))"

definition sexp_process :: "'q ring_ops \<Rightarrow> (SexpComponent, 'q) flagged_process" where
  "sexp_process R s ctx = convert_process R sexp_conv (sx_inn (fst s)) (sx_out (fst s)) s ctx"

definition Sexp_metadata :: ComponentComponentPayload where
  "Sexp_metadata = metadata_default\<lparr>
     comp_name := ''Sexp'',
     comp_description := ''Reads IPs as UTF-8 strings and trims whitespace at beginning and end, forwarding the trimmed string.'',
     comp_icon := ''cut'', subgraph := False,
     in_ports := [any_port ''IN'' False ''IPs with strings to trim, one string per IP'' ''''],
     out_ports := [any_port ''OUT'' False ''trimmed strings'' '''']\<rparr>"

section \<open>LibComponent\<close>

record LibComponent =
  lc_inn :: nat
  lc_out :: ProcessEdgeSink
  lc_lib :: "u8 list \<Rightarrow> u32"

text \<open>The library: absent, without the function, or with it. It gets the bytes up to a final zero.\<close>

definition LibComponent_new ::
    "(u8 list \<Rightarrow> u32) option option \<Rightarrow> nat multimap \<Rightarrow> ProcessEdgeSink multimap \<Rightarrow> LibComponent outcome" where
  "LibComponent_new library inports outports =
     (case library of
        None \<Rightarrow> Panicked (''failed to load library '' @ [CHR 0x27] @ ''wordcounter'' @ [CHR 0x27])
      | Some None \<Rightarrow> Panicked (''failed to get symbol '' @ [CHR 0x27] @ ''process'' @ [CHR 0x27])
      | Some (Some fn_process) \<Rightarrow>
          outcome_bind (take_last ''IN'' ''found no IN inport'' inports) (\<lambda>(_, inn).
          outcome_bind (take_last ''OUT'' ''found no OUT outport'' outports) (\<lambda>(_, out).
            Returned \<lparr>lc_inn = inn, lc_out = out, lc_lib = fn_process\<rparr>)))"

definition lib_conv :: "LibComponent \<Rightarrow> MessageBuf \<Rightarrow> MessageBuf" where
  "lib_conv c ip = from_bytes (into_bytes (show_nat (unat (lc_lib c (packet_bytes ip @ [0])))))"

definition lib_process :: "'q ring_ops \<Rightarrow> (LibComponent, 'q) flagged_process" where
  "lib_process R s ctx = convert_process R (lib_conv (fst s)) (lc_inn (fst s)) (lc_out (fst s)) s ctx"

definition LibComponent_metadata :: ComponentComponentPayload where
  "LibComponent_metadata = metadata_default\<lparr>
     comp_name := ''LibComponent'',
     comp_description := ''Loads the given flowd component from a shared library'',
     comp_icon := ''bug'', subgraph := False,
     in_ports := [any_port ''IN'' False ''data to be processed by shared library'' ''''],
     out_ports := [any_port ''OUT'' False ''processed data from IN port'' '''']\<rparr>"

section \<open>Visualization\<close>

record FlowdVisComponent =
  vi_inn :: nat

definition Vis_new :: "nat multimap \<Rightarrow> ProcessEdgeSink multimap \<Rightarrow> FlowdVisComponent outcome" where
  "Vis_new inports outports =
     outcome_bind (take_last ''IN'' ''found no IN inport'' inports) (\<lambda>(_, inn). Returned \<lparr>vi_inn = inn\<rparr>)"

fun vis_loop :: "'q ring_ops \<Rightarrow> nat \<Rightarrow> nat \<Rightarrow> nat \<Rightarrow> 'q node_io \<Rightarrow> nat \<times> nat \<times> 'q node_io" where
  "vis_loop R inn 0 w io = (0, w, io)"
| "vis_loop R inn (Suc b) w io =
     (case pop R inn io of
        (io1, None) \<Rightarrow> (Suc b, w, io1)
      | (io1, Some ip) \<Rightarrow> vis_loop R inn b (w + 1) (network_previewurl ''https://placehold.co/150x150'' io1))"

definition vis_process :: "'q ring_ops \<Rightarrow> (FlowdVisComponent, 'q) flagged_process" where
  "vis_process R s ctx =
     (case s of (c, io) \<Rightarrow>
        (case check_signals R text_or_utf8 io of
           (io1, True) \<Rightarrow> ((c, io1), ctx, Finished, None)
         | (io1, False) \<Rightarrow>
             (case vis_loop R (vi_inn c) (budget_left ctx) 0 io1 of
                (b, w, io2) \<Rightarrow> flagged_end R (vi_inn c) w (c, io2) (with_budget b ctx))))"

definition Vis_metadata :: ComponentComponentPayload where
  "Vis_metadata = metadata_default\<lparr>
     comp_name := ''Visualization'', comp_description := ''Sends preview URLs when receiving packets.'',
     comp_icon := ''eye'', subgraph := False,
     in_ports := [any_port ''IN'' False ''packets to trigger preview URL sending to graph -> clients'' ''''],
     out_ports := []\<rparr>"

section \<open>Panic\<close>

record PanicComponent =
  pa_inn :: nat
  pa_out :: ProcessEdgeSink

definition Panic_new :: "nat multimap \<Rightarrow> ProcessEdgeSink multimap \<Rightarrow> PanicComponent outcome" where
  "Panic_new inports outports =
     outcome_bind (take_last ''IN'' ''found no IN inport'' inports) (\<lambda>(_, inn).
     outcome_bind (take_last ''OUT'' ''found no OUT outport'' outports) (\<lambda>(_, out).
       Returned \<lparr>pa_inn = inn, pa_out = out\<rparr>))"

text \<open>The result of a call that panics is the message; the packet it took is gone.\<close>

definition panic_process ::
    "'q ring_ops \<Rightarrow> PanicComponent \<times> 'q node_io \<Rightarrow> NodeContext \<Rightarrow>
     (PanicComponent \<times> 'q node_io) \<times> NodeContext \<times> ProcessResult outcome" where
  "panic_process R s ctx =
     (case s of (c, io) \<Rightarrow>
        (case pop R (pa_inn c) io of
           (io1, Some _) \<Rightarrow> ((c, io1), ctx, Panicked ''intentional panic from PanicComponent'')
         | (io1, None) \<Rightarrow>
             (let (io2, abandoned) = is_abandoned R (pa_inn c) io1 in
              ((c, io2), ctx, Returned (if abandoned then Finished else NoWork)))))"

definition Panic_metadata :: ComponentComponentPayload where
  "Panic_metadata = metadata_default\<lparr>
     comp_name := ''Panic'',
     comp_description := ''Testing component that intentionally panics when it receives input.'',
     comp_icon := ''warning'', subgraph := False,
     in_ports := [any_port ''IN'' False ''input that triggers an intentional panic'' ''''],
     out_ports := [(any_port ''OUT'' False ''unused output'' '''')\<lparr>required := False\<rparr>]\<rparr>"

text \<open>The call as the scheduler sees it: it catches the panic.\<close>

definition panic_call ::
    "'q ring_ops \<Rightarrow> PanicComponent \<times> 'q node_io \<Rightarrow> NodeContext \<Rightarrow> (PanicComponent \<times> 'q node_io) process_call" where
  "panic_call R s ctx =
     (case panic_process R s ctx of (s', ctx', r) \<Rightarrow>
        \<lparr>pc_component = s', pc_context = ctx', pc_flag = None,
         pc_result = (case r of Panicked _ \<Rightarrow> None | Returned r' \<Rightarrow> Some r'),
         pc_elapsed = io_clock (snd s') - io_clock (snd s), pc_now = io_clock (snd s')\<rparr>)"

end
