(* ===== verification/Converter_Properties.thy ===== *)
theory Converter_Properties
  imports Converters Stages
begin

text \<open>
  Properties of the components of \<open>Converters\<close>: what \<open>Hasher\<close> sends, how a full OUT ends \<open>Sexp\<close> and
  \<open>LibComponent\<close>, how \<open>Panic\<close> ends its node; and that their calls keep the channels queues.
\<close>

section \<open>Channels\<close>

context ring begin

lemma fifo_previewurl: "fifo held io (network_previewurl s io)"
  by (simp add: fifo_same network_previewurl_def)

lemma fifo_flagged_end: "flagged_end R inn w (c, io) ctx = ((c', io'), ctx', r, flag) \<Longrightarrow> fifo held io io'"
  by (auto simp: flagged_end_def Let_def split: prod.splits if_splits dest!: fifo_calls, (metis fifo_trans)+)

lemma fifo_hasher_loop: "hasher_loop R H c h b w io = (b', w', io') \<Longrightarrow> fifo held io io'"
  by (induction b arbitrary: h w io)
    (fastforce simp: Let_def split: prod.splits bool.splits option.splits dest!: fifo_calls intro: fifo_trans)+

lemma fifo_hasher_process: "hasher_process R H h (c, io) ctx = ((c', io'), ctx', r) \<Longrightarrow> fifo held io io'"
  by (auto simp: hasher_process_def Let_def split: prod.splits bool.splits if_splits
      dest!: fifo_calls fifo_hasher_loop, (metis fifo_trans)+)

lemma fifo_convert_loop: "convert_loop R conv inn out b w io = (f, b', w', io') \<Longrightarrow> fifo held io io'"
  by (induction b arbitrary: w io)
    (fastforce split: prod.splits bool.splits option.splits dest!: fifo_calls intro: fifo_trans)+

lemma fifo_convert_process:
  "convert_process R conv inn out (c, io) ctx = ((c', io'), ctx', r, flag) \<Longrightarrow> fifo held io io'"
  by (auto simp: convert_process_def split: prod.splits bool.splits if_splits
      dest!: fifo_calls fifo_convert_loop fifo_flagged_end, (metis fifo_trans)+)

lemma fifo_vis_loop: "vis_loop R inn b w io = (b', w', io') \<Longrightarrow> fifo held io io'"
proof (induction b arbitrary: w io)
  case (Suc b)
  obtain io1 got where g: "pop R inn io = (io1, got)" by fastforce
  note f = fifo_trans [OF fifo_pop [OF g] fifo_previewurl]
  from Suc.prems g Suc.IH [THEN fifo_trans [OF f]] fifo_pop [OF g] show ?case
    by (cases got) auto
qed simp

lemma fifo_vis_process: "vis_process R (c, io) ctx = ((c', io'), ctx', r, flag) \<Longrightarrow> fifo held io io'"
  by (auto simp: vis_process_def split: prod.splits bool.splits
      dest!: fifo_calls fifo_vis_loop fifo_flagged_end, (metis fifo_trans)+)

lemma fifo_panic_process: "panic_process R (c, io) ctx = ((c', io'), ctx', r) \<Longrightarrow> fifo held io io'"
  by (auto simp: panic_process_def Let_def split: prod.splits option.splits dest!: fifo_calls, (metis fifo_trans)+)

end

section \<open>Hasher\<close>

text \<open>The digests a call sends: of everything the hasher of the call has been given so far.\<close>

primrec digests :: "'h hash_lib \<Rightarrow> 'h \<Rightarrow> MessageBuf list \<Rightarrow> MessageBuf list" where
  "digests H h [] = []"
| "digests H h (ip # ips) =
     (let h1 = hasher_write H h (packet_bytes ip) in from_str (show_hex16 (hasher_finish H h1)) # digests H h1 ips)"

lemma length_digests [simp]: "length (digests H h ips) = length ips"
  by (induction ips arbitrary: h) (simp_all add: Let_def)

lemma nth_digests:
  "i < length ips \<Longrightarrow> digests H h ips ! i =
     from_str (show_hex16 (hasher_finish H (foldl (hasher_write H) h (map packet_bytes (take (Suc i) ips)))))"
proof (induction ips arbitrary: h i)
  case (Cons ip ips)
  then show ?case by (cases i) (simp_all add: Let_def)
qed simp

lemma hasher_loop_logs:
  "hasher_loop R H c h b w io = (b', w', io') \<Longrightarrow>
   \<exists>taken lost. io_read io' = io_read io @ map (Pair (ha_inn c)) taken \<and>
     io_sent io' = io_sent io @ map (Pair (sk_sink (ha_out c))) (take (length taken - lost) (digests H h taken)) \<and>
     lost \<le> 1 \<and> lost \<le> length taken \<and> length taken - lost = b - b' \<and> b' \<le> b"
proof (induction b arbitrary: h w io)
  case (Suc b)
  obtain io1 got where g: "pop R (ha_inn c) io = (io1, got)" by fastforce
  show ?case
  proof (cases got)
    case None
    with Suc.prems g pop_logs [OF g] show ?thesis by (intro exI [of _ "[]"] exI [of _ 0]) auto
  next
    case (Some ip)
    let ?h = "hasher_write H h (packet_bytes ip)"
    let ?m = "from_str (show_hex16 (hasher_finish H ?h))"
    obtain io2 ok where p: "push R ?m (ha_out c) io1 = (io2, ok)" by fastforce
    show ?thesis
    proof (cases ok)
      case False
      with Suc.prems g Some p pop_logs [OF g] push_logs [OF p] show ?thesis
        by (intro exI [of _ "[ip]"] exI [of _ 1]) auto
    next
      case True
      with Suc.prems g Some p have "hasher_loop R H c ?h b (w + 1) io2 = (b', w', io')" by simp
      from Suc.IH [OF this] obtain taken lost where
        "io_read io' = io_read io2 @ map (Pair (ha_inn c)) taken"
        "io_sent io' = io_sent io2 @ map (Pair (sk_sink (ha_out c))) (take (length taken - lost) (digests H ?h taken))"
        "lost \<le> 1" "lost \<le> length taken" "length taken - lost = b - b'" "b' \<le> b" by blast
      with True Some pop_logs [OF g] push_logs [OF p] show ?thesis
        by (intro exI [of _ "ip # taken"] exI [of _ lost]) (auto simp: Let_def Suc_diff_le)
    qed
  qed
qed auto

text \<open>
  A call of \<open>Hasher\<close> sends, for the packets it takes one after the other, the digests of all bytes of
  the call so far, not of the single packet: the hasher is seeded at the start of the call and not reset.
  Texts count as empty. At most the last packet goes without a digest, when OUT is full; it is lost.
\<close>

theorem hasher_sends_running_digests:
  assumes "hasher_process R H seeded (c, io) ctx = ((c', io'), ctx', r)"
  shows "\<exists>taken k. length taken \<in> {k, Suc k} \<and> k \<le> budget_left ctx \<and>
    io_read io' = io_read io @ map (Pair (ha_inn c)) taken \<and>
    io_sent io' = io_sent io @ map (\<lambda>i. (sk_sink (ha_out c), from_str (show_hex16 (hasher_finish H
      (foldl (hasher_write H) seeded (map packet_bytes (take (Suc i) taken))))))) [0..<k]"
proof -
  obtain io1 stop where s: "check_signals R text_or_utf8 io = (io1, stop)" by fastforce
  note q = check_signals_quiet [OF s]
  show ?thesis
  proof (cases stop)
    case True
    with assms s q show ?thesis
      by (auto simp: hasher_process_def quiet_def intro!: exI [of _ "[]"] exI [of _ 0])
  next
    case False
    obtain b w io2 where l: "hasher_loop R H c seeded (budget_left ctx) 0 io1 = (b, w, io2)" by (metis prod.exhaust)
    from hasher_loop_logs [OF l] obtain taken lost where t:
      "io_read io2 = io_read io1 @ map (Pair (ha_inn c)) taken"
      "io_sent io2 = io_sent io1 @ map (Pair (sk_sink (ha_out c))) (take (length taken - lost) (digests H seeded taken))"
      "lost \<le> 1" "lost \<le> length taken" "length taken - lost = budget_left ctx - b" by blast
    let ?k = "length taken - lost"
    have d: "take ?k (digests H seeded taken) = map (\<lambda>i. from_str (show_hex16 (hasher_finish H
        (foldl (hasher_write H) seeded (map packet_bytes (take (Suc i) taken)))))) [0..<?k]"
      by (rule nth_equalityI) (simp_all add: nth_digests)
    obtain io3 ab where ab: "is_abandoned R (ha_inn c) io2 = (io3, ab)" by fastforce
    with assms s False l have "io' = io3" by (auto simp: hasher_process_def)
    with is_abandoned_quiet [OF ab] q t d show ?thesis
      by (intro exI [of _ taken] exI [of _ ?k]) (auto simp: quiet_def comp_def)
  qed
qed

section \<open>Turns that end the node\<close>

text \<open>The turn of a component whose first call ends it.\<close>

lemma turn_ends_at_once:
  assumes "exec_begin ctx a = (ctx1, a1)"
    and "exec_iteration (call s ctx1) ctx1 outcome_default a1 = IterDone s' ctx' out a'"
  shows "execute_component call s ctx a = Some (s', ctx', out, a')"
proof -
  have "remaining_budget ctx1 \<noteq> 0"
    using assms(1) by (cases "budget_class ctx") (auto simp: exec_begin_def take_wake_at_def budget_of_def)
  with assms show ?thesis by (simp add: execute_component_def exec_loop.simps)
qed

lemma begin_budget: "exec_begin ctx a = (ctx1, a1) \<Longrightarrow> 0 < budget_left ctx1"
  by (cases "budget_class ctx")
    (auto simp: exec_begin_def take_wake_at_def budget_of_def budget_left_def)

context ring begin

lemma panic_ends_turn:
  assumes "io_external io = []" "held (io_channels io (pa_inn c)) = m # ms"
  shows "\<exists>io' ctx' out a'. execute_component (panic_call R) (c, io) ctx a = Some ((c, io'), ctx', out, a') \<and>
    panicked out \<and> finished out \<and> \<not> did_work out \<and> held (io_channels io' (pa_inn c)) = ms"
proof -
  obtain q where p: "pop R (pa_inn c) io =
      (io\<lparr>io_channels := (io_channels io)(pa_inn c := q), io_read := io_read io @ [(pa_inn c, m)]\<rparr>, Some m)"
    "held q = ms"
    by (rule pop_alone [OF assms])
  obtain ctx1 a1 where b: "exec_begin ctx a = (ctx1, a1)" by fastforce
  show ?thesis
    by (rule exI, rule exI, rule exI, rule exI, rule conjI, rule turn_ends_at_once [OF b])
      (simp_all add: exec_iteration_def panic_call_def panic_process_def p contract_ok_def Let_def outcome_default_def,
        simp add: p)
qed

text \<open>A component that converts, with a packet to convert and no room in OUT.\<close>

lemma convert_on_full:
  assumes "io_external io = []" "io_signals io = []" "held (io_channels io inn) = m # ms"
    and "cap (io_channels io (sk_sink out)) \<le> length (held (io_channels io (sk_sink out)))" "inn \<noteq> sk_sink out"
    and "0 < budget_left ctx"
  shows "\<exists>io' ctx'. convert_process R conv inn out (c, io) ctx = ((c, io'), ctx', Finished, None) \<and>
    held (io_channels io' inn) = ms \<and> io_sent io' = io_sent io \<and> io_clock io' = io_clock io"
proof -
  obtain q where p: "pop R inn io =
      (io\<lparr>io_channels := (io_channels io)(inn := q), io_read := io_read io @ [(inn, m)]\<rparr>, Some m)"
    "held q = ms"
    by (rule pop_alone [OF assms(1,3)])
  let ?io = "io\<lparr>io_channels := (io_channels io)(inn := q), io_read := io_read io @ [(inn, m)]\<rparr>"
  have "push R (conv m) out ?io = (?io, False)"
    by (rule push_alone_full) (use assms in auto)
  moreover obtain b where "budget_left ctx = Suc b" using assms(6) by (cases "budget_left ctx") auto
  ultimately show ?thesis using p assms(1,2) by (auto simp: convert_process_def)
qed

lemma full_ends_turn:
  assumes "\<And>ctx. 0 < budget_left ctx \<Longrightarrow> \<exists>io' ctx'. process (c, io) ctx = ((c, io'), ctx', Finished, None) \<and>
      held (io_channels io' inn) = ms \<and> io_sent io' = io_sent io \<and> io_clock io' = io_clock io"
  shows "\<exists>io' ctx' out a'. execute_component (flagged_call process) (c, io) ctx a = Some ((c, io'), ctx', out, a') \<and>
    finished out \<and> held (io_channels io' inn) = ms \<and> io_sent io' = io_sent io"
proof -
  obtain ctx1 a1 where b: "exec_begin ctx a = (ctx1, a1)" by fastforce
  from assms [OF begin_budget [OF b]] obtain io' ctx' where
    p: "process (c, io) ctx1 = ((c, io'), ctx', Finished, None)"
    "held (io_channels io' inn) = ms" "io_sent io' = io_sent io" "io_clock io' = io_clock io" by blast
  show ?thesis
    by (rule exI, rule exI, rule exI, rule exI, rule conjI, rule turn_ends_at_once [OF b])
      (simp_all add: exec_iteration_def flagged_call_def p contract_ok_def Let_def, simp add: p)
qed

lemma full_port_ends_lib:
  assumes "io_external io = []" "io_signals io = []" "held (io_channels io (lc_inn c)) = m # ms"
    and "cap (io_channels io (sk_sink (lc_out c))) \<le> length (held (io_channels io (sk_sink (lc_out c))))"
    and "lc_inn c \<noteq> sk_sink (lc_out c)"
  shows "\<exists>io' ctx' out a'. execute_component (flagged_call (lib_process R)) (c, io) ctx a =
      Some ((c, io'), ctx', out, a') \<and>
    finished out \<and> held (io_channels io' (lc_inn c)) = ms \<and> io_sent io' = io_sent io"
  by (rule full_ends_turn, simp only: lib_process_def fst_conv) (rule convert_on_full [OF assms])

lemma sexp_on_full:
  assumes "io_external io = []" "io_signals io = []" "held (io_channels io (sx_inn c)) = m # ms"
    and "cap (io_channels io (sk_sink (sx_out c))) \<le> length (held (io_channels io (sk_sink (sx_out c))))"
    and "sx_inn c \<noteq> sk_sink (sx_out c)"
  shows "\<exists>io' ctx' out a'. execute_component (flagged_call (sexp_process R)) (c, io) ctx a =
      Some ((c, io'), ctx', out, a') \<and>
    finished out \<and> held (io_channels io' (sx_inn c)) = ms \<and> io_sent io' = io_sent io"
  by (rule full_ends_turn, simp only: sexp_process_def fst_conv) (rule convert_on_full [OF assms])

end

text \<open>
  The turn in which \<open>Panic\<close> takes a packet is its last: the scheduler catches the panic and is told
  that the component panicked and is finished, and the packet is gone. The other packets stay in IN.
\<close>

theorem panic_finishes_its_node:
  assumes "ring R cap held" and "io_external io = []" and "held (io_channels io (pa_inn c)) = m # ms"
  shows "\<exists>io' ctx' out a'. execute_component (panic_call R) (c, io) ctx a = Some ((c, io'), ctx', out, a') \<and>
    panicked out \<and> finished out \<and> \<not> did_work out \<and> held (io_channels io' (pa_inn c)) = ms"
  by (rule ring.panic_ends_turn [OF assms])

definition demo_panic :: PanicComponent where
  "demo_panic = \<lparr>pa_inn = 0, pa_out = demo_sink\<rparr>"

lemma panic_finishes_its_node_witness:
  "\<exists>io' ctx' out a'. execute_component (panic_call list_ring)
       (demo_panic, node_io_new (demo_channels [MText ''a'', MText ''b''] 5 []) []) (demo_context 1) (\<lambda>_. False) =
     Some ((demo_panic, io'), ctx', out, a') \<and>
   panicked out \<and> finished out \<and> \<not> did_work out \<and> lq_messages (io_channels io' 0) = [MText ''b'']"
  using panic_finishes_its_node [OF list_ring.ring_axioms, of
      "node_io_new (demo_channels [MText ''a'', MText ''b''] 5 []) []" demo_panic "MText ''a''" "[MText ''b'']"
      "demo_context 1" "\<lambda>_. False"]
  by (simp add: demo_panic_def node_io_new_def demo_channels_def)

text \<open>
  A \<open>Sexp\<close> that finds its OUT full loses the packet it has taken and ends its node for good, although
  its producer goes on and packets are waiting.
\<close>

theorem full_port_ends_sexp:
  assumes "ring R cap held" and "io_external io = []" and "io_signals io = []"
    and "held (io_channels io (sx_inn c)) = m # ms"
    and "cap (io_channels io (sk_sink (sx_out c))) \<le> length (held (io_channels io (sk_sink (sx_out c))))"
    and "sx_inn c \<noteq> sk_sink (sx_out c)"
  shows "\<exists>io' ctx' out a'. execute_component (flagged_call (sexp_process R)) (c, io) ctx a =
      Some ((c, io'), ctx', out, a') \<and>
    finished out \<and> held (io_channels io' (sx_inn c)) = ms \<and> io_sent io' = io_sent io"
  by (rule ring.sexp_on_full [OF assms])

definition demo_sexp :: SexpComponent where
  "demo_sexp = \<lparr>sx_inn = 0, sx_out = demo_sink\<rparr>"

lemma full_port_ends_sexp_witness:
  "\<exists>io' ctx' out a'. execute_component (flagged_call (sexp_process list_ring))
       (demo_sexp, node_io_new (demo_channels [MText ''a'', MText ''b''] 1 [MText ''c'']) []) (demo_context 1)
       (\<lambda>_. False) = Some ((demo_sexp, io'), ctx', out, a') \<and>
   finished out \<and> lq_messages (io_channels io' 0) = [MText ''b''] \<and> io_sent io' = []"
  using full_port_ends_sexp [OF list_ring.ring_axioms, of
      "node_io_new (demo_channels [MText ''a'', MText ''b''] 1 [MText ''c'']) []" demo_sexp "MText ''a''"
      "[MText ''b'']" "demo_context 1" "\<lambda>_. False"]
  by (simp add: demo_sexp_def node_io_new_def demo_channels_def demo_sink_def)

end
