(* ===== verification/Queries.thy ===== *)
theory Queries
  imports Texts Converters
begin

text \<open>
  The components that ask each packet a question they were configured with: \<open>RegexpExtract\<close>,
  \<open>TeraTemplate\<close>, \<open>HTMLQuery\<close>, \<open>JSONQuery\<close> and, with nothing to configure, \<open>HTMLStrip\<close>
  (\<open>components/regexp\<close>, \<open>template\<close>, \<open>html\<close>, \<open>json\<close>). They have one shape; a \<open>query_kind\<close> says what is
  particular to each. The packages for regular expressions, templates, XPath and jq are arguments.
\<close>

section \<open>The component\<close>

record 'f QueryComponent =
  qu_conf :: nat
  qu_inn :: nat
  qu_out :: ProcessEdgeSink
  qu_query :: "'f option"

definition Query_new ::
    "string \<Rightarrow> nat multimap \<Rightarrow> ProcessEdgeSink multimap \<Rightarrow> 'f QueryComponent outcome" where
  "Query_new port inports0 outports =
     outcome_bind (take_last port ''found no CONF inport'' inports0) (\<lambda>(inports, conf).
     outcome_bind (take_last ''IN'' ''found no IN inport'' inports) (\<lambda>(_, inn).
     outcome_bind (take_last ''OUT'' ''found no OUT outport'' outports) (\<lambda>(_, out).
       Returned \<lparr>qu_conf = conf, qu_inn = inn, qu_out = out, qu_query = None\<rparr>)))"

text \<open>
  How signals are read, how a configuration is compiled, what the results for a packet are, and whether a
  full OUT ends the loop over the packets or only the loop over the results of one packet.
\<close>

record 'f query_kind =
  qk_signal :: "MessageBuf \<Rightarrow> string"
  qk_not_text :: string
  qk_compile :: "string \<Rightarrow> 'f option outcome"
  qk_answers :: "'f \<Rightarrow> MessageBuf \<Rightarrow> MessageBuf list outcome"
  qk_leaves :: bool

text \<open>
  The results of one packet. The budget is a \<open>u32\<close> that each packet sent decrements; the loop over the
  results does not look whether there is any left.
\<close>

fun emit_results ::
    "'q ring_ops \<Rightarrow> bool \<Rightarrow> ProcessEdgeSink \<Rightarrow> MessageBuf list \<Rightarrow> u32 \<Rightarrow> nat \<Rightarrow> 'q node_io \<Rightarrow>
     (bool \<times> u32 \<times> nat \<times> 'q node_io) outcome" where
  "emit_results R chk out [] b w io = Returned (False, b, w, io)"
| "emit_results R chk out (m # ms) b w io =
     (case push R m out io of
        (io1, True) \<Rightarrow> outcome_bind (checked_dec chk b) (\<lambda>b1. emit_results R chk out ms b1 (w + 1) io1)
      | (io1, False) \<Rightarrow> Returned (True, b, w, io1))"

text \<open>The loop over IN; \<open>None\<close> when the fuel does not suffice.\<close>

fun query_loop ::
    "'q ring_ops \<Rightarrow> bool \<Rightarrow> (MessageBuf \<Rightarrow> MessageBuf list outcome) \<Rightarrow> bool \<Rightarrow> nat \<Rightarrow> ProcessEdgeSink \<Rightarrow>
     nat \<Rightarrow> u32 \<Rightarrow> nat \<Rightarrow> 'q node_io \<Rightarrow> (u32 \<times> nat \<times> 'q node_io) outcome option" where
  "query_loop R chk answers leaves inn out 0 b w io = None"
| "query_loop R chk answers leaves inn out (Suc fuel) b w io =
     (if b = 0 then Some (Returned (b, w, io))
      else
        (case is_empty R inn io of
           (io1, True) \<Rightarrow> Some (Returned (b, w, io1))
         | (io1, False) \<Rightarrow>
             (case pop R inn io1 of
                (io2, None) \<Rightarrow> Some (Returned (b, w, io2))
              | (io2, Some ip) \<Rightarrow>
                  (case answers ip of
                     Panicked msg \<Rightarrow> Some (Panicked msg)
                   | Returned ms \<Rightarrow>
                       (case emit_results R chk out ms b w io2 of
                          Panicked msg \<Rightarrow> Some (Panicked msg)
                        | Returned (full, b1, w1, io3) \<Rightarrow>
                            if full \<and> leaves \<or> b1 = 0 then Some (Returned (b1, w1, io3))
                            else query_loop R chk answers leaves inn out fuel b1 w1 io3)))))"

text \<open>The end of \<open>process()\<close>.\<close>

definition query_end ::
    "'q ring_ops \<Rightarrow> nat \<Rightarrow> u32 \<Rightarrow> nat \<Rightarrow> 'c \<times> 'q node_io \<Rightarrow> NodeContext \<Rightarrow>
     ('c \<times> 'q node_io) \<times> NodeContext \<times> ProcessResult" where
  "query_end R inn b w s ctx =
     (let (c, io) = s; (io1, abandoned) = is_abandoned R inn io in
      ((c, io1), ctx\<lparr>remaining_budget := b\<rparr>, if abandoned then Finished else work_result w))"

definition query_process ::
    "'q ring_ops \<Rightarrow> bool \<Rightarrow> 'f query_kind \<Rightarrow> nat \<Rightarrow> 'f QueryComponent \<times> 'q node_io \<Rightarrow> NodeContext \<Rightarrow>
     (('f QueryComponent \<times> 'q node_io) \<times> NodeContext \<times> ProcessResult) outcome option" where
  "query_process R chk K fuel s ctx =
     (case s of (c, io) \<Rightarrow>
        (case check_signals R (qk_signal K) io of
           (io1, True) \<Rightarrow> Some (Returned ((c, io1), ctx, Finished))
         | (io1, False) \<Rightarrow>
             (case qu_query c of
                None \<Rightarrow>
                  (case pop R (qu_conf c) io1 of
                     (io2, None) \<Rightarrow> Some (Returned ((c, io2), ctx, NoWork))
                   | (io2, Some m) \<Rightarrow>
                       (case as_text m of
                          None \<Rightarrow> Some (Panicked (qk_not_text K))
                        | Some t \<Rightarrow>
                            Some (outcome_bind (qk_compile K t) (\<lambda>compiled.
                              Returned
                                (case compiled of
                                   Some f \<Rightarrow> ((c\<lparr>qu_query := Some f\<rparr>, io2), ctx, DidWork 1)
                                 | None \<Rightarrow> ((c, io2), ctx, Finished))))))
              | Some f \<Rightarrow>
                  map_option (\<lambda>r. outcome_bind r (\<lambda>(b, w, io2). Returned (query_end R (qu_inn c) b w (c, io2) ctx)))
                    (query_loop R chk (qk_answers K f) (qk_leaves K) (qu_inn c) (qu_out c) fuel
                       (remaining_budget ctx) 0 io1))))"

section \<open>RegexpExtract\<close>

record 'f regex_lib =
  regex_new :: "string \<Rightarrow> 'f option"
  captures :: "'f \<Rightarrow> string \<Rightarrow> (nat \<Rightarrow> string option) option"

type_synonym 'f RegexpExtractComponent = "'f QueryComponent"

definition RegexpExtract_new ::
    "nat multimap \<Rightarrow> ProcessEdgeSink multimap \<Rightarrow> 'f RegexpExtractComponent outcome" where
  "RegexpExtract_new = Query_new ''REGEXP''"

text \<open>The first group, or an empty packet when there is no match or no such group.\<close>

definition regexp_answer :: "'f regex_lib \<Rightarrow> 'f \<Rightarrow> MessageBuf \<Rightarrow> MessageBuf" where
  "regexp_answer L regexp ip =
     (case captures L regexp (text_only ip) of
        None \<Rightarrow> from_bytes []
      | Some groups \<Rightarrow> (case groups 1 of Some capture \<Rightarrow> from_str capture | None \<Rightarrow> from_bytes []))"

definition regexp_kind :: "'f regex_lib \<Rightarrow> 'f query_kind" where
  "regexp_kind L =
     \<lparr>qk_signal = text_or_utf8, qk_not_text = ''regexp must be text'',
      qk_compile = (\<lambda>t. Returned (regex_new L t)),
      qk_answers = (\<lambda>regexp ip. Returned [regexp_answer L regexp ip]), qk_leaves = True\<rparr>"

definition RegexpExtract_process ::
    "'q ring_ops \<Rightarrow> bool \<Rightarrow> 'f regex_lib \<Rightarrow> nat \<Rightarrow> 'f RegexpExtractComponent \<times> 'q node_io \<Rightarrow> NodeContext \<Rightarrow>
     (('f RegexpExtractComponent \<times> 'q node_io) \<times> NodeContext \<times> ProcessResult) outcome option" where
  "RegexpExtract_process R chk L = query_process R chk (regexp_kind L)"

definition RegexpExtract_metadata :: ComponentComponentPayload where
  "RegexpExtract_metadata = metadata_default\<lparr>
     comp_name := ''RegexpExtract'',
     comp_description := ''Applies given regexp to IPs from IN port and sends the matched results to OUT port.'',
     comp_icon := ''search'', subgraph := False,
     in_ports := [any_port ''REGEXP'' False ''the regular expression to apply'' '''',
       any_port ''IN'' False ''data to apply the given regexp to'' ''''],
     out_ports := [any_port ''OUT'' False ''extracted match data'' '''']\<rparr>"

section \<open>TeraTemplate\<close>

record 't tera_lib =
  add_raw_template :: "string \<Rightarrow> 't option"
  render :: "'t \<Rightarrow> string \<Rightarrow> string option"

type_synonym 't TeraTemplateComponent = "'t QueryComponent"

definition TeraTemplate_new ::
    "nat multimap \<Rightarrow> ProcessEdgeSink multimap \<Rightarrow> 't TeraTemplateComponent outcome" where
  "TeraTemplate_new = Query_new ''TEMPLATE''"

definition tera_answers :: "'t tera_lib \<Rightarrow> 't \<Rightarrow> MessageBuf \<Rightarrow> MessageBuf list outcome" where
  "tera_answers L tera ip =
     (case as_text ip of
        None \<Rightarrow> Panicked ''input must be text''
      | Some t \<Rightarrow>
          Returned (case render L tera t of Some rendered \<Rightarrow> [from_text (str_trim rendered)] | None \<Rightarrow> []))"

definition tera_kind :: "'t tera_lib \<Rightarrow> 't query_kind" where
  "tera_kind L =
     \<lparr>qk_signal = text_or_utf8, qk_not_text = ''template must be text'',
      qk_compile = (\<lambda>t. Returned (add_raw_template L t)), qk_answers = tera_answers L, qk_leaves = True\<rparr>"

definition TeraTemplate_process ::
    "'q ring_ops \<Rightarrow> bool \<Rightarrow> 't tera_lib \<Rightarrow> nat \<Rightarrow> 't TeraTemplateComponent \<times> 'q node_io \<Rightarrow> NodeContext \<Rightarrow>
     (('t TeraTemplateComponent \<times> 'q node_io) \<times> NodeContext \<times> ProcessResult) outcome option" where
  "TeraTemplate_process R chk L = query_process R chk (tera_kind L)"

text \<open>The default template, with the line breaks and the indentation it has in the source.\<close>

definition template_default :: string where
  "template_default = concat (map (\<lambda>(n, l). CHR 0x0A # replicate n (CHR 0x20) @ l)
     [(24, ''{% set in = ip | int %}''), (24, ''{% if in < 10  %}''), (28, ''-10''),
      (24, ''{% elif in >= 10 and in < 50 %}''), (28, ''10''), (24, ''{% else %}''), (28, ''ERROR''),
      (24, ''{% endif %}''), (20, '''')])"

definition TeraTemplate_metadata :: ComponentComponentPayload where
  "TeraTemplate_metadata = metadata_default\<lparr>
     comp_name := ''TeraTemplate'',
     comp_description := ''Sends IPs through the template given on TEMPLATE and the rendered result to the outport.'',
     comp_icon := ''file-text-o'', subgraph := False,
     in_ports := [any_port ''TEMPLATE'' False ''the template source code'' template_default,
       any_port ''IN'' False ''data inputs to be processed by the template'' ''''],
     out_ports := [any_port ''OUT'' False ''rendered template output'' '''']\<rparr>"

section \<open>HTMLStrip\<close>

record HTMLStripComponent =
  hs_inn :: nat
  hs_out :: ProcessEdgeSink

definition HTMLStrip_new :: "nat multimap \<Rightarrow> ProcessEdgeSink multimap \<Rightarrow> HTMLStripComponent outcome" where
  "HTMLStrip_new inports outports =
     outcome_bind (take_last ''IN'' ''found no IN inport'' inports) (\<lambda>(_, inn).
     outcome_bind (take_last ''OUT'' ''found no OUT outport'' outports) (\<lambda>(_, out).
       Returned \<lparr>hs_inn = inn, hs_out = out\<rparr>))"

text \<open>The loop over the bytes, with the two flags and the result so far.\<close>

fun strip_tags :: "bool \<Rightarrow> bool \<Rightarrow> u8 list \<Rightarrow> u8 list \<Rightarrow> u8 list" where
  "strip_tags inside_tag inside_quotes result [] = result"
| "strip_tags inside_tag inside_quotes result (byte # bytes) =
     (if byte = 60 then strip_tags True inside_quotes result bytes
      else if byte = 62 \<and> \<not> inside_quotes then strip_tags False inside_quotes result bytes
      else if byte = 34 then strip_tags inside_tag (\<not> inside_quotes) result bytes
      else if \<not> inside_tag then strip_tags inside_tag inside_quotes (result @ [byte]) bytes
      else strip_tags inside_tag inside_quotes result bytes)"

definition remove_html_tags :: "u8 list \<Rightarrow> u8 list" where
  "remove_html_tags html = strip_tags False False [] html"

definition strip_answer :: "MessageBuf \<Rightarrow> MessageBuf" where
  "strip_answer ip = from_bytes (remove_html_tags (packet_bytes ip))"

definition strip_process ::
    "'q ring_ops \<Rightarrow> bool \<Rightarrow> nat \<Rightarrow> HTMLStripComponent \<times> 'q node_io \<Rightarrow> NodeContext \<Rightarrow>
     ((HTMLStripComponent \<times> 'q node_io) \<times> NodeContext \<times> ProcessResult) outcome option" where
  "strip_process R chk fuel s ctx =
     (case s of (c, io) \<Rightarrow>
        (case check_signals R text_or_utf8 io of
           (io1, True) \<Rightarrow> Some (Returned ((c, io1), ctx, Finished))
         | (io1, False) \<Rightarrow>
             map_option (\<lambda>r. outcome_bind r (\<lambda>(b, w, io2). Returned (query_end R (hs_inn c) b w (c, io2) ctx)))
               (query_loop R chk (\<lambda>ip. Returned [strip_answer ip]) True (hs_inn c) (hs_out c) fuel
                  (remaining_budget ctx) 0 io1)))"

definition HTMLStrip_metadata :: ComponentComponentPayload where
  "HTMLStrip_metadata = metadata_default\<lparr>
     comp_name := ''HTMLStrip'',
     comp_description :=
       ''Reads data IPs, strips all HTML tags and sends the cleaned, content-only data to the OUT port.'',
     comp_icon := ''trash'', subgraph := False,
     in_ports := [any_port ''IN'' False ''IPs with HTML code'' ''''],
     out_ports := [any_port ''OUT'' False ''HTML-stripped IPs'' '''']\<rparr>"

section \<open>HTMLQuery\<close>

record ('x, 'd) html_lib =
  xpath_parse :: "string \<Rightarrow> 'x option"
  html_parse :: "string \<Rightarrow> 'd option"
  xpath_apply :: "'x \<Rightarrow> 'd \<Rightarrow> string list option"

type_synonym 'x HTMLQueryComponent = "'x QueryComponent"

definition HTMLQuery_new ::
    "nat multimap \<Rightarrow> ProcessEdgeSink multimap \<Rightarrow> 'x HTMLQueryComponent outcome" where
  "HTMLQuery_new = Query_new ''QUERY''"

definition html_answers :: "('x, 'd) html_lib \<Rightarrow> 'x \<Rightarrow> MessageBuf \<Rightarrow> MessageBuf list" where
  "html_answers L xpath_query ip =
     (case html_parse L (text_only ip) of
        None \<Rightarrow> []
      | Some document \<Rightarrow>
          (case xpath_apply L xpath_query document of
             None \<Rightarrow> []
           | Some item_set \<Rightarrow> map (\<lambda>item. from_bytes (into_bytes item)) item_set))"

definition html_kind :: "('x, 'd) html_lib \<Rightarrow> 'x query_kind" where
  "html_kind L =
     \<lparr>qk_signal = text_or_utf8, qk_not_text = ''XPath query must be text'',
      qk_compile = (\<lambda>t. Returned (xpath_parse L t)), qk_answers = (\<lambda>q ip. Returned (html_answers L q ip)),
      qk_leaves = False\<rparr>"

definition HTMLQuery_process ::
    "'q ring_ops \<Rightarrow> bool \<Rightarrow> ('x, 'd) html_lib \<Rightarrow> nat \<Rightarrow> 'x HTMLQueryComponent \<times> 'q node_io \<Rightarrow> NodeContext \<Rightarrow>
     (('x HTMLQueryComponent \<times> 'q node_io) \<times> NodeContext \<times> ProcessResult) outcome option" where
  "HTMLQuery_process R chk L = query_process R chk (html_kind L)"

definition HTMLQuery_metadata :: ComponentComponentPayload where
  "HTMLQuery_metadata = metadata_default\<lparr>
     comp_name := ''HTMLQuery'',
     comp_description :=
       ''Reads IPs containing HTML data, filters them using the given XPath query and sends the processed resp. filtered data to the OUT port.'',
     comp_icon := ''filter'', subgraph := False,
     in_ports := [any_port ''QUERY'' False ''XPath query to apply to the input data'' ''//div/text()'',
       any_port ''IN'' False ''HTML data to process'' ''<html><body><div>Hello world</div></body></html>''],
     out_ports := [any_port ''OUT'' False ''processed resp. filtered HTML data'' '''']\<rparr>"

section \<open>JSONQuery\<close>

text \<open>
  A filter is parsed (with its errors) and compiled (with the errors of the context), and run on a value:
  each output is an error or a value, as they are shown.
\<close>

record ('p, 'f, 'j) jaq_lib =
  jaq_parse :: "string \<Rightarrow> 'p option \<times> string list"
  jaq_compile :: "'p \<Rightarrow> 'f \<times> string list"
  jaq_run :: "'f \<Rightarrow> 'j \<Rightarrow> (string + string) list"
  json_from_slice :: "u8 list \<Rightarrow> 'j option"

type_synonym 'f JSONQueryComponent = "'f QueryComponent"

definition JSONQuery_new ::
    "nat multimap \<Rightarrow> ProcessEdgeSink multimap \<Rightarrow> 'f JSONQueryComponent outcome" where
  "JSONQuery_new = Query_new ''QUERY''"

definition json_compile :: "('p, 'f, 'j) jaq_lib \<Rightarrow> string \<Rightarrow> 'f option outcome" where
  "json_compile L filter_str =
     (case jaq_parse L filter_str of
        (filt, errors) \<Rightarrow>
          if errors \<noteq> [] then Returned None
          else
            (case filt of
               None \<Rightarrow> Panicked ''called `Option::unwrap()` on a `None` value''
             | Some parsed \<Rightarrow>
                 (case jaq_compile L parsed of (compiled, errs) \<Rightarrow>
                    Returned (if errs \<noteq> [] then None else Some compiled))))"

text \<open>Outputs that are errors are discarded.\<close>

definition shown_value :: "string + string \<Rightarrow> MessageBuf list" where
  "shown_value v = (case v of Inl err \<Rightarrow> [] | Inr val \<Rightarrow> [from_bytes (into_bytes val)])"

definition json_answers :: "('p, 'f, 'j) jaq_lib \<Rightarrow> 'f \<Rightarrow> MessageBuf \<Rightarrow> MessageBuf list" where
  "json_answers L filt ip =
     (case json_from_slice L (packet_bytes ip) of
        None \<Rightarrow> []
      | Some input \<Rightarrow> concat (map shown_value (jaq_run L filt input)))"

definition json_kind :: "('p, 'f, 'j) jaq_lib \<Rightarrow> 'f query_kind" where
  "json_kind L =
     \<lparr>qk_signal = text_only, qk_not_text = ''invalid text in config IP'', qk_compile = json_compile L,
      qk_answers = (\<lambda>f ip. Returned (json_answers L f ip)), qk_leaves = False\<rparr>"

definition JSONQuery_process ::
    "'q ring_ops \<Rightarrow> bool \<Rightarrow> ('p, 'f, 'j) jaq_lib \<Rightarrow> nat \<Rightarrow> 'f JSONQueryComponent \<times> 'q node_io \<Rightarrow> NodeContext \<Rightarrow>
     (('f JSONQueryComponent \<times> 'q node_io) \<times> NodeContext \<times> ProcessResult) outcome option" where
  "JSONQuery_process R chk L = query_process R chk (json_kind L)"

definition json_input_default :: string where
  "json_input_default =
     ''['' @ [CHR 0x22] @ ''Hello'' @ [CHR 0x22] @ '', '' @ [CHR 0x22] @ ''world'' @ [CHR 0x22] @ '']''"

definition JSONQuery_metadata :: ComponentComponentPayload where
  "JSONQuery_metadata = metadata_default\<lparr>
     comp_name := ''JSONQuery'',
     comp_description :=
       ''Reads IPs containing JSON data, filters them using jaq/jq and sends the processed resp. filtered data to the OUT port.'',
     comp_icon := ''filter'', subgraph := False,
     in_ports := [any_port ''QUERY'' False ''filter to apply to the JSON data, in jaq/jq filter syntax'' ''.[]'',
       any_port ''IN'' False ''IPs to process, expected to contain JSON data'' json_input_default],
     out_ports := [any_port ''OUT'' False ''processed IPs with filtered JSON data'' '''']\<rparr>"

end
