(* ===== verification/Query_Properties.thy ===== *)
theory Query_Properties
  imports Queries Stages "HOL-Library.Sublist"
begin

text \<open>
  Properties of the components of \<open>Queries\<close>: what they send for the packets they take, that their loops
  end, how several results for one packet overdraw the budget, and what \<open>HTMLStrip\<close> leaves of a page.
\<close>

section \<open>Results\<close>

lemma checked_dec_Returned: "checked_dec chk b = Returned b' \<longleftrightarrow> b' = b - 1 \<and> \<not> (chk \<and> b = 0)"
  by (auto simp: checked_dec_def)

lemma emit_results_logs:
  "emit_results R chk out ms b w io = Returned (full, b', w', io') \<Longrightarrow>
   \<exists>n \<le> length ms. io_read io' = io_read io \<and>
     io_sent io' = io_sent io @ map (Pair (sk_sink out)) (take n ms) \<and> (full \<longleftrightarrow> n < length ms) \<and> w' = w + n"
proof (induction ms arbitrary: b w io)
  case (Cons m ms)
  obtain io1 ok where p: "push R m out io = (io1, ok)" by fastforce
  show ?case
  proof (cases ok)
    case False
    with Cons.prems p push_logs [OF p] show ?thesis by (intro exI [of _ 0]) auto
  next
    case True
    with Cons.prems p obtain b1 where "emit_results R chk out ms b1 (w + 1) io1 = Returned (full, b', w', io')"
      by (auto simp: outcome_bind_Returned)
    from Cons.IH [OF this] obtain n where "n \<le> length ms" "io_read io' = io_read io1"
      "io_sent io' = io_sent io1 @ map (Pair (sk_sink out)) (take n ms)" "full \<longleftrightarrow> n < length ms" "w' = w + 1 + n"
      by blast
    with True push_logs [OF p] show ?thesis by (intro exI [of _ "Suc n"]) auto
  qed
qed auto

text \<open>What was sent for a packet: all of its results, or the first ones.\<close>

definition answered ::
    "(MessageBuf \<Rightarrow> MessageBuf list outcome) \<Rightarrow> MessageBuf \<Rightarrow> MessageBuf list \<Rightarrow> bool" where
  "answered answers m sent \<longleftrightarrow> (\<exists>ms. answers m = Returned ms \<and> prefix sent ms)"

definition completely ::
    "(MessageBuf \<Rightarrow> MessageBuf list outcome) \<Rightarrow> MessageBuf \<Rightarrow> MessageBuf list \<Rightarrow> bool" where
  "completely answers m sent \<longleftrightarrow> answers m = Returned sent"

lemma query_loop_logs:
  "query_loop R chk answers leaves inn out fuel b w io = Some (Returned (b', w', io')) \<Longrightarrow>
   \<exists>taken parts. io_read io' = io_read io @ map (Pair inn) taken \<and>
     io_sent io' = io_sent io @ map (Pair (sk_sink out)) (concat parts) \<and>
     list_all2 (answered answers) taken parts \<and> w' = w + length (concat parts) \<and>
     (leaves \<longrightarrow> list_all2 (completely answers) (butlast taken) (butlast parts))"
proof (induction fuel arbitrary: b w io)
  case (Suc fuel)
  obtain io1 e where e: "is_empty R inn io = (io1, e)" by fastforce
  obtain io2 got where g: "pop R inn io1 = (io2, got)" by fastforce
  note q = is_empty_quiet [OF e] pop_logs [OF g]
  show ?case
  proof (cases "b = 0 \<or> e \<or> got = None")
    case True
    with Suc.prems e g q show ?thesis
      by (auto simp: quiet_def intro!: exI [of _ "[]"] split: bool.splits if_splits)
  next
    case False
    then obtain m where m: "b \<noteq> 0" "\<not> e" "got = Some m" by auto
    with Suc.prems e g obtain ms where ms: "answers m = Returned ms" by (auto split: outcome.splits)
    with Suc.prems e g m obtain full b1 w1 io3 where
      em: "emit_results R chk out ms b w io2 = Returned (full, b1, w1, io3)" by (auto split: outcome.splits)
    from emit_results_logs [OF em] obtain n where n: "n \<le> length ms" "io_read io3 = io_read io2"
      "io_sent io3 = io_sent io2 @ map (Pair (sk_sink out)) (take n ms)" "full \<longleftrightarrow> n < length ms" "w1 = w + n"
      by blast
    have one: "answered answers m (take n ms)" using ms by (auto simp: answered_def take_is_prefix)
    show ?thesis
    proof (cases "full \<and> leaves \<or> b1 = 0")
      case True
      with Suc.prems e g m ms em have "b' = b1" "w' = w1" "io' = io3" by auto
      with q m n one show ?thesis
        by (intro exI [of _ "[m]"] exI [of _ "[take n ms]"]) (auto simp: quiet_def)
    next
      case False
      with Suc.prems e g m ms em have
        "query_loop R chk answers leaves inn out fuel b1 w1 io3 = Some (Returned (b', w', io'))" by auto
      from Suc.IH [OF this] obtain taken parts where t:
        "io_read io' = io_read io3 @ map (Pair inn) taken"
        "io_sent io' = io_sent io3 @ map (Pair (sk_sink out)) (concat parts)"
        "list_all2 (answered answers) taken parts" "w' = w1 + length (concat parts)"
        "leaves \<longrightarrow> list_all2 (completely answers) (butlast taken) (butlast parts)" by blast
      have "length taken = length parts" using t(3) by (rule list_all2_lengthD)
      moreover have "leaves \<longrightarrow> completely answers m (take n ms)" using False n ms by (auto simp: completely_def)
      ultimately show ?thesis using q m n one t
        by (intro exI [of _ "m # taken"] exI [of _ "take n ms # parts"]) (auto simp: quiet_def)
    qed
  qed
qed simp

lemma query_end_logs:
  "query_end R inn b w (c, io) ctx = ((c', io'), ctx', r) \<Longrightarrow>
   c' = c \<and> quiet io io' \<and> ctx' = ctx\<lparr>remaining_budget := b\<rparr>"
  by (auto simp: query_end_def Let_def split: prod.splits dest: is_abandoned_quiet)

lemma query_process_loop:
  assumes "qu_query c = Some f"
    and "query_process R chk K fuel (c, io) ctx = Some (Returned ((c', io'), ctx', r))"
    and "check_signals R (qk_signal K) io = (io1, False)"
  obtains b w io2 where
    "query_loop R chk (qk_answers K f) (qk_leaves K) (qu_inn c) (qu_out c) fuel (remaining_budget ctx) 0 io1 =
       Some (Returned (b, w, io2))"
    "query_end R (qu_inn c) b w (c, io2) ctx = ((c', io'), ctx', r)"
  using assms by (auto simp: query_process_def outcome_bind_Returned)

text \<open>
  C29. A configured \<open>RegexpExtract\<close>, \<open>TeraTemplate\<close>, \<open>HTMLQuery\<close> or \<open>JSONQuery\<close> sends, for the packets
  it takes and in their order, the results of each: all of them, or the first ones. Where a full OUT ends
  the loop over the packets, only the results for the last packet can be incomplete.
\<close>

theorem queries_answer_in_order:
  assumes "qu_query c = Some f"
    and "query_process R chk K fuel (c, io) ctx = Some (Returned ((c', io'), ctx', r))"
  shows "\<exists>taken parts. io_read io' = io_read io @ map (Pair (qu_inn c)) taken \<and>
    io_sent io' = io_sent io @ map (Pair (sk_sink (qu_out c))) (concat parts) \<and>
    list_all2 (answered (qk_answers K f)) taken parts \<and>
    (qk_leaves K \<longrightarrow> list_all2 (completely (qk_answers K f)) (butlast taken) (butlast parts))"
proof -
  obtain io1 stop where s: "check_signals R (qk_signal K) io = (io1, stop)" by fastforce
  note q = check_signals_quiet [OF s]
  show ?thesis
  proof (cases stop)
    case True
    with assms s q show ?thesis by (auto simp: query_process_def quiet_def intro!: exI [of _ "[]"])
  next
    case False
    with s obtain b w io2 where l:
      "query_loop R chk (qk_answers K f) (qk_leaves K) (qu_inn c) (qu_out c) fuel (remaining_budget ctx) 0 io1 =
        Some (Returned (b, w, io2))"
      "query_end R (qu_inn c) b w (c, io2) ctx = ((c', io'), ctx', r)"
      using query_process_loop [OF assms] by metis
    from query_loop_logs [OF l(1)] query_end_logs [OF l(2)] q show ?thesis by (fastforce simp: quiet_def)
  qed
qed

text \<open>For the examples: a package whose filter is a character, whose results are the parts between it.\<close>

definition demo_jaq :: "(char, char, string) jaq_lib" where
  "demo_jaq = \<lparr>jaq_parse = (\<lambda>t. (Some (hd t), [])), jaq_compile = (\<lambda>p. (p, [])),
     jaq_run = (\<lambda>f v. map Inr (split_on f v)), json_from_slice = from_utf8\<rparr>"

definition demo_query :: "char QueryComponent" where
  "demo_query = \<lparr>qu_conf = 2, qu_inn = 0, qu_out = demo_sink, qu_query = Some (CHR '','')\<rparr>"

definition demo_json :: MessageBuf where
  "demo_json = MBytes [97, 44, 98]"

lemma demo_answers: "json_answers demo_jaq (CHR '','') demo_json = [MBytes [97], MBytes [98]]"
  by code_simp

lemma queries_answer_in_order_witness:
  "\<exists>c' io' ctx' r parts.
     query_process list_ring True (json_kind demo_jaq) 2
       (demo_query, node_io_new (demo_channels [demo_json] 5 []) []) (demo_context 2) =
       Some (Returned ((c', io'), ctx', r)) \<and>
     io_sent io' = map (Pair 1) (concat parts) \<and> list_all2 (answered (\<lambda>ip. Returned (json_answers demo_jaq (CHR '','') ip))) [demo_json] parts"
proof -
  let ?s = "(demo_query, node_io_new (demo_channels [demo_json] 5 []) [])"
  obtain c' io' ctx' r where p: "query_process list_ring True (json_kind demo_jaq) 2 ?s (demo_context 2) =
      Some (Returned ((c', io'), ctx', r))" "io_read io' = [(0, demo_json)]"
    by (simp add: query_process_def demo_query_def json_kind_def demo_answers demo_context_def with_budget_def
        node_io_new_def demo_channels_def run_defs query_end_def numeral_2_eq_2 checked_dec_def)
  have "qu_query demo_query = Some (CHR '','')" by (simp add: demo_query_def)
  from queries_answer_in_order [OF this p(1)] p show ?thesis
    by (force simp: demo_query_def node_io_new_def json_kind_def map_eq_Cons_conv)
qed

section \<open>The loops end\<close>

context ring begin

lemma waiting_emit:
  "emit_results R chk out ms b w io = Returned (full, b', w', io') \<Longrightarrow> sk_sink out \<noteq> c \<Longrightarrow>
   waiting held c io' \<le> waiting held c io"
proof (induction ms arbitrary: b w io)
  case (Cons m ms)
  obtain io1 ok where p: "push R m out io = (io1, ok)" by fastforce
  show ?case
  proof (cases ok)
    case True
    with Cons.prems(1) p obtain b1 where "emit_results R chk out ms b1 (w + 1) io1 = Returned (full, b', w', io')"
      by (auto simp: outcome_bind_Returned)
    from Cons.IH [OF this Cons.prems(2)] waiting_push [OF p Cons.prems(2)] show ?thesis by simp
  qed (use Cons.prems p waiting_push [OF p] in simp)
qed simp

lemma query_loop_returns:
  "waiting held inn io < fuel \<Longrightarrow> sk_sink out \<noteq> inn \<Longrightarrow>
   query_loop R chk answers leaves inn out fuel b w io \<noteq> None"
proof (induction fuel arbitrary: b w io)
  case (Suc fuel)
  obtain io1 e where e: "is_empty R inn io = (io1, e)" by fastforce
  obtain io2 got where g: "pop R inn io1 = (io2, got)" by fastforce
  show ?case
  proof (cases "b = 0 \<or> e \<or> got = None")
    case True
    with e g show ?thesis by (auto split: bool.splits)
  next
    case False
    then obtain m where m: "b \<noteq> 0" "\<not> e" "got = Some m" by auto
    have less: "waiting held inn io2 < fuel"
      using waiting_is_empty [OF e, of inn] waiting_pop [OF g] m Suc.prems(1) by simp
    show ?thesis
    proof (cases "answers m")
      case (Panicked msg)
      with e g m show ?thesis by simp
    next
      case (Returned ms)
      show ?thesis
      proof (cases "emit_results R chk out ms b w io2")
        case (Panicked msg)
        with e g m \<open>answers m = Returned ms\<close> show ?thesis by simp
      next
        case (Returned x)
        obtain full b1 w1 io3 where x: "x = (full, b1, w1, io3)" by (metis prod.exhaust)
        from waiting_emit [OF Returned [unfolded x] Suc.prems(2)] less have "waiting held inn io3 < fuel" by simp
        from Suc.IH [OF this Suc.prems(2)] e g m \<open>answers m = Returned ms\<close> Returned x show ?thesis by simp
      qed
    qed
  qed
qed simp

end



section \<open>More results than budget\<close>

context ring begin

lemma emit_results_room:
  assumes "io_external io = []"
    and "length (held (io_channels io (sk_sink out))) + length ms \<le> cap (io_channels io (sk_sink out))"
  shows "\<exists>io'. io_external io' = [] \<and> io_signals io' = io_signals io \<and> io_read io' = io_read io \<and>
    io_sent io' = io_sent io @ map (Pair (sk_sink out)) ms \<and>
    (\<forall>d. d \<noteq> sk_sink out \<longrightarrow> io_channels io' d = io_channels io d) \<and>
    emit_results R chk out ms b w io =
      (if chk \<and> unat b < length ms then Panicked ''attempt to subtract with overflow''
       else Returned (False, b - of_nat (length ms), w + length ms, io'))"
  using assms
proof (induction ms arbitrary: b w io)
  case (Cons m ms)
  obtain io1 where p: "push R m out io = (io1, True)"
    "held (io_channels io1 (sk_sink out)) = held (io_channels io (sk_sink out)) @ [m]"
    "cap (io_channels io1 (sk_sink out)) = cap (io_channels io (sk_sink out))"
    "\<forall>d. d \<noteq> sk_sink out \<longrightarrow> io_channels io1 d = io_channels io d"
    "io_external io1 = []" "io_signals io1 = io_signals io" "io_read io1 = io_read io"
    "io_sent io1 = io_sent io @ [(sk_sink out, m)]"
    by (rule push_alone [of io out m, OF Cons.prems(1)]) (use Cons.prems(2) in auto)
  have "length (held (io_channels io1 (sk_sink out))) + length ms \<le> cap (io_channels io1 (sk_sink out))"
    using p(2,3) Cons.prems(2) by simp
  from Cons.IH [OF p(5) this, of "b - 1" "w + 1"] obtain io' where
    ih: "io_external io' = []" "io_signals io' = io_signals io1" "io_read io' = io_read io1"
    "io_sent io' = io_sent io1 @ map (Pair (sk_sink out)) ms"
    "\<forall>d. d \<noteq> sk_sink out \<longrightarrow> io_channels io' d = io_channels io1 d"
    "emit_results R chk out ms (b - 1) (w + 1) io1 =
      (if chk \<and> unat (b - 1) < length ms then Panicked ''attempt to subtract with overflow''
       else Returned (False, b - 1 - of_nat (length ms), w + 1 + length ms, io'))" by blast
  have step: "emit_results R chk out (m # ms) b w io =
      outcome_bind (checked_dec chk b) (\<lambda>b1. emit_results R chk out ms b1 (w + 1) io1)"
    using p(1) by simp
  show ?case
  proof (intro exI [of _ io'] conjI)
    show "emit_results R chk out (m # ms) b w io =
        (if chk \<and> unat b < length (m # ms) then Panicked ''attempt to subtract with overflow''
         else Returned (False, b - of_nat (length (m # ms)), w + length (m # ms), io'))"
    proof (cases "chk \<and> b = 0")
      case True
      then show ?thesis unfolding step by (simp add: checked_dec_def)
    next
      case False
      then have "chk \<Longrightarrow> unat (b - 1) < length ms \<longleftrightarrow> unat b < length (m # ms)"
        using unat_minus_one [of b] unat_gt_0 [of b] by auto
      with False have "(chk \<and> unat (b - 1) < length ms) \<longleftrightarrow> (chk \<and> unat b < length (m # ms))" by blast
      moreover have "b - 1 - of_nat (length ms) = b - of_nat (length (m # ms))" by simp
      moreover have "checked_dec chk b = Returned (b - 1)" using False by (auto simp: checked_dec_def)
      ultimately show ?thesis unfolding step by (simp only: ih(6) outcome_bind_simps) simp
    qed
  qed (simp_all add: ih p)
qed auto

end

context ring begin

text \<open>The loop on one packet whose results all fit in OUT but not in the budget.\<close>

lemma query_loop_one:
  assumes "answers m = Returned ms" "io_external io = []" "held (io_channels io inn) = [m]"
    and "length (held (io_channels io (sk_sink out))) + length ms \<le> cap (io_channels io (sk_sink out))"
    and "inn \<noteq> sk_sink out" "b \<noteq> 0"
  shows "\<exists>io'. io_sent io' = io_sent io @ map (Pair (sk_sink out)) ms \<and>
    query_loop R chk answers leaves inn out (Suc (Suc fuel)) b w io =
      Some (if chk \<and> unat b < length ms then Panicked ''attempt to subtract with overflow''
            else Returned (b - of_nat (length ms), w + length ms, io'))"
proof -
  obtain q where p: "pop R inn io =
      (io\<lparr>io_channels := (io_channels io)(inn := q), io_read := io_read io @ [(inn, m)]\<rparr>, Some m)"
    "held q = []"
    by (rule pop_alone [OF assms(2,3)])
  let ?io = "io\<lparr>io_channels := (io_channels io)(inn := q), io_read := io_read io @ [(inn, m)]\<rparr>"
  have e: "is_empty R inn io = (io, False)"
    using assms(2,3) by (simp add: is_empty_def slots_def slots_held)
  have x: "io_external ?io = []"
    "length (held (io_channels ?io (sk_sink out))) + length ms \<le> cap (io_channels ?io (sk_sink out))"
    using assms(2,4,5) by auto
  obtain io' where io': "io_external io' = []" "io_sent io' = io_sent ?io @ map (Pair (sk_sink out)) ms"
    "\<forall>d. d \<noteq> sk_sink out \<longrightarrow> io_channels io' d = io_channels ?io d"
    "emit_results R chk out ms b w ?io =
      (if chk \<and> unat b < length ms then Panicked ''attempt to subtract with overflow''
       else Returned (False, b - of_nat (length ms), w + length ms, io'))"
    using emit_results_room [OF x] by blast
  have "is_empty R inn io' = (io', True)"
    using io'(1,3) assms(5) p(2) by (simp add: is_empty_def slots_def slots_held)
  with io'(2,4) p(1) e assms(1,6) show ?thesis by (intro exI [of _ io']) simp
qed

end

text \<open>
  When a packet has more results than there is budget, and OUT takes them all, the call overdraws its
  budget: a debug build panics, so the node is retired; a release build sends all results and goes on with
  a budget of about two to the thirty-second, so its turn is no longer bounded.
\<close>

lemma results_overdraw_budget:
  assumes "ring R cap held" and "qu_query c = Some f" and "qk_answers K f m = Returned ms"
    and "io_external io = []" and "io_signals io = []" and "held (io_channels io (qu_inn c)) = [m]"
    and "length (held (io_channels io (sk_sink (qu_out c)))) + length ms \<le> cap (io_channels io (sk_sink (qu_out c)))"
    and "qu_inn c \<noteq> sk_sink (qu_out c)"
    and "0 < budget_left ctx" and "budget_left ctx < length ms" and "length ms < 2 ^ 32" and "2 \<le> fuel"
  shows "query_process R True K fuel (c, io) ctx = Some (Panicked ''attempt to subtract with overflow'') \<and>
    (\<exists>io' ctx' r. query_process R False K fuel (c, io) ctx = Some (Returned ((c, io'), ctx', r)) \<and>
       io_sent io' = io_sent io @ map (Pair (sk_sink (qu_out c))) ms \<and>
       budget_left ctx' = 2 ^ 32 - (length ms - budget_left ctx))"
proof -
  obtain n where n: "fuel = Suc (Suc n)" using assms(12) by (metis add_2_eq_Suc le_Suc_ex)
  let ?b = "remaining_budget ctx"
  have b: "?b \<noteq> 0" "unat ?b < length ms" using assms(9,10) by (auto simp: budget_left_def)
  note one = ring.query_loop_one [where answers = "qk_answers K f", OF assms(1,3,4,6,7,8) b(1)]
  have s: "check_signals R (qk_signal K) io = (io, False)" using assms(4,5) by simp
  from one [of True "qk_leaves K" n 0] s assms(2) n b(2) have debug:
    "query_process R True K fuel (c, io) ctx = Some (Panicked ''attempt to subtract with overflow'')"
    by (auto simp: query_process_def)
  obtain io' where l: "io_sent io' = io_sent io @ map (Pair (sk_sink (qu_out c))) ms"
    "query_loop R False (qk_answers K f) (qk_leaves K) (qu_inn c) (qu_out c) fuel ?b 0 io =
      Some (Returned (?b - of_nat (length ms), length ms, io'))"
    using one [of False "qk_leaves K" n 0] n by auto
  obtain c2 io2 ctx' r where e: "query_end R (qu_inn c) (?b - of_nat (length ms)) (length ms) (c, io') ctx =
      ((c2, io2), ctx', r)" by (metis prod.exhaust)
  note q = query_end_logs [OF e]
  have u: "unat (of_nat (length ms) :: u32) = length ms"
    using assms(11) by (simp add: unat_of_nat)
  have "unat (?b - of_nat (length ms)) = 2 ^ 32 - (length ms - unat ?b)"
    using b(2) by (simp add: unat_sub_if' u size_word_def)
  with l e q s assms(2) debug show ?thesis by (auto simp: query_process_def budget_left_def quiet_def)
qed

lemma results_overdraw_budget_witness:
  "\<exists>io' ctx' r. query_process list_ring False (json_kind demo_jaq) 2
     (demo_query, node_io_new (demo_channels [demo_json] 5 []) []) (demo_context 1) =
       Some (Returned ((demo_query, io'), ctx', r)) \<and>
     io_sent io' = [(1, MBytes [97]), (1, MBytes [98])] \<and> budget_left ctx' = 2 ^ 32 - 1"
proof -
  have "qk_answers (json_kind demo_jaq) (CHR '','') demo_json = Returned [MBytes [97], MBytes [98]]"
    by (simp add: json_kind_def demo_answers)
  from results_overdraw_budget [OF list_ring.ring_axioms _ this, of demo_query
      "node_io_new (demo_channels [demo_json] 5 []) []" "demo_context 1" 2]
  show ?thesis by (simp add: demo_query_def node_io_new_def demo_channels_def)
qed

section \<open>HTMLStrip\<close>

text \<open>
  A reference without flags: the text up to the next tag, without stray closing brackets, then what
  follows the end of the tag.
\<close>

function text_outside_tags :: "u8 list \<Rightarrow> u8 list" where
  "text_outside_tags html =
     (let (outside, tags) = (takeWhile (\<lambda>b. b \<noteq> 60) html, dropWhile (\<lambda>b. b \<noteq> 60) html) in
      filter (\<lambda>b. b \<noteq> 62) outside @
      (case tags of [] \<Rightarrow> [] | _ # inside \<Rightarrow> text_outside_tags (tl (dropWhile (\<lambda>b. b \<noteq> 62) inside))))"
  by pat_completeness auto
termination
proof (relation "measure length", simp, goal_cases)
  case (1 html x out tags t inside)
  then have "length (t # inside) \<le> length html" using length_dropWhile_le [of "\<lambda>b. b \<noteq> 60" html] by simp
  moreover have "length (tl (dropWhile (\<lambda>b. b \<noteq> 62) inside)) \<le> length inside"
    using length_dropWhile_le [of "\<lambda>b. b \<noteq> 62" inside] by simp
  ultimately show ?case by simp
qed

declare text_outside_tags.simps [simp del]

lemma strip_tags_result: "strip_tags t q res bs = res @ strip_tags t q [] bs"
proof (induction bs arbitrary: t q res)
  case (Cons b bs)
  show ?case
    using Cons [of t q "res @ [b]"] Cons [of t q "[b]"] Cons [of True q res] Cons [of False q res] Cons [of t "\<not> q" res]
    by simp (metis Cons append.assoc append_Cons append_Nil)
qed simp

lemma strip_outside:
  "60 \<notin> set xs \<Longrightarrow> 34 \<notin> set xs \<Longrightarrow>
   strip_tags False q [] (xs @ ys) = (if q then xs else filter (\<lambda>b. b \<noteq> 62) xs) @ strip_tags False q [] ys"
  by (induction xs) (auto simp: strip_tags_result [of _ _ "[_]"])

lemma strip_inside:
  "34 \<notin> set xs \<Longrightarrow> 62 \<notin> set xs \<or> q \<Longrightarrow> strip_tags True q [] (xs @ ys) = strip_tags True q [] ys"
  by (induction xs) auto

text \<open>
  C33. On a page without quotation marks \<open>HTMLStrip\<close> computes the reference: the text outside the tags, and
  none of the brackets.
\<close>

theorem strip_is_text_outside_tags:
  assumes "34 \<notin> set html"
  shows "remove_html_tags html = text_outside_tags html"
  using assms
proof (induction html rule: text_outside_tags.induct)
  case (1 html)
  let ?txt = "takeWhile (\<lambda>b. b \<noteq> 60) html" and ?tags = "dropWhile (\<lambda>b. b \<noteq> 60) html"
  have q: "34 \<notin> set ?txt" "34 \<notin> set ?tags" using 1(2) by (auto dest: set_takeWhileD set_dropWhileD)
  have o: "remove_html_tags html = filter (\<lambda>b. b \<noteq> 62) ?txt @ strip_tags False False [] ?tags"
    unfolding remove_html_tags_def
    by (subst takeWhile_dropWhile_id [of "\<lambda>b. b \<noteq> 60" html, symmetric], subst strip_outside)
      (use q(1) in \<open>auto dest: set_takeWhileD\<close>)
  show ?case
  proof (cases ?tags)
    case Nil
    with o show ?thesis by (simp add: text_outside_tags.simps [of html] del: dropWhile_eq_Nil_conv)
  next
    case (Cons t inside)
    then have t: "t = 60" using hd_dropWhile [of "\<lambda>b. b \<noteq> 60" html] by simp
    let ?in = "takeWhile (\<lambda>b. b \<noteq> 62) inside" and ?rest = "dropWhile (\<lambda>b. b \<noteq> 62) inside"
    have i: "34 \<notin> set ?in" "62 \<notin> set ?in" "34 \<notin> set (tl ?rest)"
      using q(2) Cons by (auto dest: set_takeWhileD set_dropWhileD list.set_sel(2))
        (metis list.set_sel(2) list.sel(2) set_dropWhileD)
    have "strip_tags True False [] inside = strip_tags True False [] ?rest"
      by (subst takeWhile_dropWhile_id [of "\<lambda>b. b \<noteq> 62" inside, symmetric], subst strip_inside)
        (use i in auto)
    also have "\<dots> = remove_html_tags (tl ?rest)"
    proof (cases ?rest)
      case (Cons r rs)
      then have "r = 62" using hd_dropWhile [of "\<lambda>b. b \<noteq> 62" inside] by simp
      with Cons show ?thesis by (simp add: remove_html_tags_def)
    qed (simp add: remove_html_tags_def del: dropWhile_eq_Nil_conv)
    also have "\<dots> = text_outside_tags (tl ?rest)"
      using 1(1) [OF refl _ Cons i(3)] Cons by simp
    finally show ?thesis using o Cons t by (simp add: text_outside_tags.simps [of html])
  qed
qed

text \<open>An \<open>a\<close> in bold, and a \<open>b\<close>.\<close>

lemma strip_is_text_outside_tags_witness:
  "remove_html_tags [60, 98, 62, 97, 60, 47, 98, 62, 98] = text_outside_tags [60, 98, 62, 97, 60, 47, 98, 62, 98] \<and>
   remove_html_tags [60, 98, 62, 97, 60, 47, 98, 62, 98] = [97, 98]"
  using strip_is_text_outside_tags [of "[60, 98, 62, 97, 60, 47, 98, 62, 98]"] by (simp add: remove_html_tags_def)

text \<open>
  A quotation mark in the text is dropped, and after it the next tag has no end: all text that follows
  the tag's opening bracket is lost, up to another quotation mark.
\<close>

theorem lone_quote_swallows_text:
  assumes "60 \<notin> set before" and "34 \<notin> set before" and "60 \<notin> set between" and "34 \<notin> set between"
    and "34 \<notin> set after"
  shows "remove_html_tags (before @ [34] @ between @ [60] @ after) = filter (\<lambda>b. b \<noteq> 62) before @ between"
proof -
  have "strip_tags True True [] after = []" using strip_inside [of after True "[]"] assms(5) by simp
  then show ?thesis
    using strip_outside [OF assms(1,2), of False "[34] @ between @ [60] @ after"]
      strip_outside [OF assms(3,4), of True "[60] @ after"]
    by (simp add: remove_html_tags_def)
qed

text \<open>A page of the text \<open>a"b\<close>, a tag, and \<open>c\<close>: the \<open>c\<close> is lost.\<close>

lemma lone_quote_swallows_text_witness:
  "remove_html_tags ([97] @ [34] @ [98] @ [60] @ [112, 62, 99]) = [97, 98]"
  using lone_quote_swallows_text [of "[97]" "[98]" "[112, 62, 99]"] by simp

text \<open>The calls of \<open>HTMLStrip\<close> end, and send one stripped page for each packet taken.\<close>

lemma strip_always_returns:
  assumes "ring R cap held" and "waiting held (hs_inn c) io < fuel" and "sk_sink (hs_out c) \<noteq> hs_inn c"
  shows "\<exists>r. strip_process R chk fuel (c, io) ctx = Some r"
proof -
  obtain io1 stop where s: "check_signals R text_or_utf8 io = (io1, stop)" by fastforce
  have "waiting held (hs_inn c) io1 < fuel"
    using ring.waiting_signals [OF assms(1) s, of "hs_inn c"] assms(2) by simp
  from ring.query_loop_returns [OF assms(1) this assms(3)] s show ?thesis
    by (cases stop) (simp_all add: strip_process_def)
qed

end
