(* ===== verification/Cron.thy ===== *)
theory Cron
  imports Delay Node_Turn
begin

text \<open>
  \<open>Cron\<close> (\<open>components/cron\<close>), which sends an empty packet at every time of a schedule and asks the
  scheduler for its timers. The package for schedules is an argument. Times of day are nanoseconds; the
  wall clock is an argument too, a function of the monotonic clock that may jump in any way.
\<close>

section \<open>State\<close>

type_synonym wall = int

text \<open>\<open>Local::now()\<close>.\<close>

definition local_now :: "'q ring_ops \<Rightarrow> (instant \<Rightarrow> wall) \<Rightarrow> 'q node_io \<Rightarrow> 'q node_io \<times> wall" where
  "local_now R wall io = (case time_now R io of (io1, t) \<Rightarrow> (io1, wall t))"

record ('s, 'i) cron_lib =
  schedule_from_str :: "string \<Rightarrow> 's option"
  upcoming_owned :: "'s \<Rightarrow> wall \<Rightarrow> 'i"
  next_time :: "'i \<Rightarrow> wall option \<times> 'i"

record 'i CronComponent =
  cr_when :: nat
  cr_tick :: ProcessEdgeSink
  cr_schedule :: "'i option"
  cr_next_fire_time :: "wall option"
  cr_timer_armed :: bool

definition Cron_new :: "nat multimap \<Rightarrow> ProcessEdgeSink multimap \<Rightarrow> 'i CronComponent outcome" where
  "Cron_new inports outports =
     outcome_bind (take_last ''WHEN'' ''found no WHEN inport'' inports) (\<lambda>(_, when).
     outcome_bind (take_last ''TICK'' ''found no TICK outport'' outports) (\<lambda>(_, tick).
       Returned \<lparr>cr_when = when, cr_tick = tick, cr_schedule = None, cr_next_fire_time = None,
         cr_timer_armed = False\<rparr>))"

section \<open>Timers\<close>

definition arm_next_timer ::
    "'q ring_ops \<Rightarrow> (instant \<Rightarrow> wall) \<Rightarrow> 'i CronComponent \<times> 'q node_io \<Rightarrow> NodeContext \<Rightarrow>
     ('i CronComponent \<times> 'q node_io) \<times> NodeContext" where
  "arm_next_timer R wall s ctx =
     (case s of (c, io) \<Rightarrow>
        (case cr_next_fire_time c of
           None \<Rightarrow> (s, ctx)
         | Some next \<Rightarrow>
             (let (io1, wall_now) = local_now R wall io; (io2, now) = time_now R io1 in
              ((c\<lparr>cr_timer_armed := True\<rparr>, io2),
               set_wake_at (if wall_now < next then now + nat (next - wall_now) else now) ctx))))"

section \<open>process\<close>

text \<open>The first call with a packet on WHEN.\<close>

definition cron_configure ::
    "'q ring_ops \<Rightarrow> ('s, 'i) cron_lib \<Rightarrow> (instant \<Rightarrow> wall) \<Rightarrow> 'i CronComponent \<times> 'q node_io \<Rightarrow> NodeContext \<Rightarrow>
     (('i CronComponent \<times> 'q node_io) \<times> NodeContext \<times> ProcessResult) outcome" where
  "cron_configure R L wall s ctx =
     (case s of (c, io) \<Rightarrow>
        (case pop R (cr_when c) io of
           (io1, None) \<Rightarrow> Returned ((c, io1), ctx, NoWork)
         | (io1, Some ip) \<Rightarrow>
             (case as_text ip of
                None \<Rightarrow> Panicked ''invalid text in config IP''
              | Some cron_str \<Rightarrow>
                  Returned
                    (case schedule_from_str L cron_str of
                       None \<Rightarrow> ((c, io1), ctx, Finished)
                     | Some schedule \<Rightarrow>
                         (case local_now R wall io1 of
                            (io2, started) \<Rightarrow>
                              (case next_time L (upcoming_owned L schedule started) of
                                 (None, it) \<Rightarrow> ((c, io2), ctx, Finished)
                               | (Some t, it) \<Rightarrow>
                                   (case arm_next_timer R wall
                                       (c\<lparr>cr_schedule := Some it, cr_next_fire_time := Some t\<rparr>, io2) ctx of
                                      (s1, ctx1) \<Rightarrow> (s1, ctx1, DidWork 1))))))))"

text \<open>The tick, when the timer of the scheduler has fired.\<close>

definition cron_fire ::
    "'q ring_ops \<Rightarrow> ('s, 'i) cron_lib \<Rightarrow> (instant \<Rightarrow> wall) \<Rightarrow> 'i CronComponent \<times> 'q node_io \<Rightarrow> NodeContext \<Rightarrow>
     ('i CronComponent \<times> 'q node_io) \<times> NodeContext \<times> ProcessResult" where
  "cron_fire R L wall s ctx =
     (case s of (c, io) \<Rightarrow>
        (case cr_next_fire_time c of
           None \<Rightarrow> (s, ctx, Finished)
         | Some next \<Rightarrow>
             (case push R (from_bytes []) (cr_tick c) io of
                (io1, True) \<Rightarrow>
                  (let c1 = c\<lparr>cr_timer_armed := False\<rparr> in
                   case cr_schedule c1 of
                     None \<Rightarrow> ((c1, io1), ctx, DidWork 1)
                   | Some schedule \<Rightarrow>
                       (case next_time L schedule of
                          (Some t, it) \<Rightarrow>
                            (case arm_next_timer R wall
                                (c1\<lparr>cr_schedule := Some it, cr_next_fire_time := Some t\<rparr>, io1) ctx of
                               (s2, ctx2) \<Rightarrow> (s2, ctx2, DidWork 1))
                        | (None, it) \<Rightarrow>
                            ((c1\<lparr>cr_schedule := Some it, cr_next_fire_time := None\<rparr>, io1), ctx, DidWork 1)))
              | (io1, False) \<Rightarrow>
                  (let (io2, now) = time_now R io1 in
                   ((c, io2), set_wake_at (now + DEFAULT_IO_POLL_INTERVAL) ctx, NoWork)))))"

definition cron_process ::
    "'q ring_ops \<Rightarrow> ('s, 'i) cron_lib \<Rightarrow> (instant \<Rightarrow> wall) \<Rightarrow> 'i CronComponent \<times> 'q node_io \<Rightarrow> NodeContext \<Rightarrow>
     (('i CronComponent \<times> 'q node_io) \<times> NodeContext \<times> ProcessResult) outcome" where
  "cron_process R L wall s ctx =
     (case s of (c, io) \<Rightarrow>
        (case check_signals R text_or_utf8 io of
           (io1, True) \<Rightarrow> Returned ((c, io1), ctx, Finished)
         | (io1, False) \<Rightarrow>
             (if cr_schedule c = None then cron_configure R L wall (c, io1) ctx
              else if \<not> cr_timer_armed c then
                Returned ((c, io1), ctx, if cr_next_fire_time c = None then Finished else NoWork)
              else
                (case take_timer_fired ctx of
                   (ctx1, Some fired) \<Rightarrow> Returned (cron_fire R L wall (c, io1) ctx1)
                 | (ctx1, None) \<Rightarrow>
                     Returned ((c, io1), ctx1, if cr_next_fire_time c = None then Finished else NoWork)))))"

definition Cron_metadata :: ComponentComponentPayload where
  "Cron_metadata = metadata_default\<lparr>
     comp_name := ''Cron'', comp_description := ''Sends an empty packet every time the cron schedule fires'',
     comp_icon := ''clock-o'', subgraph := False,
     in_ports := [any_port ''WHEN'' False ''IP with cron schedule expression'' ''''],
     out_ports := [any_port ''TICK'' False ''tick IP every time the cron schedule fires'' '''']\<rparr>"

end
