(* ===== verification/Cron_Properties.thy ===== *)
theory Cron_Properties
  imports Cron Delay_Properties
begin

text \<open>
  Properties of \<open>Cron\<close>: the invariant of its timer, one tick for each time of the schedule, and wake-ups
  that are not before the scheduled time.
\<close>

section \<open>The calls\<close>


text \<open>What \<open>new\<close> establishes and every call keeps: a timer is armed exactly while a time is scheduled.\<close>

definition cron_ok :: "'i CronComponent \<Rightarrow> bool" where
  "cron_ok c \<longleftrightarrow>
     (cr_schedule c = None \<longrightarrow> cr_next_fire_time c = None \<and> \<not> cr_timer_armed c) \<and>
     (cr_timer_armed c \<longleftrightarrow> cr_next_fire_time c \<noteq> None)"

lemma Cron_new_ok: "Cron_new inports outports = Returned c \<Longrightarrow> cron_ok c"
  by (auto simp: Cron_new_def cron_ok_def outcome_bind_def split: outcome.splits)

lemma arm_next_timer_cases:
  assumes "arm_next_timer R wall (c, io) ctx = (s', ctx')" "cr_next_fire_time c = Some t"
  obtains io1 io' started now where "s' = (c\<lparr>cr_timer_armed := True\<rparr>, io')" "time_now R io = (io1, started)"
    "time_now R io1 = (io', now)" "quiet io io'"
    "ctx' = set_wake_at (if wall started < t then now + nat (t - wall started) else now) ctx"
  using assms by (auto simp: arm_next_timer_def local_now_def time_now_def Let_def quiet_def)

lemma cron_fire_cases:
  assumes "cron_fire R L wall (c, io) ctx = ((c', io'), ctx', r)" "cr_next_fire_time c = Some t" "cr_schedule c = Some it"
  obtains
    (ticked) t' it' iox ioy started now where "next_time L it = (Some t', it')"
      "c' = c\<lparr>cr_timer_armed := True, cr_schedule := Some it', cr_next_fire_time := Some t'\<rparr>" "r = DidWork 1"
      "time_now R iox = (ioy, started)" "time_now R ioy = (io', now)"
      "ctx' = set_wake_at (if wall started < t' then now + nat (t' - wall started) else now) ctx"
      "io_sent io' = io_sent io @ [(sk_sink (cr_tick c), MBytes [])]" "io_read io' = io_read io"
  | (last) it' where "next_time L it = (None, it')"
      "c' = c\<lparr>cr_timer_armed := False, cr_schedule := Some it', cr_next_fire_time := None\<rparr>" "r = DidWork 1"
      "io_sent io' = io_sent io @ [(sk_sink (cr_tick c), MBytes [])]" "io_read io' = io_read io"
  | (full) "c' = c" "r = NoWork" "ctx_wake_at ctx' \<noteq> None" "quiet io io'"
proof -
  obtain io1 ok where p: "push R (from_bytes []) (cr_tick c) io = (io1, ok)" by fastforce
  obtain nt it' where n: "next_time L it = (nt, it')" by fastforce
  note pl = push_logs [OF p]
  show thesis
  proof (cases ok)
    case False
    obtain io2 now where t: "time_now R io1 = (io2, now)" by fastforce
    from assms p False t have "c' = c" "r = NoWork" "ctx' = set_wake_at (now + DEFAULT_IO_POLL_INTERVAL) ctx" "io' = io2"
      by (simp_all add: cron_fire_def)
    moreover have "quiet io io2" using pl False time_now_quiet [OF t] by (simp add: quiet_def)
    ultimately show thesis by (intro full) (simp_all add: set_wake_at_def)
  next
    case True
    show thesis
    proof (cases nt)
      case None
      from assms p True n None have
        "c' = c\<lparr>cr_timer_armed := False, cr_schedule := Some it', cr_next_fire_time := None\<rparr>" "r = DidWork 1" "io' = io1"
        by (simp_all add: cron_fire_def)
      with pl True n None show thesis by (intro last [of it']) (simp_all add: from_bytes_def)
    next
      case (Some t')
      let ?c = "c\<lparr>cr_timer_armed := False, cr_schedule := Some it', cr_next_fire_time := Some t'\<rparr>"
      obtain s2 ctx2 where a: "arm_next_timer R wall (?c, io1) ctx = (s2, ctx2)" by fastforce
      with assms p True n Some have e: "s2 = (c', io')" "ctx2 = ctx'" "r = DidWork 1"
        by (simp_all add: cron_fire_def)
      have n2: "cr_next_fire_time ?c = Some t'" by simp
      obtain io3 started io2 now where b: "s2 = (?c\<lparr>cr_timer_armed := True\<rparr>, io2)"
        "time_now R io1 = (io3, started)" "time_now R io3 = (io2, now)" "quiet io1 io2"
        "ctx2 = set_wake_at (if wall started < t' then now + nat (t' - wall started) else now) ctx"
        using arm_next_timer_cases [OF a n2] by metis
      show thesis
        by (rule ticked [where t' = t' and it' = it' and iox = io1 and ioy = io3 and started = started and now = now])
          (use e b pl True n Some in \<open>auto simp: quiet_def from_bytes_def\<close>)
    qed
  qed
qed

text \<open>A call that returns something else than the end of the node.\<close>

lemma cron_process_cases:
  assumes "cron_process R L wall (c, io) ctx = Returned ((c', io'), ctx', r)"
  obtains
    (same) "c' = c" "ctx' = ctx" "quiet io io'" "r = NoWork \<or> r = Finished"
  | (unset) io1 where "cr_schedule c = None" "quiet io io1"
      "cron_configure R L wall (c, io1) ctx = Returned ((c', io'), ctx', r)"
  | (fired) io1 it fired_at where "cr_schedule c = Some it" "cr_timer_armed c" "timer_fired_at ctx = Some fired_at" "quiet io io1"
      "cron_fire R L wall (c, io1) (ctx\<lparr>timer_fired_at := None\<rparr>) = ((c', io'), ctx', r)"
proof -
  obtain io1 stop where s: "check_signals R text_or_utf8 io = (io1, stop)" by fastforce
  note q = check_signals_quiet [OF s]
  consider "stop" | "\<not> stop" "cr_schedule c = None" | "\<not> stop" "cr_schedule c \<noteq> None" "\<not> cr_timer_armed c"
    | "\<not> stop" "cr_schedule c \<noteq> None" "cr_timer_armed c" "timer_fired_at ctx = None"
    | "\<not> stop" "cr_schedule c \<noteq> None" "cr_timer_armed c" "timer_fired_at ctx \<noteq> None"
    by blast
  then show thesis
  proof cases
    case 1
    with assms s q same show thesis by (simp add: cron_process_def)
  next
    case 2
    with assms s q unset show thesis by (simp add: cron_process_def)
  next
    case 3
    with assms s q same show thesis by (auto simp: cron_process_def)
  next
    case 4
    with assms s q same show thesis by (auto simp: cron_process_def take_timer_fired_def)
  next
    case 5
    with assms s q fired show thesis by (auto simp: cron_process_def take_timer_fired_def)
  qed
qed

section \<open>Properties\<close>

lemma cron_configure_cases:
  assumes "cron_configure R L wall (c, io) ctx = Returned ((c', io'), ctx', r)"
  obtains
    (idle) "c' = c" "ctx' = ctx" "io_sent io' = io_sent io" "r = NoWork \<or> r = Finished"
  | (configured) iox ioy it t started now where
      "c' = c\<lparr>cr_timer_armed := True, cr_schedule := Some it, cr_next_fire_time := Some t\<rparr>"
      "time_now R iox = (ioy, started)" "time_now R ioy = (io', now)" "io_sent io' = io_sent io" "r = DidWork 1"
      "ctx' = set_wake_at (if wall started < t then now + nat (t - wall started) else now) ctx"
proof -
  obtain io1 got where g: "pop R (cr_when c) io = (io1, got)" by fastforce
  obtain io2 t0 where t0: "time_now R io1 = (io2, t0)" by fastforce
  have q: "io_sent io1 = io_sent io" "io_sent io2 = io_sent io"
    using pop_logs [OF g] time_now_quiet [OF t0] by (simp_all add: quiet_def)
  show thesis
  proof (cases "\<exists>m str s t it. got = Some m \<and> as_text m = Some str \<and> schedule_from_str L str = Some s \<and>
      next_time L (upcoming_owned L s (wall t0)) = (Some t, it)")
    case False
    with assms g t0 q idle show thesis
      by (auto simp: cron_configure_def local_now_def split: option.splits prod.splits)
  next
    case True
    then obtain m str s t it where m: "got = Some m" "as_text m = Some str" "schedule_from_str L str = Some s"
      "next_time L (upcoming_owned L s (wall t0)) = (Some t, it)" by blast
    let ?c = "c\<lparr>cr_schedule := Some it, cr_next_fire_time := Some t\<rparr>"
    obtain s2 ctx2 where a: "arm_next_timer R wall (?c, io2) ctx = (s2, ctx2)" by fastforce
    with assms g t0 m have e: "s2 = (c', io')" "ctx2 = ctx'" "r = DidWork 1"
      by (simp_all add: cron_configure_def local_now_def)
    have n: "cr_next_fire_time ?c = Some t" by simp
    obtain io3 started io4 now where b: "s2 = (?c\<lparr>cr_timer_armed := True\<rparr>, io4)" "time_now R io2 = (io3, started)"
      "time_now R io3 = (io4, now)" "quiet io2 io4"
      "ctx2 = set_wake_at (if wall started < t then now + nat (t - wall started) else now) ctx"
      using arm_next_timer_cases [OF a n] by metis
    show thesis
      by (rule configured [where it = it and t = t and iox = io2 and ioy = io3 and started = started and now = now]) (use b e q in \<open>auto simp: quiet_def\<close>)
  qed
qed

text \<open>
  Every call keeps that a timer is armed exactly while a time is scheduled; so the branch for an
  exhausted schedule in the middle of a firing is never taken.
\<close>

theorem cron_keeps_its_invariant:
  assumes "cron_process R L wall (c, io) ctx = Returned ((c', io'), ctx', r)" and "cron_ok c"
  shows "cron_ok c'"
  using assms(1)
proof (cases rule: cron_process_cases)
  case same
  with assms(2) show ?thesis by simp
next
  case (unset io1)
  from unset(3) show ?thesis
    by (cases rule: cron_configure_cases) (use assms(2) in \<open>auto simp: cron_ok_def\<close>)
next
  case (fired io1 it fired_at)
  from fired assms(2) obtain t where "cr_next_fire_time c = Some t" by (auto simp: cron_ok_def)
  from fired(5) this fired(1) show ?thesis
    by (cases rule: cron_fire_cases) (use assms(2) in \<open>auto simp: cron_ok_def\<close>)
qed

text \<open>
  C30. Each tick stands for one time of the schedule: a call sends nothing and leaves a settled schedule as
  it is, or its timer has fired, it sends one empty packet and the schedule advances by one time. A timer
  that has fired is never lost: as long as a time is scheduled, the call that took it asks for another.
\<close>

theorem cron_ticks_once_per_time:
  assumes "cron_process R L wall (c, io) ctx = Returned ((c', io'), ctx', r)" and "cron_ok c"
  shows "((io_sent io' = io_sent io \<and> (cr_schedule c \<noteq> None \<longrightarrow> c' = c)) \<or>
      (io_sent io' = io_sent io @ [(sk_sink (cr_tick c), MBytes [])] \<and> timer_fired_at ctx \<noteq> None \<and>
        (\<exists>it it'. cr_schedule c = Some it \<and> cr_schedule c' = Some it' \<and>
          next_time L it = (cr_next_fire_time c', it')))) \<and>
    (timer_fired_at ctx \<noteq> None \<longrightarrow> timer_fired_at ctx' = None \<longrightarrow> cr_next_fire_time c' \<noteq> None \<longrightarrow>
      ctx_wake_at ctx' \<noteq> None)"
  using assms(1)
proof (cases rule: cron_process_cases)
  case same
  then show ?thesis by (auto simp: quiet_def)
next
  case (unset io1)
  from unset(3) show ?thesis
    by (cases rule: cron_configure_cases) (use unset in \<open>auto simp: quiet_def set_wake_at_def\<close>)
next
  case (fired io1 it fired_at)
  from fired assms(2) obtain t where "cr_next_fire_time c = Some t" by (auto simp: cron_ok_def)
  from fired(5) this fired(1) show ?thesis
    by (cases rule: cron_fire_cases) (use fired in \<open>auto simp: quiet_def set_wake_at_def\<close>)
qed

text \<open>
  When the wall clock runs with the monotonic clock, no wake-up that a call asks for is before the
  scheduled time it is for: the schedule is never ahead of the clock.
\<close>

lemma cron_wakes_not_early:
  assumes "cron_process R L wall (c, io) ctx = Returned ((c', io'), ctx', r)" and "cron_ok c"
    and "\<And>n. wall n = offset + int n"
    and "r = DidWork 1" and "cr_next_fire_time c' = Some t"
  shows "\<exists>k. ctx_wake_at ctx' = Some k \<and> t \<le> wall k"
proof -
  have late: "\<exists>k. ctx_wake_at ctx1 = Some k \<and> t \<le> wall k"
    if "time_now R io1 = (io2, started)" "time_now R io2 = (io3, now)"
      "ctx1 = set_wake_at (if wall started < t then now + nat (t - wall started) else now) ctx0" for io1 io2 io3 started now ctx0 ctx1
  proof -
    have "started \<le> now" using time_now_clock [OF that(1)] time_now_clock [OF that(2)] by simp
    with that(3) assms(3) show ?thesis by (auto simp: set_wake_at_def)
  qed
  from assms(1) show ?thesis
  proof (cases rule: cron_process_cases)
    case same
    with assms(4) show ?thesis by simp
  next
    case (unset io1)
    from unset(3) show ?thesis
    proof (cases rule: cron_configure_cases)
      case (configured iox ioy it t1 started now)
      with assms(5) have "t1 = t" by simp
      from late [OF configured(2,3) configured(6) [unfolded this]] show ?thesis .
    qed (use assms(4) in simp)
  next
    case (fired io1 it fired_at)
    from fired assms(2) obtain t0 where "cr_next_fire_time c = Some t0" by (auto simp: cron_ok_def)
    from fired(5) this fired(1) show ?thesis
    proof (cases rule: cron_fire_cases)
      case (ticked t1 it1 iox ioy started now)
      with assms(5) have "t1 = t" by simp
      from late [OF ticked(4,5) ticked(6) [unfolded this]] show ?thesis .
    qed (use assms(4,5) in simp_all)
  qed
qed

text \<open>For the examples: a package whose schedules are lists of times.\<close>

definition demo_cron :: "(wall list, wall list) cron_lib" where
  "demo_cron = \<lparr>schedule_from_str = (\<lambda>t. Some [5, 9]), upcoming_owned = (\<lambda>s w. filter (\<lambda>t. w < t) s),
     next_time = (\<lambda>it. case it of [] \<Rightarrow> (None, []) | t # ts \<Rightarrow> (Some t, ts))\<rparr>"

definition armed_cron :: "wall list CronComponent" where
  "armed_cron = \<lparr>cr_when = 0, cr_tick = demo_sink, cr_schedule = Some [9], cr_next_fire_time = Some 5,
     cr_timer_armed = True\<rparr>"

lemma armed_cron_ok: "cron_ok armed_cron"
  by (simp add: cron_ok_def armed_cron_def)

text \<open>A call of it whose timer has fired.\<close>

lemma demo_cron_fires:
  "\<exists>io'. cron_process list_ring demo_cron int (armed_cron, node_io_new (demo_channels [] 5 []) [])
       ((demo_context 2)\<lparr>timer_fired_at := Some 6\<rparr>) =
     Returned ((armed_cron\<lparr>cr_schedule := Some [], cr_next_fire_time := Some 9\<rparr>, io'),
       (demo_context 2)\<lparr>ctx_wake_at := Some 9\<rparr>, DidWork 1) \<and>
     io_sent io' = [(1, MBytes [])]"
  by (simp add: cron_process_def armed_cron_def demo_cron_def cron_fire_def arm_next_timer_def local_now_def
      node_io_new_def demo_channels_def run_defs take_timer_fired_def set_wake_at_def from_bytes_def
      demo_context_def with_budget_def new_context_def)

lemma cron_keeps_its_invariant_witness:
  "\<exists>c' io' ctx' r. cron_process list_ring demo_cron int (armed_cron, node_io_new (demo_channels [] 5 []) [])
     ((demo_context 2)\<lparr>timer_fired_at := Some 6\<rparr>) = Returned ((c', io'), ctx', r) \<and> cron_ok c'"
  using demo_cron_fires cron_keeps_its_invariant [OF _ armed_cron_ok] by metis

lemma cron_ticks_once_per_time_witness:
  "\<exists>c' io' ctx' r. cron_process list_ring demo_cron int (armed_cron, node_io_new (demo_channels [] 5 []) [])
     ((demo_context 2)\<lparr>timer_fired_at := Some 6\<rparr>) = Returned ((c', io'), ctx', r) \<and>
     io_sent io' = [(1, MBytes [])] \<and>
     (\<exists>it it'. cr_schedule armed_cron = Some it \<and> cr_schedule c' = Some it' \<and>
        next_time demo_cron it = (cr_next_fire_time c', it'))"
proof -
  obtain c' io' ctx' r where p: "cron_process list_ring demo_cron int
      (armed_cron, node_io_new (demo_channels [] 5 []) []) ((demo_context 2)\<lparr>timer_fired_at := Some 6\<rparr>) =
      Returned ((c', io'), ctx', r)" "io_sent io' = [(1, MBytes [])]"
    using demo_cron_fires by blast
  from cron_ticks_once_per_time [OF p(1) armed_cron_ok] p show ?thesis by (auto simp: node_io_new_def)
qed

lemma cron_wakes_not_early_witness:
  "\<exists>c' io' ctx' k. cron_process list_ring demo_cron int (armed_cron, node_io_new (demo_channels [] 5 []) [])
     ((demo_context 2)\<lparr>timer_fired_at := Some 6\<rparr>) = Returned ((c', io'), ctx', DidWork 1) \<and>
     ctx_wake_at ctx' = Some k \<and> 9 \<le> int k"
proof -
  obtain io' where p: "cron_process list_ring demo_cron int
      (armed_cron, node_io_new (demo_channels [] 5 []) []) ((demo_context 2)\<lparr>timer_fired_at := Some 6\<rparr>) =
      Returned ((armed_cron\<lparr>cr_schedule := Some [], cr_next_fire_time := Some 9\<rparr>, io'),
       (demo_context 2)\<lparr>ctx_wake_at := Some 9\<rparr>, DidWork 1)"
    using demo_cron_fires by blast
  from cron_wakes_not_early [OF p armed_cron_ok, of 0 9] p show ?thesis by fastforce
qed

end
