(* ===== verification/Files.thy ===== *)
theory Files
  imports Delay Converters
begin

text \<open>
  The components on files: \<open>FileReader\<close>, \<open>FileTailer\<close> and \<open>FileWriter\<close> (\<open>components/file\<close>). The file
  system is an argument: what a worker thread of \<open>FileReader\<close> has delivered when it is asked, the tailed
  file of the package \<open>staart\<close>, and what the worker of \<open>FileWriter\<close> answers to each packet.
\<close>

section \<open>FileReader\<close>

definition file_as_utf8 :: "MessageBuf \<Rightarrow> string option" where
  "file_as_utf8 m =
     (case m of
        MText text \<Rightarrow> Some text
      | MBytes bytes \<Rightarrow> from_utf8 bytes
      | MValue (VText text) \<Rightarrow> Some text
      | MValue (VBytes bytes) \<Rightarrow> from_utf8 bytes
      | _ \<Rightarrow> None)"

definition file_text :: "MessageBuf \<Rightarrow> string" where
  "file_text m = (case file_as_utf8 m of None \<Rightarrow> [] | Some t \<Rightarrow> t)"

text \<open>A read under way is the path the worker was given.\<close>

record FileReaderComponent =
  fr_conf :: nat
  fr_out :: ProcessEdgeSink
  fr_filenames :: "MessageBuf list"
  fr_pending_files :: "MessageBuf list"
  fr_pending_read :: "string option"
  fr_finished :: bool

definition FileReader_new :: "nat multimap \<Rightarrow> ProcessEdgeSink multimap \<Rightarrow> FileReaderComponent outcome" where
  "FileReader_new inports outports =
     outcome_bind (take_last ''NAMES'' ''found no NAMES inport'' inports) (\<lambda>(_, conf).
     outcome_bind (take_last ''OUT'' ''found no OUT outport'' outports) (\<lambda>(_, out).
       Returned \<lparr>fr_conf = conf, fr_out = out, fr_filenames = [], fr_pending_files = [],
         fr_pending_read = None, fr_finished = False\<rparr>))"

text \<open>What \<open>rx.try_recv()\<close> gives: the contents, an error of the file system, or nothing (yet, or ever).\<close>

datatype read_poll = Contents "u8 list" | ReadFailed | NotYet | WorkerGone

definition contents_message :: "u8 list \<Rightarrow> MessageBuf" where
  "contents_message contents =
     (case from_utf8 contents of Some text \<Rightarrow> from_str text | None \<Rightarrow> from_bytes contents)"

definition next_filename :: "'q ring_ops \<Rightarrow> FileReaderComponent \<times> 'q node_io \<Rightarrow> FileReaderComponent \<times> 'q node_io" where
  "next_filename R s =
     (case s of (c, io) \<Rightarrow>
        (if fr_filenames c \<noteq> [] then (c, io)
         else
           (case pop R (fr_conf c) io of
              (io1, None) \<Rightarrow> (c, io1)
            | (io1, Some filename) \<Rightarrow> (c\<lparr>fr_filenames := [filename]\<rparr>, io1))))"

definition start_read :: "FileReaderComponent \<Rightarrow> FileReaderComponent" where
  "start_read c =
     (case fr_pending_read c of
        Some p \<Rightarrow> c
      | None \<Rightarrow>
          (case fr_filenames c of [] \<Rightarrow> c | filename # _ \<Rightarrow> c\<lparr>fr_pending_read := Some (file_text filename)\<rparr>))"

text \<open>The end of a read, with budget left: the component, and the units of work it counts for.\<close>

definition complete_read ::
    "'q ring_ops \<Rightarrow> read_poll \<Rightarrow> FileReaderComponent \<times> 'q node_io \<Rightarrow> (FileReaderComponent \<times> 'q node_io) \<times> nat" where
  "complete_read R poll s =
     (case s of (c, io) \<Rightarrow>
        (case fr_pending_read c of
           None \<Rightarrow> (s, 0)
         | Some file_path \<Rightarrow>
             (case poll of
                Contents contents \<Rightarrow>
                  (case push R (contents_message contents) (fr_out c) io of
                     (io1, sent) \<Rightarrow>
                       ((c\<lparr>fr_pending_read := None, fr_filenames := tl (fr_filenames c),
                           fr_pending_files :=
                             (if sent then fr_pending_files c else fr_pending_files c @ [contents_message contents])\<rparr>,
                         io1), 1))
              | ReadFailed \<Rightarrow> ((c\<lparr>fr_pending_read := None, fr_filenames := tl (fr_filenames c)\<rparr>, io), 1)
              | NotYet \<Rightarrow> (s, 0)
              | WorkerGone \<Rightarrow> ((c\<lparr>fr_pending_read := None\<rparr>, io), 0))))"

definition reader_end ::
    "'q ring_ops \<Rightarrow> nat \<Rightarrow> FileReaderComponent \<times> 'q node_io \<Rightarrow> NodeContext \<Rightarrow>
     (FileReaderComponent \<times> 'q node_io) \<times> NodeContext \<times> ProcessResult" where
  "reader_end R w s ctx =
     (case s of (c, io) \<Rightarrow>
        (if 0 < w then (s, ctx, DidWork (of_nat w))
         else
           (let (io1, abandoned) = (if fr_filenames c = [] then is_abandoned R (fr_conf c) io else (io, False)) in
            if abandoned \<and> fr_pending_files c = [] \<and> fr_pending_read c = None then
              ((c\<lparr>fr_finished := True\<rparr>, io1), ctx, Finished)
            else
              (let (io2, now) = time_now R io1 in
               ((c, io2), set_wake_at (now + DEFAULT_IO_POLL_INTERVAL) ctx, NoWork)))))"

definition reader_process ::
    "'q ring_ops \<Rightarrow> read_poll \<Rightarrow> FileReaderComponent \<times> 'q node_io \<Rightarrow> NodeContext \<Rightarrow>
     (FileReaderComponent \<times> 'q node_io) \<times> NodeContext \<times> ProcessResult" where
  "reader_process R poll s ctx =
     (if fr_finished (fst s) then (s, ctx, Finished)
      else
        (case next_filename R s of (c, io) \<Rightarrow>
           (case check_signals R file_text io of
              (io1, True) \<Rightarrow> ((c, io1), ctx, Finished)
            | (io1, False) \<Rightarrow>
                (case repeat_flush R (fr_out c) (budget_left ctx) 0 (fr_pending_files c) io1 of
                   (b, w, p, io2) \<Rightarrow>
                     (case (if 0 < b then complete_read R poll (start_read (c\<lparr>fr_pending_files := p\<rparr>), io2)
                            else ((start_read (c\<lparr>fr_pending_files := p\<rparr>), io2), 0)) of
                        (s3, units) \<Rightarrow> reader_end R (w + units) s3 (with_budget (b - units) ctx))))))"

definition FileReader_metadata :: ComponentComponentPayload where
  "FileReader_metadata = metadata_default\<lparr>
     comp_name := ''FileReader'',
     comp_description := ''Reads the contents of the given files and sends the contents.'',
     comp_icon := ''file'', subgraph := False,
     in_ports := [any_port ''NAMES'' False ''filenames, one per IP'' ''''],
     out_ports := [any_port ''OUT'' False ''contents of the given file(s)'' '''']\<rparr>"

section \<open>FileTailer\<close>

text \<open>A tailed file, as the package keeps it, gives at each read what is new, nothing, or an error.\<close>

record 't tail_lib =
  tail_open :: "string \<Rightarrow> 't option"
  tail_read :: "'t \<Rightarrow> u8 list option \<times> 't"

record 't FileTailerComponent =
  ft_conf :: nat
  ft_out :: ProcessEdgeSink
  ft_filename :: "string option"
  ft_file :: "'t option"
  ft_pending_lines :: "u8 list list"

definition FileTailer_new :: "nat multimap \<Rightarrow> ProcessEdgeSink multimap \<Rightarrow> 't FileTailerComponent outcome" where
  "FileTailer_new inports outports =
     outcome_bind (take_last ''NAME'' ''found no NAME inport'' inports) (\<lambda>(_, conf).
     outcome_bind (take_last ''OUT'' ''found no OUT outport'' outports) (\<lambda>(_, out).
       Returned \<lparr>ft_conf = conf, ft_out = out, ft_filename = None, ft_file = None, ft_pending_lines = []\<rparr>))"

text \<open>The configuration, and whether \<open>process()\<close> goes on after it.\<close>

definition tailer_configure ::
    "'q ring_ops \<Rightarrow> 't tail_lib \<Rightarrow> 't FileTailerComponent \<times> 'q node_io \<Rightarrow>
     (('t FileTailerComponent \<times> 'q node_io) \<times> bool) outcome" where
  "tailer_configure R L s =
     (case s of (c, io) \<Rightarrow>
        (if ft_filename c \<noteq> None then Returned (s, True)
         else
           (case pop R (ft_conf c) io of
              (io1, None) \<Rightarrow> Returned ((c, io1), False)
            | (io1, Some m) \<Rightarrow>
                (case as_text m of
                   None \<Rightarrow> Panicked ''failed to parse filename as text''
                 | Some file_name \<Rightarrow>
                     (case tail_open L file_name of
                        None \<Rightarrow> Returned ((c\<lparr>ft_filename := Some file_name\<rparr>, io1), False)
                      | Some file \<Rightarrow>
                          Returned ((c\<lparr>ft_filename := Some file_name, ft_file := Some file\<rparr>, io1), True))))))"

text \<open>The loop over the file: whether it was left by a stop signal, and the state of file and lines.\<close>

fun tailer_loop ::
    "'q ring_ops \<Rightarrow> 't tail_lib \<Rightarrow> ProcessEdgeSink \<Rightarrow> nat \<Rightarrow> nat \<Rightarrow> u8 list list \<Rightarrow> 't option \<Rightarrow> 'q node_io \<Rightarrow>
     bool \<times> nat \<times> nat \<times> u8 list list \<times> 't option \<times> 'q node_io" where
  "tailer_loop R L out 0 w pending file io = (False, 0, w, pending, file, io)"
| "tailer_loop R L out (Suc b) w pending file io =
     (case check_signals R text_or_utf8 io of
        (io1, True) \<Rightarrow> (True, Suc b, w, pending, file, io1)
      | (io1, False) \<Rightarrow>
          (case file of
             None \<Rightarrow> (False, Suc b, w, pending, file, io1)
           | Some f \<Rightarrow>
               (case tail_read L f of
                  (None, f1) \<Rightarrow> (False, Suc b, w, pending, Some f1, io1)
                | (Some [], f1) \<Rightarrow> (False, Suc b, w, pending, Some f1, io1)
                | (Some (x # xs), f1) \<Rightarrow>
                    (case push R (from_bytes (x # xs)) out io1 of
                       (io2, True) \<Rightarrow> tailer_loop R L out b (w + 1) pending (Some f1) io2
                     | (io2, False) \<Rightarrow> tailer_loop R L out b (w + 1) (pending @ [x # xs]) (Some f1) io2))))"

text \<open>Lines that are pending are sent as packets of bytes.\<close>

definition tailer_idle ::
    "'q ring_ops \<Rightarrow> 't FileTailerComponent \<times> 'q node_io \<Rightarrow> NodeContext \<Rightarrow>
     ('t FileTailerComponent \<times> 'q node_io) \<times> NodeContext \<times> ProcessResult" where
  "tailer_idle R s ctx =
     (case s of (c, io) \<Rightarrow>
        (let (io1, now) = time_now R io in
         ((c, io1), set_wake_at (now + DEFAULT_IO_POLL_INTERVAL) ctx, NoWork)))"

definition tailer_process ::
    "'q ring_ops \<Rightarrow> 't tail_lib \<Rightarrow> 't FileTailerComponent \<times> 'q node_io \<Rightarrow> NodeContext \<Rightarrow>
     (('t FileTailerComponent \<times> 'q node_io) \<times> NodeContext \<times> ProcessResult) outcome" where
  "tailer_process R L s ctx =
     outcome_bind (tailer_configure R L s) (\<lambda>((c, io), go).
       if \<not> go then Returned (tailer_idle R (c, io) ctx)
       else
         (case check_signals R text_or_utf8 io of
            (io1, True) \<Rightarrow> Returned ((c, io1), ctx, Finished)
          | (io1, False) \<Rightarrow>
              (case repeat_flush R (ft_out c) (budget_left ctx) 0 (map from_bytes (ft_pending_lines c)) io1 of
                 (b1, w1, unsent, io2) \<Rightarrow>
                   let pending = drop (length (ft_pending_lines c) - length unsent) (ft_pending_lines c) in
                   (case tailer_loop R L (ft_out c) b1 w1 pending (ft_file c) io2 of
                      (stopped, b2, w2, p2, file, io3) \<Rightarrow>
                        let s3 = (c\<lparr>ft_pending_lines := p2, ft_file := file\<rparr>, io3); ctx2 = with_budget b2 ctx in
                        Returned
                          (if stopped then (s3, ctx2, Finished)
                           else if 0 < w2 then (s3, ctx2, DidWork (of_nat w2))
                           else tailer_idle R s3 ctx2)))))"

definition FileTailer_metadata :: ComponentComponentPayload where
  "FileTailer_metadata = metadata_default\<lparr>
     comp_name := ''FileTailer'',
     comp_description := ''Seeks to the end of the given file and sends new contents.'',
     comp_icon := ''file-o'', subgraph := False,
     in_ports := [any_port ''NAME'' False ''filename, one IP'' ''''],
     out_ports := [any_port ''OUT'' False ''contents of the given file'' '''']\<rparr>"

section \<open>FileWriter\<close>

record FileWriterComponent =
  fw_conf :: nat
  fw_inn :: nat
  fw_filename :: "string option"
  fw_writer_tx :: bool
  fw_pending_writes :: "u8 list list"

definition FileWriter_new :: "nat multimap \<Rightarrow> ProcessEdgeSink multimap \<Rightarrow> FileWriterComponent outcome" where
  "FileWriter_new inports0 outports =
     outcome_bind (take_last ''CONF'' ''found no CONF inport'' inports0) (\<lambda>(inports, conf).
     outcome_bind (take_last ''IN'' ''found no IN inport'' inports) (\<lambda>(_, inn).
       Returned \<lparr>fw_conf = conf, fw_inn = inn, fw_filename = None, fw_writer_tx = False,
         fw_pending_writes = []\<rparr>))"

text \<open>
  What the worker answers: how many results it has delivered when it is asked (each is one unit of work,
  an error too), and what becomes of the packets handed to it, one after the other.
\<close>

datatype send_poll = Handed | WorkerFull | WorkerLost

fun writer_loop ::
    "(nat \<Rightarrow> send_poll) \<Rightarrow> nat \<Rightarrow> nat \<Rightarrow> nat \<Rightarrow> u8 list list \<Rightarrow> bool \<times> nat \<times> nat \<times> u8 list list \<times> u8 list list" where
  "writer_loop sends i 0 w pending = (True, 0, w, pending, [])"
| "writer_loop sends i (Suc b) w [] = (True, Suc b, w, [], [])"
| "writer_loop sends i (Suc b) w (packet # rest) =
     (case sends i of
        Handed \<Rightarrow>
          (case writer_loop sends (i + 1) b (w + 1) rest of
             (tx, b1, w1, p1, handed) \<Rightarrow> (tx, b1, w1, p1, packet # handed))
      | WorkerFull \<Rightarrow> (True, Suc b, w, packet # rest, [])
      | WorkerLost \<Rightarrow> (False, Suc b, w, packet # rest, []))"

text \<open>The configuration: it starts a worker. The result is \<open>None\<close> when there is no packet on CONF.\<close>

definition writer_configure ::
    "'q ring_ops \<Rightarrow> FileWriterComponent \<times> 'q node_io \<Rightarrow>
     ('q node_io \<times> (FileWriterComponent \<times> nat) option) outcome" where
  "writer_configure R s =
     (case s of (c, io) \<Rightarrow>
        (if fw_filename c \<noteq> None \<and> fw_writer_tx c then Returned (io, Some (c, 0))
         else
           (case pop R (fw_conf c) io of
              (io1, None) \<Rightarrow> Returned (io1, None)
            | (io1, Some m) \<Rightarrow>
                (case as_text m of
                   None \<Rightarrow> Panicked ''failed to parse filename as text''
                 | Some file_name \<Rightarrow>
                     Returned (io1, Some (c\<lparr>fw_filename := Some file_name, fw_writer_tx := True\<rparr>, 1))))))"

text \<open>\<open>process()\<close>, with the packets it hands to the worker.\<close>

definition writer_process ::
    "'q ring_ops \<Rightarrow> nat \<Rightarrow> (nat \<Rightarrow> send_poll) \<Rightarrow> FileWriterComponent \<times> 'q node_io \<Rightarrow> NodeContext \<Rightarrow>
     ((FileWriterComponent \<times> 'q node_io) \<times> NodeContext \<times> ProcessResult \<times> u8 list list) outcome" where
  "writer_process R results sends s ctx =
     outcome_bind (writer_configure R s) (\<lambda>(io, configured).
       case configured of
         None \<Rightarrow> Returned ((fst s, io), ctx, NoWork, [])
       | Some (c, w) \<Rightarrow>
           (case check_signals R text_or_utf8 io of
              (io1, True) \<Rightarrow> Returned ((c, io1), ctx, Finished, [])
            | (io1, False) \<Rightarrow>
                let (io2, n) = slots R (fw_inn c) io1; (io3, chunk) = read_chunk R (fw_inn c) n io2;
                    received = (case chunk of None \<Rightarrow> [] | Some ips \<Rightarrow> map packet_bytes ips) in
                (case writer_loop sends 0 (budget_left ctx) (w + results) (fw_pending_writes c @ received) of
                   (tx, b, w1, p, handed) \<Rightarrow>
                     let c1 = c\<lparr>fw_writer_tx := tx, fw_pending_writes := p\<rparr>;
                         (io4, abandoned) = is_abandoned R (fw_inn c) io3 in
                     Returned ((c1, io4), with_budget b ctx,
                       if abandoned \<and> p = [] then Finished else work_result w1, handed))))"

definition FileWriter_metadata :: ComponentComponentPayload where
  "FileWriter_metadata = metadata_default\<lparr>
     comp_name := ''FileWriter'', comp_description := ''Writes the contents of received IPs to the given file.'',
     comp_icon := ''file'', subgraph := False,
     in_ports := [any_port ''CONF'' False ''filename, one IP'' '''',
       any_port ''IN'' False ''data to be written to the given file'' ''''],
     out_ports := []\<rparr>"

end
