(* ===== verification/File_Properties.thy ===== *)
theory File_Properties
  imports Files Stages
begin

text \<open>
  Properties of the components on files: contents and lines are sent in the order they were read, packets
  are handed to the writer in the order they came, and what goes wrong with texts and with files that
  cannot be opened.
\<close>

section \<open>FileReader\<close>

text \<open>What a poll that ends a read delivers.\<close>

definition delivered :: "read_poll \<Rightarrow> MessageBuf list" where
  "delivered poll = (case poll of Contents contents \<Rightarrow> [contents_message contents] | _ \<Rightarrow> [])"




context ring begin

lemma complete_read_order:
  assumes "complete_read R poll (c, io) = ((c', io'), units)"
    and "fr_pending_files c = [] \<or> stuck cap held (sk_sink (fr_out c)) io"
  shows "\<exists>ss new. io_sent io' = io_sent io @ map (Pair (sk_sink (fr_out c))) ss \<and>
    ss @ fr_pending_files c' = fr_pending_files c @ new \<and> (new = [] \<or> new = delivered poll) \<and>
    (new \<noteq> [] \<longrightarrow> fr_filenames c' = tl (fr_filenames c) \<and> fr_pending_read c \<noteq> None \<and> fr_pending_read c' = None)"
proof (cases "fr_pending_read c \<noteq> None \<and> (\<exists>contents. poll = Contents contents)")
  case False
  with assms(1) have "io_sent io' = io_sent io" "fr_pending_files c' = fr_pending_files c"
    by (auto simp: complete_read_def split: option.splits read_poll.splits)
  then show ?thesis by (intro exI [of _ "[]"]) simp
next
  case True
  then obtain contents where poll: "fr_pending_read c \<noteq> None" "poll = Contents contents" by blast
  let ?m = "contents_message contents"
  obtain io1 sent where p: "push R ?m (fr_out c) io = (io1, sent)" by fastforce
  have full: "fr_pending_files c = []" if sent
    using assms(2) stuck_push [of "fr_out c" io ?m] p that by auto
  from assms(1) poll p have "io' = io1" "fr_filenames c' = tl (fr_filenames c)" "fr_pending_read c' = None"
    "fr_pending_files c' = (if sent then fr_pending_files c else fr_pending_files c @ [?m])"
    by (auto simp: complete_read_def)
  with push_logs [OF p] full poll show ?thesis
    by (intro exI [of _ "if sent then [?m] else []"] exI [of _ "[?m]"]) (auto simp: delivered_def)
qed

end




section \<open>FileWriter\<close>

lemma writer_loop_order:
  "writer_loop sends i b w pending = (tx, b', w', p', handed) \<Longrightarrow> handed @ p' = pending \<and> length handed + b' = b"
proof (induction sends i b w pending arbitrary: tx b' w' p' handed rule: writer_loop.induct)
  case (3 sends i b w packet "rest")
  then show ?case
    by (cases "sends i"; cases "writer_loop sends (i + 1) b (w + 1) rest") auto
qed auto

text \<open>
  C31. A call of \<open>FileWriter\<close> hands its packets to the worker in the order they came, those it kept first,
  and keeps what the worker does not take. Of a packet it takes the bytes, of a text nothing: an empty
  packet is handed over in its place.
\<close>

theorem writer_hands_over_in_order:
  assumes "writer_process R results sends (c, io) ctx = Returned ((c', io'), ctx', r, handed)"
  shows "\<exists>conf taken. io_read io' = io_read io @ map (Pair (fw_conf c)) conf @ map (Pair (fw_inn c)) taken \<and>
    length conf \<le> 1 \<and> handed @ fw_pending_writes c' = fw_pending_writes c @ map packet_bytes taken \<and>
    (\<forall>t. MText t \<in> set taken \<longrightarrow> packet_bytes (MText t) = []) \<and> length handed \<le> budget_left ctx"
proof -
  have empty: "packet_bytes (MText t) = []" for t by (simp add: packet_bytes_def as_bytes_def)
  from assms obtain io1 conf where cf: "writer_configure R (c, io) = Returned (io1, conf)"
    by (cases "writer_configure R (c, io)") (auto simp: writer_process_def)
  then have c1: "\<exists>ms. io_read io1 = io_read io @ map (Pair (fw_conf c)) ms \<and> length ms \<le> 1"
    by (auto simp: writer_configure_def split: if_splits prod.splits option.splits dest!: pop_logs
        intro: exI [of _ "[]"] exI [of _ "[_]"])
  show ?thesis
  proof (cases conf)
    case None
    with assms cf c1 show ?thesis by (auto simp: writer_process_def)
  next
    case (Some cw)
    obtain c2 w where cw: "cw = (c2, w)" by fastforce
    with cf Some have c2: "fw_inn c2 = fw_inn c" "fw_pending_writes c2 = fw_pending_writes c"
      by (auto simp: writer_configure_def split: if_splits prod.splits option.splits)
    obtain io2 stop where s: "check_signals R text_or_utf8 io1 = (io2, stop)" by fastforce
    note q = check_signals_quiet [OF s]
    show ?thesis
    proof (cases stop)
      case True
      with assms cf Some cw s q c1 c2 show ?thesis by (auto simp: writer_process_def quiet_def)
    next
      case False
      obtain io3 n where sl: "slots R (fw_inn c2) io2 = (io3, n)" by fastforce
      obtain io4 chunk where ch: "read_chunk R (fw_inn c2) n io3 = (io4, chunk)" by fastforce
      let ?ips = "case chunk of None \<Rightarrow> [] | Some ips \<Rightarrow> ips"
      have rd: "io_read io4 = io_read io3 @ map (Pair (fw_inn c)) ?ips"
        using ch c2(1) by (auto simp: read_chunk_def Let_def split: option.splits)
      have ips: "(case chunk of None \<Rightarrow> [] | Some ips \<Rightarrow> map packet_bytes ips) = map packet_bytes ?ips"
        by (simp split: option.split)
      obtain tx b w1 p h where l:
        "writer_loop sends 0 (budget_left ctx) (w + results) (fw_pending_writes c2 @ map packet_bytes ?ips) =
          (tx, b, w1, p, h)" by (metis prod.exhaust)
      obtain io5 ab where ab: "is_abandoned R (fw_inn c2) io4 = (io5, ab)" by fastforce
      from assms cf Some cw s False sl ch l ab have "handed = h" "fw_pending_writes c' = p" "io' = io5"
        by (simp_all add: writer_process_def ips) auto
      moreover have "io_read io5 = io_read io1 @ map (Pair (fw_inn c)) ?ips"
        using is_abandoned_quiet [OF ab] rd slots_quiet [OF sl] q by (simp add: quiet_def)
      moreover obtain ms where "io_read io1 = io_read io @ map (Pair (fw_conf c)) ms" "length ms \<le> 1"
        using c1 by blast
      ultimately show ?thesis using writer_loop_order [OF l] c2(2) empty
        by (intro exI [of _ ms] exI [of _ ?ips]) auto
    qed
  qed
qed

definition demo_writer :: "bool \<Rightarrow> FileWriterComponent" where
  "demo_writer tx = \<lparr>fw_conf = 1, fw_inn = 0, fw_filename = Some ''a'', fw_writer_tx = tx, fw_pending_writes = [[1]]\<rparr>"

lemma writer_hands_over_in_order_witness:
  "\<exists>c' io' ctx' r handed. writer_process list_ring 0 (\<lambda>_. Handed)
       (demo_writer True, node_io_new (demo_channels [MBytes [2], MText ''b''] 5 []) []) (demo_context 5) =
       Returned ((c', io'), ctx', r, handed) \<and>
     io_read io' = [(0, MBytes [2]), (0, MText ''b'')] \<and> handed @ fw_pending_writes c' = [[1], [2], []]"
proof -
  let ?io = "node_io_new (demo_channels [MBytes [2], MText ''b''] 5 []) []"
  have b: "budget_left (demo_context 5) = Suc (Suc (Suc (Suc (Suc 0))))"
    by (simp add: demo_context_def budget_left_def with_budget_def)
  obtain c' io' ctx' r handed where p: "writer_process list_ring 0 (\<lambda>_. Handed) (demo_writer True, ?io)
      (demo_context 5) = Returned ((c', io'), ctx', r, handed)" "io_read io' = [(0, MBytes [2]), (0, MText ''b'')]"
    by (auto simp: writer_process_def writer_configure_def demo_writer_def node_io_new_def demo_channels_def
        run_defs read_chunk_def numeral_2_eq_2 b)
  from writer_hands_over_in_order [OF p(1)] obtain conf taken where
    t: "io_read io' = map (Pair 1) conf @ map (Pair 0) taken"
    "handed @ fw_pending_writes c' = [[1]] @ map packet_bytes taken"
    by (auto simp: demo_writer_def node_io_new_def)
  then have "conf = []" using p(2) by (cases conf) auto
  with t p(2) have "taken = [MBytes [2], MText ''b'']" by (auto simp: map_eq_Cons_conv Cons_eq_map_conv)
  with t p show ?thesis by (auto simp: packet_bytes_def as_bytes_def)
qed

text \<open>
  Two components in a row: the contents that \<open>FileReader\<close> sends for a file of UTF-8 text are written as
  nothing.
\<close>

lemma text_files_copy_as_nothing:
  "from_utf8 contents = Some t \<Longrightarrow> packet_bytes (contents_message contents) = []"
  "from_utf8 contents = None \<Longrightarrow> packet_bytes (contents_message contents) = contents"
  by (simp_all add: contents_message_def packet_bytes_def message_defs)

context ring begin

lemma writer_without_worker:
  assumes "\<not> fw_writer_tx c" and "io_external io = []" and "held (io_channels io (fw_conf c)) = []"
  shows "writer_process R results sends (c, io) ctx = Returned ((c, io), ctx, NoWork, [])"
  using assms pop_alone_empty [OF assms(2,3)] by (simp add: writer_process_def writer_configure_def)

end

text \<open>
  A \<open>FileWriter\<close> that has lost its worker, as when the file could not be created, is stuck: without a
  second file name no call takes a packet, reads a signal or ends the node, not even on a stop signal and
  with its producer gone.
\<close>

lemma writer_without_worker_never_ends:
  assumes "ring R cap held" and "\<not> fw_writer_tx c" and "io_external io = []"
    and "held (io_channels io (fw_conf c)) = []"
  shows "writer_process R results sends (c, io\<lparr>io_signals := sigs, io_abandoned := gone\<rparr>) ctx =
    Returned ((c, io\<lparr>io_signals := sigs, io_abandoned := gone\<rparr>), ctx, NoWork, [])"
  by (rule ring.writer_without_worker [OF assms(1,2)]) (simp_all add: assms)

text \<open>Its worker is lost while a packet is handed over; the stop signal that follows stays in its channel.\<close>

lemma writer_without_worker_never_ends_witness:
  "(\<exists>io' ctx' r. writer_process list_ring 0 (\<lambda>_. WorkerLost)
       (demo_writer True, node_io_new (demo_channels [] 5 []) []) (demo_context 1) =
       Returned ((demo_writer False, io'), ctx', r, [])) \<and>
   (\<exists>io'. writer_process list_ring 0 (\<lambda>_. WorkerLost)
       (demo_writer False, (node_io_new (demo_channels [MBytes [2]] 5 []) [])
          \<lparr>io_signals := [MText ''stop''], io_abandoned := \<lambda>_. True\<rparr>) (demo_context 1) =
       Returned ((demo_writer False, io'), demo_context 1, NoWork, []) \<and> io_signals io' = [MText ''stop''])"
proof -
  have b: "budget_left (demo_context 1) = Suc 0"
    by (simp add: demo_context_def budget_left_def with_budget_def)
  have "\<exists>io' ctx' r. writer_process list_ring 0 (\<lambda>_. WorkerLost)
       (demo_writer True, node_io_new (demo_channels [] 5 []) []) (demo_context 1) =
       Returned ((demo_writer False, io'), ctx', r, [])"
    using b by (simp add: writer_process_def writer_configure_def demo_writer_def node_io_new_def demo_channels_def
        run_defs read_chunk_def)
  moreover have "writer_process list_ring 0 (\<lambda>_. WorkerLost)
       (demo_writer False, (node_io_new (demo_channels [MBytes [2]] 5 []) [])
          \<lparr>io_signals := [MText ''stop''], io_abandoned := \<lambda>_. True\<rparr>) (demo_context 1) =
       Returned ((demo_writer False, (node_io_new (demo_channels [MBytes [2]] 5 []) [])
          \<lparr>io_signals := [MText ''stop''], io_abandoned := \<lambda>_. True\<rparr>), demo_context 1, NoWork, [])"
    by (rule writer_without_worker_never_ends [OF list_ring.ring_axioms])
      (simp_all add: demo_writer_def node_io_new_def demo_channels_def)
  ultimately show ?thesis by auto
qed

section \<open>FileTailer\<close>

text \<open>What successive reads of the file give, as long as there is something new.\<close>

inductive reads_as :: "'t tail_lib \<Rightarrow> 't \<Rightarrow> u8 list list \<Rightarrow> 't \<Rightarrow> bool" for L :: "'t tail_lib" where
  read_nothing: "reads_as L f [] f"
| read_lines: "tail_read L f = (Some chunk, f1) \<Longrightarrow> chunk \<noteq> [] \<Longrightarrow> reads_as L f1 chunks f2 \<Longrightarrow>
    reads_as L f (chunk # chunks) f2"

inductive_cases reads_as_Cons: "reads_as L f (chunk # chunks) f2"

context ring begin

lemma tailer_loop_order:
  assumes "tailer_loop R L out b w p (Some f) io = (st, b', w', p', f', io')"
    and "io_external io = []" and "p = [] \<or> stuck cap held (sk_sink out) io"
  shows "\<exists>chunks f1 sent. reads_as L f chunks f1 \<and>
    io_sent io' = io_sent io @ map (Pair (sk_sink out)) (map from_bytes sent) \<and> sent @ p' = p @ chunks"
  using assms
proof (induction b arbitrary: w p f io)
  case 0
  then show ?case using read_nothing by (intro exI [of _ "[]"] exI [of _ f]) auto
next
  case (Suc b)
  obtain io1 stop where s: "check_signals R text_or_utf8 io = (io1, stop)" by fastforce
  note q = check_signals_quiet [OF s]
  obtain got f1 where g: "tail_read L f = (got, f1)" by fastforce
  have e1: "io_external io1 = []" using fifo_alone [OF Suc.prems(2) fifo_check_signals [OF s]] .
  show ?case
  proof (cases "stop \<or> got = None \<or> got = Some []")
    case True
    with Suc.prems(1) s g have "io' = io1" "p' = p" by (auto split: bool.splits)
    with q show ?thesis by (intro exI [of _ "[]"] exI [of _ f]) (auto simp: quiet_def intro: read_nothing)
  next
    case False
    then obtain x xs where got: "\<not> stop" "got = Some (x # xs)" by (cases got; cases "the got") auto
    obtain io2 ok where ps: "push R (from_bytes (x # xs)) out io1 = (io2, ok)" by fastforce
    let ?p = "if ok then p else p @ [x # xs]"
    have full: "\<not> ok \<and> stuck cap held (sk_sink out) io2" if "p \<noteq> []"
      using stuck_push [OF stuck_signals [OF _ s], of out "from_bytes (x # xs)"] that Suc.prems(3) ps by auto
    have e2: "io_external io2 = []" using fifo_alone [OF e1 fifo_push [OF ps]] .
    have st2: "?p = [] \<or> stuck cap held (sk_sink out) io2"
      using full push_gets_stuck [of "from_bytes (x # xs)" out io1 io2] ps e1 by (cases ok) auto
    have "tailer_loop R L out b (w + 1) ?p (Some f1) io2 = (st, b', w', p', f', io')"
      using Suc.prems(1) s g got ps by (cases ok) simp_all
    from Suc.IH [OF this e2 st2] obtain chunks f2 sent where ih: "reads_as L f1 chunks f2"
      "io_sent io' = io_sent io2 @ map (Pair (sk_sink out)) (map from_bytes sent)" "sent @ p' = ?p @ chunks" by blast
    have "reads_as L f ((x # xs) # chunks) f2" using g got ih(1) by (auto intro: read_lines)
    with ih q push_logs [OF ps] full show ?thesis
      by (intro exI [of _ "(x # xs) # chunks"] exI [of _ f2] exI [of _ "if ok then (x # xs) # sent else sent"])
        (auto simp: quiet_def)
  qed
qed

end

lemma tailer_idle_frame: "tailer_idle R (c, io) ctx = ((c', io'), ctx', r) \<Longrightarrow> c' = c \<and> quiet io io' \<and> r = NoWork"
  by (auto simp: tailer_idle_def Let_def split: prod.splits dest: time_now_quiet)

text \<open>
  A call of a configured \<open>FileTailer\<close> sends the lines it kept and then the new contents of its file, in
  the order it read them, and keeps what OUT does not take. When its file could not be opened it stays
  without one: the name is not tried again, and the call sends nothing.
\<close>

theorem tailer_sends_what_it_reads:
  assumes "ring R cap held" and "tailer_process R L (c, io) ctx = Returned ((c', io'), ctx', r)"
    and "ft_filename c \<noteq> None" and "io_external io = []"
  shows "\<exists>chunks sent. io_sent io' = io_sent io @ map (Pair (sk_sink (ft_out c))) (map from_bytes sent) \<and>
    sent @ ft_pending_lines c' = ft_pending_lines c @ chunks \<and>
    (case ft_file c of None \<Rightarrow> chunks = [] \<and> ft_file c' = None | Some f \<Rightarrow> \<exists>f1. reads_as L f chunks f1)"
proof -
  obtain io1 stop where s: "check_signals R text_or_utf8 io = (io1, stop)" by fastforce
  note q = check_signals_quiet [OF s]
  show ?thesis
  proof (cases stop)
    case True
    with assms(2,3) s have "c' = c" "io' = io1" by (auto simp: tailer_process_def tailer_configure_def)
    with q show ?thesis
      by (intro exI [of _ "[]"]) (auto simp: quiet_def split: option.split intro: read_nothing)
  next
    case False
    let ?ls = "ft_pending_lines c"
    obtain b1 w1 unsent io2 where
      fl: "repeat_flush R (ft_out c) (budget_left ctx) 0 (map from_bytes ?ls) io1 = (b1, w1, unsent, io2)"
      by (metis prod.exhaust)
    have e1: "io_external io1 = []" using fifo_alone [OF assms(4) ring.fifo_check_signals [OF assms(1) s]] .
    note fo = ring.flush_order [OF assms(1) fl e1]
    obtain ss where ss: "map from_bytes ?ls = ss @ unsent"
      "io_sent io2 = io_sent io1 @ map (Pair (sk_sink (ft_out c))) ss"
      using repeat_flush_logs [OF fl] by blast
    let ?n = "length ?ls - length unsent"
    have n: "length ?ls = length ss + length unsent" using arg_cong [OF ss(1), of length] by simp
    then have t: "ss = map from_bytes (take ?n ?ls)" "unsent = map from_bytes (drop ?n ?ls)"
      using arg_cong [OF ss(1), of "take (length ss)"] arg_cong [OF ss(1), of "drop (length ss)"]
      by (simp_all add: take_map drop_map)
    obtain st b2 w2 p2 fl2 io3 where
      l: "tailer_loop R L (ft_out c) b1 w1 (drop ?n ?ls) (ft_file c) io2 = (st, b2, w2, p2, fl2, io3)"
      by (metis prod.exhaust)
    from assms(2,3) s False fl l have c': "c' = c\<lparr>ft_pending_lines := p2, ft_file := fl2\<rparr>" "quiet io3 io'"
      using tailer_idle_frame [of R "c\<lparr>ft_pending_lines := p2, ft_file := fl2\<rparr>" io3]
      by (auto simp: tailer_process_def tailer_configure_def Let_def split: if_splits)
    have "\<exists>chunks sent. io_sent io3 = io_sent io2 @ map (Pair (sk_sink (ft_out c))) (map from_bytes sent) \<and>
      sent @ p2 = drop ?n ?ls @ chunks \<and>
      (case ft_file c of None \<Rightarrow> chunks = [] \<and> fl2 = None | Some f \<Rightarrow> \<exists>f1. reads_as L f chunks f1)"
    proof (cases "ft_file c")
      case None
      with l check_signals_quiet [of R text_or_utf8 io2] show ?thesis
        by (intro exI [of _ "[]"], cases b1) (auto simp: quiet_def split: prod.splits bool.splits)
    next
      case (Some f)
      have "b1 = 0 \<or> drop ?n ?ls = [] \<or> stuck cap held (sk_sink (ft_out c)) io2" using fo(3) t(2) by auto
      then show ?thesis
      proof
        assume "b1 = 0"
        with l Some have "p2 = drop ?n ?ls" "io3 = io2" by auto
        with Some show ?thesis by (intro exI [of _ "[]"]) (auto intro: read_nothing)
      next
        assume "drop ?n ?ls = [] \<or> stuck cap held (sk_sink (ft_out c)) io2"
        from ring.tailer_loop_order [OF assms(1) l [unfolded Some] fo(2) this] Some show ?thesis by auto
      qed
    qed
    then obtain chunks sent where m: "io_sent io3 = io_sent io2 @ map (Pair (sk_sink (ft_out c))) (map from_bytes sent)"
      "sent @ p2 = drop ?n ?ls @ chunks"
      "case ft_file c of None \<Rightarrow> chunks = [] \<and> fl2 = None | Some f \<Rightarrow> \<exists>f1. reads_as L f chunks f1" by blast
    have "(take ?n ?ls @ sent) @ p2 = ?ls @ chunks" unfolding append_assoc m(2) by (metis append_assoc append_take_drop_id)
    with m ss t(1) c' q show ?thesis
      by - (rule exI [of _ chunks], rule exI [of _ "take ?n ?ls @ sent"],
          auto simp: quiet_def split: option.splits)
  qed
qed

text \<open>For the example: a file that grows by what a list says.\<close>

definition demo_tail :: "u8 list list tail_lib" where
  "demo_tail = \<lparr>tail_open = (\<lambda>_. None),
     tail_read = (\<lambda>f. case f of [] \<Rightarrow> (Some [], []) | x # xs \<Rightarrow> (Some x, xs))\<rparr>"

definition demo_tailer :: "u8 list list FileTailerComponent" where
  "demo_tailer = \<lparr>ft_conf = 0, ft_out = demo_sink, ft_filename = Some ''a'', ft_file = Some [[7]],
     ft_pending_lines = [[6]]\<rparr>"

lemma tailer_sends_what_it_reads_witness:
  "\<exists>c' io' ctx' r. tailer_process list_ring demo_tail (demo_tailer, node_io_new (demo_channels [] 5 []) [])
       (demo_context 3) = Returned ((c', io'), ctx', r) \<and>
     io_sent io' = [(1, MBytes [6]), (1, MBytes [7])] \<and>
     (\<exists>chunks sent. io_sent io' = map (Pair 1) (map from_bytes sent) \<and> sent @ ft_pending_lines c' = [6] # chunks)"
proof -
  have b: "budget_left (demo_context 3) = Suc (Suc (Suc 0))"
    by (simp add: demo_context_def budget_left_def with_budget_def)
  obtain c' io' ctx' r where p: "tailer_process list_ring demo_tail
      (demo_tailer, node_io_new (demo_channels [] 5 []) []) (demo_context 3) = Returned ((c', io'), ctx', r)"
    "io_sent io' = [(1, MBytes [6]), (1, MBytes [7])]"
    by (simp add: tailer_process_def tailer_configure_def demo_tailer_def demo_tail_def node_io_new_def b
        demo_channels_def run_defs from_bytes_def)
  from tailer_sends_what_it_reads [OF list_ring.ring_axioms p(1)]
  have "\<exists>chunks sent. io_sent io' = map (Pair 1) (map from_bytes sent) \<and> sent @ ft_pending_lines c' = [6] # chunks"
    by (force simp: demo_tailer_def node_io_new_def)
  with p show ?thesis by blast
qed

end
