(* ===== verification/Sockets.thy ===== *)
theory Sockets
  imports Files "HOL-Library.AList"
begin

text \<open>
  What the components on sockets share (\<open>components/tcp\<close>, \<open>unixsocket\<close>, \<open>ws\<close>, \<open>tls\<close>): the errors and the
  retries of \<open>component_api/src/lib.rs\<close> (with \<open>should_retry\<close> of \<open>Messages\<close>), the lossy reading of bytes as text, and the frames
  \<open>CLIENT_ID:data\<close>. Sockets themselves are arguments.
\<close>

section \<open>Retries\<close>

text \<open>
  The multiplier is a floating-point number whose only value in the code is 2.0. Products of it with whole
  milliseconds are exact, and the cast to \<open>u64\<close> saturates, so whole numbers stand for it.
\<close>

record RetryConfig =
  max_retries :: u32
  initial_delay :: duration
  backoff_multiplier :: nat
  max_delay :: duration

definition retry_config_default :: RetryConfig where
  "retry_config_default =
     \<lparr>max_retries = 3, initial_delay = 1000000000, backoff_multiplier = 2, max_delay = 30000000000\<rparr>"

record RetryState =
  attempt :: u32
  next_retry_at :: instant
  last_error_type :: ErrorType

definition RetryState_new :: "instant \<Rightarrow> RetryState" where
  "RetryState_new now = \<lparr>attempt = 0, next_retry_at = now, last_error_type = Transient\<rparr>"

definition retry_delay :: "RetryConfig \<Rightarrow> u32 \<Rightarrow> duration" where
  "retry_delay config n =
     (let ms = initial_delay config div 1000000 * backoff_multiplier config ^ unat (saturating_sub n 1)
      in min (1000000 * min ms (2 ^ 64 - 1)) (max_delay config))"

text \<open>It is called only below the maximum of attempts, so the addition does not overflow.\<close>

definition calculate_next_retry :: "RetryConfig \<Rightarrow> instant \<Rightarrow> RetryState \<Rightarrow> RetryState" where
  "calculate_next_retry config now s =
     s\<lparr>attempt := attempt s + 1, next_retry_at := now + retry_delay config (attempt s + 1)\<rparr>"

definition is_ready_to_retry :: "instant \<Rightarrow> RetryState \<Rightarrow> bool" where
  "is_ready_to_retry now s \<longleftrightarrow> next_retry_at s \<le> now"

section \<open>Lossy text\<close>

text \<open>
  \<open>String::from_utf8_lossy\<close>: the well-formed characters, and U+FFFD for each longest start of a
  character that is cut off. \<open>utf8_step\<close> says whether a character begins the bytes, and how many of them
  belong to it or are replaced.
\<close>

definition byte_between :: "nat \<Rightarrow> nat \<Rightarrow> nat \<Rightarrow> nat list \<Rightarrow> bool" where
  "byte_between i lo hi xs \<longleftrightarrow> i < length xs \<and> utf8_between lo hi (xs ! i)"

fun utf8_step :: "nat list \<Rightarrow> bool \<times> nat" where
  "utf8_step [] = (False, 1)"
| "utf8_step (a # r) =
     (if a < 0x80 then (True, 1)
      else if utf8_between 0xC2 0xDF a then
        (if byte_between 0 0x80 0xBF r then (True, 2) else (False, 1))
      else if utf8_between 0xE0 0xEF a then
        (if \<not> byte_between 0 (if a = 0xE0 then 0xA0 else 0x80) (if a = 0xED then 0x9F else 0xBF) r then (False, 1)
         else if \<not> byte_between 1 0x80 0xBF r then (False, 2)
         else (True, 3))
      else if utf8_between 0xF0 0xF4 a then
        (if \<not> byte_between 0 (if a = 0xF0 then 0x90 else 0x80) (if a = 0xF4 then 0x8F else 0xBF) r then (False, 1)
         else if \<not> byte_between 1 0x80 0xBF r then (False, 2)
         else if \<not> byte_between 2 0x80 0xBF r then (False, 3)
         else (True, 4))
      else (False, 1))"

lemma utf8_step_positive: "0 < snd (utf8_step xs)"
  by (cases xs) auto

function utf8_lossy :: "nat list \<Rightarrow> nat list" where
  "utf8_lossy [] = []"
| "utf8_lossy (a # r) =
     (case utf8_step (a # r) of
        (ok, n) \<Rightarrow> (if ok then take n (a # r) else [0xEF, 0xBF, 0xBD]) @ utf8_lossy (drop n (a # r)))"
  by pat_completeness auto
termination
proof (relation "measure length")
  fix a r x y assume "(x, y) = utf8_step (a # r)"
  then have "0 < y" using utf8_step_positive [of "a # r"] by (metis snd_conv)
  then show "(drop y (a # r), a # r) \<in> measure length" by simp
qed simp

declare utf8_lossy.simps(2) [simp del]

definition from_utf8_lossy :: "u8 list \<Rightarrow> string" where
  "from_utf8_lossy bytes = map char_of (utf8_lossy (map unat bytes))"

section \<open>Frames\<close>

definition parse_u32 :: "string \<Rightarrow> u32 option" where
  "parse_u32 s =
     (let ds = (case s of c # r \<Rightarrow> if c = CHR ''+'' then r else s | [] \<Rightarrow> [])
      in if ds \<noteq> [] \<and> list_all is_digit ds \<and> digits_value ds < 2 ^ 32
         then Some (of_nat (digits_value ds)) else None)"

definition framed_text :: "u32 \<Rightarrow> u8 list \<Rightarrow> string" where
  "framed_text client_id bytes = show_nat (unat client_id) @ '':'' @ from_utf8_lossy bytes"

text \<open>The client a response is for, and the position of the colon in the text of the packet.\<close>

definition frame_target :: "u8 list \<Rightarrow> (u32 \<times> nat) option" where
  "frame_target bytes =
     (let text = from_utf8_lossy bytes; client_id = takeWhile (\<lambda>ch. ch \<noteq> CHR '':'') text in
      if length client_id = length text then None
      else (case parse_u32 client_id of None \<Rightarrow> None | Some target \<Rightarrow> Some (target, length client_id)))"

definition message_bytes :: "MessageBuf \<Rightarrow> u8 list" where
  "message_bytes m = (case as_bytes m of None \<Rightarrow> [] | Some d \<Rightarrow> d)"

end
