(* ===== verification/Net_Clients.thy ===== *)
theory Net_Clients
  imports Sockets
begin

text \<open>
  The clients on sockets: \<open>TCPClient\<close>, \<open>WSClient\<close> and \<open>UnixSocketClient\<close>. A worker thread connects; what
  \<open>try_send\<close> to it and \<open>try_recv\<close> from it give in a call of \<open>process()\<close> are arguments, each asked at most once.
  An argument too is whether the thread that runs \<open>process()\<close> is inside a Tokio runtime, without which
  \<open>tokio::spawn\<close> panics by its documentation.
\<close>

section \<open>A connected client\<close>

text \<open>The loop that collects packets: budget, work, packets.\<close>

fun collect_messages ::
    "'q ring_ops \<Rightarrow> nat \<Rightarrow> nat \<Rightarrow> nat \<Rightarrow> MessageBuf list \<Rightarrow> 'q node_io \<Rightarrow>
     (nat \<times> nat \<times> MessageBuf list \<times> 'q node_io) outcome" where
  "collect_messages R inn 0 w pending io = Returned (0, w, pending, io)"
| "collect_messages R inn (Suc b) w pending io =
     (case is_empty R inn io of
        (io1, True) \<Rightarrow> Returned (Suc b, w, pending, io1)
      | (io1, False) \<Rightarrow>
          (case read_chunk R inn 1 io1 of
             (io2, None) \<Rightarrow> Panicked ''receive as chunk failed''
           | (io2, Some chunk) \<Rightarrow> collect_messages R inn b (w + 1) (pending @ chunk) io2))"

text \<open>The task that is spawned only logs the packets.\<close>

definition spawn_sender :: "bool \<Rightarrow> nat \<Rightarrow> nat \<Rightarrow> MessageBuf list \<Rightarrow> (nat \<times> nat \<times> MessageBuf list) outcome" where
  "spawn_sender in_runtime b w pending =
     (if pending = [] \<or> b = 0 then Returned (b, w, pending)
      else if \<not> in_runtime then
        Panicked ''there is no reactor running, must be called from the context of a Tokio 1.x runtime''
      else Returned (b - 1, w + 1, []))"

text \<open>
  The branch \<open>Connected\<close>: whether the client finishes, the packets still pending in both directions, the
  work. \<open>flushed\<close> says whether the end of IN waits for the packets received (\<open>UnixSocketClient\<close>).
\<close>

definition connected_step ::
    "'q ring_ops \<Rightarrow> bool \<Rightarrow> bool \<Rightarrow> nat \<Rightarrow> ProcessEdgeSink \<Rightarrow> MessageBuf list \<Rightarrow> MessageBuf list \<Rightarrow> nat \<Rightarrow> 'q node_io \<Rightarrow>
     (bool \<times> MessageBuf list \<times> MessageBuf list \<times> nat \<times> nat \<times> 'q node_io) outcome" where
  "connected_step R in_runtime flushed inn out pending received budget io =
     outcome_bind (collect_messages R inn budget 0 pending io) (\<lambda>(b1, w1, p1, io1).
     outcome_bind (spawn_sender in_runtime b1 w1 p1) (\<lambda>(b2, w2, p2).
       case repeat_flush R out b2 w2 received io1 of
         (b3, w3, received1, io2) \<Rightarrow>
           (case is_abandoned R inn io2 of
              (io3, abandoned) \<Rightarrow>
                Returned (abandoned \<and> (flushed \<longrightarrow> received1 = []), p2, received1, b3, w3, io3))))"

text \<open>What a call that stays connected returns: work, or a poll a moment later.\<close>

definition poll_later :: "'q ring_ops \<Rightarrow> 'c \<times> 'q node_io \<Rightarrow> NodeContext \<Rightarrow> ('c \<times> 'q node_io) \<times> NodeContext \<times> ProcessResult" where
  "poll_later R s ctx =
     (case s of (c, io) \<Rightarrow>
        (let (io1, now) = time_now R io in ((c, io1), set_wake_at (now + DEFAULT_IO_POLL_INTERVAL) ctx, NoWork)))"

definition work_or_poll ::
    "'q ring_ops \<Rightarrow> nat \<Rightarrow> 'c \<times> 'q node_io \<Rightarrow> NodeContext \<Rightarrow> ('c \<times> 'q node_io) \<times> NodeContext \<times> ProcessResult" where
  "work_or_poll R w s ctx = (if 0 < w then (s, ctx, DidWork (of_nat w)) else poll_later R s ctx)"

section \<open>TCPClient and WSClient\<close>

datatype ('a, 'c) ClientState =
    WaitingForConfig
  | Connecting 'a
  | RetryingConnection 'a RetryState
  | Connected 'c "MessageBuf list"
  | ClientFinished

record ('a, 'c) ClientComponent =
  cl_conf :: nat
  cl_inn :: nat
  cl_out :: ProcessEdgeSink
  cl_state :: "('a, 'c) ClientState"
  cl_pending_received :: "MessageBuf list"
  cl_retry_config :: RetryConfig
  cl_retry_state :: RetryState

definition Client_new ::
    "instant \<Rightarrow> nat multimap \<Rightarrow> ProcessEdgeSink multimap \<Rightarrow> ('a, 'c) ClientComponent outcome" where
  "Client_new now inports0 outports =
     outcome_bind (take_last ''CONF'' ''found no CONF inport'' inports0) (\<lambda>(inports, conf).
     outcome_bind (take_last ''IN'' ''found no IN inport'' inports) (\<lambda>(_, inn).
     outcome_bind (take_last ''OUT'' ''found no OUT outport'' outports) (\<lambda>(_, out).
       Returned \<lparr>cl_conf = conf, cl_inn = inn, cl_out = out, cl_state = WaitingForConfig,
         cl_pending_received = [], cl_retry_config = retry_config_default, cl_retry_state = RetryState_new now\<rparr>)))"

text \<open>What \<open>result_rx.try_recv()\<close> gives: a connection, an error, nothing yet, or that the worker is gone.\<close>

datatype ('e, 's) connect_poll = Connection 's | ConnectError 'e | NoResult | ResultsClosed

text \<open>
  In what the two clients differ: the address they read from CONF, how they classify errors, and what they
  keep of a connection.
\<close>

record ('a, 'e, 's, 'c) client_kind =
  ck_address :: "MessageBuf \<Rightarrow> 'a outcome"
  ck_classify :: "'e \<Rightarrow> ErrorType"
  ck_keep :: "'s \<Rightarrow> 'c"

text \<open>A connection that failed: the retry state is taken out of the component, which gets a new one.\<close>

definition connect_failed ::
    "'q ring_ops \<Rightarrow> ErrorType \<Rightarrow> 'a \<Rightarrow> ('a, 'c) ClientComponent \<times> 'q node_io \<Rightarrow>
     (('a, 'c) ClientComponent \<times> 'q node_io) \<times> ProcessResult" where
  "connect_failed R error_type addr s =
     (case s of (c, io) \<Rightarrow>
        (if should_retry (attempt (cl_retry_state c)) error_type (max_retries (cl_retry_config c)) then
           (let (io1, taken_at) = time_now R io; (io2, now) = time_now R io1;
                retry_state = (calculate_next_retry (cl_retry_config c) now (cl_retry_state c))
                  \<lparr>last_error_type := error_type\<rparr> in
            ((c\<lparr>cl_retry_state := RetryState_new taken_at, cl_state := RetryingConnection addr retry_state\<rparr>, io2),
             DidWork 1))
         else ((c\<lparr>cl_state := ClientFinished\<rparr>, io), Finished)))"

definition client_connecting ::
    "'q ring_ops \<Rightarrow> ('a, 'e, 's, 'c) client_kind \<Rightarrow> ('e, 's) connect_poll \<Rightarrow> 'a \<Rightarrow>
     ('a, 'c) ClientComponent \<times> 'q node_io \<Rightarrow> NodeContext \<Rightarrow>
     (('a, 'c) ClientComponent \<times> 'q node_io) \<times> NodeContext \<times> ProcessResult" where
  "client_connecting R K poll addr s ctx =
     (case s of (c, io) \<Rightarrow>
        (case poll of
           Connection sock \<Rightarrow> ((c\<lparr>cl_state := Connected (ck_keep K sock) []\<rparr>, io), ctx, DidWork 1)
         | ConnectError e \<Rightarrow>
             (case connect_failed R (ck_classify K e) addr (c, io) of (s1, r) \<Rightarrow> (s1, ctx, r))
         | NoResult \<Rightarrow> poll_later R (c, io) ctx
         | ResultsClosed \<Rightarrow> poll_later R (c, io) ctx))"

text \<open>The budget of a call without work is only decremented when it is not zero.\<close>

definition idle_call :: "NodeContext \<Rightarrow> NodeContext" where
  "idle_call ctx = (if budget_left ctx = 0 then ctx else with_budget (budget_left ctx - 1) ctx)"

text \<open>
  Without a configuration: \<open>process\<close> puts \<open>Finished\<close> in place of the state it takes out, and the last branch
  leaves it there.
\<close>

definition client_waiting ::
    "'q ring_ops \<Rightarrow> ('a, 'e, 's, 'c) client_kind \<Rightarrow> send_poll \<Rightarrow> ('e, 's) connect_poll \<Rightarrow>
     ('a, 'c) ClientComponent \<times> 'q node_io \<Rightarrow> NodeContext \<Rightarrow>
     ((('a, 'c) ClientComponent \<times> 'q node_io) \<times> NodeContext \<times> ProcessResult) outcome" where
  "client_waiting R K sends poll s ctx =
     (case s of (c, io) \<Rightarrow>
        (case pop R (cl_conf c) io of
           (io1, Some m) \<Rightarrow>
             outcome_bind (ck_address K m) (\<lambda>addr.
               Returned
                 (case sends of
                    Handed \<Rightarrow> ((c\<lparr>cl_state := Connecting addr\<rparr>, io1), ctx, DidWork 1)
                  | WorkerFull \<Rightarrow> ((c\<lparr>cl_state := WaitingForConfig\<rparr>, io1), ctx, NoWork)
                  | WorkerLost \<Rightarrow> ((c\<lparr>cl_state := ClientFinished\<rparr>, io1), ctx, Finished)))
         | (io1, None) \<Rightarrow>
             Returned
               (case poll of
                  Connection sock \<Rightarrow> ((c\<lparr>cl_state := Connected (ck_keep K sock) []\<rparr>, io1), ctx, DidWork 1)
                | ConnectError e \<Rightarrow> ((c\<lparr>cl_state := ClientFinished\<rparr>, io1), ctx, Finished)
                | ResultsClosed \<Rightarrow> ((c\<lparr>cl_state := ClientFinished\<rparr>, io1), ctx, Finished)
                | NoResult \<Rightarrow> ((c\<lparr>cl_state := ClientFinished\<rparr>, io1), idle_call ctx, NoWork))))"

definition client_retrying ::
    "'q ring_ops \<Rightarrow> send_poll \<Rightarrow> 'a \<Rightarrow> RetryState \<Rightarrow> ('a, 'c) ClientComponent \<times> 'q node_io \<Rightarrow> NodeContext \<Rightarrow>
     (('a, 'c) ClientComponent \<times> 'q node_io) \<times> NodeContext \<times> ProcessResult" where
  "client_retrying R sends addr retry_state s ctx =
     (case s of (c, io) \<Rightarrow>
        (let (io1, now) = time_now R io; waits = c\<lparr>cl_state := RetryingConnection addr retry_state\<rparr> in
         if is_ready_to_retry now retry_state then
           (case sends of
              Handed \<Rightarrow> ((c\<lparr>cl_state := Connecting addr\<rparr>, io1), ctx, DidWork 1)
            | WorkerFull \<Rightarrow> poll_later R (waits, io1) ctx
            | WorkerLost \<Rightarrow> ((c\<lparr>cl_state := ClientFinished\<rparr>, io1), ctx, Finished))
         else ((waits, io1), set_wake_at (next_retry_at retry_state) ctx, NoWork)))"

definition client_connected ::
    "'q ring_ops \<Rightarrow> bool \<Rightarrow> 'c \<Rightarrow> MessageBuf list \<Rightarrow> ('a, 'c) ClientComponent \<times> 'q node_io \<Rightarrow> NodeContext \<Rightarrow>
     ((('a, 'c) ClientComponent \<times> 'q node_io) \<times> NodeContext \<times> ProcessResult) outcome" where
  "client_connected R in_runtime conn pending s ctx =
     (case s of (c, io) \<Rightarrow>
        outcome_bind
          (connected_step R in_runtime False (cl_inn c) (cl_out c) pending (cl_pending_received c) (budget_left ctx) io)
          (\<lambda>(ends, p, received, b, w, io1).
             let c1 = c\<lparr>cl_pending_received := received\<rparr>; ctx1 = with_budget b ctx in
             Returned
               (if ends then ((c1\<lparr>cl_state := ClientFinished\<rparr>, io1), ctx1, Finished)
                else work_or_poll R w (c1\<lparr>cl_state := Connected conn p\<rparr>, io1) ctx1)))"

definition client_process ::
    "'q ring_ops \<Rightarrow> ('a, 'e, 's, 'c) client_kind \<Rightarrow> bool \<Rightarrow> send_poll \<Rightarrow> ('e, 's) connect_poll \<Rightarrow>
     ('a, 'c) ClientComponent \<times> 'q node_io \<Rightarrow> NodeContext \<Rightarrow>
     ((('a, 'c) ClientComponent \<times> 'q node_io) \<times> NodeContext \<times> ProcessResult) outcome" where
  "client_process R K in_runtime sends poll s ctx =
     (case s of (c, io) \<Rightarrow>
        (case check_signals R text_or_utf8 io of
           (io1, True) \<Rightarrow> Returned ((c\<lparr>cl_state := ClientFinished\<rparr>, io1), ctx, Finished)
         | (io1, False) \<Rightarrow>
             (case cl_state c of
                WaitingForConfig \<Rightarrow> client_waiting R K sends poll (c, io1) ctx
              | Connecting addr \<Rightarrow> Returned (client_connecting R K poll addr (c, io1) ctx)
              | RetryingConnection addr retry_state \<Rightarrow> Returned (client_retrying R sends addr retry_state (c, io1) ctx)
              | Connected conn pending \<Rightarrow> client_connected R in_runtime conn pending (c, io1) ctx
              | ClientFinished \<Rightarrow> Returned ((c, io1), ctx, Finished))))"

section \<open>The worker\<close>

text \<open>
  One round of the worker thread: it takes a command, connects, and answers when the bounded channel has
  room. A connection attempt that panics is an error too.
\<close>

definition DEFAULT_MAX_PENDING :: nat where "DEFAULT_MAX_PENDING = 100"

definition worker_round ::
    "('a \<Rightarrow> ('e + 's) outcome) \<Rightarrow> 'e \<Rightarrow> 'a list \<times> ('e + 's) list \<Rightarrow> 'a list \<times> ('e + 's) list" where
  "worker_round connect on_panic s =
     (case s of
        ([], results) \<Rightarrow> s
      | (addr # commands, results) \<Rightarrow>
          (let result = (case connect addr of Panicked _ \<Rightarrow> Inl on_panic | Returned r \<Rightarrow> r) in
           (commands, if length results < DEFAULT_MAX_PENDING then results @ [result] else results)))"

section \<open>What is particular to TCPClient\<close>

text \<open>The package \<open>url\<close>, and \<open>SocketAddr::parse_ascii\<close>.\<close>

record parsed_url =
  url_host_str :: "string option"
  url_port :: "nat option"
  url_path :: string
  url_pairs :: "(string \<times> string) list"

record 'a address_libs =
  url_parse :: "string \<Rightarrow> parsed_url option"
  socket_addr_parse :: "string \<Rightarrow> 'a option"

definition outcome_expect :: "string \<Rightarrow> 'b option \<Rightarrow> 'b outcome" where
  "outcome_expect msg v = (case v of None \<Rightarrow> Panicked msg | Some x \<Rightarrow> Returned x)"

definition tcp_address :: "'a address_libs \<Rightarrow> MessageBuf \<Rightarrow> 'a outcome" where
  "tcp_address P m =
     outcome_bind (outcome_expect ''invalid utf-8'' (message_as_utf8 m)) (\<lambda>url_str.
     outcome_bind (outcome_expect ''failed to parse URL'' (url_parse P url_str)) (\<lambda>url.
     outcome_bind (outcome_expect ''failed to parse host from URL'' (url_host_str url)) (\<lambda>host.
     outcome_bind (outcome_expect ''failed to parse port from URL'' (url_port url)) (\<lambda>port.
       outcome_expect ''failed to parse socket address from URL''
         (socket_addr_parse P (host @ '':'' @ show_nat port))))))"

definition classify_tcp_error :: "ErrorKind \<Rightarrow> ErrorType" where
  "classify_tcp_error kind =
     (if kind \<in> {TimedOut, Interrupted, WouldBlock} then Transient
      else if kind \<in> {ConnectionRefused, ConnectionReset, ConnectionAborted} then Transient
      else if kind \<in> {NetworkUnreachable, HostUnreachable} then Transient
      else if kind \<in> {NotFound, PermissionDenied, InvalidInput} then Permanent
      else Transient)"

text \<open>The state \<open>Connected\<close> of \<open>TCPClient\<close> has no field for the stream, which is dropped.\<close>

definition tcp_kind :: "'a address_libs \<Rightarrow> ('a, ErrorKind, 's, unit) client_kind" where
  "tcp_kind P = \<lparr>ck_address = tcp_address P, ck_classify = classify_tcp_error, ck_keep = (\<lambda>_. ())\<rparr>"

type_synonym 'a TCPClientComponent = "('a, unit) ClientComponent"

definition TCPClient_new :: "instant \<Rightarrow> nat multimap \<Rightarrow> ProcessEdgeSink multimap \<Rightarrow> 'a TCPClientComponent outcome" where
  "TCPClient_new = Client_new"

definition TCPClient_process ::
    "'q ring_ops \<Rightarrow> 'a address_libs \<Rightarrow> bool \<Rightarrow> send_poll \<Rightarrow> (ErrorKind, 's) connect_poll \<Rightarrow>
     'a TCPClientComponent \<times> 'q node_io \<Rightarrow> NodeContext \<Rightarrow>
     (('a TCPClientComponent \<times> 'q node_io) \<times> NodeContext \<times> ProcessResult) outcome" where
  "TCPClient_process R P = client_process R (tcp_kind P)"

definition TCPClient_metadata :: ComponentComponentPayload where
  "TCPClient_metadata = metadata_default\<lparr>
     comp_name := ''TCPClient'',
     comp_description := ''Sends and receives bytes, transformed into IPs, via a TCP connection.'',
     comp_icon := ''plug'', subgraph := False,
     in_ports := [any_port ''CONF'' False
         ''connection URL with optional configuration parameters in query part - currently none defined''
         ''tcp://example.com:8080'',
       any_port ''IN'' False ''incoming TCP bytes, transformed to IPs'' ''''],
     out_ports := [any_port ''OUT'' False ''IPs to be sent as TCP bytes'' '''']\<rparr>"

section \<open>What is particular to WSClient\<close>

datatype ws_error =
    WsIo ErrorKind
  | WsHttp nat
  | WsTls
  | WsProtocol
  | WsCapacity
  | WsUrl
  | WsConnectionClosed
  | WsAlreadyClosed
  | WsUtf8
  | WsOther

definition classify_ws_error :: "ws_error \<Rightarrow> ErrorType" where
  "classify_ws_error e =
     (case e of
        WsIo kind \<Rightarrow> Transient
      | WsHttp status \<Rightarrow> if 500 \<le> status \<and> status < 600 then Transient else Permanent
      | WsTls \<Rightarrow> Transient
      | WsProtocol \<Rightarrow> Permanent
      | WsCapacity \<Rightarrow> Permanent
      | WsUrl \<Rightarrow> Permanent
      | WsConnectionClosed \<Rightarrow> Transient
      | WsAlreadyClosed \<Rightarrow> Transient
      | WsUtf8 \<Rightarrow> Permanent
      | WsOther \<Rightarrow> Transient)"

definition ws_kind :: "(string, ws_error, 's, 's) client_kind" where
  "ws_kind =
     \<lparr>ck_address = (\<lambda>m. outcome_expect ''invalid utf-8'' (message_as_utf8 m)), ck_classify = classify_ws_error,
      ck_keep = (\<lambda>sock. sock)\<rparr>"

type_synonym 's WSClientComponent = "(string, 's) ClientComponent"

definition WSClient_new :: "instant \<Rightarrow> nat multimap \<Rightarrow> ProcessEdgeSink multimap \<Rightarrow> 's WSClientComponent outcome" where
  "WSClient_new = Client_new"

definition WSClient_process ::
    "'q ring_ops \<Rightarrow> bool \<Rightarrow> send_poll \<Rightarrow> (ws_error, 's) connect_poll \<Rightarrow>
     's WSClientComponent \<times> 'q node_io \<Rightarrow> NodeContext \<Rightarrow>
     (('s WSClientComponent \<times> 'q node_io) \<times> NodeContext \<times> ProcessResult) outcome" where
  "WSClient_process R = client_process R ws_kind"

definition WSClient_metadata :: ComponentComponentPayload where
  "WSClient_metadata = metadata_default\<lparr>
     comp_name := ''WSClient'',
     comp_description := ''Sends and receives messages, transformed into IPs, via a WebSocket connection.'',
     comp_icon := ''plug'', subgraph := False,
     in_ports := [any_port ''CONF'' False
         ''connection URL with optional configuration parameters in query part - currently none defined''
         ''wss://example.com:8080/socketpath'',
       any_port ''IN'' False ''incoming WebSocket messages, transformed to IPs'' ''''],
     out_ports := [any_port ''OUT'' False ''IPs to be sent as WebSocket messages'' '''']\<rparr>"

section \<open>UnixSocketClient\<close>

datatype SocketType = Datagram | Stream | SeqPacket

datatype 's UnixSocketClientState =
    UnixWaitingForConfig
  | UnixConnecting
  | UnixConnected 's "MessageBuf list"
  | UnixFinished

record 's UnixSocketClientComponent =
  uc_conf :: nat
  uc_inn :: nat
  uc_out :: ProcessEdgeSink
  uc_state :: "'s UnixSocketClientState"
  uc_read_timeout :: duration
  uc_pending_outbound :: "MessageBuf list"

definition DEFAULT_READ_TIMEOUT :: duration where "DEFAULT_READ_TIMEOUT = 500000000"

definition UnixSocketClient_new ::
    "nat multimap \<Rightarrow> ProcessEdgeSink multimap \<Rightarrow> 's UnixSocketClientComponent outcome" where
  "UnixSocketClient_new inports0 outports =
     outcome_bind (take_last ''CONF'' ''found no CONF inport'' inports0) (\<lambda>(inports, conf).
     outcome_bind (take_last ''IN'' ''found no IN inport'' inports) (\<lambda>(_, inn).
     outcome_bind (take_last ''OUT'' ''found no OUT outport'' outports) (\<lambda>(_, out).
       Returned \<lparr>uc_conf = conf, uc_inn = inn, uc_out = out, uc_state = UnixWaitingForConfig,
         uc_read_timeout = DEFAULT_READ_TIMEOUT, uc_pending_outbound = []\<rparr>)))"

text \<open>The worker connects sequenced-packet sockets only.\<close>

definition unix_connect ::
    "('a \<Rightarrow> (ErrorKind + 's) outcome) \<Rightarrow> 'a \<times> SocketType \<Rightarrow> (ErrorKind + 's) outcome" where
  "unix_connect connect command =
     (case command of (addr, socket_type) \<Rightarrow>
        (case socket_type of
           SeqPacket \<Rightarrow> connect addr
         | Stream \<Rightarrow> Returned (Inl OtherKind)
         | Datagram \<Rightarrow> Returned (Inl OtherKind)))"

text \<open>
  The configuration URL. The result is \<open>None\<close> where \<open>process\<close> logs an error and returns; else the socket
  address, its type and the read timeout. An address is abstract when the URL has a host.
\<close>

datatype unix_address = AbstractAddress string | PathAddress string

definition find_pair :: "string \<Rightarrow> parsed_url \<Rightarrow> string option" where
  "find_pair key url = map_option snd (List.find (\<lambda>(k, _). k = key) (url_pairs url))"

definition unix_address_of :: "parsed_url \<Rightarrow> unix_address option" where
  "unix_address_of url =
     (case url_host_str url of
        Some host \<Rightarrow> Some (AbstractAddress host)
      | None \<Rightarrow> if url_path url = [] \<or> url_path url = ''/'' then None else Some (PathAddress (url_path url)))"

definition unix_socket_type :: "parsed_url \<Rightarrow> SocketType option" where
  "unix_socket_type url =
     (case find_pair ''socket_type'' url of
        None \<Rightarrow> None
      | Some value \<Rightarrow>
          if value = ''seqpacket'' then Some SeqPacket
          else if value = ''stream'' then Some Stream
          else if value = ''dgram'' \<or> value = ''datagram'' then Some Datagram
          else None)"

definition unix_read_timeout :: "parsed_url \<Rightarrow> duration" where
  "unix_read_timeout url =
     (case find_pair ''rtimeout'' url of
        None \<Rightarrow> DEFAULT_READ_TIMEOUT
      | Some value \<Rightarrow>
          (case parse_u64 value of None \<Rightarrow> DEFAULT_READ_TIMEOUT | Some ms \<Rightarrow> 1000000 * unat ms))"

text \<open>\<open>UnixSocketAddr\<close> of the package \<open>uds\<close> refuses some addresses.\<close>

definition unix_configuration ::
    "(string \<Rightarrow> parsed_url option) \<Rightarrow> (unix_address \<Rightarrow> 'a option) \<Rightarrow> MessageBuf \<Rightarrow>
     (('a \<times> SocketType) \<times> duration) option outcome" where
  "unix_configuration parse socket_addr m =
     outcome_bind (outcome_expect ''failed to parse URL'' (parse (text_or_utf8 m))) (\<lambda>url.
       (case (unix_address_of url, unix_socket_type url) of
          (Some (AbstractAddress a), Some t) \<Rightarrow>
            outcome_bind (outcome_expect ''failed to parse abstract socket address'' (socket_addr (AbstractAddress a)))
              (\<lambda>addr. Returned (Some ((addr, t), unix_read_timeout url)))
        | (Some (PathAddress a), Some t) \<Rightarrow>
            outcome_bind (outcome_expect ''failed to parse path socket address'' (socket_addr (PathAddress a)))
              (\<lambda>addr. Returned (Some ((addr, t), unix_read_timeout url)))
        | _ \<Rightarrow> Returned None))"

definition unix_waiting ::
    "'q ring_ops \<Rightarrow> (MessageBuf \<Rightarrow> (('a \<times> SocketType) \<times> duration) option outcome) \<Rightarrow> send_poll \<Rightarrow>
     's UnixSocketClientComponent \<times> 'q node_io \<Rightarrow> NodeContext \<Rightarrow>
     (('s UnixSocketClientComponent \<times> 'q node_io) \<times> NodeContext \<times> ProcessResult) outcome" where
  "unix_waiting R configuration sends s ctx =
     (case s of (c, io) \<Rightarrow>
        (case pop R (uc_conf c) io of
           (io1, None) \<Rightarrow> Returned ((c\<lparr>uc_state := UnixFinished\<rparr>, io1), idle_call ctx, NoWork)
         | (io1, Some m) \<Rightarrow>
             outcome_bind (configuration m) (\<lambda>configured.
               Returned
                 (case configured of
                    None \<Rightarrow> ((c\<lparr>uc_state := UnixFinished\<rparr>, io1), ctx, NoWork)
                  | Some (command, timeout) \<Rightarrow>
                      (let c1 = c\<lparr>uc_read_timeout := timeout\<rparr> in
                       case sends of
                         Handed \<Rightarrow> ((c1\<lparr>uc_state := UnixConnecting\<rparr>, io1), ctx, DidWork 1)
                       | WorkerFull \<Rightarrow> ((c1\<lparr>uc_state := UnixWaitingForConfig\<rparr>, io1), ctx, NoWork)
                       | WorkerLost \<Rightarrow> ((c1\<lparr>uc_state := UnixFinished\<rparr>, io1), ctx, Finished))))))"

definition unix_connecting ::
    "'q ring_ops \<Rightarrow> (ErrorKind, 's) connect_poll \<Rightarrow> 's UnixSocketClientComponent \<times> 'q node_io \<Rightarrow> NodeContext \<Rightarrow>
     ('s UnixSocketClientComponent \<times> 'q node_io) \<times> NodeContext \<times> ProcessResult" where
  "unix_connecting R poll s ctx =
     (case s of (c, io) \<Rightarrow>
        (case poll of
           Connection client \<Rightarrow> ((c\<lparr>uc_state := UnixConnected client []\<rparr>, io), ctx, DidWork 1)
         | ConnectError e \<Rightarrow> ((c\<lparr>uc_state := UnixFinished\<rparr>, io), ctx, Finished)
         | NoResult \<Rightarrow> poll_later R (c, io) ctx
         | ResultsClosed \<Rightarrow> poll_later R (c, io) ctx))"

definition unix_connected ::
    "'q ring_ops \<Rightarrow> bool \<Rightarrow> 's \<Rightarrow> MessageBuf list \<Rightarrow> 's UnixSocketClientComponent \<times> 'q node_io \<Rightarrow> NodeContext \<Rightarrow>
     (('s UnixSocketClientComponent \<times> 'q node_io) \<times> NodeContext \<times> ProcessResult) outcome" where
  "unix_connected R in_runtime client pending s ctx =
     (case s of (c, io) \<Rightarrow>
        outcome_bind
          (connected_step R in_runtime True (uc_inn c) (uc_out c) pending (uc_pending_outbound c) (budget_left ctx) io)
          (\<lambda>(ends, p, outbound, b, w, io1).
             let c1 = c\<lparr>uc_pending_outbound := outbound\<rparr>; ctx1 = with_budget b ctx in
             Returned
               (if ends then ((c1\<lparr>uc_state := UnixFinished\<rparr>, io1), ctx1, Finished)
                else work_or_poll R w (c1\<lparr>uc_state := UnixConnected client p\<rparr>, io1) ctx1)))"

definition UnixSocketClient_process ::
    "'q ring_ops \<Rightarrow> (MessageBuf \<Rightarrow> (('a \<times> SocketType) \<times> duration) option outcome) \<Rightarrow> bool \<Rightarrow> send_poll \<Rightarrow>
     (ErrorKind, 's) connect_poll \<Rightarrow> 's UnixSocketClientComponent \<times> 'q node_io \<Rightarrow> NodeContext \<Rightarrow>
     (('s UnixSocketClientComponent \<times> 'q node_io) \<times> NodeContext \<times> ProcessResult) outcome" where
  "UnixSocketClient_process R configuration in_runtime sends poll s ctx =
     (case s of (c, io) \<Rightarrow>
        (case check_signals R text_or_utf8 io of
           (io1, True) \<Rightarrow> Returned ((c\<lparr>uc_state := UnixFinished\<rparr>, io1), ctx, Finished)
         | (io1, False) \<Rightarrow>
             (case uc_state c of
                UnixWaitingForConfig \<Rightarrow> unix_waiting R configuration sends (c, io1) ctx
              | UnixConnecting \<Rightarrow> Returned (unix_connecting R poll (c, io1) ctx)
              | UnixConnected client pending \<Rightarrow> unix_connected R in_runtime client pending (c, io1) ctx
              | UnixFinished \<Rightarrow> Returned ((c, io1), ctx, Finished))))"

definition UnixSocketClient_metadata :: ComponentComponentPayload where
  "UnixSocketClient_metadata = metadata_default\<lparr>
     comp_name := ''UnixSocketClient'',
     comp_description := ''Drops all packets received on IN port.'', comp_icon := ''trash-o'', subgraph := False,
     in_ports := [any_port ''CONF'' False ''data to be dropped'' '''', any_port ''IN'' False ''data to be dropped'' ''''],
     out_ports := [any_port ''OUT'' False ''data to be dropped'' '''']\<rparr>"

end
