(* ===== verification/Net_Client_Properties.thy ===== *)
theory Net_Client_Properties
  imports Net_Clients Relay_Properties Channels
begin

text \<open>
  Properties of the clients on sockets: what they pass on, when they give up, and how their retries go.
\<close>

section \<open>Logs of a call\<close>

lemma collect_messages_logs:
  "collect_messages R inn b w pending io = Returned (b', w', pending', io') \<Longrightarrow>
   io_sent io' = io_sent io \<and> (\<exists>ms. io_read io' = io_read io @ map (Pair inn) ms \<and> pending' = pending @ ms)"
proof (induction b arbitrary: w pending io)
  case (Suc b)
  obtain io1 e where e: "is_empty R inn io = (io1, e)" by fastforce
  obtain io2 got where g: "read_chunk R inn 1 io1 = (io2, got)" by fastforce
  have logs: "io_sent io2 = io_sent io1"
    "io_read io2 = io_read io1 @ (case got of None \<Rightarrow> [] | Some ms \<Rightarrow> map (Pair inn) ms)"
    using g by (auto simp: read_chunk_def Let_def split: option.splits prod.splits)
  note q = is_empty_quiet [OF e, unfolded quiet_def]
  show ?case
  proof (cases "e \<or> got = None")
    case True
    with Suc.prems e g q show ?thesis by (auto split: bool.splits)
  next
    case False
    with Suc.prems e g obtain ms where ms: "got = Some ms"
      "collect_messages R inn b (w + 1) (pending @ ms) io2 = Returned (b', w', pending', io')" by auto
    from Suc.IH [OF ms(2)] logs q ms(1) show ?thesis by auto
  qed
qed simp

lemma repeat_flush_nothing:
  assumes "repeat_flush R out b w [] io = (b', w', p', io')" shows "p' = [] \<and> io' = io"
  using assms by (cases b) auto

lemma connected_step_silent:
  assumes "connected_step R rt flushed inn out pending [] b io = Returned (ends, p, received, b', w', io')"
  shows "received = [] \<and> io_sent io' = io_sent io"
proof -
  from assms obtain b1 w1 p1 io1 where
    c: "collect_messages R inn b 0 pending io = Returned (b1, w1, p1, io1)"
    by (auto simp: connected_step_def outcome_bind_Returned)
  with assms obtain b2 w2 p2 where s: "spawn_sender rt b1 w1 p1 = Returned (b2, w2, p2)"
    by (auto simp: connected_step_def outcome_bind_Returned)
  obtain b3 w3 r3 io2 where f: "repeat_flush R out b2 w2 [] io1 = (b3, w3, r3, io2)" by (metis prod.exhaust)
  obtain io3 ab where a: "is_abandoned R inn io2 = (io3, ab)" by fastforce
  from assms c s f a have "received = r3" "io' = io3" by (auto simp: connected_step_def)
  with collect_messages_logs [OF c] repeat_flush_nothing [OF f] is_abandoned_quiet [OF a] show ?thesis
    by (simp add: quiet_def)
qed

lemma poll_later_quiet:
  "poll_later R (c, io) ctx = ((c', io'), ctx', r) \<Longrightarrow> c' = c \<and> quiet io io' \<and> r = NoWork"
  by (auto simp: poll_later_def Let_def split: prod.splits dest: time_now_quiet)

lemma work_or_poll_quiet:
  "work_or_poll R w (c, io) ctx = ((c', io'), ctx', r) \<Longrightarrow> c' = c \<and> quiet io io'"
  by (auto simp: work_or_poll_def split: if_splits dest: poll_later_quiet)

text \<open>Outside a Tokio runtime the first packet, with budget left, panics the thread of the scheduler.\<close>

lemma sending_needs_a_runtime:
  "collect_messages R inn b 0 pending io = Returned (Suc b1, w1, m # ms, io1) \<Longrightarrow>
   connected_step R False flushed inn out pending received b io =
     Panicked ''there is no reactor running, must be called from the context of a Tokio 1.x runtime''"
  by (simp add: connected_step_def spawn_sender_def)

section \<open>Runs of a client\<close>

text \<open>
  What each call of a component keeps, a whole run keeps; the inputs of the calls (what a worker answered and
  so on) are arbitrary. A client that under such a condition sends nothing sends nothing in a run.
\<close>

fun client_run ::
    "('x \<Rightarrow> 's \<times> 'q node_io \<Rightarrow> NodeContext \<Rightarrow> (('s \<times> 'q node_io) \<times> NodeContext \<times> ProcessResult) outcome) \<Rightarrow>
     ('x \<times> NodeContext) list \<Rightarrow> 's \<times> 'q node_io \<Rightarrow> ('s \<times> 'q node_io) outcome" where
  "client_run process [] s = Returned s"
| "client_run process ((x, ctx) # calls) s =
     outcome_bind (process x s ctx) (\<lambda>(s1, _, _). client_run process calls s1)"

locale keeps_inv =
  fixes process :: "'x \<Rightarrow> 's \<times> 'q node_io \<Rightarrow> NodeContext \<Rightarrow> (('s \<times> 'q node_io) \<times> NodeContext \<times> ProcessResult) outcome"
    and inv :: "'s \<Rightarrow> bool"
  assumes step_inv: "process x (c, io) ctx = Returned ((c', io'), ctx', r) \<Longrightarrow> inv c \<Longrightarrow> inv c'"
begin

lemma run_inv: "client_run process calls (c, io) = Returned (c', io') \<Longrightarrow> inv c \<Longrightarrow> inv c'"
proof (induction calls arbitrary: c io)
  case (Cons call calls)
  from Cons.prems(1) obtain c1 io1 ctx1 r where p: "process (fst call) (c, io) (snd call) = Returned ((c1, io1), ctx1, r)"
    and rest: "client_run process calls (c1, io1) = Returned (c', io')"
    by (cases call) (auto simp: outcome_bind_Returned)
  from step_inv [OF p Cons.prems(2)] Cons.IH [OF rest] show ?case by simp
qed simp

end

locale silent_client = keeps_inv +
  assumes step_sent: "process x (c, io) ctx = Returned ((c', io'), ctx', r) \<Longrightarrow> inv c \<Longrightarrow> io_sent io' = io_sent io"
begin

lemma run_silent: "client_run process calls (c, io) = Returned (c', io') \<Longrightarrow> inv c \<Longrightarrow> io_sent io' = io_sent io"
proof (induction calls arbitrary: c io)
  case (Cons call calls)
  from Cons.prems(1) obtain c1 io1 ctx1 r where p: "process (fst call) (c, io) (snd call) = Returned ((c1, io1), ctx1, r)"
    and rest: "client_run process calls (c1, io1) = Returned (c', io')"
    by (cases call) (auto simp: outcome_bind_Returned)
  from step_inv [OF p Cons.prems(2)] step_sent [OF p Cons.prems(2)] Cons.IH [OF rest] show ?case by simp
qed simp

end

section \<open>TCPClient and WSClient\<close>

text \<open>The fields a call never changes, and its inputs in one value.\<close>

definition client_inv :: "('a, 'c) ClientComponent \<Rightarrow> bool" where
  "client_inv c \<longleftrightarrow> cl_pending_received c = [] \<and> attempt (cl_retry_state c) = 0 \<and>
     cl_retry_config c = retry_config_default"

lemma client_inv_update [simp]:
  "client_inv (c\<lparr>cl_state := st\<rparr>) = client_inv c"
  "client_inv (c\<lparr>cl_pending_received := []\<rparr>) \<longleftrightarrow> attempt (cl_retry_state c) = 0 \<and> cl_retry_config c = retry_config_default"
  by (simp_all add: client_inv_def)

lemma connect_failed_inv:
  "connect_failed R t addr (c, io) = ((c', io'), r) \<Longrightarrow> client_inv c \<Longrightarrow> client_inv c' \<and> quiet io io'"
  by (auto simp: connect_failed_def client_inv_def RetryState_new_def Let_def
      split: if_splits prod.splits dest!: time_now_quiet intro: quiet_trans)

lemma client_waiting_inv:
  assumes "client_waiting R K sends poll (c, io) ctx = Returned ((c', io'), ctx', r)" and "client_inv c"
  shows "client_inv c' \<and> io_sent io' = io_sent io"
proof -
  obtain io1 got where g: "pop R (cl_conf c) io = (io1, got)" by fastforce
  from assms(1) g have "io' = io1" and "\<exists>st. c' = c\<lparr>cl_state := st\<rparr>"
    by (cases got; cases sends; cases poll; auto simp: client_waiting_def outcome_bind_Returned)+
  with pop_logs [OF g] assms(2) show ?thesis by auto
qed

lemma client_connecting_inv:
  "client_connecting R K poll addr (c, io) ctx = ((c', io'), ctx', r) \<Longrightarrow> client_inv c \<Longrightarrow> client_inv c' \<and> quiet io io'"
  by (auto simp: client_connecting_def split: connect_poll.splits prod.splits
      dest: poll_later_quiet connect_failed_inv)

lemma client_retrying_inv:
  "client_retrying R sends addr rs (c, io) ctx = ((c', io'), ctx', r) \<Longrightarrow> client_inv c \<Longrightarrow> client_inv c' \<and> quiet io io'"
  by (auto simp: client_retrying_def Let_def split: if_splits send_poll.splits prod.splits
      dest!: time_now_quiet poll_later_quiet intro: quiet_trans)

lemma client_connected_inv:
  assumes "client_connected R rt conn pending (c, io) ctx = Returned ((c', io'), ctx', r)" and "client_inv c"
  shows "client_inv c' \<and> io_sent io' = io_sent io"
proof -
  have none: "cl_pending_received c = []" using assms(2) by (simp add: client_inv_def)
  from assms(1) obtain ends p received b w io1 where
    s: "connected_step R rt False (cl_inn c) (cl_out c) pending [] (budget_left ctx) io = Returned (ends, p, received, b, w, io1)"
    and e: "(if ends then ((c\<lparr>cl_pending_received := received, cl_state := ClientFinished\<rparr>, io1), with_budget b ctx, Finished)
        else work_or_poll R w (c\<lparr>cl_pending_received := received, cl_state := Connected conn p\<rparr>, io1) (with_budget b ctx))
      = ((c', io'), ctx', r)"
    by (auto simp: client_connected_def outcome_bind_Returned none Let_def)
  from connected_step_silent [OF s] have "received = []" "io_sent io1 = io_sent io" by auto
  with e assms(2) show ?thesis
    by (auto simp: client_inv_def quiet_def split: if_splits dest!: work_or_poll_quiet)
qed

lemma client_process_inv:
  assumes "client_process R K rt sends poll (c, io) ctx = Returned ((c', io'), ctx', r)" and "client_inv c"
  shows "client_inv c' \<and> io_sent io' = io_sent io"
proof -
  obtain io1 stop where s: "check_signals R text_or_utf8 io = (io1, stop)" by fastforce
  note q = check_signals_quiet [OF s]
  show ?thesis
  proof (cases stop)
    case True
    with assms s q show ?thesis by (auto simp: client_process_def quiet_def)
  next
    case False
    with assms s q show ?thesis
      by (cases "cl_state c")
        (auto simp: client_process_def quiet_def
          dest!: client_waiting_inv client_connecting_inv client_retrying_inv client_connected_inv)
  qed
qed

interpretation client_silent: silent_client "\<lambda>(rt, sends, poll). client_process R K rt sends poll" client_inv
  by unfold_locales (auto dest: client_process_inv)

interpretation tcp_silent: silent_client "\<lambda>(rt, sends, poll). TCPClient_process R P rt sends poll" client_inv
  by unfold_locales (auto simp: TCPClient_process_def dest: client_process_inv)

interpretation ws_silent: silent_client "\<lambda>(rt, sends, poll). WSClient_process R rt sends poll" client_inv
  by unfold_locales (auto simp: WSClient_process_def dest: client_process_inv)

section \<open>UnixSocketClient\<close>

definition unix_inv :: "'s UnixSocketClientComponent \<Rightarrow> bool" where
  "unix_inv c \<longleftrightarrow> uc_pending_outbound c = []"

lemma unix_process_inv:
  assumes "UnixSocketClient_process R cf rt sends poll (c, io) ctx = Returned ((c', io'), ctx', r)" and "unix_inv c"
  shows "unix_inv c' \<and> io_sent io' = io_sent io"
proof -
  have none: "uc_pending_outbound c = []" using assms(2) by (simp add: unix_inv_def)
  obtain io1 stop where s: "check_signals R text_or_utf8 io = (io1, stop)" by fastforce
  note q = check_signals_quiet [OF s]
  show ?thesis
  proof (cases "stop \<or> uc_state c = UnixFinished")
    case True
    with assms s q show ?thesis by (auto simp: UnixSocketClient_process_def unix_inv_def quiet_def split: bool.splits)
  next
    case False
    then consider "uc_state c = UnixWaitingForConfig" | "uc_state c = UnixConnecting"
      | client pending where "uc_state c = UnixConnected client pending" by (cases "uc_state c") auto
    then show ?thesis
    proof cases
      case 1
      obtain io2 got where g: "pop R (uc_conf c) io1 = (io2, got)" by fastforce
      from assms(1) s False 1 g have "io' = io2" "uc_pending_outbound c' = []"
        by (cases got; cases sends;
            auto simp: UnixSocketClient_process_def unix_waiting_def outcome_bind_Returned Let_def none
              split: option.splits)+
      with pop_logs [OF g] q show ?thesis by (simp add: unix_inv_def quiet_def)
    next
      case 2
      with assms s False q show ?thesis
        by (auto simp: UnixSocketClient_process_def unix_connecting_def unix_inv_def quiet_def
            split: connect_poll.splits dest!: poll_later_quiet)
    next
      case 3
      with assms(1) s False obtain ends p received b w io2 where
        st: "connected_step R rt True (uc_inn c) (uc_out c) pending [] (budget_left ctx) io1 = Returned (ends, p, received, b, w, io2)"
        and e: "(if ends then ((c\<lparr>uc_pending_outbound := received, uc_state := UnixFinished\<rparr>, io2), with_budget b ctx, Finished)
            else work_or_poll R w (c\<lparr>uc_pending_outbound := received, uc_state := UnixConnected client p\<rparr>, io2) (with_budget b ctx))
          = ((c', io'), ctx', r)"
        by (auto simp: UnixSocketClient_process_def unix_connected_def outcome_bind_Returned none Let_def)
      from connected_step_silent [OF st] e q show ?thesis
        by (auto simp: unix_inv_def quiet_def split: if_splits dest!: work_or_poll_quiet)
    qed
  qed
qed

interpretation unix_silent: silent_client "\<lambda>(rt, sends, poll). UnixSocketClient_process R cf rt sends poll" unix_inv
  by unfold_locales (auto dest: unix_process_inv)

section \<open>What the clients pass on\<close>

lemma Client_new_inv: "Client_new now ins outs = Returned c \<Longrightarrow> client_inv c \<and> cl_state c = WaitingForConfig"
  by (auto simp: Client_new_def outcome_bind_Returned client_inv_def RetryState_new_def)

lemma UnixSocketClient_new_inv: "UnixSocketClient_new ins outs = Returned c \<Longrightarrow> unix_inv c"
  by (auto simp: UnixSocketClient_new_def outcome_bind_Returned unix_inv_def)

text \<open>
  C28. In no run, whatever the worker, the network and the other threads do, does a new \<open>TCPClient\<close>,
  \<open>WSClient\<close> or \<open>UnixSocketClient\<close> send a packet to OUT, although each is described as sending what it
  receives: nothing ever fills the queue of received packets.
\<close>

theorem socket_clients_receive_nothing:
  assumes "TCPClient_new now ins outs = Returned c" and "WSClient_new now ins outs = Returned d"
    and "UnixSocketClient_new ins outs = Returned e"
  shows "(client_run (\<lambda>(rt, sends, poll). TCPClient_process R P rt sends poll) calls (c, io) = Returned (c', io') \<longrightarrow>
      io_sent io' = io_sent io) \<and>
    (client_run (\<lambda>(rt, sends, poll). WSClient_process R rt sends poll) ws_calls (d, io) = Returned (d', io') \<longrightarrow>
      io_sent io' = io_sent io) \<and>
    (client_run (\<lambda>(rt, sends, poll). UnixSocketClient_process R cf rt sends poll) unix_calls (e, io) = Returned (e', io') \<longrightarrow>
      io_sent io' = io_sent io)"
  using assms Client_new_inv [of now ins outs c] Client_new_inv [of now ins outs d] UnixSocketClient_new_inv [of ins outs e]
  by (auto simp: TCPClient_new_def WSClient_new_def dest: tcp_silent.run_silent ws_silent.run_silent unix_silent.run_silent)

definition demo_ends :: "nat multimap" where
  "demo_ends p = (if p = ''CONF'' then Some [0] else if p = ''IN'' then Some [2] else None)"

definition demo_outs :: "ProcessEdgeSink multimap" where
  "demo_outs p = (if p = ''OUT'' then Some [demo_sink] else None)"

definition demo_client :: "('a, 'c) ClientComponent" where
  "demo_client = \<lparr>cl_conf = 0, cl_inn = 2, cl_out = demo_sink, cl_state = WaitingForConfig, cl_pending_received = [],
     cl_retry_config = retry_config_default, cl_retry_state = RetryState_new 0\<rparr>"

definition demo_unix_client :: "'s UnixSocketClientComponent" where
  "demo_unix_client = \<lparr>uc_conf = 0, uc_inn = 2, uc_out = demo_sink, uc_state = UnixWaitingForConfig,
     uc_read_timeout = DEFAULT_READ_TIMEOUT, uc_pending_outbound = []\<rparr>"

lemma demo_clients_new:
  "Client_new 0 demo_ends demo_outs = Returned demo_client"
  "UnixSocketClient_new demo_ends demo_outs = Returned demo_unix_client"
  by (simp_all add: Client_new_def UnixSocketClient_new_def take_last_def demo_ends_def demo_outs_def
      demo_client_def demo_unix_client_def)

lemmas client_defs = client_process_def client_waiting_def client_connecting_def client_retrying_def
  client_connected_def connected_step_def spawn_sender_def connect_failed_def should_retry_def
  work_or_poll_def poll_later_def ws_kind_def outcome_expect_def

lemma utf8_of_text [simp]: "message_as_utf8 (MText t) = Some t"
  by (simp add: message_as_utf8_def as_text_def)

lemma demo_budget_three: "budget_left (demo_context 3) = Suc (Suc (Suc 0))"
  by (simp add: demo_context_def budget_left_def with_budget_def)

lemma socket_clients_receive_nothing_witness:
  "\<exists>d' io'. client_run (\<lambda>(rt, sends, poll). WSClient_process list_ring rt sends poll)
       [((True, Handed, NoResult), demo_context 3), ((True, Handed, Connection ()), demo_context 3),
        ((True, Handed, NoResult), demo_context 3)]
       (demo_client, node_io_new (demo_channels [MText ''u''] 9 [MText ''x'']) []) = Returned (d', io') \<and>
     io_read io' = [(0, MText ''u''), (2, MText ''x'')] \<and> io_sent io' = []"
proof -
  obtain d' io' where r: "client_run (\<lambda>(rt, sends, poll). WSClient_process list_ring rt sends poll)
       [((True, Handed, NoResult), demo_context 3), ((True, Handed, Connection ()), demo_context 3),
        ((True, Handed, NoResult), demo_context 3)]
       (demo_client, node_io_new (demo_channels [MText ''u''] 9 [MText ''x'']) []) = Returned (d', io')"
    "io_read io' = [(0, MText ''u''), (2, MText ''x'')]"
    by (auto simp: WSClient_process_def client_defs demo_client_def node_io_new_def demo_channels_def
        run_defs read_chunk_def numeral_2_eq_2 demo_budget_three)
  have "io_sent io' = io_sent (node_io_new (demo_channels [MText ''u''] 9 [MText ''x'']) [])"
    by (rule socket_clients_receive_nothing [of 0 demo_ends demo_outs demo_client demo_client demo_unix_client,
          THEN conjunct2, THEN conjunct1, rule_format, OF _ _ _ r(1)])
      (simp_all add: TCPClient_new_def WSClient_new_def demo_clients_new)
  with r show ?thesis by (auto simp: node_io_new_def)
qed

section \<open>Clients without configuration\<close>

lemma finished_client_stays:
  assumes "cl_state c = ClientFinished"
  shows "\<exists>c' io'. client_process R K rt sends poll (c, io) ctx = Returned ((c', io'), ctx, Finished) \<and>
    cl_state c' = ClientFinished \<and> quiet io io'"
proof -
  obtain io1 stop where s: "check_signals R text_or_utf8 io = (io1, stop)" by fastforce
  with assms check_signals_quiet [OF s] show ?thesis by (cases stop) (auto simp: client_process_def)
qed

text \<open>
  A \<open>TCPClient\<close> or \<open>WSClient\<close> that finds no packet on CONF in a call is finished from then on, though that
  call returns \<open>NoWork\<close>: every later call returns \<open>Finished\<close> and takes nothing, so a configuration that
  comes after the first call is never read.
\<close>

lemma unconfigured_client_gives_up:
  assumes "client_process R K rt sends NoResult (c, io) ctx = Returned ((c', io'), ctx', r)"
    and "cl_state c = WaitingForConfig" and "io_read io' = io_read io"
  shows "(r = NoWork \<or> r = Finished) \<and>
    (\<exists>c2 io2. client_process R K rt2 sends2 poll2 (c', later) ctx2 = Returned ((c2, io2), ctx2, Finished) \<and>
      cl_state c2 = ClientFinished \<and> io_read io2 = io_read later \<and> io_sent io2 = io_sent later)"
proof -
  obtain io1 stop where s: "check_signals R text_or_utf8 io = (io1, stop)" by fastforce
  note q = check_signals_quiet [OF s, unfolded quiet_def]
  have "cl_state c' = ClientFinished \<and> (r = NoWork \<or> r = Finished)"
  proof (cases stop)
    case True
    with assms s show ?thesis by (auto simp: client_process_def)
  next
    case False
    obtain io2 got where g: "pop R (cl_conf c) io1 = (io2, got)" by fastforce
    from assms(1,2) s False g have "io' = io2"
      by (cases got; cases sends; auto simp: client_process_def client_waiting_def outcome_bind_Returned)
    with pop_logs [OF g] q assms(3) have "got = None" by (cases got) auto
    with assms s False g show ?thesis by (auto simp: client_process_def client_waiting_def)
  qed
  with finished_client_stays [of c' R K rt2 sends2 poll2 later ctx2] show ?thesis by (auto simp: quiet_def)
qed

lemma unconfigured_client_gives_up_witness:
  "\<exists>c' io'. WSClient_process list_ring True Handed NoResult
       (demo_client, node_io_new (demo_channels [] 9 []) []) (demo_context 3) = Returned ((c', io'), demo_context 2, NoWork) \<and>
     (\<exists>c2 io2. WSClient_process list_ring True Handed (Connection ())
        (c', node_io_new (demo_channels [MText ''u''] 9 []) []) (demo_context 3) = Returned ((c2, io2), demo_context 3, Finished) \<and>
      io_read io2 = [])"
proof -
  have c: "with_budget 2 (demo_context 3) = demo_context 2"
    by (simp add: demo_context_def with_budget_def)
  obtain c' io' where p: "client_process list_ring ws_kind True Handed (NoResult :: (ws_error, unit) connect_poll)
       (demo_client, node_io_new (demo_channels [] 9 []) []) (demo_context 3) = Returned ((c', io'), demo_context 2, NoWork)"
    "io_read io' = []"
    by (auto simp: client_defs demo_client_def node_io_new_def demo_channels_def run_defs demo_budget_three idle_call_def c
        simp flip: numeral_2_eq_2)
  from unconfigured_client_gives_up [OF p(1), of True Handed "Connection ()" "node_io_new (demo_channels [MText ''u''] 9 []) []"
      "demo_context 3"] p(2)
  have "\<exists>c2 io2. client_process list_ring ws_kind True Handed (Connection ())
      (c', node_io_new (demo_channels [MText ''u''] 9 []) []) (demo_context 3) = Returned ((c2, io2), demo_context 3, Finished) \<and>
      io_read io2 = []"
    by (auto simp: demo_client_def node_io_new_def)
  with p(1) show ?thesis unfolding WSClient_process_def by blast
qed

text \<open>So does \<open>UnixSocketClient\<close>, and also after a configuration it cannot use.\<close>

lemma unconfigured_unix_client_gives_up:
  assumes "uc_state c = UnixWaitingForConfig" and "check_signals R text_or_utf8 io = (io1, False)"
    and "pop R (uc_conf c) io1 = (io2, got)" and "got = None \<or> (\<exists>m. got = Some m \<and> cf m = Returned None)"
  shows "\<exists>ctx'. UnixSocketClient_process R cf rt sends poll (c, io) ctx =
    Returned ((c\<lparr>uc_state := UnixFinished\<rparr>, io2), ctx', NoWork)"
  using assms by (auto simp: UnixSocketClient_process_def unix_waiting_def)

section \<open>Retries\<close>

text \<open>
  However often a \<open>TCPClient\<close> or \<open>WSClient\<close> has failed to connect, a transient error makes it try
  again, always as attempt 1 and after one second: the retry state is dropped when a connection is tried, so
  the configured maximum of three attempts is never reached and the delay never grows.
\<close>

lemma retries_never_run_out:
  assumes "Client_new now ins outs = Returned c0"
    and "client_run (\<lambda>(rt, sends, poll). client_process R K rt sends poll) calls (c0, io0) = Returned (c, io)"
    and "cl_state c = Connecting addr" and "ck_classify K e = Transient"
    and "check_signals R text_or_utf8 io = (io1, False)"
  shows "\<exists>c' io' retry_state. client_process R K rt sends (ConnectError e) (c, io) ctx =
      Returned ((c', io'), ctx, DidWork 1) \<and>
    cl_state c' = RetryingConnection addr retry_state \<and> attempt retry_state = 1 \<and>
    next_retry_at retry_state = io_clock io' + 1000000000"
proof -
  from client_silent.run_inv [OF assms(2)] Client_new_inv [OF assms(1)]
  have inv: "attempt (cl_retry_state c) = 0" "cl_retry_config c = retry_config_default" by (auto simp: client_inv_def)
  have delay: "retry_delay retry_config_default 1 = 1000000000"
    by (simp add: retry_delay_def retry_config_default_def saturating_sub_def)
  obtain io2 t where t: "time_now R io1 = (io2, t)" by fastforce
  obtain io3 n where n: "time_now R io2 = (io3, n)" by fastforce
  from n have "n = io_clock io3" by (auto simp: time_now_def Let_def)
  with assms(3-5) t n inv delay show ?thesis
    by (auto simp: client_process_def client_connecting_def connect_failed_def should_retry_def
        calculate_next_retry_def retry_config_default_def)
qed

lemma retries_never_run_out_witness:
  "\<exists>c io. client_run (\<lambda>(rt, sends, poll). client_process list_ring (ws_kind :: (string, ws_error, unit, unit) client_kind) rt sends poll)
       [((True, Handed, NoResult), demo_context 3), ((True, Handed, ConnectError WsTls), demo_context 3),
        ((True, Handed, NoResult), demo_context 3)]
       (demo_client, node_io_new (demo_channels [MText ''u''] 9 []) [[], [], [], [], [], [Elapsed 1000000000]]) =
       Returned (c, io) \<and>
     cl_state c = Connecting ''u'' \<and>
     (\<exists>c' io' retry_state. client_process list_ring ws_kind True Handed (ConnectError WsTls) (c, io) (demo_context 3) =
        Returned ((c', io'), demo_context 3, DidWork 1) \<and>
      cl_state c' = RetryingConnection ''u'' retry_state \<and> attempt retry_state = 1 \<and>
      next_retry_at retry_state = io_clock io' + 1000000000)"
proof -
  have delay: "retry_delay retry_config_default 1 = 1000000000"
    by (simp add: retry_delay_def retry_config_default_def saturating_sub_def)
  have max: "max_retries retry_config_default = 3" by (simp add: retry_config_default_def)
  obtain c io where r: "client_run (\<lambda>(rt, sends, poll). client_process list_ring (ws_kind :: (string, ws_error, unit, unit) client_kind) rt sends poll)
       [((True, Handed, NoResult), demo_context 3), ((True, Handed, ConnectError WsTls), demo_context 3),
        ((True, Handed, NoResult), demo_context 3)]
       (demo_client, node_io_new (demo_channels [MText ''u''] 9 []) [[], [], [], [], [], [Elapsed 1000000000]]) =
       Returned (c, io)" "cl_state c = Connecting ''u''" "io_external io = []" "io_signals io = []"
    by (auto simp: client_defs demo_client_def node_io_new_def demo_channels_def run_defs classify_ws_error_def
        RetryState_new_def calculate_next_retry_def delay max is_ready_to_retry_def)
  have s: "check_signals list_ring text_or_utf8 io = (io, False)" using r(3,4) by (simp add: run_defs)
  have t: "ck_classify ws_kind WsTls = Transient" by (simp add: ws_kind_def classify_ws_error_def)
  from r retries_never_run_out [OF demo_clients_new(1) r(1,2) t s] show ?thesis by blast
qed

end
