(* ===== verification/Net_Servers.thy ===== *)
theory Net_Servers
  imports Net_Clients
begin

text \<open>
  The servers on sockets: \<open>TCPServer\<close>, \<open>UnixSocketServer\<close> and \<open>WSServer\<close>. Listeners and sockets are
  arguments that answer each call. The hash maps from client identifiers are association lists; the order in which
  they are visited is an argument of each call. Times at which clients were last active, which are only
  stored, are left out.
\<close>

section \<open>TCPServer and UnixSocketServer: the state\<close>

text \<open>Errors of \<open>bind\<close> are only logged, the others are looked at by their kind.\<close>

record ('l, 's) net_lib =
  nl_bind :: "string \<Rightarrow> 'l option"
  nl_listener_nonblocking :: "'l \<Rightarrow> bool"
  nl_accept :: "'l \<Rightarrow> 'l \<times> (ErrorKind + 's)"
  nl_nonblocking :: "'s \<Rightarrow> bool"
  nl_read :: "'s \<Rightarrow> 's \<times> (ErrorKind + u8 list)"
  nl_write_all :: "'s \<Rightarrow> u8 list \<Rightarrow> 's \<times> ErrorKind option"

record ('l, 's) ServerComponent =
  sv_conf :: nat
  sv_resp :: nat
  sv_out :: ProcessEdgeSink
  sv_listen_addr :: "string option"
  sv_listener :: "'l option"
  sv_connections :: "(u32 \<times> 's) list"
  sv_next_client_id :: u32
  sv_pending_responses :: "(u32 \<times> MessageBuf) list"
  sv_pending_outbound :: "MessageBuf list"

definition Server_new :: "nat multimap \<Rightarrow> ProcessEdgeSink multimap \<Rightarrow> ('l, 's) ServerComponent outcome" where
  "Server_new inports0 outports =
     outcome_bind (take_last ''CONF'' ''found no CONF inport'' inports0) (\<lambda>(inports, conf).
     outcome_bind (take_last ''RESP'' ''found no RESP inport'' inports) (\<lambda>(_, resp).
     outcome_bind (take_last ''OUT'' ''found no OUT outport'' outports) (\<lambda>(_, out).
       Returned \<lparr>sv_conf = conf, sv_resp = resp, sv_out = out, sv_listen_addr = None, sv_listener = None,
         sv_connections = [], sv_next_client_id = 0, sv_pending_responses = [], sv_pending_outbound = []\<rparr>)))"

text \<open>
  In what the two servers differ while they serve: the packet for the data of a client, how the response
  is cut out of its packet, and whether a response that blocks counts as work.
\<close>

record server_kind =
  sk_frame :: "u32 \<Rightarrow> u8 list \<Rightarrow> MessageBuf"
  sk_slice :: "nat \<Rightarrow> u8 list \<Rightarrow> u8 list outcome"
  sk_blocked_cost :: nat

section \<open>Serving clients\<close>

text \<open>A client is added under the next identifier, a \<open>u32\<close>.\<close>

definition add_connection ::
    "bool \<Rightarrow> 's \<Rightarrow> ('l, 's) ServerComponent \<Rightarrow> ('l, 's) ServerComponent outcome" where
  "add_connection chk sock c =
     (if chk \<and> sv_next_client_id c = -1 then Panicked ''attempt to add with overflow''
      else Returned (c\<lparr>sv_connections := AList.update (sv_next_client_id c) sock (sv_connections c),
        sv_next_client_id := sv_next_client_id c + 1\<rparr>))"

text \<open>
  One read from every client, while there is budget: budget, work, the clients to remove, the packets OUT
  did not take, the clients.
\<close>

fun read_clients ::
    "'q ring_ops \<Rightarrow> ('l, 's) net_lib \<Rightarrow> (u32 \<Rightarrow> u8 list \<Rightarrow> MessageBuf) \<Rightarrow> ProcessEdgeSink \<Rightarrow> u32 list \<Rightarrow>
     nat \<Rightarrow> nat \<Rightarrow> u32 list \<Rightarrow> MessageBuf list \<Rightarrow> (u32 \<times> 's) list \<Rightarrow> 'q node_io \<Rightarrow>
     nat \<times> nat \<times> u32 list \<times> MessageBuf list \<times> (u32 \<times> 's) list \<times> 'q node_io" where
  "read_clients R L frame out [] b w gone held conns io = (b, w, gone, held, conns, io)"
| "read_clients R L frame out (client_id # ids) b w gone held conns io =
     (if b = 0 then (b, w, gone, held, conns, io)
      else
        (case map_of conns client_id of
           None \<Rightarrow> read_clients R L frame out ids b w gone held conns io
         | Some sock \<Rightarrow>
             (case nl_read L sock of
                (sock1, Inr data) \<Rightarrow>
                  if data = [] then
                    read_clients R L frame out ids b w (gone @ [client_id]) held (AList.update client_id sock1 conns) io
                  else
                    (case push R (frame client_id data) out io of
                       (io1, ok) \<Rightarrow>
                         read_clients R L frame out ids (b - 1) (w + 1) gone
                           (if ok then held else held @ [frame client_id data]) (AList.update client_id sock1 conns) io1)
              | (sock1, Inl kind) \<Rightarrow>
                  read_clients R L frame out ids b w (if kind = WouldBlock then gone else gone @ [client_id]) held
                    (AList.update client_id sock1 conns) io)))"

text \<open>A response for a client: it is sent, or kept because the socket would block, or the client is removed.\<close>

definition send_response ::
    "('l, 's) net_lib \<Rightarrow> nat \<Rightarrow> u32 \<Rightarrow> u8 list \<Rightarrow>
     nat \<times> nat \<times> u32 list \<times> (u32 \<times> 's) list \<times> (u32 \<times> MessageBuf) list \<Rightarrow>
     nat \<times> nat \<times> u32 list \<times> (u32 \<times> 's) list \<times> (u32 \<times> MessageBuf) list" where
  "send_response L cost target response s =
     (case s of (b, w, gone, conns, pending) \<Rightarrow>
        (case map_of conns target of
           None \<Rightarrow> s
         | Some sock \<Rightarrow>
             (case nl_write_all L sock response of
                (sock1, None) \<Rightarrow> (b - 1, w + 1, gone, AList.update target sock1 conns, pending)
              | (sock1, Some kind) \<Rightarrow>
                  if kind = WouldBlock then
                    (b - cost, w + cost, gone, AList.update target sock1 conns,
                     AList.update target (from_bytes response) pending)
                  else (b, w, gone @ [target], AList.update target sock1 conns, pending))))"

text \<open>One packet from RESP. Only bytes are read; a packet without a client's identifier is dropped.\<close>

definition respond ::
    "'q ring_ops \<Rightarrow> ('l, 's) net_lib \<Rightarrow> server_kind \<Rightarrow> nat \<Rightarrow>
     nat \<times> nat \<times> u32 list \<times> (u32 \<times> 's) list \<times> (u32 \<times> MessageBuf) list \<Rightarrow> 'q node_io \<Rightarrow>
     ((nat \<times> nat \<times> u32 list \<times> (u32 \<times> 's) list \<times> (u32 \<times> MessageBuf) list) \<times> 'q node_io) outcome" where
  "respond R L K resp s io =
     (if fst s = 0 then Returned (s, io)
      else
        (case pop R resp io of
           (io1, None) \<Rightarrow> Returned (s, io1)
         | (io1, Some m) \<Rightarrow>
             (case frame_target (message_bytes m) of
                None \<Rightarrow> Returned (s, io1)
              | Some (target, colon_pos) \<Rightarrow>
                  outcome_bind (sk_slice K (colon_pos + 1) (message_bytes m)) (\<lambda>response.
                    Returned (send_response L (sk_blocked_cost K) target response s, io1)))))"

text \<open>The responses kept, again; those that are done with are removed after the loop.\<close>

fun resend ::
    "('l, 's) net_lib \<Rightarrow> (u32 \<times> MessageBuf) list \<Rightarrow> u32 list \<Rightarrow> nat \<Rightarrow> nat \<Rightarrow> u32 list \<Rightarrow> u32 list \<Rightarrow> (u32 \<times> 's) list \<Rightarrow>
     nat \<times> nat \<times> u32 list \<times> u32 list \<times> (u32 \<times> 's) list" where
  "resend L pending [] b w gone settled conns = (b, w, gone, settled, conns)"
| "resend L pending (client_id # ids) b w gone settled conns =
     (if b = 0 then (b, w, gone, settled, conns)
      else
        (case map_of pending client_id of
           None \<Rightarrow> resend L pending ids b w gone settled conns
         | Some m \<Rightarrow>
             (case map_of conns client_id of
                None \<Rightarrow> resend L pending ids b w gone (settled @ [client_id]) conns
              | Some sock \<Rightarrow>
                  (case nl_write_all L sock (message_bytes m) of
                     (sock1, None) \<Rightarrow>
                       resend L pending ids (b - 1) (w + 1) gone (settled @ [client_id]) (AList.update client_id sock1 conns)
                   | (sock1, Some kind) \<Rightarrow>
                       if kind = WouldBlock then
                         resend L pending ids b w gone settled (AList.update client_id sock1 conns)
                       else
                         resend L pending ids b w (gone @ [client_id]) (settled @ [client_id])
                           (AList.update client_id sock1 conns)))))"

definition remove_all :: "u32 list \<Rightarrow> (u32 \<times> 'v) list \<Rightarrow> (u32 \<times> 'v) list" where
  "remove_all ids m = fold AList.delete ids m"

text \<open>
  From the reads to the clean-up. The two orders are those of the maps of clients and of responses;
  removing a client counts as work.
\<close>

definition serve_clients ::
    "'q ring_ops \<Rightarrow> ('l, 's) net_lib \<Rightarrow> server_kind \<Rightarrow> (u32 list \<Rightarrow> u32 list) \<Rightarrow> (u32 list \<Rightarrow> u32 list) \<Rightarrow> nat \<Rightarrow> nat \<Rightarrow>
     ('l, 's) ServerComponent \<times> 'q node_io \<Rightarrow> (nat \<times> nat \<times> ('l, 's) ServerComponent \<times> 'q node_io) outcome" where
  "serve_clients R L K order order' b w s =
     (case s of (c, io) \<Rightarrow>
        (case read_clients R L (sk_frame K) (sv_out c) (order (map fst (sv_connections c))) b w []
                (sv_pending_outbound c) (sv_connections c) io of
           (b1, w1, gone1, held, conns1, io1) \<Rightarrow>
             outcome_bind (respond R L K (sv_resp c) (b1, w1, gone1, conns1, sv_pending_responses c) io1)
               (\<lambda>((b2, w2, gone2, conns2, pending2), io2).
                  case resend L pending2 (order' (map fst pending2)) b2 w2 gone2 [] conns2 of
                    (b3, w3, gone, settled, conns3) \<Rightarrow>
                      Returned (b3, w3 + length gone,
                        c\<lparr>sv_connections := remove_all gone conns3,
                          sv_pending_responses := remove_all gone (remove_all settled pending2),
                          sv_pending_outbound := held\<rparr>, io2))))"

section \<open>TCPServer\<close>

type_synonym ('l, 's) TCPServerComponent = "('l, 's) ServerComponent"

definition TCPServer_new :: "nat multimap \<Rightarrow> ProcessEdgeSink multimap \<Rightarrow> ('l, 's) TCPServerComponent outcome" where
  "TCPServer_new = Server_new"

definition tcp_server_kind :: server_kind where
  "tcp_server_kind =
     \<lparr>sk_frame = (\<lambda>client_id data. from_text (framed_text client_id data)),
      sk_slice = (\<lambda>n bytes. if n \<le> length bytes then Returned (drop n bytes)
        else Panicked ''range start index out of range for slice''),
      sk_blocked_cost = 1\<rparr>"

text \<open>The configuration: budget, work, and whether \<open>process\<close> goes on.\<close>

definition tcp_configure ::
    "'q ring_ops \<Rightarrow> bool \<Rightarrow> ('l, 's) net_lib \<Rightarrow> ('l, 's) TCPServerComponent \<times> 'q node_io \<Rightarrow> NodeContext \<Rightarrow>
     ((('l, 's) TCPServerComponent \<times> 'q node_io) \<times> NodeContext \<times> nat \<times> bool) outcome" where
  "tcp_configure R chk L s ctx =
     (case s of (c, io) \<Rightarrow>
        (if sv_listener c \<noteq> None then Returned (s, ctx, 0, True)
         else
           (case pop R (sv_conf c) io of
              (io1, None) \<Rightarrow> Returned ((c, io1), ctx, 0, False)
            | (io1, Some m) \<Rightarrow>
                outcome_bind (outcome_expect ''invalid utf-8 listen address'' (message_as_utf8 m)) (\<lambda>addr.
                  let c1 = c\<lparr>sv_listen_addr := Some addr\<rparr> in
                  case nl_bind L addr of
                    None \<Rightarrow> Returned ((c1, io1), ctx, 0, False)
                  | Some listener \<Rightarrow>
                      if \<not> nl_listener_nonblocking L listener then
                        Panicked ''failed to set non-blocking on TCP listener''
                      else
                        outcome_bind (checked_dec chk (remaining_budget ctx)) (\<lambda>budget.
                          Returned ((c1\<lparr>sv_listener := Some listener\<rparr>, io1), ctx\<lparr>remaining_budget := budget\<rparr>, 1, True))))))"

definition tcp_accept ::
    "bool \<Rightarrow> ('l, 's) net_lib \<Rightarrow> nat \<times> nat \<times> ('l, 's) TCPServerComponent \<Rightarrow>
     (nat \<times> nat \<times> ('l, 's) TCPServerComponent) outcome" where
  "tcp_accept chk L s =
     (case s of (b, w, c) \<Rightarrow>
        (case sv_listener c of
           None \<Rightarrow> Returned s
         | Some listener \<Rightarrow>
             if b = 0 then Returned s
             else
               (case nl_accept L listener of
                  (listener1, Inl kind) \<Rightarrow> Returned (b, w, c\<lparr>sv_listener := Some listener1\<rparr>)
                | (listener1, Inr sock) \<Rightarrow>
                    if \<not> nl_nonblocking L sock then Panicked ''failed to set non-blocking on client socket''
                    else
                      outcome_bind (add_connection chk sock (c\<lparr>sv_listener := Some listener1\<rparr>)) (\<lambda>c1.
                        Returned (b - 1, w + 1, c1)))))"

definition server_work_or_poll ::
    "'q ring_ops \<Rightarrow> nat \<Rightarrow> ('l, 's) ServerComponent \<times> 'q node_io \<Rightarrow> NodeContext \<Rightarrow>
     (('l, 's) ServerComponent \<times> 'q node_io) \<times> NodeContext \<times> ProcessResult" where
  "server_work_or_poll R w s ctx =
     (if 0 < w then (s, ctx, DidWork (of_nat w))
      else if sv_listener (fst s) = None then (s, ctx, NoWork)
      else poll_later R s ctx)"

definition tcp_end ::
    "'q ring_ops \<Rightarrow> nat \<Rightarrow> ('l, 's) TCPServerComponent \<times> 'q node_io \<Rightarrow> NodeContext \<Rightarrow>
     (('l, 's) TCPServerComponent \<times> 'q node_io) \<times> NodeContext \<times> ProcessResult" where
  "tcp_end R w s ctx =
     (case s of (c, io) \<Rightarrow>
        (case is_abandoned R (sv_resp c) io of
           (io1, abandoned) \<Rightarrow>
             if abandoned \<and> sv_pending_responses c = [] \<and> sv_pending_outbound c = [] then ((c, io1), ctx, Finished)
             else server_work_or_poll R w (c, io1) ctx))"

definition TCPServer_process ::
    "'q ring_ops \<Rightarrow> bool \<Rightarrow> ('l, 's) net_lib \<Rightarrow> (u32 list \<Rightarrow> u32 list) \<Rightarrow> (u32 list \<Rightarrow> u32 list) \<Rightarrow>
     ('l, 's) TCPServerComponent \<times> 'q node_io \<Rightarrow> NodeContext \<Rightarrow>
     ((('l, 's) TCPServerComponent \<times> 'q node_io) \<times> NodeContext \<times> ProcessResult) outcome" where
  "TCPServer_process R chk L order order' s ctx0 =
     outcome_bind (tcp_configure R chk L s ctx0) (\<lambda>((c, io), ctx, w, go).
       if \<not> go then Returned ((c, io), ctx, NoWork)
       else
         (case check_signals R text_or_utf8 io of
            (io1, True) \<Rightarrow> Returned ((c, io1), ctx, Finished)
          | (io1, False) \<Rightarrow>
              (case repeat_flush R (sv_out c) (budget_left ctx) w (sv_pending_outbound c) io1 of
                 (b1, w1, held, io2) \<Rightarrow>
                   outcome_bind (tcp_accept chk L (b1, w1, c\<lparr>sv_pending_outbound := held\<rparr>)) (\<lambda>(b2, w2, c2).
                   outcome_bind (serve_clients R L tcp_server_kind order order' b2 w2 (c2, io2)) (\<lambda>(b3, w3, c3, io3).
                     Returned (tcp_end R w3 (c3, io3) (with_budget b3 ctx)))))))"

definition TCPServer_metadata :: ComponentComponentPayload where
  "TCPServer_metadata = metadata_default\<lparr>
     comp_name := ''TCPServer'', comp_description := ''TCP server'', comp_icon := ''server'', subgraph := False,
     in_ports := [any_port ''CONF'' False ''configuration value, currently the IP and port to listen on''
         ''localhost:1234'',
       any_port ''RESP'' False
         ''framed response data in format 'CLIENT_ID:response_data' to route to specific client'' ''''],
     out_ports := [any_port ''OUT'' False
         (''framed data from client connections in format 'CLIENT_ID:data'' @ [CHR 0x27]) '''']\<rparr>"

section \<open>UnixSocketServer\<close>

type_synonym ('l, 's) UnixSocketServerComponent = "('l, 's) ServerComponent"

definition UnixSocketServer_new ::
    "nat multimap \<Rightarrow> ProcessEdgeSink multimap \<Rightarrow> ('l, 's) UnixSocketServerComponent outcome" where
  "UnixSocketServer_new = Server_new"

definition unix_server_kind :: server_kind where
  "unix_server_kind =
     \<lparr>sk_frame = (\<lambda>client_id data. from_bytes (into_bytes (framed_text client_id data))),
      sk_slice = (\<lambda>n bytes. Returned (drop n bytes)), sk_blocked_cost = 0\<rparr>"

text \<open>
  The configuration. Removing the old socket file is part of \<open>bind\<close>. A path is stored when listening works.
\<close>

definition unix_configure ::
    "'q ring_ops \<Rightarrow> ('l, 's) net_lib \<Rightarrow> ('l, 's) UnixSocketServerComponent \<times> 'q node_io \<Rightarrow>
     (('l, 's) UnixSocketServerComponent \<times> 'q node_io) \<times> nat \<times> bool" where
  "unix_configure R L s =
     (case s of (c, io) \<Rightarrow>
        (if sv_listener c \<noteq> None then (s, 0, True)
         else
           (case pop R (sv_conf c) io of
              (io1, None) \<Rightarrow> ((c, io1), 0, False)
            | (io1, Some m) \<Rightarrow>
                (case nl_bind L (text_or_utf8 m) of
                   None \<Rightarrow> ((c, io1), 0, False)
                 | Some listener \<Rightarrow>
                     if \<not> nl_listener_nonblocking L listener then ((c, io1), 0, False)
                     else ((c\<lparr>sv_listener := Some listener, sv_listen_addr := Some (text_or_utf8 m)\<rparr>, io1), 1, True)))))"

text \<open>Accepting: the result is \<open>None\<close> where \<open>process\<close> returns because of the new socket, which is closed.\<close>

definition unix_accept ::
    "bool \<Rightarrow> ('l, 's) net_lib \<Rightarrow> nat \<times> nat \<times> ('l, 's) UnixSocketServerComponent \<Rightarrow>
     (('l, 's) UnixSocketServerComponent \<times> (nat \<times> nat) option) outcome" where
  "unix_accept chk L s =
     (case s of (b, w, c) \<Rightarrow>
        (case sv_listener c of
           None \<Rightarrow> Returned (c, Some (b, w))
         | Some listener \<Rightarrow>
             if b = 0 then Returned (c, Some (b, w))
             else
               (case nl_accept L listener of
                  (listener1, Inl kind) \<Rightarrow> Returned (c\<lparr>sv_listener := Some listener1\<rparr>, Some (b, w))
                | (listener1, Inr sock) \<Rightarrow>
                    if \<not> nl_nonblocking L sock then Returned (c\<lparr>sv_listener := Some listener1\<rparr>, None)
                    else
                      outcome_bind (add_connection chk sock (c\<lparr>sv_listener := Some listener1\<rparr>)) (\<lambda>c1.
                        Returned (c1, Some (b - 1, w + 1))))))"

definition UnixSocketServer_process ::
    "'q ring_ops \<Rightarrow> bool \<Rightarrow> ('l, 's) net_lib \<Rightarrow> (u32 list \<Rightarrow> u32 list) \<Rightarrow> (u32 list \<Rightarrow> u32 list) \<Rightarrow>
     ('l, 's) UnixSocketServerComponent \<times> 'q node_io \<Rightarrow> NodeContext \<Rightarrow>
     ((('l, 's) UnixSocketServerComponent \<times> 'q node_io) \<times> NodeContext \<times> ProcessResult) outcome" where
  "UnixSocketServer_process R chk L order order' s ctx =
     (case unix_configure R L s of
        ((c, io), w, go) \<Rightarrow>
          if \<not> go then Returned ((c, io), ctx, NoWork)
          else
            (case check_signals R text_or_utf8 io of
               (io1, True) \<Rightarrow> Returned ((c, io1), ctx, Finished)
             | (io1, False) \<Rightarrow>
                 (case repeat_flush R (sv_out c) (budget_left ctx) w (sv_pending_outbound c) io1 of
                    (b1, w1, held, io2) \<Rightarrow>
                      outcome_bind (unix_accept chk L (b1, w1, c\<lparr>sv_pending_outbound := held\<rparr>)) (\<lambda>(c2, accepted).
                        case accepted of
                          None \<Rightarrow> Returned ((c2, io2), with_budget b1 ctx, NoWork)
                        | Some (b2, w2) \<Rightarrow>
                            outcome_bind (serve_clients R L unix_server_kind order order' b2 w2 (c2, io2))
                              (\<lambda>(b3, w3, c3, io3).
                                 Returned (server_work_or_poll R w3 (c3, io3) (with_budget b3 ctx)))))))"

definition UnixSocketServer_metadata :: ComponentComponentPayload where
  "UnixSocketServer_metadata = metadata_default\<lparr>
     comp_name := ''UnixSocketServer'', comp_description := ''Unix socket server'', comp_icon := ''server'',
     subgraph := False,
     in_ports := [any_port ''CONF'' False ''configuration value, currently the path to listen on''
         ''/tmp/server.sock'',
       any_port ''RESP'' False
         ''framed response data in format 'CLIENT_ID:response_data' to route to specific client'' ''''],
     out_ports := [any_port ''OUT'' False
         (''framed data from client connections in format 'CLIENT_ID:data'' @ [CHR 0x27]) '''']\<rparr>"

section \<open>WSServer\<close>

text \<open>
  The package \<open>tungstenite\<close> on accepted sockets: an upgrade may fail (\<open>Inr None\<close>), a read gives the data of a
  message or an error, and sending is \<open>write\<close> and \<open>flush\<close>.
\<close>

record ('l, 's) ws_lib =
  wl_bind :: "string \<Rightarrow> 'l option"
  wl_listener_nonblocking :: "'l \<Rightarrow> bool"
  wl_accept :: "'l \<Rightarrow> 'l \<times> (ErrorKind + 's option)"
  wl_read :: "'s \<Rightarrow> 's \<times> (ws_error + u8 list)"
  wl_send :: "'s \<Rightarrow> u8 list \<Rightarrow> 's \<times> bool"

datatype ('l, 's) WSServerState =
    WSWaitingForConfig
  | WSListening 'l "(u32 \<times> 's) list" u32
  | WSFinished

record ('l, 's) WSServerComponent =
  ws_conf :: nat
  ws_resp :: nat
  ws_out :: ProcessEdgeSink
  ws_state :: "('l, 's) WSServerState"
  ws_pending_outbound :: "MessageBuf list"

definition WSServer_new :: "nat multimap \<Rightarrow> ProcessEdgeSink multimap \<Rightarrow> ('l, 's) WSServerComponent outcome" where
  "WSServer_new inports0 outports =
     outcome_bind (take_last ''CONF'' ''found no CONF inport'' inports0) (\<lambda>(inports, conf).
     outcome_bind (take_last ''RESP'' ''found no RESP inport'' inports) (\<lambda>(_, resp).
     outcome_bind (take_last ''OUT'' ''found no OUT outport'' outports) (\<lambda>(_, out).
       Returned \<lparr>ws_conf = conf, ws_resp = resp, ws_out = out, ws_state = WSWaitingForConfig,
         ws_pending_outbound = []\<rparr>)))"

definition ws_configure ::
    "'q ring_ops \<Rightarrow> ('l, 's) ws_lib \<Rightarrow> ('l, 's) WSServerComponent \<times> 'q node_io \<Rightarrow> NodeContext \<Rightarrow>
     ((('l, 's) WSServerComponent \<times> 'q node_io) \<times> NodeContext \<times> ProcessResult) outcome" where
  "ws_configure R L s ctx =
     (case s of (c, io) \<Rightarrow>
        (case pop R (ws_conf c) io of
           (io1, None) \<Rightarrow> Returned ((c, io1), idle_call ctx, NoWork)
         | (io1, Some m) \<Rightarrow>
             outcome_bind (outcome_expect ''invalid utf-8'' (message_as_utf8 m)) (\<lambda>addr.
             outcome_bind (outcome_expect ''failed to bind tcp listener socket'' (wl_bind L addr)) (\<lambda>listener.
               if \<not> wl_listener_nonblocking L listener then
                 Panicked ''failed to set non-blocking on tcp listener socket''
               else Returned ((c\<lparr>ws_state := WSListening listener [] 1\<rparr>, io1), ctx, DidWork 1)))))"

text \<open>Accepting: \<open>None\<close> when the listener failed.\<close>

definition ws_accept ::
    "bool \<Rightarrow> ('l, 's) ws_lib \<Rightarrow> 'l \<Rightarrow> (u32 \<times> 's) list \<Rightarrow> u32 \<Rightarrow> nat \<Rightarrow> nat \<Rightarrow>
     ('l \<times> (u32 \<times> 's) list \<times> u32 \<times> nat \<times> nat) option outcome" where
  "ws_accept chk L listener conns next_id b w =
     (if b = 0 then Returned (Some (listener, conns, next_id, b, w))
      else
        (case wl_accept L listener of
           (listener1, Inr (Some websocket)) \<Rightarrow>
             if chk \<and> next_id = -1 then Panicked ''attempt to add with overflow''
             else Returned (Some (listener1, AList.update next_id websocket conns, next_id + 1, b - 1, w + 1))
         | (listener1, Inr None) \<Rightarrow> Returned (Some (listener1, conns, next_id, b, w))
         | (listener1, Inl kind) \<Rightarrow>
             Returned (if kind = WouldBlock then Some (listener1, conns, next_id, b, w) else None)))"

text \<open>Reading: a packet that OUT does not take ends the loop and costs no budget.\<close>

fun ws_read_clients ::
    "'q ring_ops \<Rightarrow> ('l, 's) ws_lib \<Rightarrow> ProcessEdgeSink \<Rightarrow> u32 list \<Rightarrow>
     nat \<Rightarrow> nat \<Rightarrow> u32 list \<Rightarrow> MessageBuf list \<Rightarrow> (u32 \<times> 's) list \<Rightarrow> 'q node_io \<Rightarrow>
     nat \<times> nat \<times> u32 list \<times> MessageBuf list \<times> (u32 \<times> 's) list \<times> 'q node_io" where
  "ws_read_clients R L out [] b w closed held conns io = (b, w, closed, held, conns, io)"
| "ws_read_clients R L out (conn_id # ids) b w closed held conns io =
     (if b = 0 then (b, w, closed, held, conns, io)
      else
        (case map_of conns conn_id of
           None \<Rightarrow> ws_read_clients R L out ids b w closed held conns io
         | Some websocket \<Rightarrow>
             (case wl_read L websocket of
                (websocket1, Inr data) \<Rightarrow>
                  (case push R (from_bytes data) out io of
                     (io1, True) \<Rightarrow>
                       ws_read_clients R L out ids (b - 1) (w + 1) closed held (AList.update conn_id websocket1 conns) io1
                   | (io1, False) \<Rightarrow>
                       (b, w, closed, held @ [from_bytes data], AList.update conn_id websocket1 conns, io1))
              | (websocket1, Inl e) \<Rightarrow>
                  ws_read_clients R L out ids b w
                    (if e = WsIo WouldBlock \<or> e = WsIo TimedOut then closed else closed @ [conn_id]) held
                    (AList.update conn_id websocket1 conns) io)))"

text \<open>
  Responses go to the first connection that the map gives. A packet without a connection and one that is
  not sent cost no budget, so the loop takes fuel.
\<close>

fun ws_respond ::
    "'q ring_ops \<Rightarrow> ('l, 's) ws_lib \<Rightarrow> (u32 list \<Rightarrow> u32 list) \<Rightarrow> nat \<Rightarrow> nat \<Rightarrow> nat \<Rightarrow> nat \<Rightarrow> (u32 \<times> 's) list \<Rightarrow> 'q node_io \<Rightarrow>
     (nat \<times> nat \<times> (u32 \<times> 's) list \<times> 'q node_io) option" where
  "ws_respond R L order resp 0 b w conns io = None"
| "ws_respond R L order resp (Suc fuel) b w conns io =
     (case is_empty R resp io of
        (io1, True) \<Rightarrow> Some (b, w, conns, io1)
      | (io1, False) \<Rightarrow>
          if b = 0 then Some (b, w, conns, io1)
          else
            (case pop R resp io1 of
               (io2, None) \<Rightarrow> Some (b, w, conns, io2)
             | (io2, Some ip) \<Rightarrow>
                 (case order (map fst conns) of
                    [] \<Rightarrow> ws_respond R L order resp fuel b w conns io2
                  | conn_id # _ \<Rightarrow>
                      (case map_of conns conn_id of
                         None \<Rightarrow> ws_respond R L order resp fuel b w conns io2
                       | Some websocket \<Rightarrow>
                           (case wl_send L websocket (message_bytes ip) of
                              (websocket1, sent) \<Rightarrow>
                                ws_respond R L order resp fuel (if sent then b - 1 else b) (if sent then w + 1 else w)
                                  (AList.update conn_id websocket1 conns) io2)))))"

definition ws_listening ::
    "'q ring_ops \<Rightarrow> bool \<Rightarrow> ('l, 's) ws_lib \<Rightarrow> (u32 list \<Rightarrow> u32 list) \<Rightarrow> nat \<Rightarrow> 'l \<Rightarrow> (u32 \<times> 's) list \<Rightarrow> u32 \<Rightarrow>
     ('l, 's) WSServerComponent \<times> 'q node_io \<Rightarrow> NodeContext \<Rightarrow>
     ((('l, 's) WSServerComponent \<times> 'q node_io) \<times> NodeContext \<times> ProcessResult) outcome option" where
  "ws_listening R chk L order fuel listener conns next_id s ctx =
     (case s of (c, io) \<Rightarrow>
        (case repeat_flush R (ws_out c) (budget_left ctx) 0 (ws_pending_outbound c) io of
           (b1, w1, held1, io1) \<Rightarrow>
             (case ws_accept chk L listener conns next_id b1 w1 of
                Panicked msg \<Rightarrow> Some (Panicked msg)
              | Returned None \<Rightarrow>
                  Some (Returned ((c\<lparr>ws_state := WSFinished, ws_pending_outbound := held1\<rparr>, io1), with_budget b1 ctx, Finished))
              | Returned (Some (listener1, conns1, next_id1, b2, w2)) \<Rightarrow>
                  (case ws_read_clients R L (ws_out c) (order (map fst conns1)) b2 w2 [] held1 conns1 io1 of
                     (b3, w3, closed, held3, conns3, io3) \<Rightarrow>
                       (case ws_respond R L order (ws_resp c) fuel b3 w3 (remove_all closed conns3) io3 of
                          None \<Rightarrow> None
                        | Some (b4, w4, conns4, io4) \<Rightarrow>
                            (let (io5, abandoned) = is_abandoned R (ws_resp c) io4;
                                 c1 = c\<lparr>ws_pending_outbound := held3\<rparr>; ctx1 = with_budget b4 ctx in
                             Some (Returned
                               (if abandoned then ((c1\<lparr>ws_state := WSFinished\<rparr>, io5), ctx1, Finished)
                                else work_or_poll R w4 (c1\<lparr>ws_state := WSListening listener1 conns4 next_id1\<rparr>, io5) ctx1))))))))"

definition WSServer_process ::
    "'q ring_ops \<Rightarrow> bool \<Rightarrow> ('l, 's) ws_lib \<Rightarrow> (u32 list \<Rightarrow> u32 list) \<Rightarrow> nat \<Rightarrow>
     ('l, 's) WSServerComponent \<times> 'q node_io \<Rightarrow> NodeContext \<Rightarrow>
     ((('l, 's) WSServerComponent \<times> 'q node_io) \<times> NodeContext \<times> ProcessResult) outcome option" where
  "WSServer_process R chk L order fuel s ctx =
     (case s of (c, io) \<Rightarrow>
        (case check_signals R text_or_utf8 io of
           (io1, True) \<Rightarrow> Some (Returned ((c\<lparr>ws_state := WSFinished\<rparr>, io1), ctx, Finished))
         | (io1, False) \<Rightarrow>
             (case ws_state c of
                WSWaitingForConfig \<Rightarrow> Some (ws_configure R L (c, io1) ctx)
              | WSListening listener conns next_id \<Rightarrow>
                  ws_listening R chk L order fuel listener conns next_id (c, io1) ctx
              | WSFinished \<Rightarrow> Some (Returned ((c, io1), ctx, Finished)))))"

definition WSServer_metadata :: ComponentComponentPayload where
  "WSServer_metadata = metadata_default\<lparr>
     comp_name := ''WSServer'', comp_description := ''WebSocket server'', comp_icon := ''server'', subgraph := False,
     in_ports := [any_port ''CONF'' False ''configuration value, currently the IP and port to listen on''
         ''localhost:1234'',
       any_port ''RESP'' False ''response data from downstream process for each connection'' ''''],
     out_ports := [any_port ''OUT'' False ''signal and content data from the client connections'' '''']\<rparr>"

end
