(* ===== verification/Net_Server_Properties.thy ===== *)
theory Net_Server_Properties
  imports Net_Servers Net_Client_Properties Stages
begin

text \<open>
  Properties of the servers on sockets: frames and responses, the invariant of the client tables, and the
  order of what is forwarded.
\<close>

section \<open>Lossy text\<close>

text \<open>Well-formed text is not changed.\<close>

lemma utf8_valid_step:
  "utf8_valid (a # r) \<Longrightarrow> \<exists>n. utf8_step (a # r) = (True, n) \<and> 0 < n \<and> utf8_valid (drop n (a # r))"
  by (subst (asm) utf8_valid.simps)
    (auto simp: byte_between_def utf8_between_def numeral_2_eq_2 numeral_3_eq_3 split: if_splits list.splits)

lemma utf8_lossy_valid: "utf8_valid xs \<Longrightarrow> utf8_lossy xs = xs"
proof (induction xs rule: length_induct)
  case (1 xs)
  show ?case
  proof (cases xs)
    case (Cons a r)
    from utf8_valid_step [of a r] 1(2) Cons obtain n where n: "utf8_step (a # r) = (True, n)" "0 < n"
      "utf8_valid (drop n (a # r))" by blast
    have "utf8_lossy (drop n (a # r)) = drop n (a # r)"
      using 1(1) n(2,3) Cons by (simp del: drop_Suc_Cons)
    with n(1) Cons show ?thesis by (simp add: utf8_lossy.simps(2) del: utf8_step.simps)
  qed simp
qed

text \<open>A start of ASCII characters stays, whatever follows.\<close>

lemma utf8_lossy_ascii: "a < 128 \<Longrightarrow> utf8_lossy (a # r) = a # utf8_lossy r"
  by (simp add: utf8_lossy.simps(2))

lemma utf8_lossy_ascii_prefix: "\<forall>a \<in> set xs. a < 128 \<Longrightarrow> utf8_lossy (xs @ r) = xs @ utf8_lossy r"
  by (induction xs) (simp_all add: utf8_lossy_ascii)

text \<open>Conversely an ASCII character of the text is a byte of the input, at the same place behind ASCII characters.\<close>

lemma utf8_step_head:
  "utf8_step (a # r) = (ok, n) \<Longrightarrow> \<not> a < 128 \<Longrightarrow>
   \<exists>b bs. (if ok then take n (a # r) else [0xEF, 0xBF, 0xBD]) = b # bs \<and> 128 \<le> b \<and> 0 < n"
  by (auto split: if_splits)

lemma utf8_lossy_prefix:
  "utf8_lossy bytes = xs @ rest \<Longrightarrow> \<forall>a \<in> set xs. a < 128 \<Longrightarrow> \<exists>r. bytes = xs @ r \<and> utf8_lossy r = rest"
proof (induction xs arbitrary: bytes)
  case (Cons x xs)
  then obtain a r where b: "bytes = a # r" by (cases bytes) auto
  obtain ok n where s: "utf8_step (a # r) = (ok, n)" by fastforce
  show ?case
  proof (cases "a < 128")
    case True
    with Cons b utf8_lossy_ascii [of a r] show ?thesis by simp
  next
    case False
    from utf8_step_head [OF s False] s Cons.prems b have False
      by (auto simp: utf8_lossy.simps(2) simp del: utf8_step.simps)
    then show ?thesis ..
  qed
qed simp

section \<open>Frames\<close>

lemma into_bytes_values: "map unat (into_bytes s) = map of_char s"
proof -
  have "unat (of_char c :: u8) = of_char c" for c
  proof -
    have "(of_char c :: u8) = of_nat (of_char c)" by (rule of_nat_of_char [symmetric])
    then show ?thesis using of_char_less_256 [of c] by (simp add: unat_of_nat)
  qed
  then show ?thesis by (simp add: into_bytes_def)
qed

lemma digits_value_append: "digits_value (ds @ [c]) = 10 * digits_value ds + (of_char c - 48)"
  by (simp add: digits_value_def)

lemma digit_char: "n < 10 \<Longrightarrow> of_char (char_of (48 + n)) = (48 + n :: nat)"
  by simp

lemma show_nat_digits:
  "show_nat n \<noteq> [] \<and> list_all is_digit (show_nat n) \<and> digits_value (show_nat n) = n"
proof (induction n rule: show_nat.induct)
  case (1 n)
  show ?case
  proof (cases "n < 10")
    case True
    have "of_char (char_of (48 + n)) = (48 + n :: nat)" using True by (intro digit_char)
    with True show ?thesis
      by (subst (1 2 3) show_nat.simps) (simp del: of_char_of add: is_digit_def utf8_between_def digits_value_def)
  next
    case False
    have "of_char (char_of (48 + n mod 10)) = (48 + n mod 10 :: nat)" by (intro digit_char) simp
    moreover note 1 [OF False]
    moreover have "show_nat n = show_nat (n div 10) @ [char_of (48 + n mod 10)]"
      using False by (subst show_nat.simps) simp
    ultimately show ?thesis
      by (simp del: of_char_of add: is_digit_def utf8_between_def digits_value_append)
  qed
qed

lemma digit_bounds: "is_digit c \<Longrightarrow> of_char c < (128 :: nat) \<and> c \<noteq> CHR '':'' \<and> c \<noteq> CHR ''+''"
  by (auto simp: is_digit_def utf8_between_def)

lemma parse_u32_show: "parse_u32 (show_nat (unat (n :: u32))) = Some n"
proof -
  have d: "show_nat (unat n) \<noteq> []" "list_all is_digit (show_nat (unat n))" "digits_value (show_nat (unat n)) = unat n"
    using show_nat_digits [of "unat n"] by auto
  then have "\<exists>c r. show_nat (unat n) = c # r \<and> c \<noteq> CHR ''+''"
    using digit_bounds by (cases "show_nat (unat n)") auto
  moreover have "unat n < 2 ^ 32" by (rule order_less_le_trans [OF unsigned_less]) simp
  ultimately show ?thesis using d by (auto simp: parse_u32_def)
qed

text \<open>A response whose packet starts with the identifier of a client is for that client, whatever its data.\<close>

lemma frame_target_of:
  assumes "bytes = into_bytes (show_nat (unat (client_id :: u32)) @ '':'') @ response"
  shows "frame_target bytes = Some (client_id, length (show_nat (unat client_id)))"
proof -
  let ?ds = "show_nat (unat client_id)"
  have d: "list_all is_digit ?ds" using show_nat_digits by blast
  then have ascii: "\<forall>a \<in> set (map of_char ?ds @ [58]). a < (128 :: nat)"
    using digit_bounds by (auto simp: list_all_iff)
  have "map unat bytes = (map of_char ?ds @ [58]) @ map unat response"
    by (simp add: assms into_bytes_values)
  then have "utf8_lossy (map unat bytes) = (map of_char ?ds @ [58]) @ utf8_lossy (map unat response)"
    by (simp only: utf8_lossy_ascii_prefix [OF ascii])
  then have shape: "from_utf8_lossy bytes = ?ds @ CHR '':'' # from_utf8_lossy response"
    by (simp add: from_utf8_lossy_def o_def) code_simp
  have "takeWhile (\<lambda>ch. ch \<noteq> CHR '':'') (from_utf8_lossy bytes) = ?ds"
    using d digit_bounds unfolding shape by (subst takeWhile_append2) (auto simp: list_all_iff)
  then show ?thesis by (simp add: frame_target_def Let_def shape parse_u32_show)
qed

lemma utf8_lossy_bytes: "\<forall>a \<in> set xs. a < 256 \<Longrightarrow> \<forall>b \<in> set (utf8_lossy xs). b < 256"
proof (induction xs rule: length_induct)
  case (1 xs)
  show ?case
  proof (cases xs)
    case (Cons a r)
    obtain ok n where s: "utf8_step (a # r) = (ok, n)" by fastforce
    with utf8_step_positive [of "a # r"] have n: "0 < n" by simp
    have "\<forall>b \<in> set (drop n (a # r)). b < 256" using 1(2) Cons by (metis in_set_dropD)
    moreover have "length (drop n (a # r)) < length xs" using n Cons by simp
    ultimately have "\<forall>b \<in> set (utf8_lossy (drop n (a # r))). b < 256" using 1(1) by blast
    moreover have "\<forall>b \<in> set (if ok then take n (a # r) else [0xEF, 0xBF, 0xBD]). b < 256"
      using 1(2) Cons in_set_takeD [of _ n "a # r"] by auto
    ultimately show ?thesis using s Cons by (auto simp: utf8_lossy.simps(2) simp del: utf8_step.simps)
  qed simp
qed

text \<open>What the text says of the position of the colon is true of the bytes: no slice is out of range.\<close>

lemma frame_target_in_range:
  assumes "frame_target bytes = Some (client_id, colon_pos)"
  shows "colon_pos + 1 \<le> length bytes"
proof -
  let ?text = "from_utf8_lossy bytes" let ?id = "takeWhile (\<lambda>ch. ch \<noteq> CHR '':'') ?text"
  from assms have p: "length ?id \<noteq> length ?text" "parse_u32 ?id = Some client_id" "colon_pos = length ?id"
    by (auto simp: frame_target_def Let_def split: if_splits option.splits)
  from p(2) have "\<forall>c \<in> set ?id. c = CHR ''+'' \<or> is_digit c"
    by (auto simp: parse_u32_def Let_def list_all_iff split: list.splits if_splits)
  then have "\<forall>c \<in> set ?id. of_char c < (128 :: nat)" using digit_bounds by fastforce
  moreover obtain rest where rest: "?text = ?id @ CHR '':'' # rest"
  proof -
    have "dropWhile (\<lambda>ch. ch \<noteq> CHR '':'') ?text \<noteq> []"
      using p(1) takeWhile_dropWhile_id [of "\<lambda>ch. ch \<noteq> CHR '':''" ?text] by (metis append_Nil2)
    then obtain c r where "dropWhile (\<lambda>ch. ch \<noteq> CHR '':'') ?text = c # r" by (cases "dropWhile (\<lambda>ch. ch \<noteq> CHR '':'') ?text") auto
    moreover from this have "c = CHR '':''" by (metis (mono_tags) dropWhile_eq_Cons_conv)
    ultimately show thesis using that takeWhile_dropWhile_id by metis
  qed
  have "map of_char ?text = utf8_lossy (map unat bytes)"
  proof -
    have "\<forall>a \<in> set (utf8_lossy (map unat bytes)). a < 256"
      by (rule utf8_lossy_bytes) (auto intro: order_less_le_trans [OF unsigned_less])
    then have "\<forall>a \<in> set (utf8_lossy (map unat bytes)). of_char (char_of a) = a" by simp
    then show ?thesis by (simp add: from_utf8_lossy_def map_idI)
  qed
  then have "utf8_lossy (map unat bytes) = (map of_char ?id @ [58]) @ map of_char rest"
    by (subst (asm) rest) simp
  from utf8_lossy_prefix [OF this] calculation obtain r where
    "map unat bytes = (map of_char ?id @ [58]) @ r" by auto
  then have "length (map unat bytes) = length ((map of_char ?id @ [58 :: nat]) @ r)" by (rule arg_cong)
  then have "length bytes = length ?id + 1 + length r" by simp
  with p(3) show ?thesis by simp
qed

section \<open>Responses\<close>

text \<open>Serving only looks at what is in range, so it never panics.\<close>

lemma slice_in_range:
  "K = tcp_server_kind \<or> K = unix_server_kind \<Longrightarrow> n \<le> length bytes \<Longrightarrow> sk_slice K n bytes = Returned (drop n bytes)"
  by (auto simp: tcp_server_kind_def unix_server_kind_def)

lemma respond_returns:
  assumes "K = tcp_server_kind \<or> K = unix_server_kind"
  shows "\<exists>x. respond R L K resp s io = Returned x"
  using slice_in_range [OF assms]
  by (auto simp: respond_def split: prod.splits option.splits dest!: frame_target_in_range
      simp del: split_paired_Ex)

lemma serve_clients_returns:
  assumes "K = tcp_server_kind \<or> K = unix_server_kind"
  shows "\<exists>b' w' c' io'. serve_clients R L K order order' b w (c, io) = Returned (b', w', c', io')"
proof -
  obtain b1 w1 gone1 held conns1 io1 where rd: "read_clients R L (sk_frame K) (sv_out c) (order (map fst (sv_connections c)))
      b w [] (sv_pending_outbound c) (sv_connections c) io = (b1, w1, gone1, held, conns1, io1)"
    by (metis prod.exhaust)
  obtain b2 w2 gone2 conns2 pending2 io2 where rs: "respond R L K (sv_resp c) (b1, w1, gone1, conns1, sv_pending_responses c) io1
      = Returned ((b2, w2, gone2, conns2, pending2), io2)"
    using respond_returns [OF assms] by (metis prod.exhaust)
  obtain b3 w3 gone settled conns3 where "resend L pending2 (order' (map fst pending2)) b2 w2 gone2 [] conns2
      = (b3, w3, gone, settled, conns3)" by (metis prod.exhaust)
  with rd rs show ?thesis by (simp add: serve_clients_def)
qed

lemma framed_bytes:
  assumes "utf8_valid (map unat data)"
  shows "message_bytes (sk_frame unix_server_kind client_id data) = into_bytes (show_nat (unat client_id) @ '':'') @ data"
proof -
  have "(of_char (char_of (unat b)) :: u8) = b" for b :: u8
  proof -
    have "unat b < 256" by (rule order_less_le_trans [OF unsigned_less]) simp
    then have "of_char (char_of (unat b)) = (unat b :: nat)" by simp
    then show ?thesis by (metis of_nat_of_char of_nat_unat ucast_id)
  qed
  then have "into_bytes (from_utf8_lossy data) = data"
    by (simp add: from_utf8_lossy_def utf8_lossy_valid [OF assms] into_bytes_def map_idI)
  then show ?thesis
    by (simp add: unix_server_kind_def message_bytes_def as_bytes_def from_bytes_def framed_text_def)
      (simp add: into_bytes_def)
qed

lemma update_other: "map_of (AList.update k v m) = (map_of m)(k \<mapsto> v)"
  by (rule update_conv')

text \<open>
  C27. What \<open>UnixSocketServer\<close> sends to OUT for the data of a client (well-formed text) is, as a packet on RESP,
  a response with this data for this client and changes no other client. What \<open>TCPServer\<close> sends to OUT
  for it is dropped when it comes back on RESP: it is text, and responses are read as bytes.
\<close>

theorem echo_through_servers:
  assumes "utf8_valid (map unat data)" and "0 < b" and "map_of conns client_id = Some sock"
    and "nl_write_all L sock data = (sock1, None)"
    and "pop R resp io = (io1, Some (sk_frame unix_server_kind client_id data))"
    and "pop R resp io' = (io1', Some (sk_frame tcp_server_kind client_id data))"
  shows "(\<exists>conns'. respond R L unix_server_kind resp (b, w, gone, conns, pending) io =
        Returned ((b - 1, w + 1, gone, conns', pending), io1) \<and> map_of conns' = (map_of conns)(client_id \<mapsto> sock1)) \<and>
    respond R L tcp_server_kind resp (b, w, gone, conns, pending) io' = Returned ((b, w, gone, conns, pending), io1')"
proof -
  have "frame_target [] = None" by (simp add: frame_target_def from_utf8_lossy_def)
  moreover have "message_bytes (sk_frame tcp_server_kind client_id data) = []"
    by (simp add: tcp_server_kind_def message_bytes_def as_bytes_def from_text_def)
  ultimately have tcp: "respond R L tcp_server_kind resp (b, w, gone, conns, pending) io' = Returned ((b, w, gone, conns, pending), io1')"
    using assms(2,6) by (simp add: respond_def)
  note m = framed_bytes [OF assms(1), of client_id]
  have "sk_slice unix_server_kind (length (show_nat (unat client_id)) + 1)
      (message_bytes (sk_frame unix_server_kind client_id data)) = Returned data"
    using slice_in_range [of unix_server_kind] by (simp add: m into_bytes_def)
  with assms(2-5) frame_target_of [OF m] tcp show ?thesis
    by (auto simp: respond_def send_response_def update_other)
qed

section \<open>The tables of clients\<close>

lemma remove_all_map [simp]: "map_of (remove_all ids m) k = (if k \<in> set ids then None else map_of m k)"
  unfolding remove_all_def by (induction ids arbitrary: m) (auto simp: delete_conv')

lemma remove_all_keys: "map fst (remove_all ids m) = filter (\<lambda>k. k \<notin> set ids) (map fst m)"
  unfolding remove_all_def by (induction ids arbitrary: m) (auto simp: delete_keys removeAll_filter_not_eq intro: filter_cong)

lemma update_keys_known: "map_of m k = Some v \<Longrightarrow> map fst (AList.update k v' m) = map fst m"
  by (force simp: update_keys dest: map_of_SomeD)

lemma read_clients_keys:
  "read_clients R L frame out ids b w gone held conns io = (b', w', gone', held', conns', io') \<Longrightarrow>
   map fst conns' = map fst conns"
proof (induction ids arbitrary: b w gone held conns io)
  case (Cons i ids)
  show ?case
  proof (cases "b = 0 \<or> map_of conns i = None")
    case True
    with Cons.prems show ?thesis by (auto split: if_splits dest: Cons.IH)
  next
    case False
    then obtain sock where s: "0 < b" "map_of conns i = Some sock" by auto
    obtain sock1 got where g: "nl_read L sock = (sock1, got)" by fastforce
    from Cons.prems s g show ?thesis
      by (auto simp: update_keys_known [OF s(2)] split: sum.splits if_splits prod.splits bool.splits
          dest!: Cons.IH)
  qed
qed simp

definition client_ids :: "(u32 \<times> 'v) list \<Rightarrow> u32 set" where
  "client_ids m = fst ` set m"

lemma client_ids_simps [simp]:
  "client_ids [] = {}"
  "client_ids (AList.update k v m) = insert k (client_ids m)"
  "client_ids (remove_all ids m) = client_ids m - set ids"
  using arg_cong [OF update_keys [of k v m], of set] arg_cong [OF remove_all_keys [of ids m], of set]
  by (auto simp: client_ids_def)

lemma client_ids_known: "map_of m k = Some v \<Longrightarrow> k \<in> client_ids m"
  by (force simp: client_ids_def dest: map_of_SomeD)

lemma client_ids_keys: "map fst m = map fst m' \<Longrightarrow> client_ids m = client_ids m'"
  by (metis client_ids_def set_map)

lemma send_response_keys:
  assumes "send_response L cost target response (b, w, gone, conns, pending) = (b', w', gone', conns', pending')"
  shows "map fst conns' = map fst conns \<and> (distinct (map fst pending) \<longrightarrow> distinct (map fst pending')) \<and>
    client_ids pending' \<subseteq> client_ids pending \<union> client_ids conns"
proof (cases "map_of conns target")
  case (Some sock)
  with assms client_ids_known [OF Some] show ?thesis
    by (auto simp: send_response_def update_keys_known [OF Some] distinct_update
        split: prod.splits option.splits if_splits)
qed (use assms in \<open>auto simp: send_response_def\<close>)

lemma respond_keys:
  assumes "respond R L K resp (b, w, gone, conns, pending) io = Returned ((b', w', gone', conns', pending'), io')"
  shows "map fst conns' = map fst conns \<and> (distinct (map fst pending) \<longrightarrow> distinct (map fst pending')) \<and>
    client_ids pending' \<subseteq> client_ids pending \<union> client_ids conns"
proof -
  from assms have "(b', w', gone', conns', pending') = (b, w, gone, conns, pending) \<or>
      (\<exists>target response. send_response L (sk_blocked_cost K) target response (b, w, gone, conns, pending) =
        (b', w', gone', conns', pending'))"
    by (auto simp: respond_def outcome_bind_Returned split: if_splits prod.splits option.splits simp del: split_paired_Ex)
  then show ?thesis by (elim disjE exE) (simp_all add: send_response_keys)
qed

lemma resend_keys:
  "resend L pending ids b w gone settled conns = (b', w', gone', settled', conns') \<Longrightarrow> map fst conns' = map fst conns"
proof (induction ids arbitrary: b w gone settled conns)
  case (Cons i ids)
  show ?case
  proof (cases "b = 0 \<or> map_of pending i = None \<or> map_of conns i = None")
    case True
    with Cons.prems show ?thesis by (auto split: if_splits option.splits dest: Cons.IH)
  next
    case False
    then obtain m sock where s: "0 < b" "map_of pending i = Some m" "map_of conns i = Some sock" by auto
    from Cons.prems s show ?thesis
      by (auto simp: update_keys_known [OF s(3)] split: prod.splits option.splits if_splits dest!: Cons.IH)
  qed
qed simp

text \<open>
  The tables of a server: no client and no waiting response twice, a waiting response only for a client that
  is connected, no client before the server listens, and (in a build that checks arithmetic) every
  identifier below the next one to be given.
\<close>

definition server_ok :: "bool \<Rightarrow> ('l, 's) ServerComponent \<Rightarrow> bool" where
  "server_ok chk c \<longleftrightarrow>
     distinct (map fst (sv_connections c)) \<and> distinct (map fst (sv_pending_responses c)) \<and>
     client_ids (sv_pending_responses c) \<subseteq> client_ids (sv_connections c) \<and>
     (chk \<longrightarrow> (\<forall>i \<in> client_ids (sv_connections c). i < sv_next_client_id c))"

lemma server_ok_frame [simp]:
  "server_ok chk (c\<lparr>sv_listener := l\<rparr>) = server_ok chk c" "server_ok chk (c\<lparr>sv_listen_addr := a\<rparr>) = server_ok chk c"
  "server_ok chk (c\<lparr>sv_pending_outbound := p\<rparr>) = server_ok chk c"
  by (simp_all add: server_ok_def)

lemma server_ok_add:
  assumes "add_connection chk sock c = Returned c'" and "server_ok chk c"
  shows "server_ok chk c'"
proof -
  from assms(1) have c': "c' = c\<lparr>sv_connections := AList.update (sv_next_client_id c) sock (sv_connections c),
      sv_next_client_id := sv_next_client_id c + 1\<rparr>" and n: "chk \<longrightarrow> sv_next_client_id c \<noteq> -1"
    by (auto simp: add_connection_def split: if_splits)
  have "i < sv_next_client_id c + 1" if "chk" "i = sv_next_client_id c \<or> i \<in> client_ids (sv_connections c)" for i
  proof -
    have "i \<le> sv_next_client_id c" using that assms(2) by (auto simp: server_ok_def)
    moreover have "1 + sv_next_client_id c \<noteq> 0" using n that(1) by (metis add.commute eq_neg_iff_add_eq_0)
    then have "sv_next_client_id c < sv_next_client_id c + 1"
      using unatSuc [of "sv_next_client_id c"] by (simp add: word_less_nat_alt add.commute)
    ultimately show ?thesis by simp
  qed
  then show ?thesis
    using assms(2) by (auto simp: c' server_ok_def distinct_update)
qed

lemma server_ok_serve:
  assumes "serve_clients R L K order order' b w (c, io) = Returned (b', w', c', io')" and "server_ok chk c"
  shows "server_ok chk c'"
proof -
  obtain b1 w1 gone1 held conns1 io1 where rd: "read_clients R L (sk_frame K) (sv_out c) (order (map fst (sv_connections c)))
      b w [] (sv_pending_outbound c) (sv_connections c) io = (b1, w1, gone1, held, conns1, io1)"
    by (metis prod.exhaust)
  with assms(1) obtain b2 w2 gone2 conns2 pending2 io2 where rs:
    "respond R L K (sv_resp c) (b1, w1, gone1, conns1, sv_pending_responses c) io1 = Returned ((b2, w2, gone2, conns2, pending2), io2)"
    by (auto simp: serve_clients_def outcome_bind_Returned)
  obtain b3 w3 gone settled conns3 where re: "resend L pending2 (order' (map fst pending2)) b2 w2 gone2 [] conns2
      = (b3, w3, gone, settled, conns3)" by (metis prod.exhaust)
  from assms(1) rd rs re have c': "c' = c\<lparr>sv_connections := remove_all gone conns3,
      sv_pending_responses := remove_all gone (remove_all settled pending2), sv_pending_outbound := held\<rparr>"
    by (simp add: serve_clients_def)
  note k = read_clients_keys [OF rd] respond_keys [OF rs] resend_keys [OF re]
  have "map fst conns3 = map fst (sv_connections c)" using k by simp
  moreover from this have "client_ids conns3 = client_ids (sv_connections c)" by (rule client_ids_keys)
  moreover have "client_ids conns1 = client_ids (sv_connections c)" using k(1) by (rule client_ids_keys)
  then have "client_ids pending2 \<subseteq> client_ids (sv_connections c)" "distinct (map fst pending2)"
    using k(2) assms(2) by (auto simp: server_ok_def)
  ultimately show ?thesis
    using assms(2) by (auto simp: c' server_ok_def remove_all_keys)
qed

text \<open>Setting up and accepting keep the tables too.\<close>

lemma tcp_configure_ok:
  "tcp_configure R chk L (c, io) ctx = Returned ((c', io'), ctx', w, go) \<Longrightarrow>
   sv_out c' = sv_out c \<and> sv_resp c' = sv_resp c \<and> sv_pending_outbound c' = sv_pending_outbound c \<and>
   io_sent io' = io_sent io \<and> (server_ok chk' c \<longrightarrow> server_ok chk' c')"
  by (auto simp: tcp_configure_def outcome_bind_Returned Let_def
      split: if_splits prod.splits option.splits dest!: pop_logs)

lemma unix_configure_ok:
  "unix_configure R L (c, io) = ((c', io'), w, go) \<Longrightarrow>
   sv_out c' = sv_out c \<and> sv_resp c' = sv_resp c \<and> sv_pending_outbound c' = sv_pending_outbound c \<and>
   io_sent io' = io_sent io \<and> (server_ok chk' c \<longrightarrow> server_ok chk' c')"
  by (auto simp: unix_configure_def split: if_splits prod.splits option.splits dest!: pop_logs)

lemma add_connection_frame:
  "add_connection chk sock c = Returned c' \<Longrightarrow>
   sv_out c' = sv_out c \<and> sv_resp c' = sv_resp c \<and> sv_pending_outbound c' = sv_pending_outbound c"
  by (auto simp: add_connection_def split: if_splits)

lemma tcp_accept_ok:
  "tcp_accept chk L (b, w, c) = Returned (b', w', c') \<Longrightarrow>
   b' \<le> b \<and> sv_out c' = sv_out c \<and> sv_pending_outbound c' = sv_pending_outbound c \<and>
   (server_ok chk c \<longrightarrow> server_ok chk c')"
  by (auto simp: tcp_accept_def outcome_bind_Returned split: option.splits if_splits prod.splits sum.splits
      dest: add_connection_frame server_ok_add)

lemma unix_accept_ok:
  "unix_accept chk L (b, w, c) = Returned (c', r) \<Longrightarrow>
   (case r of None \<Rightarrow> True | Some (b', w') \<Rightarrow> b' \<le> b) \<and> sv_out c' = sv_out c \<and>
   sv_pending_outbound c' = sv_pending_outbound c \<and> (server_ok chk c \<longrightarrow> server_ok chk c')"
  by (auto simp: unix_accept_def outcome_bind_Returned split: option.splits if_splits prod.splits sum.splits
      dest: add_connection_frame server_ok_add)

lemma server_end_quiet:
  "server_work_or_poll R w (c, io) ctx = ((c', io'), ctx', r) \<Longrightarrow> c' = c \<and> quiet io io'"
  "tcp_end R w (c, io) ctx = ((c', io'), ctx', r) \<Longrightarrow> c' = c \<and> quiet io io'"
proof -
  show end1: "server_work_or_poll R w (c, io) ctx = ((c', io'), ctx', r) \<Longrightarrow> c' = c \<and> quiet io io'" for io
    by (auto simp: server_work_or_poll_def split: if_splits dest: poll_later_quiet)
  show "tcp_end R w (c, io) ctx = ((c', io'), ctx', r) \<Longrightarrow> c' = c \<and> quiet io io'"
    by (auto simp: tcp_end_def split: prod.splits if_splits dest!: is_abandoned_quiet end1 intro: quiet_trans)
qed

text \<open>The parts of a call that serves.\<close>

lemma tcp_process_parts:
  assumes "TCPServer_process R chk L order order' (c, io) ctx = Returned ((c', io'), ctx', r)"
  obtains (brief) c1 io1 ctx1 w go where "tcp_configure R chk L (c, io) ctx = Returned ((c1, io1), ctx1, w, go)"
      "c' = c1" "quiet io1 io'"
    | (full) c1 io1 ctx1 w io2 b1 w1 held io3 b2 w2 c2 b3 w3 io4 where
      "tcp_configure R chk L (c, io) ctx = Returned ((c1, io1), ctx1, w, True)"
      "check_signals R text_or_utf8 io1 = (io2, False)"
      "repeat_flush R (sv_out c1) (budget_left ctx1) w (sv_pending_outbound c1) io2 = (b1, w1, held, io3)"
      "tcp_accept chk L (b1, w1, c1\<lparr>sv_pending_outbound := held\<rparr>) = Returned (b2, w2, c2)"
      "serve_clients R L tcp_server_kind order order' b2 w2 (c2, io3) = Returned (b3, w3, c', io4)"
      "quiet io4 io'"
proof -
  obtain c1 io1 ctx1 w go where conf: "tcp_configure R chk L (c, io) ctx = Returned ((c1, io1), ctx1, w, go)"
    using assms by (auto simp: TCPServer_process_def outcome_bind_Returned)
  obtain io2 stop where s: "check_signals R text_or_utf8 io1 = (io2, stop)" by fastforce
  show thesis
  proof (cases "go \<and> \<not> stop")
    case False
    with assms conf s check_signals_quiet [OF s] have "c' = c1" "quiet io1 io'"
      by (auto simp: TCPServer_process_def split: if_splits bool.splits)
    with conf show thesis by (rule brief)
  next
    case True
    obtain b1 w1 held io3 where f: "repeat_flush R (sv_out c1) (budget_left ctx1) w (sv_pending_outbound c1) io2 = (b1, w1, held, io3)"
      by (metis prod.exhaust)
    from assms conf s True f obtain b2 w2 c2 where a: "tcp_accept chk L (b1, w1, c1\<lparr>sv_pending_outbound := held\<rparr>) = Returned (b2, w2, c2)"
      by (auto simp: TCPServer_process_def outcome_bind_Returned)
    with assms conf s True f obtain b3 w3 c3 io4 where sv: "serve_clients R L tcp_server_kind order order' b2 w2 (c2, io3) = Returned (b3, w3, c3, io4)"
      by (auto simp: TCPServer_process_def outcome_bind_Returned)
    from assms conf s True f a sv have "tcp_end R w3 (c3, io4) (with_budget b3 ctx1) = ((c', io'), ctx', r)"
      by (simp add: TCPServer_process_def)
    from server_end_quiet(2) [OF this] conf s True f a sv show thesis by (intro full) auto
  qed
qed

lemma unix_process_parts:
  assumes "UnixSocketServer_process R chk L order order' (c, io) ctx = Returned ((c', io'), ctx', r)"
  obtains (brief) c1 io1 w go where "unix_configure R L (c, io) = ((c1, io1), w, go)" "c' = c1" "quiet io1 io'"
    | (refused) c1 io1 w io2 b1 w1 held where
      "unix_configure R L (c, io) = ((c1, io1), w, True)" "check_signals R text_or_utf8 io1 = (io2, False)"
      "repeat_flush R (sv_out c1) (budget_left ctx) w (sv_pending_outbound c1) io2 = (b1, w1, held, io')"
      "unix_accept chk L (b1, w1, c1\<lparr>sv_pending_outbound := held\<rparr>) = Returned (c', None)"
    | (full) c1 io1 w io2 b1 w1 held io3 b2 w2 c2 b3 w3 io4 where
      "unix_configure R L (c, io) = ((c1, io1), w, True)" "check_signals R text_or_utf8 io1 = (io2, False)"
      "repeat_flush R (sv_out c1) (budget_left ctx) w (sv_pending_outbound c1) io2 = (b1, w1, held, io3)"
      "unix_accept chk L (b1, w1, c1\<lparr>sv_pending_outbound := held\<rparr>) = Returned (c2, Some (b2, w2))"
      "serve_clients R L unix_server_kind order order' b2 w2 (c2, io3) = Returned (b3, w3, c', io4)"
      "quiet io4 io'"
proof -
  obtain c1 io1 w go where conf: "unix_configure R L (c, io) = ((c1, io1), w, go)" by (metis prod.exhaust)
  obtain io2 stop where s: "check_signals R text_or_utf8 io1 = (io2, stop)" by fastforce
  show thesis
  proof (cases "go \<and> \<not> stop")
    case False
    with assms conf s check_signals_quiet [OF s] have "c' = c1" "quiet io1 io'"
      by (auto simp: UnixSocketServer_process_def split: if_splits bool.splits)
    with conf show thesis by (rule brief)
  next
    case True
    obtain b1 w1 held io3 where f: "repeat_flush R (sv_out c1) (budget_left ctx) w (sv_pending_outbound c1) io2 = (b1, w1, held, io3)"
      by (metis prod.exhaust)
    from assms conf s True f obtain c2 acc where a: "unix_accept chk L (b1, w1, c1\<lparr>sv_pending_outbound := held\<rparr>) = Returned (c2, acc)"
      by (auto simp: UnixSocketServer_process_def outcome_bind_Returned)
    show thesis
    proof (cases acc)
      case None
      with assms conf s True f a have "c' = c2" "io' = io3" by (auto simp: UnixSocketServer_process_def)
      with conf s True f a None show thesis by (intro refused) auto
    next
      case (Some bw)
      obtain b2 w2 where bw: "bw = (b2, w2)" by fastforce
      from assms conf s True f a Some bw obtain b3 w3 c3 io4 where
        sv: "serve_clients R L unix_server_kind order order' b2 w2 (c2, io3) = Returned (b3, w3, c3, io4)"
        by (auto simp: UnixSocketServer_process_def outcome_bind_Returned)
      from assms conf s True f a Some bw sv have "server_work_or_poll R w3 (c3, io4) (with_budget b3 ctx) = ((c', io'), ctx', r)"
        by (simp add: UnixSocketServer_process_def)
      from server_end_quiet(1) [OF this] conf s True f a Some bw sv show thesis by (intro full) auto
    qed
  qed
qed

lemma tcp_process_ok:
  assumes "TCPServer_process R chk L order order' (c, io) ctx = Returned ((c', io'), ctx', r)" and "server_ok chk c"
  shows "server_ok chk c'"
  using assms(1)
proof (cases rule: tcp_process_parts)
  case (full c1 io1 ctx1 w io2 b1 w1 held io3 b2 w2 c2 b3 w3 io4)
  have "server_ok chk c2" using tcp_configure_ok [OF full(1), of chk] tcp_accept_ok [OF full(4)] assms(2) by simp
  from server_ok_serve [OF full(5) this] show ?thesis .
qed (use assms(2) tcp_configure_ok in fast)

lemma unix_server_process_ok:
  assumes "UnixSocketServer_process R chk L order order' (c, io) ctx = Returned ((c', io'), ctx', r)" and "server_ok chk c"
  shows "server_ok chk c'"
  using assms(1)
proof (cases rule: unix_process_parts)
  case (refused c1 io1 w io2 b1 w1 held)
  show ?thesis using unix_configure_ok [OF refused(1), of chk] unix_accept_ok [OF refused(4)] assms(2) by simp
next
  case (full c1 io1 w io2 b1 w1 held io3 b2 w2 c2 b3 w3 io4)
  have "server_ok chk c2" using unix_configure_ok [OF full(1), of chk] unix_accept_ok [OF full(4)] assms(2) by simp
  from server_ok_serve [OF full(5) this] show ?thesis .
qed (use assms(2) unix_configure_ok in fast)

interpretation tcp_tables: keeps_inv "\<lambda>(order, order'). TCPServer_process R chk L order order'" "server_ok chk"
  by unfold_locales (auto dest: tcp_process_ok)

interpretation unix_tables: keeps_inv "\<lambda>(order, order'). UnixSocketServer_process R chk L order order'" "server_ok chk"
  by unfold_locales (auto dest: unix_server_process_ok)

lemma Server_new_ok: "Server_new ins outs = Returned c \<Longrightarrow> server_ok chk c"
  by (auto simp: Server_new_def outcome_bind_Returned server_ok_def)

text \<open>
  C25. After any calls of a new \<open>TCPServer\<close> or \<open>UnixSocketServer\<close>, whatever its sockets answer and in whatever
  order its maps are visited: no client and no waiting response is in its tables twice, responses wait only
  for clients that are connected, and in a build that checks arithmetic no identifier is given twice.
\<close>

theorem servers_keep_their_tables:
  assumes "TCPServer_new ins outs = Returned c" and "UnixSocketServer_new ins outs = Returned d"
  shows "(client_run (\<lambda>(order, order'). TCPServer_process R chk L order order') calls (c, io) = Returned (c', io') \<longrightarrow>
      server_ok chk c') \<and>
    (client_run (\<lambda>(order, order'). UnixSocketServer_process R chk L order order') calls (d, io) = Returned (d', io') \<longrightarrow>
      server_ok chk d')"
  using assms Server_new_ok [of ins outs c chk] Server_new_ok [of ins outs d chk]
  by (auto simp: TCPServer_new_def UnixSocketServer_new_def dest: tcp_tables.run_inv unix_tables.run_inv)

section \<open>The order of what is forwarded\<close>

definition frames :: "(u32 \<Rightarrow> u8 list \<Rightarrow> MessageBuf) \<Rightarrow> (u32 \<times> u8 list) list \<Rightarrow> MessageBuf list" where
  "frames frame reads = map (\<lambda>(client_id, data). frame client_id data) reads"

definition reads_of :: "(u32 \<times> 's) list \<Rightarrow> (u32 \<times> u8 list) list \<Rightarrow> bool" where
  "reads_of conns reads \<longleftrightarrow> (\<forall>(client_id, data) \<in> set reads. client_id \<in> client_ids conns \<and> data \<noteq> [])"

lemma frames_simps [simp]:
  "frames frame [] = []" "frames frame ((i, d) # reads) = frame i d # frames frame reads"
  "reads_of conns []" "reads_of conns ((i, d) # reads) \<longleftrightarrow> i \<in> client_ids conns \<and> d \<noteq> [] \<and> reads_of conns reads"
  by (simp_all add: frames_def reads_of_def)






section \<open>A small network\<close>

text \<open>Sockets with what they have to read and what was written to them; a listener with its waiting sockets.\<close>

type_synonym demo_socket = "u8 list list \<times> u8 list list"

definition demo_net :: "(demo_socket list, demo_socket) net_lib" where
  "demo_net =
     \<lparr>nl_bind = (\<lambda>_. Some [([[104, 105]], [])]), nl_listener_nonblocking = (\<lambda>_. True),
      nl_accept = (\<lambda>l. case l of [] \<Rightarrow> ([], Inl WouldBlock) | s # ls \<Rightarrow> (ls, Inr s)), nl_nonblocking = (\<lambda>_. True),
      nl_read = (\<lambda>(ds, ws). case ds of [] \<Rightarrow> (([], ws), Inl WouldBlock) | d # rest \<Rightarrow> ((rest, ws), Inr d)),
      nl_write_all = (\<lambda>(ds, ws) data. ((ds, ws @ [data]), None))\<rparr>"

definition demo_server :: "u32 \<Rightarrow> (u32 \<times> demo_socket) list \<Rightarrow> (demo_socket list, demo_socket) ServerComponent" where
  "demo_server n conns = \<lparr>sv_conf = 0, sv_resp = 2, sv_out = demo_sink, sv_listen_addr = Some ''a'',
     sv_listener = Some [], sv_connections = conns, sv_next_client_id = n, sv_pending_responses = [],
     sv_pending_outbound = []\<rparr>"

lemmas server_defs = TCPServer_process_def UnixSocketServer_process_def tcp_configure_def unix_configure_def
  tcp_accept_def unix_accept_def serve_clients_def respond_def tcp_end_def server_work_or_poll_def poll_later_def
  demo_net_def remove_all_def

lemma demo_frame: "framed_text 3 [104, 105] = ''3:hi''"
  by code_simp


lemma echo_through_servers_witness:
  "\<exists>conns' io1. respond list_ring demo_net unix_server_kind 0 (5, 0, [], [(3, ([], [])), (4, ([], []))], [])
       (node_io_new (demo_channels [MBytes [51, 58, 104, 105]] 9 []) []) =
       Returned ((4, 1, [], conns', []), io1) \<and>
     map_of conns' 3 = Some ([], [[104, 105]]) \<and> map_of conns' 4 = Some ([], [])"
proof -
  let ?conns = "[(3, ([], [])), (4, ([], []))] :: (u32 \<times> demo_socket) list"
  have b: "into_bytes ''3:hi'' = [51, 58, 104, 105]" by code_simp
  have v: "utf8_valid (map unat ([104, 105] :: u8 list))" by code_simp
  obtain io1 where g: "pop list_ring 0 (node_io_new (demo_channels [MBytes [51, 58, 104, 105]] 9 []) []) =
      (io1, Some (sk_frame unix_server_kind 3 [104, 105]))"
    by (simp add: node_io_new_def demo_channels_def run_defs unix_server_kind_def demo_frame b from_bytes_def)
  obtain io2 where h: "pop list_ring 0 (node_io_new (demo_channels [MText ''3:hi''] 9 []) []) =
      (io2, Some (sk_frame tcp_server_kind 3 [104, 105]))"
    by (simp add: node_io_new_def demo_channels_def run_defs tcp_server_kind_def demo_frame from_text_def)
  have w: "nl_write_all demo_net ([], []) [104, 105] = (([], [[104, 105]]), None)" by (simp add: demo_net_def)
  have k: "map_of ?conns 3 = Some ([], [])" "map_of ?conns 4 = Some ([], [])" by simp_all
  from echo_through_servers [OF v _ k(1) w g h, of 5 0 "[]" "[]"] obtain conns' where
    "respond list_ring demo_net unix_server_kind 0 (5, 0, [], ?conns, [])
      (node_io_new (demo_channels [MBytes [51, 58, 104, 105]] 9 []) []) = Returned ((5 - 1, 0 + 1, [], conns', []), io1)"
    "map_of conns' = (map_of ?conns)(3 \<mapsto> ([], [[104, 105]]))" by auto
  with k(2) show ?thesis by auto
qed

definition demo_server_ends :: "nat multimap" where
  "demo_server_ends p = (if p = ''CONF'' then Some [0] else if p = ''RESP'' then Some [2] else None)"

lemma demo_server_new:
  "Server_new demo_server_ends demo_outs = Returned ((demo_server 0 [])\<lparr>sv_listener := None, sv_listen_addr := None\<rparr>)"
  by (simp add: Server_new_def take_last_def demo_server_ends_def demo_outs_def demo_server_def)

lemma servers_keep_their_tables_witness:
  "\<exists>c' io'. client_run (\<lambda>(order, order'). TCPServer_process list_ring True demo_net order order')
       [((rev, rev), demo_context 3)]
       ((demo_server 0 [])\<lparr>sv_listener := None, sv_listen_addr := None\<rparr>, node_io_new (demo_channels [MText ''a''] 9 []) []) =
       Returned (c', io') \<and>
     client_ids (sv_connections c') = {0} \<and> server_ok True c'"
proof -
  let ?c = "(demo_server 0 [])\<lparr>sv_listener := None, sv_listen_addr := None\<rparr>"
  let ?io = "node_io_new (demo_channels [MText ''a''] 9 []) []"
  have f: "framed_text 0 [104, 105] = ''0:hi''" by code_simp
  have d: "checked_dec True (remaining_budget (demo_context 3)) = Returned 2"
    by (simp add: checked_dec_def demo_context_def with_budget_def)
  have b: "budget_left ((demo_context 3)\<lparr>remaining_budget := 2\<rparr>) = Suc (Suc 0)" by (simp add: budget_left_def)
  obtain c' io' where p: "client_run (\<lambda>(order, order'). TCPServer_process list_ring True demo_net order order')
       [((rev, rev), demo_context 3)] (?c, ?io) = Returned (c', io')" "client_ids (sv_connections c') = {0}"
    by (auto simp: server_defs tcp_server_kind_def demo_server_def node_io_new_def demo_channels_def run_defs b d f
        outcome_expect_def add_connection_def client_ids_def)
  have "server_ok True c'"
    by (rule servers_keep_their_tables [of demo_server_ends demo_outs ?c ?c, THEN conjunct1, rule_format, OF _ _ p(1)])
      (simp_all add: TCPServer_new_def UnixSocketServer_new_def demo_server_new)
  with p show ?thesis by blast
qed

end
