(* ===== verification/TLS.thy ===== *)
theory TLS
  imports Net_Servers
begin

text \<open>
  \<open>TLSClient\<close> and \<open>TLSServer\<close> (\<open>components/tls\<close>). A connection is a TLS session of the package \<open>rustls\<close> with its
  socket; sending and receiving through the two is an argument, as is what connecting threads and handshake
  threads have delivered when they are asked.
\<close>

section \<open>Sessions\<close>

text \<open>
  \<open>tls_send\<close> is \<open>writer().write\<close> followed by \<open>complete_io\<close>: sent, the socket would block, or another error of
  either. \<open>tls_receive\<close> is \<open>read_tls\<close>, \<open>process_new_packets\<close> and one read of decrypted data.
\<close>

datatype tls_sent = TlsSent | TlsWouldBlock | TlsSendFailed

datatype tls_received =
    TlsClosed
  | TlsFailed
  | TlsNothing
  | TlsNoPlaintext
  | TlsPlaintext "u8 list"
  | TlsPlaintextFailed

record 'z tls_lib =
  tls_send :: "'z \<Rightarrow> u8 list \<Rightarrow> 'z \<times> tls_sent"
  tls_receive :: "'z \<Rightarrow> 'z \<times> tls_received"

section \<open>TLSClient\<close>

text \<open>The fields \<open>conn\<close> and \<open>sock\<close> are set and cleared together.\<close>

record 'z TLSClientComponent =
  tc_conf :: nat
  tc_inn :: nat
  tc_out :: ProcessEdgeSink
  tc_conn :: "'z option"
  tc_pending_data :: "MessageBuf list"
  tc_pending_received :: "MessageBuf list"
  tc_connect_result :: "string option"

definition TLSClient_new :: "nat multimap \<Rightarrow> ProcessEdgeSink multimap \<Rightarrow> 'z TLSClientComponent outcome" where
  "TLSClient_new inports0 outports =
     outcome_bind (take_last ''CONF'' ''found no CONF inport'' inports0) (\<lambda>(inports, conf).
     outcome_bind (take_last ''IN'' ''found no IN inport'' inports) (\<lambda>(_, inn).
     outcome_bind (take_last ''OUT'' ''found no OUT outport'' outports) (\<lambda>(_, out).
       Returned \<lparr>tc_conf = conf, tc_inn = inn, tc_out = out, tc_conn = None, tc_pending_data = [],
         tc_pending_received = [], tc_connect_result = None\<rparr>)))"

text \<open>
  A connection attempt under way is the URL its thread was given. The configuration, and whether
  \<open>process\<close> goes on.
\<close>

definition tls_configure ::
    "'q ring_ops \<Rightarrow> 'z TLSClientComponent \<times> 'q node_io \<Rightarrow> (('z TLSClientComponent \<times> 'q node_io) \<times> bool) outcome" where
  "tls_configure R s =
     (case s of (c, io) \<Rightarrow>
        (if tc_conn c \<noteq> None \<or> tc_connect_result c \<noteq> None then Returned (s, True)
         else
           (case pop R (tc_conf c) io of
              (io1, None) \<Rightarrow> Returned ((c, io1), False)
            | (io1, Some m) \<Rightarrow>
                outcome_bind (outcome_expect ''invalid text'' (as_text m)) (\<lambda>url.
                  Returned ((c\<lparr>tc_connect_result := Some url\<rparr>, io1), True)))))"

definition tls_connect :: "('e, 'z) connect_poll \<Rightarrow> 'z TLSClientComponent \<Rightarrow> 'z TLSClientComponent \<times> bool" where
  "tls_connect poll c =
     (if tc_conn c \<noteq> None then (c, True)
      else
        (case tc_connect_result c of
           None \<Rightarrow> (c, False)
         | Some url \<Rightarrow>
             (case poll of
                Connection z \<Rightarrow> (c\<lparr>tc_conn := Some z, tc_connect_result := None\<rparr>, True)
              | ConnectError e \<Rightarrow> (c\<lparr>tc_connect_result := None\<rparr>, False)
              | NoResult \<Rightarrow> (c, False)
              | ResultsClosed \<Rightarrow> (c\<lparr>tc_connect_result := None\<rparr>, False))))"

text \<open>The packets that are pending: budget, work, connection, packets.\<close>

fun tls_send_pending ::
    "'z tls_lib \<Rightarrow> nat \<Rightarrow> nat \<Rightarrow> 'z option \<Rightarrow> MessageBuf list \<Rightarrow> nat \<times> nat \<times> 'z option \<times> MessageBuf list" where
  "tls_send_pending L 0 w conn pending = (0, w, conn, pending)"
| "tls_send_pending L (Suc b) w conn [] = (Suc b, w, conn, [])"
| "tls_send_pending L (Suc b) w None (m # rest) = (Suc b, w, None, m # rest)"
| "tls_send_pending L (Suc b) w (Some z) (m # rest) =
     (case tls_send L z (message_bytes m) of
        (z1, TlsSent) \<Rightarrow> tls_send_pending L b (w + 1) (Some z1) rest
      | (z1, TlsWouldBlock) \<Rightarrow> (Suc b, w, Some z1, m # rest)
      | (z1, TlsSendFailed) \<Rightarrow> (Suc b, w, None, m # rest))"

text \<open>
  One chunk of new packets. The loop over a chunk does not look at the budget, a \<open>u32\<close>, and takes from it for
  each packet. It ends early on an error; the packets it did not come to stay in the channel. The result
  has the number of packets taken.
\<close>

fun tls_send_chunk ::
    "bool \<Rightarrow> 'z tls_lib \<Rightarrow> MessageBuf list \<Rightarrow> u32 \<Rightarrow> nat \<Rightarrow> 'z option \<Rightarrow> MessageBuf list \<Rightarrow> nat \<Rightarrow>
     (u32 \<times> nat \<times> 'z option \<times> MessageBuf list \<times> nat) outcome" where
  "tls_send_chunk chk L [] b w conn pending taken = Returned (b, w, conn, pending, taken)"
| "tls_send_chunk chk L (ip # ips) b w None pending taken =
     outcome_bind (checked_dec chk b) (\<lambda>b1.
       tls_send_chunk chk L ips b1 (w + 1) None (pending @ [ip]) (taken + 1))"
| "tls_send_chunk chk L (ip # ips) b w (Some z) pending taken =
     (case tls_send L z (message_bytes ip) of
        (z1, TlsSent) \<Rightarrow>
          outcome_bind (checked_dec chk b) (\<lambda>b1. tls_send_chunk chk L ips b1 (w + 1) (Some z1) pending (taken + 1))
      | (z1, TlsWouldBlock) \<Rightarrow>
          outcome_bind (checked_dec chk b) (\<lambda>b1.
            tls_send_chunk chk L ips b1 (w + 1) (Some z1) (pending @ [ip]) (taken + 1))
      | (z1, TlsSendFailed) \<Rightarrow> Returned (b, w, None, pending @ [ip], taken + 1))"

text \<open>
  The loop over chunks; each takes what the channel holds. With wrapped budget it goes on until the channel
  is empty, so it takes fuel.
\<close>

fun tls_send_new ::
    "'q ring_ops \<Rightarrow> bool \<Rightarrow> 'z tls_lib \<Rightarrow> nat \<Rightarrow> nat \<Rightarrow> u32 \<Rightarrow> nat \<Rightarrow> 'z option \<Rightarrow> MessageBuf list \<Rightarrow> 'q node_io \<Rightarrow>
     (u32 \<times> nat \<times> 'z option \<times> MessageBuf list \<times> 'q node_io) outcome option" where
  "tls_send_new R chk L inn 0 b w conn pending io = None"
| "tls_send_new R chk L inn (Suc fuel) b w conn pending io =
     (if b = 0 then Some (Returned (b, w, conn, pending, io))
      else
        (case slots R inn io of
           (io1, n) \<Rightarrow>
             (case read_chunk R inn n io1 of
                (io2, None) \<Rightarrow> Some (Returned (b, w, conn, pending, io2))
              | (io2, Some []) \<Rightarrow> Some (Returned (b, w, conn, pending, io2))
              | (_, Some (ip # ips)) \<Rightarrow>
                  (case tls_send_chunk chk L (ip # ips) b w conn pending 0 of
                     Panicked msg \<Rightarrow> Some (Panicked msg)
                   | Returned (b1, w1, conn1, pending1, taken) \<Rightarrow>
                       tls_send_new R chk L inn fuel b1 w1 conn1 pending1 (fst (read_chunk R inn taken io1))))))"

text \<open>Receiving.\<close>

fun tls_receive_loop ::
    "'q ring_ops \<Rightarrow> 'z tls_lib \<Rightarrow> ProcessEdgeSink \<Rightarrow> nat \<Rightarrow> nat \<Rightarrow> 'z option \<Rightarrow> MessageBuf list \<Rightarrow> 'q node_io \<Rightarrow>
     nat \<times> nat \<times> 'z option \<times> MessageBuf list \<times> 'q node_io" where
  "tls_receive_loop R L out 0 w conn received io = (0, w, conn, received, io)"
| "tls_receive_loop R L out (Suc b) w None received io = (Suc b, w, None, received, io)"
| "tls_receive_loop R L out (Suc b) w (Some z) received io =
     (case tls_receive L z of
        (z1, TlsPlaintext (x # xs)) \<Rightarrow>
          (case push R (from_bytes (x # xs)) out io of
             (io1, sent) \<Rightarrow>
               tls_receive_loop R L out b (w + 1) (Some z1)
                 (if sent then received else received @ [from_bytes (x # xs)]) io1)
      | (z1, TlsPlaintext []) \<Rightarrow> (Suc b, w, Some z1, received, io)
      | (z1, TlsNothing) \<Rightarrow> (Suc b, w, Some z1, received, io)
      | (z1, TlsNoPlaintext) \<Rightarrow> (Suc b, w, Some z1, received, io)
      | (z1, TlsClosed) \<Rightarrow> (Suc b, w, None, received, io)
      | (z1, TlsFailed) \<Rightarrow> (Suc b, w, None, received, io)
      | (z1, TlsPlaintextFailed) \<Rightarrow> (Suc b, w, None, received, io))"

definition tls_client_end ::
    "'q ring_ops \<Rightarrow> nat \<Rightarrow> 'z TLSClientComponent \<times> 'q node_io \<Rightarrow> NodeContext \<Rightarrow>
     ('z TLSClientComponent \<times> 'q node_io) \<times> NodeContext \<times> ProcessResult" where
  "tls_client_end R w s ctx =
     (case s of (c, io) \<Rightarrow>
        (case is_abandoned R (tc_inn c) io of
           (io1, abandoned) \<Rightarrow>
             if abandoned \<and> tc_pending_data c = [] \<and> tc_pending_received c = [] then ((c, io1), ctx, Finished)
             else work_or_poll R w (c, io1) ctx))"

definition tls_exchange ::
    "'q ring_ops \<Rightarrow> bool \<Rightarrow> 'z tls_lib \<Rightarrow> nat \<Rightarrow> nat \<Rightarrow> nat \<Rightarrow> 'z TLSClientComponent \<times> 'q node_io \<Rightarrow> NodeContext \<Rightarrow>
     (('z TLSClientComponent \<times> 'q node_io) \<times> NodeContext \<times> ProcessResult) outcome option" where
  "tls_exchange R chk L fuel b w s ctx =
     (case s of (c, io) \<Rightarrow>
        (case tls_send_pending L b w (tc_conn c) (tc_pending_data c) of
           (b1, w1, conn1, pending1) \<Rightarrow>
             (case tls_send_new R chk L (tc_inn c) fuel (of_nat b1) w1 conn1 pending1 io of
                None \<Rightarrow> None
              | Some (Panicked msg) \<Rightarrow> Some (Panicked msg)
              | Some (Returned (b2, w2, conn2, pending2, io2)) \<Rightarrow>
                  (case tls_receive_loop R L (tc_out c) (unat b2) w2 conn2 (tc_pending_received c) io2 of
                     (b3, w3, conn3, received, io3) \<Rightarrow>
                       Some (Returned (tls_client_end R w3
                         (c\<lparr>tc_conn := conn3, tc_pending_data := pending2, tc_pending_received := received\<rparr>, io3)
                         (with_budget b3 ctx)))))))"

definition TLSClient_process ::
    "'q ring_ops \<Rightarrow> bool \<Rightarrow> 'z tls_lib \<Rightarrow> nat \<Rightarrow> ('e, 'z) connect_poll \<Rightarrow>
     'z TLSClientComponent \<times> 'q node_io \<Rightarrow> NodeContext \<Rightarrow>
     (('z TLSClientComponent \<times> 'q node_io) \<times> NodeContext \<times> ProcessResult) outcome option" where
  "TLSClient_process R chk L fuel poll s ctx0 =
     (case s of (c0, io0) \<Rightarrow>
        (case repeat_flush R (tc_out c0) (budget_left ctx0) 0 (tc_pending_received c0) io0 of
           (b, w, received, io1) \<Rightarrow>
             let ctx = with_budget b ctx0 in
             (case tls_configure R (c0\<lparr>tc_pending_received := received\<rparr>, io1) of
                Panicked msg \<Rightarrow> Some (Panicked msg)
              | Returned ((c1, io2), False) \<Rightarrow> Some (Returned ((c1, io2), ctx, NoWork))
              | Returned ((c1, io2), True) \<Rightarrow>
                  (case tls_connect poll c1 of
                     (c, False) \<Rightarrow> Some (Returned ((c, io2), ctx, NoWork))
                   | (c, True) \<Rightarrow>
                       (case check_signals R text_or_utf8 io2 of
                          (io3, True) \<Rightarrow> Some (Returned ((c, io3), ctx, Finished))
                        | (io3, False) \<Rightarrow> tls_exchange R chk L fuel b w (c, io3) ctx)))))"

definition TLSClient_metadata :: ComponentComponentPayload where
  "TLSClient_metadata = metadata_default\<lparr>
     comp_name := ''TLSClient'',
     comp_description := ''Sends and receives bytes, transformed into IPs, via a TLS+TCP connection.'',
     comp_icon := ''plug'', subgraph := False,
     in_ports := [any_port ''CONF'' False
         ''connection URL with optional configuration parameters in query part - currently none defined''
         ''tls://example.com:8080'',
       any_port ''IN'' False ''incoming decrypted bytes from TLS, transformed to IPs'' ''''],
     out_ports := [any_port ''OUT'' False ''IPs to be sent as encrypted bytes via TLS'' '''']\<rparr>"

section \<open>TLSServer\<close>

text \<open>
  A connection waits for its handshake since the time it was made, or is active. The states \<open>Writing\<close> and
  \<open>Closed\<close> of the source are never made.
\<close>

datatype 'z tls_connection =
    PendingHandshake instant
  | Active 'z
  | Writing
  | Closed

record ('l, 'k, 'z) tls_server_lib =
  ts_config :: "u8 list \<Rightarrow> u8 list \<Rightarrow> 'k outcome"
  ts_bind :: "string \<Rightarrow> 'l outcome"
  ts_accept :: "'k \<Rightarrow> 'l \<Rightarrow> 'l \<times> (ErrorKind + unit outcome)"
  ts_session :: "'z tls_lib"

record ('l, 'k, 'z) TLSServerComponent =
  ts_conf :: nat
  ts_cert :: nat
  ts_key :: nat
  ts_resp :: nat
  ts_out :: ProcessEdgeSink
  ts_listen_addr :: "string option"
  ts_cert_data :: "u8 list option"
  ts_key_data :: "u8 list option"
  ts_server_config :: "'k option"
  ts_listener :: "'l option"
  ts_connections :: "(u32 \<times> 'z tls_connection) list"
  ts_next_client_id :: u32
  ts_pending_outbound :: "MessageBuf list"
  ts_pending_responses :: "MessageBuf list"

definition TLSServer_new :: "nat multimap \<Rightarrow> ProcessEdgeSink multimap \<Rightarrow> ('l, 'k, 'z) TLSServerComponent outcome" where
  "TLSServer_new inports0 outports =
     outcome_bind (take_last ''CONF'' ''found no CONF inport'' inports0) (\<lambda>(inports1, conf).
     outcome_bind (take_last ''CERT'' ''found no CERT inport'' inports1) (\<lambda>(inports2, cert).
     outcome_bind (take_last ''KEY'' ''found no KEY inport'' inports2) (\<lambda>(inports3, key).
     outcome_bind (take_last ''RESP'' ''found no RESP inport'' inports3) (\<lambda>(_, resp).
     outcome_bind (take_last ''OUT'' ''found no OUT outport'' outports) (\<lambda>(_, out).
       Returned \<lparr>ts_conf = conf, ts_cert = cert, ts_key = key, ts_resp = resp, ts_out = out,
         ts_listen_addr = None, ts_cert_data = None, ts_key_data = None, ts_server_config = None,
         ts_listener = None, ts_connections = [], ts_next_client_id = 0, ts_pending_outbound = [],
         ts_pending_responses = []\<rparr>)))))"

text \<open>The three parts of the configuration may come one by one; the last to come sets the server up.\<close>

definition tls_read_config ::
    "'q ring_ops \<Rightarrow> ('l, 'k, 'z) TLSServerComponent \<times> 'q node_io \<Rightarrow> (('l, 'k, 'z) TLSServerComponent \<times> 'q node_io) outcome" where
  "tls_read_config R s =
     (case s of (c, io) \<Rightarrow>
        (case pop R (ts_conf c) io of (io1, addr) \<Rightarrow>
           outcome_bind
             (case addr of
                None \<Rightarrow> Returned (ts_listen_addr c)
              | Some m \<Rightarrow> outcome_bind (outcome_expect ''invalid text listen address'' (as_text m)) (\<lambda>a. Returned (Some a)))
             (\<lambda>listen_addr.
                case pop R (ts_cert c) io1 of (io2, cert) \<Rightarrow>
                  (case pop R (ts_key c) io2 of (io3, key) \<Rightarrow>
                     Returned
                       (c\<lparr>ts_listen_addr := listen_addr,
                          ts_cert_data := (case cert of None \<Rightarrow> ts_cert_data c | Some m \<Rightarrow> Some (message_bytes m)),
                          ts_key_data := (case key of None \<Rightarrow> ts_key_data c | Some m \<Rightarrow> Some (message_bytes m))\<rparr>, io3)))))"

definition tls_server_configure ::
    "'q ring_ops \<Rightarrow> ('l, 'k, 'z) tls_server_lib \<Rightarrow> ('l, 'k, 'z) TLSServerComponent \<times> 'q node_io \<Rightarrow>
     ((('l, 'k, 'z) TLSServerComponent \<times> 'q node_io) \<times> bool) outcome" where
  "tls_server_configure R L s =
     (if ts_server_config (fst s) \<noteq> None then Returned (s, True)
      else
        outcome_bind (tls_read_config R s) (\<lambda>(c, io).
          case (ts_listen_addr c, ts_cert_data c, ts_key_data c) of
            (Some addr, Some cert, Some key) \<Rightarrow>
              outcome_bind (ts_config L cert key) (\<lambda>config.
              outcome_bind (ts_bind L addr) (\<lambda>listener.
                Returned ((c\<lparr>ts_server_config := Some config, ts_listener := Some listener\<rparr>, io), True)))
          | _ \<Rightarrow> Returned ((c, io), False)))"

definition tls_accept ::
    "'q ring_ops \<Rightarrow> bool \<Rightarrow> ('l, 'k, 'z) tls_server_lib \<Rightarrow> nat \<Rightarrow> nat \<Rightarrow> ('l, 'k, 'z) TLSServerComponent \<times> 'q node_io \<Rightarrow>
     (nat \<times> nat \<times> ('l, 'k, 'z) TLSServerComponent \<times> 'q node_io) outcome" where
  "tls_accept R chk L b w s =
     (case s of (c, io) \<Rightarrow>
        (case (ts_listener c, ts_server_config c) of
           (Some listener, Some config) \<Rightarrow>
             if b = 0 then Returned (b, w, s)
             else
               (case ts_accept L config listener of
                  (listener1, Inl kind) \<Rightarrow> Returned (b, w, c\<lparr>ts_listener := Some listener1\<rparr>, io)
                | (listener1, Inr made) \<Rightarrow>
                    outcome_bind made (\<lambda>_.
                      if chk \<and> ts_next_client_id c = -1 then Panicked ''attempt to add with overflow''
                      else
                        (let (io1, now) = time_now R io in
                         Returned (b - 1, w + 1,
                           c\<lparr>ts_listener := Some listener1, ts_next_client_id := ts_next_client_id c + 1,
                             ts_connections :=
                               AList.update (ts_next_client_id c) (PendingHandshake now) (ts_connections c)\<rparr>, io1))))
         | _ \<Rightarrow> Returned (b, w, s)))"

text \<open>
  The loop over the connections. \<open>polls\<close> gives what the handshake of a client has delivered. A handshake
  without result is given up after thirty seconds.
\<close>

definition tls_serve_handshake ::
    "'q ring_ops \<Rightarrow> ('e, 'z) connect_poll \<Rightarrow> instant \<Rightarrow> 'q node_io \<Rightarrow> 'z option \<times> bool \<times> 'q node_io" where
  "tls_serve_handshake R poll since io =
     (case poll of
        Connection z \<Rightarrow> (Some z, False, io)
      | ConnectError e \<Rightarrow> (None, True, io)
      | ResultsClosed \<Rightarrow> (None, True, io)
      | NoResult \<Rightarrow> (case time_now R io of (io1, now) \<Rightarrow> (None, 30000000000 < now - since, io1)))"

fun tls_serve ::
    "'q ring_ops \<Rightarrow> 'z tls_lib \<Rightarrow> (u32 \<Rightarrow> ('e, 'z) connect_poll) \<Rightarrow> ProcessEdgeSink \<Rightarrow> u32 list \<Rightarrow>
     nat \<Rightarrow> nat \<Rightarrow> u32 list \<Rightarrow> MessageBuf list \<Rightarrow> (u32 \<times> 'z tls_connection) list \<Rightarrow> 'q node_io \<Rightarrow>
     nat \<times> nat \<times> u32 list \<times> MessageBuf list \<times> (u32 \<times> 'z tls_connection) list \<times> 'q node_io" where
  "tls_serve R L polls out [] b w gone held conns io = (b, w, gone, held, conns, io)"
| "tls_serve R L polls out (client_id # ids) b w gone held conns io =
     (if b = 0 then (b, w, gone, held, conns, io)
      else
        (case map_of conns client_id of
           None \<Rightarrow> tls_serve R L polls out ids b w gone held conns io
         | Some (PendingHandshake since) \<Rightarrow>
             (case tls_serve_handshake R (polls client_id) since io of
                (Some z, _, io1) \<Rightarrow>
                  tls_serve R L polls out ids (b - 1) (w + 1) gone held (AList.update client_id (Active z) conns) io1
              | (None, removed, io1) \<Rightarrow>
                  tls_serve R L polls out ids b w (if removed then gone @ [client_id] else gone) held conns io1)
         | Some (Active z) \<Rightarrow>
             (case tls_receive L z of
                (z1, TlsPlaintext (x # xs)) \<Rightarrow>
                  (case push R (from_bytes (x # xs)) out io of
                     (io1, sent) \<Rightarrow>
                       tls_serve R L polls out ids (b - 1) (w + 1) gone
                         (if sent then held else held @ [from_bytes (x # xs)])
                         (AList.update client_id (Active z1) conns) io1)
              | (z1, got) \<Rightarrow>
                  tls_serve R L polls out ids b w
                    (if got = TlsClosed \<or> got = TlsFailed \<or> got = TlsPlaintextFailed then gone @ [client_id] else gone)
                    held (AList.update client_id (Active z1) conns) io)
         | Some Writing \<Rightarrow> tls_serve R L polls out ids b w gone held conns io
         | Some Closed \<Rightarrow> tls_serve R L polls out ids b w (gone @ [client_id]) held conns io))"

text \<open>The first response is tried on the first active connection; it stays when it is not sent.\<close>

definition first_active :: "u32 list \<Rightarrow> (u32 \<times> 'z tls_connection) list \<Rightarrow> (u32 \<times> 'z) option" where
  "first_active ids conns =
     (case List.find (\<lambda>i. case map_of conns i of Some (Active z) \<Rightarrow> True | _ \<Rightarrow> False) ids of
        None \<Rightarrow> None
      | Some i \<Rightarrow> (case map_of conns i of Some (Active z) \<Rightarrow> Some (i, z) | _ \<Rightarrow> None))"

definition tls_respond ::
    "'z tls_lib \<Rightarrow> u32 list \<Rightarrow> nat \<Rightarrow> nat \<Rightarrow> (u32 \<times> 'z tls_connection) list \<Rightarrow> MessageBuf list \<Rightarrow>
     nat \<times> nat \<times> (u32 \<times> 'z tls_connection) list \<times> MessageBuf list" where
  "tls_respond L ids b w conns responses =
     (case responses of
        [] \<Rightarrow> (b, w, conns, responses)
      | m # rest \<Rightarrow>
          if b = 0 then (b, w, conns, responses)
          else
            (case first_active ids conns of
               None \<Rightarrow> (b, w, conns, responses)
             | Some (client_id, z) \<Rightarrow>
                 (case tls_send L z (message_bytes m) of
                    (z1, TlsSent) \<Rightarrow> (b - 1, w + 1, AList.update client_id (Active z1) conns, rest)
                  | (z1, _) \<Rightarrow> (b, w, AList.update client_id (Active z1) conns, responses))))"

definition tls_serve_all ::
    "'q ring_ops \<Rightarrow> ('l, 'k, 'z) tls_server_lib \<Rightarrow> (u32 \<Rightarrow> ('e, 'z) connect_poll) \<Rightarrow> (u32 list \<Rightarrow> u32 list) \<Rightarrow>
     nat \<Rightarrow> nat \<Rightarrow> ('l, 'k, 'z) TLSServerComponent \<times> 'q node_io \<Rightarrow>
     nat \<times> nat \<times> ('l, 'k, 'z) TLSServerComponent \<times> 'q node_io" where
  "tls_serve_all R L polls order b w s =
     (case s of (c, io) \<Rightarrow>
        (case tls_serve R (ts_session L) polls (ts_out c) (order (map fst (ts_connections c))) b w []
                (ts_pending_outbound c) (ts_connections c) io of
           (b1, w1, gone, held, conns1, io1) \<Rightarrow>
             (case pop R (ts_resp c) io1 of
                (io2, response) \<Rightarrow>
                  let conns2 = remove_all gone conns1;
                      responses = ts_pending_responses c @ (case response of None \<Rightarrow> [] | Some m \<Rightarrow> [m]) in
                  (case tls_respond (ts_session L) (order (map fst conns2)) b1 (w1 + length gone) conns2 responses of
                     (b2, w2, conns3, responses1) \<Rightarrow>
                       (b2, w2, c\<lparr>ts_connections := conns3, ts_pending_outbound := held,
                                  ts_pending_responses := responses1\<rparr>, io2)))))"

definition TLSServer_process ::
    "'q ring_ops \<Rightarrow> bool \<Rightarrow> ('l, 'k, 'z) tls_server_lib \<Rightarrow> (u32 \<Rightarrow> ('e, 'z) connect_poll) \<Rightarrow> (u32 list \<Rightarrow> u32 list) \<Rightarrow>
     ('l, 'k, 'z) TLSServerComponent \<times> 'q node_io \<Rightarrow> NodeContext \<Rightarrow>
     ((('l, 'k, 'z) TLSServerComponent \<times> 'q node_io) \<times> NodeContext \<times> ProcessResult) outcome" where
  "TLSServer_process R chk L polls order s ctx =
     (case s of (c0, io0) \<Rightarrow>
        (case repeat_flush R (ts_out c0) (budget_left ctx) 0 (ts_pending_outbound c0) io0 of
           (b, w, held, io1) \<Rightarrow>
             outcome_bind (tls_server_configure R L (c0\<lparr>ts_pending_outbound := held\<rparr>, io1)) (\<lambda>((c, io2), go).
               if \<not> go then Returned ((c, io2), with_budget b ctx, NoWork)
               else
                 (case check_signals R text_or_utf8 io2 of
                    (io3, True) \<Rightarrow> Returned ((c, io3), with_budget b ctx, Finished)
                  | (io3, False) \<Rightarrow>
                      outcome_bind (tls_accept R chk L b w (c, io3)) (\<lambda>(b1, w1, s1).
                        case tls_serve_all R L polls order b1 w1 s1 of
                          (b2, w2, c2, io4) \<Rightarrow>
                            Returned
                              (if w2 = 0 \<and> ts_listener c2 = None then ((c2, io4), with_budget b2 ctx, NoWork)
                               else work_or_poll R w2 (c2, io4) (with_budget b2 ctx)))))))"

definition TLSServer_metadata :: ComponentComponentPayload where
  "TLSServer_metadata = metadata_default\<lparr>
     comp_name := ''TLSServer'', comp_description := ''TLS over TCP server'', comp_icon := ''server'', subgraph := False,
     in_ports := [any_port ''CONF'' False ''configuration value, currently the IP and port to listen on''
         ''localhost:1234'',
       any_port ''CERT'' False
         (''the TLS certificate with the public key; can be multiple chained certificates; generate selfsigned with '' @
          ''openssl req -x509 -newkey rsa:4096 -keyout key.pem -out cert.pem -sha256 -days 365 -nodes -subj '' @
          [CHR 0x27] @ ''/CN=localhost'' @ [CHR 0x27]) '''',
       any_port ''KEY'' False ''private key fitting the public key in the TLS certificate'' '''',
       any_port ''RESP'' False ''response data from downstream process for each connection'' ''''],
     out_ports := [any_port ''OUT'' False ''signal and content data from the client connections'' '''']\<rparr>"

end
