(* ===== verification/TLS_Properties.thy ===== *)
theory TLS_Properties
  imports TLS Net_Server_Properties
begin

text \<open>
  Properties of \<open>WSServer\<close>, \<open>TLSClient\<close> and \<open>TLSServer\<close>: their calls end, and what a \<open>TLSClient\<close> does without a
  connection and with more packets than budget.
\<close>

section \<open>What waits on a channel\<close>

context ring begin

lemma waiting_flush:
  "repeat_flush R out b w p io = (b', w', p', io') \<Longrightarrow> sk_sink out \<noteq> c \<Longrightarrow> waiting held c io' \<le> waiting held c io"
proof (induction b arbitrary: w p io)
  case (Suc b)
  then show ?case
    by (cases p) (auto split: prod.splits bool.splits dest!: waiting_push Suc.IH)
qed simp

lemma pop_many_prefix:
  "pop_many R n q = Some (q', ms) \<Longrightarrow> k \<le> n \<Longrightarrow> \<exists>q1. pop_many R k q = Some (q1, take k ms)"
proof (induction n arbitrary: k q q' ms)
  case (Suc n)
  show ?case
  proof (cases k)
    case (Suc j)
    from Suc.prems(1) obtain q1 m ms1 where p: "ring_pop R q = Some (q1, m)" "pop_many R n q1 = Some (q', ms1)" "ms = m # ms1"
      by (auto split: option.splits)
    with Suc.IH [OF p(2), of j] Suc.prems(2) Suc show ?thesis by auto
  qed simp
qed simp

lemma waiting_read_chunk:
  assumes "read_chunk R c n io = (io', got)"
  shows "case got of None \<Rightarrow> waiting held c io' \<le> waiting held c io
    | Some ms \<Rightarrow> waiting held c io' + length ms \<le> waiting held c io"
proof -
  have "held q = ms @ held q'" if "pop_many R n q = Some (q', ms)" for q q' ms
    using pop_many_held [OF that] .
  with assms waiting_meanwhile [of c io] show ?thesis
    by (fastforce simp: read_chunk_def Let_def waiting_def split: option.splits)
qed

lemma read_chunk_prefix:
  assumes "read_chunk R c n io = (io1, Some ms)" and "k \<le> n"
  shows "\<exists>io2. read_chunk R c k io = (io2, Some (take k ms))"
proof -
  from assms(1) obtain q where "pop_many R n (io_channels (meanwhile R io) c) = Some (q, ms)"
    by (auto simp: read_chunk_def Let_def split: option.splits)
  from pop_many_prefix [OF this assms(2)] show ?thesis by (auto simp: read_chunk_def Let_def)
qed

section \<open>The loops that take fuel\<close>

lemma ws_read_clients_waiting:
  "ws_read_clients R L out ids b w closed p conns io = (b', w', closed', p', conns', io') \<Longrightarrow> sk_sink out \<noteq> c \<Longrightarrow>
   waiting held c io' \<le> waiting held c io"
proof (induction ids arbitrary: b w closed p conns io)
  case (Cons i ids)
  show ?case
  proof (cases "b = 0")
    case False
    with Cons.prems show ?thesis
      by (auto split: option.splits prod.splits sum.splits bool.splits dest!: Cons.IH waiting_push intro: order_trans)
  qed (use Cons.prems in simp)
qed simp

lemma ws_respond_returns:
  "waiting held resp io < fuel \<Longrightarrow> ws_respond R L order resp fuel b w conns io \<noteq> None"
proof (induction fuel arbitrary: b w conns io)
  case (Suc fuel)
  obtain io1 e where e: "is_empty R resp io = (io1, e)" by fastforce
  obtain io2 got where g: "pop R resp io1 = (io2, got)" by fastforce
  show ?case
  proof (cases "e \<or> b = 0 \<or> got = None")
    case True
    with e g show ?thesis by (auto split: bool.splits)
  next
    case False
    then obtain m where m: "\<not> e" "b \<noteq> 0" "got = Some m" by auto
    have "waiting held resp io2 < fuel"
      using waiting_is_empty [OF e, of resp] waiting_pop [OF g] m Suc.prems by simp
    from Suc.IH [OF this] e g m show ?thesis by (simp split: list.split option.split prod.split)
  qed
qed simp

end

lemma tls_send_chunk_taken:
  "tls_send_chunk chk L ips b w conn pending taken = Returned (b', w', conn', pending', taken') \<Longrightarrow>
   taken \<le> taken' \<and> taken' \<le> taken + length ips \<and> (ips \<noteq> [] \<longrightarrow> taken < taken')"
proof (induction ips arbitrary: b w conn pending taken)
  case (Cons ip ips)
  show ?case
  proof (cases conn)
    case None
    with Cons.prems show ?thesis by (auto simp: outcome_bind_Returned dest!: Cons.IH)
  next
    case (Some z)
    obtain z1 sent where "tls_send L z (message_bytes ip) = (z1, sent)" by fastforce
    with Cons.prems Some show ?thesis
      by (cases sent) (auto simp: outcome_bind_Returned dest!: Cons.IH)
  qed
qed simp

context ring begin

lemma tls_send_new_returns:
  "waiting held inn io < fuel \<Longrightarrow> tls_send_new R chk L inn fuel b w conn pending io \<noteq> None"
proof (induction fuel arbitrary: b w conn pending io)
  case (Suc fuel)
  obtain io1 n where n: "slots R inn io = (io1, n)" by fastforce
  obtain io2 got where g: "read_chunk R inn n io1 = (io2, got)" by fastforce
  show ?case
  proof (cases "b = 0 \<or> got = None \<or> got = Some []")
    case True
    with n g show ?thesis by auto
  next
    case False
    then obtain ip ips where got: "b \<noteq> 0" "got = Some (ip # ips)" by (cases got; cases "the got") auto
    show ?thesis
    proof (cases "tls_send_chunk chk L (ip # ips) b w conn pending 0")
      case (Panicked msg)
      with n g got show ?thesis by (simp del: tls_send_chunk.simps)
    next
      case (Returned x)
      obtain b1 w1 conn1 pending1 taken where x: "x = (b1, w1, conn1, pending1, taken)" by (metis prod.exhaust)
      from tls_send_chunk_taken [OF Returned [unfolded x]] have t: "0 < taken" "taken \<le> length (ip # ips)" by auto
      have "length (ip # ips) \<le> n"
      proof -
        have "length ms = k" if "pop_many R k q = Some (q', ms)" for k q q' ms
          using that by (induction k arbitrary: q q' ms) (auto split: option.splits)
        with g got show ?thesis by (fastforce simp: read_chunk_def Let_def split: option.splits)
      qed
      with t read_chunk_prefix [OF g [unfolded got], of taken] obtain io3 where
        r: "read_chunk R inn taken io1 = (io3, Some (take taken (ip # ips)))" by auto
      have "waiting held inn io3 + taken \<le> waiting held inn io1"
        using waiting_read_chunk [OF r] t(2) by simp
      with waiting_slots [OF n, of inn] Suc.prems t(1) have "waiting held inn io3 < fuel" by simp
      from Suc.IH [OF this] n g got Returned x r show ?thesis by (simp del: tls_send_chunk.simps)
    qed
  qed
qed simp

end

text \<open>
  A call of \<open>WSServer\<close> or \<open>TLSClient\<close> ends, although responses that cannot be sent use up no budget and the
  budget of a \<open>TLSClient\<close> may wrap: fuel for the packets that wait on RESP or IN and those that may arrive
  meanwhile suffices.
\<close>

lemma socket_calls_always_return:
  assumes "ring R cap held"
    and "waiting held (ws_resp c) io < fuel" and "sk_sink (ws_out c) \<noteq> ws_resp c"
    and "waiting held (tc_inn d) io < fuel" and "sk_sink (tc_out d) \<noteq> tc_inn d" and "tc_conf d \<noteq> tc_inn d"
  shows "(\<exists>r. WSServer_process R chk L order fuel (c, io) ctx = Some r) \<and>
    (\<exists>r. TLSClient_process R chk T fuel poll (d, io) ctx = Some r)"
proof
  obtain io1 stop where s: "check_signals R text_or_utf8 io = (io1, stop)" by fastforce
  have l1: "waiting held (ws_resp c) io1 < fuel"
    using ring.waiting_signals [OF assms(1) s, of "ws_resp c"] assms(2) by simp
  show "\<exists>r. WSServer_process R chk L order fuel (c, io) ctx = Some r"
  proof (cases "\<not> stop \<and> (\<exists>l conns n. ws_state c = WSListening l conns n)")
    case False
    with s show ?thesis by (cases "ws_state c") (auto simp: WSServer_process_def split: bool.splits)
  next
    case True
    then obtain l conns n where st: "\<not> stop" "ws_state c = WSListening l conns n" by blast
    obtain b1 w1 p io2 where f: "repeat_flush R (ws_out c) (budget_left ctx) 0 (ws_pending_outbound c) io1 = (b1, w1, p, io2)"
      by (metis prod.exhaust)
    have l2: "waiting held (ws_resp c) io2 < fuel" using ring.waiting_flush [OF assms(1) f assms(3)] l1 by simp
    have "ws_listening R chk L order fuel l conns n (c, io1) ctx \<noteq> None"
    proof (cases "ws_accept chk L l conns n b1 w1")
      case (Returned a)
      show ?thesis
      proof (cases a)
        case (Some x)
        obtain l1 conns1 n1 b2 w2 where x: "x = (l1, conns1, n1, b2, w2)" by (metis prod.exhaust)
        obtain b3 w3 closed p3 conns3 io3 where rd: "ws_read_clients R L (ws_out c) (order (map fst conns1)) b2 w2 [] p conns1 io2
            = (b3, w3, closed, p3, conns3, io3)" by (metis prod.exhaust)
        have "waiting held (ws_resp c) io3 < fuel"
          using ring.ws_read_clients_waiting [OF assms(1) rd assms(3)] l2 by simp
        from ring.ws_respond_returns [OF assms(1) this] obtain b4 w4 conns4 io4 where
          "ws_respond R L order (ws_resp c) fuel b3 w3 (remove_all closed conns3) io3 = Some (b4, w4, conns4, io4)"
          by fast
        with f Returned Some x rd show ?thesis by (simp add: ws_listening_def Let_def split: prod.split)
      qed (use f Returned in \<open>simp add: ws_listening_def\<close>)
    qed (use f in \<open>simp add: ws_listening_def\<close>)
    with s st show ?thesis by (simp add: WSServer_process_def)
  qed
next
  obtain b w p io1 where f: "repeat_flush R (tc_out d) (budget_left ctx) 0 (tc_pending_received d) io = (b, w, p, io1)"
    by (metis prod.exhaust)
  have l1: "waiting held (tc_inn d) io1 < fuel" using ring.waiting_flush [OF assms(1) f assms(5)] assms(4) by simp
  show "\<exists>r. TLSClient_process R chk T fuel poll (d, io) ctx = Some r"
  proof (cases "tls_configure R (d\<lparr>tc_pending_received := p\<rparr>, io1)")
    case (Panicked msg)
    with f show ?thesis by (simp add: TLSClient_process_def Let_def)
  next
    case (Returned x)
    obtain c1 io2 go where x: "x = ((c1, io2), go)" by (metis prod.exhaust)
    have c1: "tc_inn c1 = tc_inn d" and l2: "waiting held (tc_inn d) io2 < fuel"
      using Returned x l1 assms(6) ring.waiting_pop_other [OF assms(1), of "tc_conf d" io1 _ _ "tc_inn d"]
      by (fastforce simp: tls_configure_def outcome_bind_Returned split: if_splits prod.splits option.splits)+
    obtain c2 go2 where cn: "tls_connect poll c1 = (c2, go2)" by fastforce
    have c2: "tc_inn c2 = tc_inn d"
      using cn c1 by (auto simp: tls_connect_def split: if_splits option.splits connect_poll.splits)
    obtain io3 stop where s: "check_signals R text_or_utf8 io2 = (io3, stop)" by fastforce
    have l3: "waiting held (tc_inn c2) io3 < fuel"
      using ring.waiting_signals [OF assms(1) s, of "tc_inn d"] l2 c2 by simp
    obtain b1 w1 conn1 p1 where sp: "tls_send_pending T b w (tc_conn c2) (tc_pending_data c2) = (b1, w1, conn1, p1)"
      by (metis prod.exhaust)
    from ring.tls_send_new_returns [OF assms(1) l3] sp
    have "tls_exchange R chk T fuel b w (c2, io3) (with_budget b ctx) \<noteq> None"
      by (auto simp: tls_exchange_def split: outcome.splits option.splits prod.splits)
    with f Returned x cn s show ?thesis
      by (cases go; cases go2; cases stop) (simp_all add: TLSClient_process_def Let_def)
  qed
qed

definition demo_ws_net :: "(nat, nat) ws_lib" where
  "demo_ws_net = \<lparr>wl_bind = (\<lambda>_. Some 0), wl_listener_nonblocking = (\<lambda>_. True), wl_accept = (\<lambda>l. (l, Inl WouldBlock)),
     wl_read = (\<lambda>s. (s, Inl (WsIo WouldBlock))), wl_send = (\<lambda>s _. (Suc s, True))\<rparr>"

definition demo_session :: "nat tls_lib" where
  "demo_session = \<lparr>tls_send = (\<lambda>z _. (Suc z, TlsSent)), tls_receive = (\<lambda>z. (z, TlsNothing))\<rparr>"

definition demo_ws_server :: "(nat, nat) WSServerComponent" where
  "demo_ws_server = \<lparr>ws_conf = 3, ws_resp = 0, ws_out = demo_sink, ws_state = WSListening 0 [(1, 0)] 2,
     ws_pending_outbound = []\<rparr>"

definition demo_tls_client :: "nat option \<Rightarrow> nat TLSClientComponent" where
  "demo_tls_client conn = \<lparr>tc_conf = 3, tc_inn = 0, tc_out = demo_sink, tc_conn = conn, tc_pending_data = [],
     tc_pending_received = [], tc_connect_result = None\<rparr>"

lemma socket_calls_always_return_witness:
  "(\<exists>r. WSServer_process list_ring True demo_ws_net (\<lambda>ids. ids) 3
      (demo_ws_server, node_io_new (demo_channels [MBytes [1], MBytes [2]] 9 []) []) (demo_context 3) = Some r) \<and>
   (\<exists>r. TLSClient_process list_ring True demo_session 3 (NoResult :: (unit, nat) connect_poll)
      (demo_tls_client (Some 0), node_io_new (demo_channels [MBytes [1], MBytes [2]] 9 []) []) (demo_context 3) = Some r)"
  by (rule socket_calls_always_return [OF list_ring.ring_axioms])
    (simp_all add: waiting_def demo_ws_server_def demo_tls_client_def node_io_new_def demo_channels_def)

section \<open>A TLSClient with more packets than budget\<close>

text \<open>
  The loop over a chunk takes from the budget for each packet: with more packets than budget it panics in a
  build that checks arithmetic, and wraps the budget otherwise.
\<close>

lemma tls_chunk_overdraws:
  assumes "\<And>z m. snd (tls_send L z m) \<noteq> TlsSendFailed"
  shows "unat b < length ips \<Longrightarrow> tls_send_chunk True L ips b w conn pending taken = Panicked ''attempt to subtract with overflow''"
proof (induction ips arbitrary: b w conn pending taken)
  case (Cons ip ips)
  show ?case
  proof (cases "b = 0")
    case True
    then show ?thesis
      using assms [of "the conn" "message_bytes ip"]
      by (cases conn) (auto simp: checked_dec_def split: prod.splits tls_sent.splits)
  next
    case False
    then have d: "checked_dec True b = Returned (b - 1)" and "unat (b - 1) = unat b - 1"
      by (simp_all add: checked_dec_def unat_minus_one)
    moreover have "0 < unat b" using False by (simp add: unat_gt_0)
    ultimately have less: "unat (b - 1) < length ips" using Cons.prems by simp
    show ?thesis
      using assms [of "the conn" "message_bytes ip"] Cons.IH [OF less] d
      by (cases conn) (auto split: prod.splits tls_sent.splits)
  qed
qed simp

lemma tls_chunk_wraps:
  assumes "\<And>z m. snd (tls_send L z m) \<noteq> TlsSendFailed"
  shows "\<exists>w' conn' pending'. tls_send_chunk False L ips b w conn pending taken =
    Returned (b - of_nat (length ips), w', conn', pending', taken + length ips)"
proof (induction ips arbitrary: b w conn pending taken)
  case (Cons ip ips)
  have d: "checked_dec False b = Returned (b - 1)" by (simp add: checked_dec_def)
  have s: "b - 1 - of_nat (length ips) = b - of_nat (length (ip # ips))" by simp
  show ?case
    using assms [of "the conn" "message_bytes ip"] Cons.IH [of "b - 1" "w + 1" _ _ "taken + 1"] d
    by (cases conn) (auto simp: s [unfolded length_Cons] algebra_simps split: prod.splits tls_sent.splits)
qed simp

section \<open>A TLSClient without a connection\<close>

text \<open>
  After a connection is lost, or an attempt has failed, the client waits for another URL on CONF; its calls
  return before signals and the end of IN are looked at, and ask for no further call.
\<close>

lemma tls_client_deaf_without_connection:
  assumes "tc_conn c = None" and "tc_connect_result c = None" and "tc_pending_received c = []"
    and "pop R (tc_conf c) io = (io1, None)"
  shows "TLSClient_process R chk L fuel poll (c, io) ctx = Some (Returned ((c, io1), ctx, NoWork)) \<and> quiet io io1 \<and>
    (io_external io = [] \<longrightarrow> io_signals io1 = io_signals io \<and> io_answers io1 = io_answers io)"
proof -
  have f: "repeat_flush R (tc_out c) (budget_left ctx) 0 [] io = (budget_left ctx, 0, [], io)"
    by (cases "budget_left ctx") simp_all
  have w: "with_budget (budget_left ctx) ctx = ctx" by (simp add: with_budget_def budget_left_def)
  have u: "c\<lparr>tc_pending_received := []\<rparr> = c" using assms(3) by simp
  show ?thesis
    using assms(1,2,4) pop_logs [OF assms(4)]
    by (simp add: TLSClient_process_def assms(3) f w u tls_configure_def quiet_def)
      (auto simp: pop_def Let_def split: option.splits)
qed

end
