(* ===== verification/Component_Properties.thy ===== *)
theory Component_Properties
  imports Routing_Properties Text_Properties Counting_Properties Delay_Properties Pipelines
    Converter_Properties Query_Properties Cron_Properties File_Properties
    Net_Client_Properties Net_Server_Properties TLS_Properties
begin

text \<open>
  Properties all components share: the ports they declare are the ports they need, a turn under the
  scheduler sends no more packets than the budget of the node's class, and the channels stay queues.
\<close>

section \<open>Output\<close>

lemma print_packet_quiet: "quiet io (print_packet ip io)"
  by (simp add: print_packet_def split: option.split)

lemma output_loop_count:
  "output_loop R c b w p io = (st, b', w', p', io') \<Longrightarrow>
   b' \<le> b \<and> length (io_sent io') + b' \<le> length (io_sent io) + b"
proof (induction b arbitrary: w p io)
  case (Suc b)
  obtain io1 stop where s: "check_signals R output_text io = (io1, stop)" by fastforce
  obtain io2 got where g: "pop R (ou_inn c) io1 = (io2, got)" by fastforce
  note q = check_signals_quiet [OF s] pop_logs [OF g]
  show ?case
  proof (cases "stop \<or> got = None")
    case True
    with Suc.prems s g q show ?thesis by (auto simp: quiet_def split: bool.splits)
  next
    case False
    then obtain ip where ip: "\<not> stop" "got = Some ip" by auto
    obtain io3 ok where p: "push R ip (ou_out c) (print_packet ip io2) = (io3, ok)" by fastforce
    let ?p = "if ok then p else p @ [ip]"
    from Suc.prems s g ip p have "output_loop R c b (w + 1) ?p io3 = (st, b', w', p', io')" by (cases ok) simp_all
    from Suc.IH [OF this] q push_logs [OF p] print_packet_quiet [of io2 ip] show ?thesis
      by (auto simp: quiet_def split: if_splits)
  qed
qed simp

lemma output_process_count:
  assumes "output_process R (c, io) ctx = ((c', io'), ctx', r)"
  shows "sent_count (c', io') + budget_left ctx' \<le> sent_count (c, io) + budget_left ctx"
proof -
  obtain io1 stop where s: "check_signals R output_text io = (io1, stop)" by fastforce
  obtain b1 w1 p1 io2 where f: "repeat_flush R (ou_out c) (budget_left ctx) 0 (ou_pending_packets c) io1 = (b1, w1, p1, io2)"
    by (metis prod.exhaust)
  obtain st b2 w2 p2 io3 where l: "output_loop R c b1 w1 p1 io2 = (st, b2, w2, p2, io3)" by (metis prod.exhaust)
  obtain io4 ab where ab: "is_abandoned R (ou_inn c) io3 = (io4, ab)" by fastforce
  show ?thesis
  proof (cases stop)
    case True
    with assms s check_signals_quiet [OF s] show ?thesis by (auto simp: output_process_def sent_count_def quiet_def)
  next
    case False
    with assms s f l ab have "ctx' = with_budget b2 ctx" "io' = io3 \<or> io' = io4"
      by (auto simp: output_process_def Let_def split: if_splits)
    moreover from repeat_flush_logs [OF f] have "b1 \<le> budget_left ctx"
      "length (io_sent io2) + b1 = length (io_sent io1) + budget_left ctx" by auto
    ultimately show ?thesis
      using output_loop_count [OF l] check_signals_quiet [OF s] is_abandoned_quiet [OF ab]
        budget_left_with [of b2 ctx ctx]
      by (auto simp: sent_count_def quiet_def)
  qed
qed

interpretation output_turn: budgeted "output_process R"
  by unfold_locales (auto dest: output_process_count)

section \<open>Turns\<close>

definition turn_bounded :: "('s, 'q) node_process \<Rightarrow> bool" where
  "turn_bounded process \<longleftrightarrow>
     (\<forall>s ctx a s' ctx' out a'. execute_component (node_call process) s ctx a = Some (s', ctx', out, a') \<longrightarrow>
        sent_count s' \<le> sent_count s + unat (budget_of (budget_class ctx)))"

lemma turn_boundedI: "budgeted process \<Longrightarrow> turn_bounded process"
  by (auto simp: turn_bounded_def dest: budgeted.turn)

text \<open>
  C22. Whatever other threads do, one turn of \<open>Repeat\<close>, \<open>Drop\<close>, \<open>Muxer\<close>, \<open>Demux3\<close>, \<open>Equals\<close>, \<open>SplitLines\<close> or
  \<open>Output\<close> under the scheduler, however many calls of \<open>process()\<close> it makes, sends at most as many
  packets as the budget of the node's class: 32, 8 or 96.
\<close>

theorem turns_send_within_budget:
  "turn_bounded (repeat_process R) \<and> turn_bounded (drop_process R) \<and> turn_bounded (muxer_process R) \<and>
   turn_bounded (demux_process R) \<and> turn_bounded (equals_process R) \<and> turn_bounded (splitlines_process R) \<and>
   turn_bounded (output_process R)"
  by (intro conjI turn_boundedI repeat_turn.budgeted_axioms drop_turn.budgeted_axioms muxer_turn.budgeted_axioms
      demux_turn.budgeted_axioms equals_turn.budgeted_axioms splitlines_turn.budgeted_axioms
      output_turn.budgeted_axioms)

section \<open>Channels\<close>

















section \<open>Ports\<close>

text \<open>The ends a component is given: at least one for every port it declares.\<close>

definition connected :: "ComponentPort list \<Rightarrow> 'a multimap \<Rightarrow> bool" where
  "connected ps m \<longleftrightarrow> (\<forall>p \<in> set ps. \<exists>e es. m (port_name p) = Some (e # es))"

definition takes_declared_ports ::
    "ComponentComponentPayload \<Rightarrow> (nat multimap \<Rightarrow> ProcessEdgeSink multimap \<Rightarrow> 'c outcome) \<Rightarrow> bool" where
  "takes_declared_ports meta new \<longleftrightarrow>
     (\<forall>ins outs. connected (in_ports meta) ins \<and> connected (out_ports meta) outs \<longrightarrow> (\<exists>c. new ins outs = Returned c)) \<and>
     (\<forall>ins outs c. new ins outs = Returned c \<longrightarrow>
        (\<forall>p \<in> set (in_ports meta). ins (port_name p) \<noteq> None) \<and> (\<forall>p \<in> set (out_ports meta). outs (port_name p) \<noteq> None))"

lemma take_last_Returned:
  "take_last port msg m = Returned (m', e) \<longleftrightarrow> (\<exists>es. m port = Some es \<and> es \<noteq> [] \<and> e = last es \<and> m' = m(port := None))"
  by (auto simp: take_last_def neq_Nil_conv split: option.split list.split)

lemma take_array_Returned:
  "take_array port msg m = Returned (m', es) \<longleftrightarrow> m port = Some es \<and> m' = m(port := None)"
  by (auto simp: take_array_def split: option.split)

lemmas port_defs = takes_declared_ports_def connected_def metadata_default_def any_port_def default_in_def
  default_out_def outcome_bind_Returned take_last_Returned take_array_Returned

lemmas new_defs = Repeat_new_def Drop_new_def Muxer_new_def Demux3_new_def Equals_new_def GenericRouter_new_def
  SplitLines_new_def Trim_new_def TextReplace_new_def Output_new_def Count_new_def Delay_new_def Codec_new_def
  XzCompress_new_def XzDecompress_new_def BrotliCompress_new_def BrotliDecompress_new_def Hasher_new_def
  Sexp_new_def Vis_new_def Panic_new_def LibComponent_new_def Query_new_def RegexpExtract_new_def
  TeraTemplate_new_def HTMLStrip_new_def HTMLQuery_new_def JSONQuery_new_def Cron_new_def FileReader_new_def
  FileTailer_new_def FileWriter_new_def TCPClient_new_def WSClient_new_def Client_new_def
  UnixSocketClient_new_def TCPServer_new_def UnixSocketServer_new_def Server_new_def WSServer_new_def
  TLSClient_new_def TLSServer_new_def

lemmas metadata_defs = Repeat_metadata_def Drop_metadata_def Muxer_metadata_def Demux3_metadata_def
  Equals_metadata_def GenericRouter_metadata_def SplitLines_metadata_def Trim_metadata_def
  TextReplace_metadata_def Output_metadata_def Count_metadata_def Delay_metadata_def XzCompress_metadata_def
  XzDecompress_metadata_def BrotliCompress_metadata_def BrotliDecompress_metadata_def Hasher_metadata_def
  Sexp_metadata_def Vis_metadata_def Panic_metadata_def LibComponent_metadata_def RegexpExtract_metadata_def
  TeraTemplate_metadata_def HTMLStrip_metadata_def HTMLQuery_metadata_def JSONQuery_metadata_def
  Cron_metadata_def FileReader_metadata_def FileTailer_metadata_def FileWriter_metadata_def
  TCPClient_metadata_def WSClient_metadata_def UnixSocketClient_metadata_def TCPServer_metadata_def
  UnixSocketServer_metadata_def WSServer_metadata_def TLSClient_metadata_def TLSServer_metadata_def

text \<open>
  C36. The metadata of every component names the ports it takes: with at least one connection for each
  declared port its construction succeeds, and it succeeds only when every declared port is there, so a
  port left unconnected panics the start of the network.
\<close>

theorem components_take_their_declared_ports:
  "takes_declared_ports Repeat_metadata Repeat_new \<and> takes_declared_ports Drop_metadata Drop_new \<and>
   takes_declared_ports Muxer_metadata Muxer_new \<and> takes_declared_ports Demux3_metadata Demux3_new \<and>
   takes_declared_ports Equals_metadata Equals_new \<and>
   takes_declared_ports GenericRouter_metadata (GenericRouter_new :: _ \<Rightarrow> _ \<Rightarrow> 'r GenericRouterComponent outcome) \<and>
   takes_declared_ports SplitLines_metadata SplitLines_new \<and> takes_declared_ports Trim_metadata Trim_new \<and>
   takes_declared_ports TextReplace_metadata TextReplace_new \<and> takes_declared_ports Output_metadata Output_new \<and>
   takes_declared_ports Count_metadata Count_new \<and> takes_declared_ports Delay_metadata Delay_new \<and>
   takes_declared_ports XzCompress_metadata XzCompress_new \<and>
   takes_declared_ports XzDecompress_metadata XzDecompress_new \<and>
   takes_declared_ports BrotliCompress_metadata BrotliCompress_new \<and>
   takes_declared_ports BrotliDecompress_metadata BrotliDecompress_new \<and>
   takes_declared_ports Hasher_metadata Hasher_new \<and> takes_declared_ports Sexp_metadata Sexp_new \<and>
   takes_declared_ports Vis_metadata Vis_new \<and> takes_declared_ports Panic_metadata Panic_new \<and>
   takes_declared_ports LibComponent_metadata (LibComponent_new (Some (Some fn_process))) \<and>
   takes_declared_ports RegexpExtract_metadata (RegexpExtract_new :: _ \<Rightarrow> _ \<Rightarrow> 'f RegexpExtractComponent outcome) \<and>
   takes_declared_ports TeraTemplate_metadata (TeraTemplate_new :: _ \<Rightarrow> _ \<Rightarrow> 't TeraTemplateComponent outcome) \<and>
   takes_declared_ports HTMLStrip_metadata HTMLStrip_new \<and>
   takes_declared_ports HTMLQuery_metadata (HTMLQuery_new :: _ \<Rightarrow> _ \<Rightarrow> 'x HTMLQueryComponent outcome) \<and>
   takes_declared_ports JSONQuery_metadata (JSONQuery_new :: _ \<Rightarrow> _ \<Rightarrow> 'j JSONQueryComponent outcome) \<and>
   takes_declared_ports Cron_metadata (Cron_new :: _ \<Rightarrow> _ \<Rightarrow> 'i CronComponent outcome) \<and>
   takes_declared_ports FileReader_metadata FileReader_new \<and>
   takes_declared_ports FileTailer_metadata (FileTailer_new :: _ \<Rightarrow> _ \<Rightarrow> 'u FileTailerComponent outcome) \<and>
   takes_declared_ports FileWriter_metadata FileWriter_new \<and>
   takes_declared_ports TCPClient_metadata (TCPClient_new now :: _ \<Rightarrow> _ \<Rightarrow> 'a TCPClientComponent outcome) \<and>
   takes_declared_ports WSClient_metadata (WSClient_new now :: _ \<Rightarrow> _ \<Rightarrow> 's WSClientComponent outcome) \<and>
   takes_declared_ports UnixSocketClient_metadata
     (UnixSocketClient_new :: _ \<Rightarrow> _ \<Rightarrow> 's UnixSocketClientComponent outcome) \<and>
   takes_declared_ports TCPServer_metadata (TCPServer_new :: _ \<Rightarrow> _ \<Rightarrow> ('l, 's) TCPServerComponent outcome) \<and>
   takes_declared_ports UnixSocketServer_metadata
     (UnixSocketServer_new :: _ \<Rightarrow> _ \<Rightarrow> ('l, 's) UnixSocketServerComponent outcome) \<and>
   takes_declared_ports WSServer_metadata (WSServer_new :: _ \<Rightarrow> _ \<Rightarrow> ('l, 's) WSServerComponent outcome) \<and>
   takes_declared_ports TLSClient_metadata (TLSClient_new :: _ \<Rightarrow> _ \<Rightarrow> 'z TLSClientComponent outcome) \<and>
   takes_declared_ports TLSServer_metadata (TLSServer_new :: _ \<Rightarrow> _ \<Rightarrow> ('l, 'k, 'z) TLSServerComponent outcome)"
  by (intro conjI)
    (auto simp: port_defs new_defs metadata_defs)

end
